(* ===== verification/Prelude.thy ===== *)
theory Prelude
  imports Main "HOL-Library.Char_ord" "HOL-Library.List_Lexorder" "HOL-Library.Word"
begin

text \<open>
  What every component shares: Rust's \<open>Result\<close> as the sum type (\<open>Inl\<close> the error), the \<open>?\<close>
  operator, \<open>Option::ok_or\<close>, a loop that stops at the first error, and tables of rows
  addressed by a key (the shape of every SQL table the program reads and writes), with the
  rules the component proofs rewrite with.
\<close>

named_theorems result_simps \<open>rules for the error monad\<close>
named_theorems table_simps \<open>rules for keyed tables\<close>

section \<open>Results\<close>

text \<open>Rust's \<open>m?\<close> followed by the rest of the block.\<close>

definition and_then :: "'e + 'a \<Rightarrow> ('a \<Rightarrow> 'e + 'b) \<Rightarrow> 'e + 'b" where
  "and_then m k = (case m of Inl e \<Rightarrow> Inl e | Inr x \<Rightarrow> k x)"

lemma and_then_Inl [simp]: "and_then (Inl e) k = Inl e"
  by (simp add: and_then_def)

lemma and_then_Inr [simp]: "and_then (Inr x) k = k x"
  by (simp add: and_then_def)

lemma and_then_eq_Inr [result_simps]:
  "and_then m k = Inr y \<longleftrightarrow> (\<exists>x. m = Inr x \<and> k x = Inr y)"
  by (cases m) auto

lemma and_then_eq_Inl [result_simps]:
  "and_then m k = Inl e \<longleftrightarrow> m = Inl e \<or> (\<exists>x. m = Inr x \<and> k x = Inl e)"
  by (cases m) auto

lemma and_then_InrE:
  assumes "and_then m k = Inr y"
  obtains x where "m = Inr x" and "k x = Inr y"
  using assms by (auto simp: result_simps)

lemma and_then_assoc: "and_then (and_then m f) g = and_then m (\<lambda>x. and_then (f x) g)"
  by (cases m) auto

lemma and_then_cong [fundef_cong]:
  "m = m' \<Longrightarrow> (\<And>x. m' = Inr x \<Longrightarrow> k x = k' x) \<Longrightarrow> and_then m k = and_then m' k'"
  by (cases m') auto

text \<open>\<open>map_err\<close>, \<open>Option::ok_or\<close>, and an early return under a condition.\<close>

definition map_err :: "('e \<Rightarrow> 'f) \<Rightarrow> 'e + 'a \<Rightarrow> 'f + 'a" where
  "map_err f m = (case m of Inl e \<Rightarrow> Inl (f e) | Inr x \<Rightarrow> Inr x)"

lemma map_err_simps [simp]: "map_err f (Inl e) = Inl (f e)" "map_err f (Inr x) = Inr x"
  by (simp_all add: map_err_def)

lemma map_err_eq_Inr [result_simps]: "map_err f m = Inr x \<longleftrightarrow> m = Inr x"
  by (cases m) auto

lemma map_err_eq_Inl [result_simps]: "map_err f m = Inl e \<longleftrightarrow> (\<exists>e'. m = Inl e' \<and> e = f e')"
  by (cases m) auto

definition ok_or :: "'a option \<Rightarrow> 'e \<Rightarrow> 'e + 'a" where
  "ok_or x e = (case x of None \<Rightarrow> Inl e | Some v \<Rightarrow> Inr v)"

lemma ok_or_simps [simp]: "ok_or None e = Inl e" "ok_or (Some v) e = Inr v"
  by (simp_all add: ok_or_def)

lemma ok_or_eq_Inr [result_simps]: "ok_or x e = Inr v \<longleftrightarrow> x = Some v"
  by (cases x) auto

lemma ok_or_eq_Inl [result_simps]: "ok_or x e = Inl e' \<longleftrightarrow> x = None \<and> e' = e"
  by (cases x) auto

definition fail_if :: "bool \<Rightarrow> 'e \<Rightarrow> 'e + unit" where
  "fail_if b e = (if b then Inl e else Inr ())"

lemma fail_if_simps [simp]: "fail_if True e = Inl e" "fail_if False e = Inr ()"
  by (simp_all add: fail_if_def)

lemma fail_if_eq_Inr [result_simps]: "fail_if b e = Inr u \<longleftrightarrow> \<not> b"
  by (cases b) auto

lemma fail_if_eq_Inl [result_simps]: "fail_if b e = Inl e' \<longleftrightarrow> b \<and> e' = e"
  by (cases b) auto

text \<open>A \<open>for\<close> loop whose body threads a state and may return early with \<open>?\<close>.\<close>

primrec try_fold :: "('a \<Rightarrow> 's \<Rightarrow> 'e + 's) \<Rightarrow> 'a list \<Rightarrow> 's \<Rightarrow> 'e + 's" where
  "try_fold f [] s = Inr s"
| "try_fold f (x # xs) s = and_then (f x s) (try_fold f xs)"

lemma try_fold_append:
  "try_fold f (xs @ ys) s = and_then (try_fold f xs s) (try_fold f ys)"
  by (induction xs arbitrary: s) (auto simp: and_then_assoc cong: and_then_cong)

lemma try_fold_invariant:
  assumes "try_fold f xs s = Inr t" and "P s"
    and "\<And>x s s'. x \<in> set xs \<Longrightarrow> P s \<Longrightarrow> f x s = Inr s' \<Longrightarrow> P s'"
  shows "P t"
  using assms by (induction xs arbitrary: s) (auto simp: result_simps)

lemma try_fold_total:
  assumes "\<And>x s. x \<in> set xs \<Longrightarrow> P s \<Longrightarrow> \<exists>s'. f x s = Inr s' \<and> P s'" and "P s"
  shows "\<exists>t. try_fold f xs s = Inr t \<and> P t"
  using assms
proof (induction xs arbitrary: s)
  case (Cons x xs)
  then obtain s' where "f x s = Inr s'" "P s'" by fastforce
  with Cons show ?case by auto
qed simp

section \<open>Keyed tables\<close>

text \<open>
  A table is the list of its rows in insertion order. \<open>lookup_row\<close> is
  \<open>SELECT ... WHERE key = k\<close>, \<open>update_rows\<close> is \<open>UPDATE ... WHERE key = k\<close>, \<open>upsert_row\<close> is
  \<open>INSERT ... ON CONFLICT(key) DO UPDATE\<close> and \<open>delete_rows\<close> is \<open>DELETE ... WHERE p\<close>.
\<close>

definition lookup_row :: "('r \<Rightarrow> 'k) \<Rightarrow> 'r list \<Rightarrow> 'k \<Rightarrow> 'r option" where
  "lookup_row key t k = find (\<lambda>r. key r = k) t"

definition update_rows :: "('r \<Rightarrow> 'k) \<Rightarrow> 'k \<Rightarrow> ('r \<Rightarrow> 'r) \<Rightarrow> 'r list \<Rightarrow> 'r list" where
  "update_rows key k f t = map (\<lambda>r. if key r = k then f r else r) t"

definition upsert_row :: "('r \<Rightarrow> 'k) \<Rightarrow> 'r \<Rightarrow> 'r list \<Rightarrow> 'r list" where
  "upsert_row key r t =
     (if lookup_row key t (key r) = None then t @ [r]
      else update_rows key (key r) (\<lambda>_. r) t)"

definition delete_rows :: "('r \<Rightarrow> bool) \<Rightarrow> 'r list \<Rightarrow> 'r list" where
  "delete_rows p t = filter (\<lambda>r. \<not> p r) t"

text \<open>The primary key constraint.\<close>

definition pk :: "('r \<Rightarrow> 'k) \<Rightarrow> 'r list \<Rightarrow> bool" where
  "pk key t = distinct (map key t)"

lemma lookup_row_Nil [simp]: "lookup_row key [] k = None"
  by (simp add: lookup_row_def)

lemma lookup_row_Cons [simp]:
  "lookup_row key (r # t) k = (if key r = k then Some r else lookup_row key t k)"
  by (simp add: lookup_row_def)

lemma lookup_row_None: "lookup_row key t k = None \<longleftrightarrow> k \<notin> key ` set t"
  by (induction t) auto

lemma lookup_row_SomeD: "lookup_row key t k = Some r \<Longrightarrow> r \<in> set t \<and> key r = k"
  by (induction t) (auto split: if_splits)

lemma lookup_row_key: "lookup_row key t k = Some r \<Longrightarrow> key r = k"
  by (rule lookup_row_SomeD [THEN conjunct2])

lemma lookup_row_pk: "pk key t \<Longrightarrow> r \<in> set t \<Longrightarrow> lookup_row key t (key r) = Some r"
  by (induction t) (auto simp: pk_def)

lemma lookup_row_append [table_simps]:
  "lookup_row key (t @ u) k =
     (case lookup_row key t k of None \<Rightarrow> lookup_row key u k | Some r \<Rightarrow> Some r)"
  by (induction t) auto

lemma lookup_row_update [table_simps]:
  assumes "\<And>r. key (f r) = key r"
  shows "lookup_row key (update_rows key k f t) k' =
           (if k' = k then map_option f (lookup_row key t k) else lookup_row key t k')"
  by (induction t) (auto simp: update_rows_def assms)

lemma map_key_update [table_simps]:
  "(\<And>r. key (f r) = key r) \<Longrightarrow> map key (update_rows key k f t) = map key t"
  by (simp add: update_rows_def)

lemma map_other_key: "(\<And>r. key (f r) = key r) \<Longrightarrow> map key (update_rows key' k f t) = map key t"
  by (simp add: update_rows_def o_def if_distrib [of key] cong: if_cong)

lemma keys_update: "(\<And>r. key (f r) = key r) \<Longrightarrow> key ` set (update_rows key k f t) = key ` set t"
  by (simp add: map_key_update flip: set_map)

lemma lookup_row_map_rows:
  "(\<And>r. key (g r) = key r) \<Longrightarrow> lookup_row key (map g t) k = map_option g (lookup_row key t k)"
  by (induction t) auto

lemma length_update_rows [simp]: "length (update_rows key k f t) = length t"
  by (simp add: update_rows_def)

lemma set_update_rows:
  "set (update_rows key k f t) = {r \<in> set t. key r \<noteq> k} \<union> f ` {r \<in> set t. key r = k}"
  by (auto simp: update_rows_def)

lemma update_rows_absent: "k \<notin> key ` set t \<Longrightarrow> update_rows key k f t = t"
  by (induction t) (auto simp: update_rows_def)

lemma pk_update [table_simps]: "(\<And>r. key (f r) = key r) \<Longrightarrow> pk key (update_rows key k f t) = pk key t"
  by (simp add: pk_def table_simps)

lemma pk_append_one [table_simps]: "pk key (t @ [r]) \<longleftrightarrow> pk key t \<and> lookup_row key t (key r) = None"
  by (auto simp: pk_def lookup_row_None)

lemma pk_delete: "pk key t \<Longrightarrow> pk key (delete_rows p t)"
  by (simp add: pk_def delete_rows_def distinct_map_filter)

lemma lookup_row_delete:
  assumes "pk key t"
  shows "lookup_row key (delete_rows p t) k =
           (case lookup_row key t k of None \<Rightarrow> None | Some r \<Rightarrow> if p r then None else Some r)"
  using assms
proof (induction t)
  case (Cons a t)
  then have "lookup_row key t (key a) = None" by (simp add: pk_def lookup_row_None)
  with Cons show ?case
    by (cases "key a = k") (auto simp: pk_def delete_rows_def)
qed (simp add: delete_rows_def)

text \<open>
  A table restricted to an upsert: what the code's four materialised tables share. The laws
  are those of a finite map; the client lemma says a loop of upserts is the map override
  by the last row of each key.
\<close>

lemma update_rows_const:
  assumes "pk key t" and "lookup_row key t (key r) \<noteq> None"
  shows "map key (update_rows key (key r) (\<lambda>_. r) t) = map key t"
  by (auto simp: update_rows_def)

lemma lookup_row_upsert [table_simps]:
  "lookup_row key (upsert_row key r t) k = (if k = key r then Some r else lookup_row key t k)"
proof (cases "lookup_row key t (key r)")
  case None
  then show ?thesis by (cases "lookup_row key t k") (auto simp: upsert_row_def table_simps)
next
  case (Some old)
  have "lookup_row key (update_rows key (key r) (\<lambda>_. r) u) k =
    (if k = key r then map_option (\<lambda>_. r) (lookup_row key u k) else lookup_row key u k)" for u
    by (induction u) (auto simp: update_rows_def)
  with Some show ?thesis by (simp add: upsert_row_def)
qed

lemma map_key_upsert:
  "map key (upsert_row key r t) =
     (if key r \<in> key ` set t then map key t else map key t @ [key r])"
  by (auto simp: upsert_row_def lookup_row_None update_rows_def)

lemma pk_upsert [table_simps]: "pk key (upsert_row key r t) = pk key t"
  by (auto simp: pk_def map_key_upsert)

lemma keys_upsert [table_simps]: "key ` set (upsert_row key r t) = insert (key r) (key ` set t)"
proof -
  have "key ` set (upsert_row key r t) = set (map key (upsert_row key r t))" by simp
  then show ?thesis by (auto simp: map_key_upsert)
qed

end
