(* ===== verification/RustStr.thy ===== *)
theory RustStr
  imports Prelude
begin

text \<open>
  The part of Rust's \<open>str\<close> and integer parsing that the program uses. A Rust \<open>String\<close> is a
  vector of UTF-8 bytes, and so is \<open>string\<close> here: one \<open>char\<close> per byte, \<open>length\<close> is
  \<open>str::len\<close>, and the order of \<open>List_Lexorder\<close> over \<open>Char_ord\<close> is \<open>str\<close>'s bytewise \<open>Ord\<close>.
  \<open>str_chars\<close> is \<open>str::chars\<close>, each scalar value as the bytes that encode it, so that
  \<open>chars().count()\<close>, \<open>chars().take(n)\<close>, \<open>trim\<close> and \<open>split_whitespace\<close> work on characters
  and not on bytes. The case tables of \<open>to_lowercase\<close> are not written out: the models that
  use them take the function as a parameter.
\<close>

section \<open>Characters of a UTF-8 string\<close>

definition byte :: "char \<Rightarrow> nat" where
  "byte c = of_char c"

definition is_cont :: "char \<Rightarrow> bool" where
  "is_cont c \<longleftrightarrow> 128 \<le> byte c \<and> byte c < 192"

function str_chars :: "string \<Rightarrow> string list" where
  "str_chars [] = []"
| "str_chars (c # cs) = (c # takeWhile is_cont cs) # str_chars (dropWhile is_cont cs)"
  by pat_completeness auto
termination
  by (relation "measure length") (auto simp: le_imp_less_Suc length_dropWhile_le)

definition chars_count :: "string \<Rightarrow> nat" where
  "chars_count s = length (str_chars s)"

definition chars_take :: "nat \<Rightarrow> string \<Rightarrow> string" where
  "chars_take n s = concat (take n (str_chars s))"

lemma concat_str_chars [simp]: "concat (str_chars s) = s"
  by (induction s rule: str_chars.induct) auto

lemma str_chars_eq_Nil [simp]: "str_chars s = [] \<longleftrightarrow> s = []"
  by (cases s) auto

text \<open>A list of chunks that is the \<open>str_chars\<close> of its concatenation.\<close>

definition wf_chunks :: "string list \<Rightarrow> bool" where
  "wf_chunks cs \<longleftrightarrow> (\<forall>c\<in>set cs. c \<noteq> [] \<and> (\<forall>x\<in>set (tl c). is_cont x)) \<and>
     (\<forall>c\<in>set (tl cs). \<not> is_cont (hd c))"

lemma wf_chunks_Cons:
  "wf_chunks (c # cs) \<longleftrightarrow> c \<noteq> [] \<and> (\<forall>x\<in>set (tl c). is_cont x) \<and>
     wf_chunks cs \<and> (\<forall>d\<in>set cs. \<not> is_cont (hd d))"
  by (cases cs) (auto simp: wf_chunks_def)

lemma wf_chunks_Nil [simp]: "wf_chunks []"
  by (simp add: wf_chunks_def)

lemma str_chars_tail_starts:
  "d \<in> set (str_chars s) \<Longrightarrow> s \<noteq> [] \<longrightarrow> \<not> is_cont (hd s) \<Longrightarrow> d \<noteq> [] \<and> \<not> is_cont (hd d)"
proof (induction s arbitrary: d rule: str_chars.induct)
  case (2 c cs)
  have "dropWhile is_cont cs \<noteq> [] \<longrightarrow> \<not> is_cont (hd (dropWhile is_cont cs))"
    using hd_dropWhile by blast
  with 2 show ?case by auto
qed simp

lemma wf_str_chars [simp]: "wf_chunks (str_chars s)"
proof (induction s rule: str_chars.induct)
  case (2 c cs)
  have start: "dropWhile is_cont cs \<noteq> [] \<longrightarrow> \<not> is_cont (hd (dropWhile is_cont cs))"
    using hd_dropWhile by blast
  show ?case
    using 2 str_chars_tail_starts [OF _ start]
    by (auto simp: wf_chunks_Cons dest: set_takeWhileD)
qed simp

lemma takeWhile_cont_concat:
  assumes "\<forall>x\<in>set t. is_cont x" and "\<forall>d\<in>set cs. d \<noteq> [] \<and> \<not> is_cont (hd d)"
  shows "takeWhile is_cont (t @ concat cs) = t" and "dropWhile is_cont (t @ concat cs) = concat cs"
proof -
  have "takeWhile is_cont (concat cs) = []" "dropWhile is_cont (concat cs) = concat cs"
    using assms(2) by (cases cs; cases "concat cs"; auto simp: neq_Nil_conv; fastforce)+
  with assms(1) show "takeWhile is_cont (t @ concat cs) = t"
    "dropWhile is_cont (t @ concat cs) = concat cs"
    by (simp_all add: takeWhile_append2 dropWhile_append2)
qed

lemma str_chars_concat: "wf_chunks cs \<Longrightarrow> str_chars (concat cs) = cs"
proof (induction cs)
  case (Cons c cs)
  then obtain h t where c: "c = h # t" by (auto simp: wf_chunks_Cons neq_Nil_conv)
  with Cons.prems have "\<forall>x\<in>set t. is_cont x" "\<forall>d\<in>set cs. d \<noteq> [] \<and> \<not> is_cont (hd d)"
    by (auto simp: wf_chunks_Cons) (auto simp: wf_chunks_def)
  from takeWhile_cont_concat [OF this] Cons show ?case
    by (simp add: c wf_chunks_Cons)
qed simp

lemma wf_chunks_sub:
  assumes "wf_chunks cs" and "\<exists>us vs. cs = us @ ds @ vs"
  shows "wf_chunks ds"
proof -
  from assms(2) obtain us vs where "cs = us @ ds @ vs" by blast
  with assms(1) show ?thesis
    by (cases us; cases ds) (auto simp: wf_chunks_def)
qed

lemma chars_count_take [simp]: "chars_count (chars_take n s) = min n (chars_count s)"
proof -
  have "wf_chunks (take n (str_chars s))"
    by (rule wf_chunks_sub [OF wf_str_chars [of s]])
      (metis append_Nil append_take_drop_id)
  then show ?thesis by (simp add: chars_count_def chars_take_def str_chars_concat)
qed

lemma chars_take_all: "chars_count s \<le> n \<Longrightarrow> chars_take n s = s"
  by (simp add: chars_take_def chars_count_def)

lemma chars_count_le_length: "chars_count s \<le> length s"
proof -
  have "length (str_chars s) \<le> length s"
  proof (induction s rule: str_chars.induct)
    case (2 c cs)
    then show ?case using length_dropWhile_le [of is_cont cs] by simp
  qed simp
  then show ?thesis by (simp add: chars_count_def)
qed

section \<open>White space\<close>

text \<open>\<open>char::is_whitespace\<close>: the 25 scalar values of Unicode's \<open>White_Space\<close>.\<close>

definition ws_chars :: "string list" where
  "ws_chars =
     [[CHR 0x09], [CHR 0x0A], [CHR 0x0B], [CHR 0x0C], [CHR 0x0D], [CHR 0x20],
      [CHR 0xC2, CHR 0x85], [CHR 0xC2, CHR 0xA0], [CHR 0xE1, CHR 0x9A, CHR 0x80],
      [CHR 0xE2, CHR 0x80, CHR 0x80], [CHR 0xE2, CHR 0x80, CHR 0x81],
      [CHR 0xE2, CHR 0x80, CHR 0x82], [CHR 0xE2, CHR 0x80, CHR 0x83],
      [CHR 0xE2, CHR 0x80, CHR 0x84], [CHR 0xE2, CHR 0x80, CHR 0x85],
      [CHR 0xE2, CHR 0x80, CHR 0x86], [CHR 0xE2, CHR 0x80, CHR 0x87],
      [CHR 0xE2, CHR 0x80, CHR 0x88], [CHR 0xE2, CHR 0x80, CHR 0x89],
      [CHR 0xE2, CHR 0x80, CHR 0x8A], [CHR 0xE2, CHR 0x80, CHR 0xA8],
      [CHR 0xE2, CHR 0x80, CHR 0xA9], [CHR 0xE2, CHR 0x80, CHR 0xAF],
      [CHR 0xE2, CHR 0x81, CHR 0x9F], [CHR 0xE3, CHR 0x80, CHR 0x80]]"

definition is_whitespace :: "string \<Rightarrow> bool" where
  "is_whitespace c \<longleftrightarrow> c \<in> set ws_chars"

definition trim_chunks :: "string list \<Rightarrow> string list" where
  "trim_chunks cs = rev (dropWhile is_whitespace (rev (dropWhile is_whitespace cs)))"

definition trim :: "string \<Rightarrow> string" where
  "trim s = concat (trim_chunks (str_chars s))"

lemma trim_chunks_infix: "\<exists>us vs. cs = us @ trim_chunks cs @ vs"
proof -
  let ?d = "dropWhile is_whitespace cs"
  have "cs = takeWhile is_whitespace cs @ ?d" by simp
  moreover have "?d = trim_chunks cs @ rev (takeWhile is_whitespace (rev ?d))"
    unfolding trim_chunks_def
    by (metis rev_append rev_rev_ident takeWhile_dropWhile_id)
  ultimately show ?thesis by metis
qed

lemma str_chars_trim: "str_chars (trim s) = trim_chunks (str_chars s)"
  unfolding trim_def
  by (rule str_chars_concat, rule wf_chunks_sub [OF wf_str_chars [of s]], rule trim_chunks_infix)

lemma dropWhile_idem: "dropWhile p (dropWhile p xs) = dropWhile p xs"
  by (induction xs) auto

lemma dropWhile_rev_trim:
  "dropWhile p (rev (dropWhile p (rev (dropWhile p xs)))) = rev (dropWhile p (rev (dropWhile p xs)))"
proof (cases "dropWhile p xs")
  case (Cons y ys)
  then have "\<not> p y" by (metis hd_dropWhile list.distinct(1) list.sel(1))
  moreover from this have "dropWhile p (rev ys @ [y]) = dropWhile p (rev ys) @ [y]"
    by (simp add: dropWhile_append3)
  ultimately show ?thesis using Cons by simp
next
  case Nil
  show ?thesis by (simp only: Nil) simp
qed

lemma trim_chunks_idem: "trim_chunks (trim_chunks cs) = trim_chunks cs"
  unfolding trim_chunks_def by (simp add: dropWhile_rev_trim dropWhile_idem)

lemma trim_idem [simp]: "trim (trim s) = trim s"
  by (simp add: trim_def [of "trim s"] str_chars_trim trim_chunks_idem) (simp add: trim_def)

lemma chars_count_trim: "chars_count (trim s) \<le> chars_count s"
proof -
  obtain us vs where "str_chars s = us @ trim_chunks (str_chars s) @ vs"
    using trim_chunks_infix by blast
  then have "length (str_chars s) = length us + length (trim_chunks (str_chars s)) + length vs"
    by (metis add.assoc length_append)
  then show ?thesis by (simp add: chars_count_def str_chars_trim)
qed

text \<open>\<open>str::split_whitespace\<close>, \<open>[String]::join\<close>, and replacing three ASCII controls.\<close>

fun split_ws :: "string list \<Rightarrow> string \<Rightarrow> string list" where
  "split_ws [] cur = (if cur = [] then [] else [cur])"
| "split_ws (c # cs) cur =
     (if is_whitespace c then (if cur = [] then split_ws cs [] else cur # split_ws cs [])
      else split_ws cs (cur @ c))"

definition split_whitespace :: "string \<Rightarrow> string list" where
  "split_whitespace s = split_ws (str_chars s) []"

fun join :: "string \<Rightarrow> string list \<Rightarrow> string" where
  "join sep [] = []"
| "join sep [x] = x"
| "join sep (x # y # xs) = x @ sep @ join sep (y # xs)"

definition controls_to_space :: "string \<Rightarrow> string" where
  "controls_to_space s =
     map (\<lambda>c. if c = CHR 0x0D \<or> c = CHR 0x0A \<or> c = CHR 0x09 then CHR 0x20 else c) s"

fun crlf_to_lf :: "string \<Rightarrow> string" where
  "crlf_to_lf [] = []"
| "crlf_to_lf [c] = [c]"
| "crlf_to_lf (a # b # s) =
     (if a = CHR 0x0D \<and> b = CHR 0x0A then CHR 0x0A # crlf_to_lf s
      else a # crlf_to_lf (b # s))"

section \<open>Searching, splitting and ASCII case\<close>

definition starts_with :: "string \<Rightarrow> string \<Rightarrow> bool" where
  "starts_with s p \<longleftrightarrow> take (length p) s = p"

definition ends_with :: "string \<Rightarrow> string \<Rightarrow> bool" where
  "ends_with s p \<longleftrightarrow> length p \<le> length s \<and> drop (length s - length p) s = p"

fun contains :: "string \<Rightarrow> string \<Rightarrow> bool" where
  "contains [] p = (p = [])"
| "contains (c # s) p = (starts_with (c # s) p \<or> contains s p)"

definition strip_prefix :: "string \<Rightarrow> string \<Rightarrow> string option" where
  "strip_prefix p s = (if starts_with s p then Some (drop (length p) s) else None)"

text \<open>\<open>str::split\<close> on one ASCII character: always at least one piece.\<close>

fun split_on :: "char \<Rightarrow> string \<Rightarrow> string list" where
  "split_on d [] = [[]]"
| "split_on d (c # s) =
     (if c = d then [] # split_on d s
      else (case split_on d s of [] \<Rightarrow> [[c]] | p # ps \<Rightarrow> (c # p) # ps))"

definition is_ascii_digit :: "char \<Rightarrow> bool" where
  "is_ascii_digit c \<longleftrightarrow> 48 \<le> byte c \<and> byte c \<le> 57"

definition is_ascii_upper :: "char \<Rightarrow> bool" where
  "is_ascii_upper c \<longleftrightarrow> 65 \<le> byte c \<and> byte c \<le> 90"

definition is_ascii_lower :: "char \<Rightarrow> bool" where
  "is_ascii_lower c \<longleftrightarrow> 97 \<le> byte c \<and> byte c \<le> 122"

definition is_ascii_alphanumeric :: "char \<Rightarrow> bool" where
  "is_ascii_alphanumeric c \<longleftrightarrow> is_ascii_digit c \<or> is_ascii_upper c \<or> is_ascii_lower c"

definition ascii_lower_char :: "char \<Rightarrow> char" where
  "ascii_lower_char c = (if is_ascii_upper c then char_of (byte c + 32) else c)"

definition to_ascii_lowercase :: "string \<Rightarrow> string" where
  "to_ascii_lowercase s = map ascii_lower_char s"

lemma split_on_not_Nil [simp]: "split_on d s \<noteq> []"
  by (cases s) (auto split: list.splits)

lemma split_on_pieces: "p \<in> set (split_on d s) \<Longrightarrow> d \<notin> set p"
  by (induction s arbitrary: p) (auto split: if_splits list.splits)

lemma join_split_on: "join [d] (split_on d s) = s"
proof (induction s)
  case (Cons c s)
  obtain p ps where split: "split_on d s = p # ps" by (meson split_on_not_Nil neq_Nil_conv)
  with Cons show ?case by (cases ps) auto
qed simp

lemma split_on_append:
  "d \<notin> set p \<Longrightarrow> split_on d (p @ d # s) = p # split_on d s"
  by (induction p) auto

lemma split_on_no_sep: "d \<notin> set p \<Longrightarrow> split_on d p = [p]"
  by (induction p) auto

lemma byte_char_of [simp]: "n < 256 \<Longrightarrow> byte (char_of n) = n"
  by (simp add: byte_def)

lemma ascii_lower_char_idem [simp]: "ascii_lower_char (ascii_lower_char c) = ascii_lower_char c"
  by (auto simp: ascii_lower_char_def is_ascii_upper_def)

lemma to_ascii_lowercase_idem [simp]: "to_ascii_lowercase (to_ascii_lowercase s) = to_ascii_lowercase s"
  by (simp add: to_ascii_lowercase_def)

lemma length_to_ascii_lowercase [simp]: "length (to_ascii_lowercase s) = length s"
  by (simp add: to_ascii_lowercase_def)

section \<open>Integers in text\<close>

definition I64_MAX :: int where
  "I64_MAX = 9223372036854775807"

definition I64_MIN :: int where
  "I64_MIN = - 9223372036854775808"

definition U64_MAX :: nat where
  "U64_MAX = 18446744073709551615"

definition digit_val :: "char \<Rightarrow> nat" where
  "digit_val c = byte c - 48"

definition parse_digits :: "string \<Rightarrow> nat option" where
  "parse_digits s =
     (if s = [] \<or> \<not> list_all is_ascii_digit s then None
      else Some (foldl (\<lambda>a c. a * 10 + digit_val c) 0 s))"

text \<open>\<open>str::parse::<i64>\<close>: an optional sign, decimal digits, and no overflow.\<close>

definition in_i64 :: "int \<Rightarrow> int option" where
  "in_i64 n = (if I64_MIN \<le> n \<and> n \<le> I64_MAX then Some n else None)"

definition parse_i64 :: "string \<Rightarrow> int option" where
  "parse_i64 s =
     (case s of
        [] \<Rightarrow> None
      | c # cs \<Rightarrow>
          if c = CHR ''+'' then Option.bind (parse_digits cs) (\<lambda>n. in_i64 (int n))
          else if c = CHR ''-'' then Option.bind (parse_digits cs) (\<lambda>n. in_i64 (- int n))
          else Option.bind (parse_digits s) (\<lambda>n. in_i64 (int n)))"

text \<open>\<open>Display\<close> of integers.\<close>

definition digit_char :: "nat \<Rightarrow> char" where
  "digit_char n = char_of (48 + n)"

fun show_nat :: "nat \<Rightarrow> string" where
  "show_nat n = (if n < 10 then [digit_char n] else show_nat (n div 10) @ [digit_char (n mod 10)])"

declare show_nat.simps [simp del]

definition show_int :: "int \<Rightarrow> string" where
  "show_int n = (if n < 0 then CHR ''-'' # show_nat (nat (- n)) else show_nat (nat n))"

lemma digit_char_digit: "n < 10 \<Longrightarrow> is_ascii_digit (digit_char n) \<and> digit_val (digit_char n) = n"
  by (simp add: digit_char_def is_ascii_digit_def digit_val_def)

lemma show_nat_digits: "show_nat n \<noteq> [] \<and> list_all is_ascii_digit (show_nat n)"
proof (induction n rule: show_nat.induct)
  case (1 n)
  then show ?case
    by (subst (1 2) show_nat.simps) (simp add: digit_char_digit)
qed

lemma parse_digits_show_nat [simp]: "parse_digits (show_nat n) = Some n"
proof -
  have "foldl (\<lambda>a c. a * 10 + digit_val c) 0 (show_nat n) = n"
  proof (induction n rule: show_nat.induct)
    case (1 n)
    show ?case
    proof (cases "n < 10")
      case True
      then show ?thesis by (subst show_nat.simps) (simp add: digit_char_digit)
    next
      case False
      with 1 show ?thesis by (subst show_nat.simps) (simp add: digit_char_digit)
    qed
  qed
  then show ?thesis using show_nat_digits [of n] by (simp add: parse_digits_def)
qed

lemma show_nat_first:
  obtains c cs where "show_nat n = c # cs" and "c \<noteq> CHR ''+''" and "c \<noteq> CHR ''-''"
proof -
  from show_nat_digits [of n] obtain c cs where s: "show_nat n = c # cs"
    by (auto simp: neq_Nil_conv)
  with show_nat_digits [of n] have "is_ascii_digit c" by simp
  then have "c \<noteq> CHR ''+''" "c \<noteq> CHR ''-''" by (auto simp: is_ascii_digit_def byte_def)
  with s that show ?thesis by blast
qed

lemma parse_i64_show_int:
  assumes "I64_MIN \<le> n" and "n \<le> I64_MAX"
  shows "parse_i64 (show_int n) = Some n"
proof (cases "n < 0")
  case True
  with assms show ?thesis by (simp add: show_int_def parse_i64_def in_i64_def)
next
  case False
  obtain c cs where "show_nat (nat n) = c # cs" "c \<noteq> CHR ''+''" "c \<noteq> CHR ''-''"
    by (rule show_nat_first)
  moreover from this have "parse_digits (c # cs) = Some (nat n)"
    using parse_digits_show_nat [of "nat n"] by simp
  ultimately show ?thesis using assms False by (simp add: show_int_def parse_i64_def in_i64_def)
qed

end
