(* ===== verification/Json.thy ===== *)
theory Json
  imports RustStr
begin

text \<open>
  \<open>serde_json::Value\<close> as both crates use it (without the \<open>preserve_order\<close> feature, so an
  object is a \<open>BTreeMap\<close>: an association list kept sorted by the keys' bytes). Numbers are
  an integer or the text of a float; \<open>json_to_string\<close> is \<open>Value::to_string\<close>, the compact
  form with serde's escapes. \<open>string_map\<close> is the interface of a map from strings that the
  shadow merge and the key-value table rely on.
\<close>

datatype jnum = JInt int | JFloat string

datatype json =
    JNull
  | JBool bool
  | JNum jnum
  | JStr string
  | JArr "json list"
  | JObj "(string \<times> json) list"

type_synonym jmap = "(string \<times> json) list"

section \<open>Objects\<close>

definition jget :: "(string \<times> 'v) list \<Rightarrow> string \<Rightarrow> 'v option" where
  "jget m k = map_of m k"

fun jput :: "string \<Rightarrow> 'v \<Rightarrow> (string \<times> 'v) list \<Rightarrow> (string \<times> 'v) list" where
  "jput k v [] = [(k, v)]"
| "jput k v ((k', v') # m) =
     (if k < k' then (k, v) # (k', v') # m
      else if k = k' then (k, v) # m
      else (k', v') # jput k v m)"

text \<open>The \<open>json!\<close> macro: the pairs inserted from left to right.\<close>

definition jobj :: "(string \<times> json) list \<Rightarrow> json" where
  "jobj ps = JObj (fold (\<lambda>(k, v). jput k v) ps [])"

fun as_object :: "json \<Rightarrow> jmap option" where
  "as_object (JObj m) = Some m"
| "as_object _ = None"

fun as_str :: "json \<Rightarrow> string option" where
  "as_str (JStr s) = Some s"
| "as_str _ = None"

fun as_bool :: "json \<Rightarrow> bool option" where
  "as_bool (JBool b) = Some b"
| "as_bool _ = None"

fun as_array :: "json \<Rightarrow> json list option" where
  "as_array (JArr xs) = Some xs"
| "as_array _ = None"

definition is_object :: "json \<Rightarrow> bool" where
  "is_object v \<longleftrightarrow> as_object v \<noteq> None"

lemma is_object_JObj [simp]: "is_object (JObj m)"
  by (simp add: is_object_def)

definition jkeys :: "(string \<times> 'v) list \<Rightarrow> string list" where
  "jkeys m = map fst m"

definition jsorted :: "(string \<times> 'v) list \<Rightarrow> bool" where
  "jsorted m = sorted_wrt (<) (jkeys m)"

lemma jget_Nil [simp]: "jget [] k = None"
  by (simp add: jget_def)

lemma jget_jput [simp]: "jget (jput k v m) k' = (if k' = k then Some v else jget m k')"
  by (induction k v m rule: jput.induct) (auto simp: jget_def)

lemma keys_jput: "set (jkeys (jput k v m)) = insert k (set (jkeys m))"
  by (induction k v m rule: jput.induct) (auto simp: jkeys_def)

lemma jsorted_jput: "jsorted m \<Longrightarrow> jsorted (jput k v m)"
proof (induction k v m rule: jput.induct)
  case (2 k v k' v' m)
  then show ?case
    using keys_jput [of k v m] by (auto simp: jsorted_def jkeys_def)
qed (simp add: jsorted_def jkeys_def)

lemma jget_Some_keys: "jget m k \<noteq> None \<longleftrightarrow> k \<in> set (jkeys m)"
proof -
  have "map_of m k = None \<longleftrightarrow> k \<notin> fst ` set m" by (rule map_of_eq_None_iff)
  then show ?thesis by (auto simp: jget_def jkeys_def)
qed

section \<open>Maps from strings\<close>

text \<open>
  The interface: what the clients promise themselves of \<open>get\<close> after \<open>put\<close>. The client lemmas
  say what a loop of inserts leaves, and which keys it does not touch.
\<close>

locale string_map =
  fixes get :: "'m \<Rightarrow> string \<Rightarrow> 'v option"
    and put :: "string \<Rightarrow> 'v \<Rightarrow> 'm \<Rightarrow> 'm"
  assumes get_put: "get (put k v m) k' = (if k' = k then Some v else get m k')"
begin

lemma get_put_same: "get (put k v m) k = Some v"
  by (simp add: get_put)

lemma get_put_other: "k' \<noteq> k \<Longrightarrow> get (put k v m) k' = get m k'"
  by (simp add: get_put)

lemma get_puts_unchanged:
  "k \<notin> fst ` set ps \<Longrightarrow> get (fold (\<lambda>(k, v). put k v) ps m) k = get m k"
  by (induction ps arbitrary: m) (auto simp: get_put)

lemma get_puts:
  "get (fold (\<lambda>(k, v). put k v) ps m) k =
     (case map_of (rev ps) k of Some v \<Rightarrow> Some v | None \<Rightarrow> get m k)"
proof (induction ps arbitrary: m)
  case (Cons p ps)
  show ?case
    by (cases p, cases "map_of (rev ps) k")
      (auto simp: Cons get_put map_add_def split: option.splits)
qed simp

lemma get_puts_distinct:
  assumes "distinct (map fst ps)"
  shows "get (fold (\<lambda>(k, v). put k v) ps m) k =
     (case map_of ps k of Some v \<Rightarrow> Some v | None \<Rightarrow> get m k)"
proof -
  have "map_of (rev ps) = map_of ps"
    using assms by (subst map_of_inject_set) (auto simp: rev_map [symmetric])
  then show ?thesis by (simp add: get_puts)
qed

end

interpretation jmap: string_map jget jput
  by unfold_locales simp

lemma jobj_get: "jget (fold (\<lambda>(k, v). jput k v) ps []) k = map_of (rev ps) k"
  by (simp add: jmap.get_puts split: option.splits)

lemma jsorted_fold_jput: "jsorted m \<Longrightarrow> jsorted (fold (\<lambda>(k, v). jput k v) ps m)"
  by (induction ps arbitrary: m) (auto simp: jsorted_jput)

section \<open>Text\<close>

definition hex_char :: "nat \<Rightarrow> char" where
  "hex_char n = (if n < 10 then char_of (48 + n) else char_of (87 + n))"

text \<open>serde's escapes: the quote, the backslash and the control characters.\<close>

definition escape_char :: "char \<Rightarrow> string" where
  "escape_char c =
     (if c = CHR 0x22 then [CHR 0x5C, CHR 0x22]
      else if c = CHR 0x5C then [CHR 0x5C, CHR 0x5C]
      else if c = CHR 0x08 then [CHR 0x5C, CHR ''b'']
      else if c = CHR 0x09 then [CHR 0x5C, CHR ''t'']
      else if c = CHR 0x0A then [CHR 0x5C, CHR ''n'']
      else if c = CHR 0x0C then [CHR 0x5C, CHR ''f'']
      else if c = CHR 0x0D then [CHR 0x5C, CHR ''r'']
      else if byte c < 32 then
        [CHR 0x5C, CHR ''u'', CHR ''0'', CHR ''0'', hex_char (byte c div 16), hex_char (byte c mod 16)]
      else [c])"

definition json_str :: "string \<Rightarrow> string" where
  "json_str s = [CHR 0x22] @ concat (map escape_char s) @ [CHR 0x22]"

fun show_jnum :: "jnum \<Rightarrow> string" where
  "show_jnum (JInt n) = show_int n"
| "show_jnum (JFloat s) = s"

fun json_to_string :: "json \<Rightarrow> string" where
  "json_to_string JNull = ''null''"
| "json_to_string (JBool b) = (if b then ''true'' else ''false'')"
| "json_to_string (JNum n) = show_jnum n"
| "json_to_string (JStr s) = json_str s"
| "json_to_string (JArr xs) = ''['' @ join '','' (map json_to_string xs) @ '']''"
| "json_to_string (JObj m) =
     ''{'' @ join '','' (map (\<lambda>(k, v). json_str k @ '':'' @ json_to_string v) m) @ ''}''"

definition has_nul :: "string \<Rightarrow> bool" where
  "has_nul s \<longleftrightarrow> CHR 0x00 \<in> set s"

end
