(* ===== verification/ApiTypes.thy ===== *)
theory ApiTypes
  imports Json
begin

text \<open>
  The small value types of the API (\<open>apps/api/src/domain.rs\<close>, \<open>cursor.rs\<close>, \<open>email.rs\<close> and
  \<open>error.rs\<close>): entity and mutation kinds with their wire names, the change cursor with its
  \<open>i64\<close> range, the page limit, the normal form of e-mail addresses, and the API's errors
  with the HTTP status and code each one answers with.
\<close>

section \<open>Wire names (domain.rs)\<close>

datatype entity_type = EList | ETask | EStep | EDayPlan

fun entity_as_str :: "entity_type \<Rightarrow> string" where
  "entity_as_str EList = ''list''"
| "entity_as_str ETask = ''task''"
| "entity_as_str EStep = ''step''"
| "entity_as_str EDayPlan = ''day_plan''"

definition entity_parse :: "string \<Rightarrow> entity_type option" where
  "entity_parse v =
     (if v = ''list'' then Some EList
      else if v = ''task'' then Some ETask
      else if v = ''step'' then Some EStep
      else if v = ''day_plan'' then Some EDayPlan
      else None)"

datatype mutation_kind = KCreate | KPatch | KDelete | KRestore

fun kind_as_str :: "mutation_kind \<Rightarrow> string" where
  "kind_as_str KCreate = ''create''"
| "kind_as_str KPatch = ''patch''"
| "kind_as_str KDelete = ''delete''"
| "kind_as_str KRestore = ''restore''"

text \<open>\<open>parse_kind\<close> of \<open>sync.rs\<close>, the inverse the change log is read back with.\<close>

definition parse_kind :: "string \<Rightarrow> mutation_kind option" where
  "parse_kind v =
     (if v = ''create'' then Some KCreate
      else if v = ''patch'' then Some KPatch
      else if v = ''delete'' then Some KDelete
      else if v = ''restore'' then Some KRestore
      else None)"

datatype platform = Windows | Macos | Linux | Android | Ios | Web

fun platform_as_str :: "platform \<Rightarrow> string" where
  "platform_as_str Windows = ''windows''"
| "platform_as_str Macos = ''macos''"
| "platform_as_str Linux = ''linux''"
| "platform_as_str Android = ''android''"
| "platform_as_str Ios = ''ios''"
| "platform_as_str Web = ''web''"

datatype task_status = Open | Completed

fun status_as_str :: "task_status \<Rightarrow> string" where
  "status_as_str Open = ''open''"
| "status_as_str Completed = ''completed''"

definition status_parse :: "string \<Rightarrow> task_status option" where
  "status_parse v =
     (if v = ''open'' then Some Open else if v = ''completed'' then Some Completed else None)"

text \<open>
  An enum with a name for each constructor: writing the name and reading it back. Both the
  change log (entity, kind) and the task rows (status) depend on it.
\<close>

locale named_enum =
  fixes as_str :: "'a \<Rightarrow> string" and parse :: "string \<Rightarrow> 'a option"
  assumes parse_as_str: "parse (as_str x) = Some x"
    and as_str_parse: "parse s = Some x \<Longrightarrow> as_str x = s"
begin

lemma parse_iff: "parse s = Some x \<longleftrightarrow> s = as_str x"
  using parse_as_str as_str_parse by auto

lemma as_str_inj: "as_str x = as_str y \<longleftrightarrow> x = y"
  using parse_as_str by (metis option.inject)

end

interpretation entity_names: named_enum entity_as_str entity_parse
proof
  show "entity_parse (entity_as_str x) = Some x" for x
    by (cases x) (simp_all add: entity_parse_def)
  show "entity_parse s = Some x \<Longrightarrow> entity_as_str x = s" for s x
    by (auto simp: entity_parse_def split: if_splits)
qed

interpretation kind_names: named_enum kind_as_str parse_kind
proof
  show "parse_kind (kind_as_str x) = Some x" for x
    by (cases x) (simp_all add: parse_kind_def)
  show "parse_kind s = Some x \<Longrightarrow> kind_as_str x = s" for s x
    by (auto simp: parse_kind_def split: if_splits)
qed

interpretation status_names: named_enum status_as_str status_parse
proof
  show "status_parse (status_as_str x) = Some x" for x
    by (cases x) (simp_all add: status_parse_def)
  show "status_parse s = Some x \<Longrightarrow> status_as_str x = s" for s x
    by (auto simp: status_parse_def split: if_splits)
qed

section \<open>The change cursor (cursor.rs)\<close>

datatype cursor_error = CursorError

datatype change_cursor = ChangeCursor (cursor_get: int)

definition cursor_initial :: change_cursor where
  "cursor_initial = ChangeCursor 0"

definition cursor_parse :: "string \<Rightarrow> cursor_error + change_cursor" where
  "cursor_parse v =
     (if v = [] \<or> \<not> list_all is_ascii_digit v then Inl CursorError
      else (case parse_i64 v of
              None \<Rightarrow> Inl CursorError
            | Some n \<Rightarrow> if n < 0 then Inl CursorError else Inr (ChangeCursor n)))"

definition cursor_to_string :: "change_cursor \<Rightarrow> string" where
  "cursor_to_string c = show_int (cursor_get c)"

text \<open>\<open>u32\<close> arguments are naturals; the guards keep them in range.\<close>

definition parse_page_limit :: "nat option \<Rightarrow> nat \<Rightarrow> nat \<Rightarrow> cursor_error + nat" where
  "parse_page_limit v dflt maximum =
     (case v of
        None \<Rightarrow> Inr dflt
      | Some n \<Rightarrow> if 1 \<le> n \<and> n \<le> maximum then Inr n else Inl CursorError)"

lemma cursor_parse_range:
  assumes "cursor_parse v = Inr c"
  shows "0 \<le> cursor_get c" and "cursor_get c \<le> I64_MAX"
proof -
  from assms show "0 \<le> cursor_get c"
    by (auto simp: cursor_parse_def split: if_splits option.splits)
  from assms obtain n where "parse_i64 v = Some n" "cursor_get c = n"
    by (auto simp: cursor_parse_def split: if_splits option.splits)
  then show "cursor_get c \<le> I64_MAX"
    by (auto simp: parse_i64_def in_i64_def split: list.splits if_splits bind_splits)
qed

text \<open>Every cursor the server hands out is read back as itself: writing a position between 0
  and the largest 64-bit value and parsing it gives the same position.\<close>

theorem cursor_roundtrip:
  assumes "0 \<le> n" and "n \<le> I64_MAX"
  shows "cursor_parse (cursor_to_string (ChangeCursor n)) = Inr (ChangeCursor n)"
proof -
  have "parse_i64 (show_int n) = Some n"
    using assms by (intro parse_i64_show_int) (auto simp: I64_MIN_def)
  moreover have "show_int n \<noteq> [] \<and> list_all is_ascii_digit (show_int n)"
    using assms show_nat_digits by (simp add: show_int_def)
  ultimately show ?thesis using assms by (simp add: cursor_parse_def cursor_to_string_def)
qed

section \<open>E-mail addresses (email.rs)\<close>

datatype email_error = EmailError

definition is_valid_local_byte :: "char \<Rightarrow> bool" where
  "is_valid_local_byte b \<longleftrightarrow> is_ascii_alphanumeric b \<or>
     b \<in> set [CHR ''.'', CHR ''!'', CHR ''#'', CHR ''$'', CHR ''%'', CHR ''&'', CHR 0x27, CHR ''*'',
             CHR ''+'', CHR ''-'', CHR ''/'', CHR ''='', CHR ''?'', CHR ''^'', CHR ''_'', CHR 0x60,
             CHR 0x7B, CHR 0x7C, CHR 0x7D, CHR 0x7E]"

definition valid_domain_label :: "string \<Rightarrow> bool" where
  "valid_domain_label label \<longleftrightarrow>
     label \<noteq> [] \<and> length label \<le> 63 \<and> \<not> starts_with label ''-'' \<and> \<not> ends_with label ''-'' \<and>
     list_all (\<lambda>b. is_ascii_alphanumeric b \<or> b = CHR ''-'') label"

definition valid_local :: "string \<Rightarrow> bool" where
  "valid_local l \<longleftrightarrow>
     \<not> (starts_with l ''.'' \<or> ends_with l ''.'' \<or> contains l ''..'' \<or>
        \<not> list_all is_valid_local_byte l)"

definition normalize_email :: "string \<Rightarrow> email_error + string" where
  "normalize_email input =
     (let trimmed = trim input in
      if length trimmed > 254 then Inl EmailError
      else
        let parts = split_on (CHR ''@'') trimmed;
            l = (case parts of [] \<Rightarrow> [] | p # _ \<Rightarrow> p);
            d = (case parts of _ # p # _ \<Rightarrow> p | _ \<Rightarrow> [])
        in
        if length parts > 2 \<or> l = [] \<or> length l > 64 \<or> d = [] \<or> length d > 253
        then Inl EmailError
        else if \<not> valid_local l then Inl EmailError
        else if \<not> CHR ''.'' \<in> set d \<or> \<not> list_all valid_domain_label (split_on (CHR ''.'') d)
        then Inl EmailError
        else Inr (to_ascii_lowercase trimmed))"

section \<open>API errors (error.rs)\<close>

datatype app_error =
    BadRequest string string
  | Unauthorized string string
  | Forbidden string string
  | NotFound string string
  | Conflict string string
  | TooManyRequests string string
  | PayloadTooLarge
  | ServiceUnavailable string string
  | RevisionConflict int
  | Internal string

definition err_validation :: "string \<Rightarrow> app_error" where
  "err_validation m = BadRequest ''VALIDATION_FAILED'' m"

definition err_unauthorized :: app_error where
  "err_unauthorized = Unauthorized ''UNAUTHORIZED''
     ''Authentication is required or the session is no longer valid''"

definition err_invalid_token :: app_error where
  "err_invalid_token = Unauthorized ''INVALID_TOKEN'' ''The access token is invalid or expired''"

definition err_not_found :: app_error where
  "err_not_found = NotFound ''NOT_FOUND'' ''The requested resource was not found''"

definition err_cursor_expired :: app_error where
  "err_cursor_expired = Conflict ''CURSOR_EXPIRED''
     ''The change cursor is older than the retained history; bootstrap is required''"

definition err_sequence_mismatch :: "string \<Rightarrow> app_error" where
  "err_sequence_mismatch m = Conflict ''SEQUENCE_MISMATCH'' m"

definition err_revision_conflict :: "int \<Rightarrow> app_error" where
  "err_revision_conflict r = RevisionConflict r"

text \<open>\<open>IntoResponse\<close>: the HTTP status and the JSON body.\<close>

definition error_body :: "string \<Rightarrow> string \<Rightarrow> json" where
  "error_body code message = jobj [(''code'', JStr code), (''message'', JStr message)]"

fun into_response :: "app_error \<Rightarrow> nat \<times> json" where
  "into_response (BadRequest c m) = (400, error_body c m)"
| "into_response (Unauthorized c m) = (401, error_body c m)"
| "into_response (Forbidden c m) = (403, error_body c m)"
| "into_response (NotFound c m) = (404, error_body c m)"
| "into_response (Conflict c m) = (409, error_body c m)"
| "into_response (TooManyRequests c m) = (429, error_body c m)"
| "into_response PayloadTooLarge =
     (413, error_body ''PAYLOAD_TOO_LARGE'' ''The request body exceeds the configured limit'')"
| "into_response (ServiceUnavailable c m) = (503, error_body c m)"
| "into_response (RevisionConflict r) =
     (409, jobj [(''code'', JStr ''REVISION_CONFLICT''),
                 (''message'', JStr ''The shared list revision changed; refresh and retry''),
                 (''current_revision'', JNum (JInt r))])"
| "into_response (Internal _) =
     (500, error_body ''INTERNAL_ERROR'' ''An internal error occurred'')"

section \<open>E-mail lemmas\<close>

text \<open>ASCII lower-casing moves only the bytes 65 to 90, so it respects every test used.\<close>

lemma byte_ascii_lower: "byte (ascii_lower_char c) = (if is_ascii_upper c then byte c + 32 else byte c)"
  by (auto simp: ascii_lower_char_def is_ascii_upper_def)

lemma alnum_ascii_lower [simp]: "is_ascii_alphanumeric (ascii_lower_char c) = is_ascii_alphanumeric c"
  by (auto simp: is_ascii_alphanumeric_def is_ascii_digit_def is_ascii_lower_def byte_ascii_lower
        is_ascii_upper_def split: if_splits)

lemma ascii_lower_eq_iff:
  assumes "\<not> is_ascii_lower d" and "\<not> is_ascii_upper d"
  shows "ascii_lower_char c = d \<longleftrightarrow> c = d"
proof
  assume eq: "ascii_lower_char c = d"
  show "c = d"
  proof (cases "is_ascii_upper c")
    case True
    then have "is_ascii_lower d"
      by (auto simp: eq [symmetric] is_ascii_lower_def byte_ascii_lower is_ascii_upper_def)
    with assms show ?thesis by simp
  next
    case False
    with eq show ?thesis by (simp add: ascii_lower_char_def)
  qed
next
  show "c = d \<Longrightarrow> ascii_lower_char c = d"
    using assms by (simp add: ascii_lower_char_def)
qed

lemma is_cont_ascii_lower [simp]: "is_cont (ascii_lower_char c) = is_cont c"
  by (auto simp: is_cont_def byte_ascii_lower is_ascii_upper_def)

lemma str_chars_lower:
  "str_chars (to_ascii_lowercase s) = map to_ascii_lowercase (str_chars s)"
proof (induction s rule: str_chars.induct)
  case (2 c cs)
  then show ?case
    by (simp add: to_ascii_lowercase_def takeWhile_map dropWhile_map comp_def)
qed (simp add: to_ascii_lowercase_def)

lemma lower_map_eq:
  "\<forall>d\<in>set w. \<not> is_ascii_lower d \<and> \<not> is_ascii_upper d \<Longrightarrow> to_ascii_lowercase c = w \<longleftrightarrow> c = w"
proof (induction w arbitrary: c)
  case (Cons d w)
  then show ?case
    by (cases c) (auto simp: to_ascii_lowercase_def ascii_lower_eq_iff)
qed (simp add: to_ascii_lowercase_def)

lemma ws_chars_no_letters:
  "w \<in> set ws_chars \<Longrightarrow> \<forall>d\<in>set w. \<not> is_ascii_lower d \<and> \<not> is_ascii_upper d"
  by (auto simp: ws_chars_def is_ascii_lower_def is_ascii_upper_def byte_def)

lemma is_whitespace_lower [simp]: "is_whitespace (to_ascii_lowercase c) = is_whitespace c"
proof -
  have "to_ascii_lowercase c \<in> set ws_chars \<longleftrightarrow> c \<in> set ws_chars"
    using lower_map_eq ws_chars_no_letters by metis
  then show ?thesis by (simp add: is_whitespace_def)
qed

lemma trim_lower: "trim (to_ascii_lowercase s) = to_ascii_lowercase (trim s)"
proof -
  have "trim_chunks (map to_ascii_lowercase cs) = map to_ascii_lowercase (trim_chunks cs)" for cs
    by (simp add: trim_chunks_def dropWhile_map rev_map comp_def)
  moreover have "concat (map to_ascii_lowercase cs) = to_ascii_lowercase (concat cs)" for cs
    by (induction cs) (simp_all add: to_ascii_lowercase_def)
  ultimately show ?thesis by (simp add: trim_def str_chars_lower)
qed

lemma split_on_lower:
  assumes "\<not> is_ascii_lower d" and "\<not> is_ascii_upper d"
  shows "split_on d (to_ascii_lowercase s) = map to_ascii_lowercase (split_on d s)"
proof (induction s)
  case (Cons c s)
  then show ?case
    using ascii_lower_eq_iff [OF assms, of c] split_on_not_Nil [of d s]
    by (auto simp: to_ascii_lowercase_def split: list.splits)
qed (simp add: to_ascii_lowercase_def)

text \<open>The tests of the normaliser do not distinguish a text from its lower-cased form.\<close>

definition caseless :: "string \<Rightarrow> bool" where
  "caseless w \<longleftrightarrow> (\<forall>d\<in>set w. \<not> is_ascii_lower d \<and> \<not> is_ascii_upper d)"

lemma starts_with_lower: "caseless w \<Longrightarrow> starts_with (to_ascii_lowercase s) w = starts_with s w"
  using lower_map_eq [of w "take (length w) s"]
  by (simp add: starts_with_def caseless_def to_ascii_lowercase_def take_map)

lemma ends_with_lower: "caseless w \<Longrightarrow> ends_with (to_ascii_lowercase s) w = ends_with s w"
  using lower_map_eq [of w "drop (length s - length w) s"]
  by (simp add: ends_with_def caseless_def to_ascii_lowercase_def drop_map)

lemma contains_lower: "caseless w \<Longrightarrow> contains (to_ascii_lowercase s) w = contains s w"
proof (induction s)
  case (Cons c s)
  then show ?case
    using starts_with_lower [of w "c # s"] by (simp add: to_ascii_lowercase_def)
qed (simp add: to_ascii_lowercase_def)

lemma local_byte_lower [simp]: "is_valid_local_byte (ascii_lower_char c) = is_valid_local_byte c"
proof -
  let ?w = "[CHR ''.'', CHR ''!'', CHR ''#'', CHR ''$'', CHR ''%'', CHR ''&'', CHR 0x27, CHR ''*'',
             CHR ''+'', CHR ''-'', CHR ''/'', CHR ''='', CHR ''?'', CHR ''^'', CHR ''_'', CHR 0x60,
             CHR 0x7B, CHR 0x7C, CHR 0x7D, CHR 0x7E]"
  have "\<forall>d\<in>set ?w. \<not> is_ascii_lower d \<and> \<not> is_ascii_upper d"
    by (simp add: is_ascii_lower_def is_ascii_upper_def byte_def)
  then have "ascii_lower_char c \<in> set ?w \<longleftrightarrow> c \<in> set ?w"
    using ascii_lower_eq_iff by metis
  then show ?thesis unfolding is_valid_local_byte_def by simp
qed

lemma caseless_dots [simp]: "caseless ''.''" "caseless ''..''" "caseless ''-''"
  by (simp_all add: caseless_def is_ascii_lower_def is_ascii_upper_def byte_def)

lemma valid_local_lower [simp]: "valid_local (to_ascii_lowercase l) = valid_local l"
  by (simp add: valid_local_def starts_with_lower ends_with_lower contains_lower)
    (simp add: to_ascii_lowercase_def list.pred_map comp_def)

lemma dash_lower [simp]: "(ascii_lower_char b = CHR ''-'') = (b = CHR ''-'')"
  by (rule ascii_lower_eq_iff) (simp_all add: is_ascii_lower_def is_ascii_upper_def byte_def)

lemma valid_domain_label_lower [simp]:
  "valid_domain_label (to_ascii_lowercase l) = valid_domain_label l"
  by (simp add: valid_domain_label_def starts_with_lower ends_with_lower)
    (simp add: to_ascii_lowercase_def list.pred_map comp_def)

lemma dot_lower: "CHR ''.'' \<in> set (to_ascii_lowercase d) \<longleftrightarrow> CHR ''.'' \<in> set d"
proof -
  have "CHR ''.'' = ascii_lower_char c \<longleftrightarrow> c = CHR ''.''" for c
    using ascii_lower_eq_iff [of "CHR ''.''" c]
    by (auto simp: is_ascii_lower_def is_ascii_upper_def byte_def)
  then show ?thesis by (simp add: to_ascii_lowercase_def image_iff)
qed

text \<open>Normalising an address twice changes nothing: a normalised address is accepted and is
  its own normal form, so an account is always looked up under one key.\<close>

theorem normalize_email_idempotent:
  assumes "normalize_email s = Inr e"
  shows "normalize_email e = Inr e"
proof -
  let ?t = "trim s"
  from assms have e: "e = to_ascii_lowercase ?t"
    by (auto simp: normalize_email_def Let_def split: if_splits)
  have at: "\<not> is_ascii_lower (CHR ''@'')" "\<not> is_ascii_upper (CHR ''@'')"
    and dot: "\<not> is_ascii_lower (CHR ''.'')" "\<not> is_ascii_upper (CHR ''.'')"
    by (simp_all add: is_ascii_lower_def is_ascii_upper_def byte_def)
  have "trim e = e" by (simp add: e trim_lower)
  moreover have "split_on (CHR ''@'') e = map to_ascii_lowercase (split_on (CHR ''@'') ?t)"
    by (simp add: e split_on_lower [OF at])
  moreover have "to_ascii_lowercase e = e" "length e = length ?t" by (simp_all add: e)
  moreover have "to_ascii_lowercase [] = []" by (simp add: to_ascii_lowercase_def)
  moreover have "(to_ascii_lowercase x = []) = (x = [])" for x
    by (simp add: to_ascii_lowercase_def)
  ultimately show ?thesis
    using assms
    by (auto simp: normalize_email_def Let_def dot_lower split_on_lower [OF dot] list.pred_map
          comp_def split: if_splits list.splits)
qed

end
