(* ===== verification/ApiMutation.thy ===== *)
theory ApiMutation
  imports ApiTypes
begin

text \<open>
  \<open>apps/api/src/mutation.rs\<close>: the patches a client may send, their whitelisting
  deserialisation (\<open>serde\<close> with \<open>deny_unknown_fields\<close> and \<open>double_option\<close>, so an absent
  field is \<open>None\<close> and an explicit null \<open>Some None\<close>), their application to the values of an
  entity, and the validation every stored value passes. Code of other crates is the
  parameter \<open>api_env\<close>: Unicode case tables, the time zone names, and the text forms of
  UUIDs, dates and instants.
\<close>

type_synonym uuid = "128 word"

datatype date = Date (date_year: int) (date_month: nat) (date_day: nat)

datatype instant = Instant (date_naive: date) (instant_nanos: nat)

record api_env =
  env_lower :: "string \<Rightarrow> string"
  env_tz_ok :: "string \<Rightarrow> bool"
  env_uuid :: "string \<Rightarrow> uuid option"
  env_show_uuid :: "uuid \<Rightarrow> string"
  env_date :: "string \<Rightarrow> date option"
  env_show_date :: "date \<Rightarrow> string"
  env_instant :: "string \<Rightarrow> instant option"
  env_show_instant :: "instant \<Rightarrow> string"
  env_today :: date

section \<open>Errors\<close>

record mutation_error =
  me_code :: string
  me_detail :: string

definition me_validation :: "string \<Rightarrow> mutation_error" where
  "me_validation d = \<lparr>me_code = ''VALIDATION_FAILED'', me_detail = d\<rparr>"

definition me_not_found :: mutation_error where
  "me_not_found = \<lparr>me_code = ''ENTITY_NOT_FOUND'',
     me_detail = ''entity does not exist under this account''\<rparr>"

definition me_tombstoned :: mutation_error where
  "me_tombstoned = \<lparr>me_code = ''ENTITY_TOMBSTONED'',
     me_detail = ''entity is deleted; an explicit restore is required''\<rparr>"

definition me_already_exists :: mutation_error where
  "me_already_exists = \<lparr>me_code = ''ENTITY_ALREADY_EXISTS'',
     me_detail = ''entity id already exists''\<rparr>"

definition me_invalid_state :: "string \<Rightarrow> mutation_error" where
  "me_invalid_state d = \<lparr>me_code = ''INVALID_STATE'', me_detail = d\<rparr>"

definition me_invalid_parent :: "string \<Rightarrow> mutation_error" where
  "me_invalid_parent d = \<lparr>me_code = ''INVALID_PARENT'', me_detail = d\<rparr>"

definition me_constraint :: "string \<Rightarrow> mutation_error" where
  "me_constraint d = \<lparr>me_code = ''CONSTRAINT_VIOLATION'', me_detail = d\<rparr>"

definition quoted :: "string \<Rightarrow> string" where
  "quoted f = [CHR 0x22] @ f @ [CHR 0x22]"

section \<open>Field checks\<close>

definition reject_nul :: "string \<Rightarrow> string \<Rightarrow> mutation_error + unit" where
  "reject_nul f v =
     fail_if (has_nul v)
       (me_validation (''field '' @ quoted f @ '' may not contain NUL characters''))"

fun json_contains_nul :: "json \<Rightarrow> bool" where
  "json_contains_nul (JStr t) = has_nul t"
| "json_contains_nul (JArr xs) = list_ex json_contains_nul xs"
| "json_contains_nul (JObj m) = list_ex (\<lambda>(k, v). has_nul k \<or> json_contains_nul v) m"
| "json_contains_nul JNull = False"
| "json_contains_nul (JBool b) = False"
| "json_contains_nul (JNum n) = False"

definition required_text :: "string \<Rightarrow> string \<Rightarrow> nat \<Rightarrow> mutation_error + unit" where
  "required_text f v max_chars =
     and_then (reject_nul f v) (\<lambda>_.
     and_then (fail_if (trim v = [])
       (me_validation (''field '' @ quoted f @ '' may not be empty''))) (\<lambda>_.
     fail_if (chars_count v > max_chars)
       (me_validation (''field '' @ quoted f @ '' exceeds '' @ show_nat max_chars @ '' characters''))))"

definition optional_text :: "string \<Rightarrow> string option \<Rightarrow> nat \<Rightarrow> mutation_error + unit" where
  "optional_text f v max_chars =
     (case v of
        None \<Rightarrow> Inr ()
      | Some v \<Rightarrow>
          and_then (reject_nul f v) (\<lambda>_.
          fail_if (chars_count v > max_chars)
            (me_validation (''field '' @ quoted f @ '' exceeds '' @ show_nat max_chars @ '' characters''))))"

definition MIN_STORABLE_YEAR :: int where
  "MIN_STORABLE_YEAR = -4712"

definition storable_date :: "string \<Rightarrow> date \<Rightarrow> mutation_error + unit" where
  "storable_date f d =
     fail_if (date_year d < MIN_STORABLE_YEAR)
       (me_validation (''field '' @ quoted f @ '' is before the supported date range''))"

definition storable_timestamp :: "string \<Rightarrow> instant option \<Rightarrow> mutation_error + unit" where
  "storable_timestamp f v =
     (case v of Some i \<Rightarrow> storable_date f (date_naive i) | None \<Rightarrow> Inr ())"

section \<open>Tags\<close>

definition MAX_TAGS :: nat where
  "MAX_TAGS = 20"

definition MAX_TAG_LENGTH :: nat where
  "MAX_TAG_LENGTH = 32"

text \<open>The scan of \<open>clean_tag\<close>: the cleaned text so far and whether a space is pending.\<close>

fun clean_tag_loop :: "string list \<Rightarrow> string \<Rightarrow> bool \<Rightarrow> string" where
  "clean_tag_loop [] cleaned pending = cleaned"
| "clean_tag_loop (c # cs) cleaned pending =
     (let c = (if c = [CHR 0x0D] \<or> c = [CHR 0x0A] \<or> c = [CHR 0x09] then [CHR 0x20] else c) in
      if is_whitespace c then clean_tag_loop cs cleaned (if cleaned \<noteq> [] then True else pending)
      else clean_tag_loop cs
             ((if pending \<and> cleaned \<noteq> [] then cleaned @ [CHR 0x20] else cleaned) @ c) False)"

definition clean_tag :: "string \<Rightarrow> string" where
  "clean_tag v =
     (let cleaned = clean_tag_loop (str_chars v) [] False in
      trim (case strip_prefix ''#'' (trim cleaned) of None \<Rightarrow> cleaned | Some t \<Rightarrow> t))"

fun normalize_tags_loop ::
  "(string \<Rightarrow> string) \<Rightarrow> string list \<Rightarrow> string set \<Rightarrow> string list \<Rightarrow> mutation_error + string list" where
  "normalize_tags_loop lower [] seen result = Inr result"
| "normalize_tags_loop lower (raw # tags) seen result =
     (let tag = clean_tag raw in
      and_then (reject_nul ''tags'' tag) (\<lambda>_.
      and_then (fail_if (tag = []) (me_validation ''tags may not contain empty strings'')) (\<lambda>_.
      and_then (fail_if (chars_count tag > MAX_TAG_LENGTH)
        (me_validation (''each tag must be at most '' @ show_nat MAX_TAG_LENGTH @ '' characters''))) (\<lambda>_.
      let key = lower tag in
      if key \<in> seen then normalize_tags_loop lower tags seen result
      else
        and_then (fail_if (length (result @ [tag]) > MAX_TAGS)
          (me_validation (''a task may have at most '' @ show_nat MAX_TAGS @ '' tags''))) (\<lambda>_.
        normalize_tags_loop lower tags (insert key seen) (result @ [tag]))))))"

definition normalize_tags :: "(string \<Rightarrow> string) \<Rightarrow> string list \<Rightarrow> mutation_error + string list" where
  "normalize_tags lower tags = normalize_tags_loop lower tags {} []"

section \<open>Entity values\<close>

record list_values =
  lv_name :: string
  lv_color :: "string option"
  lv_icon :: "string option"
  lv_rank :: string

definition list_values_empty :: list_values where
  "list_values_empty = \<lparr>lv_name = [], lv_color = None, lv_icon = None, lv_rank = ''a0''\<rparr>"

definition list_values_validate :: "list_values \<Rightarrow> mutation_error + unit" where
  "list_values_validate v =
     and_then (required_text ''name'' (lv_name v) 120) (\<lambda>_.
     and_then (optional_text ''color'' (lv_color v) 64) (\<lambda>_.
     and_then (optional_text ''icon'' (lv_icon v) 128) (\<lambda>_.
     required_text ''rank'' (lv_rank v) 128)))"

definition opt_json :: "('a \<Rightarrow> json) \<Rightarrow> 'a option \<Rightarrow> json" where
  "opt_json f v = (case v of None \<Rightarrow> JNull | Some x \<Rightarrow> f x)"

definition list_values_change_patch :: "list_values \<Rightarrow> json" where
  "list_values_change_patch v =
     jobj [(''name'', JStr (lv_name v)), (''color'', opt_json JStr (lv_color v)),
           (''icon'', opt_json JStr (lv_icon v)), (''rank'', JStr (lv_rank v))]"

record task_values =
  tv_list_id :: "uuid option"
  tv_title :: string
  tv_note :: string
  tv_status :: task_status
  tv_important :: bool
  tv_tags :: "string list"
  tv_due_on :: "date option"
  tv_remind_at :: "instant option"
  tv_remind_timezone :: "string option"
  tv_rank :: string
  tv_series_id :: "uuid option"
  tv_occurrence_key :: "string option"
  tv_recurrence :: "json option"
  tv_completed_at :: "instant option"

definition task_values_empty :: task_values where
  "task_values_empty =
     \<lparr>tv_list_id = None, tv_title = [], tv_note = [], tv_status = Open, tv_important = False,
      tv_tags = [], tv_due_on = None, tv_remind_at = None, tv_remind_timezone = None,
      tv_rank = ''a0'', tv_series_id = None, tv_occurrence_key = None, tv_recurrence = None,
      tv_completed_at = None\<rparr>"

definition validate_timezone :: "api_env \<Rightarrow> string option \<Rightarrow> mutation_error + unit" where
  "validate_timezone env v =
     (case v of
        None \<Rightarrow> Inr ()
      | Some tz \<Rightarrow>
          and_then (required_text ''remind_timezone'' tz 64) (\<lambda>_.
          fail_if (\<not> env_tz_ok env tz)
            (me_validation ''remind_timezone must be a valid IANA timezone name'')))"

definition validate_recurrence :: "json option \<Rightarrow> mutation_error + unit" where
  "validate_recurrence v =
     (case v of
        None \<Rightarrow> Inr ()
      | Some r \<Rightarrow>
          and_then (fail_if (\<not> is_object r)
            (me_validation ''recurrence must be a JSON object'')) (\<lambda>_.
          and_then (fail_if (length (json_to_string r) > 16 * 1024)
            (me_validation ''recurrence is too large'')) (\<lambda>_.
          fail_if (json_contains_nul r)
            (me_validation ''recurrence may not contain NUL characters''))))"

definition task_values_validate :: "api_env \<Rightarrow> task_values \<Rightarrow> mutation_error + unit" where
  "task_values_validate env v =
     and_then (required_text ''title'' (tv_title v) 1000) (\<lambda>_.
     and_then (optional_text ''note'' (Some (tv_note v)) 100000) (\<lambda>_.
     and_then (required_text ''rank'' (tv_rank v) 128) (\<lambda>_.
     and_then (normalize_tags (env_lower env) (tv_tags v)) (\<lambda>normalized_tags.
     and_then (fail_if (normalized_tags \<noteq> tv_tags v)
       (me_validation ''tags must be normalized before storage'')) (\<lambda>_.
     and_then (validate_timezone env (tv_remind_timezone v)) (\<lambda>_.
     and_then (case tv_occurrence_key v of
         None \<Rightarrow> Inr () | Some k \<Rightarrow> required_text ''occurrence_key'' k 64) (\<lambda>_.
     and_then (validate_recurrence (tv_recurrence v)) (\<lambda>_.
     and_then (case tv_due_on v of None \<Rightarrow> Inr () | Some d \<Rightarrow> storable_date ''due_on'' d) (\<lambda>_.
     and_then (storable_timestamp ''remind_at'' (tv_remind_at v)) (\<lambda>_.
     storable_timestamp ''completed_at'' (tv_completed_at v)))))))))))"

definition task_values_change_patch :: "api_env \<Rightarrow> task_values \<Rightarrow> json" where
  "task_values_change_patch env v =
     jobj [(''list_id'', opt_json (JStr \<circ> env_show_uuid env) (tv_list_id v)),
           (''title'', JStr (tv_title v)),
           (''note'', JStr (tv_note v)),
           (''status'', JStr (status_as_str (tv_status v))),
           (''important'', JBool (tv_important v)),
           (''tags'', JArr (map JStr (tv_tags v))),
           (''due_on'', opt_json (JStr \<circ> env_show_date env) (tv_due_on v)),
           (''remind_at'', opt_json (JStr \<circ> env_show_instant env) (tv_remind_at v)),
           (''remind_timezone'', opt_json JStr (tv_remind_timezone v)),
           (''rank'', JStr (tv_rank v)),
           (''series_id'', opt_json (JStr \<circ> env_show_uuid env) (tv_series_id v)),
           (''occurrence_key'', opt_json JStr (tv_occurrence_key v)),
           (''recurrence'', opt_json (\<lambda>r. r) (tv_recurrence v)),
           (''completed_at'', opt_json (JStr \<circ> env_show_instant env) (tv_completed_at v))]"

record step_values =
  sv_task_id :: uuid
  sv_title :: string
  sv_is_completed :: bool
  sv_rank :: string

definition step_values_empty :: "uuid \<Rightarrow> step_values" where
  "step_values_empty t = \<lparr>sv_task_id = t, sv_title = [], sv_is_completed = False, sv_rank = ''a0''\<rparr>"

definition step_values_validate :: "step_values \<Rightarrow> mutation_error + unit" where
  "step_values_validate v =
     and_then (required_text ''title'' (sv_title v) 1000) (\<lambda>_.
     required_text ''rank'' (sv_rank v) 128)"

definition step_values_change_patch :: "api_env \<Rightarrow> step_values \<Rightarrow> json" where
  "step_values_change_patch env v =
     jobj [(''task_id'', JStr (env_show_uuid env (sv_task_id v))),
           (''title'', JStr (sv_title v)),
           (''is_completed'', JBool (sv_is_completed v)),
           (''rank'', JStr (sv_rank v))]"

record day_plan_values =
  dv_task_id :: uuid
  dv_local_date :: date
  dv_rank :: string

definition day_plan_values_empty :: "api_env \<Rightarrow> uuid \<Rightarrow> day_plan_values" where
  "day_plan_values_empty env t = \<lparr>dv_task_id = t, dv_local_date = env_today env, dv_rank = ''a0''\<rparr>"

definition day_plan_values_validate :: "day_plan_values \<Rightarrow> mutation_error + unit" where
  "day_plan_values_validate v =
     and_then (storable_date ''local_date'' (dv_local_date v)) (\<lambda>_.
     required_text ''rank'' (dv_rank v) 128)"

definition day_plan_values_change_patch :: "api_env \<Rightarrow> day_plan_values \<Rightarrow> json" where
  "day_plan_values_change_patch env v =
     jobj [(''task_id'', JStr (env_show_uuid env (dv_task_id v))),
           (''local_date'', JStr (env_show_date env (dv_local_date v))),
           (''rank'', JStr (dv_rank v))]"

end
