(* ===== verification/ApiPatch.thy ===== *)
theory ApiPatch
  imports ApiMutation
begin

text \<open>
  The patch types of \<open>apps/api/src/mutation.rs\<close>: reading them from JSON (unknown fields
  refused, a null told from an absent field) and applying them to an entity's values,
  validation last. \<open>serde\<close>'s own error text is not modelled: the detail stops after
  ``invalid patch: '', and no caller looks at it.
\<close>

section \<open>Deserialisation\<close>

definition de_string :: "json \<Rightarrow> string option" where
  "de_string v = as_str v"

definition de_bool :: "json \<Rightarrow> bool option" where
  "de_bool v = as_bool v"

definition de_uuid :: "api_env \<Rightarrow> json \<Rightarrow> uuid option" where
  "de_uuid env v = Option.bind (as_str v) (env_uuid env)"

definition de_date :: "api_env \<Rightarrow> json \<Rightarrow> date option" where
  "de_date env v = Option.bind (as_str v) (env_date env)"

definition de_instant :: "api_env \<Rightarrow> json \<Rightarrow> instant option" where
  "de_instant env v = Option.bind (as_str v) (env_instant env)"

definition de_value :: "json \<Rightarrow> json option" where
  "de_value v = Some v"

fun de_strings :: "json list \<Rightarrow> string list option" where
  "de_strings [] = Some []"
| "de_strings (v # vs) =
     (case de_string v of
        None \<Rightarrow> None
      | Some s \<Rightarrow> (case de_strings vs of None \<Rightarrow> None | Some ss \<Rightarrow> Some (s # ss)))"

definition de_string_list :: "json \<Rightarrow> string list option" where
  "de_string_list v = Option.bind (as_array v) de_strings"

text \<open>A unit variant is its name, or an object with the name as its only key and null.\<close>

fun de_status :: "json \<Rightarrow> task_status option" where
  "de_status (JStr s) = status_parse s"
| "de_status (JObj [(k, JNull)]) = status_parse k"
| "de_status _ = None"

text \<open>\<open>double_option\<close> on one field of the object.\<close>

definition double_option :: "(json \<Rightarrow> 'a option) \<Rightarrow> jmap \<Rightarrow> string \<Rightarrow> unit + 'a option option" where
  "double_option de m k =
     (case jget m k of
        None \<Rightarrow> Inr None
      | Some v \<Rightarrow>
          if v = JNull then Inr (Some None)
          else (case de v of None \<Rightarrow> Inl () | Some x \<Rightarrow> Inr (Some (Some x))))"

definition known_fields :: "string list \<Rightarrow> jmap \<Rightarrow> unit + unit" where
  "known_fields allowed m = fail_if (\<not> list_all (\<lambda>k. k \<in> set allowed) (jkeys m)) ()"

record list_patch =
  lp_name :: "string option option"
  lp_color :: "string option option"
  lp_icon :: "string option option"
  lp_rank :: "string option option"

definition de_list_patch :: "jmap \<Rightarrow> unit + list_patch" where
  "de_list_patch m =
     and_then (known_fields [''name'', ''color'', ''icon'', ''rank''] m) (\<lambda>_.
     and_then (double_option de_string m ''name'') (\<lambda>name.
     and_then (double_option de_string m ''color'') (\<lambda>color.
     and_then (double_option de_string m ''icon'') (\<lambda>icon.
     and_then (double_option de_string m ''rank'') (\<lambda>rank.
     Inr \<lparr>lp_name = name, lp_color = color, lp_icon = icon, lp_rank = rank\<rparr>)))))"

record task_patch =
  tp_list_id :: "uuid option option"
  tp_title :: "string option option"
  tp_note :: "string option option"
  tp_status :: "task_status option option"
  tp_important :: "bool option option"
  tp_tags :: "string list option option"
  tp_due_on :: "date option option"
  tp_remind_at :: "instant option option"
  tp_remind_timezone :: "string option option"
  tp_rank :: "string option option"
  tp_series_id :: "uuid option option"
  tp_occurrence_key :: "string option option"
  tp_recurrence :: "json option option"
  tp_completed_at :: "instant option option"

definition task_patch_fields :: "string list" where
  "task_patch_fields =
     [''list_id'', ''title'', ''note'', ''status'', ''important'', ''tags'', ''due_on'',
      ''remind_at'', ''remind_timezone'', ''rank'', ''series_id'', ''occurrence_key'',
      ''recurrence'', ''completed_at'']"

definition de_task_patch :: "api_env \<Rightarrow> jmap \<Rightarrow> unit + task_patch" where
  "de_task_patch env m =
     and_then (known_fields task_patch_fields m) (\<lambda>_.
     and_then (double_option (de_uuid env) m ''list_id'') (\<lambda>list_id.
     and_then (double_option de_string m ''title'') (\<lambda>title.
     and_then (double_option de_string m ''note'') (\<lambda>note.
     and_then (double_option de_status m ''status'') (\<lambda>status.
     and_then (double_option de_bool m ''important'') (\<lambda>important.
     and_then (double_option de_string_list m ''tags'') (\<lambda>tags.
     and_then (double_option (de_date env) m ''due_on'') (\<lambda>due_on.
     and_then (double_option (de_instant env) m ''remind_at'') (\<lambda>remind_at.
     and_then (double_option de_string m ''remind_timezone'') (\<lambda>remind_timezone.
     and_then (double_option de_string m ''rank'') (\<lambda>rank.
     and_then (double_option (de_uuid env) m ''series_id'') (\<lambda>series_id.
     and_then (double_option de_string m ''occurrence_key'') (\<lambda>occurrence_key.
     and_then (double_option de_value m ''recurrence'') (\<lambda>recurrence.
     and_then (double_option (de_instant env) m ''completed_at'') (\<lambda>completed_at.
     Inr \<lparr>tp_list_id = list_id, tp_title = title, tp_note = note, tp_status = status,
          tp_important = important, tp_tags = tags, tp_due_on = due_on,
          tp_remind_at = remind_at, tp_remind_timezone = remind_timezone, tp_rank = rank,
          tp_series_id = series_id, tp_occurrence_key = occurrence_key,
          tp_recurrence = recurrence, tp_completed_at = completed_at\<rparr>)))))))))))))))"

record step_patch =
  sp_task_id :: "uuid option option"
  sp_title :: "string option option"
  sp_is_completed :: "bool option option"
  sp_rank :: "string option option"

definition de_step_patch :: "api_env \<Rightarrow> jmap \<Rightarrow> unit + step_patch" where
  "de_step_patch env m =
     and_then (known_fields [''task_id'', ''title'', ''is_completed'', ''rank''] m) (\<lambda>_.
     and_then (double_option (de_uuid env) m ''task_id'') (\<lambda>task_id.
     and_then (double_option de_string m ''title'') (\<lambda>title.
     and_then (double_option de_bool m ''is_completed'') (\<lambda>is_completed.
     and_then (double_option de_string m ''rank'') (\<lambda>rank.
     Inr \<lparr>sp_task_id = task_id, sp_title = title, sp_is_completed = is_completed,
          sp_rank = rank\<rparr>)))))"

record day_plan_patch =
  dp_task_id :: "uuid option option"
  dp_local_date :: "date option option"
  dp_rank :: "string option option"

definition de_day_plan_patch :: "api_env \<Rightarrow> jmap \<Rightarrow> unit + day_plan_patch" where
  "de_day_plan_patch env m =
     and_then (known_fields [''task_id'', ''local_date'', ''rank''] m) (\<lambda>_.
     and_then (double_option (de_uuid env) m ''task_id'') (\<lambda>task_id.
     and_then (double_option (de_date env) m ''local_date'') (\<lambda>local_date.
     and_then (double_option de_string m ''rank'') (\<lambda>rank.
     Inr \<lparr>dp_task_id = task_id, dp_local_date = local_date, dp_rank = rank\<rparr>))))"

definition parse_patch :: "(jmap \<Rightarrow> unit + 'p) \<Rightarrow> json \<Rightarrow> bool \<Rightarrow> mutation_error + 'p" where
  "parse_patch de v allow_empty =
     and_then (ok_or (as_object v) (me_validation ''patch must be a JSON object'')) (\<lambda>m.
     and_then (fail_if (m = [] \<and> \<not> allow_empty)
       (me_validation ''patch must contain at least one field'')) (\<lambda>_.
     map_err (\<lambda>_. me_validation ''invalid patch: '') (de m)))"

definition parse_list_patch :: "json \<Rightarrow> bool \<Rightarrow> mutation_error + list_patch" where
  "parse_list_patch = parse_patch de_list_patch"

definition parse_task_patch :: "api_env \<Rightarrow> json \<Rightarrow> bool \<Rightarrow> mutation_error + task_patch" where
  "parse_task_patch env = parse_patch (de_task_patch env)"

definition parse_step_patch :: "api_env \<Rightarrow> json \<Rightarrow> bool \<Rightarrow> mutation_error + step_patch" where
  "parse_step_patch env = parse_patch (de_step_patch env)"

definition parse_day_plan_patch :: "api_env \<Rightarrow> json \<Rightarrow> bool \<Rightarrow> mutation_error + day_plan_patch" where
  "parse_day_plan_patch env = parse_patch (de_day_plan_patch env)"

section \<open>Applying a patch\<close>

definition required_field :: "string \<Rightarrow> 'a option option \<Rightarrow> mutation_error + 'a option" where
  "required_field f v =
     (case v of
        None \<Rightarrow> Inr None
      | Some (Some x) \<Rightarrow> Inr (Some x)
      | Some None \<Rightarrow> Inl (me_validation (''field '' @ quoted f @ '' may not be null'')))"

text \<open>\<open>if let Some(value) = ... { values.field = value }\<close>\<close>

definition set_if :: "'a option \<Rightarrow> ('a \<Rightarrow> 'v \<Rightarrow> 'v) \<Rightarrow> 'v \<Rightarrow> 'v" where
  "set_if o' upd v = (case o' of None \<Rightarrow> v | Some x \<Rightarrow> upd x v)"

definition list_patch_apply :: "list_patch \<Rightarrow> list_values \<Rightarrow> mutation_error + list_values" where
  "list_patch_apply p v =
     and_then (required_field ''name'' (lp_name p)) (\<lambda>name.
     let v = set_if name (\<lambda>x v. v\<lparr>lv_name := x\<rparr>) v;
         v = set_if (lp_color p) (\<lambda>x v. v\<lparr>lv_color := x\<rparr>) v;
         v = set_if (lp_icon p) (\<lambda>x v. v\<lparr>lv_icon := x\<rparr>) v in
     and_then (required_field ''rank'' (lp_rank p)) (\<lambda>rank.
     let v = set_if rank (\<lambda>x v. v\<lparr>lv_rank := x\<rparr>) v in
     and_then (list_values_validate v) (\<lambda>_. Inr v)))"

definition task_patch_apply :: "api_env \<Rightarrow> task_patch \<Rightarrow> task_values \<Rightarrow> mutation_error + task_values" where
  "task_patch_apply env p v =
     (let v = set_if (tp_list_id p) (\<lambda>x v. v\<lparr>tv_list_id := x\<rparr>) v in
     and_then (required_field ''title'' (tp_title p)) (\<lambda>title.
     let v = set_if title (\<lambda>x v. v\<lparr>tv_title := x\<rparr>) v in
     and_then (required_field ''note'' (tp_note p)) (\<lambda>note.
     let v = set_if note (\<lambda>x v. v\<lparr>tv_note := x\<rparr>) v in
     and_then (required_field ''status'' (tp_status p)) (\<lambda>status.
     let v = set_if status (\<lambda>x v. v\<lparr>tv_status := x\<rparr>) v in
     and_then (required_field ''important'' (tp_important p)) (\<lambda>important.
     let v = set_if important (\<lambda>x v. v\<lparr>tv_important := x\<rparr>) v in
     and_then (required_field ''tags'' (tp_tags p)) (\<lambda>tags.
     and_then (case tags of
         None \<Rightarrow> Inr v
       | Some ts \<Rightarrow> and_then (normalize_tags (env_lower env) ts) (\<lambda>ts. Inr (v\<lparr>tv_tags := ts\<rparr>))) (\<lambda>v.
     let v = set_if (tp_due_on p) (\<lambda>x v. v\<lparr>tv_due_on := x\<rparr>) v;
         v = set_if (tp_remind_at p) (\<lambda>x v. v\<lparr>tv_remind_at := x\<rparr>) v;
         v = set_if (tp_remind_timezone p) (\<lambda>x v. v\<lparr>tv_remind_timezone := x\<rparr>) v in
     and_then (required_field ''rank'' (tp_rank p)) (\<lambda>rank.
     let v = set_if rank (\<lambda>x v. v\<lparr>tv_rank := x\<rparr>) v;
         v = set_if (tp_series_id p) (\<lambda>x v. v\<lparr>tv_series_id := x\<rparr>) v;
         v = set_if (tp_occurrence_key p) (\<lambda>x v. v\<lparr>tv_occurrence_key := x\<rparr>) v;
         v = set_if (tp_recurrence p) (\<lambda>x v. v\<lparr>tv_recurrence := x\<rparr>) v;
         v = set_if (tp_completed_at p) (\<lambda>x v. v\<lparr>tv_completed_at := x\<rparr>) v in
     and_then (task_values_validate env v) (\<lambda>_. Inr v)))))))))"

definition step_patch_apply :: "step_patch \<Rightarrow> step_values \<Rightarrow> mutation_error + step_values" where
  "step_patch_apply p v =
     and_then (required_field ''task_id'' (sp_task_id p)) (\<lambda>task_id.
     let v = set_if task_id (\<lambda>x v. v\<lparr>sv_task_id := x\<rparr>) v in
     and_then (required_field ''title'' (sp_title p)) (\<lambda>title.
     let v = set_if title (\<lambda>x v. v\<lparr>sv_title := x\<rparr>) v in
     and_then (required_field ''is_completed'' (sp_is_completed p)) (\<lambda>is_completed.
     let v = set_if is_completed (\<lambda>x v. v\<lparr>sv_is_completed := x\<rparr>) v in
     and_then (required_field ''rank'' (sp_rank p)) (\<lambda>rank.
     let v = set_if rank (\<lambda>x v. v\<lparr>sv_rank := x\<rparr>) v in
     and_then (step_values_validate v) (\<lambda>_. Inr v)))))"

definition day_plan_patch_apply ::
  "day_plan_patch \<Rightarrow> day_plan_values \<Rightarrow> mutation_error + day_plan_values" where
  "day_plan_patch_apply p v =
     and_then (required_field ''task_id'' (dp_task_id p)) (\<lambda>task_id.
     let v = set_if task_id (\<lambda>x v. v\<lparr>dv_task_id := x\<rparr>) v in
     and_then (required_field ''local_date'' (dp_local_date p)) (\<lambda>local_date.
     let v = set_if local_date (\<lambda>x v. v\<lparr>dv_local_date := x\<rparr>) v in
     and_then (required_field ''rank'' (dp_rank p)) (\<lambda>rank.
     let v = set_if rank (\<lambda>x v. v\<lparr>dv_rank := x\<rparr>) v in
     and_then (day_plan_values_validate v) (\<lambda>_. Inr v))))"

end
