(* ===== verification/ApiTags.thy ===== *)
theory ApiTags
  imports ApiPatch
begin

text \<open>
  What validation guarantees of stored values (\<open>apps/api/src/mutation.rs\<close>): the tag
  normaliser's result, the texts' lengths, and that an applied patch is always a validated
  one, for all four kinds of entity through one interface.
\<close>

section \<open>Checks as predicates\<close>

definition text_ok :: "string \<Rightarrow> nat \<Rightarrow> bool" where
  "text_ok v n \<longleftrightarrow> \<not> has_nul v \<and> trim v \<noteq> [] \<and> chars_count v \<le> n"

definition opt_text_ok :: "string option \<Rightarrow> nat \<Rightarrow> bool" where
  "opt_text_ok v n \<longleftrightarrow> (case v of None \<Rightarrow> True | Some t \<Rightarrow> \<not> has_nul t \<and> chars_count t \<le> n)"

lemma required_text_ok [result_simps]: "required_text f v n = Inr u \<longleftrightarrow> text_ok v n"
  by (auto simp: required_text_def reject_nul_def text_ok_def result_simps)

lemma optional_text_ok [result_simps]: "optional_text f v n = Inr u \<longleftrightarrow> opt_text_ok v n"
  by (auto simp: optional_text_def reject_nul_def opt_text_ok_def result_simps split: option.splits)

section \<open>Tags\<close>

definition tag_ok :: "string \<Rightarrow> bool" where
  "tag_ok t \<longleftrightarrow> \<not> has_nul t \<and> t \<noteq> [] \<and> trim t = t \<and> chars_count t \<le> MAX_TAG_LENGTH"

lemma trim_clean_tag [simp]: "trim (clean_tag v) = clean_tag v"
  by (simp add: clean_tag_def Let_def)

definition tags_inv :: "(string \<Rightarrow> string) \<Rightarrow> string set \<Rightarrow> string list \<Rightarrow> bool" where
  "tags_inv lower seen ts \<longleftrightarrow>
     list_all tag_ok ts \<and> length ts \<le> MAX_TAGS \<and> distinct (map lower ts) \<and> lower ` set ts = seen"

lemma normalize_tags_loop_inv:
  "normalize_tags_loop lower raws seen ts = Inr out \<Longrightarrow> tags_inv lower seen ts \<Longrightarrow>
     \<exists>seen'. tags_inv lower seen' out"
proof (induction lower raws seen ts rule: normalize_tags_loop.induct)
  case (2 lower raw raws seen ts)
  let ?tag = "clean_tag raw"
  from "2.prems"(1) have ok: "tag_ok ?tag"
    by (auto simp: tag_ok_def reject_nul_def Let_def result_simps split: if_splits)
  show ?case
  proof (cases "lower ?tag \<in> seen")
    case True
    with "2.prems" ok show ?thesis
      by (intro "2.IH"(1)) (auto simp: Let_def tag_ok_def reject_nul_def result_simps)
  next
    case False
    with "2.prems" ok have "tags_inv lower (insert (lower ?tag) seen) (ts @ [?tag])"
      and "normalize_tags_loop lower raws (insert (lower ?tag) seen) (ts @ [?tag]) = Inr out"
      by (auto simp: tags_inv_def Let_def reject_nul_def result_simps)
    with ok False "2.prems" show ?thesis
      by (intro "2.IH"(2)) (auto simp: Let_def tag_ok_def reject_nul_def result_simps)
  qed
qed auto

lemma normalize_tags_inv:
  assumes "normalize_tags lower raws = Inr ts"
  shows "list_all tag_ok ts" and "length ts \<le> MAX_TAGS" and "distinct (map lower ts)"
  using normalize_tags_loop_inv [of lower raws "{}" "[]" ts] assms
  by (auto simp: normalize_tags_def tags_inv_def)

lemma double_hash_not_idempotent:
  "normalize_tags lower [''##work''] = Inr [''#work'']"
  "normalize_tags lower [''#work''] = Inr [''work'']"
  by (simp_all add: normalize_tags_def clean_tag_def reject_nul_def has_nul_def MAX_TAG_LENGTH_def
        MAX_TAGS_def is_cont_def byte_def is_whitespace_def ws_chars_def trim_def trim_chunks_def
        strip_prefix_def starts_with_def chars_count_def Let_def)

section \<open>An applied patch is validated\<close>

text \<open>
  The four patch types share this contract with the sync handler, which validates the values
  again after applying a patch: that second check never fails, and no stored row breaks
  the validated form.
\<close>

locale validated_patch =
  fixes app :: "'p \<Rightarrow> 'v \<Rightarrow> mutation_error + 'v"
    and validate :: "'v \<Rightarrow> mutation_error + unit"
  assumes apply_validates: "app p v = Inr v' \<Longrightarrow> validate v' = Inr ()"
begin

lemma revalidate: "and_then (app p v) (\<lambda>v'. and_then (validate v') (\<lambda>_. k v')) = and_then (app p v) k"
  by (cases "app p v") (auto dest: apply_validates)

end

lemma and_then_validate [result_simps]:
  "and_then m (\<lambda>_. Inr v) = Inr w \<longleftrightarrow> m = Inr () \<and> w = v"
  by (cases m) auto

interpretation list_patches: validated_patch list_patch_apply list_values_validate
  by unfold_locales (auto simp: list_patch_apply_def Let_def and_then_eq_Inr)

interpretation step_patches: validated_patch step_patch_apply step_values_validate
  by unfold_locales (auto simp: step_patch_apply_def Let_def and_then_eq_Inr)

interpretation day_plan_patches: validated_patch day_plan_patch_apply day_plan_values_validate
  by unfold_locales (auto simp: day_plan_patch_apply_def Let_def and_then_eq_Inr)

interpretation task_patches: validated_patch "task_patch_apply env" "task_values_validate env"
  for env
  by unfold_locales (auto simp: task_patch_apply_def Let_def and_then_eq_Inr)

section \<open>What is stored\<close>

definition list_values_ok :: "list_values \<Rightarrow> bool" where
  "list_values_ok v \<longleftrightarrow> text_ok (lv_name v) 120 \<and> opt_text_ok (lv_color v) 64 \<and>
     opt_text_ok (lv_icon v) 128 \<and> text_ok (lv_rank v) 128"

lemma list_values_validate_ok: "list_values_validate v = Inr u \<longleftrightarrow> list_values_ok v"
  by (auto simp: list_values_validate_def list_values_ok_def result_simps)

definition task_values_ok :: "api_env \<Rightarrow> task_values \<Rightarrow> bool" where
  "task_values_ok env v \<longleftrightarrow>
     text_ok (tv_title v) 1000 \<and> \<not> has_nul (tv_note v) \<and> chars_count (tv_note v) \<le> 100000 \<and>
     text_ok (tv_rank v) 128 \<and> normalize_tags (env_lower env) (tv_tags v) = Inr (tv_tags v) \<and>
     (\<forall>tz. tv_remind_timezone v = Some tz \<longrightarrow> text_ok tz 64 \<and> env_tz_ok env tz) \<and>
     (\<forall>k. tv_occurrence_key v = Some k \<longrightarrow> text_ok k 64) \<and>
     (\<forall>r. tv_recurrence v = Some r \<longrightarrow>
        is_object r \<and> length (json_to_string r) \<le> 16 * 1024 \<and> \<not> json_contains_nul r) \<and>
     (\<forall>d. tv_due_on v = Some d \<longrightarrow> MIN_STORABLE_YEAR \<le> date_year d) \<and>
     (\<forall>i. tv_remind_at v = Some i \<or> tv_completed_at v = Some i \<longrightarrow>
        MIN_STORABLE_YEAR \<le> date_year (date_naive i))"

lemma task_values_validate_ok:
  "task_values_validate env v = Inr u \<longleftrightarrow> task_values_ok env v"
  by (auto simp: task_values_validate_def task_values_ok_def result_simps validate_timezone_def
        validate_recurrence_def storable_timestamp_def storable_date_def opt_text_ok_def
        not_less split: option.splits)

end
