(* ===== verification/ApiStore.thy ===== *)
theory ApiStore
  imports ApiTags
begin

text \<open>
  The server's tables as the sync handler of \<open>apps/api/src/sync.rs\<close> uses them, with the
  constraints of \<open>db/postgres/migrations\<close> that its statements can hit: the global primary
  keys, the unique indexes on recurrence identity and on a task's day, and the foreign keys
  to lists and tasks. A transaction is a function on the whole database whose error result
  leaves no new database, as the rollback does; the locks the code takes
  (\<open>users\<close>, \<open>account_sync_state\<close>, \<open>devices\<close>, all \<open>FOR UPDATE\<close>) serialise the transactions
  of one account, so each is one step.
\<close>

section \<open>Rows\<close>

text \<open>What the four entity tables have in common, around the entity's own columns.\<close>

record 'v row =
  r_user :: uuid
  r_id :: uuid
  r_val :: 'v
  r_rev :: int
  r_updated :: instant
  r_deleted :: "instant option"

definition row_key :: "'v row \<Rightarrow> uuid \<times> uuid" where
  "row_key r = (r_user r, r_id r)"

text \<open>\<open>TaskRow\<close>: the columns of \<open>tasks\<close>, with the status still the stored text.\<close>

record task_cols =
  tc_list_id :: "uuid option"
  tc_title :: string
  tc_note :: string
  tc_status :: string
  tc_important :: bool
  tc_tags :: "string list"
  tc_due_on :: "date option"
  tc_remind_at :: "instant option"
  tc_remind_timezone :: "string option"
  tc_rank :: string
  tc_series_id :: "uuid option"
  tc_occurrence_key :: "string option"
  tc_recurrence :: "json option"
  tc_completed_at :: "instant option"

record user_row =
  us_id :: uuid
  us_deleted :: "instant option"

record sync_state =
  ss_user :: uuid
  ss_next :: int
  ss_min :: int

record device_row =
  dev_user :: uuid
  dev_id :: uuid
  dev_last_seq :: int
  dev_seen :: "instant option"
  dev_revoked :: "instant option"

record receipt_row =
  rc_op :: uuid
  rc_user :: uuid
  rc_device :: uuid
  rc_client_seq :: int
  rc_server_seq :: "int option"
  rc_status :: string
  rc_error :: "string option"

record change_row =
  cr_user :: uuid
  cr_seq :: int
  cr_op :: uuid
  cr_entity :: string
  cr_entity_id :: uuid
  cr_kind :: string
  cr_patch :: json

record api_db =
  db_users :: "user_row list"
  db_states :: "sync_state list"
  db_devices :: "device_row list"
  db_lists :: "list_values row list"
  db_tasks :: "task_cols row list"
  db_steps :: "step_values row list"
  db_plans :: "day_plan_values row list"
  db_receipts :: "receipt_row list"
  db_changes :: "change_row list"

definition device_key :: "device_row \<Rightarrow> uuid \<times> uuid" where
  "device_key d = (dev_user d, dev_id d)"

section \<open>Failures\<close>

text \<open>\<open>sqlx::Error\<close>: a database error with its SQLSTATE, or any other failure.\<close>

datatype sqlx_error = Database string | OtherSqlx

datatype apply_failure = Reject mutation_error | DbFailure sqlx_error

fun is_constraint_violation :: "sqlx_error \<Rightarrow> bool" where
  "is_constraint_violation (Database code) = starts_with code ''23''"
| "is_constraint_violation OtherSqlx = False"

definition reject :: "mutation_error + 'a \<Rightarrow> apply_failure + 'a" where
  "reject m = map_err Reject m"

definition unique_violation :: apply_failure where
  "unique_violation = DbFailure (Database ''23505'')"

definition foreign_key_violation :: apply_failure where
  "foreign_key_violation = DbFailure (Database ''23503'')"

lemma reject_eq_Inr [result_simps]: "reject m = Inr x \<longleftrightarrow> m = Inr x"
  by (simp add: reject_def result_simps)

lemma reject_eq_Inl [result_simps]: "reject m = Inl e \<longleftrightarrow> (\<exists>e'. m = Inl e' \<and> e = Reject e')"
  by (auto simp: reject_def result_simps)

lemma reject_simps [simp]: "reject (Inr x) = Inr x" "reject (Inl e) = Inl (Reject e)"
  by (simp_all add: reject_def)

section \<open>Statements on the entity tables\<close>

definition select_row :: "'v row list \<Rightarrow> uuid \<Rightarrow> uuid \<Rightarrow> 'v row option" where
  "select_row t u i = lookup_row row_key t (u, i)"

definition id_taken :: "'v row list \<Rightarrow> uuid \<Rightarrow> bool" where
  "id_taken t i \<longleftrightarrow> lookup_row r_id t i \<noteq> None"

definition new_row :: "instant \<Rightarrow> uuid \<Rightarrow> uuid \<Rightarrow> 'v \<Rightarrow> int \<Rightarrow> 'v row" where
  "new_row now u i v seq =
     \<lparr>r_user = u, r_id = i, r_val = v, r_rev = seq, r_updated = now, r_deleted = None\<rparr>"

text \<open>\<open>UPDATE ... SET columns, server_rev, updated_at\<close>, clearing \<open>deleted_at\<close> on a restore.\<close>

definition write_row :: "instant \<Rightarrow> uuid \<Rightarrow> uuid \<Rightarrow> 'v \<Rightarrow> int \<Rightarrow> bool \<Rightarrow> 'v row list \<Rightarrow> 'v row list" where
  "write_row now u i v seq restoring t =
     update_rows row_key (u, i)
       (\<lambda>r. r\<lparr>r_val := v, r_deleted := (if restoring then None else r_deleted r),
               r_rev := seq, r_updated := now\<rparr>) t"

text \<open>\<open>UPDATE ... SET deleted_at = now(), updated_at = now(), server_rev\<close>\<close>

definition tombstone_row :: "instant \<Rightarrow> uuid \<Rightarrow> uuid \<Rightarrow> int \<Rightarrow> 'v row list \<Rightarrow> 'v row list" where
  "tombstone_row now u i seq t =
     update_rows row_key (u, i) (\<lambda>r. r\<lparr>r_deleted := Some now, r_updated := now, r_rev := seq\<rparr>) t"

definition task_cols_of :: "task_values \<Rightarrow> task_cols" where
  "task_cols_of v =
     \<lparr>tc_list_id = tv_list_id v, tc_title = tv_title v, tc_note = tv_note v,
      tc_status = status_as_str (tv_status v), tc_important = tv_important v,
      tc_tags = tv_tags v, tc_due_on = tv_due_on v, tc_remind_at = tv_remind_at v,
      tc_remind_timezone = tv_remind_timezone v, tc_rank = tv_rank v,
      tc_series_id = tv_series_id v, tc_occurrence_key = tv_occurrence_key v,
      tc_recurrence = tv_recurrence v, tc_completed_at = tv_completed_at v\<rparr>"

definition task_values_of :: "task_cols \<Rightarrow> apply_failure + task_values" where
  "task_values_of c =
     and_then (ok_or (status_parse (tc_status c))
       (Reject (me_invalid_state ''stored task status is invalid''))) (\<lambda>status.
     Inr \<lparr>tv_list_id = tc_list_id c, tv_title = tc_title c, tv_note = tc_note c,
          tv_status = status, tv_important = tc_important c, tv_tags = tc_tags c,
          tv_due_on = tc_due_on c, tv_remind_at = tc_remind_at c,
          tv_remind_timezone = tc_remind_timezone c, tv_rank = tc_rank c,
          tv_series_id = tc_series_id c, tv_occurrence_key = tc_occurrence_key c,
          tv_recurrence = tc_recurrence c, tv_completed_at = tc_completed_at c\<rparr>)"

text \<open>\<open>idx_tasks_recurrence_identity\<close>: one task per series and occurrence of an account.\<close>

definition same_occurrence :: "uuid \<Rightarrow> uuid \<Rightarrow> task_values \<Rightarrow> task_cols row \<Rightarrow> bool" where
  "same_occurrence u i v r \<longleftrightarrow>
     r_user r = u \<and> r_id r \<noteq> i \<and> tv_series_id v \<noteq> None \<and> tv_occurrence_key v \<noteq> None \<and>
     tc_series_id (r_val r) = tv_series_id v \<and> tc_occurrence_key (r_val r) = tv_occurrence_key v"

definition list_ref_ok :: "api_db \<Rightarrow> uuid \<Rightarrow> uuid option \<Rightarrow> bool" where
  "list_ref_ok db u l = (case l of None \<Rightarrow> True | Some i \<Rightarrow> select_row (db_lists db) u i \<noteq> None)"

definition task_constraints :: "api_db \<Rightarrow> uuid \<Rightarrow> uuid \<Rightarrow> task_values \<Rightarrow> apply_failure + unit" where
  "task_constraints db u i v =
     and_then (fail_if (list_ex (same_occurrence u i v) (db_tasks db)) unique_violation) (\<lambda>_.
     fail_if (\<not> list_ref_ok db u (tv_list_id v)) foreign_key_violation)"

definition insert_task ::
  "instant \<Rightarrow> uuid \<Rightarrow> uuid \<Rightarrow> task_values \<Rightarrow> int \<Rightarrow> api_db \<Rightarrow> apply_failure + api_db" where
  "insert_task now u i v seq db =
     and_then (fail_if (id_taken (db_tasks db) i) unique_violation) (\<lambda>_.
     and_then (task_constraints db u i v) (\<lambda>_.
     Inr (db\<lparr>db_tasks := db_tasks db @ [new_row now u i (task_cols_of v) seq]\<rparr>)))"

definition update_task ::
  "instant \<Rightarrow> uuid \<Rightarrow> uuid \<Rightarrow> task_values \<Rightarrow> int \<Rightarrow> bool \<Rightarrow> api_db \<Rightarrow> apply_failure + api_db" where
  "update_task now u i v seq restoring db =
     and_then (task_constraints db u i v) (\<lambda>_.
     Inr (db\<lparr>db_tasks := write_row now u i (task_cols_of v) seq restoring (db_tasks db)\<rparr>))"

definition task_ref_ok :: "api_db \<Rightarrow> uuid \<Rightarrow> uuid \<Rightarrow> bool" where
  "task_ref_ok db u t \<longleftrightarrow> select_row (db_tasks db) u t \<noteq> None"

definition insert_step ::
  "instant \<Rightarrow> uuid \<Rightarrow> uuid \<Rightarrow> step_values \<Rightarrow> int \<Rightarrow> api_db \<Rightarrow> apply_failure + api_db" where
  "insert_step now u i v seq db =
     and_then (fail_if (id_taken (db_steps db) i) unique_violation) (\<lambda>_.
     and_then (fail_if (\<not> task_ref_ok db u (sv_task_id v)) foreign_key_violation) (\<lambda>_.
     Inr (db\<lparr>db_steps := db_steps db @ [new_row now u i v seq]\<rparr>)))"

definition update_step ::
  "instant \<Rightarrow> uuid \<Rightarrow> uuid \<Rightarrow> step_values \<Rightarrow> int \<Rightarrow> bool \<Rightarrow> api_db \<Rightarrow> apply_failure + api_db" where
  "update_step now u i v seq restoring db =
     and_then (fail_if (\<not> task_ref_ok db u (sv_task_id v)) foreign_key_violation) (\<lambda>_.
     Inr (db\<lparr>db_steps := write_row now u i v seq restoring (db_steps db)\<rparr>))"

text \<open>\<open>UNIQUE (user_id, task_id, local_date)\<close> counts tombstoned plans too.\<close>

definition same_slot :: "uuid \<Rightarrow> uuid \<Rightarrow> day_plan_values \<Rightarrow> day_plan_values row \<Rightarrow> bool" where
  "same_slot u i v r \<longleftrightarrow>
     r_user r = u \<and> r_id r \<noteq> i \<and> dv_task_id (r_val r) = dv_task_id v \<and>
     dv_local_date (r_val r) = dv_local_date v"

definition plan_constraints :: "api_db \<Rightarrow> uuid \<Rightarrow> uuid \<Rightarrow> day_plan_values \<Rightarrow> apply_failure + unit" where
  "plan_constraints db u i v =
     and_then (fail_if (list_ex (same_slot u i v) (db_plans db)) unique_violation) (\<lambda>_.
     fail_if (\<not> task_ref_ok db u (dv_task_id v)) foreign_key_violation)"

definition insert_day_plan ::
  "instant \<Rightarrow> uuid \<Rightarrow> uuid \<Rightarrow> day_plan_values \<Rightarrow> int \<Rightarrow> api_db \<Rightarrow> apply_failure + api_db" where
  "insert_day_plan now u i v seq db =
     and_then (fail_if (id_taken (db_plans db) i) unique_violation) (\<lambda>_.
     and_then (plan_constraints db u i v) (\<lambda>_.
     Inr (db\<lparr>db_plans := db_plans db @ [new_row now u i v seq]\<rparr>)))"

definition update_day_plan ::
  "instant \<Rightarrow> uuid \<Rightarrow> uuid \<Rightarrow> day_plan_values \<Rightarrow> int \<Rightarrow> bool \<Rightarrow> api_db \<Rightarrow> apply_failure + api_db" where
  "update_day_plan now u i v seq restoring db =
     and_then (plan_constraints db u i v) (\<lambda>_.
     Inr (db\<lparr>db_plans := write_row now u i v seq restoring (db_plans db)\<rparr>))"

definition insert_list ::
  "instant \<Rightarrow> uuid \<Rightarrow> uuid \<Rightarrow> list_values \<Rightarrow> int \<Rightarrow> api_db \<Rightarrow> apply_failure + api_db" where
  "insert_list now u i v seq db =
     and_then (fail_if (id_taken (db_lists db) i) unique_violation) (\<lambda>_.
     Inr (db\<lparr>db_lists := db_lists db @ [new_row now u i v seq]\<rparr>))"

definition update_list ::
  "instant \<Rightarrow> uuid \<Rightarrow> uuid \<Rightarrow> list_values \<Rightarrow> int \<Rightarrow> bool \<Rightarrow> api_db \<Rightarrow> apply_failure + api_db" where
  "update_list now u i v seq restoring db =
     Inr (db\<lparr>db_lists := write_row now u i v seq restoring (db_lists db)\<rparr>)"

section \<open>Parents\<close>

definition ensure_active_list :: "api_db \<Rightarrow> uuid \<Rightarrow> uuid option \<Rightarrow> apply_failure + unit" where
  "ensure_active_list db u l =
     (case l of
        None \<Rightarrow> Inr ()
      | Some i \<Rightarrow>
          fail_if (\<not> (case select_row (db_lists db) u i of None \<Rightarrow> False | Some r \<Rightarrow> r_deleted r = None))
            (Reject (me_invalid_parent ''list_id must reference an active list owned by this account'')))"

definition ensure_active_task :: "api_db \<Rightarrow> uuid \<Rightarrow> uuid \<Rightarrow> apply_failure + unit" where
  "ensure_active_task db u t =
     fail_if (\<not> (case select_row (db_tasks db) u t of None \<Rightarrow> False | Some r \<Rightarrow> r_deleted r = None))
       (Reject (me_invalid_parent ''task_id must reference an active task owned by this account''))"

definition require_present_fields :: "json \<Rightarrow> string list \<Rightarrow> mutation_error + unit" where
  "require_present_fields p req =
     and_then (ok_or (as_object p) (me_validation ''patch must be a JSON object'')) (\<lambda>m.
     (case find (\<lambda>f. jget m f = None) req of
        None \<Rightarrow> Inr ()
      | Some f \<Rightarrow> Inl (me_validation (''field '' @ quoted f @ '' is required for create''))))"

definition ensure_empty_patch :: "json \<Rightarrow> mutation_error + unit" where
  "ensure_empty_patch p =
     (case as_object p of
        Some m \<Rightarrow> fail_if (m \<noteq> []) (me_validation ''delete patches must be an empty object'')
      | None \<Rightarrow> Inl (me_validation ''patch must be a JSON object''))"

end
