(* ===== verification/ApiApply.thy ===== *)
theory ApiApply
  imports ApiStore
begin

text \<open>
  \<open>apply_mutation\<close> of \<open>apps/api/src/sync.rs\<close>: one mutation of one entity, inside the savepoint
  the sync loop opens. Each handler returns the patch to log and the new database, or the
  rejection (or database error) that rolls the savepoint back.
\<close>

record mutation =
  mu_op :: uuid
  mu_client_seq :: int
  mu_entity :: entity_type
  mu_entity_id :: uuid
  mu_kind :: mutation_kind
  mu_patch :: json

text \<open>The row a patch, delete or restore starts from.\<close>

definition live_row :: "'v row option \<Rightarrow> apply_failure + 'v row" where
  "live_row r =
     and_then (ok_or r (Reject me_not_found)) (\<lambda>r.
     and_then (fail_if (r_deleted r \<noteq> None) (Reject me_tombstoned)) (\<lambda>_. Inr r))"

definition dead_row :: "'v row option \<Rightarrow> apply_failure + 'v row" where
  "dead_row r =
     and_then (ok_or r (Reject me_not_found)) (\<lambda>r.
     and_then (fail_if (r_deleted r = None) (Reject (me_invalid_state ''entity is not deleted''))) (\<lambda>_.
     Inr r))"

definition apply_list ::
  "instant \<Rightarrow> uuid \<Rightarrow> mutation \<Rightarrow> int \<Rightarrow> api_db \<Rightarrow> apply_failure + json \<times> api_db" where
  "apply_list now u m seq db =
     (let i = mu_entity_id m; row = select_row (db_lists db) u i in
      case mu_kind m of
        KCreate \<Rightarrow>
          and_then (reject (require_present_fields (mu_patch m) [''name''])) (\<lambda>_.
          and_then (fail_if (row \<noteq> None) (Reject me_already_exists)) (\<lambda>_.
          and_then (reject (parse_list_patch (mu_patch m) True)) (\<lambda>patch.
          and_then (reject (list_patch_apply patch list_values_empty)) (\<lambda>values.
          and_then (reject (list_values_validate values)) (\<lambda>_.
          and_then (insert_list now u i values seq db) (\<lambda>db'.
          Inr (list_values_change_patch values, db')))))))
      | KPatch \<Rightarrow>
          and_then (live_row row) (\<lambda>r.
          and_then (reject (parse_list_patch (mu_patch m) False)) (\<lambda>patch.
          and_then (reject (list_patch_apply patch (r_val r))) (\<lambda>values.
          and_then (reject (list_values_validate values)) (\<lambda>_.
          and_then (update_list now u i values seq False db) (\<lambda>db'.
          Inr (mu_patch m, db'))))))
      | KDelete \<Rightarrow>
          and_then (live_row row) (\<lambda>_.
          and_then (reject (ensure_empty_patch (mu_patch m))) (\<lambda>_.
          Inr (JObj [], db\<lparr>db_lists := tombstone_row now u i seq (db_lists db)\<rparr>)))
      | KRestore \<Rightarrow>
          and_then (dead_row row) (\<lambda>r.
          and_then (reject (parse_list_patch (mu_patch m) True)) (\<lambda>patch.
          and_then (reject (list_patch_apply patch (r_val r))) (\<lambda>values.
          and_then (reject (list_values_validate values)) (\<lambda>_.
          and_then (update_list now u i values seq True db) (\<lambda>db'.
          Inr (mu_patch m, db')))))))"

text \<open>The logged patch of a task carries the normalised tags.\<close>

definition task_patch_change :: "mutation \<Rightarrow> task_values \<Rightarrow> json" where
  "task_patch_change m values =
     (case mu_patch m of
        JObj o' \<Rightarrow>
          if jget o' ''tags'' \<noteq> None then JObj (jput ''tags'' (JArr (map JStr (tv_tags values))) o')
          else JObj o'
      | p \<Rightarrow> p)"

definition apply_task ::
  "api_env \<Rightarrow> instant \<Rightarrow> uuid \<Rightarrow> mutation \<Rightarrow> int \<Rightarrow> api_db \<Rightarrow> apply_failure + json \<times> api_db" where
  "apply_task env now u m seq db =
     (let i = mu_entity_id m; row = select_row (db_tasks db) u i in
      case mu_kind m of
        KCreate \<Rightarrow>
          and_then (reject (require_present_fields (mu_patch m) [''title''])) (\<lambda>_.
          and_then (fail_if (row \<noteq> None) (Reject me_already_exists)) (\<lambda>_.
          and_then (reject (parse_task_patch env (mu_patch m) True)) (\<lambda>patch.
          and_then (reject (task_patch_apply env patch task_values_empty)) (\<lambda>values.
          and_then (reject (task_values_validate env values)) (\<lambda>_.
          and_then (ensure_active_list db u (tv_list_id values)) (\<lambda>_.
          and_then (insert_task now u i values seq db) (\<lambda>db'.
          Inr (task_values_change_patch env values, db'))))))))
      | KPatch \<Rightarrow>
          and_then (live_row row) (\<lambda>r.
          and_then (reject (parse_task_patch env (mu_patch m) False)) (\<lambda>patch.
          and_then (task_values_of (r_val r)) (\<lambda>values.
          and_then (reject (task_patch_apply env patch values)) (\<lambda>values.
          and_then (reject (task_values_validate env values)) (\<lambda>_.
          and_then (ensure_active_list db u (tv_list_id values)) (\<lambda>_.
          and_then (update_task now u i values seq False db) (\<lambda>db'.
          Inr (task_patch_change m values, db'))))))))
      | KDelete \<Rightarrow>
          and_then (live_row row) (\<lambda>_.
          and_then (reject (ensure_empty_patch (mu_patch m))) (\<lambda>_.
          Inr (JObj [], db\<lparr>db_tasks := tombstone_row now u i seq (db_tasks db)\<rparr>)))
      | KRestore \<Rightarrow>
          and_then (dead_row row) (\<lambda>r.
          and_then (reject (parse_task_patch env (mu_patch m) True)) (\<lambda>patch.
          and_then (task_values_of (r_val r)) (\<lambda>values.
          and_then (reject (task_patch_apply env patch values)) (\<lambda>values.
          and_then (reject (task_values_validate env values)) (\<lambda>_.
          and_then (ensure_active_list db u (tv_list_id values)) (\<lambda>_.
          and_then (update_task now u i values seq True db) (\<lambda>db'.
          Inr (task_patch_change m values, db')))))))))"

definition task_id_required :: mutation_error where
  "task_id_required = me_validation (''field '' @ quoted ''task_id'' @ '' is required'')"

definition apply_step ::
  "api_env \<Rightarrow> instant \<Rightarrow> uuid \<Rightarrow> mutation \<Rightarrow> int \<Rightarrow> api_db \<Rightarrow> apply_failure + json \<times> api_db" where
  "apply_step env now u m seq db =
     (let i = mu_entity_id m; row = select_row (db_steps db) u i in
      case mu_kind m of
        KCreate \<Rightarrow>
          and_then (reject (require_present_fields (mu_patch m) [''task_id'', ''title''])) (\<lambda>_.
          and_then (fail_if (row \<noteq> None) (Reject me_already_exists)) (\<lambda>_.
          and_then (reject (parse_step_patch env (mu_patch m) True)) (\<lambda>patch.
          and_then (reject (step_patch_apply patch (step_values_empty 0))) (\<lambda>values.
          and_then (fail_if (sv_task_id values = 0) (Reject task_id_required)) (\<lambda>_.
          and_then (reject (step_values_validate values)) (\<lambda>_.
          and_then (ensure_active_task db u (sv_task_id values)) (\<lambda>_.
          and_then (insert_step now u i values seq db) (\<lambda>db'.
          Inr (step_values_change_patch env values, db')))))))))
      | KPatch \<Rightarrow>
          and_then (live_row row) (\<lambda>r.
          and_then (reject (parse_step_patch env (mu_patch m) False)) (\<lambda>patch.
          and_then (reject (step_patch_apply patch (r_val r))) (\<lambda>values.
          and_then (reject (step_values_validate values)) (\<lambda>_.
          and_then (ensure_active_task db u (sv_task_id values)) (\<lambda>_.
          and_then (update_step now u i values seq False db) (\<lambda>db'.
          Inr (mu_patch m, db')))))))
      | KDelete \<Rightarrow>
          and_then (live_row row) (\<lambda>_.
          and_then (reject (ensure_empty_patch (mu_patch m))) (\<lambda>_.
          Inr (JObj [], db\<lparr>db_steps := tombstone_row now u i seq (db_steps db)\<rparr>)))
      | KRestore \<Rightarrow>
          and_then (dead_row row) (\<lambda>r.
          and_then (reject (parse_step_patch env (mu_patch m) True)) (\<lambda>patch.
          and_then (reject (step_patch_apply patch (r_val r))) (\<lambda>values.
          and_then (reject (step_values_validate values)) (\<lambda>_.
          and_then (ensure_active_task db u (sv_task_id values)) (\<lambda>_.
          and_then (update_step now u i values seq True db) (\<lambda>db'.
          Inr (mu_patch m, db'))))))))"

definition apply_day_plan ::
  "api_env \<Rightarrow> instant \<Rightarrow> uuid \<Rightarrow> mutation \<Rightarrow> int \<Rightarrow> api_db \<Rightarrow> apply_failure + json \<times> api_db" where
  "apply_day_plan env now u m seq db =
     (let i = mu_entity_id m; row = select_row (db_plans db) u i in
      case mu_kind m of
        KCreate \<Rightarrow>
          and_then (reject (require_present_fields (mu_patch m) [''task_id'', ''local_date''])) (\<lambda>_.
          and_then (fail_if (row \<noteq> None) (Reject me_already_exists)) (\<lambda>_.
          and_then (reject (parse_day_plan_patch env (mu_patch m) True)) (\<lambda>patch.
          and_then (reject (day_plan_patch_apply patch (day_plan_values_empty env 0))) (\<lambda>values.
          and_then (fail_if (dv_task_id values = 0) (Reject task_id_required)) (\<lambda>_.
          and_then (reject (day_plan_values_validate values)) (\<lambda>_.
          and_then (ensure_active_task db u (dv_task_id values)) (\<lambda>_.
          and_then (insert_day_plan now u i values seq db) (\<lambda>db'.
          Inr (day_plan_values_change_patch env values, db')))))))))
      | KPatch \<Rightarrow>
          and_then (live_row row) (\<lambda>r.
          and_then (reject (parse_day_plan_patch env (mu_patch m) False)) (\<lambda>patch.
          and_then (reject (day_plan_patch_apply patch (r_val r))) (\<lambda>values.
          and_then (reject (day_plan_values_validate values)) (\<lambda>_.
          and_then (ensure_active_task db u (dv_task_id values)) (\<lambda>_.
          and_then (update_day_plan now u i values seq False db) (\<lambda>db'.
          Inr (mu_patch m, db')))))))
      | KDelete \<Rightarrow>
          and_then (live_row row) (\<lambda>_.
          and_then (reject (ensure_empty_patch (mu_patch m))) (\<lambda>_.
          Inr (JObj [], db\<lparr>db_plans := tombstone_row now u i seq (db_plans db)\<rparr>)))
      | KRestore \<Rightarrow>
          and_then (dead_row row) (\<lambda>r.
          and_then (reject (parse_day_plan_patch env (mu_patch m) True)) (\<lambda>patch.
          and_then (reject (day_plan_patch_apply patch (r_val r))) (\<lambda>values.
          and_then (reject (day_plan_values_validate values)) (\<lambda>_.
          and_then (ensure_active_task db u (dv_task_id values)) (\<lambda>_.
          and_then (update_day_plan now u i values seq True db) (\<lambda>db'.
          Inr (mu_patch m, db'))))))))"

definition apply_mutation ::
  "api_env \<Rightarrow> instant \<Rightarrow> uuid \<Rightarrow> mutation \<Rightarrow> int \<Rightarrow> api_db \<Rightarrow> apply_failure + json \<times> api_db" where
  "apply_mutation env now u m seq db =
     (case mu_entity m of
        EList \<Rightarrow> apply_list now u m seq db
      | ETask \<Rightarrow> apply_task env now u m seq db
      | EStep \<Rightarrow> apply_step env now u m seq db
      | EDayPlan \<Rightarrow> apply_day_plan env now u m seq db)"

end
