(* ===== verification/ApiLife.thy ===== *)
theory ApiLife
  imports ApiApply
begin

text \<open>
  The life of an entity on the server, as the protocol promises it: created once, patched
  and deleted while live, restored while tombstoned, and never removed. \<open>life_step\<close> is that
  contract; the lemmas show that \<open>apply_mutation\<close> implements it for all four tables, touches
  no other entity, and answers a broken guard with its own error. The locale
  \<open>life_log\<close> proves the consequences for any sequence of mutations once.
\<close>

section \<open>The abstract machine\<close>

datatype life = Absent | Live | Tombstoned

fun life_step :: "mutation_kind \<Rightarrow> life \<Rightarrow> life option" where
  "life_step KCreate Absent = Some Live"
| "life_step KPatch Live = Some Live"
| "life_step KDelete Live = Some Tombstoned"
| "life_step KRestore Tombstoned = Some Live"
| "life_step _ _ = None"

fun_cases life_step_SomeE: "life_step k l = Some l'"

text \<open>
  A log of mutations over a state whose entities have lives: each accepted mutation moves its
  own entity along \<open>life_step\<close> and no other, and a refused one changes nothing (the savepoint).
\<close>

locale life_log =
  fixes step :: "'m \<Rightarrow> 's \<Rightarrow> 'e + 's"
    and life :: "'s \<Rightarrow> 'k \<Rightarrow> life"
    and key_of :: "'m \<Rightarrow> 'k"
    and kind_of :: "'m \<Rightarrow> mutation_kind"
  assumes step_own: "step m s = Inr s' \<Longrightarrow>
      life_step (kind_of m) (life s (key_of m)) = Some (life s' (key_of m))"
    and step_other: "step m s = Inr s' \<Longrightarrow> k \<noteq> key_of m \<Longrightarrow> life s' k = life s k"
begin

lemma never_removed: "step m s = Inr s' \<Longrightarrow> life s k \<noteq> Absent \<Longrightarrow> life s' k \<noteq> Absent"
  using step_own [of m s s'] step_other [of m s s' k]
  by (cases "k = key_of m") (auto elim!: life_step_SomeE)

lemma tombstone_kept:
  "step m s = Inr s' \<Longrightarrow> life s k = Tombstoned \<Longrightarrow> \<not> (key_of m = k \<and> kind_of m = KRestore) \<Longrightarrow>
     life s' k = Tombstoned"
  using step_own [of m s s'] step_other [of m s s' k]
  by (cases "k = key_of m") (auto elim!: life_step_SomeE)

lemma created_once:
  "step m s = Inr s' \<Longrightarrow> life s (key_of m) \<noteq> Absent \<Longrightarrow> kind_of m \<noteq> KCreate"
  using step_own [of m s s'] by (auto elim!: life_step_SomeE)

end

section \<open>Lives of rows\<close>

definition life_of_row :: "'v row option \<Rightarrow> life" where
  "life_of_row r =
     (case r of None \<Rightarrow> Absent | Some r \<Rightarrow> if r_deleted r = None then Live else Tombstoned)"

definition life_in :: "'v row list \<Rightarrow> uuid \<times> uuid \<Rightarrow> life" where
  "life_in t k = life_of_row (lookup_row row_key t k)"

type_synonym entity_key = "entity_type \<times> uuid \<times> uuid"

fun entity_life :: "api_db \<Rightarrow> entity_key \<Rightarrow> life" where
  "entity_life db (EList, k) = life_in (db_lists db) k"
| "entity_life db (ETask, k) = life_in (db_tasks db) k"
| "entity_life db (EStep, k) = life_in (db_steps db) k"
| "entity_life db (EDayPlan, k) = life_in (db_plans db) k"

definition mutation_key :: "uuid \<Rightarrow> mutation \<Rightarrow> entity_key" where
  "mutation_key u m = (mu_entity m, u, mu_entity_id m)"

lemma row_key_simps [simp]:
  "row_key (r\<lparr>r_val := v\<rparr>) = row_key r" "row_key (r\<lparr>r_deleted := d\<rparr>) = row_key r"
  "row_key (r\<lparr>r_updated := x\<rparr>) = row_key r" "row_key (r\<lparr>r_rev := q\<rparr>) = row_key r"
  "row_key (new_row now u i v seq) = (u, i)"
  by (simp_all add: row_key_def new_row_def)

lemma lookup_write_row:
  "lookup_row row_key (write_row now u i v seq restoring t) k =
     (if k = (u, i)
      then map_option (\<lambda>r. r\<lparr>r_val := v, r_deleted := (if restoring then None else r_deleted r),
                             r_rev := seq, r_updated := now\<rparr>) (lookup_row row_key t k)
      else lookup_row row_key t k)"
  unfolding write_row_def by (subst lookup_row_update) auto

lemma lookup_tombstone_row:
  "lookup_row row_key (tombstone_row now u i seq t) k =
     (if k = (u, i)
      then map_option (\<lambda>r. r\<lparr>r_deleted := Some now, r_updated := now, r_rev := seq\<rparr>)
             (lookup_row row_key t k)
      else lookup_row row_key t k)"
  unfolding tombstone_row_def by (subst lookup_row_update) auto

lemma life_write_row:
  "life_in (write_row now u i v seq restoring t) k =
     (if k = (u, i) \<and> restoring \<and> life_in t k \<noteq> Absent then Live else life_in t k)"
  by (auto simp: life_in_def lookup_write_row life_of_row_def split: option.splits)

lemma life_tombstone_row:
  "life_in (tombstone_row now u i seq t) k =
     (if k = (u, i) \<and> life_in t k \<noteq> Absent then Tombstoned else life_in t k)"
  by (auto simp: life_in_def lookup_tombstone_row life_of_row_def split: option.splits)

lemma life_new_row:
  "life_in (t @ [new_row now u i v seq]) k =
     (if k = (u, i) \<and> life_in t k = Absent then Live else life_in t k)"
  by (auto simp: life_in_def lookup_row_append life_of_row_def new_row_def row_key_def
        split: option.splits)

lemma live_row_Inr [result_simps]: "live_row x = Inr r \<longleftrightarrow> x = Some r \<and> r_deleted r = None"
  by (cases x) (auto simp: live_row_def and_then_eq_Inr fail_if_eq_Inr)

lemma dead_row_Inr [result_simps]: "dead_row x = Inr r \<longleftrightarrow> x = Some r \<and> r_deleted r \<noteq> None"
  by (cases x) (auto simp: dead_row_def and_then_eq_Inr fail_if_eq_Inr)

lemma life_in_select:
  "select_row t u i = None \<Longrightarrow> life_in t (u, i) = Absent"
  "select_row t u i = Some r \<Longrightarrow> life_in t (u, i) = (if r_deleted r = None then Live else Tombstoned)"
  by (simp_all add: select_row_def life_in_def life_of_row_def)

lemmas life_rows = life_write_row life_tombstone_row life_new_row

lemmas statement_defs =
  insert_list_def update_list_def insert_task_def update_task_def insert_step_def update_step_def
  insert_day_plan_def update_day_plan_def

lemmas handler_defs = apply_list_def apply_task_def apply_step_def apply_day_plan_def

section \<open>The handlers refine the machine\<close>

lemma apply_list_life:
  assumes "apply_list now u m seq db = Inr (p, db')"
  shows "life_step (mu_kind m) (life_in (db_lists db) (u, mu_entity_id m)) =
           Some (life_in (db_lists db') (u, mu_entity_id m))"
    and "k \<noteq> (u, mu_entity_id m) \<Longrightarrow> life_in (db_lists db') k = life_in (db_lists db) k"
    and "db_tasks db' = db_tasks db" "db_steps db' = db_steps db" "db_plans db' = db_plans db"
  using assms
  by (cases "mu_kind m";
      auto simp: apply_list_def Let_def result_simps statement_defs life_rows life_in_select)+

lemma apply_task_life:
  assumes "apply_task env now u m seq db = Inr (p, db')"
  shows "life_step (mu_kind m) (life_in (db_tasks db) (u, mu_entity_id m)) =
           Some (life_in (db_tasks db') (u, mu_entity_id m))"
    and "k \<noteq> (u, mu_entity_id m) \<Longrightarrow> life_in (db_tasks db') k = life_in (db_tasks db) k"
    and "db_lists db' = db_lists db" "db_steps db' = db_steps db" "db_plans db' = db_plans db"
  using assms
  by (cases "mu_kind m";
      auto simp: apply_task_def Let_def result_simps statement_defs life_rows life_in_select)+

lemma apply_step_life:
  assumes "apply_step env now u m seq db = Inr (p, db')"
  shows "life_step (mu_kind m) (life_in (db_steps db) (u, mu_entity_id m)) =
           Some (life_in (db_steps db') (u, mu_entity_id m))"
    and "k \<noteq> (u, mu_entity_id m) \<Longrightarrow> life_in (db_steps db') k = life_in (db_steps db) k"
    and "db_lists db' = db_lists db" "db_tasks db' = db_tasks db" "db_plans db' = db_plans db"
  using assms
  by (cases "mu_kind m";
      auto simp: apply_step_def Let_def result_simps statement_defs life_rows life_in_select)+

lemma apply_day_plan_life:
  assumes "apply_day_plan env now u m seq db = Inr (p, db')"
  shows "life_step (mu_kind m) (life_in (db_plans db) (u, mu_entity_id m)) =
           Some (life_in (db_plans db') (u, mu_entity_id m))"
    and "k \<noteq> (u, mu_entity_id m) \<Longrightarrow> life_in (db_plans db') k = life_in (db_plans db) k"
    and "db_lists db' = db_lists db" "db_tasks db' = db_tasks db" "db_steps db' = db_steps db"
  using assms
  by (cases "mu_kind m";
      auto simp: apply_day_plan_def Let_def result_simps statement_defs life_rows life_in_select)+

lemma apply_mutation_own:
  assumes "apply_mutation env now u m seq db = Inr (p, db')"
  shows "life_step (mu_kind m) (entity_life db (mutation_key u m)) =
           Some (entity_life db' (mutation_key u m))"
  using assms
  by (cases "mu_entity m")
    (simp_all add: apply_mutation_def mutation_key_def apply_list_life apply_task_life
      apply_step_life apply_day_plan_life)

lemma apply_mutation_other:
  assumes "apply_mutation env now u m seq db = Inr (p, db')" and "k \<noteq> mutation_key u m"
  shows "entity_life db' k = entity_life db k"
proof -
  obtain e x where "k = (e, x)" by (cases k)
  with assms show ?thesis
    by (cases "mu_entity m"; cases e)
      (auto simp: apply_mutation_def mutation_key_def apply_list_life apply_task_life
        apply_step_life apply_day_plan_life)
qed

text \<open>The log of one account's mutations, with the sequence number each would be given.\<close>

definition account_step ::
  "api_env \<Rightarrow> instant \<Rightarrow> uuid \<Rightarrow> mutation \<times> int \<Rightarrow> api_db \<Rightarrow> apply_failure + api_db" where
  "account_step env now u ms db =
     and_then (apply_mutation env now u (fst ms) (snd ms) db) (\<lambda>(p, db'). Inr db')"

interpretation account_log: life_log "account_step env now u" entity_life
  "\<lambda>ms. mutation_key u (fst ms)" "\<lambda>ms. mu_kind (fst ms)"
  for env now u
  by unfold_locales
    (auto simp: account_step_def and_then_eq_Inr dest: apply_mutation_own apply_mutation_other)

end
