(* ===== verification/ApiSync.thy ===== *)
theory ApiSync
  imports ApiLife
begin

text \<open>
  \<open>POST /api/v1/sync\<close> (\<open>sync\<close> of \<open>apps/api/src/sync.rs\<close>): the request checks, the account
  and device guards, the loop over the operations with its receipts and watermark, and the
  page of the change log it answers with. A result \<open>Inl e\<close> is an error response after which
  the transaction has been rolled back. \<open>i64\<close> sequence numbers are integers; the lemmas of
  \<open>ApiSyncFacts\<close> bound how far one request moves them. The metrics counters are left out.
\<close>

definition MAX_SYNC_OPS :: nat where
  "MAX_SYNC_OPS = 100"

definition MAX_SYNC_CHANGES :: nat where
  "MAX_SYNC_CHANGES = 500"

record auth_user =
  au_user :: uuid
  au_device :: uuid

record sync_request =
  sq_device :: uuid
  sq_cursor :: string
  sq_ops :: "mutation list"
  sq_limit :: "nat option"

datatype ack_status = Applied | Rejected | AlreadyProcessed

record ack =
  ack_op :: uuid
  ack_server_seq :: "int option"
  ack_status_of :: ack_status
  ack_error :: "string option"

record change =
  ch_seq :: int
  ch_op :: uuid
  ch_entity :: entity_type
  ch_entity_id :: uuid
  ch_kind :: mutation_kind
  ch_patch :: json

record sync_response =
  rs_ack :: "ack list"
  rs_changes :: "change list"
  rs_next_cursor :: string
  rs_has_more :: bool
  rs_server_time :: instant

section \<open>The batch\<close>

fun validate_ops :: "mutation list \<Rightarrow> int \<Rightarrow> uuid set \<Rightarrow> app_error + unit" where
  "validate_ops [] previous_seq op_ids = Inr ()"
| "validate_ops (m # ops) previous_seq op_ids =
     (if mu_client_seq m \<le> 0 then
        Inl (err_sequence_mismatch ''client_seq must be greater than zero'')
      else if mu_client_seq m \<le> previous_seq then
        Inl (err_sequence_mismatch ''ops must be ordered by strictly increasing client_seq'')
      else if mu_op m \<in> op_ids then
        Inl (err_sequence_mismatch ''duplicate op_id in a sync request'')
      else validate_ops ops (mu_client_seq m) (insert (mu_op m) op_ids))"

definition validate_batch :: "mutation list \<Rightarrow> app_error + unit" where
  "validate_batch ops =
     (if length ops > MAX_SYNC_OPS then
        Inl (err_validation (''a sync request may contain at most '' @ show_nat MAX_SYNC_OPS @
          '' operations''))
      else validate_ops ops 0 {})"

section \<open>Receipts\<close>

definition receipt_ack :: "receipt_row \<Rightarrow> ack" where
  "receipt_ack r =
     \<lparr>ack_op = rc_op r, ack_server_seq = rc_server_seq r,
      ack_status_of = (if rc_status r = ''applied'' then Applied
                       else if rc_status r = ''rejected'' then Rejected else Rejected),
      ack_error = rc_error r\<rparr>"

definition receipts_by_op :: "receipt_row list \<Rightarrow> mutation list \<Rightarrow> uuid \<Rightarrow> receipt_row option" where
  "receipts_by_op rs ops = lookup_row rc_op (filter (\<lambda>r. rc_op r \<in> mu_op ` set ops) rs)"

definition receipts_by_seq ::
  "receipt_row list \<Rightarrow> uuid \<Rightarrow> uuid \<Rightarrow> mutation list \<Rightarrow> int \<Rightarrow> receipt_row option" where
  "receipts_by_seq rs u d ops =
     lookup_row rc_client_seq
       (filter (\<lambda>r. rc_user r = u \<and> rc_device r = d \<and> rc_client_seq r \<in> mu_client_seq ` set ops) rs)"

text \<open>A statement that fails outside the savepoint ends the request with an internal error.\<close>

definition internal_db_error :: "sqlx_error \<Rightarrow> app_error" where
  "internal_db_error e = Internal ''database operation failed: ''"

definition insert_receipt :: "receipt_row \<Rightarrow> api_db \<Rightarrow> app_error + api_db" where
  "insert_receipt r db =
     and_then (fail_if (list_ex (\<lambda>x. rc_op x = rc_op r \<or>
           (rc_user x = rc_user r \<and> rc_device x = rc_device r \<and> rc_client_seq x = rc_client_seq r))
         (db_receipts db))
       (internal_db_error (Database ''23505''))) (\<lambda>_.
     Inr (db\<lparr>db_receipts := db_receipts db @ [r]\<rparr>))"

definition insert_rejected_receipt ::
  "uuid \<Rightarrow> uuid \<Rightarrow> mutation \<Rightarrow> string \<Rightarrow> api_db \<Rightarrow> app_error + api_db" where
  "insert_rejected_receipt u d m code db =
     insert_receipt \<lparr>rc_op = mu_op m, rc_user = u, rc_device = d, rc_client_seq = mu_client_seq m,
       rc_server_seq = None, rc_status = ''rejected'', rc_error = Some code\<rparr> db"

definition insert_change :: "uuid \<Rightarrow> int \<Rightarrow> mutation \<Rightarrow> json \<Rightarrow> api_db \<Rightarrow> app_error + api_db" where
  "insert_change u seq m patch db =
     and_then (fail_if (list_ex (\<lambda>c. cr_user c = u \<and> cr_seq c = seq) (db_changes db))
       (internal_db_error (Database ''23505''))) (\<lambda>_.
     Inr (db\<lparr>db_changes := db_changes db @
       [\<lparr>cr_user = u, cr_seq = seq, cr_op = mu_op m, cr_entity = entity_as_str (mu_entity m),
         cr_entity_id = mu_entity_id m, cr_kind = kind_as_str (mu_kind m), cr_patch = patch\<rparr>]\<rparr>))"

section \<open>The loop over the operations\<close>

record loop_state =
  ls_db :: api_db
  ls_expected :: int
  ls_next :: int
  ls_acks :: "ack list"

text \<open>The arms of \<open>match apply_mutation(...)\<close> for one new operation.\<close>

definition reject_op ::
  "uuid \<Rightarrow> uuid \<Rightarrow> mutation \<Rightarrow> string \<Rightarrow> loop_state \<Rightarrow> app_error + loop_state" where
  "reject_op u d m code st =
     and_then (insert_rejected_receipt u d m code (ls_db st)) (\<lambda>db.
     Inr (st\<lparr>ls_db := db,
             ls_acks := ls_acks st @ [\<lparr>ack_op = mu_op m, ack_server_seq = None,
               ack_status_of = Rejected, ack_error = Some code\<rparr>],
             ls_expected := ls_expected st + 1\<rparr>))"

definition run_op ::
  "api_env \<Rightarrow> instant \<Rightarrow> uuid \<Rightarrow> uuid \<Rightarrow> mutation \<Rightarrow> loop_state \<Rightarrow> app_error + loop_state" where
  "run_op env now u d m st =
     (case apply_mutation env now u m (ls_next st) (ls_db st) of
        Inr (change_patch, db) \<Rightarrow>
          and_then (insert_change u (ls_next st) m change_patch db) (\<lambda>db.
          and_then (insert_receipt \<lparr>rc_op = mu_op m, rc_user = u, rc_device = d,
              rc_client_seq = mu_client_seq m, rc_server_seq = Some (ls_next st),
              rc_status = ''applied'', rc_error = None\<rparr> db) (\<lambda>db.
          Inr (st\<lparr>ls_db := db, ls_next := ls_next st + 1,
                  ls_acks := ls_acks st @ [\<lparr>ack_op = mu_op m, ack_server_seq = Some (ls_next st),
                    ack_status_of = Applied, ack_error = None\<rparr>],
                  ls_expected := ls_expected st + 1\<rparr>)))
      | Inl (Reject rejection) \<Rightarrow> reject_op u d m (me_code rejection) st
      | Inl (DbFailure e) \<Rightarrow>
          if is_constraint_violation e then reject_op u d m ''CONSTRAINT_VIOLATION'' st
          else Inl (internal_db_error e))"

definition process_op ::
  "api_env \<Rightarrow> instant \<Rightarrow> uuid \<Rightarrow> uuid \<Rightarrow> int \<Rightarrow> (uuid \<Rightarrow> receipt_row option) \<Rightarrow>
   (int \<Rightarrow> receipt_row option) \<Rightarrow> mutation \<Rightarrow> loop_state \<Rightarrow> app_error + loop_state" where
  "process_op env now u d last_seq by_op by_seq m st =
     (case by_op (mu_op m) of
        Some receipt \<Rightarrow>
          if rc_user receipt \<noteq> u \<or> rc_device receipt \<noteq> d \<or> rc_client_seq receipt \<noteq> mu_client_seq m
          then Inl (err_sequence_mismatch
                 ''op_id was previously accepted with a different device or client_seq'')
          else Inr (st\<lparr>ls_acks := ls_acks st @ [receipt_ack receipt]\<rparr>)
      | None \<Rightarrow>
          if mu_client_seq m \<le> last_seq then
            (case by_seq (mu_client_seq m) of
               Some existing \<Rightarrow>
                 if rc_op existing \<noteq> mu_op m
                 then Inl (err_sequence_mismatch
                        ''client_seq was already processed for a different op_id'')
                 else Inr (st\<lparr>ls_acks := ls_acks st @ [\<lparr>ack_op = mu_op m, ack_server_seq = None,
                        ack_status_of = AlreadyProcessed, ack_error = None\<rparr>]\<rparr>)
             | None \<Rightarrow> Inr (st\<lparr>ls_acks := ls_acks st @ [\<lparr>ack_op = mu_op m, ack_server_seq = None,
                        ack_status_of = AlreadyProcessed, ack_error = None\<rparr>]\<rparr>))
          else if mu_client_seq m \<noteq> ls_expected st then
            Inl (err_sequence_mismatch (''expected client_seq '' @ show_int (ls_expected st) @
              '', received '' @ show_int (mu_client_seq m)))
          else if by_seq (mu_client_seq m) \<noteq> None then
            Inl (err_sequence_mismatch ''client_seq conflicts with an existing receipt'')
          else run_op env now u d m st)"

section \<open>The page of changes\<close>

definition read_change :: "change_row \<Rightarrow> app_error + change" where
  "read_change r =
     and_then (ok_or (entity_parse (cr_entity r))
       (Internal ''unknown entity type in change log'')) (\<lambda>entity.
     and_then (ok_or (parse_kind (cr_kind r))
       (Internal ''unknown mutation kind in change log'')) (\<lambda>kind.
     Inr \<lparr>ch_seq = cr_seq r, ch_op = cr_op r, ch_entity = entity,
          ch_entity_id = cr_entity_id r, ch_kind = kind, ch_patch = cr_patch r\<rparr>))"

fun read_changes :: "change_row list \<Rightarrow> app_error + change list" where
  "read_changes [] = Inr []"
| "read_changes (r # rs) =
     and_then (read_change r) (\<lambda>c. and_then (read_changes rs) (\<lambda>cs. Inr (c # cs)))"

text \<open>\<open>WHERE user_id = $1 AND server_seq > $2 ORDER BY server_seq LIMIT $3\<close>\<close>

definition changes_after :: "change_row list \<Rightarrow> uuid \<Rightarrow> int \<Rightarrow> change_row list" where
  "changes_after cs u cursor = sort_key cr_seq (filter (\<lambda>c. cr_user c = u \<and> cursor < cr_seq c) cs)"

definition change_page ::
  "api_db \<Rightarrow> uuid \<Rightarrow> int \<Rightarrow> nat \<Rightarrow> app_error + change list \<times> int \<times> bool" where
  "change_page db u cursor limit =
     (let rows = take (limit + 1) (changes_after (db_changes db) u cursor);
          has_more = length rows > limit
      in and_then (read_changes (take limit rows)) (\<lambda>changes.
         Inr (changes, (if changes = [] then cursor else ch_seq (last changes)), has_more)))"

section \<open>The handler\<close>

text \<open>\<open>INSERT ... ON CONFLICT DO NOTHING\<close>, then the row under \<open>FOR UPDATE\<close>.\<close>

definition ensure_sync_state :: "uuid \<Rightarrow> api_db \<Rightarrow> api_db" where
  "ensure_sync_state u db =
     (if lookup_row ss_user (db_states db) u = None
      then db\<lparr>db_states := db_states db @ [\<lparr>ss_user = u, ss_next = 1, ss_min = 0\<rparr>]\<rparr>
      else db)"

text \<open>The locked reads: user, sync state with the cursor's window, device.\<close>

definition lock_account :: "uuid \<Rightarrow> api_db \<Rightarrow> app_error + api_db" where
  "lock_account u db =
     (case lookup_row us_id (db_users db) u of
        None \<Rightarrow> Inl err_unauthorized
      | Some r \<Rightarrow> if us_deleted r \<noteq> None then Inl err_unauthorized else Inr (ensure_sync_state u db))"

definition check_cursor :: "sync_state \<Rightarrow> int \<Rightarrow> app_error + unit" where
  "check_cursor s cursor =
     and_then (fail_if (cursor > ss_next s - 1)
       (BadRequest ''INVALID_CURSOR'' ''Cursor is ahead of this account's change log'')) (\<lambda>_.
     fail_if (cursor < max I64_MIN (ss_min s - 1)) err_cursor_expired)"

definition check_device :: "api_db \<Rightarrow> uuid \<Rightarrow> uuid \<Rightarrow> app_error + device_row" where
  "check_device db u d =
     (case lookup_row device_key (db_devices db) (u, d) of
        None \<Rightarrow> Inl (Forbidden ''DEVICE_NOT_FOUND'' ''Device is not registered for this account'')
      | Some r \<Rightarrow>
          if dev_revoked r \<noteq> None
          then Inl (Unauthorized ''DEVICE_REVOKED'' ''This device has been revoked'')
          else Inr r)"

definition save_watermarks ::
  "instant \<Rightarrow> uuid \<Rightarrow> uuid \<Rightarrow> int \<Rightarrow> int \<Rightarrow> loop_state \<Rightarrow> api_db" where
  "save_watermarks now u d last_seq old_next st =
     (let db = ls_db st;
          db = (if ls_expected st - 1 > last_seq
                then db\<lparr>db_devices := update_rows device_key (u, d)
                       (\<lambda>r. r\<lparr>dev_last_seq := ls_expected st - 1, dev_seen := Some now\<rparr>) (db_devices db)\<rparr>
                else db)
      in if ls_next st \<noteq> old_next
         then db\<lparr>db_states := update_rows ss_user u (\<lambda>s. s\<lparr>ss_next := ls_next st\<rparr>) (db_states db)\<rparr>
         else db)"

definition sync_transaction ::
  "api_env \<Rightarrow> instant \<Rightarrow> uuid \<Rightarrow> uuid \<Rightarrow> mutation list \<Rightarrow> int \<Rightarrow> nat \<Rightarrow> api_db \<Rightarrow>
   app_error + sync_response \<times> api_db" where
  "sync_transaction env now u d ops cursor limit db =
     and_then (lock_account u db) (\<lambda>db.
     and_then (ok_or (lookup_row ss_user (db_states db) u) (internal_db_error OtherSqlx)) (\<lambda>state.
     and_then (check_cursor state cursor) (\<lambda>_.
     and_then (check_device db u d) (\<lambda>device.
     let by_op = receipts_by_op (db_receipts db) ops;
         by_seq = receipts_by_seq (db_receipts db) u d ops;
         st = \<lparr>ls_db = db, ls_expected = dev_last_seq device + 1, ls_next = ss_next state, ls_acks = []\<rparr> in
     and_then (try_fold (process_op env now u d (dev_last_seq device) by_op by_seq) ops st) (\<lambda>st.
     let db = save_watermarks now u d (dev_last_seq device) (ss_next state) st in
     and_then (change_page db u cursor limit) (\<lambda>(changes, next_cursor, has_more).
     Inr (\<lparr>rs_ack = ls_acks st, rs_changes = changes, rs_next_cursor = show_int next_cursor,
           rs_has_more = has_more, rs_server_time = now\<rparr>, db)))))))"

definition sync ::
  "api_env \<Rightarrow> instant \<Rightarrow> auth_user \<Rightarrow> sync_request \<Rightarrow> api_db \<Rightarrow> app_error + sync_response \<times> api_db" where
  "sync env now auth body db =
     (if au_device auth \<noteq> sq_device body then
        Inl (Forbidden ''DEVICE_MISMATCH'' ''The access token was issued for a different device'')
      else
        and_then (map_err (\<lambda>_. err_validation ''limit must be between 1 and 500'')
          (parse_page_limit (sq_limit body) MAX_SYNC_CHANGES MAX_SYNC_CHANGES)) (\<lambda>limit.
        and_then (validate_batch (sq_ops body)) (\<lambda>_.
        and_then (map_err (\<lambda>_. err_validation ''cursor must be a non-negative integer string'')
          (cursor_parse (sq_cursor body))) (\<lambda>prior_cursor.
        sync_transaction env now (au_user auth) (sq_device body) (sq_ops body)
          (cursor_get prior_cursor) limit db))))"

end
