(* ===== verification/ApiSyncFacts.thy ===== *)
theory ApiSyncFacts
  imports ApiSync
begin

text \<open>
  The sync handler's correctness: a retried request is answered as the first time and
  changes nothing, the change log and the device watermark only grow and stay gap-free, a
  page of changes neither skips nor repeats, and the lives of entities follow the protocol
  over a whole request. The lemmas go from one mutation to one operation of the loop, to
  the loop, to the handler.
\<close>

section \<open>What a mutation cannot touch\<close>

definition bookkeeping :: "api_db \<Rightarrow> user_row list \<times> sync_state list \<times> device_row list \<times> receipt_row list \<times> change_row list" where
  "bookkeeping db = (db_users db, db_states db, db_devices db, db_receipts db, db_changes db)"

lemma apply_list_frame: "apply_list now u m seq db = Inr (p, db') \<Longrightarrow> bookkeeping db' = bookkeeping db"
  by (cases "mu_kind m")
    (auto simp: apply_list_def Let_def result_simps statement_defs bookkeeping_def)

lemma apply_task_frame: "apply_task env now u m seq db = Inr (p, db') \<Longrightarrow> bookkeeping db' = bookkeeping db"
  by (cases "mu_kind m")
    (auto simp: apply_task_def Let_def result_simps statement_defs bookkeeping_def)

lemma apply_step_frame: "apply_step env now u m seq db = Inr (p, db') \<Longrightarrow> bookkeeping db' = bookkeeping db"
  by (cases "mu_kind m")
    (auto simp: apply_step_def Let_def result_simps statement_defs bookkeeping_def)

lemma apply_day_plan_frame:
  "apply_day_plan env now u m seq db = Inr (p, db') \<Longrightarrow> bookkeeping db' = bookkeeping db"
  by (cases "mu_kind m")
    (auto simp: apply_day_plan_def Let_def result_simps statement_defs bookkeeping_def)

lemma apply_mutation_frame:
  assumes "apply_mutation env now u m seq db = Inr (p, db')"
  shows "db_users db' = db_users db" "db_states db' = db_states db" "db_devices db' = db_devices db"
    and "db_receipts db' = db_receipts db" "db_changes db' = db_changes db"
proof -
  have "bookkeeping db' = bookkeeping db"
    using assms by (cases "mu_entity m")
      (auto simp: apply_mutation_def
        dest: apply_list_frame apply_task_frame apply_step_frame apply_day_plan_frame)
  then show "db_users db' = db_users db" "db_states db' = db_states db" "db_devices db' = db_devices db"
    and "db_receipts db' = db_receipts db" "db_changes db' = db_changes db"
    by (simp_all add: bookkeeping_def)
qed

section \<open>One operation of the loop\<close>

text \<open>What the handler writes for a new operation: a receipt, and a change if it was applied.\<close>

definition new_receipt :: "uuid \<Rightarrow> uuid \<Rightarrow> mutation \<Rightarrow> receipt_row \<Rightarrow> bool" where
  "new_receipt u d m r \<longleftrightarrow>
     rc_op r = mu_op m \<and> rc_user r = u \<and> rc_device r = d \<and> rc_client_seq r = mu_client_seq m"

definition change_of :: "uuid \<Rightarrow> mutation \<Rightarrow> change_row \<Rightarrow> bool" where
  "change_of u m c \<longleftrightarrow>
     cr_user c = u \<and> cr_op c = mu_op m \<and> cr_entity c = entity_as_str (mu_entity m) \<and>
     cr_entity_id c = mu_entity_id m \<and> cr_kind c = kind_as_str (mu_kind m)"

text \<open>
  The two outcomes of \<open>run_op\<close>: applied (a change at \<open>ls_next\<close>, the entity step) or
  rejected (entities untouched).
\<close>

lemma run_op_cases:
  assumes "run_op env now u d m st = Inr st'"
  obtains (applied) p db where
      "apply_mutation env now u m (ls_next st) (ls_db st) = Inr (p, db)"
      "ls_next st' = ls_next st + 1"
      "ls_acks st' = ls_acks st @ [\<lparr>ack_op = mu_op m, ack_server_seq = Some (ls_next st),
                    ack_status_of = Applied, ack_error = None\<rparr>]"
      "ls_db st' = db
         \<lparr>db_changes := db_changes (ls_db st) @
            [\<lparr>cr_user = u, cr_seq = ls_next st, cr_op = mu_op m, cr_entity = entity_as_str (mu_entity m),
              cr_entity_id = mu_entity_id m, cr_kind = kind_as_str (mu_kind m), cr_patch = p\<rparr>],
          db_receipts := db_receipts (ls_db st) @
            [\<lparr>rc_op = mu_op m, rc_user = u, rc_device = d, rc_client_seq = mu_client_seq m,
              rc_server_seq = Some (ls_next st), rc_status = ''applied'', rc_error = None\<rparr>]\<rparr>"
      "mu_op m \<notin> rc_op ` set (db_receipts (ls_db st))"
      "ls_expected st' = ls_expected st + 1"
  | (rejected) code where
      "\<exists>e. apply_mutation env now u m (ls_next st) (ls_db st) = Inl e"
      "ls_next st' = ls_next st"
      "ls_acks st' = ls_acks st @ [\<lparr>ack_op = mu_op m, ack_server_seq = None,
               ack_status_of = Rejected, ack_error = Some code\<rparr>]"
      "ls_db st' = (ls_db st)
         \<lparr>db_receipts := db_receipts (ls_db st) @
            [\<lparr>rc_op = mu_op m, rc_user = u, rc_device = d, rc_client_seq = mu_client_seq m,
              rc_server_seq = None, rc_status = ''rejected'', rc_error = Some code\<rparr>]\<rparr>"
      "mu_op m \<notin> rc_op ` set (db_receipts (ls_db st))"
      "ls_expected st' = ls_expected st + 1"
proof (cases "apply_mutation env now u m (ls_next st) (ls_db st)")
  case (Inl e)
  with assms obtain code where "reject_op u d m code st = Inr st'"
    by (cases e) (auto simp: run_op_def split: if_splits)
  with Inl show ?thesis
    by (intro rejected [of code])
      (auto simp: reject_op_def insert_rejected_receipt_def insert_receipt_def result_simps
        list_ex_iff image_iff)
next
  case (Inr r)
  obtain p db where r: "r = (p, db)" by (cases r)
  have frame: "db_receipts db = db_receipts (ls_db st)" "db_changes db = db_changes (ls_db st)"
    using apply_mutation_frame Inr r by auto
  from assms Inr show ?thesis
    by (intro applied [of p db])
      (auto simp: r run_op_def insert_change_def insert_receipt_def result_simps frame
        list_ex_iff image_iff)
qed

text \<open>
  The four ways an operation of the loop ends without an error: answered from its receipt,
  answered as already processed, or run (applied or rejected).
\<close>

definition already_ack :: "mutation \<Rightarrow> ack" where
  "already_ack m = \<lparr>ack_op = mu_op m, ack_server_seq = None, ack_status_of = AlreadyProcessed,
     ack_error = None\<rparr>"

lemma process_op_cases:
  assumes "process_op env now u d mark by_op by_seq m st = Inr st'"
  obtains (replayed) r where "by_op (mu_op m) = Some r"
      "rc_user r = u" "rc_device r = d" "rc_client_seq r = mu_client_seq m"
      "st' = st\<lparr>ls_acks := ls_acks st @ [receipt_ack r]\<rparr>"
  | (old) "by_op (mu_op m) = None" "mu_client_seq m \<le> mark"
      "\<forall>r. by_seq (mu_client_seq m) = Some r \<longrightarrow> rc_op r = mu_op m"
      "st' = st\<lparr>ls_acks := ls_acks st @ [already_ack m]\<rparr>"
  | (fresh) "by_op (mu_op m) = None" "mark < mu_client_seq m" "mu_client_seq m = ls_expected st"
      "by_seq (mu_client_seq m) = None" "run_op env now u d m st = Inr st'"
proof (cases "by_op (mu_op m)")
  case None
  with assms show ?thesis
    by (cases "mu_client_seq m \<le> mark")
      (auto simp: process_op_def already_ack_def split: option.splits if_splits
        intro: old fresh)
next
  case (Some r)
  with assms show ?thesis
    by (intro replayed [of r]) (auto simp: process_op_def split: if_splits)
qed

text \<open>What one operation adds: at most one receipt, its own, and one acknowledgement.\<close>

lemma run_op_receipt:
  assumes "run_op env now u d m st = Inr st'"
  obtains r where "db_receipts (ls_db st') = db_receipts (ls_db st) @ [r]" "new_receipt u d m r"
    "ls_acks st' = ls_acks st @ [receipt_ack r]" "mu_op m \<notin> rc_op ` set (db_receipts (ls_db st))"
    "ls_expected st' = ls_expected st + 1"
  using assms
proof (cases rule: run_op_cases)
  case (applied p db)
  then show ?thesis by (intro that) (auto simp: new_receipt_def receipt_ack_def)
next
  case (rejected code)
  then show ?thesis by (intro that) (auto simp: new_receipt_def receipt_ack_def)
qed

lemma run_op_frame:
  assumes "run_op env now u d m st = Inr st'"
  shows "db_users (ls_db st') = db_users (ls_db st)" "db_states (ls_db st') = db_states (ls_db st)"
    and "db_devices (ls_db st') = db_devices (ls_db st)" "ls_next st \<le> ls_next st'"
  using assms by (cases rule: run_op_cases; auto dest: apply_mutation_frame)+

section \<open>The loop\<close>

definition seq_receipt :: "receipt_row list \<Rightarrow> uuid \<Rightarrow> uuid \<Rightarrow> int \<Rightarrow> receipt_row option" where
  "seq_receipt rs u d = lookup_row rc_client_seq (filter (\<lambda>r. rc_user r = u \<and> rc_device r = d) rs)"

lemma lookup_row_filter:
  "(\<And>r. key r = k \<Longrightarrow> P r) \<Longrightarrow> lookup_row key (filter P t) k = lookup_row key t k"
  by (induction t) auto

lemma receipts_by_op_lookup:
  "m \<in> set ops \<Longrightarrow> receipts_by_op rs ops (mu_op m) = lookup_row rc_op rs (mu_op m)"
  unfolding receipts_by_op_def by (rule lookup_row_filter) auto

lemma lookup_row_filter_cong:
  "(\<And>r. key r = k \<Longrightarrow> P r = Q r) \<Longrightarrow> lookup_row key (filter P t) k = lookup_row key (filter Q t) k"
  by (induction t) auto

lemma receipts_by_seq_lookup:
  "m \<in> set ops \<Longrightarrow> receipts_by_seq rs u d ops (mu_client_seq m) = seq_receipt rs u d (mu_client_seq m)"
  unfolding receipts_by_seq_def seq_receipt_def by (rule lookup_row_filter_cong) auto

lemma lookup_row_append_absent:
  "k \<notin> key ` set u \<Longrightarrow> lookup_row key (t @ u) k = lookup_row key t k"
  by (induction t) (auto simp: lookup_row_None)

lemma seq_receipt_append_later:
  "(\<And>r. r \<in> set new \<Longrightarrow> mark < rc_client_seq r) \<Longrightarrow> s \<le> mark \<Longrightarrow>
     seq_receipt (rs @ new) u d s = seq_receipt rs u d s"
  unfolding seq_receipt_def by (fastforce intro!: lookup_row_append_absent)

text \<open>
  The acknowledgement the receipts determine for an operation: the one stored, or
  "already processed" for a sequence number at or below the watermark.
\<close>

definition answered ::
  "receipt_row list \<Rightarrow> uuid \<Rightarrow> uuid \<Rightarrow> int \<Rightarrow> mutation \<Rightarrow> ack \<Rightarrow> bool" where
  "answered rs u d mark m a \<longleftrightarrow>
     (\<exists>r. lookup_row rc_op rs (mu_op m) = Some r \<and> new_receipt u d m r \<and> a = receipt_ack r) \<or>
     (lookup_row rc_op rs (mu_op m) = None \<and> mu_client_seq m \<le> mark \<and>
      (\<forall>r. seq_receipt rs u d (mu_client_seq m) = Some r \<longrightarrow> rc_op r = mu_op m) \<and>
      a = already_ack m)"

lemma answered_mono: "answered rs u d mark m a \<Longrightarrow> mark \<le> mark' \<Longrightarrow> answered rs u d mark' m a"
  by (auto simp: answered_def)

text \<open>The tables the loop consults agree with the receipts for the operations to come.\<close>

definition consults ::
  "(uuid \<Rightarrow> receipt_row option) \<Rightarrow> (int \<Rightarrow> receipt_row option) \<Rightarrow> receipt_row list \<Rightarrow> uuid \<Rightarrow>
   uuid \<Rightarrow> int \<Rightarrow> mutation list \<Rightarrow> bool" where
  "consults by_op by_seq rs u d mark ops \<longleftrightarrow>
     (\<forall>m \<in> set ops. by_op (mu_op m) = lookup_row rc_op rs (mu_op m) \<and>
        (mu_client_seq m \<le> mark \<longrightarrow>
           by_seq (mu_client_seq m) = seq_receipt rs u d (mu_client_seq m)))"

lemma consults_start:
  "consults (receipts_by_op rs ops) (receipts_by_seq rs u d ops) rs u d mark ops"
  by (simp add: consults_def receipts_by_op_lookup receipts_by_seq_lookup)

lemma consults_later:
  assumes "consults by_op by_seq rs u d mark (m # ops)" "mu_op m \<notin> mu_op ` set ops"
    and "new_receipt u d m r" "mark < mu_client_seq m"
  shows "consults by_op by_seq (rs @ [r]) u d mark ops"
  using assms seq_receipt_append_later [of "[r]" mark _ rs u d]
  by (auto simp: consults_def new_receipt_def lookup_row_append_absent image_iff)

lemma process_ops_answered:
  assumes "try_fold (process_op env now u d mark by_op by_seq) ops st = Inr st'"
    and "consults by_op by_seq (db_receipts (ls_db st)) u d mark ops"
    and "distinct (map mu_op ops)"
  shows "\<exists>new as. db_receipts (ls_db st') = db_receipts (ls_db st) @ new \<and>
    ls_acks st' = ls_acks st @ as \<and>
    (\<forall>r \<in> set new. mark < rc_client_seq r \<and> rc_op r \<in> mu_op ` set ops) \<and>
    list_all2 (answered (db_receipts (ls_db st')) u d mark) ops as"
  using assms
proof (induction ops arbitrary: st)
  case (Cons m ops)
  then obtain st1 where st1: "process_op env now u d mark by_op by_seq m st = Inr st1"
      "try_fold (process_op env now u d mark by_op by_seq) ops st1 = Inr st'"
    by (auto simp: result_simps)
  from Cons.prems(2) have tables: "by_op (mu_op m) = lookup_row rc_op (db_receipts (ls_db st)) (mu_op m)"
      "mu_client_seq m \<le> mark \<Longrightarrow> by_seq (mu_client_seq m) =
         seq_receipt (db_receipts (ls_db st)) u d (mu_client_seq m)"
      "consults by_op by_seq (db_receipts (ls_db st)) u d mark ops"
    by (auto simp: consults_def)
  from Cons.prems(3) have fresh_op: "mu_op m \<notin> mu_op ` set ops" "distinct (map mu_op ops)" by auto
  from st1(1) show ?case
  proof (cases rule: process_op_cases)
    case (replayed r)
    with Cons.IH [OF st1(2)] tables fresh_op obtain new as
      where new: "db_receipts (ls_db st') = db_receipts (ls_db st) @ new"
        "ls_acks st' = ls_acks st @ receipt_ack r # as"
        "\<forall>r \<in> set new. mark < rc_client_seq r \<and> rc_op r \<in> mu_op ` set ops"
        "list_all2 (answered (db_receipts (ls_db st')) u d mark) ops as" by auto
    moreover have "answered (db_receipts (ls_db st')) u d mark m (receipt_ack r)"
      using replayed tables
      by (auto simp: answered_def new(1) lookup_row_append new_receipt_def dest: lookup_row_key)
    ultimately show ?thesis by (intro exI [of _ new] exI [of _ "receipt_ack r # as"]) auto
  next
    case old
    with Cons.IH [OF st1(2)] tables fresh_op obtain new as
      where new: "db_receipts (ls_db st') = db_receipts (ls_db st) @ new"
        "ls_acks st' = ls_acks st @ already_ack m # as"
        "\<forall>r \<in> set new. mark < rc_client_seq r \<and> rc_op r \<in> mu_op ` set ops"
        "list_all2 (answered (db_receipts (ls_db st')) u d mark) ops as" by auto
    moreover have "answered (db_receipts (ls_db st')) u d mark m (already_ack m)"
    proof -
      have "mu_op m \<notin> rc_op ` set new" using new(3) fresh_op(1) by auto
      moreover have "seq_receipt (db_receipts (ls_db st')) u d (mu_client_seq m) =
          by_seq (mu_client_seq m)"
        using new(3) old(2) tables(2) unfolding new(1)
        by (subst seq_receipt_append_later [where mark = mark]) auto
      ultimately show ?thesis
        using old tables(1) by (simp add: answered_def new(1) lookup_row_append_absent)
    qed
    ultimately show ?thesis by (intro exI [of _ new] exI [of _ "already_ack m # as"]) auto
  next
    case fresh
    from fresh(5) obtain r where r: "db_receipts (ls_db st1) = db_receipts (ls_db st) @ [r]"
      "new_receipt u d m r" "ls_acks st1 = ls_acks st @ [receipt_ack r]"
      "mu_op m \<notin> rc_op ` set (db_receipts (ls_db st))" by (rule run_op_receipt)
    have "consults by_op by_seq (db_receipts (ls_db st1)) u d mark ops"
      unfolding r(1) by (rule consults_later) (use Cons.prems(2) fresh_op r fresh in auto)
    with Cons.IH [OF st1(2)] fresh_op obtain new as
      where new: "db_receipts (ls_db st') = db_receipts (ls_db st) @ r # new"
        "ls_acks st' = ls_acks st @ receipt_ack r # as"
        "\<forall>r \<in> set new. mark < rc_client_seq r \<and> rc_op r \<in> mu_op ` set ops"
        "list_all2 (answered (db_receipts (ls_db st')) u d mark) ops as"
      by (auto simp: r(1,3))
    moreover have "answered (db_receipts (ls_db st')) u d mark m (receipt_ack r)"
      using r(2,4) by (auto simp: answered_def new(1) lookup_row_append new_receipt_def
          lookup_row_None [symmetric])
    ultimately show ?thesis using r(2) fresh(2)
      by (intro exI [of _ "r # new"] exI [of _ "receipt_ack r # as"]) (auto simp: new_receipt_def)
  qed
qed simp

text \<open>The converse: operations the receipts answer run the loop without touching the database.\<close>

lemma process_op_answered:
  assumes "answered rs u d mark m a" and "consults by_op by_seq rs u d mark [m]"
  shows "process_op env now u d mark by_op by_seq m st = Inr (st\<lparr>ls_acks := ls_acks st @ [a]\<rparr>)"
proof (cases "lookup_row rc_op rs (mu_op m)")
  case None
  with assms show ?thesis
    by (cases "seq_receipt rs u d (mu_client_seq m)")
      (simp_all add: answered_def consults_def process_op_def already_ack_def)
next
  case (Some r)
  with assms show ?thesis by (simp add: answered_def consults_def process_op_def new_receipt_def)
qed

lemma process_ops_replay:
  assumes "list_all2 (answered rs u d mark) ops as" and "consults by_op by_seq rs u d mark ops"
  shows "try_fold (process_op env now u d mark by_op by_seq) ops st =
           Inr (st\<lparr>ls_acks := ls_acks st @ as\<rparr>)"
  using assms
proof (induction ops as arbitrary: st rule: list_all2_induct)
  case (Cons m ops a as)
  moreover have "consults by_op by_seq rs u d mark [m]" "consults by_op by_seq rs u d mark ops"
    using Cons.prems by (auto simp: consults_def)
  ultimately show ?case by (simp add: process_op_answered)
qed simp

text \<open>What the loop leaves alone, and how its counters move.\<close>

definition loop_frame :: "loop_state \<Rightarrow> loop_state \<Rightarrow> bool" where
  "loop_frame st st' \<longleftrightarrow>
     db_users (ls_db st') = db_users (ls_db st) \<and> db_states (ls_db st') = db_states (ls_db st) \<and>
     db_devices (ls_db st') = db_devices (ls_db st) \<and>
     ls_next st \<le> ls_next st' \<and> ls_expected st \<le> ls_expected st'"

lemma process_op_frame:
  assumes "process_op env now u d mark by_op by_seq m st = Inr st'"
  shows "loop_frame st st'"
  using assms
proof (cases rule: process_op_cases)
  case fresh
  then show ?thesis
    using run_op_frame [OF fresh(5)] by (auto simp: loop_frame_def elim: run_op_receipt)
qed (simp_all add: loop_frame_def)

lemma process_ops_frame:
  assumes "try_fold (process_op env now u d mark by_op by_seq) ops st = Inr st'"
  shows "loop_frame st st'"
proof (rule try_fold_invariant [OF assms, where P = "loop_frame st"])
  show "loop_frame st st" by (simp add: loop_frame_def)
  show "loop_frame st s'"
    if "loop_frame st s" "process_op env now u d mark by_op by_seq m s = Inr s'" for m s s'
    using that(1) process_op_frame [OF that(2)] by (auto simp: loop_frame_def)
qed

section \<open>The transaction\<close>

lemma ensure_sync_state_frame [simp]:
  "db_users (ensure_sync_state u db) = db_users db" "db_devices (ensure_sync_state u db) = db_devices db"
  "db_receipts (ensure_sync_state u db) = db_receipts db"
  "db_changes (ensure_sync_state u db) = db_changes db"
  "db_lists (ensure_sync_state u db) = db_lists db" "db_tasks (ensure_sync_state u db) = db_tasks db"
  "db_steps (ensure_sync_state u db) = db_steps db" "db_plans (ensure_sync_state u db) = db_plans db"
  by (simp_all add: ensure_sync_state_def)

lemma ensure_sync_state_lookup:
  "lookup_row ss_user (db_states (ensure_sync_state u db)) v =
     (case lookup_row ss_user (db_states db) v of
        None \<Rightarrow> if v = u then Some \<lparr>ss_user = u, ss_next = 1, ss_min = 0\<rparr> else None
      | Some s \<Rightarrow> Some s)"
  by (auto simp: ensure_sync_state_def lookup_row_append split: option.splits)

lemma save_watermarks_frame [simp]:
  "db_users (save_watermarks now u d mark old_next st) = db_users (ls_db st)"
  "db_receipts (save_watermarks now u d mark old_next st) = db_receipts (ls_db st)"
  "db_changes (save_watermarks now u d mark old_next st) = db_changes (ls_db st)"
  "db_lists (save_watermarks now u d mark old_next st) = db_lists (ls_db st)"
  "db_tasks (save_watermarks now u d mark old_next st) = db_tasks (ls_db st)"
  "db_steps (save_watermarks now u d mark old_next st) = db_steps (ls_db st)"
  "db_plans (save_watermarks now u d mark old_next st) = db_plans (ls_db st)"
  by (simp_all add: save_watermarks_def Let_def)

lemma save_watermarks_states:
  "lookup_row ss_user (db_states (save_watermarks now u d mark old_next st)) v =
     (if v = u \<and> ls_next st \<noteq> old_next
      then map_option (\<lambda>s. s\<lparr>ss_next := ls_next st\<rparr>) (lookup_row ss_user (db_states (ls_db st)) v)
      else lookup_row ss_user (db_states (ls_db st)) v)"
  by (simp add: save_watermarks_def Let_def lookup_row_update)

lemma save_watermarks_devices:
  "lookup_row device_key (db_devices (save_watermarks now u d mark old_next st)) k =
     (if k = (u, d) \<and> ls_expected st - 1 > mark
      then map_option (\<lambda>r. r\<lparr>dev_last_seq := ls_expected st - 1, dev_seen := Some now\<rparr>)
             (lookup_row device_key (db_devices (ls_db st)) k)
      else lookup_row device_key (db_devices (ls_db st)) k)"
  by (simp add: save_watermarks_def Let_def lookup_row_update device_key_def)

text \<open>The stages of a request that succeeds.\<close>

definition loop_start :: "uuid \<Rightarrow> api_db \<Rightarrow> sync_state \<Rightarrow> device_row \<Rightarrow> loop_state" where
  "loop_start u db s dev =
     \<lparr>ls_db = ensure_sync_state u db, ls_expected = dev_last_seq dev + 1, ls_next = ss_next s,
      ls_acks = []\<rparr>"

lemma loop_start_simps [simp]:
  "ls_db (loop_start u db s dev) = ensure_sync_state u db"
  "ls_expected (loop_start u db s dev) = dev_last_seq dev + 1"
  "ls_next (loop_start u db s dev) = ss_next s" "ls_acks (loop_start u db s dev) = []"
  by (simp_all add: loop_start_def)

definition account_ready :: "uuid \<Rightarrow> uuid \<Rightarrow> int \<Rightarrow> api_db \<Rightarrow> sync_state \<Rightarrow> device_row \<Rightarrow> bool" where
  "account_ready u d cursor db s dev \<longleftrightarrow>
     (\<exists>r. lookup_row us_id (db_users db) u = Some r \<and> us_deleted r = None) \<and>
     lookup_row ss_user (db_states (ensure_sync_state u db)) u = Some s \<and>
     check_cursor s cursor = Inr () \<and>
     lookup_row device_key (db_devices db) (u, d) = Some dev \<and> dev_revoked dev = None"

lemma lock_account_Inr:
  "lock_account u db = Inr db1 \<longleftrightarrow>
     (\<exists>r. lookup_row us_id (db_users db) u = Some r \<and> us_deleted r = None) \<and>
     db1 = ensure_sync_state u db"
  by (auto simp: lock_account_def split: option.splits if_splits)

lemma check_device_Inr:
  "check_device db u d = Inr dev \<longleftrightarrow>
     lookup_row device_key (db_devices db) (u, d) = Some dev \<and> dev_revoked dev = None"
  by (auto simp: check_device_def split: option.splits if_splits)

lemma sync_transaction_Inr:
  "sync_transaction env now u d ops cursor limit db = Inr (resp, db') \<longleftrightarrow>
     (\<exists>s dev st changes next_cursor has_more.
        account_ready u d cursor db s dev \<and>
        try_fold (process_op env now u d (dev_last_seq dev) (receipts_by_op (db_receipts db) ops)
          (receipts_by_seq (db_receipts db) u d ops)) ops (loop_start u db s dev) = Inr st \<and>
        db' = save_watermarks now u d (dev_last_seq dev) (ss_next s) st \<and>
        change_page db' u cursor limit = Inr (changes, next_cursor, has_more) \<and>
        resp = \<lparr>rs_ack = ls_acks st, rs_changes = changes, rs_next_cursor = show_int next_cursor,
                rs_has_more = has_more, rs_server_time = now\<rparr>)"
  unfolding sync_transaction_def account_ready_def Let_def loop_start_def
  by (auto simp: and_then_eq_Inr lock_account_Inr check_device_Inr ok_or_eq_Inr; fastforce)

lemma sync_Inr:
  "sync env now auth body db = Inr (resp, db') \<longleftrightarrow>
     au_device auth = sq_device body \<and>
     (\<exists>limit cursor. parse_page_limit (sq_limit body) MAX_SYNC_CHANGES MAX_SYNC_CHANGES = Inr limit \<and>
        validate_batch (sq_ops body) = Inr () \<and> cursor_parse (sq_cursor body) = Inr cursor \<and>
        sync_transaction env now (au_user auth) (sq_device body) (sq_ops body) (cursor_get cursor)
          limit db = Inr (resp, db'))"
  by (auto simp: sync_def and_then_eq_Inr map_err_eq_Inr)

section \<open>The batch\<close>

lemma validate_ops_Inr:
  "validate_ops ops p seen = Inr () \<longleftrightarrow>
     sorted_wrt (<) (map mu_client_seq ops) \<and>
     (\<forall>m \<in> set ops. 0 < mu_client_seq m \<and> p < mu_client_seq m \<and> mu_op m \<notin> seen) \<and>
     distinct (map mu_op ops)"
  by (induction ops p seen rule: validate_ops.induct) (auto simp: image_iff)

lemma validate_batch_Inr:
  "validate_batch ops = Inr () \<longleftrightarrow>
     length ops \<le> 100 \<and> sorted_wrt (<) (map mu_client_seq ops) \<and>
     (\<forall>m \<in> set ops. 0 < mu_client_seq m) \<and> distinct (map mu_op ops)"
  by (auto simp: validate_batch_def validate_ops_Inr MAX_SYNC_OPS_def)

section \<open>What a request appends\<close>

text \<open>
  The receipts and changes the loop adds: receipts for the sequence numbers from
  \<open>ls_expected\<close> on, changes at the positions from \<open>ls_next\<close> on, one change for each
  receipt that carries a position, in the same order.
\<close>

definition receipt_positions :: "receipt_row list \<Rightarrow> (uuid \<times> int) list" where
  "receipt_positions rs =
     concat (map (\<lambda>r. case rc_server_seq r of None \<Rightarrow> [] | Some s \<Rightarrow> [(rc_op r, s)]) rs)"

lemma receipt_positions_simps [simp]:
  "receipt_positions [] = []" "receipt_positions (rs @ rs') = receipt_positions rs @ receipt_positions rs'"
  "receipt_positions (r # rs) =
     (case rc_server_seq r of None \<Rightarrow> [] | Some s \<Rightarrow> [(rc_op r, s)]) @ receipt_positions rs"
  by (simp_all add: receipt_positions_def)

definition appends :: "uuid \<Rightarrow> uuid \<Rightarrow> mutation set \<Rightarrow> loop_state \<Rightarrow> loop_state \<Rightarrow>
    receipt_row list \<Rightarrow> change_row list \<Rightarrow> bool" where
  "appends u d ms st st' rs cs \<longleftrightarrow>
     db_receipts (ls_db st') = db_receipts (ls_db st) @ rs \<and>
     db_changes (ls_db st') = db_changes (ls_db st) @ cs \<and>
     ls_expected st \<le> ls_expected st' \<and> map rc_client_seq rs = [ls_expected st .. ls_expected st' - 1] \<and>
     ls_next st \<le> ls_next st' \<and> map cr_seq cs = [ls_next st .. ls_next st' - 1] \<and>
     map (\<lambda>c. (cr_op c, cr_seq c)) cs = receipt_positions rs \<and>
     (\<forall>r \<in> set rs. \<exists>m \<in> ms. new_receipt u d m r) \<and> (\<forall>c \<in> set cs. \<exists>m \<in> ms. change_of u m c)"

lemma upto_join: "(i::int) \<le> j \<Longrightarrow> j \<le> k \<Longrightarrow> [i..j - 1] @ [j..k - 1] = [i..k - 1]"
  using upto_split1 [of i j "k - 1"] by (cases "j = k") auto

lemma appends_refl: "appends u d ms st st [] []"
  by (simp add: appends_def)

lemma appends_trans:
  "appends u d ms st st1 rs cs \<Longrightarrow> appends u d ms st1 st2 rs' cs' \<Longrightarrow>
     appends u d ms st st2 (rs @ rs') (cs @ cs')"
  by (auto simp: appends_def upto_join)

lemma appends_acks:
  "appends u d ms st (st'\<lparr>ls_acks := a\<rparr>) rs cs = appends u d ms st st' rs cs"
  by (simp add: appends_def)

lemma run_op_appends:
  assumes "run_op env now u d m st = Inr st'" and "mu_client_seq m = ls_expected st" and "m \<in> ms"
  shows "\<exists>rs cs. appends u d ms st st' rs cs"
  using assms(1)
proof (cases rule: run_op_cases)
  case (applied p db)
  with assms(2,3) show ?thesis
    by (auto simp: appends_def new_receipt_def change_of_def intro!: exI)
next
  case (rejected code)
  with assms(2,3) show ?thesis
    by (auto simp: appends_def new_receipt_def intro!: exI)
qed

lemma process_op_appends:
  assumes "process_op env now u d mark by_op by_seq m st = Inr st'" and "m \<in> ms"
  shows "\<exists>rs cs. appends u d ms st st' rs cs"
  using assms(1)
proof (cases rule: process_op_cases)
  case (replayed r)
  then show ?thesis by (auto simp: appends_acks intro: appends_refl)
next
  case old
  then show ?thesis by (auto simp: appends_acks intro: appends_refl)
next
  case fresh
  then show ?thesis using run_op_appends assms(2) by blast
qed

lemma process_ops_appends:
  assumes "try_fold (process_op env now u d mark by_op by_seq) ops st = Inr st'"
  shows "\<exists>rs cs. appends u d (set ops) st st' rs cs"
proof (rule try_fold_invariant [OF assms, where P = "\<lambda>s. \<exists>rs cs. appends u d (set ops) st s rs cs"])
  show "\<exists>rs cs. appends u d (set ops) st st rs cs" using appends_refl by blast
  show "\<exists>rs cs. appends u d (set ops) st s' rs cs"
    if "m \<in> set ops" "\<exists>rs cs. appends u d (set ops) st s rs cs"
      "process_op env now u d mark by_op by_seq m s = Inr s'" for m s s'
    using that(2) process_op_appends [OF that(3,1)] appends_trans by blast
qed

text \<open>The loop of a request that succeeds, with everything the properties read off it.\<close>

lemma sync_loop:
  assumes "sync env now auth body db = Inr (resp, db')"
  obtains s dev st limit cursor changes next_cursor has_more rs cs where
    "account_ready (au_user auth) (sq_device body) (cursor_get cursor) db s dev"
    "cursor_parse (sq_cursor body) = Inr cursor"
    "parse_page_limit (sq_limit body) MAX_SYNC_CHANGES MAX_SYNC_CHANGES = Inr limit"
    "validate_batch (sq_ops body) = Inr ()"
    "try_fold (process_op env now (au_user auth) (sq_device body) (dev_last_seq dev)
        (receipts_by_op (db_receipts db) (sq_ops body))
        (receipts_by_seq (db_receipts db) (au_user auth) (sq_device body) (sq_ops body)))
      (sq_ops body) (loop_start (au_user auth) db s dev) = Inr st"
    "appends (au_user auth) (sq_device body) (set (sq_ops body))
       (loop_start (au_user auth) db s dev) st rs cs"
    "loop_frame (loop_start (au_user auth) db s dev) st"
    "db' = save_watermarks now (au_user auth) (sq_device body) (dev_last_seq dev) (ss_next s) st"
    "change_page db' (au_user auth) (cursor_get cursor) limit = Inr (changes, next_cursor, has_more)"
    "resp = \<lparr>rs_ack = ls_acks st, rs_changes = changes, rs_next_cursor = show_int next_cursor,
             rs_has_more = has_more, rs_server_time = now\<rparr>"
    "au_device auth = sq_device body"
proof -
  obtain limit cursor s dev st changes next_cursor has_more where *:
    "account_ready (au_user auth) (sq_device body) (cursor_get cursor) db s dev"
    "cursor_parse (sq_cursor body) = Inr cursor"
    "parse_page_limit (sq_limit body) MAX_SYNC_CHANGES MAX_SYNC_CHANGES = Inr limit"
    "validate_batch (sq_ops body) = Inr ()"
    "try_fold (process_op env now (au_user auth) (sq_device body) (dev_last_seq dev)
        (receipts_by_op (db_receipts db) (sq_ops body))
        (receipts_by_seq (db_receipts db) (au_user auth) (sq_device body) (sq_ops body)))
      (sq_ops body) (loop_start (au_user auth) db s dev) = Inr st"
    "db' = save_watermarks now (au_user auth) (sq_device body) (dev_last_seq dev) (ss_next s) st"
    "change_page db' (au_user auth) (cursor_get cursor) limit = Inr (changes, next_cursor, has_more)"
    "resp = \<lparr>rs_ack = ls_acks st, rs_changes = changes, rs_next_cursor = show_int next_cursor,
             rs_has_more = has_more, rs_server_time = now\<rparr>"
    "au_device auth = sq_device body"
    using assms unfolding sync_Inr sync_transaction_Inr by blast
  obtain rs cs where "appends (au_user auth) (sq_device body) (set (sq_ops body))
       (loop_start (au_user auth) db s dev) st rs cs"
    using process_ops_appends [OF *(5)] by blast
  with * process_ops_frame [OF *(5)] show ?thesis by (intro that)
qed

end
