(* ===== verification/ApiIntegrity.thy ===== *)
theory ApiIntegrity
  imports ApiSyncFacts
begin

text \<open>
  What one mutation, and so a whole sync request, keeps of the entity tables: primary keys,
  validated values, references between entities, one plan per task and day, one task per
  recurrence occurrence, and every row of every other account.
\<close>

section \<open>Tables through the statements\<close>

definition vals_ok :: "(uuid \<Rightarrow> 'v \<Rightarrow> bool) \<Rightarrow> 'v row list \<Rightarrow> bool" where
  "vals_ok Q t \<longleftrightarrow> (\<forall>r \<in> set t. Q (r_user r) (r_val r))"

text \<open>At most one row holds a slot (a unique index on columns computed by \<open>slot\<close>).\<close>

definition slots_unique :: "(uuid \<Rightarrow> 'v \<Rightarrow> 's option) \<Rightarrow> 'v row list \<Rightarrow> bool" where
  "slots_unique slot t \<longleftrightarrow>
     (\<forall>r \<in> set t. \<forall>r' \<in> set t. \<forall>x. slot (r_user r) (r_val r) = Some x \<longrightarrow>
        slot (r_user r') (r_val r') = Some x \<longrightarrow> r_id r = r_id r')"

definition slot_free :: "(uuid \<Rightarrow> 'v \<Rightarrow> 's option) \<Rightarrow> uuid \<Rightarrow> uuid \<Rightarrow> 'v \<Rightarrow> 'v row list \<Rightarrow> bool" where
  "slot_free slot u i v t \<longleftrightarrow>
     (\<forall>r \<in> set t. r_id r \<noteq> i \<longrightarrow> slot u v \<noteq> None \<longrightarrow> slot (r_user r) (r_val r) \<noteq> slot u v)"

lemma row_key_eq: "row_key r = (u, i) \<longleftrightarrow> r_user r = u \<and> r_id r = i"
  by (auto simp: row_key_def)

lemma row_key_cong: "row_key r = row_key r' \<longleftrightarrow> r_user r = r_user r' \<and> r_id r = r_id r'"
  by (auto simp: row_key_def)

lemma set_write_row:
  assumes "r \<in> set (write_row now u i v seq restoring t)"
  obtains (kept) "r \<in> set t" "row_key r \<noteq> (u, i)"
    | (written) r0 where "r0 \<in> set t" "row_key r0 = (u, i)" "r_user r = u" "r_id r = i" "r_val r = v"
  using assms by (auto simp: write_row_def update_rows_def row_key_eq split: if_splits)

lemma set_tombstone_row:
  assumes "r \<in> set (tombstone_row now u i seq t)"
  obtains r0 where "r0 \<in> set t" "r_user r = r_user r0" "r_id r = r_id r0" "r_val r = r_val r0"
  using assms by (auto simp: tombstone_row_def update_rows_def split: if_splits)

lemma map_key_rows [simp]:
  "map row_key (write_row now u i v seq restoring t) = map row_key t"
  "map row_key (tombstone_row now u i seq t) = map row_key t"
  by (simp_all add: write_row_def tombstone_row_def update_rows_def)

lemma keys_rows [simp]:
  "row_key ` set (write_row now u i v seq restoring t) = row_key ` set t"
  "row_key ` set (tombstone_row now u i seq t) = row_key ` set t"
  by (simp_all flip: set_map)

lemma r_id_rows [simp]:
  "map r_id (write_row now u i v seq restoring t) = map r_id t"
  "map r_id (tombstone_row now u i seq t) = map r_id t"
  by (simp_all add: write_row_def tombstone_row_def update_rows_def)

lemma pk_rows [simp]:
  "pk r_id (write_row now u i v seq restoring t) = pk r_id t"
  "pk r_id (tombstone_row now u i seq t) = pk r_id t"
  by (simp_all add: pk_def)

lemma pk_new_row: "pk r_id t \<Longrightarrow> \<not> id_taken t i \<Longrightarrow> pk r_id (t @ [new_row now u i v seq])"
  by (auto simp: pk_def id_taken_def lookup_row_None new_row_def)

lemma vals_ok_write: "vals_ok Q t \<Longrightarrow> Q u v \<Longrightarrow> vals_ok Q (write_row now u i v seq restoring t)"
  by (auto simp: vals_ok_def elim: set_write_row)

lemma vals_ok_tombstone: "vals_ok Q t \<Longrightarrow> vals_ok Q (tombstone_row now u i seq t)"
  by (auto simp: vals_ok_def elim: set_tombstone_row)

lemma vals_ok_new: "vals_ok Q (t @ [new_row now u i v seq]) \<longleftrightarrow> vals_ok Q t \<and> Q u v"
  by (auto simp: vals_ok_def new_row_def)

lemma vals_ok_mono: "vals_ok Q t \<Longrightarrow> (\<And>u v. Q u v \<Longrightarrow> Q' u v) \<Longrightarrow> vals_ok Q' t"
  by (auto simp: vals_ok_def)

lemma slots_uniqueD:
  "slots_unique slot t \<Longrightarrow> r \<in> set t \<Longrightarrow> r' \<in> set t \<Longrightarrow> slot (r_user r) (r_val r) = Some x \<Longrightarrow>
     slot (r_user r') (r_val r') = Some x \<Longrightarrow> r_id r = r_id r'"
  unfolding slots_unique_def by blast

lemma slots_uniqueI:
  "(\<And>r r' x. r \<in> set t \<Longrightarrow> r' \<in> set t \<Longrightarrow> slot (r_user r) (r_val r) = Some x \<Longrightarrow>
     slot (r_user r') (r_val r') = Some x \<Longrightarrow> r_id r = r_id r') \<Longrightarrow> slots_unique slot t"
  unfolding slots_unique_def by blast

lemma slot_freeD:
  "slot_free slot u i v t \<Longrightarrow> r \<in> set t \<Longrightarrow> slot (r_user r) (r_val r) = Some x \<Longrightarrow>
     slot u v = Some x \<Longrightarrow> r_id r = i"
  by (auto simp: slot_free_def)

lemma slots_write:
  assumes "slots_unique slot t" and "slot_free slot u i v t"
  shows "slots_unique slot (write_row now u i v seq restoring t)"
proof (rule slots_uniqueI)
  fix r r' x assume r: "r \<in> set (write_row now u i v seq restoring t)"
    and r': "r' \<in> set (write_row now u i v seq restoring t)"
    and slot: "slot (r_user r) (r_val r) = Some x" "slot (r_user r') (r_val r') = Some x"
  from r show "r_id r = r_id r'"
  proof (cases rule: set_write_row)
    case kept
    from r' show ?thesis
      by (cases rule: set_write_row)
        (use slots_uniqueD [OF assms(1) kept(1)] slot_freeD [OF assms(2) kept(1)] slot in auto)
  next
    case written
    from r' show ?thesis
      by (cases rule: set_write_row) (use slot_freeD [OF assms(2)] slot written in auto)
  qed
qed

lemma slots_tombstone:
  assumes "slots_unique slot t"
  shows "slots_unique slot (tombstone_row now u i seq t)"
proof (rule slots_uniqueI)
  fix r r' x assume "r \<in> set (tombstone_row now u i seq t)" "r' \<in> set (tombstone_row now u i seq t)"
    and "slot (r_user r) (r_val r) = Some x" "slot (r_user r') (r_val r') = Some x"
  then show "r_id r = r_id r'"
    by (elim set_tombstone_row) (metis slots_uniqueD [OF assms])
qed

lemma slots_new:
  assumes "slots_unique slot t" and "slot_free slot u i v t"
  shows "slots_unique slot (t @ [new_row now u i v seq])"
proof (rule slots_uniqueI)
  fix r r' x assume "r \<in> set (t @ [new_row now u i v seq])" "r' \<in> set (t @ [new_row now u i v seq])"
    and "slot (r_user r) (r_val r) = Some x" "slot (r_user r') (r_val r') = Some x"
  then show "r_id r = r_id r'"
    using slots_uniqueD [OF assms(1), of r r' x] slot_freeD [OF assms(2), of r x]
      slot_freeD [OF assms(2), of r' x] by (auto simp: new_row_def)
qed

section \<open>The invariant of the entity tables\<close>

definition plan_slot :: "uuid \<Rightarrow> day_plan_values \<Rightarrow> (uuid \<times> uuid \<times> date) option" where
  "plan_slot u v = Some (u, dv_task_id v, dv_local_date v)"

definition occurrence_slot :: "uuid \<Rightarrow> task_cols \<Rightarrow> (uuid \<times> uuid \<times> string) option" where
  "occurrence_slot u c =
     (case (tc_series_id c, tc_occurrence_key c) of
        (Some s, Some k) \<Rightarrow> Some (u, s, k) | _ \<Rightarrow> None)"

definition task_stored_ok :: "api_env \<Rightarrow> task_cols \<Rightarrow> bool" where
  "task_stored_ok env c \<longleftrightarrow> (\<exists>v. task_values_of c = Inr v \<and> task_values_ok env v)"

definition keys_ok :: "api_db \<Rightarrow> bool" where
  "keys_ok db \<longleftrightarrow> pk r_id (db_lists db) \<and> pk r_id (db_tasks db) \<and> pk r_id (db_steps db) \<and>
     pk r_id (db_plans db)"

definition values_ok :: "api_env \<Rightarrow> api_db \<Rightarrow> bool" where
  "values_ok env db \<longleftrightarrow>
     vals_ok (\<lambda>_. list_values_ok) (db_lists db) \<and> vals_ok (\<lambda>_. task_stored_ok env) (db_tasks db) \<and>
     vals_ok (\<lambda>_ v. step_values_validate v = Inr ()) (db_steps db) \<and>
     vals_ok (\<lambda>_ v. day_plan_values_validate v = Inr ()) (db_plans db)"

definition refs_ok :: "api_db \<Rightarrow> bool" where
  "refs_ok db \<longleftrightarrow>
     vals_ok (\<lambda>u c. \<forall>l. tc_list_id c = Some l \<longrightarrow> (u, l) \<in> row_key ` set (db_lists db)) (db_tasks db) \<and>
     vals_ok (\<lambda>u v. (u, sv_task_id v) \<in> row_key ` set (db_tasks db)) (db_steps db) \<and>
     vals_ok (\<lambda>u v. (u, dv_task_id v) \<in> row_key ` set (db_tasks db)) (db_plans db)"

definition unique_ok :: "api_db \<Rightarrow> bool" where
  "unique_ok db \<longleftrightarrow> slots_unique plan_slot (db_plans db) \<and> slots_unique occurrence_slot (db_tasks db)"

definition entities_ok :: "api_env \<Rightarrow> api_db \<Rightarrow> bool" where
  "entities_ok env db \<longleftrightarrow> keys_ok db \<and> values_ok env db \<and> refs_ok db \<and> unique_ok db"

lemma select_row_key: "select_row t u i \<noteq> None \<longleftrightarrow> (u, i) \<in> row_key ` set t"
  by (simp only: select_row_def lookup_row_None not_not)

lemma select_row_present: "select_row t u i = Some r \<Longrightarrow> (u, i) \<in> row_key ` set t"
  using select_row_key [of t u i] by simp

lemma task_values_of_cols: "task_values_of (task_cols_of v) = Inr v"
  by (cases "tv_status v") (simp_all add: task_values_of_def task_cols_of_def status_parse_def)

lemma task_stored: "task_values_ok env v \<Longrightarrow> task_stored_ok env (task_cols_of v)"
  by (auto simp: task_stored_ok_def task_values_of_cols)

lemma plan_constraints_free:
  "plan_constraints db u i v = Inr x \<Longrightarrow>
     slot_free plan_slot u i v (db_plans db) \<and> (u, dv_task_id v) \<in> row_key ` set (db_tasks db)"
  by (auto simp: plan_constraints_def and_then_eq_Inr fail_if_eq_Inr slot_free_def plan_slot_def
      same_slot_def list_ex_iff task_ref_ok_def dest: select_row_present)

lemma task_constraints_free:
  "task_constraints db u i v = Inr x \<Longrightarrow>
     slot_free occurrence_slot u i (task_cols_of v) (db_tasks db) \<and>
     (\<forall>l. tv_list_id v = Some l \<longrightarrow> (u, l) \<in> row_key ` set (db_lists db))"
  by (auto simp: task_constraints_def and_then_eq_Inr fail_if_eq_Inr slot_free_def
      occurrence_slot_def same_occurrence_def list_ex_iff list_ref_ok_def
      task_cols_of_def dest: select_row_present split: option.splits)

section \<open>One mutation keeps it\<close>

lemma tc_list_id_cols [simp]: "tc_list_id (task_cols_of v) = tv_list_id v"
  by (simp add: task_cols_of_def)

lemma vals_ok_insert:
  "vals_ok (\<lambda>u c. \<forall>l. f c = Some l \<longrightarrow> (u, l) \<in> S) t \<Longrightarrow>
     vals_ok (\<lambda>u c. \<forall>l. f c = Some l \<longrightarrow> u = u' \<and> l = i \<or> (u, l) \<in> S) t"
  "vals_ok (\<lambda>u c. (u, g c) \<in> S) t \<Longrightarrow> vals_ok (\<lambda>u c. u = u' \<and> g c = i \<or> (u, g c) \<in> S) t"
  by (auto simp: vals_ok_def)

lemmas entities_defs = entities_ok_def keys_ok_def values_ok_def unique_ok_def

text \<open>The seven statements that change an entity table.\<close>

lemma entities_insert_list:
  assumes "entities_ok env db" "insert_list now u i v seq db = Inr db'" "list_values_ok v"
  shows "entities_ok env db'"
  using assms
  by (auto simp: insert_list_def entities_defs refs_ok_def and_then_eq_Inr fail_if_eq_Inr pk_new_row
      vals_ok_new vals_ok_insert)

lemma entities_update_list:
  assumes "entities_ok env db" "update_list now u i v seq restoring db = Inr db'" "list_values_ok v"
  shows "entities_ok env db'"
  using assms by (auto simp: update_list_def entities_defs refs_ok_def vals_ok_write)

lemma entities_insert_task:
  assumes "entities_ok env db" "insert_task now u i v seq db = Inr db'" "task_values_ok env v"
  shows "entities_ok env db'"
  using assms
  by (auto simp: insert_task_def entities_defs refs_ok_def and_then_eq_Inr fail_if_eq_Inr pk_new_row
      vals_ok_new vals_ok_insert task_stored slots_new dest!: task_constraints_free)

lemma entities_update_task:
  assumes "entities_ok env db" "update_task now u i v seq restoring db = Inr db'" "task_values_ok env v"
  shows "entities_ok env db'"
  using assms
  by (auto simp: update_task_def entities_defs refs_ok_def and_then_eq_Inr
      vals_ok_write task_stored slots_write dest!: task_constraints_free)

lemma entities_insert_step:
  assumes "entities_ok env db" "insert_step now u i v seq db = Inr db'" "step_values_validate v = Inr ()"
  shows "entities_ok env db'"
  using assms
  by (auto simp: insert_step_def entities_defs refs_ok_def and_then_eq_Inr fail_if_eq_Inr pk_new_row
      vals_ok_new task_ref_ok_def dest: select_row_present)

lemma entities_update_step:
  assumes "entities_ok env db" "update_step now u i v seq restoring db = Inr db'"
    and "step_values_validate v = Inr ()"
  shows "entities_ok env db'"
  using assms
  by (auto simp: update_step_def entities_defs refs_ok_def and_then_eq_Inr fail_if_eq_Inr
      vals_ok_write task_ref_ok_def dest: select_row_present)

lemma entities_insert_day_plan:
  assumes "entities_ok env db" "insert_day_plan now u i v seq db = Inr db'"
    and "day_plan_values_validate v = Inr ()"
  shows "entities_ok env db'"
  using assms
  by (auto simp: insert_day_plan_def entities_defs refs_ok_def and_then_eq_Inr fail_if_eq_Inr
      pk_new_row vals_ok_new slots_new dest!: plan_constraints_free)

lemma entities_update_day_plan:
  assumes "entities_ok env db" "update_day_plan now u i v seq restoring db = Inr db'"
    and "day_plan_values_validate v = Inr ()"
  shows "entities_ok env db'"
  using assms
  by (auto simp: update_day_plan_def entities_defs refs_ok_def and_then_eq_Inr
      vals_ok_write slots_write dest!: plan_constraints_free)

lemma entities_tombstone:
  assumes "entities_ok env db"
  shows "entities_ok env (db\<lparr>db_lists := tombstone_row now u i seq (db_lists db)\<rparr>)"
    and "entities_ok env (db\<lparr>db_tasks := tombstone_row now u i seq (db_tasks db)\<rparr>)"
    and "entities_ok env (db\<lparr>db_steps := tombstone_row now u i seq (db_steps db)\<rparr>)"
    and "entities_ok env (db\<lparr>db_plans := tombstone_row now u i seq (db_plans db)\<rparr>)"
  using assms by (simp_all add: entities_defs refs_ok_def vals_ok_tombstone slots_tombstone)

lemmas entities_statements =
  entities_insert_list entities_update_list entities_insert_task entities_update_task
  entities_insert_step entities_update_step entities_insert_day_plan entities_update_day_plan

lemma apply_list_entities:
  "apply_list now u m seq db = Inr (p, db') \<Longrightarrow> entities_ok env db \<Longrightarrow> entities_ok env db'"
  by (cases "mu_kind m")
    (auto simp: apply_list_def Let_def and_then_eq_Inr reject_eq_Inr list_values_validate_ok
      intro: entities_insert_list entities_update_list entities_tombstone)

lemma apply_task_entities:
  "apply_task env now u m seq db = Inr (p, db') \<Longrightarrow> entities_ok env db \<Longrightarrow> entities_ok env db'"
  by (cases "mu_kind m")
    (auto simp: apply_task_def Let_def and_then_eq_Inr reject_eq_Inr task_values_validate_ok
      intro: entities_insert_task entities_update_task entities_tombstone)

lemma apply_step_entities:
  "apply_step env now u m seq db = Inr (p, db') \<Longrightarrow> entities_ok env db \<Longrightarrow> entities_ok env db'"
  by (cases "mu_kind m")
    (auto simp: apply_step_def Let_def and_then_eq_Inr reject_eq_Inr
      intro: entities_insert_step entities_update_step entities_tombstone)

lemma apply_day_plan_entities:
  "apply_day_plan env now u m seq db = Inr (p, db') \<Longrightarrow> entities_ok env db \<Longrightarrow> entities_ok env db'"
  by (cases "mu_kind m")
    (auto simp: apply_day_plan_def Let_def and_then_eq_Inr reject_eq_Inr
      intro: entities_insert_day_plan entities_update_day_plan entities_tombstone)

lemma apply_mutation_entities:
  "apply_mutation env now u m seq db = Inr (p, db') \<Longrightarrow> entities_ok env db \<Longrightarrow> entities_ok env db'"
  by (cases "mu_entity m")
    (auto simp: apply_mutation_def intro: apply_list_entities apply_task_entities
      apply_step_entities apply_day_plan_entities)

section \<open>Other accounts\<close>

definition rows_of :: "uuid \<Rightarrow> 'v row list \<Rightarrow> 'v row list" where
  "rows_of u t = filter (\<lambda>r. r_user r = u) t"

lemma rows_of_other [simp]:
  "w \<noteq> u \<Longrightarrow> rows_of w (write_row now u i v seq restoring t) = rows_of w t"
  "w \<noteq> u \<Longrightarrow> rows_of w (tombstone_row now u i seq t) = rows_of w t"
  "w \<noteq> u \<Longrightarrow> rows_of w (t @ [new_row now u i v seq]) = rows_of w t"
proof -
  have "w \<noteq> u \<Longrightarrow> (\<And>r. r_user (f r) = r_user r) \<Longrightarrow>
      rows_of w (update_rows row_key (u, i) f t) = rows_of w t" for f
    by (induction t) (auto simp: rows_of_def update_rows_def row_key_def)
  then show "w \<noteq> u \<Longrightarrow> rows_of w (write_row now u i v seq restoring t) = rows_of w t"
    "w \<noteq> u \<Longrightarrow> rows_of w (tombstone_row now u i seq t) = rows_of w t"
    by (simp_all add: write_row_def tombstone_row_def)
qed (simp add: rows_of_def new_row_def)

text \<open>Everything the server keeps of one account's entities.\<close>

definition entities_of :: "uuid \<Rightarrow> api_db \<Rightarrow>
    list_values row list \<times> task_cols row list \<times> step_values row list \<times> day_plan_values row list" where
  "entities_of u db =
     (rows_of u (db_lists db), rows_of u (db_tasks db), rows_of u (db_steps db), rows_of u (db_plans db))"

lemma apply_mutation_other_account:
  assumes "apply_mutation env now u m seq db = Inr (p, db')" and "w \<noteq> u"
  shows "entities_of w db' = entities_of w db"
  using assms
  by (cases "mu_entity m"; cases "mu_kind m";
      auto simp: apply_mutation_def handler_defs Let_def and_then_eq_Inr statement_defs entities_of_def)

end
