(* ===== verification/ApiSyncProps.thy ===== *)
theory ApiSyncProps
  imports ApiIntegrity
begin

text \<open>
  The properties of \<open>POST /api/v1/sync\<close> over a whole request: idempotent retries, the device
  watermark, the change log, pagination, tenant isolation and the persistence of tombstones.
\<close>

section \<open>Retries\<close>

lemma account_ready_after:
  assumes ready: "account_ready u d cursor db s dev"
    and frame: "loop_frame (loop_start u db s dev) st"
    and db': "db' = save_watermarks now u d (dev_last_seq dev) (ss_next s) st"
  shows "\<exists>s' dev'. account_ready u d cursor db' s' dev' \<and> ensure_sync_state u db' = db' \<and>
    ss_next s' = ls_next st \<and> ss_min s' = ss_min s \<and> dev_last_seq dev' = ls_expected st - 1"
proof -
  from ready have s: "lookup_row ss_user (db_states (ls_db st)) u = Some s"
    and dev: "lookup_row device_key (db_devices (ls_db st)) (u, d) = Some dev" "dev_revoked dev = None"
    and user: "\<exists>r. lookup_row us_id (db_users db') u = Some r \<and> us_deleted r = None"
    and cur: "check_cursor s cursor = Inr ()"
    using frame by (simp_all add: account_ready_def loop_frame_def db')
  have le: "ss_next s \<le> ls_next st" "dev_last_seq dev \<le> ls_expected st - 1"
    using frame by (simp_all add: loop_frame_def)
  let ?s' = "s\<lparr>ss_next := ls_next st\<rparr>"
  have s': "lookup_row ss_user (db_states db') u = Some ?s'"
    using s by (cases "ls_next st = ss_next s") (simp_all add: db' save_watermarks_states)
  obtain dev' where dev': "lookup_row device_key (db_devices db') (u, d) = Some dev'"
      "dev_revoked dev' = None" "dev_last_seq dev' = ls_expected st - 1"
    using dev le by (cases "ls_expected st - 1 > dev_last_seq dev")
      (auto simp: db' save_watermarks_devices)
  have same: "ensure_sync_state u db' = db'" by (simp add: ensure_sync_state_def s')
  have "check_cursor ?s' cursor = Inr ()"
    using cur le by (auto simp: check_cursor_def and_then_eq_Inr fail_if_eq_Inr)
  with user s' dev' same show ?thesis
    by (intro exI [of _ ?s'] exI [of _ dev']) (simp add: account_ready_def)
qed

lemma save_watermarks_idle:
  "ls_expected st - 1 \<le> mark \<Longrightarrow> ls_next st = old_next \<Longrightarrow> save_watermarks now u d mark old_next st = ls_db st"
  by (simp add: save_watermarks_def)

lemma sync_transaction_retry:
  assumes tx: "sync_transaction env now u d ops cursor limit db = Inr (resp, db')"
    and ops: "distinct (map mu_op ops)"
  shows "sync_transaction env now' u d ops cursor limit db' = Inr (resp\<lparr>rs_server_time := now'\<rparr>, db')"
proof -
  from tx obtain s dev st changes next_cursor has_more where
    ready: "account_ready u d cursor db s dev" and
    loop: "try_fold (process_op env now u d (dev_last_seq dev) (receipts_by_op (db_receipts db) ops)
          (receipts_by_seq (db_receipts db) u d ops)) ops (loop_start u db s dev) = Inr st" and
    db': "db' = save_watermarks now u d (dev_last_seq dev) (ss_next s) st" and
    page: "change_page db' u cursor limit = Inr (changes, next_cursor, has_more)" and
    resp: "resp = \<lparr>rs_ack = ls_acks st, rs_changes = changes, rs_next_cursor = show_int next_cursor,
                rs_has_more = has_more, rs_server_time = now\<rparr>"
    by (auto simp: sync_transaction_Inr)
  have frame: "loop_frame (loop_start u db s dev) st" by (rule process_ops_frame [OF loop])
  obtain as where as: "ls_acks st = as"
      "list_all2 (answered (db_receipts (ls_db st)) u d (dev_last_seq dev)) ops as"
    using process_ops_answered [OF loop _ ops] consults_start by (auto simp: loop_start_def)
  obtain s' dev' where after: "account_ready u d cursor db' s' dev'" "ensure_sync_state u db' = db'"
      "ss_next s' = ls_next st" "dev_last_seq dev' = ls_expected st - 1"
    using account_ready_after [OF ready frame db'] by blast
  have "dev_last_seq dev \<le> dev_last_seq dev'"
    using frame after(4) by (simp add: loop_frame_def)
  then have "list_all2 (answered (db_receipts db') u d (dev_last_seq dev')) ops as"
    using as(2) by (auto simp: db' intro: list_all2_mono answered_mono)
  then have "try_fold (process_op env now' u d (dev_last_seq dev') (receipts_by_op (db_receipts db') ops)
      (receipts_by_seq (db_receipts db') u d ops)) ops (loop_start u db' s' dev') =
    Inr (loop_start u db' s' dev'\<lparr>ls_acks := as\<rparr>)"
    by (simp add: process_ops_replay [OF _ consults_start])
  then show ?thesis
    unfolding sync_transaction_Inr
    by (intro exI [of _ s'] exI [of _ dev'] exI [of _ "loop_start u db' s' dev'\<lparr>ls_acks := as\<rparr>"]
          exI [of _ changes] exI [of _ next_cursor] exI [of _ has_more] conjI)
      (simp_all add: after page resp as save_watermarks_idle)
qed

text \<open>C1. Sync is idempotent: sending a request again after it succeeded (a retry after a lost
  response) returns the same acknowledgements, changes and cursor, and leaves the database
  exactly as the first attempt left it; no operation is applied twice.\<close>

theorem sync_retry_idempotent:
  assumes "sync env now auth body db = Inr (resp, db')"
  shows "sync env now' auth body db' = Inr (resp\<lparr>rs_server_time := now'\<rparr>, db')"
  using assms sync_transaction_retry by (fastforce simp: sync_Inr validate_batch_Inr)

section \<open>Receipts and the watermark\<close>

text \<open>C2. A request appends receipts for exactly the sequence numbers after the device's
  watermark, in order and without a gap, all of this account and device and each for an
  operation of the request, and moves the watermark to the last of them; nothing is
  removed.\<close>

theorem sync_watermark_gap_free:
  assumes "sync env now auth body db = Inr (resp, db')"
    and "lookup_row device_key (db_devices db) (au_user auth, sq_device body) = Some dev"
  shows "\<exists>rs dev'. db_receipts db' = db_receipts db @ rs \<and>
    lookup_row device_key (db_devices db') (au_user auth, sq_device body) = Some dev' \<and>
    dev_last_seq dev \<le> dev_last_seq dev' \<and>
    map rc_client_seq rs = [dev_last_seq dev + 1 .. dev_last_seq dev'] \<and>
    (\<forall>r \<in> set rs. \<exists>m \<in> set (sq_ops body). new_receipt (au_user auth) (sq_device body) m r)"
  using assms(1)
proof (rule sync_loop)
  fix s dev0 st cursor rs cs
  assume *: "account_ready (au_user auth) (sq_device body) (cursor_get cursor) db s dev0"
    "appends (au_user auth) (sq_device body) (set (sq_ops body))
       (loop_start (au_user auth) db s dev0) st rs cs"
    "loop_frame (loop_start (au_user auth) db s dev0) st"
    "db' = save_watermarks now (au_user auth) (sq_device body) (dev_last_seq dev0) (ss_next s) st"
  from *(1) assms(2) have [simp]: "dev0 = dev" by (simp add: account_ready_def)
  obtain s' dev' where "account_ready (au_user auth) (sq_device body) (cursor_get cursor) db' s' dev'"
      "dev_last_seq dev' = ls_expected st - 1"
    using account_ready_after [OF *(1,3,4)] by blast
  with *(2,4) show ?thesis
    by (intro exI [of _ rs] exI [of _ dev']) (auto simp: appends_def account_ready_def)
qed

section \<open>The change log\<close>

text \<open>C3. The change log is append-only and gap-free: a request appends changes at exactly the
  positions from the account's \<open>next_server_seq\<close> to its new value, each for an operation of
  the request, and each matched, in order, by the receipt that carries its position.\<close>

theorem sync_change_log_gap_free:
  assumes "sync env now auth body db = Inr (resp, db')"
    and "lookup_row ss_user (db_states db) (au_user auth) = Some s"
  shows "\<exists>rs cs s'. db_changes db' = db_changes db @ cs \<and> db_receipts db' = db_receipts db @ rs \<and>
    lookup_row ss_user (db_states db') (au_user auth) = Some s' \<and>
    map cr_seq cs = [ss_next s .. ss_next s' - 1] \<and>
    map (\<lambda>c. (cr_op c, cr_seq c)) cs = receipt_positions rs \<and>
    (\<forall>c \<in> set cs. \<exists>m \<in> set (sq_ops body). change_of (au_user auth) m c)"
  using assms(1)
proof (rule sync_loop)
  fix s0 dev st cursor rs cs
  assume *: "account_ready (au_user auth) (sq_device body) (cursor_get cursor) db s0 dev"
    "appends (au_user auth) (sq_device body) (set (sq_ops body))
       (loop_start (au_user auth) db s0 dev) st rs cs"
    "loop_frame (loop_start (au_user auth) db s0 dev) st"
    "db' = save_watermarks now (au_user auth) (sq_device body) (dev_last_seq dev) (ss_next s0) st"
  from *(1) assms(2) have [simp]: "s0 = s"
    by (simp add: account_ready_def ensure_sync_state_lookup)
  obtain s' dev' where "account_ready (au_user auth) (sq_device body) (cursor_get cursor) db' s' dev'"
      "ensure_sync_state (au_user auth) db' = db'" "ss_next s' = ls_next st"
    using account_ready_after [OF *(1,3,4)] by blast
  with *(2,4) show ?thesis
    by (intro exI [of _ rs] exI [of _ cs] exI [of _ s']) (auto simp: appends_def account_ready_def)
qed

section \<open>Pages of the change log\<close>

lemma read_change_frame: "read_change r = Inr c \<Longrightarrow> ch_seq c = cr_seq r \<and> ch_op c = cr_op r \<and>
    ch_entity_id c = cr_entity_id r \<and> ch_patch c = cr_patch r"
  by (auto simp: read_change_def and_then_eq_Inr)

lemma read_changes_frame:
  "read_changes rs = Inr cs \<Longrightarrow> map ch_seq cs = map cr_seq rs \<and> map ch_op cs = map cr_op rs"
  by (induction rs arbitrary: cs) (auto simp: and_then_eq_Inr dest: read_change_frame)

lemma sorted_changes_after: "sorted (map cr_seq (changes_after cs u c))"
  by (simp add: changes_after_def)

lemma set_changes_after: "set (changes_after cs u c) = {r \<in> set cs. cr_user r = u \<and> c < cr_seq r}"
  by (auto simp: changes_after_def)

lemma distinct_changes_after:
  "distinct (map (\<lambda>c. (cr_user c, cr_seq c)) cs) \<Longrightarrow> distinct (map cr_seq (changes_after cs u c))"
proof -
  assume "distinct (map (\<lambda>c. (cr_user c, cr_seq c)) cs)"
  then have "distinct (map cr_seq (filter (\<lambda>r. cr_user r = u \<and> c < cr_seq r) cs))"
    by (auto simp: distinct_map inj_on_def)
  then show ?thesis
    by (simp add: changes_after_def distinct_map)
qed

lemma changes_after_later:
  assumes "c \<le> c'"
  shows "changes_after cs u c' = filter (\<lambda>r. c' < cr_seq r) (changes_after cs u c)"
proof -
  have "filter (\<lambda>r. cr_user r = u \<and> c' < cr_seq r) cs =
    filter (\<lambda>r. c' < cr_seq r) (filter (\<lambda>r. cr_user r = u \<and> c < cr_seq r) cs)"
    using assms by (induction cs) auto
  then show ?thesis by (simp add: changes_after_def filter_sort)
qed

lemma filter_beyond_split:
  assumes "sorted (map f xs)" "distinct (map f xs)" "0 < n" "n \<le> length xs"
  shows "filter (\<lambda>x. f (xs ! (n - 1)) < (f x :: int)) xs = drop n xs"
proof -
  have less: "f (xs ! i) < f (xs ! j)" if "i < j" "j < length xs" for i j
    using that assms(1,2) sorted_wrt_nth_less [of "(<)" "map f xs" i j] by (simp add: strict_sorted_iff)
  have "filter (\<lambda>x. f (xs ! (n - 1)) < f x) (take n xs) = []"
  proof -
    have "\<not> f (xs ! (n - 1)) < f (xs ! i)" if "i < n" for i
    proof (cases "i = n - 1")
      case False
      then have "i < n - 1" "n - 1 < length xs" using that assms(3,4) by linarith+
      then show ?thesis using less [of i "n - 1"] by simp
    qed simp
    then show ?thesis by (auto simp: filter_empty_conv in_set_conv_nth)
  qed
  moreover have "filter (\<lambda>x. f (xs ! (n - 1)) < f x) (drop n xs) = drop n xs"
    using less assms(3,4) by (auto simp: filter_id_conv in_set_conv_nth)
  ultimately show ?thesis
    by (metis append_Nil append_take_drop_id filter_append)
qed

lemma change_page_split:
  assumes page: "change_page db u cursor limit = Inr (changes, next_cursor, has_more)" and "0 < limit"
    and pk: "distinct (map (\<lambda>c. (cr_user c, cr_seq c)) (db_changes db))"
  defines "after \<equiv> changes_after (db_changes db) u cursor"
  shows "map ch_seq changes = map cr_seq (take limit after)"
    and "changes_after (db_changes db) u next_cursor = drop limit after"
    and "has_more \<longleftrightarrow> drop limit after \<noteq> []" and "cursor \<le> next_cursor"
proof -
  have changes: "read_changes (take limit after) = Inr changes"
    and next_cursor: "next_cursor = (if changes = [] then cursor else ch_seq (last changes))"
    and more: "has_more \<longleftrightarrow> limit < length (take (limit + 1) after)"
    using page by (auto simp: change_page_def Let_def and_then_eq_Inr after_def)
  show seqs: "map ch_seq changes = map cr_seq (take limit after)"
    using read_changes_frame [OF changes] by simp
  show "has_more \<longleftrightarrow> drop limit after \<noteq> []" using more by auto
  have len: "length changes = min limit (length after)"
    using arg_cong [OF seqs, of length] by simp
  show le: "cursor \<le> next_cursor"
  proof (cases "changes = []")
    case False
    then have "ch_seq (last changes) \<in> set (map ch_seq changes)" by simp
    then have "ch_seq (last changes) \<in> cr_seq ` set after"
      unfolding seqs by (auto dest: in_set_takeD)
    then show ?thesis using next_cursor False by (auto simp: after_def set_changes_after)
  qed (use next_cursor in simp)
  show "changes_after (db_changes db) u next_cursor = drop limit after"
  proof (cases "changes = []")
    case True
    with len \<open>0 < limit\<close> have "after = []" by (cases after) auto
    with True next_cursor show ?thesis by (simp add: after_def)
  next
    case False
    let ?n = "length changes"
    have n: "0 < ?n" "?n \<le> length after" using False by (simp, simp add: len)
    have n_less: "?n - 1 < limit" "?n - 1 < length after" using n(1) len by linarith+
    have "next_cursor = map ch_seq changes ! (?n - 1)"
      using False next_cursor by (simp add: last_conv_nth)
    also have "\<dots> = cr_seq (after ! (?n - 1))"
      unfolding seqs using n_less by (subst nth_map) simp_all
    finally have "changes_after (db_changes db) u next_cursor = drop ?n after"
      using filter_beyond_split [of cr_seq after ?n] n le pk
      by (simp add: changes_after_later after_def sorted_changes_after distinct_changes_after)
    then show ?thesis using len by (cases "limit \<le> length after") (simp_all add: min_def split: if_splits)
  qed
qed

text \<open>C4. Pages neither skip nor repeat a change: the changes returned are the first ones of the
  account after the cursor, in order of position and at most \<open>limit\<close> many; what lies after the
  returned cursor is exactly the rest; and \<open>has_more\<close> says whether that rest is empty.\<close>

theorem sync_page_exact:
  assumes "sync env now auth body db = Inr (resp, db')"
    and "distinct (map (\<lambda>c. (cr_user c, cr_seq c)) (db_changes db'))"
    and "cursor_parse (sq_cursor body) = Inr cursor"
    and "parse_page_limit (sq_limit body) MAX_SYNC_CHANGES MAX_SYNC_CHANGES = Inr limit"
  defines "after \<equiv> changes_after (db_changes db') (au_user auth) (cursor_get cursor)"
  shows "map ch_seq (rs_changes resp) = map cr_seq (take limit after) \<and>
    (\<exists>next_cursor. rs_next_cursor resp = show_int next_cursor \<and> cursor_get cursor \<le> next_cursor \<and>
       changes_after (db_changes db') (au_user auth) next_cursor = drop limit after) \<and>
    (rs_has_more resp \<longleftrightarrow> drop limit after \<noteq> [])"
proof -
  obtain changes next_cursor has_more where
    page: "change_page db' (au_user auth) (cursor_get cursor) limit = Inr (changes, next_cursor, has_more)"
    and resp: "rs_changes resp = changes" "rs_next_cursor resp = show_int next_cursor"
      "rs_has_more resp = has_more"
    using assms(1,3,4) by (elim sync_loop) auto
  have "0 < limit"
    using assms(4) by (auto simp: parse_page_limit_def MAX_SYNC_CHANGES_def split: option.splits if_splits)
  from change_page_split [OF page this assms(2)] resp show ?thesis by (auto simp: after_def)
qed

section \<open>The entities over a whole request\<close>

text \<open>
  A property of the entity tables that every mutation of the request keeps holds after the
  request: nothing else the handler does touches them.
\<close>

definition entity_tables :: "api_db \<Rightarrow>
    list_values row list \<times> task_cols row list \<times> step_values row list \<times> day_plan_values row list" where
  "entity_tables db = (db_lists db, db_tasks db, db_steps db, db_plans db)"

lemma entity_tables_same:
  "entity_tables (ensure_sync_state u db) = entity_tables db"
  "entity_tables (save_watermarks now u d mark old_next st) = entity_tables (ls_db st)"
  "entity_tables (db\<lparr>db_changes := cs\<rparr>) = entity_tables db"
  "entity_tables (db\<lparr>db_receipts := rs\<rparr>) = entity_tables db"
  by (simp_all add: entity_tables_def)

lemma process_op_preserves:
  assumes "process_op env now u d mark by_op by_seq m st = Inr st'" and "Q (ls_db st)"
    and tables: "\<And>a b. entity_tables a = entity_tables b \<Longrightarrow> Q a \<Longrightarrow> Q b"
    and keep: "\<And>seq a p b. Q a \<Longrightarrow> apply_mutation env now u m seq a = Inr (p, b) \<Longrightarrow> Q b"
  shows "Q (ls_db st')"
  using assms(1)
proof (cases rule: process_op_cases)
  case fresh
  from fresh(5) show ?thesis
  proof (cases rule: run_op_cases)
    case (applied p db)
    have "Q db" using keep applied(1) assms(2) by blast
    then show ?thesis using applied(4) by (auto intro: tables [of db] simp: entity_tables_same)
  next
    case (rejected code)
    then show ?thesis using assms(2) by (auto intro: tables [of "ls_db st"] simp: entity_tables_same)
  qed
qed (use assms(2) in auto)

lemma sync_preserves:
  assumes "sync env now auth body db = Inr (resp, db')" and "Q db"
    and tables: "\<And>a b. entity_tables a = entity_tables b \<Longrightarrow> Q a \<Longrightarrow> Q b"
    and keep: "\<And>m seq a p b. m \<in> set (sq_ops body) \<Longrightarrow> Q a \<Longrightarrow>
      apply_mutation env now (au_user auth) m seq a = Inr (p, b) \<Longrightarrow> Q b"
  shows "Q db'"
  using assms(1)
proof (rule sync_loop)
  fix s dev st
  assume loop: "try_fold (process_op env now (au_user auth) (sq_device body) (dev_last_seq dev)
        (receipts_by_op (db_receipts db) (sq_ops body))
        (receipts_by_seq (db_receipts db) (au_user auth) (sq_device body) (sq_ops body)))
      (sq_ops body) (loop_start (au_user auth) db s dev) = Inr st"
    and db': "db' = save_watermarks now (au_user auth) (sq_device body) (dev_last_seq dev) (ss_next s) st"
  have "Q (ls_db st)"
  proof (rule try_fold_invariant [OF loop, where P = "\<lambda>s. Q (ls_db s)"])
    show "Q (ls_db (loop_start (au_user auth) db s dev))"
      using assms(2) by (auto intro: tables [of db] simp: entity_tables_same)
  qed (rule process_op_preserves [where Q = Q], assumption+, erule (1) tables, rule keep)
  then show ?thesis by (auto simp: db' entity_tables_same intro: tables [of "ls_db st"])
qed

lemma entity_life_tables: "entity_tables a = entity_tables b \<Longrightarrow> entity_life b k = entity_life a k"
  by (cases "(a, k)" rule: entity_life.cases) (auto simp: entity_tables_def)

lemma entities_ok_tables: "entity_tables a = entity_tables b \<Longrightarrow> entities_ok env a \<Longrightarrow> entities_ok env b"
  by (simp add: entity_tables_def entities_defs refs_ok_def)

text \<open>C5. Deletion wins over later edits: an entity that is tombstoned stays tombstoned through
  any request that does not explicitly restore it, whatever else the request does to it.\<close>

theorem sync_tombstone_wins:
  assumes "sync env now auth body db = Inr (resp, db')"
    and "entity_life db k = Tombstoned"
    and "\<forall>m \<in> set (sq_ops body). \<not> (mutation_key (au_user auth) m = k \<and> mu_kind m = KRestore)"
  shows "entity_life db' k = Tombstoned"
  using assms(1,2)
proof (rule sync_preserves)
  fix m seq a p b
  assume "m \<in> set (sq_ops body)" "entity_life a k = Tombstoned"
    "apply_mutation env now (au_user auth) m seq a = Inr (p, b)"
  with assms(3) show "entity_life b k = Tombstoned"
    using account_log.tombstone_kept [of env now "au_user auth" "(m, seq)" a b k]
    by (auto simp: account_step_def)
qed (metis entity_life_tables)

text \<open>C6. No row is ever lost: an entity the server knows, live or tombstoned, is still known
  after any request.\<close>

theorem sync_never_forgets:
  assumes "sync env now auth body db = Inr (resp, db')" and "entity_life db k \<noteq> Absent"
  shows "entity_life db' k \<noteq> Absent"
  using assms
proof (rule sync_preserves)
  fix m seq a p b
  assume "entity_life a k \<noteq> Absent" "apply_mutation env now (au_user auth) m seq a = Inr (p, b)"
  then show "entity_life b k \<noteq> Absent"
    using account_log.never_removed [of env now "au_user auth" "(m, seq)" a b k]
    by (auto simp: account_step_def)
qed (metis entity_life_tables)

text \<open>C7. The stored entities stay well-formed: unique identifiers, values that pass validation
  (tasks with normalised tags and a known status), every reference to a list or task of the
  same account, one plan per task and day and one task per recurrence occurrence.\<close>

theorem sync_entities_ok:
  assumes "sync env now auth body db = Inr (resp, db')" and "entities_ok env db"
  shows "entities_ok env db'"
  using assms
  by (rule sync_preserves) (erule (1) entities_ok_tables, erule (1) apply_mutation_entities [rotated])

lemma of_appends:
  assumes "appends u d ms st st' rs cs" and "w \<noteq> u"
  shows "filter (\<lambda>c. cr_user c = w) (db_changes (ls_db st')) =
           filter (\<lambda>c. cr_user c = w) (db_changes (ls_db st))"
    and "filter (\<lambda>r. rc_user r = w) (db_receipts (ls_db st')) =
           filter (\<lambda>r. rc_user r = w) (db_receipts (ls_db st))"
proof -
  have "filter (\<lambda>c. cr_user c = w) cs = []" "filter (\<lambda>r. rc_user r = w) rs = []"
    using assms by (auto simp: appends_def change_of_def new_receipt_def filter_empty_conv)
  with assms(1) show "filter (\<lambda>c. cr_user c = w) (db_changes (ls_db st')) =
           filter (\<lambda>c. cr_user c = w) (db_changes (ls_db st))"
    "filter (\<lambda>r. rc_user r = w) (db_receipts (ls_db st')) =
           filter (\<lambda>r. rc_user r = w) (db_receipts (ls_db st))"
    by (simp_all add: appends_def)
qed

text \<open>C8. Accounts are isolated: a request of one account changes no entity, no change, no
  receipt, no device and no sync state of any other account.\<close>

theorem sync_isolates_accounts:
  assumes "sync env now auth body db = Inr (resp, db')" and "w \<noteq> au_user auth"
  shows "entities_of w db' = entities_of w db \<and>
    filter (\<lambda>c. cr_user c = w) (db_changes db') = filter (\<lambda>c. cr_user c = w) (db_changes db) \<and>
    filter (\<lambda>r. rc_user r = w) (db_receipts db') = filter (\<lambda>r. rc_user r = w) (db_receipts db) \<and>
    lookup_row ss_user (db_states db') w = lookup_row ss_user (db_states db) w \<and>
    (\<forall>d. lookup_row device_key (db_devices db') (w, d) = lookup_row device_key (db_devices db) (w, d))"
proof -
  have entities: "entities_of w db' = entities_of w db"
    using assms(1) by (rule sync_preserves [where Q = "\<lambda>x. entities_of w x = entities_of w db"])
      (use assms(2) in \<open>auto simp: entity_tables_def entities_of_def dest: apply_mutation_other_account\<close>)
  from assms(1) show ?thesis
  proof (rule sync_loop)
    fix s dev st rs cs
    assume *: "appends (au_user auth) (sq_device body) (set (sq_ops body))
       (loop_start (au_user auth) db s dev) st rs cs"
      "loop_frame (loop_start (au_user auth) db s dev) st"
      "db' = save_watermarks now (au_user auth) (sq_device body) (dev_last_seq dev) (ss_next s) st"
    from *(2) have frame: "db_states (ls_db st) = db_states (ensure_sync_state (au_user auth) db)"
      "db_devices (ls_db st) = db_devices db" by (simp_all add: loop_frame_def)
    show ?thesis
      using entities of_appends [OF *(1) assms(2)] assms(2)
      by (simp add: *(3) save_watermarks_states save_watermarks_devices frame ensure_sync_state_lookup
          split: option.splits)
  qed
qed

end
