(* ===== verification/ApiSyncErrors.thy ===== *)
theory ApiSyncErrors
  imports ApiSyncProps
begin

text \<open>
  The error side of the sync handler: which mutations are refused with which code, that a
  refused operation leaves only its receipt, and that no request on a well-formed database
  ends in an internal error.
\<close>

section \<open>Refusals by the state of the entity\<close>

text \<open>The code of the error an operation meets when its entity is in the wrong state.\<close>

fun life_error :: "mutation_kind \<Rightarrow> life \<Rightarrow> string option" where
  "life_error KPatch Absent = Some ''ENTITY_NOT_FOUND''"
| "life_error KDelete Absent = Some ''ENTITY_NOT_FOUND''"
| "life_error KRestore Absent = Some ''ENTITY_NOT_FOUND''"
| "life_error KPatch Tombstoned = Some ''ENTITY_TOMBSTONED''"
| "life_error KDelete Tombstoned = Some ''ENTITY_TOMBSTONED''"
| "life_error KRestore Live = Some ''INVALID_STATE''"
| "life_error _ _ = None"

lemma live_row_error:
  "life_in t (u, i) = Absent \<Longrightarrow> live_row (select_row t u i) = Inl (Reject me_not_found)"
  "life_in t (u, i) = Tombstoned \<Longrightarrow> live_row (select_row t u i) = Inl (Reject me_tombstoned)"
  "life_in t (u, i) = Absent \<Longrightarrow> dead_row (select_row t u i) = Inl (Reject me_not_found)"
  "life_in t (u, i) = Live \<Longrightarrow>
     dead_row (select_row t u i) = Inl (Reject (me_invalid_state ''entity is not deleted''))"
  by (auto simp: live_row_def dead_row_def life_in_def select_row_def life_of_row_def
      split: option.splits if_splits)

lemma apply_mutation_life_error:
  assumes "life_error (mu_kind m) (entity_life db (mutation_key u m)) = Some code"
  shows "\<exists>e. apply_mutation env now u m seq db = Inl (Reject e) \<and> me_code e = code"
  using assms
  by (cases "mu_entity m"; cases "mu_kind m"; cases "entity_life db (mutation_key u m)";
      simp add: apply_mutation_def mutation_key_def handler_defs Let_def live_row_error
        me_not_found_def me_tombstoned_def me_invalid_state_def)

section \<open>The errors of the statements\<close>

definition constraint_only :: "apply_failure + 'a \<Rightarrow> bool" where
  "constraint_only m \<longleftrightarrow> (\<forall>e. m = Inl (DbFailure e) \<longrightarrow> is_constraint_violation e)"

lemma constraint_only_simps [simp]:
  "constraint_only (Inr x)" "constraint_only (Inl (Reject e))" "constraint_only (reject r)"
  "constraint_only (Inl unique_violation)" "constraint_only (Inl foreign_key_violation)"
  by (auto simp: constraint_only_def reject_eq_Inl unique_violation_def foreign_key_violation_def
      starts_with_def)

lemma constraint_only_then:
  "constraint_only m \<Longrightarrow> (\<And>x. m = Inr x \<Longrightarrow> constraint_only (k x)) \<Longrightarrow> constraint_only (and_then m k)"
  by (cases m) (auto simp: constraint_only_def)

lemma constraint_only_fail_if:
  "constraint_only (Inl e :: apply_failure + unit) \<Longrightarrow> constraint_only (fail_if b e)"
  by (cases b) simp_all

lemma constraint_only_ok_or: "constraint_only (ok_or x (Reject e))"
  by (cases x) simp_all

lemmas constraint_only_intros =
  constraint_only_then constraint_only_fail_if constraint_only_ok_or constraint_only_simps

lemma constraint_only_parts:
  "constraint_only (live_row r)" "constraint_only (dead_row r)" "constraint_only (task_values_of c)"
  "constraint_only (ensure_active_list db u l)" "constraint_only (ensure_active_task db u t)"
  by (auto simp: live_row_def dead_row_def task_values_of_def ensure_active_list_def
      ensure_active_task_def intro!: constraint_only_intros split: option.splits)

lemma constraint_only_statements:
  "constraint_only (insert_list now u i lv seq db)" "constraint_only (update_list now u i lv seq b db)"
  "constraint_only (insert_task now u i tv seq db)" "constraint_only (update_task now u i tv seq b db)"
  "constraint_only (insert_step now u i sv seq db)" "constraint_only (update_step now u i sv seq b db)"
  "constraint_only (insert_day_plan now u i dv seq db)"
  "constraint_only (update_day_plan now u i dv seq b db)"
  by (auto simp: statement_defs task_constraints_def plan_constraints_def
      intro!: constraint_only_intros)

lemma apply_mutation_constraint_only: "constraint_only (apply_mutation env now u m seq db)"
  by (cases "mu_entity m"; cases "mu_kind m";
      simp add: apply_mutation_def handler_defs Let_def;
      intro constraint_only_intros constraint_only_parts constraint_only_statements)

section \<open>No internal error\<close>

text \<open>
  The change log and the sync states agree: every change is below its account's next
  position, positions are unique per account, and its entity and kind are known names.
\<close>

definition log_ok :: "api_db \<Rightarrow> bool" where
  "log_ok db \<longleftrightarrow>
     (\<forall>c \<in> set (db_changes db).
        entity_parse (cr_entity c) \<noteq> None \<and> parse_kind (cr_kind c) \<noteq> None \<and>
        (case lookup_row ss_user (db_states db) (cr_user c) of
           None \<Rightarrow> False | Some s \<Rightarrow> cr_seq c < ss_next s)) \<and>
     distinct (map (\<lambda>c. (cr_user c, cr_seq c)) (db_changes db))"

definition client_error :: "app_error \<Rightarrow> bool" where
  "client_error e \<longleftrightarrow> fst (into_response e) < 500"

lemma client_error_simps [simp]:
  "client_error (err_sequence_mismatch d)" "client_error (err_validation d)"
  "client_error err_unauthorized" "client_error err_cursor_expired"
  "client_error (BadRequest c d)" "client_error (Forbidden c d)" "client_error (Unauthorized c d)"
  by (simp_all add: client_error_def err_sequence_mismatch_def err_validation_def
      err_unauthorized_def err_cursor_expired_def)

definition op_ready ::
  "(uuid \<Rightarrow> receipt_row option) \<Rightarrow> (int \<Rightarrow> receipt_row option) \<Rightarrow> uuid \<Rightarrow> uuid \<Rightarrow> mutation list \<Rightarrow>
   loop_state \<Rightarrow> bool" where
  "op_ready by_op by_seq u d ops st \<longleftrightarrow>
     (\<forall>m \<in> set ops.
        (by_op (mu_op m) = None \<longrightarrow> mu_op m \<notin> rc_op ` set (db_receipts (ls_db st))) \<and>
        (by_seq (mu_client_seq m) = None \<longrightarrow> ls_expected st \<le> mu_client_seq m \<longrightarrow>
           (\<forall>r \<in> set (db_receipts (ls_db st)).
              \<not> (rc_user r = u \<and> rc_device r = d \<and> rc_client_seq r = mu_client_seq m)))) \<and>
     (\<forall>c \<in> set (db_changes (ls_db st)). cr_user c = u \<longrightarrow> cr_seq c < ls_next st)"

lemma run_op_no_internal:
  assumes "run_op env now u d m st = Inl e"
    and "mu_op m \<notin> rc_op ` set (db_receipts (ls_db st))"
    and "\<forall>r \<in> set (db_receipts (ls_db st)).
           \<not> (rc_user r = u \<and> rc_device r = d \<and> rc_client_seq r = mu_client_seq m)"
    and "\<forall>c \<in> set (db_changes (ls_db st)). cr_user c = u \<longrightarrow> cr_seq c < ls_next st"
  shows False
proof -
  have receipt: "insert_receipt r db \<noteq> Inl e"
    if "db_receipts db = db_receipts (ls_db st)" "new_receipt u d m r" for r db
    using that assms(2,3)
    by (auto simp: insert_receipt_def new_receipt_def and_then_eq_Inl fail_if_eq_Inl list_ex_iff image_iff)
  have reject: "reject_op u d m code st \<noteq> Inl e" for code
    using receipt [of "ls_db st"]
    by (auto simp: reject_op_def insert_rejected_receipt_def new_receipt_def and_then_eq_Inl)
  show False
  proof (cases "apply_mutation env now u m (ls_next st) (ls_db st)")
    case (Inl f)
    with assms(1) reject show False
      using apply_mutation_constraint_only [of env now u m "ls_next st" "ls_db st"]
      by (cases f) (auto simp: run_op_def constraint_only_def split: if_splits)
  next
    case (Inr r)
    obtain p db where r: "r = (p, db)" by (cases r)
    have frame: "db_receipts db = db_receipts (ls_db st)" "db_changes db = db_changes (ls_db st)"
      using apply_mutation_frame Inr r by auto
    with assms(1,4) Inr r receipt show False
      by (auto simp: run_op_def insert_change_def and_then_eq_Inl and_then_eq_Inr fail_if_eq_Inl
          list_ex_iff new_receipt_def)
  qed
qed

lemma process_ops_client_error:
  assumes "try_fold (process_op env now u d mark by_op by_seq) ops st = Inl e"
    and "op_ready by_op by_seq u d ops st" and "distinct (map mu_op ops)"
  shows "client_error e"
  using assms
proof (induction ops arbitrary: st)
  case (Cons m ops)
  show ?case
  proof (cases "process_op env now u d mark by_op by_seq m st")
    case (Inl f)
    with Cons.prems(1) have "f = e" by simp
    have "mu_client_seq m = ls_expected st \<Longrightarrow> by_op (mu_op m) = None \<Longrightarrow>
        by_seq (mu_client_seq m) = None \<Longrightarrow> run_op env now u d m st \<noteq> Inl e"
      using run_op_no_internal [of env now u d m st e] Cons.prems(2) by (auto simp: op_ready_def)
    with Inl \<open>f = e\<close> show ?thesis
      by (auto simp: process_op_def split: option.splits if_splits)
  next
    case (Inr st1)
    with Cons.prems(1) have rest: "try_fold (process_op env now u d mark by_op by_seq) ops st1 = Inl e"
      by simp
    have "op_ready by_op by_seq u d ops st1"
      using Inr
    proof (cases rule: process_op_cases)
      case fresh
      obtain rs cs where a: "appends u d {m} st st1 rs cs"
        using run_op_appends [OF fresh(5,3)] by blast
      have new: "\<forall>r \<in> set rs. rc_op r = mu_op m \<and> rc_client_seq r < ls_expected st1"
      proof
        fix r assume "r \<in> set rs"
        with a have "rc_client_seq r \<in> set [ls_expected st .. ls_expected st1 - 1]"
          unfolding appends_def by (metis image_eqI set_map)
        with a \<open>r \<in> set rs\<close> show "rc_op r = mu_op m \<and> rc_client_seq r < ls_expected st1"
          by (auto simp: appends_def new_receipt_def)
      qed
      have seqs: "\<forall>c \<in> set cs. cr_seq c < ls_next st1"
      proof
        fix c assume "c \<in> set cs"
        with a have "cr_seq c \<in> set [ls_next st .. ls_next st1 - 1]"
          unfolding appends_def by (metis image_eqI set_map)
        then show "cr_seq c < ls_next st1" by auto
      qed
      from a have up: "ls_expected st \<le> ls_expected st1" "ls_next st \<le> ls_next st1"
        "db_receipts (ls_db st1) = db_receipts (ls_db st) @ rs"
        "db_changes (ls_db st1) = db_changes (ls_db st) @ cs"
        by (simp_all add: appends_def)
      with Cons.prems(2,3) new seqs show ?thesis
        unfolding op_ready_def by (fastforce simp: image_iff)
    qed (use Cons.prems(2) in \<open>auto simp: op_ready_def\<close>)
    with Cons.IH [OF rest] Cons.prems(3) show ?thesis by simp
  qed
qed simp

lemma op_ready_start:
  assumes "log_ok db" and "lookup_row ss_user (db_states (ensure_sync_state u db)) u = Some s"
  shows "op_ready (receipts_by_op (db_receipts db) ops) (receipts_by_seq (db_receipts db) u d ops)
    u d ops (loop_start u db s dev)"
proof -
  have "\<forall>c \<in> set (db_changes db). cr_user c = u \<longrightarrow> cr_seq c < ss_next s"
    using assms by (fastforce simp: log_ok_def ensure_sync_state_lookup split: option.splits)
  moreover have "mu_op m \<notin> rc_op ` set (db_receipts db)"
    if "m \<in> set ops" "receipts_by_op (db_receipts db) ops (mu_op m) = None" for m
    using that receipts_by_op_lookup [of m ops "db_receipts db"] by (simp add: lookup_row_None)
  moreover have "\<not> (rc_user r = u \<and> rc_device r = d \<and> rc_client_seq r = mu_client_seq m)"
    if "m \<in> set ops" "receipts_by_seq (db_receipts db) u d ops (mu_client_seq m) = None"
      "r \<in> set (db_receipts db)" for m r
    using that receipts_by_seq_lookup [of m ops "db_receipts db" u d]
    by (auto simp: seq_receipt_def lookup_row_None image_iff)
  ultimately show ?thesis by (auto simp: op_ready_def)
qed

lemma names_parse [simp]:
  "entity_parse (entity_as_str e) = Some e" "parse_kind (kind_as_str k) = Some k"
  by (rule entity_names.parse_as_str, rule kind_names.parse_as_str)

lemma log_ok_after:
  assumes ok: "log_ok db" and ready: "account_ready u d cursor db s dev"
    and app: "appends u d ms (loop_start u db s dev) st rs cs"
    and frame: "loop_frame (loop_start u db s dev) st"
    and db': "db' = save_watermarks now u d (dev_last_seq dev) (ss_next s) st"
  shows "log_ok db'"
proof -
  have states: "lookup_row ss_user (db_states db') w =
      (if w = u then Some (s\<lparr>ss_next := ls_next st\<rparr>) else lookup_row ss_user (db_states db) w)" for w
    using frame ready by (auto simp: db' save_watermarks_states loop_frame_def account_ready_def
        ensure_sync_state_lookup split: option.splits)
  have old: "entity_parse (cr_entity c) \<noteq> None \<and> parse_kind (cr_kind c) \<noteq> None \<and>
      (\<exists>t. lookup_row ss_user (db_states db) (cr_user c) = Some t \<and> cr_seq c < ss_next t)"
    if "c \<in> set (db_changes db)" for c
    using ok that by (fastforce simp: log_ok_def split: option.splits)
  have own: "cr_seq c < ss_next s" if "c \<in> set (db_changes db)" "cr_user c = u" for c
    using old [OF that(1)] that(2) ready
    by (auto simp: account_ready_def ensure_sync_state_lookup)
  have le: "ss_next s \<le> ls_next st" and seqs: "map cr_seq cs = [ss_next s .. ls_next st - 1]"
    using app by (simp_all add: appends_def)
  have new: "entity_parse (cr_entity c) \<noteq> None \<and> parse_kind (cr_kind c) \<noteq> None \<and> cr_user c = u \<and>
      ss_next s \<le> cr_seq c \<and> cr_seq c < ls_next st" if "c \<in> set cs" for c
  proof -
    have "cr_seq c \<in> set [ss_next s .. ls_next st - 1]"
      unfolding seqs [symmetric] using that by simp
    with app that show ?thesis by (auto simp: appends_def change_of_def)
  qed
  have "distinct (map cr_seq cs)" unfolding seqs by simp
  then have "distinct (map (\<lambda>c. (cr_user c, cr_seq c)) cs)"
    by (auto simp: distinct_map inj_on_def)
  moreover have "(\<lambda>c. (cr_user c, cr_seq c)) ` set (db_changes db) \<inter>
      (\<lambda>c. (cr_user c, cr_seq c)) ` set cs = {}"
    using own new by fastforce
  moreover have "distinct (map (\<lambda>c. (cr_user c, cr_seq c)) (db_changes db))"
    using ok by (simp add: log_ok_def)
  moreover have "db_changes db' = db_changes db @ cs" using app by (simp add: appends_def db')
  moreover have "cr_seq c < ls_next st" if "c \<in> set (db_changes db)" "cr_user c = u" for c
    using own [OF that] le by simp
  ultimately have log: "distinct (map (\<lambda>c. (cr_user c, cr_seq c)) (db_changes db'))"
      "db_changes db' = db_changes db @ cs"
      "\<And>c. c \<in> set (db_changes db) \<Longrightarrow> cr_user c = u \<Longrightarrow> cr_seq c < ls_next st"
    by simp_all
  have "entity_parse (cr_entity c) \<noteq> None \<and> parse_kind (cr_kind c) \<noteq> None \<and>
      (case lookup_row ss_user (db_states db') (cr_user c) of
         None \<Rightarrow> False | Some t \<Rightarrow> cr_seq c < ss_next t)" if "c \<in> set (db_changes db')" for c
  proof (cases "c \<in> set cs")
    case False
    with that log(2) have c: "c \<in> set (db_changes db)" by simp
    with old [OF c] log(3) [OF c] show ?thesis by (auto simp: states)
  qed (use new in \<open>auto simp: states\<close>)
  with log(1) show ?thesis by (simp add: log_ok_def)
qed

lemma read_changes_total:
  "\<forall>c \<in> set cs. entity_parse (cr_entity c) \<noteq> None \<and> parse_kind (cr_kind c) \<noteq> None \<Longrightarrow>
     \<exists>xs. read_changes cs = Inr xs"
  by (induction cs) (fastforce simp: read_change_def)+

lemma change_page_total:
  assumes "log_ok db"
  shows "\<exists>page. change_page db u cursor limit = Inr page"
proof -
  let ?rows = "take limit (take (limit + 1) (changes_after (db_changes db) u cursor))"
  have "set ?rows \<subseteq> set (db_changes db)"
    by (auto dest!: in_set_takeD simp: set_changes_after)
  then have "\<forall>c \<in> set ?rows. entity_parse (cr_entity c) \<noteq> None \<and> parse_kind (cr_kind c) \<noteq> None"
    using assms by (auto simp: log_ok_def)
  from read_changes_total [OF this] show ?thesis
    by (auto simp: change_page_def Let_def)
qed

lemma validate_ops_error: "validate_ops ops p seen = Inl e \<Longrightarrow> client_error e"
  by (induction ops p seen rule: validate_ops.induct) (auto split: if_splits)

lemma early_errors:
  "validate_batch ops = Inl e \<Longrightarrow> client_error e" "lock_account u db = Inl e \<Longrightarrow> client_error e"
  "check_cursor s c = Inl e \<Longrightarrow> client_error e" "check_device db u d = Inl e \<Longrightarrow> client_error e"
  by (auto simp: validate_batch_def lock_account_def check_cursor_def check_device_def
      and_then_eq_Inl fail_if_eq_Inl validate_ops_error split: option.splits if_splits)

lemma sync_transaction_client_error:
  assumes tx: "sync_transaction env now u d ops cursor limit db = Inl e"
    and ok: "log_ok db" and ops: "distinct (map mu_op ops)"
  shows "client_error e"
proof (cases "\<exists>s dev. account_ready u d cursor db s dev")
  case False
  have "\<exists>s. lookup_row ss_user (db_states (ensure_sync_state u db)) u = Some s"
    by (auto simp: ensure_sync_state_lookup split: option.splits)
  with False tx show ?thesis
    by (auto simp: sync_transaction_def account_ready_def and_then_eq_Inl lock_account_Inr
        ok_or_eq_Inl ok_or_eq_Inr check_device_Inr early_errors)
next
  case True
  then obtain s dev where ready: "account_ready u d cursor db s dev" by blast
  let ?loop = "try_fold (process_op env now u d (dev_last_seq dev) (receipts_by_op (db_receipts db) ops)
      (receipts_by_seq (db_receipts db) u d ops)) ops (loop_start u db s dev)"
  have tx': "and_then ?loop (\<lambda>st.
     let db = save_watermarks now u d (dev_last_seq dev) (ss_next s) st in
     and_then (change_page db u cursor limit) (\<lambda>(changes, next_cursor, has_more).
     Inr (\<lparr>rs_ack = ls_acks st, rs_changes = changes, rs_next_cursor = show_int next_cursor,
           rs_has_more = has_more, rs_server_time = now\<rparr>, db))) = Inl e"
    using tx ready
    by (auto simp: sync_transaction_def account_ready_def lock_account_def check_device_def
        loop_start_def Let_def)
  show ?thesis
  proof (cases ?loop)
    case (Inl f)
    with tx' have "f = e" by simp
    with Inl show ?thesis
      using process_ops_client_error [OF _ op_ready_start [OF ok] ops] ready
      by (auto simp: account_ready_def)
  next
    case (Inr st)
    obtain rs cs where "appends u d (set ops) (loop_start u db s dev) st rs cs"
      using process_ops_appends [OF Inr] by blast
    from log_ok_after [OF ok ready this process_ops_frame [OF Inr] refl]
    obtain page where "change_page (save_watermarks now u d (dev_last_seq dev) (ss_next s) st) u cursor limit
        = Inr page" using change_page_total by blast
    with tx' Inr show ?thesis by (cases page) (simp add: Let_def)
  qed
qed

text \<open>C9. On a well-formed change log no request fails inside the server: whatever the client
  sends, the answer is a success or a 4xx error, never an internal (500) error.\<close>

theorem sync_no_internal_error:
  assumes "log_ok db" and "sync env now auth body db = Inl e"
  shows "fst (into_response e) < 500"
proof -
  have "client_error e"
    using assms(2) sync_transaction_client_error [OF _ assms(1)]
    by (auto simp: sync_def and_then_eq_Inl map_err_eq_Inl map_err_eq_Inr validate_batch_Inr
        early_errors split: if_splits)
  then show ?thesis by (simp add: client_error_def)
qed

text \<open>C10. The change log stays well-formed: unique positions below the account's next one and
  known names, so the next request meets the condition again.\<close>

theorem sync_log_ok:
  assumes "sync env now auth body db = Inr (resp, db')" and "log_ok db"
  shows "log_ok db'"
  using assms(1) by (rule sync_loop) (blast intro: log_ok_after [OF assms(2)])

text \<open>C11. An operation on an entity in the wrong state is refused with the protocol's code:
  a patch or delete of an unknown or tombstoned entity, a restore of an unknown or live one;
  it is acknowledged as rejected with that code and changes nothing but the receipts.\<close>

theorem run_op_refuses_wrong_state:
  assumes "life_error (mu_kind m) (entity_life (ls_db st) (mutation_key u m)) = Some code"
    and "run_op env now u d m st = Inr st'"
  shows "ls_acks st' = ls_acks st @
      [\<lparr>ack_op = mu_op m, ack_server_seq = None, ack_status_of = Rejected, ack_error = Some code\<rparr>] \<and>
    ls_db st' = (ls_db st)\<lparr>db_receipts := db_receipts (ls_db st) @
      [\<lparr>rc_op = mu_op m, rc_user = u, rc_device = d, rc_client_seq = mu_client_seq m,
        rc_server_seq = None, rc_status = ''rejected'', rc_error = Some code\<rparr>]\<rparr> \<and>
    ls_next st' = ls_next st"
proof -
  obtain e where "apply_mutation env now u m (ls_next st) (ls_db st) = Inl (Reject e)" "me_code e = code"
    using apply_mutation_life_error [OF assms(1)] by blast
  with assms(2) show ?thesis
    by (auto simp: run_op_def reject_op_def insert_rejected_receipt_def insert_receipt_def
        and_then_eq_Inr fail_if_eq_Inr)
qed

text \<open>The batch rules: a batch is accepted exactly when it has at most 100 operations with
  positive, strictly increasing sequence numbers and pairwise different operation ids.\<close>

theorem batch_accepted_iff:
  "validate_batch ops = Inr () \<longleftrightarrow>
     length ops \<le> 100 \<and> sorted_wrt (<) (map mu_client_seq ops) \<and>
     list_all (\<lambda>m. 0 < mu_client_seq m) ops \<and> distinct (map mu_op ops)"
  by (simp add: validate_batch_Inr list_all_iff)

end
