(* ===== verification/ApiPatchFacts.thy ===== *)
theory ApiPatchFacts
  imports ApiTags
begin

text \<open>
  What a task patch does to a task (\<open>TaskPatch::apply\<close> of \<open>apps/api/src/mutation.rs\<close>): the
  field-level normal form of the function, from which follow the merge rules the protocol
  rests on (a later patch wins field by field, patches of different fields commute), the
  replay of a logged create, and the fate of a doubly marked tag.
\<close>

section \<open>The normal form of apply\<close>

definition over :: "'a option \<Rightarrow> 'a \<Rightarrow> 'a" where
  "over f old = (case f of None \<Rightarrow> old | Some x \<Rightarrow> x)"

definition not_null :: "'a option option \<Rightarrow> bool" where
  "not_null f \<longleftrightarrow> f \<noteq> Some None"

definition over_req :: "'a option option \<Rightarrow> 'a \<Rightarrow> 'a" where
  "over_req f old = (case f of Some (Some x) \<Rightarrow> x | _ \<Rightarrow> old)"

lemma over_simps [simp]: "over None x = x" "over (Some y) x = y"
  by (simp_all add: over_def)

lemma over_req_simps [simp]: "over_req None x = x" "over_req (Some (Some y)) x = y" "over_req (Some None) x = x"
  by (simp_all add: over_req_def)

lemma not_null_simps [simp]: "not_null None" "not_null (Some (Some x))" "\<not> not_null (Some None)"
  by (simp_all add: not_null_def)

definition req_value :: "'a option option \<Rightarrow> 'a option" where
  "req_value f = (case f of Some (Some x) \<Rightarrow> Some x | _ \<Rightarrow> None)"

lemma required_field_Inr: "required_field f v = Inr r \<longleftrightarrow> not_null v \<and> r = req_value v"
  by (auto simp: required_field_def not_null_def req_value_def split: option.splits)

text \<open>The required fields of a task patch are not null and its tags can be normalised.\<close>

definition patch_fields_ok :: "api_env \<Rightarrow> task_patch \<Rightarrow> bool" where
  "patch_fields_ok env p \<longleftrightarrow>
     not_null (tp_title p) \<and> not_null (tp_note p) \<and> not_null (tp_status p) \<and>
     not_null (tp_important p) \<and> not_null (tp_rank p) \<and> not_null (tp_tags p) \<and>
     (\<forall>ts. tp_tags p = Some (Some ts) \<longrightarrow> (\<exists>n. normalize_tags (env_lower env) ts = Inr n))"

definition patched_tags :: "api_env \<Rightarrow> string list option option \<Rightarrow> string list \<Rightarrow> string list" where
  "patched_tags env f old =
     (case f of
        Some (Some ts) \<Rightarrow> (case normalize_tags (env_lower env) ts of Inr n \<Rightarrow> n | Inl _ \<Rightarrow> old)
      | _ \<Rightarrow> old)"

definition patched_task :: "api_env \<Rightarrow> task_patch \<Rightarrow> task_values \<Rightarrow> task_values" where
  "patched_task env p v =
     v\<lparr>tv_list_id := over (tp_list_id p) (tv_list_id v), tv_title := over_req (tp_title p) (tv_title v),
      tv_note := over_req (tp_note p) (tv_note v), tv_status := over_req (tp_status p) (tv_status v),
      tv_important := over_req (tp_important p) (tv_important v),
      tv_tags := patched_tags env (tp_tags p) (tv_tags v),
      tv_due_on := over (tp_due_on p) (tv_due_on v), tv_remind_at := over (tp_remind_at p) (tv_remind_at v),
      tv_remind_timezone := over (tp_remind_timezone p) (tv_remind_timezone v),
      tv_rank := over_req (tp_rank p) (tv_rank v), tv_series_id := over (tp_series_id p) (tv_series_id v),
      tv_occurrence_key := over (tp_occurrence_key p) (tv_occurrence_key v),
      tv_recurrence := over (tp_recurrence p) (tv_recurrence v),
      tv_completed_at := over (tp_completed_at p) (tv_completed_at v)\<rparr>"

lemma patched_tags_None [simp]: "patched_tags env None ts = ts"
  by (simp add: patched_tags_def)

lemma set_if_task [simp]:
  "set_if f (\<lambda>x v. v\<lparr>tv_list_id := x\<rparr>) v = v\<lparr>tv_list_id := over f (tv_list_id v)\<rparr>"
  "set_if g (\<lambda>x v. v\<lparr>tv_title := x\<rparr>) v = v\<lparr>tv_title := over g (tv_title v)\<rparr>"
  "set_if g (\<lambda>x v. v\<lparr>tv_note := x\<rparr>) v = v\<lparr>tv_note := over g (tv_note v)\<rparr>"
  "set_if s (\<lambda>x v. v\<lparr>tv_status := x\<rparr>) v = v\<lparr>tv_status := over s (tv_status v)\<rparr>"
  "set_if b (\<lambda>x v. v\<lparr>tv_important := x\<rparr>) v = v\<lparr>tv_important := over b (tv_important v)\<rparr>"
  "set_if d (\<lambda>x v. v\<lparr>tv_due_on := x\<rparr>) v = v\<lparr>tv_due_on := over d (tv_due_on v)\<rparr>"
  "set_if i (\<lambda>x v. v\<lparr>tv_remind_at := x\<rparr>) v = v\<lparr>tv_remind_at := over i (tv_remind_at v)\<rparr>"
  "set_if h (\<lambda>x v. v\<lparr>tv_remind_timezone := x\<rparr>) v = v\<lparr>tv_remind_timezone := over h (tv_remind_timezone v)\<rparr>"
  "set_if g (\<lambda>x v. v\<lparr>tv_rank := x\<rparr>) v = v\<lparr>tv_rank := over g (tv_rank v)\<rparr>"
  "set_if f (\<lambda>x v. v\<lparr>tv_series_id := x\<rparr>) v = v\<lparr>tv_series_id := over f (tv_series_id v)\<rparr>"
  "set_if h (\<lambda>x v. v\<lparr>tv_occurrence_key := x\<rparr>) v = v\<lparr>tv_occurrence_key := over h (tv_occurrence_key v)\<rparr>"
  "set_if r (\<lambda>x v. v\<lparr>tv_recurrence := x\<rparr>) v = v\<lparr>tv_recurrence := over r (tv_recurrence v)\<rparr>"
  "set_if i (\<lambda>x v. v\<lparr>tv_completed_at := x\<rparr>) v = v\<lparr>tv_completed_at := over i (tv_completed_at v)\<rparr>"
  by (simp_all add: set_if_def split: option.splits)

lemma over_required: "over (req_value f) old = over_req f old"
  by (simp add: over_req_def req_value_def split: option.splits)

lemma tags_step:
  "(case req_value f of
      None \<Rightarrow> Inr v
    | Some ts \<Rightarrow> and_then (normalize_tags (env_lower env) ts) (\<lambda>ts. Inr (v\<lparr>tv_tags := ts\<rparr>))) = Inr w \<longleftrightarrow>
   (\<forall>ts. f = Some (Some ts) \<longrightarrow> (\<exists>n. normalize_tags (env_lower env) ts = Inr n)) \<and>
   w = v\<lparr>tv_tags := patched_tags env f (tv_tags v)\<rparr>"
  by (auto simp: patched_tags_def req_value_def and_then_eq_Inr split: option.splits sum.splits)

lemma task_patch_apply_Inr:
  "task_patch_apply env p v = Inr w \<longleftrightarrow>
     patch_fields_ok env p \<and> w = patched_task env p v \<and> task_values_ok env w"
  unfolding task_patch_apply_def Let_def
  by (simp add: and_then_eq_Inr required_field_Inr over_required tags_step
      task_values_validate_ok and_then_validate)
    (auto simp: patch_fields_ok_def patched_task_def)

section \<open>Merging\<close>

text \<open>The patch that does what \<open>p\<close> and then \<open>q\<close> do: field by field, \<open>q\<close> where it speaks.\<close>

definition later :: "'a option \<Rightarrow> 'a option \<Rightarrow> 'a option" where
  "later p q = (case q of None \<Rightarrow> p | Some x \<Rightarrow> Some x)"

definition merge_patches :: "task_patch \<Rightarrow> task_patch \<Rightarrow> task_patch" where
  "merge_patches p q =
     \<lparr>tp_list_id = later (tp_list_id p) (tp_list_id q), tp_title = later (tp_title p) (tp_title q),
      tp_note = later (tp_note p) (tp_note q), tp_status = later (tp_status p) (tp_status q),
      tp_important = later (tp_important p) (tp_important q), tp_tags = later (tp_tags p) (tp_tags q),
      tp_due_on = later (tp_due_on p) (tp_due_on q), tp_remind_at = later (tp_remind_at p) (tp_remind_at q),
      tp_remind_timezone = later (tp_remind_timezone p) (tp_remind_timezone q),
      tp_rank = later (tp_rank p) (tp_rank q), tp_series_id = later (tp_series_id p) (tp_series_id q),
      tp_occurrence_key = later (tp_occurrence_key p) (tp_occurrence_key q),
      tp_recurrence = later (tp_recurrence p) (tp_recurrence q),
      tp_completed_at = later (tp_completed_at p) (tp_completed_at q)\<rparr>"

lemma over_later [simp]: "over (later p q) x = over q (over p x)"
  by (simp add: over_def later_def split: option.splits)

lemma not_null_later: "not_null p \<Longrightarrow> not_null q \<Longrightarrow> not_null (later p q)"
  by (cases q) (simp_all add: later_def)

lemma over_req_later [simp]:
  "not_null q \<Longrightarrow> over_req (later p q) x = over_req q (over_req p x)"
  by (auto simp: over_req_def later_def not_null_def split: option.splits)

lemma patched_tags_later [simp]:
  "not_null q \<Longrightarrow> (\<forall>ts. q = Some (Some ts) \<longrightarrow> (\<exists>n. normalize_tags (env_lower env) ts = Inr n)) \<Longrightarrow>
     patched_tags env (later p q) x = patched_tags env q (patched_tags env p x)"
  by (auto simp: patched_tags_def later_def not_null_def split: option.splits sum.splits)

lemma patched_merge:
  "patch_fields_ok env q \<Longrightarrow> patched_task env (merge_patches p q) v = patched_task env q (patched_task env p v)"
  by (simp add: patched_task_def merge_patches_def patch_fields_ok_def)

lemma patch_fields_ok_merge:
  "patch_fields_ok env p \<Longrightarrow> patch_fields_ok env q \<Longrightarrow> patch_fields_ok env (merge_patches p q)"
  by (auto simp: patch_fields_ok_def merge_patches_def not_null_later later_def split: option.splits)

text \<open>C13. Patches merge field by field and the later one wins: applying \<open>p\<close> and then \<open>q\<close> to a
  task equals applying the single patch that takes each field from \<open>q\<close> where it is present
  and from \<open>p\<close> elsewhere.\<close>

theorem task_patches_last_writer_wins:
  assumes "task_patch_apply env p v = Inr v1" and "task_patch_apply env q v1 = Inr v2"
  shows "task_patch_apply env (merge_patches p q) v = Inr v2"
  using assms by (auto simp: task_patch_apply_Inr patched_merge patch_fields_ok_merge)

text \<open>Patches of different fields.\<close>

definition apart :: "'a option \<Rightarrow> 'a option \<Rightarrow> bool" where
  "apart p q \<longleftrightarrow> p = None \<or> q = None"

definition disjoint_patches :: "task_patch \<Rightarrow> task_patch \<Rightarrow> bool" where
  "disjoint_patches p q \<longleftrightarrow>
     apart (tp_list_id p) (tp_list_id q) \<and> apart (tp_title p) (tp_title q) \<and>
     apart (tp_note p) (tp_note q) \<and> apart (tp_status p) (tp_status q) \<and>
     apart (tp_important p) (tp_important q) \<and> apart (tp_tags p) (tp_tags q) \<and>
     apart (tp_due_on p) (tp_due_on q) \<and> apart (tp_remind_at p) (tp_remind_at q) \<and>
     apart (tp_remind_timezone p) (tp_remind_timezone q) \<and> apart (tp_rank p) (tp_rank q) \<and>
     apart (tp_series_id p) (tp_series_id q) \<and> apart (tp_occurrence_key p) (tp_occurrence_key q) \<and>
     apart (tp_recurrence p) (tp_recurrence q) \<and> apart (tp_completed_at p) (tp_completed_at q)"

lemma later_apart: "apart p q \<Longrightarrow> later p q = later q p"
  by (auto simp: apart_def later_def split: option.splits)

lemma merge_disjoint:
  assumes "disjoint_patches p q"
  shows "merge_patches p q = merge_patches q p"
  using assms unfolding disjoint_patches_def merge_patches_def
  by simp (blast intro: later_apart)

text \<open>Every check of the validation looks at one field, so a mix of two valid tasks is valid.\<close>

lemma field_mix:
  "apart f g \<Longrightarrow> Q x \<Longrightarrow> Q (over g (over f x)) \<Longrightarrow> Q (over g x)"
  by (auto simp: apart_def)

lemma required_field_mix:
  "apart f g \<Longrightarrow> Q x \<Longrightarrow> Q (over_req g (over_req f x)) \<Longrightarrow> Q (over_req g x)"
  by (auto simp: apart_def)

lemma tags_mix:
  "apart f g \<Longrightarrow> Q x \<Longrightarrow> Q (patched_tags env g (patched_tags env f x)) \<Longrightarrow> Q (patched_tags env g x)"
  by (auto simp: apart_def)

lemma task_mix_ok:
  assumes "task_values_ok env v" and "task_values_ok env (patched_task env q (patched_task env p v))"
    and "disjoint_patches p q"
  shows "task_values_ok env (patched_task env q v)"
proof -
  define T where "T t \<longleftrightarrow> text_ok t 1000" for t
  define N where "N t \<longleftrightarrow> \<not> has_nul t \<and> chars_count t \<le> 100000" for t
  define R where "R t \<longleftrightarrow> text_ok t 128" for t
  define G where "G ts \<longleftrightarrow> normalize_tags (env_lower env) ts = Inr ts" for ts
  define Z where "Z z \<longleftrightarrow> (\<forall>tz. z = Some tz \<longrightarrow> text_ok tz 64 \<and> env_tz_ok env tz)" for z
  define K where "K k \<longleftrightarrow> (\<forall>t. k = Some t \<longrightarrow> text_ok t 64)" for k
  define C where "C c \<longleftrightarrow> (\<forall>r. c = Some r \<longrightarrow>
        is_object r \<and> length (json_to_string r) \<le> 16 * 1024 \<and> \<not> json_contains_nul r)" for c
  define D where "D d \<longleftrightarrow> (\<forall>x. d = Some x \<longrightarrow> MIN_STORABLE_YEAR \<le> date_year x)" for d
  define I where "I i \<longleftrightarrow> (\<forall>x. i = Some x \<longrightarrow> MIN_STORABLE_YEAR \<le> date_year (date_naive x))" for i
  have fields: "task_values_ok env w \<longleftrightarrow> T (tv_title w) \<and> N (tv_note w) \<and> R (tv_rank w) \<and>
      G (tv_tags w) \<and> Z (tv_remind_timezone w) \<and> K (tv_occurrence_key w) \<and> C (tv_recurrence w) \<and>
      D (tv_due_on w) \<and> I (tv_remind_at w) \<and> I (tv_completed_at w)" for w
    by (auto simp: task_values_ok_def T_def N_def R_def G_def Z_def K_def C_def D_def I_def)
  note rules = required_field_mix [where Q = T] required_field_mix [where Q = N]
    required_field_mix [where Q = R] tags_mix [where Q = G] field_mix [where Q = Z]
    field_mix [where Q = K] field_mix [where Q = C] field_mix [where Q = D] field_mix [where Q = I]
  show ?thesis
    using assms unfolding fields disjoint_patches_def patched_task_def
    by simp (blast intro: rules)
qed

text \<open>Concurrent edits of different fields commute: on a valid task, two patches that touch
  no common field give the same result (or both orders fail) whichever the server
  receives first.\<close>

theorem disjoint_task_patches_commute:
  assumes "task_values_ok env v" and "disjoint_patches p q"
  shows "and_then (task_patch_apply env p v) (task_patch_apply env q) = Inr w \<longleftrightarrow>
         and_then (task_patch_apply env q v) (task_patch_apply env p) = Inr w"
proof -
  have one: "and_then (task_patch_apply env q v) (task_patch_apply env p) = Inr w"
    if "and_then (task_patch_apply env p v) (task_patch_apply env q) = Inr w" "disjoint_patches p q"
    for p q
  proof -
    from that(1) have fields: "patch_fields_ok env p" "patch_fields_ok env q"
      and w: "w = patched_task env q (patched_task env p v)" "task_values_ok env w"
      by (auto simp: and_then_eq_Inr task_patch_apply_Inr)
    have "task_values_ok env (patched_task env q v)"
      using task_mix_ok [OF assms(1)] w that(2) by blast
    moreover have "w = patched_task env p (patched_task env q v)"
      using w(1) fields that(2) by (metis patched_merge merge_disjoint)
    ultimately show ?thesis
      using fields w(2) by (simp add: and_then_eq_Inr task_patch_apply_Inr)
  qed
  have "disjoint_patches q p"
    using assms(2) by (auto simp: disjoint_patches_def apart_def)
  with one assms(2) show ?thesis by blast
qed

section \<open>Replaying a create\<close>

text \<open>The text forms of identifiers, dates and instants can be read back.\<close>

definition codecs_ok :: "api_env \<Rightarrow> bool" where
  "codecs_ok env \<longleftrightarrow>
     (\<forall>u. env_uuid env (env_show_uuid env u) = Some u) \<and>
     (\<forall>d. env_date env (env_show_date env d) = Some d) \<and>
     (\<forall>i. env_instant env (env_show_instant env i) = Some i)"

lemma de_strings_JStr: "de_strings (map JStr ts) = Some ts"
  by (induction ts) (simp_all add: de_string_def)

lemma opt_json_null: "opt_json (JStr \<circ> f) x = JNull \<longleftrightarrow> x = None" "opt_json JStr y = JNull \<longleftrightarrow> y = None"
  by (simp_all add: opt_json_def split: option.splits)

text \<open>The patch the log carries for a created task, as a replica reads it.\<close>

definition full_patch :: "task_values \<Rightarrow> task_patch" where
  "full_patch v =
     \<lparr>tp_list_id = Some (tv_list_id v), tp_title = Some (Some (tv_title v)),
      tp_note = Some (Some (tv_note v)), tp_status = Some (Some (tv_status v)),
      tp_important = Some (Some (tv_important v)), tp_tags = Some (Some (tv_tags v)),
      tp_due_on = Some (tv_due_on v), tp_remind_at = Some (tv_remind_at v),
      tp_remind_timezone = Some (tv_remind_timezone v), tp_rank = Some (Some (tv_rank v)),
      tp_series_id = Some (tv_series_id v), tp_occurrence_key = Some (tv_occurrence_key v),
      tp_recurrence = Some (tv_recurrence v), tp_completed_at = Some (tv_completed_at v)\<rparr>"

lemma double_option_opt:
  assumes "jget m k = Some (opt_json f x)" and "\<And>y. x = Some y \<Longrightarrow> f y \<noteq> JNull \<and> de (f y) = Some y"
  shows "double_option de m k = Inr (Some x)"
  using assms by (cases x) (auto simp: double_option_def opt_json_def)

lemma double_option_value:
  assumes "jget m k = Some j" "j \<noteq> JNull" "de j = Some y"
  shows "double_option de m k = Inr (Some (Some y))"
  using assms by (simp add: double_option_def)

lemma parse_create_patch:
  assumes "codecs_ok env" and "task_values_ok env v"
  shows "parse_task_patch env (task_values_change_patch env v) True = Inr (full_patch v)"
proof -
  obtain m where m: "task_values_change_patch env v = JObj m" and keys: "set (jkeys m) = set task_patch_fields"
    and get: "jget m ''list_id'' = Some (opt_json (JStr \<circ> env_show_uuid env) (tv_list_id v))"
      "jget m ''title'' = Some (JStr (tv_title v))" "jget m ''note'' = Some (JStr (tv_note v))"
      "jget m ''status'' = Some (JStr (status_as_str (tv_status v)))"
      "jget m ''important'' = Some (JBool (tv_important v))"
      "jget m ''tags'' = Some (JArr (map JStr (tv_tags v)))"
      "jget m ''due_on'' = Some (opt_json (JStr \<circ> env_show_date env) (tv_due_on v))"
      "jget m ''remind_at'' = Some (opt_json (JStr \<circ> env_show_instant env) (tv_remind_at v))"
      "jget m ''remind_timezone'' = Some (opt_json JStr (tv_remind_timezone v))"
      "jget m ''rank'' = Some (JStr (tv_rank v))"
      "jget m ''series_id'' = Some (opt_json (JStr \<circ> env_show_uuid env) (tv_series_id v))"
      "jget m ''occurrence_key'' = Some (opt_json JStr (tv_occurrence_key v))"
      "jget m ''recurrence'' = Some (opt_json (\<lambda>r. r) (tv_recurrence v))"
      "jget m ''completed_at'' = Some (opt_json (JStr \<circ> env_show_instant env) (tv_completed_at v))"
    by (rule that, unfold task_values_change_patch_def jobj_def, rule refl)
      (auto simp: task_patch_fields_def jget_def jkeys_def)
  have codec: "de_uuid env (JStr (env_show_uuid env x)) = Some x"
    "de_date env (JStr (env_show_date env d)) = Some d"
    "de_instant env (JStr (env_show_instant env i)) = Some i" for x d i
    using assms(1) by (simp_all add: codecs_ok_def de_uuid_def de_date_def de_instant_def)
  have rec: "y \<noteq> JNull" if "tv_recurrence v = Some y" for y
    using assms(2) that by (auto simp: task_values_ok_def is_object_def)
  note opt = double_option_opt [where de = "de_uuid env"] double_option_opt [where de = "de_date env"]
    double_option_opt [where de = "de_instant env"] double_option_opt [where de = de_string]
    double_option_opt [where de = de_value]
  have fields: "double_option (de_uuid env) m ''list_id'' = Inr (Some (tv_list_id v))"
    "double_option (de_date env) m ''due_on'' = Inr (Some (tv_due_on v))"
    "double_option (de_instant env) m ''remind_at'' = Inr (Some (tv_remind_at v))"
    "double_option de_string m ''remind_timezone'' = Inr (Some (tv_remind_timezone v))"
    "double_option (de_uuid env) m ''series_id'' = Inr (Some (tv_series_id v))"
    "double_option de_string m ''occurrence_key'' = Inr (Some (tv_occurrence_key v))"
    "double_option de_value m ''recurrence'' = Inr (Some (tv_recurrence v))"
    "double_option (de_instant env) m ''completed_at'' = Inr (Some (tv_completed_at v))"
    by (rule opt, rule get, simp add: codec rec de_string_def de_value_def)+
  have required: "double_option de_string m ''title'' = Inr (Some (Some (tv_title v)))"
    "double_option de_string m ''note'' = Inr (Some (Some (tv_note v)))"
    "double_option de_status m ''status'' = Inr (Some (Some (tv_status v)))"
    "double_option de_bool m ''important'' = Inr (Some (Some (tv_important v)))"
    "double_option de_string_list m ''tags'' = Inr (Some (Some (tv_tags v)))"
    "double_option de_string m ''rank'' = Inr (Some (Some (tv_rank v)))"
    by (rule double_option_value, rule get,
        simp_all add: de_string_def de_bool_def de_string_list_def de_strings_JStr
          status_names.parse_as_str)+
  have "known_fields task_patch_fields m = Inr ()"
    using keys by (simp add: known_fields_def fail_if_def list_all_iff)
  moreover have "m \<noteq> []" using get(2) by auto
  ultimately show ?thesis
    unfolding m parse_task_patch_def parse_patch_def de_task_patch_def full_patch_def
    by (simp add: fields required)
qed

lemma patched_full:
  "task_values_ok env v \<Longrightarrow> patched_task env (full_patch v) w = v \<and> patch_fields_ok env (full_patch v)"
  by (simp add: patched_task_def full_patch_def patch_fields_ok_def patched_tags_def task_values_ok_def)

text \<open>The change log is enough to rebuild a task: reading the patch logged for a create and
  applying it to an empty task gives exactly the values the server stored.\<close>

theorem create_change_replays:
  assumes "codecs_ok env" and "task_values_ok env v"
  shows "and_then (parse_task_patch env (task_values_change_patch env v) True)
           (\<lambda>p. task_patch_apply env p task_values_empty) = Inr v"
  using assms by (simp add: parse_create_patch task_patch_apply_Inr patched_full)

section \<open>Doubly marked tags\<close>

text \<open>A tag with two leading hash marks makes a task patch fail, whatever the task: the
  server strips one mark, and its own validation then refuses the result as not normalised.\<close>

theorem double_hash_patch_refused:
  assumes "tp_tags p = Some (Some [''##work''])"
  shows "\<exists>e. task_patch_apply env p v = Inl e"
proof (cases "task_patch_apply env p v")
  case (Inr w)
  then have "task_values_ok env w" "tv_tags w = [''#work'']"
    using assms double_hash_not_idempotent
    by (auto simp: task_patch_apply_Inr patched_task_def patched_tags_def)
  then show ?thesis using double_hash_not_idempotent(2) by (simp add: task_values_ok_def)
qed simp

end
