(* ===== verification/ApiExamples.thy ===== *)
theory ApiExamples
  imports ApiSyncErrors ApiPatchFacts "HOL-Library.Code_Target_Nat"
begin

text \<open>
  Concrete accounts, requests and patches on which the properties of the server are applied:
  each theorem's hypotheses hold at one of them.
\<close>

section \<open>An environment\<close>

text \<open>
  A stand-in for the libraries: identity lower-casing, identifiers and dates written in
  unary, so that they read back.
\<close>

definition unary :: "nat \<Rightarrow> string" where
  "unary n = replicate n (CHR ''1'')"

definition show_int_unary :: "int \<Rightarrow> string" where
  "show_int_unary n = (if n < 0 then CHR ''-'' # unary (nat (- n)) else unary (nat n))"

definition read_int_unary :: "string \<Rightarrow> int" where
  "read_int_unary s = (case s of c # r \<Rightarrow> if c = CHR ''-'' then - int (length r) else int (length s) | [] \<Rightarrow> 0)"

definition show_date_demo :: "date \<Rightarrow> string" where
  "show_date_demo d =
     show_int_unary (date_year d) @ '',''  @ unary (date_month d) @ '','' @ unary (date_day d)"

definition read_date_demo :: "string \<Rightarrow> date option" where
  "read_date_demo s =
     (case split_on (CHR '','') s of
        [y, m, d] \<Rightarrow> Some (Date (read_int_unary y) (length m) (length d)) | _ \<Rightarrow> None)"

definition show_instant_demo :: "instant \<Rightarrow> string" where
  "show_instant_demo i = show_date_demo (date_naive i) @ '';'' @ unary (instant_nanos i)"

definition read_instant_demo :: "string \<Rightarrow> instant option" where
  "read_instant_demo s =
     (case split_on (CHR '';'') s of
        [d, n] \<Rightarrow> map_option (\<lambda>d. Instant d (length n)) (read_date_demo d) | _ \<Rightarrow> None)"

definition demo_env :: api_env where
  "demo_env =
     \<lparr>env_lower = (\<lambda>s. s), env_tz_ok = (\<lambda>s. s = ''Asia/Shanghai''),
      env_uuid = (\<lambda>s. Some (of_nat (length s))), env_show_uuid = (\<lambda>u. unary (unat u)),
      env_date = read_date_demo, env_show_date = show_date_demo,
      env_instant = read_instant_demo, env_show_instant = show_instant_demo,
      env_today = Date 2026 9 1\<rparr>"

lemma read_int_unary_show: "read_int_unary (show_int_unary n) = n"
proof -
  have "read_int_unary (unary k) = int k" for k
    by (cases k) (simp_all add: read_int_unary_def unary_def)
  then show ?thesis
    by (auto simp: show_int_unary_def) (simp add: read_int_unary_def unary_def)
qed

lemma no_separators: "CHR '','' \<notin> set (unary n)" "CHR '';'' \<notin> set (unary n)"
  "CHR '','' \<notin> set (show_int_unary k)" "CHR '';'' \<notin> set (show_int_unary k)"
  by (auto simp: unary_def show_int_unary_def)

lemma read_date_show: "read_date_demo (show_date_demo d) = Some d"
  using no_separators
  by (simp add: read_date_demo_def show_date_demo_def split_on_append split_on_no_sep
      read_int_unary_show) (simp add: unary_def)

lemma read_instant_show: "read_instant_demo (show_instant_demo i) = Some i"
proof -
  have "CHR '';'' \<notin> set (show_date_demo (date_naive i))"
    using no_separators by (simp add: show_date_demo_def)
  then show ?thesis
    using no_separators
    by (simp add: read_instant_demo_def show_instant_demo_def split_on_append split_on_no_sep
        read_date_show) (simp add: unary_def)
qed

lemma demo_codecs: "codecs_ok demo_env"
  by (simp add: codecs_ok_def demo_env_def read_date_show read_instant_show) (simp add: unary_def)

section \<open>A request\<close>

definition demo_now :: instant where
  "demo_now = Instant (Date 2026 9 1) 0"

definition demo_auth :: auth_user where
  "demo_auth = \<lparr>au_user = 1, au_device = 2\<rparr>"

definition demo_list :: "uuid \<Rightarrow> uuid \<Rightarrow> instant option \<Rightarrow> list_values row" where
  "demo_list u i deleted =
     \<lparr>r_user = u, r_id = i, r_val = \<lparr>lv_name = ''Home'', lv_color = None, lv_icon = None, lv_rank = ''a0''\<rparr>,
      r_rev = 1, r_updated = demo_now, r_deleted = deleted\<rparr>"

definition demo_dev :: device_row where
  "demo_dev = \<lparr>dev_user = 1, dev_id = 2, dev_last_seq = 1, dev_seen = None, dev_revoked = None\<rparr>"

definition demo_sync_state :: sync_state where
  "demo_sync_state = \<lparr>ss_user = 1, ss_next = 2, ss_min = 0\<rparr>"

definition demo_db :: api_db where
  "demo_db =
     \<lparr>db_users = [\<lparr>us_id = 1, us_deleted = None\<rparr>, \<lparr>us_id = 3, us_deleted = None\<rparr>],
      db_states = [demo_sync_state], db_devices = [demo_dev],
      db_lists = [demo_list 1 7 (Some demo_now), demo_list 3 6 None],
      db_tasks = [], db_steps = [], db_plans = [],
      db_receipts = [\<lparr>rc_op = 11, rc_user = 1, rc_device = 2, rc_client_seq = 1, rc_server_seq = Some 1,
        rc_status = ''applied'', rc_error = None\<rparr>],
      db_changes = [\<lparr>cr_user = 1, cr_seq = 1, cr_op = 11, cr_entity = ''list'', cr_entity_id = 7,
        cr_kind = ''create'', cr_patch = JObj []\<rparr>]\<rparr>"

definition demo_op :: "uuid \<Rightarrow> int \<Rightarrow> entity_type \<Rightarrow> uuid \<Rightarrow> mutation_kind \<Rightarrow> json \<Rightarrow> mutation" where
  "demo_op o_id n e i k p = \<lparr>mu_op = o_id, mu_client_seq = n, mu_entity = e, mu_entity_id = i,
     mu_kind = k, mu_patch = p\<rparr>"

text \<open>Create a list, then edit a deleted list (refused).\<close>

definition demo_ops :: "mutation list" where
  "demo_ops =
     [demo_op 12 2 EList 8 KCreate (JObj [(''name'', JStr ''Work'')]),
      demo_op 13 3 EList 7 KPatch (JObj [(''name'', JStr ''Late'')])]"

definition demo_body :: "uuid \<Rightarrow> sync_request" where
  "demo_body d = \<lparr>sq_device = d, sq_cursor = ''0'', sq_ops = demo_ops, sq_limit = Some 1\<rparr>"

definition demo_resp :: sync_response where
  "demo_resp = fst (projr (sync demo_env demo_now demo_auth (demo_body 2) demo_db))"

definition demo_db' :: api_db where
  "demo_db' = snd (projr (sync demo_env demo_now demo_auth (demo_body 2) demo_db))"

definition demo_after :: "change_row list" where
  "demo_after = changes_after (db_changes demo_db') (au_user demo_auth) (cursor_get cursor_initial)"

lemma demo_run:
  "case sync demo_env demo_now demo_auth (demo_body 2) demo_db of
     Inl e \<Rightarrow> False
   | Inr (resp, db') \<Rightarrow>
       map ack_status_of (rs_ack resp) = [Applied, Rejected] \<and>
       distinct (map (\<lambda>c. (cr_user c, cr_seq c)) (db_changes db')) \<and>
       map cr_seq (changes_after (db_changes db') (au_user demo_auth) (cursor_get cursor_initial)) = [1, 2]"
  by code_simp

lemma demo_sync:
  "sync demo_env demo_now demo_auth (demo_body 2) demo_db = Inr (demo_resp, demo_db')"
  using demo_run by (auto simp: demo_resp_def demo_db'_def split: sum.splits)

lemma demo_positions: "distinct (map (\<lambda>c. (cr_user c, cr_seq c)) (db_changes demo_db'))"
  and demo_acks: "map ack_status_of (rs_ack demo_resp) = [Applied, Rejected]"
  and demo_after_seqs: "map cr_seq demo_after = [1, 2]"
  using demo_run by (simp_all add: demo_sync demo_after_def)

lemma demo_device:
  "lookup_row device_key (db_devices demo_db) (au_user demo_auth, sq_device (demo_body 2)) =
     Some demo_dev"
  by code_simp

lemma demo_state:
  "lookup_row ss_user (db_states demo_db) (au_user demo_auth) = Some demo_sync_state"
  by code_simp

lemma demo_log_ok: "log_ok demo_db"
  by code_simp

lemma demo_entities_ok: "entities_ok demo_env demo_db"
proof -
  have "keys_ok demo_db"
    by (simp add: keys_ok_def pk_def demo_db_def demo_list_def)
  moreover have "refs_ok demo_db"
    by (simp add: refs_ok_def demo_db_def vals_ok_def)
  moreover have "unique_ok demo_db"
    by (simp add: unique_ok_def demo_db_def slots_unique_def slot_free_def)
  moreover have "vals_ok (\<lambda>_. list_values_ok) (db_lists demo_db)" by code_simp
  then have "values_ok demo_env demo_db"
    by (simp add: values_ok_def) (simp add: demo_db_def vals_ok_def)
  ultimately show ?thesis by (simp add: entities_ok_def)
qed

lemma demo_tombstone: "entity_life demo_db (EList, 1, 7) = Tombstoned"
  by code_simp

lemma demo_no_restore:
  "\<forall>m \<in> set (sq_ops (demo_body 2)).
     \<not> (mutation_key (au_user demo_auth) m = (EList, 1, 7) \<and> mu_kind m = KRestore)"
  by (simp add: demo_body_def demo_ops_def demo_op_def)

section \<open>The properties of a request, applied\<close>

theorem sync_retry_idempotent_witness:
  "sync demo_env demo_now demo_auth (demo_body 2) demo_db' =
     Inr (demo_resp\<lparr>rs_server_time := demo_now\<rparr>, demo_db')"
  by (rule sync_retry_idempotent [OF demo_sync])

theorem sync_watermark_gap_free_witness:
  "\<exists>rs n. db_receipts demo_db' = db_receipts demo_db @ rs \<and> map rc_client_seq rs = [2 .. n]"
proof -
  obtain rs and dev' :: device_row where "db_receipts demo_db' = db_receipts demo_db @ rs"
    and "map rc_client_seq rs = [dev_last_seq demo_dev + 1 .. dev_last_seq dev']"
    using sync_watermark_gap_free [OF demo_sync demo_device] by blast
  then show ?thesis by (intro exI [of _ rs] exI [of _ "dev_last_seq dev'"]) (simp add: demo_dev_def)
qed

theorem sync_change_log_gap_free_witness:
  "\<exists>cs n. db_changes demo_db' = db_changes demo_db @ cs \<and> map cr_seq cs = [2 .. n]"
proof -
  obtain cs and s' :: sync_state where "db_changes demo_db' = db_changes demo_db @ cs"
    and "map cr_seq cs = [ss_next demo_sync_state .. ss_next s' - 1]"
    using sync_change_log_gap_free [OF demo_sync demo_state] by blast
  then show ?thesis by (intro exI [of _ cs] exI [of _ "ss_next s' - 1"]) (simp add: demo_sync_state_def)
qed

theorem sync_page_exact_witness:
  "map ch_seq (rs_changes demo_resp) = [1] \<and> rs_has_more demo_resp"
proof -
  have cursor: "cursor_parse (sq_cursor (demo_body 2)) = Inr cursor_initial" by code_simp
  have limit: "parse_page_limit (sq_limit (demo_body 2)) MAX_SYNC_CHANGES MAX_SYNC_CHANGES = Inr 1"
    by code_simp
  from sync_page_exact [OF demo_sync demo_positions cursor limit] demo_after_seqs show ?thesis
    by (auto simp: map_eq_Cons_conv demo_after_def)
qed

theorem sync_tombstone_wins_witness: "entity_life demo_db' (EList, 1, 7) = Tombstoned"
  by (rule sync_tombstone_wins [OF demo_sync demo_tombstone demo_no_restore])

theorem sync_never_forgets_witness: "entity_life demo_db' (EList, 1, 7) \<noteq> Absent"
  using sync_never_forgets [OF demo_sync] demo_tombstone by (metis life.distinct(3))

theorem sync_entities_ok_witness: "entities_ok demo_env demo_db'"
  by (rule sync_entities_ok [OF demo_sync demo_entities_ok])

theorem sync_isolates_accounts_witness:
  "entities_of 3 demo_db' = entities_of 3 demo_db \<and> db_lists demo_db \<noteq> []"
  using sync_isolates_accounts [OF demo_sync, of 3] by (simp add: demo_auth_def) (simp add: demo_db_def)

theorem sync_no_internal_error_witness:
  "\<exists>e. sync demo_env demo_now demo_auth (demo_body 9) demo_db = Inl e \<and> fst (into_response e) < 500"
proof -
  have "isl (sync demo_env demo_now demo_auth (demo_body 9) demo_db)" by code_simp
  then obtain e where "sync demo_env demo_now demo_auth (demo_body 9) demo_db = Inl e"
    by (auto simp: isl_def)
  then show ?thesis using sync_no_internal_error [OF demo_log_ok] by blast
qed

theorem sync_log_ok_witness: "log_ok demo_db'"
  by (rule sync_log_ok [OF demo_sync demo_log_ok])

definition demo_loop :: loop_state where
  "demo_loop = \<lparr>ls_db = demo_db, ls_expected = 2, ls_next = 2, ls_acks = []\<rparr>"

definition late_patch :: mutation where
  "late_patch = demo_op 13 2 EList 7 KPatch (JObj [(''name'', JStr ''Late'')])"

theorem run_op_refuses_wrong_state_witness:
  "\<exists>st'. run_op demo_env demo_now 1 2 late_patch demo_loop = Inr st' \<and>
     map ack_error (ls_acks st') = [Some ''ENTITY_TOMBSTONED'']"
proof -
  have "\<not> isl (run_op demo_env demo_now 1 2 late_patch demo_loop)" by code_simp
  then obtain st' where run: "run_op demo_env demo_now 1 2 late_patch demo_loop = Inr st'"
    by (metis isl_def sum.exhaust)
  have life: "life_error (mu_kind late_patch) (entity_life (ls_db demo_loop) (mutation_key 1 late_patch)) =
      Some ''ENTITY_TOMBSTONED''"
    by code_simp
  from run_op_refuses_wrong_state [OF life run] run show ?thesis by (simp add: demo_loop_def)
qed

section \<open>The properties of patches, applied\<close>

definition no_patch :: task_patch where
  "no_patch =
     \<lparr>tp_list_id = None, tp_title = None, tp_note = None, tp_status = None, tp_important = None,
      tp_tags = None, tp_due_on = None, tp_remind_at = None, tp_remind_timezone = None, tp_rank = None,
      tp_series_id = None, tp_occurrence_key = None, tp_recurrence = None, tp_completed_at = None\<rparr>"

definition rename :: "string \<Rightarrow> task_patch" where
  "rename t = no_patch\<lparr>tp_title := Some (Some t)\<rparr>"

definition schedule :: "nat \<Rightarrow> task_patch" where
  "schedule d = no_patch\<lparr>tp_due_on := Some (Some (Date 2026 9 d))\<rparr>"

definition demo_task :: task_values where
  "demo_task = task_values_empty\<lparr>tv_title := ''Write'', tv_tags := [''work'', ''home''],
     tv_due_on := Some (Date 2026 9 2), tv_list_id := Some 8\<rparr>"

lemma demo_task_ok: "task_values_ok demo_env demo_task"
proof -
  have "task_values_validate demo_env demo_task = Inr ()" by code_simp
  then show ?thesis by (simp only: task_values_validate_ok)
qed

theorem task_patches_last_writer_wins_witness:
  "task_patch_apply demo_env (merge_patches (rename ''A'') (rename ''B'')) demo_task =
     Inr (demo_task\<lparr>tv_title := ''B''\<rparr>)"
proof -
  have "task_patch_apply demo_env (rename ''A'') demo_task = Inr (demo_task\<lparr>tv_title := ''A''\<rparr>)"
    by code_simp
  moreover have "task_patch_apply demo_env (rename ''B'') (demo_task\<lparr>tv_title := ''A''\<rparr>) =
      Inr (demo_task\<lparr>tv_title := ''B''\<rparr>)"
    by code_simp
  ultimately show ?thesis by (rule task_patches_last_writer_wins)
qed

theorem disjoint_task_patches_commute_witness:
  "and_then (task_patch_apply demo_env (schedule 5) demo_task) (task_patch_apply demo_env (rename ''B'')) =
     Inr (demo_task\<lparr>tv_title := ''B'', tv_due_on := Some (Date 2026 9 5)\<rparr>)"
proof -
  have "disjoint_patches (schedule 5) (rename ''B'')" by code_simp
  moreover have "and_then (task_patch_apply demo_env (rename ''B'') demo_task)
      (task_patch_apply demo_env (schedule 5)) =
      Inr (demo_task\<lparr>tv_title := ''B'', tv_due_on := Some (Date 2026 9 5)\<rparr>)"
    by code_simp
  ultimately show ?thesis using disjoint_task_patches_commute [OF demo_task_ok] by blast
qed

theorem create_change_replays_witness:
  "and_then (parse_task_patch demo_env (task_values_change_patch demo_env demo_task) True)
     (\<lambda>p. task_patch_apply demo_env p task_values_empty) = Inr demo_task"
  by (rule create_change_replays [OF demo_codecs demo_task_ok])

theorem double_hash_patch_refused_witness:
  "\<exists>e. task_patch_apply demo_env (no_patch\<lparr>tp_tags := Some (Some [''##work''])\<rparr>) demo_task = Inl e"
  by (rule double_hash_patch_refused) simp

section \<open>Cursors and addresses, applied\<close>

theorem cursor_roundtrip_witness: "cursor_parse (cursor_to_string (ChangeCursor 42)) = Inr (ChangeCursor 42)"
  by (rule cursor_roundtrip) (simp_all add: I64_MAX_def)

theorem normalize_email_idempotent_witness: "normalize_email ''ann@example.com'' = Inr ''ann@example.com''"
proof -
  have "normalize_email '' Ann@Example.com '' = Inr ''ann@example.com''" by code_simp
  then show ?thesis by (rule normalize_email_idempotent)
qed

end
