(* ===== verification/ApiAuth.thy ===== *)
theory ApiAuth
  imports ApiStore
begin

text \<open>
  Sign-in and sessions: \<open>apps/api/src/auth/routes.rs\<close>, \<open>rate_limit.rs\<close>, \<open>tokens.rs\<close>,
  \<open>extractor.rs\<close>, and the two handlers that end sessions from outside, \<open>delete_device\<close>
  (\<open>devices.rs\<close>) and \<open>delete_account\<close> (\<open>account.rs\<close>). A handler is a step on the tables; it
  returns them with its result, because several errors are answered after a commit. Times are
  microseconds. HMAC, SHA-256, the JWT signature, the JSON reader and the random generators
  are parameters.
\<close>

section \<open>Tables\<close>

record auth_code_row =
  ac_id :: uuid
  ac_email :: string
  ac_hash :: string
  ac_attempts :: int
  ac_expires :: int
  ac_consumed :: "int option"
  ac_created :: int

record account_row =
  au_id :: uuid
  au_email :: string
  au_deleted :: "int option"

record auth_device =
  ad_id :: uuid
  ad_user :: uuid
  ad_name :: string
  ad_platform :: string
  ad_seen :: "int option"
  ad_revoked :: "int option"
  ad_created :: int

record session_row =
  se_id :: uuid
  se_user :: uuid
  se_device :: uuid
  se_hash :: string
  se_expires :: int
  se_revoked :: "int option"
  se_rotated :: "int option"

record refresh_row =
  rt_id :: uuid
  rt_session :: uuid
  rt_hash :: string
  rt_expires :: int
  rt_rotated :: "int option"
  rt_revoked :: "int option"
  rt_replaced :: "uuid option"

record window_row =
  wi_bucket :: string
  wi_subject :: string
  wi_start :: int
  wi_count :: int

record auth_db =
  ab_codes :: "auth_code_row list"
  ab_users :: "account_row list"
  ab_states :: "uuid list"
  ab_devices :: "auth_device list"
  ab_sessions :: "session_row list"
  ab_tokens :: "refresh_row list"
  ab_windows :: "window_row list"
  ab_tick :: nat

text \<open>The clocks a request reads: \<open>Utc::now()\<close>, \<open>now()\<close> and \<open>clock_timestamp()\<close>.\<close>

record clocks =
  ck_app :: int
  ck_tx :: int
  ck_wall :: int

definition seconds :: "int \<Rightarrow> int" where
  "seconds n = n * 1000000"

section \<open>Tokens\<close>

record access_claims =
  cl_sub :: uuid
  cl_sid :: uuid
  cl_did :: uuid
  cl_iss :: string
  cl_aud :: string
  cl_iat :: int
  cl_exp :: int

text \<open>
  The parameters: the two keyed hashes, SHA-256, the base64 of the n-th random token, UUIDs,
  the random 32 bits of a code, signing and checking a JWT (the latter with the expiry and the
  leeway of the library), and the JSON reader.
\<close>

record auth_env =
  ae_code_hash :: "string \<Rightarrow> string"
  ae_fingerprint :: "string \<Rightarrow> string"
  ae_token_hash :: "string \<Rightarrow> string"
  ae_token :: "nat \<Rightarrow> string"
  ae_uuid :: "nat \<Rightarrow> uuid"
  ae_bits :: "nat \<Rightarrow> 32 word"
  ae_sign :: "access_claims \<Rightarrow> string option"
  ae_decode :: "string \<Rightarrow> access_claims option"
  ae_json :: "string \<Rightarrow> json option"

record auth_config =
  cf_development :: bool
  cf_dev_code :: "string option"
  cf_access_ttl :: int
  cf_refresh_ttl :: int
  cf_code_ttl :: int
  cf_resend :: int
  cf_per_email_max :: int
  cf_global_max :: int
  cf_window :: int
  cf_max_attempts :: int
  cf_cookie_secure :: bool
  cf_origins :: "string list"

definition fresh_uuid :: "auth_env \<Rightarrow> auth_db \<Rightarrow> uuid \<times> auth_db" where
  "fresh_uuid env db = (ae_uuid env (ab_tick db), db\<lparr>ab_tick := ab_tick db + 1\<rparr>)"

definition generate_refresh_token :: "auth_env \<Rightarrow> auth_db \<Rightarrow> (string \<times> string) \<times> auth_db" where
  "generate_refresh_token env db =
     (let token = ae_token env (ab_tick db) in
      ((token, ae_token_hash env token), db\<lparr>ab_tick := ab_tick db + 1\<rparr>))"

definition six_digits :: "nat \<Rightarrow> string" where
  "six_digits n = replicate (6 - length (show_nat n)) (CHR ''0'') @ show_nat n"

definition generate_auth_code :: "auth_env \<Rightarrow> auth_db \<Rightarrow> string \<times> auth_db" where
  "generate_auth_code env db =
     (six_digits (unat (ae_bits env (ab_tick db)) mod 1000000), db\<lparr>ab_tick := ab_tick db + 1\<rparr>)"

definition code_verify :: "auth_env \<Rightarrow> string \<Rightarrow> string \<Rightarrow> bool" where
  "code_verify env code expected \<longleftrightarrow> ae_code_hash env code = expected"

definition jwt_issuer :: string where "jwt_issuer = ''todo-api''"

definition jwt_audience :: string where "jwt_audience = ''todo-client''"

definition timestamp :: "int \<Rightarrow> int" where
  "timestamp us = us div 1000000"

definition issue_access ::
  "auth_env \<Rightarrow> auth_config \<Rightarrow> int \<Rightarrow> uuid \<Rightarrow> uuid \<Rightarrow> uuid \<Rightarrow> app_error + string \<times> int" where
  "issue_access env cfg now u s d =
     (let n = timestamp now in
      case ae_sign env \<lparr>cl_sub = u, cl_sid = s, cl_did = d, cl_iss = jwt_issuer, cl_aud = jwt_audience,
             cl_iat = n, cl_exp = n + cf_access_ttl cfg\<rparr> of
        None \<Rightarrow> Inl (Internal ''could not sign access token'')
      | Some t \<Rightarrow> Inr (t, cf_access_ttl cfg))"

definition decode_access :: "auth_env \<Rightarrow> string \<Rightarrow> app_error + access_claims" where
  "decode_access env token =
     (if token = [] \<or> length token > 8192 then Inl err_invalid_token
      else case ae_decode env token of
             None \<Rightarrow> Inl err_invalid_token
           | Some c \<Rightarrow>
               if cl_iss c \<noteq> jwt_issuer \<or> cl_aud c \<noteq> jwt_audience \<or> cl_exp c \<le> cl_iat c
               then Inl err_invalid_token else Inr c)"

section \<open>The request limit\<close>

datatype auth_request_limit = Allowed | Suppressed | GlobalExceeded

definition window_key :: "window_row \<Rightarrow> string \<times> string \<times> int" where
  "window_key w = (wi_bucket w, wi_subject w, wi_start w)"

definition window_seconds :: "auth_config \<Rightarrow> int" where
  "window_seconds cfg = max (cf_window cfg) 60"

definition window_start :: "auth_config \<Rightarrow> int \<Rightarrow> int" where
  "window_start cfg wall = (wall div seconds (window_seconds cfg)) * seconds (window_seconds cfg)"

text \<open>\<open>INSERT ... ON CONFLICT DO UPDATE SET request_count = request_count + 1 RETURNING request_count\<close>\<close>

definition record_request :: "auth_config \<Rightarrow> int \<Rightarrow> string \<Rightarrow> string \<Rightarrow> auth_db \<Rightarrow> int \<times> auth_db" where
  "record_request cfg wall bucket subject db =
     (let key = (bucket, subject, window_start cfg wall);
          count = (case lookup_row window_key (ab_windows db) key of None \<Rightarrow> 1 | Some w \<Rightarrow> wi_count w + 1);
          row = \<lparr>wi_bucket = bucket, wi_subject = subject, wi_start = window_start cfg wall, wi_count = count\<rparr>
      in (count, db\<lparr>ab_windows := upsert_row window_key row (ab_windows db)\<rparr>))"

definition check_limit ::
  "auth_env \<Rightarrow> auth_config \<Rightarrow> int \<Rightarrow> string \<Rightarrow> auth_db \<Rightarrow> auth_request_limit \<times> auth_db" where
  "check_limit env cfg wall email db =
     (let (global_count, db) =
            record_request cfg wall ''auth_code_request_global'' (replicate 32 (CHR 0x00)) db in
      if global_count > cf_global_max cfg then (GlobalExceeded, db)
      else
        let (email_count, db) = record_request cfg wall ''auth_code_request_email'' (ae_fingerprint env email) db in
        if email_count > cf_per_email_max cfg then (Suppressed, db) else (Allowed, db))"

section \<open>Requesting a code\<close>

datatype code_answer = Accepted

definition request_code ::
  "auth_env \<Rightarrow> auth_config \<Rightarrow> clocks \<Rightarrow> string \<Rightarrow> auth_db \<Rightarrow> (app_error + code_answer) \<times> auth_db" where
  "request_code env cfg ck body_email db =
     (case normalize_email body_email of
        Inl _ \<Rightarrow> (Inl (err_validation ''email must be a valid email address''), db)
      | Inr email \<Rightarrow>
          let cutoff = ck_app ck - seconds (cf_resend cfg);
              (limit, db1) = check_limit env cfg (ck_wall ck) email db in
          (case limit of
             GlobalExceeded \<Rightarrow>
               (Inl (TooManyRequests ''RATE_LIMITED'' ''Too many code requests; try again later''), db1)
           | Suppressed \<Rightarrow> (Inr Accepted, db1)
           | Allowed \<Rightarrow>
               if list_ex (\<lambda>c. ac_email c = email \<and> ac_created c > cutoff) (ab_codes db1)
               then (Inr Accepted, db1)
               else
                 (case (if cf_development cfg
                        then map_option (\<lambda>c. (c, db1)) (cf_dev_code cfg)
                        else Some (generate_auth_code env db1)) of
                    None \<Rightarrow> (Inl (Internal ''development auth code is not configured''), db)
                  | Some (code, db2) \<Rightarrow>
                      let (i, db3) = fresh_uuid env db2 in
                      if lookup_row ac_id (ab_codes db3) i \<noteq> None
                      then (Inl (Internal ''database operation failed''), db\<lparr>ab_tick := ab_tick db3\<rparr>)
                      else
                        (Inr Accepted,
                         db3\<lparr>ab_codes := ab_codes db3 @
                           [\<lparr>ac_id = i, ac_email = email, ac_hash = ae_code_hash env code, ac_attempts = 0,
                             ac_expires = ck_app ck + seconds (cf_code_ttl cfg), ac_consumed = None,
                             ac_created = ck_tx ck\<rparr>]\<rparr>))))"

section \<open>Cookies and bodies\<close>

text \<open>
  Headers: the values of \<open>Cookie\<close> that are text, \<open>Origin\<close> (\<open>None\<close> inside: not text) and
  \<open>Content-Type\<close> (empty when it is not text).
\<close>

record auth_headers =
  ah_cookies :: "string list"
  ah_origin :: "string option option"
  ah_content_type :: "string option"

definition refresh_cookie_name :: string where "refresh_cookie_name = ''todo_refresh''"

fun split_once :: "char \<Rightarrow> string \<Rightarrow> (string \<times> string) option" where
  "split_once c [] = None"
| "split_once c (x # xs) =
     (if x = c then Some ([], xs)
      else case split_once c xs of None \<Rightarrow> None | Some (a, b) \<Rightarrow> Some (x # a, b))"

fun cookie_in :: "string list \<Rightarrow> string option" where
  "cookie_in [] = None"
| "cookie_in (pair # pairs) =
     (case split_once (CHR ''='') (trim pair) of
        None \<Rightarrow> cookie_in pairs
      | Some (name, v) \<Rightarrow> if name = refresh_cookie_name \<and> v \<noteq> [] then Some v else cookie_in pairs)"

fun refresh_cookie :: "string list \<Rightarrow> string option" where
  "refresh_cookie [] = None"
| "refresh_cookie (v # vs) =
     (case cookie_in (split_on (CHR '';'') v) of Some t \<Rightarrow> Some t | None \<Rightarrow> refresh_cookie vs)"

definition trim_end_matches :: "char \<Rightarrow> string \<Rightarrow> string" where
  "trim_end_matches c s = rev (dropWhile (\<lambda>x. x = c) (rev s))"

definition err_origin :: app_error where
  "err_origin = Forbidden ''ORIGIN_NOT_ALLOWED'' ''Origin is not allowed''"

definition enforce_cookie_origin :: "auth_config \<Rightarrow> auth_headers \<Rightarrow> app_error + unit" where
  "enforce_cookie_origin cfg h =
     (case ah_origin h of
        None \<Rightarrow> Inr ()
      | Some None \<Rightarrow> Inl err_origin
      | Some (Some origin) \<Rightarrow>
          fail_if (trim_end_matches (CHR ''/'') origin \<notin> set (cf_origins cfg)) err_origin)"

definition de_refresh_request :: "json \<Rightarrow> string option option" where
  "de_refresh_request v =
     (let de = (\<lambda>x. case x of JNull \<Rightarrow> Some None | JStr s \<Rightarrow> Some (Some s) | _ \<Rightarrow> None) in
      case v of
        JObj [] \<Rightarrow> Some None
      | JObj [(k, x)] \<Rightarrow> if k = ''refresh_token'' then de x else None
      | JArr [x] \<Rightarrow> de x
      | _ \<Rightarrow> None)"

definition parse_refresh_body :: "auth_env \<Rightarrow> auth_headers \<Rightarrow> string \<Rightarrow> app_error + string option" where
  "parse_refresh_body env h body =
     (if body = [] then Inr None
      else if (case ah_content_type h of
                 None \<Rightarrow> False | Some t \<Rightarrow> \<not> starts_with (to_ascii_lowercase t) ''application/json'')
      then Inl (err_validation ''Content-Type must be application/json'')
      else
        case Option.bind (ae_json env body) de_refresh_request of
          None \<Rightarrow> Inl (err_validation ''Malformed JSON refresh request'')
        | Some t \<Rightarrow>
            if t = Some [] then Inl (err_validation ''refresh_token may not be empty'') else Inr t)"

definition append_refresh_cookie :: "string \<Rightarrow> int \<Rightarrow> bool \<Rightarrow> string" where
  "append_refresh_cookie token max_age secure =
     refresh_cookie_name @ ''='' @ token @ ''; HttpOnly; SameSite=Strict; Path=/api/v1/auth; Max-Age='' @
       show_int max_age @ (if secure then ''; Secure'' else [])"

definition clear_refresh_cookie :: string where
  "clear_refresh_cookie = refresh_cookie_name @ ''=; HttpOnly; SameSite=Strict; Path=/api/v1/auth; Max-Age=0''"

record token_response =
  tr_access :: string
  tr_expires_in :: int
  tr_refresh :: "string option"
  tr_cookie :: "string option"

definition token_answer :: "auth_config \<Rightarrow> bool \<Rightarrow> string \<times> int \<Rightarrow> string \<Rightarrow> token_response" where
  "token_answer cfg web access token =
     \<lparr>tr_access = fst access, tr_expires_in = snd access,
      tr_refresh = (if web then None else Some token),
      tr_cookie = (if web then Some (append_refresh_cookie token (cf_refresh_ttl cfg) (cf_cookie_secure cfg)) else None)\<rparr>"

section \<open>Signing in\<close>

definition err_invalid_code :: app_error where
  "err_invalid_code = Unauthorized ''INVALID_CODE'' ''Invalid or expired sign-in code''"

definition err_refresh_invalid :: app_error where
  "err_refresh_invalid = Unauthorized ''INVALID_REFRESH_TOKEN'' ''The refresh credential is invalid or expired''"

definition err_database :: app_error where
  "err_database = Internal ''database operation failed''"

text \<open>\<open>char::is_control\<close> on the UTF-8 bytes of a character.\<close>

definition is_control :: "string \<Rightarrow> bool" where
  "is_control c =
     (case c of
        [a] \<Rightarrow> byte a < 32 \<or> byte a = 127
      | [a, b] \<Rightarrow> byte a = 0xC2 \<and> byte b < 0xA0
      | _ \<Rightarrow> False)"

record verify_request =
  vr_email :: string
  vr_code :: string
  vr_device :: uuid
  vr_web :: bool
  vr_platform :: string
  vr_device_name :: string

definition newer_code :: "auth_code_row \<Rightarrow> auth_code_row option \<Rightarrow> auth_code_row option" where
  "newer_code c best = (case best of None \<Rightarrow> Some c | Some b \<Rightarrow> if ac_created c > ac_created b then Some c else best)"

text \<open>The unconsumed, unexpired code of the address that was created last.\<close>

definition current_code :: "int \<Rightarrow> string \<Rightarrow> auth_db \<Rightarrow> auth_code_row option" where
  "current_code tx email db =
     fold newer_code
       (filter (\<lambda>c. ac_email c = email \<and> ac_consumed c = None \<and> ac_expires c > tx) (ab_codes db)) None"

definition count_attempt :: "uuid \<Rightarrow> auth_db \<Rightarrow> auth_db" where
  "count_attempt i db =
     db\<lparr>ab_codes := update_rows ac_id i (\<lambda>c. c\<lparr>ac_attempts := min (ac_attempts c + 1) 10\<rparr>) (ab_codes db)\<rparr>"

definition valid_code_text :: "string \<Rightarrow> bool" where
  "valid_code_text code \<longleftrightarrow>
     6 \<le> chars_count code \<and> chars_count code \<le> 8 \<and> list_all is_ascii_digit code"

definition valid_device_name :: "string \<Rightarrow> bool" where
  "valid_device_name n \<longleftrightarrow> n \<noteq> [] \<and> chars_count n \<le> 100 \<and> \<not> list_ex is_control (str_chars n)"

text \<open>\<open>INSERT INTO users ... ON CONFLICT (email_normalized) DO UPDATE ... RETURNING id, deleted_at\<close>\<close>

definition ensure_user :: "auth_env \<Rightarrow> string \<Rightarrow> auth_db \<Rightarrow> app_error + account_row \<times> auth_db" where
  "ensure_user env email db =
     (let (i, db) = fresh_uuid env db in
      case lookup_row au_email (ab_users db) email of
        Some u \<Rightarrow> Inr (u, db)
      | None \<Rightarrow>
          and_then (fail_if (lookup_row au_id (ab_users db) i \<noteq> None) err_database) (\<lambda>_.
          let u = \<lparr>au_id = i, au_email = email, au_deleted = None\<rparr> in
          Inr (u, db\<lparr>ab_users := ab_users db @ [u]\<rparr>)))"

definition ensure_state :: "uuid \<Rightarrow> auth_db \<Rightarrow> auth_db" where
  "ensure_state u db = (if u \<in> set (ab_states db) then db else db\<lparr>ab_states := ab_states db @ [u]\<rparr>)"

definition err_device_conflict :: app_error where
  "err_device_conflict = Conflict ''DEVICE_CONFLICT'' ''That device id is already in use''"

definition register_device ::
  "int \<Rightarrow> uuid \<Rightarrow> uuid \<Rightarrow> string \<Rightarrow> string \<Rightarrow> auth_db \<Rightarrow> app_error + auth_db" where
  "register_device tx u d name platform db =
     (case lookup_row ad_id (ab_devices db) d of
        Some existing \<Rightarrow>
          and_then (fail_if (ad_user existing \<noteq> u) err_device_conflict) (\<lambda>_.
          Inr (db\<lparr>ab_devices := update_rows ad_id d
            (\<lambda>r. r\<lparr>ad_name := name, ad_platform := platform, ad_revoked := None, ad_seen := Some tx\<rparr>)
            (ab_devices db)\<rparr>))
      | None \<Rightarrow>
          Inr (db\<lparr>ab_devices := ab_devices db @
            [\<lparr>ad_id = d, ad_user = u, ad_name = name, ad_platform = platform, ad_seen = Some tx, ad_revoked = None,
              ad_created = tx\<rparr>]\<rparr>))"

text \<open>The new session and its first refresh token; ids and hashes are unique.\<close>

definition insert_session :: "session_row \<Rightarrow> auth_db \<Rightarrow> app_error + auth_db" where
  "insert_session s db =
     and_then (fail_if (lookup_row se_id (ab_sessions db) (se_id s) \<noteq> None \<or>
         lookup_row se_hash (ab_sessions db) (se_hash s) \<noteq> None) err_database) (\<lambda>_.
     Inr (db\<lparr>ab_sessions := ab_sessions db @ [s]\<rparr>))"

definition insert_refresh :: "uuid \<Rightarrow> uuid \<Rightarrow> string \<Rightarrow> int \<Rightarrow> auth_db \<Rightarrow> app_error + auth_db" where
  "insert_refresh i session h expires db =
     and_then (fail_if (lookup_row rt_id (ab_tokens db) i \<noteq> None \<or> lookup_row rt_hash (ab_tokens db) h \<noteq> None)
       err_database) (\<lambda>_.
     Inr (db\<lparr>ab_tokens := ab_tokens db @
       [\<lparr>rt_id = i, rt_session = session, rt_hash = h, rt_expires = expires, rt_rotated = None, rt_revoked = None,
         rt_replaced = None\<rparr>]\<rparr>))"

definition consume_code :: "int \<Rightarrow> uuid \<Rightarrow> auth_db \<Rightarrow> auth_db" where
  "consume_code tx i db =
     db\<lparr>ab_codes := update_rows ac_id i
       (\<lambda>c. if ac_consumed c = None then c\<lparr>ac_consumed := Some tx\<rparr> else c) (ab_codes db)\<rparr>"

definition err_account_unavailable :: app_error where
  "err_account_unavailable = Unauthorized ''ACCOUNT_UNAVAILABLE'' ''This account is unavailable''"

text \<open>From the accepted code to the commit: any error rolls back.\<close>

definition open_session ::
  "auth_env \<Rightarrow> auth_config \<Rightarrow> clocks \<Rightarrow> string \<Rightarrow> verify_request \<Rightarrow> string \<Rightarrow> auth_code_row \<Rightarrow> auth_db \<Rightarrow>
   app_error + token_response \<times> auth_db" where
  "open_session env cfg ck email req name code db =
     and_then (ensure_user env email db) (\<lambda>(user, db).
     and_then (fail_if (au_deleted user \<noteq> None) err_account_unavailable) (\<lambda>_.
     let db = ensure_state (au_id user) db in
     and_then (register_device (ck_tx ck) (au_id user) (vr_device req) name (vr_platform req) db) (\<lambda>db.
     let (session_id, db) = fresh_uuid env db;
         ((token, h), db) = generate_refresh_token env db;
         expires = ck_app ck + seconds (cf_refresh_ttl cfg) in
     and_then (insert_session
       \<lparr>se_id = session_id, se_user = au_id user, se_device = vr_device req, se_hash = h, se_expires = expires,
         se_revoked = None, se_rotated = None\<rparr> db) (\<lambda>db.
     let (rid, db) = fresh_uuid env db in
     and_then (insert_refresh rid session_id h expires db) (\<lambda>db.
     let db = consume_code (ck_tx ck) (ac_id code) db in
     and_then (issue_access env cfg (ck_app ck) (au_id user) session_id (vr_device req)) (\<lambda>access.
     Inr (token_answer cfg (vr_web req) access token, db)))))))"

definition verify_code ::
  "auth_env \<Rightarrow> auth_config \<Rightarrow> clocks \<Rightarrow> auth_headers \<Rightarrow> verify_request \<Rightarrow> auth_db \<Rightarrow>
   (app_error + token_response) \<times> auth_db" where
  "verify_code env cfg ck h req db =
     (case (if vr_web req then enforce_cookie_origin cfg h else Inr ()) of
        Inl e \<Rightarrow> (Inl e, db)
      | Inr _ \<Rightarrow>
          (case normalize_email (vr_email req) of
             Inl _ \<Rightarrow> (Inl (err_validation ''email must be a valid email address''), db)
           | Inr email \<Rightarrow>
               if \<not> valid_code_text (vr_code req)
               then (Inl (err_validation ''code must contain 6 to 8 digits''), db)
               else
                 let name = trim (vr_device_name req) in
                 if \<not> valid_device_name name
                 then (Inl (err_validation ''device_name must contain between 1 and 100 printable characters''), db)
                 else
                   (case current_code (ck_tx ck) email db of
                      None \<Rightarrow> (Inl err_invalid_code, db)
                    | Some code \<Rightarrow>
                        if ac_expires code \<le> ck_app ck then (Inl err_invalid_code, db)
                        else if ac_attempts code \<ge> cf_max_attempts cfg \<or> ac_consumed code \<noteq> None \<or>
                            \<not> code_verify env (vr_code req) (ac_hash code)
                        then (Inl err_invalid_code, count_attempt (ac_id code) db)
                        else
                          (case open_session env cfg ck email req name code db of
                             Inl e \<Rightarrow> (Inl e, db)
                           | Inr (answer, db') \<Rightarrow> (Inr answer, db')))))"

section \<open>Refreshing\<close>

definition revoke_session :: "int \<Rightarrow> uuid \<Rightarrow> auth_db \<Rightarrow> auth_db" where
  "revoke_session tx i db =
     db\<lparr>ab_sessions := update_rows se_id i
       (\<lambda>s. s\<lparr>se_revoked := (case se_revoked s of None \<Rightarrow> Some tx | Some t \<Rightarrow> Some t)\<rparr>) (ab_sessions db)\<rparr>"

definition revoke_session_refresh_tokens :: "int \<Rightarrow> uuid \<Rightarrow> auth_db \<Rightarrow> auth_db" where
  "revoke_session_refresh_tokens tx i db =
     db\<lparr>ab_tokens := map (\<lambda>t. if rt_session t = i \<and> rt_revoked t = None then t\<lparr>rt_revoked := Some tx\<rparr> else t)
       (ab_tokens db)\<rparr>"

definition device_key_of :: "auth_device \<Rightarrow> uuid \<times> uuid" where
  "device_key_of d = (ad_user d, ad_id d)"

text \<open>The rows a refresh locks and reads: the token, its session, the user and the device.\<close>

definition refresh_rows ::
  "string \<Rightarrow> auth_db \<Rightarrow> (refresh_row \<times> session_row \<times> account_row \<times> auth_device) option" where
  "refresh_rows h db =
     (case lookup_row rt_hash (ab_tokens db) h of
        None \<Rightarrow> None
      | Some t \<Rightarrow>
          (case lookup_row se_id (ab_sessions db) (rt_session t) of
             None \<Rightarrow> None
           | Some s \<Rightarrow>
               (case (lookup_row au_id (ab_users db) (se_user s),
                      lookup_row device_key_of (ab_devices db) (se_user s, se_device s)) of
                  (Some u, Some d) \<Rightarrow> Some (t, s, u, d)
                | _ \<Rightarrow> None)))"

definition err_reused :: app_error where
  "err_reused = Unauthorized ''REFRESH_TOKEN_REUSED'' ''The refresh session has been revoked; sign in again''"

text \<open>Issuing the next token of the session.\<close>

definition rotate ::
  "auth_env \<Rightarrow> auth_config \<Rightarrow> clocks \<Rightarrow> bool \<Rightarrow> refresh_row \<Rightarrow> session_row \<Rightarrow> auth_db \<Rightarrow>
   app_error + token_response \<times> auth_db" where
  "rotate env cfg ck web t s db =
     (let ((token, h), db) = generate_refresh_token env db;
          (i, db) = fresh_uuid env db;
          expires = ck_app ck + seconds (cf_refresh_ttl cfg) in
      and_then (insert_refresh i (rt_session t) h expires db) (\<lambda>db.
      let db = db\<lparr>ab_tokens := update_rows rt_id (rt_id t)
            (\<lambda>r. if rt_rotated r = None then r\<lparr>rt_rotated := Some (ck_tx ck), rt_replaced := Some i\<rparr> else r)
            (ab_tokens db)\<rparr> in
      and_then (fail_if (list_ex (\<lambda>r. se_id r \<noteq> se_id s \<and> se_hash r = h) (ab_sessions db)) err_database) (\<lambda>_.
      and_then (fail_if (se_revoked s \<noteq> None) err_refresh_invalid) (\<lambda>_.
      let db = db\<lparr>ab_sessions := update_rows se_id (se_id s)
            (\<lambda>r. r\<lparr>se_hash := h, se_expires := expires, se_rotated := Some (ck_tx ck)\<rparr>) (ab_sessions db),
            ab_devices := update_rows device_key_of (se_user s, se_device s)
            (\<lambda>d. d\<lparr>ad_seen := Some (ck_tx ck)\<rparr>) (ab_devices db)\<rparr> in
      and_then (issue_access env cfg (ck_app ck) (se_user s) (se_id s) (se_device s)) (\<lambda>access.
      Inr (token_answer cfg web access token, db))))))"

definition refresh_with ::
  "auth_env \<Rightarrow> auth_config \<Rightarrow> clocks \<Rightarrow> bool \<Rightarrow> string \<Rightarrow> auth_db \<Rightarrow> (app_error + token_response) \<times> auth_db" where
  "refresh_with env cfg ck web token db =
     (case refresh_rows (ae_token_hash env token) db of
        None \<Rightarrow> (Inl err_refresh_invalid, db)
      | Some (t, s, u, d) \<Rightarrow>
          let revoke = (\<lambda>db. revoke_session_refresh_tokens (ck_tx ck) (rt_session t) db) in
          if rt_rotated t \<noteq> None \<or> rt_revoked t \<noteq> None
          then (Inl err_reused, revoke (revoke_session (ck_tx ck) (rt_session t) db))
          else if se_revoked s \<noteq> None \<or> au_deleted u \<noteq> None \<or> ad_revoked d \<noteq> None \<or>
              rt_expires t \<le> ck_app ck \<or> se_expires s \<le> ck_app ck
          then (Inl err_refresh_invalid,
                revoke (db\<lparr>ab_sessions := update_rows se_id (rt_session t)
                  (\<lambda>r. r\<lparr>se_revoked := Some (ck_tx ck)\<rparr>) (ab_sessions db)\<rparr>))
          else
            (case rotate env cfg ck web t s db of
               Inl e \<Rightarrow> (Inl e, db)
             | Inr (answer, db') \<Rightarrow> (Inr answer, db')))"

definition refresh ::
  "auth_env \<Rightarrow> auth_config \<Rightarrow> clocks \<Rightarrow> auth_headers \<Rightarrow> string \<Rightarrow> auth_db \<Rightarrow>
   (app_error + token_response) \<times> auth_db" where
  "refresh env cfg ck h body db =
     (let cookie_token = refresh_cookie (ah_cookies h) in
      case parse_refresh_body env h body of
        Inl e \<Rightarrow> (Inl e, db)
      | Inr body_token \<Rightarrow>
          (case (cookie_token, body_token) of
             (Some _, Some _) \<Rightarrow>
               (Inl (err_validation ''send a refresh token in exactly one of the JSON body or cookie''), db)
           | (None, None) \<Rightarrow> (Inl err_unauthorized, db)
           | (Some token, None) \<Rightarrow>
               (case enforce_cookie_origin cfg h of
                  Inl e \<Rightarrow> (Inl e, db)
                | Inr _ \<Rightarrow> refresh_with env cfg ck True token db)
           | (None, Some token) \<Rightarrow> refresh_with env cfg ck False token db))"

section \<open>Who is asking\<close>

record auth_user =
  us_user :: uuid
  us_session :: uuid
  us_device :: uuid
  us_issued :: int

text \<open>The session of the claims, joined with its user and device, while all of them stand.\<close>

definition session_user :: "int \<Rightarrow> access_claims \<Rightarrow> auth_db \<Rightarrow> app_error + auth_user" where
  "session_user now c db =
     (case lookup_row se_id (filter (\<lambda>s. se_user s = cl_sub c) (ab_sessions db)) (cl_sid c) of
        None \<Rightarrow> Inl err_unauthorized
      | Some s \<Rightarrow>
          (case (lookup_row au_id (ab_users db) (se_user s),
                 lookup_row device_key_of (ab_devices db) (se_user s, se_device s)) of
             (Some u, Some d) \<Rightarrow>
               if se_user s \<noteq> cl_sub c \<or> se_device s \<noteq> cl_did c \<or> se_expires s \<le> now \<or>
                  se_revoked s \<noteq> None \<or> au_deleted u \<noteq> None \<or> ad_revoked d \<noteq> None
               then Inl err_unauthorized
               else Inr \<lparr>us_user = se_user s, us_session = cl_sid c, us_device = se_device s, us_issued = cl_iat c\<rparr>
           | _ \<Rightarrow> Inl err_unauthorized))"

text \<open>The value of \<open>Authorization\<close>, if it is there and text.\<close>

definition auth_user_from :: "auth_env \<Rightarrow> int \<Rightarrow> string option \<Rightarrow> auth_db \<Rightarrow> app_error + auth_user" where
  "auth_user_from env now header db =
     and_then (ok_or header err_unauthorized) (\<lambda>header.
     and_then (ok_or (split_once (CHR '' '') header) err_unauthorized) (\<lambda>(scheme, token).
     and_then (fail_if (to_ascii_lowercase scheme \<noteq> ''bearer'' \<or> token = []) err_unauthorized) (\<lambda>_.
     and_then (decode_access env token) (\<lambda>c. session_user now c db))))"

section \<open>Ending sessions\<close>

definition logout :: "clocks \<Rightarrow> auth_user \<Rightarrow> auth_db \<Rightarrow> (app_error + string) \<times> auth_db" where
  "logout ck auth db =
     (if lookup_row au_id (ab_users db) (us_user auth) = None \<or>
         lookup_row device_key_of (ab_devices db) (us_user auth, us_device auth) = None \<or>
         \<not> list_ex (\<lambda>s. se_id s = us_session auth \<and> se_user s = us_user auth \<and> se_device s = us_device auth)
             (ab_sessions db)
      then (Inl err_unauthorized, db)
      else
        (Inr clear_refresh_cookie,
         revoke_session_refresh_tokens (ck_tx ck) (us_session auth) (revoke_session (ck_tx ck) (us_session auth) db)))"

definition coalesce :: "int option \<Rightarrow> int \<Rightarrow> int option" where
  "coalesce v d = (case v of None \<Rightarrow> Some d | Some x \<Rightarrow> Some x)"

text \<open>Revoking the sessions that satisfy a condition, with all their refresh tokens.\<close>

definition revoke_sessions :: "int \<Rightarrow> (session_row \<Rightarrow> bool) \<Rightarrow> auth_db \<Rightarrow> auth_db" where
  "revoke_sessions tx p db =
     db\<lparr>ab_sessions := map (\<lambda>s. if p s then s\<lparr>se_revoked := coalesce (se_revoked s) tx\<rparr> else s) (ab_sessions db),
        ab_tokens := map (\<lambda>t. if list_ex (\<lambda>s. rt_session t = se_id s \<and> p s) (ab_sessions db)
           then t\<lparr>rt_revoked := coalesce (rt_revoked t) tx\<rparr> else t) (ab_tokens db)\<rparr>"

definition err_device_not_found :: app_error where
  "err_device_not_found = NotFound ''DEVICE_NOT_FOUND'' ''Device not found''"

text \<open>The path segment is parsed as a UUID first (\<open>None\<close>: it is none).\<close>

definition delete_device :: "clocks \<Rightarrow> auth_user \<Rightarrow> uuid option \<Rightarrow> auth_db \<Rightarrow> (app_error + unit) \<times> auth_db" where
  "delete_device ck auth device db =
     (case device of
        None \<Rightarrow> (Inl (err_validation ''device id must be a UUID''), db)
      | Some i \<Rightarrow>
          if \<not> list_ex (\<lambda>u. au_id u = us_user auth \<and> au_deleted u = None) (ab_users db)
          then (Inl err_unauthorized, db)
          else
            (case lookup_row device_key_of (ab_devices db) (us_user auth, i) of
               None \<Rightarrow> (Inl err_device_not_found, db)
             | Some d \<Rightarrow>
                 if ad_revoked d \<noteq> None then (Inr (), db)
                 else
                   (Inr (), revoke_sessions (ck_tx ck) (\<lambda>s. se_user s = us_user auth \<and> se_device s = i)
                      (db\<lparr>ab_devices := update_rows device_key_of (us_user auth, i)
                        (\<lambda>d. d\<lparr>ad_revoked := Some (ck_tx ck)\<rparr>) (ab_devices db)\<rparr>))))"

definition err_reauth :: app_error where
  "err_reauth = Forbidden ''REAUTH_REQUIRED'' ''Sign in again before deleting this account''"

definition delete_account :: "clocks \<Rightarrow> auth_user \<Rightarrow> auth_db \<Rightarrow> (app_error + string option) \<times> auth_db" where
  "delete_account ck auth db =
     (if us_issued auth < timestamp (ck_app ck) - 300 then (Inl err_reauth, db)
      else
        case lookup_row au_id (ab_users db) (us_user auth) of
          None \<Rightarrow> (Inl err_unauthorized, db)
        | Some u \<Rightarrow>
            if au_deleted u \<noteq> None then (Inr None, db)
            else
              (Inr (Some clear_refresh_cookie),
               revoke_sessions (ck_tx ck) (\<lambda>s. se_user s = us_user auth)
                 (db\<lparr>ab_users := update_rows au_id (us_user auth) (\<lambda>u. u\<lparr>au_deleted := Some (ck_tx ck)\<rparr>) (ab_users db),
                     ab_devices := map (\<lambda>d. if ad_user d = us_user auth
                       then d\<lparr>ad_revoked := coalesce (ad_revoked d) (ck_tx ck)\<rparr> else d) (ab_devices db)\<rparr>)))"

text \<open>\<open>ORDER BY created_at, id\<close>.\<close>

definition list_devices :: "auth_user \<Rightarrow> auth_db \<Rightarrow> (auth_device \<times> bool) list" where
  "list_devices auth db =
     map (\<lambda>d. (d, ad_id d = us_device auth))
       (sort_key ad_created (sort_key ad_id
         (filter (\<lambda>d. ad_user d = us_user auth \<and> ad_revoked d = None) (ab_devices db))))"

end
