(* ===== verification/ApiAuthFacts.thy ===== *)
theory ApiAuthFacts
  imports ApiAuth
begin

text \<open>
  What sign-in and sessions guarantee. The requests are events on the tables; the invariant
  \<open>auth_ok\<close> ties tokens to sessions, sessions to users and devices, and leaves at most one
  usable refresh token per session and none in a revoked one.
\<close>

section \<open>Events\<close>

datatype auth_event =
    EvRequest clocks string
  | EvVerify clocks auth_headers verify_request
  | EvRefresh clocks auth_headers string
  | EvLogout clocks auth_user
  | EvDeleteDevice clocks auth_user "uuid option"
  | EvDeleteAccount clocks auth_user

fun auth_exec :: "auth_env \<Rightarrow> auth_config \<Rightarrow> auth_event \<Rightarrow> auth_db \<Rightarrow> auth_db" where
  "auth_exec env cfg (EvRequest ck e) db = snd (request_code env cfg ck e db)"
| "auth_exec env cfg (EvVerify ck h r) db = snd (verify_code env cfg ck h r db)"
| "auth_exec env cfg (EvRefresh ck h b) db = snd (refresh env cfg ck h b db)"
| "auth_exec env cfg (EvLogout ck a) db = snd (logout ck a db)"
| "auth_exec env cfg (EvDeleteDevice ck a d) db = snd (delete_device ck a d db)"
| "auth_exec env cfg (EvDeleteAccount ck a) db = snd (delete_account ck a db)"

definition auth_run :: "auth_env \<Rightarrow> auth_config \<Rightarrow> auth_event list \<Rightarrow> auth_db \<Rightarrow> auth_db" where
  "auth_run env cfg evs db = fold (auth_exec env cfg) evs db"

lemma auth_run_simps [simp]:
  "auth_run env cfg [] db = db"
  "auth_run env cfg (ev # evs) db = auth_run env cfg evs (auth_exec env cfg ev db)"
  by (simp_all add: auth_run_def)

section \<open>The invariant\<close>

definition live_token :: "refresh_row \<Rightarrow> bool" where
  "live_token t \<longleftrightarrow> rt_rotated t = None \<and> rt_revoked t = None"

definition auth_ok :: "auth_db \<Rightarrow> bool" where
  "auth_ok db \<longleftrightarrow>
     pk rt_id (ab_tokens db) \<and> pk rt_hash (ab_tokens db) \<and> pk se_id (ab_sessions db) \<and>
     pk au_id (ab_users db) \<and> pk au_email (ab_users db) \<and> pk ad_id (ab_devices db) \<and>
     (\<forall>t \<in> set (ab_tokens db). rt_session t \<in> se_id ` set (ab_sessions db)) \<and>
     (\<forall>t \<in> set (ab_tokens db). \<forall>t' \<in> set (ab_tokens db).
        live_token t \<and> live_token t' \<and> rt_session t = rt_session t' \<longrightarrow> rt_id t = rt_id t') \<and>
     (\<forall>s \<in> set (ab_sessions db). se_revoked s \<noteq> None \<longrightarrow>
        (\<forall>t \<in> set (ab_tokens db). rt_session t = se_id s \<longrightarrow> \<not> live_token t)) \<and>
     (\<forall>s \<in> set (ab_sessions db). \<exists>d \<in> set (ab_devices db).
        ad_id d = se_device s \<and> ad_user d = se_user s \<and> (ad_revoked d \<noteq> None \<longrightarrow> se_revoked s \<noteq> None)) \<and>
     (\<forall>s \<in> set (ab_sessions db). \<exists>u \<in> set (ab_users db).
        au_id u = se_user s \<and> (au_deleted u \<noteq> None \<longrightarrow> se_revoked s \<noteq> None))"

lemma auth_ok_cong:
  "ab_tokens db' = ab_tokens db \<Longrightarrow> ab_sessions db' = ab_sessions db \<Longrightarrow> ab_users db' = ab_users db \<Longrightarrow>
     ab_devices db' = ab_devices db \<Longrightarrow> auth_ok db' = auth_ok db"
  by (simp add: auth_ok_def)

text \<open>
  Ending is final: sessions and tokens stay, with their identity, and those that have ended do
  not come back. \<open>kept\<close> is what every event guarantees on tables that satisfy the invariant.
\<close>

definition keeps_ended :: "auth_db \<Rightarrow> auth_db \<Rightarrow> bool" where
  "keeps_ended db db' \<longleftrightarrow>
     (\<forall>s \<in> set (ab_sessions db). \<exists>s' \<in> set (ab_sessions db').
        se_id s' = se_id s \<and> se_user s' = se_user s \<and> se_device s' = se_device s \<and>
        (se_revoked s \<noteq> None \<longrightarrow> se_revoked s' \<noteq> None)) \<and>
     (\<forall>t \<in> set (ab_tokens db). \<exists>t' \<in> set (ab_tokens db').
        rt_id t' = rt_id t \<and> rt_hash t' = rt_hash t \<and> rt_session t' = rt_session t \<and>
        (\<not> live_token t \<longrightarrow> \<not> live_token t'))"

lemma keeps_ended_trans: "keeps_ended db db1 \<Longrightarrow> keeps_ended db1 db2 \<Longrightarrow> keeps_ended db db2"
  unfolding keeps_ended_def by (metis (no_types, lifting))

definition kept :: "auth_db \<Rightarrow> auth_db \<Rightarrow> bool" where
  "kept db db' \<longleftrightarrow> (auth_ok db \<longrightarrow> auth_ok db' \<and> keeps_ended db db')"

lemma kept_trans: "kept db db1 \<Longrightarrow> kept db1 db2 \<Longrightarrow> kept db db2"
  by (auto simp: kept_def intro: keeps_ended_trans)

lemma kept_same:
  "ab_tokens db' = ab_tokens db \<Longrightarrow> ab_sessions db' = ab_sessions db \<Longrightarrow> ab_users db' = ab_users db \<Longrightarrow>
     ab_devices db' = ab_devices db \<Longrightarrow> kept db db'"
  by (auto simp: kept_def keeps_ended_def cong: auth_ok_cong)

text \<open>
  Changing rows in place: identities stay, nothing comes back to life, and a session that is
  newly revoked loses its tokens, as does one whose device or user goes.
\<close>

lemma kept_revise:
  assumes tokens: "ab_tokens db' = map g (ab_tokens db)" and sessions: "ab_sessions db' = map f (ab_sessions db)"
    and users: "ab_users db' = map h (ab_users db)" and devices: "ab_devices db' = map k (ab_devices db)"
    and g: "\<And>t. rt_id (g t) = rt_id t" "\<And>t. rt_hash (g t) = rt_hash t" "\<And>t. rt_session (g t) = rt_session t"
      "\<And>t. live_token (g t) \<Longrightarrow> live_token t"
    and f: "\<And>s. se_id (f s) = se_id s" "\<And>s. se_user (f s) = se_user s" "\<And>s. se_device (f s) = se_device s"
      "\<And>s. se_revoked s \<noteq> None \<Longrightarrow> se_revoked (f s) \<noteq> None"
    and h: "\<And>u. au_id (h u) = au_id u" "\<And>u. au_email (h u) = au_email u"
    and k: "\<And>d. ad_id (k d) = ad_id d" "\<And>d. ad_user (k d) = ad_user d"
    and revoked: "\<And>s t. s \<in> set (ab_sessions db) \<Longrightarrow> t \<in> set (ab_tokens db) \<Longrightarrow> rt_session t = se_id s \<Longrightarrow>
      se_revoked (f s) \<noteq> None \<Longrightarrow> se_revoked s = None \<Longrightarrow> \<not> live_token (g t)"
    and device_gone: "\<And>s d. s \<in> set (ab_sessions db) \<Longrightarrow> d \<in> set (ab_devices db) \<Longrightarrow> ad_id d = se_device s \<Longrightarrow>
      ad_user d = se_user s \<Longrightarrow> ad_revoked (k d) \<noteq> None \<Longrightarrow> ad_revoked d = None \<Longrightarrow> se_revoked (f s) \<noteq> None"
    and user_gone: "\<And>s u. s \<in> set (ab_sessions db) \<Longrightarrow> u \<in> set (ab_users db) \<Longrightarrow> au_id u = se_user s \<Longrightarrow>
      au_deleted (h u) \<noteq> None \<Longrightarrow> au_deleted u = None \<Longrightarrow> se_revoked (f s) \<noteq> None"
  shows "kept db db'"
  unfolding kept_def
proof (intro impI conjI)
  show "keeps_ended db db'"
    unfolding keeps_ended_def using f g by (simp add: tokens sessions) (metis (no_types, lifting))
  assume ok: "auth_ok db"
  have pks: "pk rt_id (ab_tokens db')" "pk rt_hash (ab_tokens db')" "pk se_id (ab_sessions db')"
    "pk au_id (ab_users db')" "pk au_email (ab_users db')" "pk ad_id (ab_devices db')"
    using ok by (simp_all add: auth_ok_def pk_def tokens sessions users devices comp_def f g h k)
  have refs: "\<forall>t \<in> set (ab_tokens db'). rt_session t \<in> se_id ` set (ab_sessions db')"
    using ok by (simp add: auth_ok_def tokens sessions f(1) g(3) image_image)
  have one: "\<forall>t \<in> set (ab_tokens db'). \<forall>t' \<in> set (ab_tokens db').
        live_token t \<and> live_token t' \<and> rt_session t = rt_session t' \<longrightarrow> rt_id t = rt_id t'"
    using ok by (simp add: auth_ok_def tokens g(1,3)) (meson g(4))
  have dead: "\<forall>s \<in> set (ab_sessions db'). se_revoked s \<noteq> None \<longrightarrow>
        (\<forall>t \<in> set (ab_tokens db'). rt_session t = se_id s \<longrightarrow> \<not> live_token t)"
  proof -
    have "\<not> live_token (g t)" if "s \<in> set (ab_sessions db)" "t \<in> set (ab_tokens db)" "rt_session t = se_id s"
      "se_revoked (f s) \<noteq> None" for s t
      using ok that revoked [OF that] g(4) [of t] by (cases "se_revoked s") (auto simp: auth_ok_def)
    then show ?thesis by (simp add: tokens sessions f(1) g(3))
  qed
  have dev: "\<forall>s \<in> set (ab_sessions db'). \<exists>d \<in> set (ab_devices db').
        ad_id d = se_device s \<and> ad_user d = se_user s \<and> (ad_revoked d \<noteq> None \<longrightarrow> se_revoked s \<noteq> None)"
  proof -
    have "\<exists>d \<in> set (ab_devices db). ad_id d = se_device s \<and> ad_user d = se_user s \<and>
        (ad_revoked (k d) \<noteq> None \<longrightarrow> se_revoked (f s) \<noteq> None)" if s: "s \<in> set (ab_sessions db)" for s
    proof -
      from ok s obtain d where d: "d \<in> set (ab_devices db)" "ad_id d = se_device s" "ad_user d = se_user s"
        "ad_revoked d \<noteq> None \<longrightarrow> se_revoked s \<noteq> None"
        unfolding auth_ok_def by blast
      with device_gone [OF s d(1-3)] f(4) [of s] show ?thesis by blast
    qed
    then show ?thesis by (simp add: sessions devices f(2,3) k)
  qed
  have usr: "\<forall>s \<in> set (ab_sessions db'). \<exists>u \<in> set (ab_users db').
        au_id u = se_user s \<and> (au_deleted u \<noteq> None \<longrightarrow> se_revoked s \<noteq> None)"
  proof -
    have "\<exists>u \<in> set (ab_users db). au_id u = se_user s \<and>
        (au_deleted (h u) \<noteq> None \<longrightarrow> se_revoked (f s) \<noteq> None)" if s: "s \<in> set (ab_sessions db)" for s
    proof -
      from ok s obtain u where u: "u \<in> set (ab_users db)" "au_id u = se_user s"
        "au_deleted u \<noteq> None \<longrightarrow> se_revoked s \<noteq> None"
        unfolding auth_ok_def by blast
      with user_gone [OF s u(1,2)] f(4) [of s] show ?thesis by blast
    qed
    then show ?thesis by (simp add: sessions users f(2) h)
  qed
  show "auth_ok db'"
    unfolding auth_ok_def by (intro conjI pks refs one dead dev usr)
qed

lemma session_pk:
  assumes "auth_ok db" and "s \<in> set (ab_sessions db)" and "s' \<in> set (ab_sessions db)" and "se_id s = se_id s'"
  shows "s = s'"
  using assms by (auto simp: auth_ok_def pk_def distinct_map inj_on_def)

section \<open>Revoking\<close>

text \<open>The three ways a session ends, as one: a set of sessions is revoked with its tokens.\<close>

lemma kept_revoke:
  assumes "ab_users db' = ab_users db" and "ab_devices db' = ab_devices db"
    and "ab_sessions db' = map (\<lambda>s. if p (se_id s) then s\<lparr>se_revoked := v s\<rparr> else s) (ab_sessions db)"
    and "ab_tokens db' = map (\<lambda>t. if p (rt_session t) \<and> rt_revoked t = None then t\<lparr>rt_revoked := Some tx\<rparr> else t) (ab_tokens db)"
    and "\<And>s. v s \<noteq> None"
  shows "kept db db'"
  by (rule kept_revise [OF assms(4,3), where h = id and k = id])
    (use assms in \<open>auto simp: live_token_def split: if_splits\<close>)

lemma kept_end_session:
  "kept db (revoke_session_refresh_tokens tx i (revoke_session tx i db))"
  "kept db (revoke_session_refresh_tokens tx i
      (db\<lparr>ab_sessions := update_rows se_id i (\<lambda>r. r\<lparr>se_revoked := Some tx\<rparr>) (ab_sessions db)\<rparr>))"
  by (rule kept_revoke [where p = "\<lambda>j. j = i" and tx = tx and
        v = "\<lambda>s. case se_revoked s of None \<Rightarrow> Some tx | Some t \<Rightarrow> Some t"];
      simp add: revoke_session_refresh_tokens_def revoke_session_def update_rows_def split: option.splits)
    (rule kept_revoke [where p = "\<lambda>j. j = i" and tx = tx and v = "\<lambda>_. Some tx"];
      simp add: revoke_session_refresh_tokens_def update_rows_def)

lemma kept_revoke_sessions:
  assumes users: "ab_users db1 = map h (ab_users db)" and devices: "ab_devices db1 = map k (ab_devices db)"
    and same: "ab_sessions db1 = ab_sessions db" "ab_tokens db1 = ab_tokens db"
    and h: "\<And>u. au_id (h u) = au_id u" "\<And>u. au_email (h u) = au_email u"
    and k: "\<And>d. ad_id (k d) = ad_id d" "\<And>d. ad_user (k d) = ad_user d"
    and device_gone: "\<And>s d. s \<in> set (ab_sessions db) \<Longrightarrow> d \<in> set (ab_devices db) \<Longrightarrow> ad_id d = se_device s \<Longrightarrow>
      ad_user d = se_user s \<Longrightarrow> ad_revoked (k d) \<noteq> None \<Longrightarrow> ad_revoked d = None \<Longrightarrow> p s"
    and user_gone: "\<And>s u. s \<in> set (ab_sessions db) \<Longrightarrow> u \<in> set (ab_users db) \<Longrightarrow> au_id u = se_user s \<Longrightarrow>
      au_deleted (h u) \<noteq> None \<Longrightarrow> au_deleted u = None \<Longrightarrow> p s"
  shows "kept db (revoke_sessions tx p db1)"
proof (rule kept_revise)
  show "ab_sessions (revoke_sessions tx p db1) =
      map (\<lambda>s. if p s then s\<lparr>se_revoked := coalesce (se_revoked s) tx\<rparr> else s) (ab_sessions db)"
    and "ab_tokens (revoke_sessions tx p db1) = map (\<lambda>t. if list_ex (\<lambda>s. rt_session t = se_id s \<and> p s) (ab_sessions db)
           then t\<lparr>rt_revoked := coalesce (rt_revoked t) tx\<rparr> else t) (ab_tokens db)"
    and "ab_users (revoke_sessions tx p db1) = map h (ab_users db)"
    and "ab_devices (revoke_sessions tx p db1) = map k (ab_devices db)"
    by (simp_all add: revoke_sessions_def same users devices)
qed (use h k device_gone user_gone in \<open>auto simp: live_token_def coalesce_def list_ex_iff split: if_splits option.splits\<close>)

lemma kept_refl: "kept db db"
  by (rule kept_same) simp_all

lemma kept_logout: "kept db (snd (logout ck a db))"
  by (simp add: logout_def kept_end_session kept_refl)

lemma kept_delete_device: "kept db (snd (delete_device ck a d db))"
proof -
  have "kept db (revoke_sessions (ck_tx ck) (\<lambda>s. se_user s = us_user a \<and> se_device s = i)
      (db\<lparr>ab_devices := update_rows device_key_of (us_user a, i) (\<lambda>d. d\<lparr>ad_revoked := Some (ck_tx ck)\<rparr>) (ab_devices db)\<rparr>))" for i
    by (rule kept_revoke_sessions [where h = id and
        k = "\<lambda>r. if device_key_of r = (us_user a, i) then r\<lparr>ad_revoked := Some (ck_tx ck)\<rparr> else r"])
      (auto simp: update_rows_def device_key_of_def split: if_splits)
  then show ?thesis by (auto simp: delete_device_def kept_refl split: option.splits)
qed

lemma kept_delete_account: "kept db (snd (delete_account ck a db))"
proof -
  have "kept db (revoke_sessions (ck_tx ck) (\<lambda>s. se_user s = us_user a)
      (db\<lparr>ab_users := update_rows au_id (us_user a) (\<lambda>u. u\<lparr>au_deleted := Some (ck_tx ck)\<rparr>) (ab_users db),
          ab_devices := map (\<lambda>d. if ad_user d = us_user a
            then d\<lparr>ad_revoked := coalesce (ad_revoked d) (ck_tx ck)\<rparr> else d) (ab_devices db)\<rparr>))"
    by (rule kept_revoke_sessions [where
        h = "\<lambda>u. if au_id u = us_user a then u\<lparr>au_deleted := Some (ck_tx ck)\<rparr> else u" and
        k = "\<lambda>d. if ad_user d = us_user a then d\<lparr>ad_revoked := coalesce (ad_revoked d) (ck_tx ck)\<rparr> else d"])
      (auto simp: update_rows_def split: if_splits)
  then show ?thesis by (auto simp: delete_account_def kept_refl split: option.splits)
qed

section \<open>Opening and renewing\<close>

text \<open>Adding rows: new sessions are not revoked and have their user and device; a new token is
  the only usable one of a session that is not revoked.\<close>

lemma kept_append:
  assumes tokens: "ab_tokens db' = ab_tokens db @ ts" and sessions: "ab_sessions db' = ab_sessions db @ ss"
    and users: "ab_users db' = ab_users db @ us" and devices: "ab_devices db' = ab_devices db @ ds"
    and pks: "pk rt_id (ab_tokens db) \<Longrightarrow> pk rt_id (ab_tokens db @ ts)"
      "pk rt_hash (ab_tokens db) \<Longrightarrow> pk rt_hash (ab_tokens db @ ts)"
      "pk se_id (ab_sessions db) \<Longrightarrow> pk se_id (ab_sessions db @ ss)" "pk au_id (ab_users db) \<Longrightarrow> pk au_id (ab_users db @ us)"
      "pk au_email (ab_users db) \<Longrightarrow> pk au_email (ab_users db @ us)" "pk ad_id (ab_devices db) \<Longrightarrow> pk ad_id (ab_devices db @ ds)"
    and refs: "\<And>t. t \<in> set ts \<Longrightarrow> rt_session t \<in> se_id ` set (ab_sessions db @ ss)"
    and alone: "\<And>t t'. t \<in> set ts \<Longrightarrow> t' \<in> set (ab_tokens db @ ts) \<Longrightarrow> live_token t' \<Longrightarrow>
      rt_session t' = rt_session t \<Longrightarrow> t' = t"
    and opened: "\<And>t s. auth_ok db \<Longrightarrow> t \<in> set ts \<Longrightarrow> s \<in> set (ab_sessions db) \<Longrightarrow> se_id s = rt_session t \<Longrightarrow> se_revoked s = None"
    and new: "\<And>s. s \<in> set ss \<Longrightarrow> se_revoked s = None"
    and device: "\<And>s. s \<in> set ss \<Longrightarrow> \<exists>d \<in> set (ab_devices db @ ds). ad_id d = se_device s \<and> ad_user d = se_user s \<and> ad_revoked d = None"
    and user: "\<And>s. s \<in> set ss \<Longrightarrow> \<exists>u \<in> set (ab_users db @ us). au_id u = se_user s \<and> au_deleted u = None"
  shows "kept db db'"
  unfolding kept_def
proof (intro impI conjI)
  show "keeps_ended db db'" unfolding keeps_ended_def by (auto simp: tokens sessions)
  assume ok: "auth_ok db"
  note parts = ok [unfolded auth_ok_def]
  have keys: "pk rt_id (ab_tokens db')" "pk rt_hash (ab_tokens db')" "pk se_id (ab_sessions db')"
    "pk au_id (ab_users db')" "pk au_email (ab_users db')" "pk ad_id (ab_devices db')"
    using pks parts by (simp_all add: tokens sessions users devices)
  have "\<forall>t \<in> set (ab_tokens db). rt_session t \<in> se_id ` set (ab_sessions db)" using parts by blast
  with refs have refs': "\<forall>t \<in> set (ab_tokens db'). rt_session t \<in> se_id ` set (ab_sessions db')"
    by (auto simp: tokens sessions)
  have one: "\<forall>t \<in> set (ab_tokens db'). \<forall>t' \<in> set (ab_tokens db').
        live_token t \<and> live_token t' \<and> rt_session t = rt_session t' \<longrightarrow> rt_id t = rt_id t'"
  proof (intro ballI impI)
    fix t t' assume t: "t \<in> set (ab_tokens db')" "t' \<in> set (ab_tokens db')"
      "live_token t \<and> live_token t' \<and> rt_session t = rt_session t'"
    show "rt_id t = rt_id t'"
    proof (cases "t \<in> set ts \<or> t' \<in> set ts")
      case True
      with t alone [of t t'] alone [of t' t] show ?thesis unfolding tokens by metis
    next
      case False
      with t have "t \<in> set (ab_tokens db)" "t' \<in> set (ab_tokens db)" by (auto simp: tokens)
      with parts t(3) show ?thesis by blast
    qed
  qed
  have "\<forall>s \<in> set (ab_sessions db). se_revoked s \<noteq> None \<longrightarrow>
        (\<forall>t \<in> set (ab_tokens db). rt_session t = se_id s \<longrightarrow> \<not> live_token t)" using parts by blast
  with opened [OF ok] new have dead: "\<forall>s \<in> set (ab_sessions db'). se_revoked s \<noteq> None \<longrightarrow>
        (\<forall>t \<in> set (ab_tokens db'). rt_session t = se_id s \<longrightarrow> \<not> live_token t)"
    unfolding tokens sessions by (metis UnE set_append)
  have "\<forall>s \<in> set (ab_sessions db). \<exists>d \<in> set (ab_devices db).
        ad_id d = se_device s \<and> ad_user d = se_user s \<and> (ad_revoked d \<noteq> None \<longrightarrow> se_revoked s \<noteq> None)"
    using parts by blast
  with device have dev: "\<forall>s \<in> set (ab_sessions db'). \<exists>d \<in> set (ab_devices db').
        ad_id d = se_device s \<and> ad_user d = se_user s \<and> (ad_revoked d \<noteq> None \<longrightarrow> se_revoked s \<noteq> None)"
    unfolding devices sessions by (metis UnE UnI1 set_append)
  have "\<forall>s \<in> set (ab_sessions db). \<exists>u \<in> set (ab_users db).
        au_id u = se_user s \<and> (au_deleted u \<noteq> None \<longrightarrow> se_revoked s \<noteq> None)"
    using parts by blast
  with user have usr: "\<forall>s \<in> set (ab_sessions db'). \<exists>u \<in> set (ab_users db').
        au_id u = se_user s \<and> (au_deleted u \<noteq> None \<longrightarrow> se_revoked s \<noteq> None)"
    unfolding users sessions by (metis UnE UnI1 set_append)
  show "auth_ok db'"
    unfolding auth_ok_def by (intro conjI keys refs' one dead dev usr)
qed

lemma kept_ensure_user:
  assumes "ensure_user env email db = Inr (u, db')"
  shows "kept db db'" and "u \<in> set (ab_users db')" and "ab_codes db' = ab_codes db"
proof -
  have "kept db (db\<lparr>ab_tick := n, ab_users := ab_users db @ [\<lparr>au_id = i, au_email = email, au_deleted = None\<rparr>]\<rparr>)"
    if "lookup_row au_email (ab_users db) email = None" "lookup_row au_id (ab_users db) i = None" for n i
    using that by (intro kept_append [where ts = "[]" and ss = "[]" and us = "[\<lparr>au_id = i, au_email = email, au_deleted = None\<rparr>]" and ds = "[]"])
      (simp_all add: pk_append_one)
  then show "kept db db'"
    using assms by (auto simp: ensure_user_def fresh_uuid_def and_then_eq_Inr fail_if_eq_Inr kept_same Let_def
        split: option.splits)
  show "u \<in> set (ab_users db')" and "ab_codes db' = ab_codes db"
    using assms by (auto simp: ensure_user_def fresh_uuid_def and_then_eq_Inr Let_def split: option.splits
        dest: lookup_row_SomeD)
qed

lemma kept_register_device:
  assumes "register_device tx u d name platform db = Inr db'"
  shows "kept db db'" and "\<exists>r \<in> set (ab_devices db'). ad_id r = d \<and> ad_user r = u \<and> ad_revoked r = None"
    and "ab_users db' = ab_users db" and "ab_codes db' = ab_codes db"
proof -
  have new: "kept db (db\<lparr>ab_devices := ab_devices db @ [r]\<rparr>)" if "lookup_row ad_id (ab_devices db) (ad_id r) = None" for r
    using that by (intro kept_append [where ts = "[]" and ss = "[]" and us = "[]" and ds = "[r]"])
      (simp_all add: pk_append_one)
  have old: "kept db (db\<lparr>ab_devices := update_rows ad_id d f (ab_devices db)\<rparr>)"
    if "\<And>r. ad_id (f r) = ad_id r \<and> ad_user (f r) = ad_user r \<and> ad_revoked (f r) = None" for f
    by (rule kept_revise [where g = id and f = id and h = id and k = "\<lambda>r. if ad_id r = d then f r else r"])
      (use that in \<open>auto simp: update_rows_def split: if_splits\<close>)
  show "kept db db'"
    using assms by (auto simp: register_device_def and_then_eq_Inr intro!: new old split: option.splits)
  show "\<exists>r \<in> set (ab_devices db'). ad_id r = d \<and> ad_user r = u \<and> ad_revoked r = None"
  proof (cases "lookup_row ad_id (ab_devices db) d")
    case None
    with assms show ?thesis by (auto simp: register_device_def)
  next
    case (Some r)
    then have "r \<in> set (ab_devices db)" "ad_id r = d" by (auto dest: lookup_row_SomeD)
    with Some assms show ?thesis
      by (auto simp: register_device_def and_then_eq_Inr fail_if_eq_Inr set_update_rows
          intro!: bexI [of _ "r\<lparr>ad_name := name, ad_platform := platform, ad_revoked := None, ad_seen := Some tx\<rparr>"])
  qed
  show "ab_users db' = ab_users db" and "ab_codes db' = ab_codes db"
    using assms by (auto simp: register_device_def and_then_eq_Inr split: option.splits)
qed

lemma kept_insert_session:
  assumes "insert_session s db = Inr db'" and "se_revoked s = None"
    and "\<exists>d \<in> set (ab_devices db). ad_id d = se_device s \<and> ad_user d = se_user s \<and> ad_revoked d = None"
    and "\<exists>u \<in> set (ab_users db). au_id u = se_user s \<and> au_deleted u = None"
  shows "kept db db'" and "db' = db\<lparr>ab_sessions := ab_sessions db @ [s]\<rparr>"
    and "se_id s \<notin> se_id ` set (ab_sessions db)"
proof -
  show db': "db' = db\<lparr>ab_sessions := ab_sessions db @ [s]\<rparr>"
    and fresh: "se_id s \<notin> se_id ` set (ab_sessions db)"
    using assms(1) by (auto simp: insert_session_def and_then_eq_Inr fail_if_eq_Inr lookup_row_None)
  then show "kept db db'"
    using assms(2-4) by (intro kept_append [where ts = "[]" and ss = "[s]" and us = "[]" and ds = "[]"])
      (simp_all add: pk_append_one lookup_row_None)
qed

lemma kept_insert_refresh:
  assumes "insert_refresh i session h e db = Inr db'"
    and "\<exists>s \<in> set (ab_sessions db). se_id s = session \<and> se_revoked s = None"
    and "\<forall>t \<in> set (ab_tokens db). rt_session t = session \<longrightarrow> \<not> live_token t"
  shows "kept db db'"
proof -
  let ?t = "\<lparr>rt_id = i, rt_session = session, rt_hash = h, rt_expires = e, rt_rotated = None, rt_revoked = None,
      rt_replaced = None\<rparr>"
  have db': "db' = db\<lparr>ab_tokens := ab_tokens db @ [?t]\<rparr>" "lookup_row rt_id (ab_tokens db) i = None"
    "lookup_row rt_hash (ab_tokens db) h = None"
    using assms(1) by (auto simp: insert_refresh_def and_then_eq_Inr fail_if_eq_Inr)
  have opened: "se_revoked s = None" if "auth_ok db" "s \<in> set (ab_sessions db)" "se_id s = session" for s
    using assms(2) session_pk [OF that(1,2)] that(3) by metis
  show ?thesis
  proof (rule kept_append [where ts = "[?t]" and ss = "[]" and us = "[]" and ds = "[]"])
    show "rt_session t \<in> se_id ` set (ab_sessions db @ [])" if "t \<in> set [?t]" for t
      using that assms(2) by auto
    show "t' = t" if "t \<in> set [?t]" "t' \<in> set (ab_tokens db @ [?t])" "live_token t'" "rt_session t' = rt_session t" for t t'
      using that assms(3) by auto
  qed (use db' opened in \<open>simp_all add: pk_append_one\<close>)
qed

lemma kept_open_session:
  assumes "open_session env cfg ck email req name code db = Inr (answer, db')"
  shows "kept db db'" and "ab_codes db' = ab_codes (consume_code (ck_tx ck) (ac_id code) db)"
proof -
  from assms obtain u db1 db2 db3 db4 a where
    user: "ensure_user env email db = Inr (u, db1)" "au_deleted u = None"
    and device: "register_device (ck_tx ck) (au_id u) (vr_device req) name (vr_platform req) (ensure_state (au_id u) db1) = Inr db2"
    and session: "insert_session
       \<lparr>se_id = ae_uuid env (ab_tick db2), se_user = au_id u, se_device = vr_device req,
         se_hash = ae_token_hash env (ae_token env (ab_tick db2 + 1)),
         se_expires = ck_app ck + seconds (cf_refresh_ttl cfg), se_revoked = None, se_rotated = None\<rparr>
       (db2\<lparr>ab_tick := ab_tick db2 + 2\<rparr>) = Inr db3"
    and token: "insert_refresh (ae_uuid env (ab_tick db3)) (ae_uuid env (ab_tick db2))
       (ae_token_hash env (ae_token env (ab_tick db2 + 1))) (ck_app ck + seconds (cf_refresh_ttl cfg))
       (db3\<lparr>ab_tick := ab_tick db3 + 1\<rparr>) = Inr db4"
    and db': "db' = consume_code (ck_tx ck) (ac_id code) db4"
    by (auto simp: open_session_def and_then_eq_Inr fail_if_eq_Inr fresh_uuid_def generate_refresh_token_def Let_def
        split: prod.splits)
  let ?s = "\<lparr>se_id = ae_uuid env (ab_tick db2), se_user = au_id u, se_device = vr_device req,
         se_hash = ae_token_hash env (ae_token env (ab_tick db2 + 1)),
         se_expires = ck_app ck + seconds (cf_refresh_ttl cfg), se_revoked = None, se_rotated = None\<rparr>"
  note user_kept = kept_ensure_user [OF user(1)] and device_kept = kept_register_device [OF device]
  have state: "kept db1 (ensure_state (au_id u) db1)" "ab_users (ensure_state (au_id u) db1) = ab_users db1"
    "ab_codes (ensure_state (au_id u) db1) = ab_codes db1"
    by (simp_all add: ensure_state_def kept_same)
  have u: "\<exists>u' \<in> set (ab_users (db2\<lparr>ab_tick := ab_tick db2 + 2\<rparr>)). au_id u' = se_user ?s \<and> au_deleted u' = None"
    using user(2) user_kept(2) device_kept(3) state(2) by auto
  have d: "\<exists>d \<in> set (ab_devices (db2\<lparr>ab_tick := ab_tick db2 + 2\<rparr>)).
      ad_id d = se_device ?s \<and> ad_user d = se_user ?s \<and> ad_revoked d = None"
    using device_kept(2) by simp
  have "se_revoked ?s = None" by simp
  note session_kept = kept_insert_session [OF session this d u]
  have k2: "kept db (db2\<lparr>ab_tick := ab_tick db2 + 2\<rparr>)"
    by (rule kept_trans [OF kept_trans [OF kept_trans [OF user_kept(1) state(1)] device_kept(1)]]) (rule kept_same; simp)
  have codes: "ab_codes db3 = ab_codes db" "ab_codes db4 = ab_codes db3"
    using token session_kept(2) user_kept(3) device_kept(4) state(3)
    by (auto simp: insert_refresh_def and_then_eq_Inr)
  have kept4: "kept (db3\<lparr>ab_tick := ab_tick db3 + 1\<rparr>) db4" if ok: "auth_ok db"
  proof (rule kept_insert_refresh [OF token])
    show "\<exists>s \<in> set (ab_sessions (db3\<lparr>ab_tick := ab_tick db3 + 1\<rparr>)). se_id s = ae_uuid env (ab_tick db2) \<and> se_revoked s = None"
      by (simp add: session_kept(2))
    have "auth_ok (db2\<lparr>ab_tick := ab_tick db2 + 2\<rparr>)" using k2 ok by (simp add: kept_def)
    then have "\<forall>t \<in> set (ab_tokens db2). rt_session t \<in> se_id ` set (ab_sessions db2)" by (simp add: auth_ok_def)
    then show "\<forall>t \<in> set (ab_tokens (db3\<lparr>ab_tick := ab_tick db3 + 1\<rparr>)). rt_session t = ae_uuid env (ab_tick db2) \<longrightarrow> \<not> live_token t"
      using session_kept(3) by (simp add: session_kept(2)) metis
  qed
  have t3: "kept db3 (db3\<lparr>ab_tick := ab_tick db3 + 1\<rparr>)" by (rule kept_same) simp_all
  have t4: "kept db4 db'" by (rule kept_same) (simp_all add: db' consume_code_def)
  have "kept db db'" if ok: "auth_ok db"
    by (rule kept_trans [OF kept_trans [OF kept_trans [OF kept_trans [OF k2 session_kept(1)] t3] kept4 [OF ok]] t4])
  then show "kept db db'" by (simp add: kept_def)
  show "ab_codes db' = ab_codes (consume_code (ck_tx ck) (ac_id code) db)"
    by (simp add: db' consume_code_def codes)
qed

lemma kept_verify_code: "kept db (snd (verify_code env cfg ck h req db))"
proof -
  have "kept db (count_attempt i db)" for i by (rule kept_same) (simp_all add: count_attempt_def)
  then show ?thesis
    by (auto simp: verify_code_def Let_def kept_refl split: sum.splits option.splits dest: kept_open_session(1))
qed

lemma kept_request_code: "kept db (snd (request_code env cfg ck e db))"
  by (rule kept_same)
    (simp_all add: request_code_def check_limit_def record_request_def generate_auth_code_def fresh_uuid_def Let_def
      split: sum.splits option.splits auth_request_limit.splits)

text \<open>The rows a refresh works on.\<close>

lemma refresh_rows_Some:
  assumes "refresh_rows h db = Some (t, s, u, d)"
  shows "t \<in> set (ab_tokens db)" and "rt_hash t = h" and "s \<in> set (ab_sessions db)" and "se_id s = rt_session t"
  using assms by (auto simp: refresh_rows_def dest: lookup_row_SomeD split: option.splits)

lemma rotate_Inr:
  assumes "rotate env cfg ck web t s db = Inr (answer, db')" and "t \<in> set (ab_tokens db)"
  shows "\<exists>new mark f k. ab_tokens db' = map mark (ab_tokens db) @ [new] \<and> ab_sessions db' = map f (ab_sessions db) \<and>
    ab_devices db' = map k (ab_devices db) \<and> ab_users db' = ab_users db \<and> ab_codes db' = ab_codes db \<and>
    se_revoked s = None \<and> rt_session new = rt_session t \<and> live_token new \<and>
    rt_id new \<notin> rt_id ` set (ab_tokens db) \<and> rt_hash new \<notin> rt_hash ` set (ab_tokens db) \<and>
    (\<forall>r. rt_id (mark r) = rt_id r \<and> rt_hash (mark r) = rt_hash r \<and> rt_session (mark r) = rt_session r \<and>
      (live_token (mark r) \<longrightarrow> live_token r \<and> rt_id r \<noteq> rt_id t)) \<and>
    (\<forall>r. se_id (f r) = se_id r \<and> se_user (f r) = se_user r \<and> se_device (f r) = se_device r \<and>
      se_revoked (f r) = se_revoked r) \<and>
    (\<forall>r. ad_id (k r) = ad_id r \<and> ad_user (k r) = ad_user r \<and> ad_revoked (k r) = ad_revoked r)"
proof -
  let ?h = "ae_token_hash env (ae_token env (ab_tick db))" and ?i = "ae_uuid env (ab_tick db + 1)"
  let ?new = "\<lparr>rt_id = ?i, rt_session = rt_session t, rt_hash = ?h, rt_expires = ck_app ck + seconds (cf_refresh_ttl cfg),
      rt_rotated = None, rt_revoked = None, rt_replaced = None\<rparr>"
  let ?mark = "\<lambda>r. if rt_id r = rt_id t then (if rt_rotated r = None
      then r\<lparr>rt_rotated := Some (ck_tx ck), rt_replaced := Some ?i\<rparr> else r) else r"
  let ?f = "\<lambda>r. if se_id r = se_id s then r\<lparr>se_hash := ?h, se_expires := ck_app ck + seconds (cf_refresh_ttl cfg),
      se_rotated := Some (ck_tx ck)\<rparr> else r"
  let ?k = "\<lambda>r. if device_key_of r = (se_user s, se_device s) then r\<lparr>ad_seen := Some (ck_tx ck)\<rparr> else r"
  from assms(1) have fresh: "?i \<notin> rt_id ` set (ab_tokens db)" "?h \<notin> rt_hash ` set (ab_tokens db)"
    and open': "se_revoked s = None"
    and tokens: "ab_tokens db' = map ?mark (ab_tokens db @ [?new])"
    and rest: "ab_sessions db' = map ?f (ab_sessions db)" "ab_devices db' = map ?k (ab_devices db)"
      "ab_users db' = ab_users db" "ab_codes db' = ab_codes db"
    by (auto simp: rotate_def generate_refresh_token_def fresh_uuid_def insert_refresh_def Let_def and_then_eq_Inr
        fail_if_eq_Inr lookup_row_None update_rows_def)
  have "rt_id t \<noteq> ?i" using fresh(1) assms(2) by force
  then have "ab_tokens db' = map ?mark (ab_tokens db) @ [?new]" using tokens by auto
  with rest open' fresh show ?thesis
    by (intro exI [of _ ?new] exI [of _ ?mark] exI [of _ ?f] exI [of _ ?k]) (simp add: live_token_def)
qed

lemma kept_rotate:
  assumes "rotate env cfg ck web t s db = Inr (answer, db')"
    and t: "t \<in> set (ab_tokens db)" "live_token t" "s \<in> set (ab_sessions db)" "se_id s = rt_session t"
  shows "kept db db'"
proof -
  from rotate_Inr [OF assms(1) t(1)] obtain new mark f k where
    tokens: "ab_tokens db' = map mark (ab_tokens db) @ [new]" and sessions: "ab_sessions db' = map f (ab_sessions db)"
    and devices: "ab_devices db' = map k (ab_devices db)" and users: "ab_users db' = ab_users db"
    and s: "se_revoked s = None" and new: "rt_session new = rt_session t" "live_token new"
      "rt_id new \<notin> rt_id ` set (ab_tokens db)" "rt_hash new \<notin> rt_hash ` set (ab_tokens db)"
    and mark: "\<And>r. rt_id (mark r) = rt_id r" "\<And>r. rt_hash (mark r) = rt_hash r" "\<And>r. rt_session (mark r) = rt_session r"
      "\<And>r. live_token (mark r) \<Longrightarrow> live_token r \<and> rt_id r \<noteq> rt_id t"
    and f: "\<And>r. se_id (f r) = se_id r" "\<And>r. se_user (f r) = se_user r" "\<And>r. se_device (f r) = se_device r"
      "\<And>r. se_revoked (f r) = se_revoked r"
    and k: "\<And>r. ad_id (k r) = ad_id r" "\<And>r. ad_user (k r) = ad_user r" "\<And>r. ad_revoked (k r) = ad_revoked r"
    by (elim exE conjE) (metis (no_types, lifting))
  let ?db = "db\<lparr>ab_tokens := map mark (ab_tokens db), ab_sessions := map f (ab_sessions db),
      ab_devices := map k (ab_devices db)\<rparr>"
  have marked: "kept db ?db"
    by (rule kept_revise [where g = mark and f = f and h = id and k = k]) (use mark f k in simp_all)
  have "kept ?db db'" if ok: "auth_ok db"
  proof (rule kept_append [where ts = "[new]" and ss = "[]" and us = "[]" and ds = "[]"])
    show "rt_session r \<in> se_id ` set (ab_sessions ?db @ [])" if "r \<in> set [new]" for r
      using that t(3,4) new(1) f(1) by (force simp: image_image)
    show "r' = r" if r: "r \<in> set [new]" "r' \<in> set (ab_tokens ?db @ [new])" "live_token r'" "rt_session r' = rt_session r" for r r'
    proof (rule ccontr)
      assume "r' \<noteq> r"
      with r(1,2) obtain x where x: "x \<in> set (ab_tokens db)" "r' = mark x" by auto
      with r mark(3,4) new(1) have "live_token x" "rt_id x \<noteq> rt_id t" "rt_session x = rt_session t" by auto
      with x(1) t(1,2) ok show False unfolding auth_ok_def by blast
    qed
    show "se_revoked r = None" if "r \<in> set (ab_sessions ?db)" "x \<in> set [new]" "se_id r = rt_session x" for x r
    proof -
      from that f(1) obtain r0 where r0: "r0 \<in> set (ab_sessions db)" "r = f r0" "se_id r0 = se_id s"
        using new(1) t(4) by auto
      with session_pk [OF ok r0(1) t(3)] s f(4) show ?thesis by simp
    qed
  qed (use tokens sessions devices users new mark in \<open>simp_all add: pk_append_one lookup_row_None image_image\<close>)
  with marked show ?thesis by (auto simp: kept_def intro: keeps_ended_trans)
qed

lemma kept_refresh: "kept db (snd (refresh env cfg ck h body db))"
proof -
  have "kept db (snd (refresh_with env cfg ck web token db))" for web token
  proof (cases "refresh_rows (ae_token_hash env token) db")
    case None
    then show ?thesis by (simp add: refresh_with_def kept_refl)
  next
    case (Some x)
    then obtain t s u d where rows: "refresh_rows (ae_token_hash env token) db = Some (t, s, u, d)" by (cases x) auto
    note t = refresh_rows_Some [OF rows]
    show ?thesis
      using rows kept_rotate [OF _ t(1) _ t(3,4)]
      by (auto simp: refresh_with_def Let_def kept_end_session kept_refl live_token_def split: sum.splits)
  qed
  then show ?thesis
    by (auto simp: refresh_def Let_def kept_refl split: sum.splits option.splits)
qed

lemma kept_exec: "kept db (auth_exec env cfg ev db)"
  by (cases ev) (simp_all add: kept_request_code kept_verify_code kept_refresh kept_logout kept_delete_device kept_delete_account)

lemma kept_run: "kept db (auth_run env cfg evs db)"
  by (induction evs arbitrary: db) (simp_all add: kept_refl, blast intro: kept_trans kept_exec)

end
