(* ===== verification/ApiAuthProps.thy ===== *)
theory ApiAuthProps
  imports ApiAuthFacts
begin

text \<open>
  The properties of sign-in: the invariant of the tables, sessions that end for good, refresh
  tokens used twice, and the number of guesses a code allows.
\<close>

text \<open>C33. Sign-in tables stay sound through any sequence of requests: ids, hashes and addresses
  are unique, every token has its session and every session its device and user; a session has
  at most one usable refresh token, a revoked one has none, and the sessions of revoked devices
  and deleted users are revoked.\<close>

theorem auth_tables_sound:
  assumes "auth_ok db"
  shows "auth_ok (auth_run env cfg evs db)"
  using assms kept_run [of db env cfg evs] by (simp add: kept_def)

section \<open>Ended sessions\<close>

lemma auth_user_session:
  assumes "auth_user_from env now hdr db = Inr a"
  shows "\<exists>r \<in> set (ab_sessions db). se_id r = us_session a \<and> se_revoked r = None"
proof -
  from assms obtain c where "session_user now c db = Inr a"
    by (auto simp: auth_user_from_def and_then_eq_Inr split: prod.splits)
  then show ?thesis
    by (auto simp: session_user_def split: option.splits if_splits dest!: lookup_row_SomeD)
qed

lemma revoked_refuses:
  assumes ok: "auth_ok db" and s: "s \<in> set (ab_sessions db)" "se_revoked s \<noteq> None"
  shows "auth_user_from env now hdr db = Inr a \<Longrightarrow> us_session a \<noteq> se_id s"
    and "t \<in> set (ab_tokens db) \<Longrightarrow> rt_session t = se_id s \<Longrightarrow> rt_hash t = ae_token_hash env token \<Longrightarrow>
      \<exists>e. fst (refresh_with env cfg ck web token db) = Inl e"
proof -
  assume "auth_user_from env now hdr db = Inr a"
  then obtain r where r: "r \<in> set (ab_sessions db)" "se_id r = us_session a" "se_revoked r = None"
    using auth_user_session by blast
  show "us_session a \<noteq> se_id s"
  proof
    assume "us_session a = se_id s"
    with r session_pk [OF ok r(1) s(1)] s(2) show False by simp
  qed
next
  assume t: "t \<in> set (ab_tokens db)" "rt_session t = se_id s" "rt_hash t = ae_token_hash env token"
  have dead: "\<not> live_token t" using ok s t(1,2) unfolding auth_ok_def by blast
  show "\<exists>e. fst (refresh_with env cfg ck web token db) = Inl e"
  proof (cases "refresh_rows (ae_token_hash env token) db")
    case (Some x)
    then obtain t' s' u d where rows: "refresh_rows (ae_token_hash env token) db = Some (t', s', u, d)" by (cases x) auto
    have "pk rt_hash (ab_tokens db)" using ok by (simp add: auth_ok_def)
    then have "t' = t" using refresh_rows_Some(1,2) [OF rows] t(1,3) by (auto simp: pk_def distinct_map inj_on_def)
    with dead rows show ?thesis by (auto simp: refresh_with_def live_token_def Let_def)
  qed (simp add: refresh_with_def)
qed

lemma ended_after_run:
  assumes "auth_ok db" and "s \<in> set (ab_sessions db)" and "se_revoked s \<noteq> None"
  shows "\<exists>s' \<in> set (ab_sessions (auth_run env cfg evs db)). se_id s' = se_id s \<and> se_revoked s' \<noteq> None"
proof -
  have "keeps_ended db (auth_run env cfg evs db)" using kept_run assms(1) by (simp add: kept_def)
  with assms(2,3) show ?thesis unfolding keeps_ended_def by blast
qed

lemma revoke_session_revokes:
  assumes "s \<in> set (ab_sessions db)" and "se_id s = i"
  shows "\<exists>s' \<in> set (ab_sessions (revoke_session_refresh_tokens tx j (revoke_session tx i db))).
    se_id s' = i \<and> se_revoked s' \<noteq> None"
proof -
  let ?f = "\<lambda>r. if se_id r = i then r\<lparr>se_revoked := (case se_revoked r of None \<Rightarrow> Some tx | Some t \<Rightarrow> Some t)\<rparr> else r"
  have "?f s \<in> set (ab_sessions (revoke_session_refresh_tokens tx j (revoke_session tx i db)))"
    using assms(1) by (simp add: revoke_session_refresh_tokens_def revoke_session_def update_rows_def)
  moreover have "se_id (?f s) = i" "se_revoked (?f s) \<noteq> None" using assms(2) by (auto split: option.splits)
  ultimately show ?thesis by blast
qed

lemma logout_revokes:
  assumes "logout ck a db = (Inr c, db1)" and "s \<in> set (ab_sessions db)" and "se_id s = us_session a"
  shows "\<exists>s' \<in> set (ab_sessions db1). se_id s' = se_id s \<and> se_revoked s' \<noteq> None"
proof -
  have "db1 = revoke_session_refresh_tokens (ck_tx ck) (us_session a) (revoke_session (ck_tx ck) (us_session a) db)"
    using assms(1) by (auto simp: logout_def split: if_splits)
  with revoke_session_revokes [OF assms(2,3)] assms(3) show ?thesis by simp
qed

lemma revoke_sessions_revokes:
  assumes "s \<in> set (ab_sessions db)" and "p s"
  shows "\<exists>s' \<in> set (ab_sessions (revoke_sessions tx p db)). se_id s' = se_id s \<and> se_revoked s' \<noteq> None"
proof
  let ?s = "s\<lparr>se_revoked := coalesce (se_revoked s) tx\<rparr>"
  have "?s \<in> (\<lambda>s. if p s then s\<lparr>se_revoked := coalesce (se_revoked s) tx\<rparr> else s) ` set (ab_sessions db)"
    using assms by (intro image_eqI [of _ _ s]) simp_all
  then show "?s \<in> set (ab_sessions (revoke_sessions tx p db))" by (simp add: revoke_sessions_def)
  show "se_id ?s = se_id s \<and> se_revoked ?s \<noteq> None" by (simp add: coalesce_def split: option.splits)
qed

lemma delete_device_revokes:
  assumes "delete_device ck a (Some i) db = (Inr (), db1)" and "auth_ok db" and "s \<in> set (ab_sessions db)"
    and "se_user s = us_user a" and "se_device s = i"
  shows "\<exists>s' \<in> set (ab_sessions db1). se_id s' = se_id s \<and> se_revoked s' \<noteq> None"
proof -
  from assms(1) obtain d where d: "lookup_row device_key_of (ab_devices db) (us_user a, i) = Some d"
    by (auto simp: delete_device_def split: if_splits option.splits)
  show ?thesis
  proof (cases "ad_revoked d = None")
    case True
    let ?db = "db\<lparr>ab_devices := update_rows device_key_of (us_user a, i) (\<lambda>d. d\<lparr>ad_revoked := Some (ck_tx ck)\<rparr>) (ab_devices db)\<rparr>"
    from True assms(1) d have "db1 = revoke_sessions (ck_tx ck) (\<lambda>s. se_user s = us_user a \<and> se_device s = i) ?db"
      by (auto simp: delete_device_def split: if_splits)
    with assms(3-5) revoke_sessions_revokes [of s ?db] show ?thesis by simp
  next
    case False
    with assms(1) d have "db1 = db" by (auto simp: delete_device_def split: if_splits)
    moreover obtain d' where d': "d' \<in> set (ab_devices db)" "ad_id d' = i" "ad_revoked d' \<noteq> None \<longrightarrow> se_revoked s \<noteq> None"
      using assms(2,3,5) unfolding auth_ok_def by blast
    moreover have "d' = d"
    proof -
      have "pk ad_id (ab_devices db)" using assms(2) by (simp add: auth_ok_def)
      moreover have "d \<in> set (ab_devices db)" "ad_id d = i" using d by (auto dest!: lookup_row_SomeD simp: device_key_of_def)
      ultimately show ?thesis using d' by (auto simp: pk_def distinct_map inj_on_def)
    qed
    ultimately show ?thesis using False assms(3) by auto
  qed
qed

lemma delete_account_revokes:
  assumes "delete_account ck a db = (Inr c, db1)" and "auth_ok db" and "s \<in> set (ab_sessions db)"
    and "se_user s = us_user a"
  shows "\<exists>s' \<in> set (ab_sessions db1). se_id s' = se_id s \<and> se_revoked s' \<noteq> None"
proof -
  from assms(1) obtain u where u: "lookup_row au_id (ab_users db) (us_user a) = Some u"
    by (auto simp: delete_account_def split: if_splits option.splits)
  show ?thesis
  proof (cases "au_deleted u = None")
    case True
    let ?db = "db\<lparr>ab_users := update_rows au_id (us_user a) (\<lambda>u. u\<lparr>au_deleted := Some (ck_tx ck)\<rparr>) (ab_users db),
        ab_devices := map (\<lambda>d. if ad_user d = us_user a
          then d\<lparr>ad_revoked := coalesce (ad_revoked d) (ck_tx ck)\<rparr> else d) (ab_devices db)\<rparr>"
    from True assms(1) u have "db1 = revoke_sessions (ck_tx ck) (\<lambda>s. se_user s = us_user a) ?db"
      by (auto simp: delete_account_def split: if_splits)
    with assms(3,4) revoke_sessions_revokes [of s ?db] show ?thesis by simp
  next
    case False
    with assms(1) u have "db1 = db" by (auto simp: delete_account_def split: if_splits)
    moreover obtain u' where u': "u' \<in> set (ab_users db)" "au_id u' = us_user a" "au_deleted u' \<noteq> None \<longrightarrow> se_revoked s \<noteq> None"
      using assms(2-4) unfolding auth_ok_def by metis
    moreover have "u' = u"
    proof -
      have "pk au_id (ab_users db)" using assms(2) by (simp add: auth_ok_def)
      moreover have "u \<in> set (ab_users db)" "au_id u = us_user a" using u by (auto dest!: lookup_row_SomeD)
      ultimately show ?thesis using u' by (auto simp: pk_def distinct_map inj_on_def)
    qed
    ultimately show ?thesis using False assms(3) by auto
  qed
qed

text \<open>C34. Ending a session is final. After a logout, the removal of its device or the deletion of
  its account, and after any further requests (signing in again included), no request is
  authenticated for the session, and none of its refresh tokens is accepted.\<close>

theorem ended_sessions_stay_ended:
  assumes "auth_ok db" and "s \<in> set (ab_sessions db)"
    and "(\<exists>c. logout ck a db = (Inr c, db1) \<and> se_id s = us_session a) \<or>
      (delete_device ck a (Some i) db = (Inr (), db1) \<and> se_user s = us_user a \<and> se_device s = i) \<or>
      (\<exists>c. delete_account ck a db = (Inr c, db1) \<and> se_user s = us_user a)"
  shows "(\<forall>now hdr u. auth_user_from env now hdr (auth_run env cfg evs db1) = Inr u \<longrightarrow> us_session u \<noteq> se_id s) \<and>
    (\<forall>t \<in> set (ab_tokens (auth_run env cfg evs db1)). \<forall>ck' web token.
       rt_session t = se_id s \<and> rt_hash t = ae_token_hash env token \<longrightarrow>
       (\<exists>e. fst (refresh_with env cfg ck' web token (auth_run env cfg evs db1)) = Inl e))"
proof -
  have "kept db db1"
    using assms(3) kept_logout [of db ck a] kept_delete_device [of db ck a "Some i"] kept_delete_account [of db ck a] by auto
  with assms(1) have ok1: "auth_ok db1" by (simp add: kept_def)
  obtain s1 where s1: "s1 \<in> set (ab_sessions db1)" "se_id s1 = se_id s" "se_revoked s1 \<noteq> None"
    using assms(3)
  proof (elim disjE exE conjE)
    fix c assume "logout ck a db = (Inr c, db1)" "se_id s = us_session a"
    from logout_revokes [OF this(1) assms(2) this(2)] show ?thesis using that by blast
  next
    assume "delete_device ck a (Some i) db = (Inr (), db1)" "se_user s = us_user a" "se_device s = i"
    from delete_device_revokes [OF this(1) assms(1,2) this(2,3)] show ?thesis using that by blast
  next
    fix c assume "delete_account ck a db = (Inr c, db1)" "se_user s = us_user a"
    from delete_account_revokes [OF this(1) assms(1,2) this(2)] show ?thesis using that by blast
  qed
  from ended_after_run [OF ok1 s1(1,3)] s1(2) obtain s2 where
    s2: "s2 \<in> set (ab_sessions (auth_run env cfg evs db1))" "se_id s2 = se_id s" "se_revoked s2 \<noteq> None" by metis
  have ok2: "auth_ok (auth_run env cfg evs db1)" using kept_run [of db1 env cfg evs] ok1 by (simp add: kept_def)
  from revoked_refuses [OF ok2 s2(1,3)] s2(2) show ?thesis by metis
qed

section \<open>Tokens used twice\<close>

lemma refresh_rows_found:
  assumes ok: "auth_ok db" and t: "t \<in> set (ab_tokens db)"
  shows "\<exists>s u d. refresh_rows (rt_hash t) db = Some (t, s, u, d)"
proof -
  have "pk rt_hash (ab_tokens db)" using ok by (simp add: auth_ok_def)
  then have look: "lookup_row rt_hash (ab_tokens db) (rt_hash t) = Some t" using t by (rule lookup_row_pk)
  have "rt_session t \<in> se_id ` set (ab_sessions db)" using ok t by (simp add: auth_ok_def)
  then obtain s where s: "lookup_row se_id (ab_sessions db) (rt_session t) = Some s"
    by (cases "lookup_row se_id (ab_sessions db) (rt_session t)") (auto simp: lookup_row_None)
  then have "s \<in> set (ab_sessions db)" by (auto dest: lookup_row_SomeD)
  with ok obtain d u where "d \<in> set (ab_devices db)" "ad_id d = se_device s" "ad_user d = se_user s"
    "u \<in> set (ab_users db)" "au_id u = se_user s"
    unfolding auth_ok_def by blast
  then have "(se_user s, se_device s) \<in> device_key_of ` set (ab_devices db)" "se_user s \<in> au_id ` set (ab_users db)"
    by (force simp: device_key_of_def)+
  then have "lookup_row device_key_of (ab_devices db) (se_user s, se_device s) \<noteq> None"
    "lookup_row au_id (ab_users db) (se_user s) \<noteq> None"
    by (simp_all add: lookup_row_None)
  with look s show ?thesis by (auto simp: refresh_rows_def)
qed

lemma refresh_success:
  assumes "auth_ok db" and "refresh_with env cfg ck web token db = (Inr answer, db1)"
  shows "\<exists>t \<in> set (ab_tokens db1). rt_hash t = ae_token_hash env token \<and> \<not> live_token t"
proof -
  obtain t s u d where rows: "refresh_rows (ae_token_hash env token) db = Some (t, s, u, d)"
    and live: "live_token t" and run: "rotate env cfg ck web t s db = Inr (answer, db1)"
    using assms(2) by (auto simp: refresh_with_def Let_def live_token_def split: option.splits prod.splits if_splits sum.splits)
  note t = refresh_rows_Some [OF rows]
  from rotate_Inr [OF run t(1)] obtain new mark where
    "ab_tokens db1 = map mark (ab_tokens db) @ [new]"
    "\<forall>r. rt_hash (mark r) = rt_hash r \<and> (live_token (mark r) \<longrightarrow> rt_id r \<noteq> rt_id t)"
    by blast
  with t(1,2) show ?thesis by (intro bexI [of _ "mark t"]) auto
qed

text \<open>C35. A refresh token works once, and a second use is detected: after it was exchanged, and
  after any further requests, presenting it again is answered REFRESH_TOKEN_REUSED, revokes
  its session, and leaves the session no usable token, the one issued in the exchange
  included.\<close>

theorem reused_token_revokes_session:
  assumes "auth_ok db" and "refresh_with env cfg ck web token db = (Inr answer, db1)"
  shows "\<exists>db2 sid. refresh_with env cfg ck' web' token (auth_run env cfg evs db1) = (Inl err_reused, db2) \<and>
    (\<exists>t \<in> set (ab_tokens db2). rt_hash t = ae_token_hash env token \<and> rt_session t = sid) \<and>
    (\<exists>s \<in> set (ab_sessions db2). se_id s = sid \<and> se_revoked s \<noteq> None) \<and>
    (\<forall>t \<in> set (ab_tokens db2). rt_session t = sid \<longrightarrow> \<not> live_token t)"
proof -
  let ?db = "auth_run env cfg evs db1"
  have "kept db db1"
  proof -
    obtain t s u d where rows: "refresh_rows (ae_token_hash env token) db = Some (t, s, u, d)" "live_token t"
      and run: "rotate env cfg ck web t s db = Inr (answer, db1)"
      using assms(2) by (auto simp: refresh_with_def Let_def live_token_def split: option.splits prod.splits if_splits sum.splits)
    note t = refresh_rows_Some [OF rows(1)]
    show ?thesis by (rule kept_rotate [OF run t(1) rows(2) t(3,4)])
  qed
  with assms(1) have ok1: "auth_ok db1" by (simp add: kept_def)
  then have ok: "auth_ok ?db" and ends: "keeps_ended db1 ?db" using kept_run [of db1 env cfg evs] by (simp_all add: kept_def)
  obtain t1 where t1: "t1 \<in> set (ab_tokens db1)" "rt_hash t1 = ae_token_hash env token" "\<not> live_token t1"
    using refresh_success [OF assms] by blast
  with ends obtain t where t: "t \<in> set (ab_tokens ?db)" "rt_hash t = ae_token_hash env token" "\<not> live_token t"
    unfolding keeps_ended_def by metis
  from refresh_rows_found [OF ok t(1)] t(2) obtain s u d where
    rows: "refresh_rows (ae_token_hash env token) ?db = Some (t, s, u, d)" by auto
  note s = refresh_rows_Some(3,4) [OF rows]
  let ?db2 = "revoke_session_refresh_tokens (ck_tx ck') (rt_session t) (revoke_session (ck_tx ck') (rt_session t) ?db)"
  have "refresh_with env cfg ck' web' token ?db = (Inl err_reused, ?db2)"
    using rows t(3) by (auto simp: refresh_with_def live_token_def Let_def)
  moreover have "\<exists>t' \<in> set (ab_tokens ?db2). rt_hash t' = ae_token_hash env token \<and> rt_session t' = rt_session t"
  proof
    let ?g = "\<lambda>r. if rt_session r = rt_session t \<and> rt_revoked r = None then r\<lparr>rt_revoked := Some (ck_tx ck')\<rparr> else r"
    have "?g t \<in> ?g ` set (ab_tokens ?db)" using t(1) by (rule imageI)
    then show "?g t \<in> set (ab_tokens ?db2)" by (simp add: revoke_session_refresh_tokens_def revoke_session_def)
    show "rt_hash (?g t) = ae_token_hash env token \<and> rt_session (?g t) = rt_session t" using t(2) by simp
  qed
  moreover have "\<exists>s' \<in> set (ab_sessions ?db2). se_id s' = rt_session t \<and> se_revoked s' \<noteq> None"
    by (rule revoke_session_revokes [OF s])
  moreover have "\<forall>t' \<in> set (ab_tokens ?db2). rt_session t' = rt_session t \<longrightarrow> \<not> live_token t'"
    by (auto simp: revoke_session_refresh_tokens_def revoke_session_def live_token_def split: if_splits)
  ultimately show ?thesis by blast
qed

section \<open>Guesses\<close>

text \<open>
  A guess, said of the server's answers alone: a request in the form of a sign-in with the current
  code of its address, the code with id \<open>i\<close>, that is refused, where the same request with the text
  \<open>right\<close> would be answered with a session at that moment. So it is a wrong try that could have
  been the right one; a request the server refuses whatever it carries is none.
\<close>

fun wrong_guess :: "auth_env \<Rightarrow> auth_config \<Rightarrow> string \<Rightarrow> uuid \<Rightarrow> auth_event \<Rightarrow> auth_db \<Rightarrow> bool" where
  "wrong_guess env cfg right i (EvVerify ck h req) db =
     ((case normalize_email (vr_email req) of
         Inl _ \<Rightarrow> False
       | Inr email \<Rightarrow> (case current_code (ck_tx ck) email db of None \<Rightarrow> False | Some c \<Rightarrow> ac_id c = i)) \<and>
      valid_code_text (vr_code req) \<and>
      isl (fst (verify_code env cfg ck h req db)) \<and>
      \<not> isl (fst (verify_code env cfg ck h (req\<lparr>vr_code := right\<rparr>) db)))"
| "wrong_guess env cfg right i _ db = False"

fun wrong_guesses :: "auth_env \<Rightarrow> auth_config \<Rightarrow> string \<Rightarrow> uuid \<Rightarrow> auth_event list \<Rightarrow> auth_db \<Rightarrow> nat" where
  "wrong_guesses env cfg right i [] db = 0"
| "wrong_guesses env cfg right i (ev # evs) db =
     (if wrong_guess env cfg right i ev db then 1 else 0) +
     wrong_guesses env cfg right i evs (auth_exec env cfg ev db)"

text \<open>What is left of a code's budget.\<close>

definition budget :: "auth_config \<Rightarrow> auth_db \<Rightarrow> uuid \<Rightarrow> nat" where
  "budget cfg db i =
     (case lookup_row ac_id (ab_codes db) i of
        None \<Rightarrow> nat (cf_max_attempts cfg)
      | Some c \<Rightarrow> if ac_consumed c \<noteq> None then 0 else nat (cf_max_attempts cfg - ac_attempts c))"

lemma current_code_row:
  assumes "current_code tx email db = Some c"
  shows "c \<in> set (ab_codes db)"
proof -
  have "fold newer_code cs b = Some c \<Longrightarrow> c \<in> set cs \<or> b = Some c" for cs b
    by (induction cs arbitrary: b) (fastforce simp: newer_code_def split: option.splits if_splits)+
  from this [OF assms [unfolded current_code_def]] show ?thesis by auto
qed

lemma codes_frame:
  "ab_codes (snd (logout ck a db)) = ab_codes db" "ab_codes (snd (delete_device ck a d db)) = ab_codes db"
  "ab_codes (snd (delete_account ck a db)) = ab_codes db" "ab_codes (snd (refresh env cfg ck h b db)) = ab_codes db"
proof -
  have "ab_codes (snd (refresh_with env cfg ck web token db)) = ab_codes db" for web token
    by (auto simp: refresh_with_def Let_def rotate_def generate_refresh_token_def fresh_uuid_def insert_refresh_def
        revoke_session_refresh_tokens_def revoke_session_def and_then_eq_Inr split: option.splits prod.splits sum.splits)
  then show "ab_codes (snd (refresh env cfg ck h b db)) = ab_codes db"
    by (auto simp: refresh_def Let_def split: sum.splits option.splits)
qed (auto simp: logout_def delete_device_def delete_account_def revoke_session_refresh_tokens_def revoke_session_def
    revoke_sessions_def split: option.splits)

lemma request_codes:
  "\<exists>new. ab_codes (snd (request_code env cfg ck e db)) = ab_codes db @ new \<and>
     (\<forall>c \<in> set new. ac_attempts c = 0 \<and> ac_id c \<notin> ac_id ` set (ab_codes db)) \<and> length new \<le> 1"
  by (auto simp: request_code_def check_limit_def record_request_def generate_auth_code_def fresh_uuid_def Let_def
      lookup_row_None split: sum.splits option.splits)

definition codes_ok :: "auth_db \<Rightarrow> bool" where
  "codes_ok db \<longleftrightarrow> pk ac_id (ab_codes db) \<and> (\<forall>c \<in> set (ab_codes db). 0 \<le> ac_attempts c)"

lemma verify_cases:
  "snd (verify_code env cfg ck h req db) = db \<or>
   (\<exists>c. c \<in> set (ab_codes db) \<and> snd (verify_code env cfg ck h req db) = count_attempt (ac_id c) db) \<or>
   (\<exists>c email name answer. c \<in> set (ab_codes db) \<and>
      open_session env cfg ck email req name c db = Inr (answer, snd (verify_code env cfg ck h req db)))"
proof (cases "snd (verify_code env cfg ck h req db) = db")
  case False
  then obtain email c where c: "current_code (ck_tx ck) email db = Some c"
    and run: "verify_code env cfg ck h req db =
      (if ac_attempts c \<ge> cf_max_attempts cfg \<or> ac_consumed c \<noteq> None \<or> \<not> code_verify env (vr_code req) (ac_hash c)
       then (Inl err_invalid_code, count_attempt (ac_id c) db)
       else (case open_session env cfg ck email req (trim (vr_device_name req)) c db of
               Inl e \<Rightarrow> (Inl e, db) | Inr (answer, db') \<Rightarrow> (Inr answer, db')))"
    unfolding verify_code_def Let_def
    by (cases "if vr_web req then enforce_cookie_origin cfg h else Inr ()"; cases "normalize_email (vr_email req)")
      (auto split: option.splits if_splits)
  from current_code_row [OF c] run False show ?thesis
    by (auto split: if_splits sum.splits prod.splits)
qed simp

text \<open>The four things that can happen to the codes.\<close>

lemma exec_codes:
  "ab_codes (auth_exec env cfg ev db) = ab_codes db \<or>
   (\<exists>new. ab_codes (auth_exec env cfg ev db) = ab_codes db @ [new] \<and> ac_attempts new = 0 \<and>
      ac_id new \<notin> ac_id ` set (ab_codes db)) \<or>
   (\<exists>c. c \<in> set (ab_codes db) \<and> ab_codes (auth_exec env cfg ev db) = ab_codes (count_attempt (ac_id c) db)) \<or>
   (\<exists>tx c. c \<in> set (ab_codes db) \<and> ab_codes (auth_exec env cfg ev db) = ab_codes (consume_code tx (ac_id c) db))"
proof (cases ev)
  case (EvRequest ck e)
  obtain new where "ab_codes (snd (request_code env cfg ck e db)) = ab_codes db @ new"
     "\<forall>c \<in> set new. ac_attempts c = 0 \<and> ac_id c \<notin> ac_id ` set (ab_codes db)" "length new \<le> 1"
    using request_codes by blast
  then show ?thesis using EvRequest by (cases new) auto
next
  case (EvVerify ck h req)
  have "ab_codes (snd (verify_code env cfg ck h req db)) = ab_codes (consume_code (ck_tx ck) (ac_id c) db)"
    if "open_session env cfg ck email req name c db = Inr (answer, snd (verify_code env cfg ck h req db))"
    for c email name answer
    by (rule kept_open_session(2) [OF that])
  with verify_cases [of env cfg ck h req db] show ?thesis unfolding EvVerify auth_exec.simps by metis
qed (simp_all add: codes_frame)

lemma budget_count_attempt:
  assumes "codes_ok db" and "c \<in> set (ab_codes db)" and "cf_max_attempts cfg \<le> 10"
  shows "budget cfg (count_attempt (ac_id c) db) i \<le> budget cfg db i"
    and "ac_consumed c = None \<Longrightarrow> ac_attempts c < cf_max_attempts cfg \<Longrightarrow>
      budget cfg (count_attempt (ac_id c) db) (ac_id c) < budget cfg db (ac_id c)"
proof -
  have "lookup_row ac_id (ab_codes db) (ac_id c) = Some c"
    using assms(1,2) by (intro lookup_row_pk) (simp_all add: codes_ok_def)
  moreover have "0 \<le> ac_attempts c" using assms(1,2) by (simp add: codes_ok_def)
  ultimately show "budget cfg (count_attempt (ac_id c) db) i \<le> budget cfg db i"
    and "ac_consumed c = None \<Longrightarrow> ac_attempts c < cf_max_attempts cfg \<Longrightarrow>
      budget cfg (count_attempt (ac_id c) db) (ac_id c) < budget cfg db (ac_id c)"
    using assms(3)
    by (auto simp: budget_def count_attempt_def lookup_row_update min_def split: option.splits)
qed

lemma exec_budget:
  assumes "codes_ok db" and "cf_max_attempts cfg \<le> 10"
  shows "codes_ok (auth_exec env cfg ev db)" and "budget cfg (auth_exec env cfg ev db) i \<le> budget cfg db i"
proof -
  have attempt: "codes_ok (count_attempt (ac_id c) db)" for c :: auth_code_row
    using assms(1) by (auto simp: codes_ok_def count_attempt_def pk_update set_update_rows)
  have consume: "codes_ok (consume_code tx j db)" for tx j
    using assms(1) by (auto simp: codes_ok_def consume_code_def pk_update set_update_rows)
  have spent: "budget cfg (consume_code tx j db) i \<le> budget cfg db i" for tx j
    by (auto simp: budget_def consume_code_def lookup_row_update split: option.splits)
  have only: "codes_ok a = codes_ok b" "budget cfg a i = budget cfg b i" if "ab_codes a = ab_codes b" for a b
    using that by (simp_all add: codes_ok_def budget_def)
  have "codes_ok (auth_exec env cfg ev db) \<and> budget cfg (auth_exec env cfg ev db) i \<le> budget cfg db i"
    using exec_codes [of env cfg ev db]
  proof (elim disjE exE conjE)
    fix new assume new: "ab_codes (auth_exec env cfg ev db) = ab_codes db @ [new]" "ac_attempts new = 0"
      "ac_id new \<notin> ac_id ` set (ab_codes db)"
    then show ?thesis
      using assms(1) by (auto simp: codes_ok_def pk_append_one lookup_row_None budget_def lookup_row_append split: option.splits
          dest!: lookup_row_SomeD)
  next
    assume "ab_codes (auth_exec env cfg ev db) = ab_codes db"
    from only [OF this] assms(1) show ?thesis by simp
  next
    fix c assume c: "c \<in> set (ab_codes db)" "ab_codes (auth_exec env cfg ev db) = ab_codes (count_attempt (ac_id c) db)"
    from only [OF c(2)] attempt budget_count_attempt(1) [OF assms(1) c(1) assms(2)] show ?thesis by simp
  next
    fix tx c assume "ab_codes (auth_exec env cfg ev db) = ab_codes (consume_code tx (ac_id c) db)"
    from only [OF this] consume spent show ?thesis by simp
  qed
  then show "codes_ok (auth_exec env cfg ev db)" and "budget cfg (auth_exec env cfg ev db) i \<le> budget cfg db i"
    by simp_all
qed

text \<open>A sign-in that is answered with a session passed every check of the code.\<close>

lemma verify_code_answers:
  assumes "\<not> isl (fst (verify_code env cfg ck h req db))"
  obtains email c where "(if vr_web req then enforce_cookie_origin cfg h else Inr ()) = Inr ()"
    and "normalize_email (vr_email req) = Inr email" and "valid_device_name (trim (vr_device_name req))"
    and "current_code (ck_tx ck) email db = Some c" and "ck_app ck < ac_expires c"
    and "ac_attempts c < cf_max_attempts cfg" and "ac_consumed c = None"
    and "\<not> isl (open_session env cfg ck email req (trim (vr_device_name req)) c db)"
  using assms unfolding verify_code_def Let_def
  by (auto split: sum.splits option.splits if_splits)

lemma open_session_ignores_code [simp]:
  "open_session env cfg ck email (req\<lparr>vr_code := g\<rparr>) name c db = open_session env cfg ck email req name c db"
  by (simp add: open_session_def)

lemma wrong_guess_costs:
  assumes "wrong_guess env cfg right i ev db" and "codes_ok db" and "cf_max_attempts cfg \<le> 10"
  shows "budget cfg (auth_exec env cfg ev db) i < budget cfg db i"
proof (cases ev)
  case (EvVerify ck h req)
  with assms(1) have code: "valid_code_text (vr_code req)"
    and wrong: "isl (fst (verify_code env cfg ck h req db))"
    and right: "\<not> isl (fst (verify_code env cfg ck h (req\<lparr>vr_code := right\<rparr>) db))"
    by simp_all
  from right obtain email c where
    origin: "(if vr_web req then enforce_cookie_origin cfg h else Inr ()) = Inr ()"
    and valid: "normalize_email (vr_email req) = Inr email" "valid_device_name (trim (vr_device_name req))"
      "current_code (ck_tx ck) email db = Some c" "ck_app ck < ac_expires c"
    and c: "ac_attempts c < cf_max_attempts cfg" "ac_consumed c = None"
    and opens: "\<not> isl (open_session env cfg ck email req (trim (vr_device_name req)) c db)"
    by (rule verify_code_answers) simp
  have "\<not> ac_expires c \<le> ck_app ck" using valid(4) by simp
  then have "snd (verify_code env cfg ck h req db) = count_attempt (ac_id c) db"
    using wrong opens unfolding verify_code_def Let_def origin
    by (auto simp: valid code c split: sum.splits if_splits)
  moreover have "ac_id c = i" using assms(1) EvVerify valid by simp
  ultimately show ?thesis
    using budget_count_attempt(2) [OF assms(2) current_code_row [OF valid(3)] assms(3) c(2,1)] EvVerify by simp
qed (use assms(1) in simp_all)

text \<open>C36. A sign-in code cannot be guessed by trying: whatever requests arrive, in whatever order
  and from whatever devices, and whatever text the right code is, the server refuses at most the
  configured number (1 to 10) of wrong tries at a given code that the right text would have won.
  After them the code opens no session, not even with the right text.\<close>

theorem guesses_bounded:
  assumes "codes_ok db" and "1 \<le> cf_max_attempts cfg" and "cf_max_attempts cfg \<le> 10"
  shows "int (wrong_guesses env cfg right i evs db) \<le> cf_max_attempts cfg"
proof -
  have "wrong_guesses env cfg right i evs db \<le> budget cfg db i" using assms(1)
  proof (induction evs arbitrary: db)
    case (Cons ev evs)
    note step = exec_budget [OF Cons.prems assms(3), of env ev]
    from Cons.IH [OF step(1)] step(2) [of i] wrong_guess_costs [OF _ Cons.prems assms(3), of env right i ev]
    show ?case by (cases "wrong_guess env cfg right i ev db") auto
  qed simp
  moreover have "int (budget cfg db i) \<le> cf_max_attempts cfg"
    using assms(1,2) by (auto simp: budget_def codes_ok_def split: option.splits dest!: lookup_row_SomeD)
  ultimately show ?thesis by simp
qed

end
