(* ===== verification/ApiAuthExamples.thy ===== *)
theory ApiAuthExamples
  imports ApiAuthProps "HOL-Library.Code_Target_Nat"
begin

text \<open>
  The tables after a sign-in, and requests run on them in the kernel: the properties of
  \<open>ApiAuthProps\<close> are applied to them.
\<close>

definition demo_auth :: auth_env where
  "demo_auth =
     \<lparr>ae_code_hash = (\<lambda>c. c), ae_fingerprint = (\<lambda>e. e), ae_token_hash = (\<lambda>t. t),
      ae_token = (\<lambda>n. CHR ''k'' # replicate n (CHR ''1'')), ae_uuid = (\<lambda>n. of_nat n + 1), ae_bits = (\<lambda>_. 0),
      ae_sign = (\<lambda>_. Some ''jwt''), ae_decode = (\<lambda>_. None), ae_json = (\<lambda>_. None)\<rparr>"

definition demo_config :: auth_config where
  "demo_config =
     \<lparr>cf_development = True, cf_dev_code = Some ''246810'', cf_access_ttl = 900, cf_refresh_ttl = 86400,
      cf_code_ttl = 600, cf_resend = 60, cf_per_email_max = 5, cf_global_max = 300, cf_window = 900,
      cf_max_attempts = 2, cf_cookie_secure = False, cf_origins = []\<rparr>"

definition demo_clocks :: "int \<Rightarrow> clocks" where
  "demo_clocks s = \<lparr>ck_app = seconds s, ck_tx = seconds s, ck_wall = seconds s\<rparr>"

definition no_headers :: auth_headers where
  "no_headers = \<lparr>ah_cookies = [], ah_origin = None, ah_content_type = None\<rparr>"

definition demo_verify :: "string \<Rightarrow> verify_request" where
  "demo_verify code =
     \<lparr>vr_email = ''a@b.cd'', vr_code = code, vr_device = 7, vr_web = False, vr_platform = ''macos'',
      vr_device_name = ''Mac''\<rparr>"

definition auth0 :: auth_db where
  "auth0 =
     \<lparr>ab_codes = [], ab_users = [], ab_states = [], ab_devices = [], ab_sessions = [], ab_tokens = [],
      ab_windows = [], ab_tick = 0\<rparr>"

text \<open>One user, signed in on one device.\<close>

definition auth1 :: auth_db where
  "auth1 =
     \<lparr>ab_codes = [\<lparr>ac_id = 1, ac_email = ''a@b.cd'', ac_hash = ''246810'', ac_attempts = 0, ac_expires = seconds 1600,
                   ac_consumed = Some (seconds 1010), ac_created = seconds 1000\<rparr>],
      ab_users = [\<lparr>au_id = 2, au_email = ''a@b.cd'', au_deleted = None\<rparr>], ab_states = [2],
      ab_devices = [\<lparr>ad_id = 7, ad_user = 2, ad_name = ''Mac'', ad_platform = ''macos'', ad_seen = None,
                     ad_revoked = None, ad_created = seconds 1010\<rparr>],
      ab_sessions = [\<lparr>se_id = 3, se_user = 2, se_device = 7, se_hash = ''k'', se_expires = seconds 87410,
                      se_revoked = None, se_rotated = None\<rparr>],
      ab_tokens = [\<lparr>rt_id = 5, rt_session = 3, rt_hash = ''k'', rt_expires = seconds 87410, rt_rotated = None,
                    rt_revoked = None, rt_replaced = None\<rparr>],
      ab_windows = [], ab_tick = 9\<rparr>"

lemma auth0_ok: "auth_ok auth0" and auth0_codes: "codes_ok auth0"
  by (simp_all add: auth_ok_def codes_ok_def auth0_def pk_def)

lemma auth1_ok: "auth_ok auth1"
  by (simp add: auth_ok_def auth1_def pk_def)

theorem auth_tables_sound_witness:
  "auth_ok (auth_run demo_auth demo_config
     [EvRequest (demo_clocks 2000) ''A@b.cd'', EvVerify (demo_clocks 2010) no_headers (demo_verify ''000000''),
      EvDeleteDevice (demo_clocks 2020) \<lparr>us_user = 2, us_session = 3, us_device = 7, us_issued = 2000\<rparr> (Some 7)] auth1)"
  by (rule auth_tables_sound [OF auth1_ok])

definition demo_user :: auth_user where
  "demo_user =
     \<lparr>us_user = 2, us_session = 3, us_device = 7,
      us_issued = 1010\<rparr>"

theorem ended_sessions_stay_ended_witness:
  "\<exists>db1. logout (demo_clocks 1020) demo_user auth1 = (Inr clear_refresh_cookie, db1) \<and>
     (\<forall>now h u. auth_user_from demo_auth now h (auth_run demo_auth demo_config [EvRequest (demo_clocks 2000) ''a@b.cd''] db1) = Inr u \<longrightarrow>
        us_session u \<noteq> us_session demo_user)"
proof -
  have out: "fst (logout (demo_clocks 1020) demo_user auth1) = Inr clear_refresh_cookie"
    by code_simp
  obtain db1 where db1: "logout (demo_clocks 1020) demo_user auth1 = (Inr clear_refresh_cookie, db1)"
    using out by (cases "logout (demo_clocks 1020) demo_user auth1") simp
  have s: "hd (ab_sessions auth1) \<in> set (ab_sessions auth1)" "se_id (hd (ab_sessions auth1)) = us_session demo_user"
    by (simp_all add: demo_user_def auth1_def)
  from ended_sessions_stay_ended [OF auth1_ok s(1)] db1 s(2) show ?thesis by metis
qed

definition demo_token :: string where
  "demo_token = ''k''"

theorem reused_token_revokes_session_witness:
  "\<exists>answer db1 db2. refresh_with demo_auth demo_config (demo_clocks 1100) False demo_token auth1 = (Inr answer, db1) \<and>
     refresh_with demo_auth demo_config (demo_clocks 1200) False demo_token db1 = (Inl err_reused, db2)"
proof -
  have "\<not> isl (fst (refresh_with demo_auth demo_config (demo_clocks 1100) False demo_token auth1))" by code_simp
  then obtain answer db1 where run:
    "refresh_with demo_auth demo_config (demo_clocks 1100) False demo_token auth1 = (Inr answer, db1)"
    by (cases "refresh_with demo_auth demo_config (demo_clocks 1100) False demo_token auth1")
      (metis fst_conv isl_def sum.exhaust)
  from reused_token_revokes_session [OF auth1_ok run, of "demo_clocks 1200" False "[]"] run
  show ?thesis by (auto simp: auth_run_def)
qed

text \<open>Three wrong tries at a code that allows two: the third is refused whatever it carries.\<close>

theorem guesses_bounded_witness:
  "\<exists>evs. wrong_guesses demo_auth demo_config ''246810'' 1 evs auth0 = 2 \<and>
     int (wrong_guesses demo_auth demo_config ''246810'' 1 evs auth0) \<le> cf_max_attempts demo_config"
proof -
  let ?wrong = "\<lambda>s. EvVerify (demo_clocks s) no_headers (demo_verify ''000000'')"
  have two: "wrong_guesses demo_auth demo_config ''246810'' 1
      [EvRequest (demo_clocks 1000) ''a@b.cd'', ?wrong 1001, ?wrong 1002, ?wrong 1003] auth0 = 2"
    by code_simp
  have "1 \<le> cf_max_attempts demo_config" "cf_max_attempts demo_config \<le> 10" by (simp_all add: demo_config_def)
  from guesses_bounded [OF auth0_codes this] two show ?thesis by blast
qed

end
