(* ===== verification/ApiBootstrap.thy ===== *)
theory ApiBootstrap
  imports ApiSync ApiAuth "HOL-Library.Product_Lexorder"
begin

text \<open>
  A client's first synchronisation: \<open>GET /api/v1/sync/bootstrap\<close> of
  \<open>apps/api/src/bootstrap.rs\<close> pages through an account's rows in key order, and the
  position travels in a signed token, \<open>auth/continuation.rs\<close>. Base64, the keyed MAC, the JSON
  of the token's payload and PostgreSQL's JSON texts of instants and dates are parameters.
\<close>

section \<open>The order of instants\<close>

instantiation date :: linorder
begin

definition less_eq_date :: "date \<Rightarrow> date \<Rightarrow> bool" where
  "less_eq_date a b \<longleftrightarrow>
     (date_year a, date_month a, date_day a) \<le> (date_year b, date_month b, date_day b)"

definition less_date :: "date \<Rightarrow> date \<Rightarrow> bool" where
  "less_date a b \<longleftrightarrow>
     (date_year a, date_month a, date_day a) < (date_year b, date_month b, date_day b)"

instance
  by standard (auto simp: less_eq_date_def less_date_def intro: date.expand)

end

instantiation instant :: linorder
begin

definition less_eq_instant :: "instant \<Rightarrow> instant \<Rightarrow> bool" where
  "less_eq_instant a b \<longleftrightarrow> (date_naive a, instant_nanos a) \<le> (date_naive b, instant_nanos b)"

definition less_instant :: "instant \<Rightarrow> instant \<Rightarrow> bool" where
  "less_instant a b \<longleftrightarrow> (date_naive a, instant_nanos a) < (date_naive b, instant_nanos b)"

instance
  by standard (auto simp: less_eq_instant_def less_instant_def intro: instant.expand)

end

section \<open>Continuation tokens\<close>

datatype continuation_error = Invalid | Expired

record wire_payload =
  wp_v :: nat
  wp_uid :: uuid
  wp_snapshot_cursor :: int
  wp_snapshot_at :: instant
  wp_last_entity :: "entity_type option"
  wp_last_id :: "uuid option"
  wp_exp :: int

record boot_continuation =
  bc_user :: uuid
  bc_snapshot_cursor :: int
  bc_snapshot_at :: instant
  bc_last_entity :: "entity_type option"
  bc_last_id :: "uuid option"
  bc_expires :: int

record boot_env =
  bo_encode :: "string \<Rightarrow> string"
  bo_decode :: "string \<Rightarrow> string option"
  bo_mac :: "string \<Rightarrow> string"
  bo_write :: "wire_payload \<Rightarrow> string"
  bo_read :: "string \<Rightarrow> wire_payload option"
  bo_uuid :: "uuid \<Rightarrow> string"
  bo_instant :: "instant \<Rightarrow> string"
  bo_date :: "date \<Rightarrow> string"

definition TOKEN_VERSION :: nat where "TOKEN_VERSION = 1"

definition MAX_TOKEN_LEN :: nat where "MAX_TOKEN_LEN = 16 * 1024"

text \<open>In seconds.\<close>

definition DEFAULT_TTL :: int where "DEFAULT_TTL = 15 * 60"

definition issue_with_expiry ::
  "boot_env \<Rightarrow> uuid \<Rightarrow> int \<Rightarrow> instant \<Rightarrow> entity_type option \<Rightarrow> uuid option \<Rightarrow> int \<Rightarrow> string" where
  "issue_with_expiry env u snapshot_cursor snapshot_at last_entity last_id expires_at =
     (let payload = \<lparr>wp_v = TOKEN_VERSION, wp_uid = u, wp_snapshot_cursor = snapshot_cursor,
            wp_snapshot_at = snapshot_at, wp_last_entity = last_entity, wp_last_id = last_id,
            wp_exp = timestamp expires_at\<rparr>;
          encoded = bo_encode env (bo_write env payload);
          signature = bo_mac env encoded
      in encoded @ ''.'' @ bo_encode env signature)"

definition continuation_issue ::
  "boot_env \<Rightarrow> int \<Rightarrow> uuid \<Rightarrow> int \<Rightarrow> instant \<Rightarrow> entity_type option \<Rightarrow> uuid option \<Rightarrow> string" where
  "continuation_issue env now u snapshot_cursor snapshot_at last_entity last_id =
     issue_with_expiry env u snapshot_cursor snapshot_at last_entity last_id
       (now + seconds DEFAULT_TTL)"

definition continuation_verify ::
  "boot_env \<Rightarrow> int \<Rightarrow> string \<Rightarrow> uuid \<Rightarrow> continuation_error + boot_continuation" where
  "continuation_verify env now token expected_user =
     and_then (fail_if (length token > MAX_TOKEN_LEN) Invalid) (\<lambda>_.
     and_then (ok_or (split_once (CHR ''.'') token) Invalid) (\<lambda>(encoded, signature).
     and_then (fail_if (encoded = [] \<or> signature = [] \<or> CHR ''.'' \<in> set signature) Invalid) (\<lambda>_.
     and_then (ok_or (bo_decode env signature) Invalid) (\<lambda>signature.
     and_then (fail_if (signature \<noteq> bo_mac env encoded) Invalid) (\<lambda>_.
     and_then (ok_or (bo_decode env encoded) Invalid) (\<lambda>bytes.
     and_then (ok_or (bo_read env bytes) Invalid) (\<lambda>payload.
     and_then (fail_if (wp_v payload \<noteq> TOKEN_VERSION \<or> wp_uid payload \<noteq> expected_user \<or>
         wp_snapshot_cursor payload < 0 \<or>
         (wp_last_entity payload \<noteq> None) \<noteq> (wp_last_id payload \<noteq> None)) Invalid) (\<lambda>_.
     and_then (fail_if (wp_exp payload \<le> timestamp now) Expired) (\<lambda>_.
     Inr \<lparr>bc_user = wp_uid payload, bc_snapshot_cursor = wp_snapshot_cursor payload,
          bc_snapshot_at = wp_snapshot_at payload, bc_last_entity = wp_last_entity payload,
          bc_last_id = wp_last_id payload, bc_expires = wp_exp payload\<rparr>)))))))))"

definition map_continuation_error :: "continuation_error \<Rightarrow> app_error" where
  "map_continuation_error e =
     (case e of
        Expired \<Rightarrow> BadRequest ''CONTINUATION_EXPIRED''
          ''The bootstrap continuation expired; restart bootstrap''
      | Invalid \<Rightarrow> BadRequest ''INVALID_CONTINUATION'' ''The bootstrap continuation is invalid'')"

text \<open>\<open>u32::from_str\<close>: an optional plus sign and decimal digits, in range.\<close>

definition parse_u32 :: "string \<Rightarrow> nat option" where
  "parse_u32 s =
     (case parse_digits (case s of c # cs \<Rightarrow> if c = CHR ''+'' then cs else s | [] \<Rightarrow> []) of
        None \<Rightarrow> None
      | Some n \<Rightarrow> if n < 2 ^ 32 then Some n else None)"

definition parse_continuation_limit :: "string option \<Rightarrow> continuation_error + nat" where
  "parse_continuation_limit value =
     (case value of
        None \<Rightarrow> Inr 500
      | Some s \<Rightarrow>
          and_then (ok_or (parse_u32 s) Invalid) (\<lambda>raw.
          and_then (fail_if (\<not> (1 \<le> raw \<and> raw \<le> 500)) Invalid) (\<lambda>_.
          Inr raw)))"

section \<open>The rows of a page\<close>

text \<open>
  The tables with the one column the other handlers never read: \<open>created_at\<close>, set by the
  column's default when a row is inserted.
\<close>

record boot_db =
  bd_api :: api_db
  bd_created :: "entity_type \<Rightarrow> uuid \<Rightarrow> instant"

definition row_json :: "boot_env \<Rightarrow> boot_db \<Rightarrow> entity_type \<Rightarrow> 'v row \<Rightarrow> (string \<times> json) list \<Rightarrow> json" where
  "row_json env db e r columns =
     jobj ((''id'', JStr (bo_uuid env (r_id r))) # columns @
       [(''server_rev'', JNum (JInt (r_rev r))),
        (''created_at'', JStr (bo_instant env (bd_created db e (r_id r)))),
        (''updated_at'', JStr (bo_instant env (r_updated r))),
        (''deleted_at'', opt_json (JStr \<circ> bo_instant env) (r_deleted r))])"

definition list_columns :: "list_values \<Rightarrow> (string \<times> json) list" where
  "list_columns v =
     [(''name'', JStr (lv_name v)), (''color'', opt_json JStr (lv_color v)),
      (''icon'', opt_json JStr (lv_icon v)), (''rank'', JStr (lv_rank v))]"

definition task_columns :: "boot_env \<Rightarrow> task_cols \<Rightarrow> (string \<times> json) list" where
  "task_columns env v =
     [(''list_id'', opt_json (JStr \<circ> bo_uuid env) (tc_list_id v)), (''title'', JStr (tc_title v)),
      (''note'', JStr (tc_note v)), (''status'', JStr (tc_status v)),
      (''important'', JBool (tc_important v)), (''tags'', JArr (map JStr (tc_tags v))),
      (''due_on'', opt_json (JStr \<circ> bo_date env) (tc_due_on v)),
      (''remind_at'', opt_json (JStr \<circ> bo_instant env) (tc_remind_at v)),
      (''remind_timezone'', opt_json JStr (tc_remind_timezone v)), (''rank'', JStr (tc_rank v)),
      (''series_id'', opt_json (JStr \<circ> bo_uuid env) (tc_series_id v)),
      (''occurrence_key'', opt_json JStr (tc_occurrence_key v)),
      (''recurrence'', opt_json id (tc_recurrence v)),
      (''completed_at'', opt_json (JStr \<circ> bo_instant env) (tc_completed_at v))]"

definition step_columns :: "boot_env \<Rightarrow> step_values \<Rightarrow> (string \<times> json) list" where
  "step_columns env v =
     [(''task_id'', JStr (bo_uuid env (sv_task_id v))), (''title'', JStr (sv_title v)),
      (''is_completed'', JBool (sv_is_completed v)), (''rank'', JStr (sv_rank v))]"

definition day_plan_columns :: "boot_env \<Rightarrow> day_plan_values \<Rightarrow> (string \<times> json) list" where
  "day_plan_columns env v =
     [(''task_id'', JStr (bo_uuid env (dv_task_id v))),
      (''local_date'', JStr (bo_date env (dv_local_date v))), (''rank'', JStr (dv_rank v))]"

type_synonym page_key = "string \<times> uuid"

text \<open>One arm of the \<open>UNION ALL\<close>.\<close>

definition boot_arm ::
  "boot_env \<Rightarrow> boot_db \<Rightarrow> uuid \<Rightarrow> instant \<Rightarrow> entity_type \<Rightarrow> ('v \<Rightarrow> (string \<times> json) list) \<Rightarrow>
   'v row list \<Rightarrow> (page_key \<times> json) list" where
  "boot_arm env db u snapshot_at e columns t =
     map (\<lambda>r. ((entity_as_str e, r_id r), row_json env db e r (columns (r_val r))))
       (filter (\<lambda>r. r_user r = u \<and> bd_created db e (r_id r) \<le> snapshot_at) t)"

definition boot_rows :: "boot_env \<Rightarrow> boot_db \<Rightarrow> uuid \<Rightarrow> instant \<Rightarrow> (page_key \<times> json) list" where
  "boot_rows env db u snapshot_at =
     boot_arm env db u snapshot_at EList list_columns (db_lists (bd_api db)) @
     boot_arm env db u snapshot_at ETask (task_columns env) (db_tasks (bd_api db)) @
     boot_arm env db u snapshot_at EStep (step_columns env) (db_steps (bd_api db)) @
     boot_arm env db u snapshot_at EDayPlan (day_plan_columns env) (db_plans (bd_api db))"

text \<open>\<open>$3 IS NULL OR (entity_type, entity_id) > ($3, $4)\<close>; a row comparison with a null id is
  decided by the first column alone.\<close>

definition after_position :: "string option \<Rightarrow> uuid option \<Rightarrow> page_key \<Rightarrow> bool" where
  "after_position last_entity last_id k =
     (case last_entity of
        None \<Rightarrow> True
      | Some e \<Rightarrow> (case last_id of None \<Rightarrow> e < fst k | Some i \<Rightarrow> (e, i) < k))"

definition page_rows ::
  "boot_env \<Rightarrow> boot_db \<Rightarrow> uuid \<Rightarrow> instant \<Rightarrow> string option \<Rightarrow> uuid option \<Rightarrow> nat \<Rightarrow> (page_key \<times> json) list" where
  "page_rows env db u snapshot_at last_entity last_id limit =
     take (limit + 1) (sort_key fst
       (filter (\<lambda>r. after_position last_entity last_id (fst r)) (boot_rows env db u snapshot_at)))"

section \<open>The handler\<close>

record boot_entity =
  bn_entity :: entity_type
  bn_id :: uuid
  bn_data :: json

record boot_page =
  bp_entities :: "boot_entity list"
  bp_snapshot_cursor :: string
  bp_next_page :: "string option"
  bp_has_more :: bool

fun boot_entities :: "(page_key \<times> json) list \<Rightarrow> app_error + boot_entity list" where
  "boot_entities [] = Inr []"
| "boot_entities (((entity_type, entity_id), data) # rows) =
     and_then (ok_or (entity_parse entity_type)
       (Internal (''unknown entity type '' @ quoted entity_type @ '' in bootstrap''))) (\<lambda>entity.
     and_then (boot_entities rows) (\<lambda>entities.
     Inr (\<lparr>bn_entity = entity, bn_id = entity_id, bn_data = data\<rparr> # entities)))"

text \<open>\<open>Utc::now()\<close> when the token is checked and when one is issued, in microseconds, and the
  database's \<open>clock_timestamp()\<close>.\<close>

record boot_clock =
  bt_verify :: int
  bt_snapshot :: instant
  bt_issue :: int

text \<open>Where the page starts: the token's position, or a new snapshot.\<close>

definition boot_start ::
  "boot_env \<Rightarrow> boot_clock \<Rightarrow> uuid \<Rightarrow> string option \<Rightarrow> boot_db \<Rightarrow>
   app_error + (int \<times> instant \<times> entity_type option \<times> uuid option) \<times> boot_db" where
  "boot_start env ck u continuation db =
     (case continuation of
        Some token \<Rightarrow>
          and_then (map_err map_continuation_error (continuation_verify env (bt_verify ck) token u)) (\<lambda>c.
          Inr ((bc_snapshot_cursor c, bc_snapshot_at c, bc_last_entity c, bc_last_id c), db))
      | None \<Rightarrow>
          let api = ensure_sync_state u (bd_api db) in
          and_then (ok_or (lookup_row ss_user (db_states api) u) (internal_db_error OtherSqlx)) (\<lambda>s.
          Inr ((ss_next s - 1, bt_snapshot ck, None, None), db\<lparr>bd_api := api\<rparr>)))"

definition boot_page_of ::
  "boot_env \<Rightarrow> boot_clock \<Rightarrow> uuid \<Rightarrow> nat \<Rightarrow> (int \<times> instant \<times> entity_type option \<times> uuid option) \<Rightarrow> boot_db \<Rightarrow>
   app_error + boot_page" where
  "boot_page_of env ck u limit start db =
     (case start of (snapshot_cursor, snapshot_at, last_entity, last_id) \<Rightarrow>
       let rows = page_rows env db u snapshot_at (map_option entity_as_str last_entity) last_id limit;
           has_more = length rows > limit in
       and_then (boot_entities (take limit rows)) (\<lambda>entities.
       and_then (if \<not> has_more then Inr None
         else if entities = [] then Inl (Internal ''missing snapshot page position'')
         else Inr (Some (continuation_issue env (bt_issue ck) u snapshot_cursor snapshot_at
                (Some (bn_entity (last entities))) (Some (bn_id (last entities)))))) (\<lambda>next_page.
       Inr \<lparr>bp_entities = entities, bp_snapshot_cursor = show_int snapshot_cursor,
            bp_next_page = next_page, bp_has_more = has_more\<rparr>)))"

definition bootstrap ::
  "boot_env \<Rightarrow> boot_clock \<Rightarrow> uuid \<Rightarrow> string option \<Rightarrow> nat option \<Rightarrow> boot_db \<Rightarrow>
   app_error + boot_page \<times> boot_db" where
  "bootstrap env ck u continuation limit db =
     and_then (map_err (\<lambda>_. err_validation ''limit must be between 1 and 500'')
       (parse_page_limit limit 500 500)) (\<lambda>limit.
     and_then (boot_start env ck u continuation db) (\<lambda>(start, db).
     and_then (boot_page_of env ck u limit start db) (\<lambda>page.
     Inr (page, db))))"

end
