(* ===== verification/ApiBootFacts.thy ===== *)
theory ApiBootFacts
  imports ApiBootstrap ApiSyncFacts "HOL-Library.Multiset"
begin

text \<open>
  Reading a table page by page in key order: the contract of one page (\<open>keyset\<close>), what a
  chain of pages then lists even when the table changes in between, and the bootstrap pages
  as a provider of it.
\<close>

section \<open>Keyset pages\<close>

definition beyond :: "'k::linorder option \<Rightarrow> 'k \<Rightarrow> bool" where
  "beyond p k = (case p of None \<Rightarrow> True | Some l \<Rightarrow> l < k)"

lemma beyond_simps [simp]: "beyond None k" "beyond (Some l) k \<longleftrightarrow> l < k"
  by (simp_all add: beyond_def)

lemma beyond_trans: "beyond p l \<Longrightarrow> l < k \<Longrightarrow> beyond p k"
  by (auto simp: beyond_def split: option.splits)

lemma sorted_le_last: "sorted_wrt (<) (xs :: 'k::linorder list) \<Longrightarrow> x \<in> set xs \<Longrightarrow> x \<le> last xs"
  by (induction xs) (auto intro: less_imp_le last_in_set)

lemma take_beyond_last:
  fixes xs :: "'k::linorder list"
  assumes "sorted_wrt (<) xs" and "k \<in> set xs" and "k \<notin> set (take n xs)" and "x \<in> set (take n xs)"
  shows "x < k"
proof -
  from assms(2,3) have "k \<in> set (drop n xs)"
    using set_append [of "take n xs" "drop n xs"] by (simp only: append_take_drop_id) blast
  with assms(1,4) show ?thesis using sorted_wrt_append [of "(<)" "take n xs" "drop n xs"]
    by (simp only: append_take_drop_id) blast
qed

locale keyset =
  fixes ok :: "'db \<Rightarrow> bool"
    and keys :: "'db \<Rightarrow> 'k::linorder list"
    and fetch :: "'db \<Rightarrow> 'k option \<Rightarrow> nat \<Rightarrow> 'k list \<times> bool"
  assumes keys_sorted: "ok db \<Longrightarrow> sorted_wrt (<) (keys db)"
    and fetch_exact: "ok db \<Longrightarrow> fetch db p n =
      (take n (filter (beyond p) (keys db)), n < length (filter (beyond p) (keys db)))"
begin

fun walk :: "'k option \<Rightarrow> ('db \<times> nat) list \<Rightarrow> 'k list list" where
  "walk p [] = []"
| "walk p ((db, n) # rs) =
     (case fetch db p n of (ks, again) \<Rightarrow> ks # (if again then walk (Some (last ks)) rs else []))"

text \<open>Whether the last page read was the end.\<close>

fun ended :: "'k option \<Rightarrow> ('db \<times> nat) list \<Rightarrow> bool" where
  "ended p [] = False"
| "ended p ((db, n) # rs) =
     (case fetch db p n of (ks, again) \<Rightarrow> if again then ended (Some (last ks)) rs else True)"

lemma filter_sorted: "ok db \<Longrightarrow> sorted_wrt (<) (filter (beyond p) (keys db))"
  by (rule sorted_wrt_filter) (rule keys_sorted)

lemma fetch_sorted: "ok db \<Longrightarrow> fetch db p n = (ks, again) \<Longrightarrow> sorted_wrt (<) ks"
  using filter_sorted by (auto simp: fetch_exact intro: sorted_wrt_take)

lemma fetch_sound:
  "ok db \<Longrightarrow> fetch db p n = (ks, again) \<Longrightarrow> k \<in> set ks \<Longrightarrow> k \<in> set (keys db) \<and> beyond p k"
  by (auto simp: fetch_exact dest: in_set_takeD)

lemma fetch_last: "ok db \<Longrightarrow> fetch db p n = (ks, True) \<Longrightarrow> 0 < n \<Longrightarrow> last ks \<in> set ks"
  by (rule last_in_set) (auto simp: fetch_exact)

lemma fetch_complete:
  assumes "ok db" and "fetch db p n = (ks, again)" and "k \<in> set (keys db)" and "beyond p k" and "k \<notin> set ks"
  shows "again" and "ks \<noteq> [] \<Longrightarrow> last ks < k"
proof -
  let ?xs = "filter (beyond p) (keys db)"
  from assms(2-) have k: "k \<in> set ?xs" "k \<notin> set (take n ?xs)" and eq: "ks = take n ?xs" "again = (n < length ?xs)"
    by (auto simp: fetch_exact [OF assms(1)])
  show "again"
  proof (rule ccontr)
    assume "\<not> again"
    with eq have "take n ?xs = ?xs" by simp
    with k show False by simp
  qed
  assume "ks \<noteq> []"
  then show "last ks < k" using take_beyond_last [OF filter_sorted [OF assms(1)] k] eq(1) by (metis last_in_set)
qed

lemma walk_beyond:
  assumes "\<forall>(db, n) \<in> set rs. 0 < n \<and> ok db" and "k \<in> set (concat (walk p rs))"
  shows "beyond p k \<and> k \<in> (\<Union>(db, n) \<in> set rs. set (keys db))"
  using assms
proof (induction p rs rule: walk.induct)
  case (2 p db n rs)
  obtain ks again where f: "fetch db p n = (ks, again)" by fastforce
  from 2(2) have ok: "ok db" by simp
  show ?case
  proof (cases "k \<in> set ks")
    case True
    with fetch_sound [OF ok f] show ?thesis by auto
  next
    case False
    with 2(3) f have again: "again" and k: "k \<in> set (concat (walk (Some (last ks)) rs))"
      by (auto split: if_splits)
    from 2(1) [OF f [symmetric] again] 2(2) k
    have IH: "last ks < k" "k \<in> (\<Union>(db, n) \<in> set rs. set (keys db))" by auto
    from fetch_last [OF ok, of p n ks] fetch_sound [OF ok f, of "last ks"] f again 2(2) have "beyond p (last ks)" by auto
    with IH show ?thesis by (auto intro: beyond_trans)
  qed
qed simp

lemma walk_sorted:
  assumes "\<forall>(db, n) \<in> set rs. 0 < n \<and> ok db"
  shows "sorted_wrt (<) (concat (walk p rs))"
  using assms
proof (induction p rs rule: walk.induct)
  case (2 p db n rs)
  obtain ks again where f: "fetch db p n = (ks, again)" by fastforce
  from 2(2) have ok: "ok db" by simp
  show ?case
  proof (cases again)
    case True
    from 2 f True have IH: "sorted_wrt (<) (concat (walk (Some (last ks)) rs))" by auto
    have "x < y" if "x \<in> set ks" "y \<in> set (concat (walk (Some (last ks)) rs))" for x y
    proof -
      from walk_beyond [of rs y "Some (last ks)"] 2(2) that(2) have "last ks < y" by auto
      with sorted_le_last [OF fetch_sorted [OF ok f] that(1)] show ?thesis by (rule le_less_trans)
    qed
    with IH f True fetch_sorted [OF ok f] show ?thesis by (auto simp: sorted_wrt_append)
  qed (use f fetch_sorted [OF ok f] in simp)
qed simp

lemma walk_complete:
  assumes "\<forall>(db, n) \<in> set rs. 0 < n \<and> ok db" and "ended p rs"
    and "\<forall>(db, n) \<in> set rs. k \<in> set (keys db)" and "beyond p k"
  shows "k \<in> set (concat (walk p rs))"
  using assms
proof (induction p rs rule: walk.induct)
  case (2 p db n rs)
  obtain ks again where f: "fetch db p n = (ks, again)" by fastforce
  from 2(2) have ok: "ok db" by simp
  show ?case
  proof (cases "k \<in> set ks")
    case True
    with f show ?thesis by simp
  next
    case False
    from 2(4) have k: "k \<in> set (keys db)" by simp
    note c = fetch_complete [OF ok f k 2(5) False]
    from c(1) have again: "again = True" by simp
    with f fetch_last [OF ok, of p n ks] 2(2) have "ks \<noteq> []" by auto
    with c(2) have "beyond (Some (last ks)) k" by simp
    with 2(1) [OF f [symmetric] c(1)] 2(2,3,4) f again show ?thesis by simp
  qed
qed simp

lemma walk_ends:
  assumes "\<forall>(db, n) \<in> set rs. 0 < n \<and> ok db"
    and "card {k \<in> (\<Union>(db, n) \<in> set rs. set (keys db)). beyond p k} < length rs"
  shows "ended p rs"
  using assms
proof (induction p rs rule: walk.induct)
  case (2 p db n rs)
  obtain ks again where f: "fetch db p n = (ks, again)" by fastforce
  from 2(2) have ok: "ok db" by simp
  let ?U = "\<Union>(db, n) \<in> set rs. set (keys db)"
  show ?case
  proof (cases again)
    case True
    with f fetch_last [OF ok, of p n ks] 2(2) have "last ks \<in> set ks" by simp
    with fetch_sound [OF ok f] have l: "last ks \<in> set (keys db)" "beyond p (last ks)" by simp_all
    have "finite ?U" by auto
    let ?B = "{k \<in> (\<Union>(db, n) \<in> set ((db, n) # rs). set (keys db)). beyond p k}"
    from l have "{k \<in> ?U. beyond (Some (last ks)) k} \<subset> ?B" by (auto intro: beyond_trans)
    then have "card {k \<in> ?U. beyond (Some (last ks)) k} < card ?B"
      by (intro psubset_card_mono) auto
    with 2(3) have "card {k \<in> ?U. beyond (Some (last ks)) k} < length rs" by simp
    with 2(1) [OF f [symmetric] True] 2(2) f True show ?thesis by simp
  qed (use f in simp)
qed simp

lemma walk_nonempty: "rs \<noteq> [] \<Longrightarrow> walk p rs \<noteq> []"
  by (cases rs) (auto split: prod.splits)

end

section \<open>The bootstrap pages\<close>

definition arm_keys :: "boot_db \<Rightarrow> uuid \<Rightarrow> instant \<Rightarrow> entity_type \<Rightarrow> 'v row list \<Rightarrow> page_key list" where
  "arm_keys db u at e t =
     map (\<lambda>r. (entity_as_str e, r_id r)) (filter (\<lambda>r. r_user r = u \<and> bd_created db e (r_id r) \<le> at) t)"

definition snapshot_keys :: "uuid \<Rightarrow> instant \<Rightarrow> boot_db \<Rightarrow> page_key list" where
  "snapshot_keys u at db =
     sort (arm_keys db u at EList (db_lists (bd_api db)) @ arm_keys db u at ETask (db_tasks (bd_api db)) @
           arm_keys db u at EStep (db_steps (bd_api db)) @ arm_keys db u at EDayPlan (db_plans (bd_api db)))"

definition boot_ids_ok :: "boot_db \<Rightarrow> bool" where
  "boot_ids_ok db \<longleftrightarrow> pk r_id (db_lists (bd_api db)) \<and> pk r_id (db_tasks (bd_api db)) \<and>
     pk r_id (db_steps (bd_api db)) \<and> pk r_id (db_plans (bd_api db))"

definition fetch_page :: "boot_env \<Rightarrow> uuid \<Rightarrow> instant \<Rightarrow> boot_db \<Rightarrow> page_key option \<Rightarrow> nat \<Rightarrow> page_key list \<times> bool" where
  "fetch_page env u at db p n =
     (let rows = page_rows env db u at (map_option fst p) (map_option snd p) n
      in (map fst (take n rows), n < length rows))"

lemma map_sort_key: "map f (sort_key f xs) = sort (map f xs)"
  by (rule properties_for_sort [symmetric]) simp_all

lemma map_fst_boot_arm: "map fst (boot_arm env db u at e columns t) = arm_keys db u at e t"
  by (simp add: boot_arm_def arm_keys_def)

lemma sort_keys_boot_rows: "sort (map fst (boot_rows env db u at)) = snapshot_keys u at db"
  by (simp add: boot_rows_def snapshot_keys_def map_fst_boot_arm)

lemma after_position_beyond: "after_position (map_option fst p) (map_option snd p) k \<longleftrightarrow> beyond p k"
  by (cases p) (auto simp: after_position_def)

lemma distinct_arm: "pk r_id t \<Longrightarrow> distinct (arm_keys db u at e t)"
proof -
  assume "pk r_id t"
  then have "distinct (map r_id (filter (\<lambda>r. r_user r = u \<and> bd_created db e (r_id r) \<le> at) t))"
    by (simp add: pk_def distinct_map_filter)
  then show ?thesis by (simp add: arm_keys_def distinct_map inj_on_def)
qed

lemma fst_arm_keys: "k \<in> set (arm_keys db u at e t) \<Longrightarrow> fst k = entity_as_str e"
  by (auto simp: arm_keys_def)

lemma snapshot_keys_sorted: "boot_ids_ok db \<Longrightarrow> sorted_wrt (<) (snapshot_keys u at db)"
  unfolding strict_sorted_iff
  by (auto simp: snapshot_keys_def boot_ids_ok_def distinct_arm dest!: fst_arm_keys)

lemma snapshot_keys_entity: "k \<in> set (snapshot_keys u at db) \<Longrightarrow> \<exists>e. fst k = entity_as_str e"
  by (auto simp: snapshot_keys_def dest!: fst_arm_keys)

lemma map_fst_page_rows:
  "map fst (page_rows env db u at (map_option fst p) (map_option snd p) n) =
     take (n + 1) (filter (beyond p) (snapshot_keys u at db))"
  by (simp add: page_rows_def take_map [symmetric] map_sort_key after_position_beyond
      filter_map o_def sort_keys_boot_rows [symmetric, where env = env] filter_sort)

interpretation boot_pages: keyset boot_ids_ok "snapshot_keys u at" "fetch_page env u at" for u at env
proof
  fix db p n
  show "boot_ids_ok db \<Longrightarrow> sorted_wrt (<) (snapshot_keys u at db)"
    by (rule snapshot_keys_sorted)
  let ?xs = "filter (beyond p) (snapshot_keys u at db)"
  have "length (page_rows env db u at (map_option fst p) (map_option snd p) n) = min (n + 1) (length ?xs)"
    using arg_cong [OF map_fst_page_rows, of length env db u at p n] by simp
  then show "fetch_page env u at db p n = (take n ?xs, n < length ?xs)"
    by (simp add: fetch_page_def Let_def take_map [symmetric] map_fst_page_rows min_def)
qed

end
