(* ===== verification/ApiBootProps.thy ===== *)
theory ApiBootProps
  imports ApiBootFacts
begin

text \<open>
  What a client can rely on when it bootstraps: tokens that come back as they were issued, to
  their owner and for a quarter of an hour, and pages that together list every row once.
\<close>

section \<open>Tokens\<close>

text \<open>What chrono, serde and the column types allow in a payload.\<close>

definition instant_ok :: "instant \<Rightarrow> bool" where
  "instant_ok t \<longleftrightarrow> \<bar>date_year (date_naive t)\<bar> \<le> 262143 \<and> date_month (date_naive t) \<le> 12 \<and>
     date_day (date_naive t) \<le> 31 \<and> instant_nanos t < 86401 * 10 ^ 9"

definition wire_ok :: "wire_payload \<Rightarrow> bool" where
  "wire_ok p \<longleftrightarrow> wp_v p < 256 \<and> \<bar>wp_snapshot_cursor p\<bar> \<le> I64_MAX \<and> \<bar>wp_exp p\<bar> \<le> I64_MAX \<and>
     instant_ok (wp_snapshot_at p)"

text \<open>
  Base64 reads back what it wrote, over an alphabet without the dot, at most doubling the
  length; the MAC has 32 bytes; serde reads back the payload it wrote, in less than 4 kB.
\<close>

definition boot_codec_ok :: "boot_env \<Rightarrow> bool" where
  "boot_codec_ok env \<longleftrightarrow>
     (\<forall>s. bo_decode env (bo_encode env s) = Some s \<and> CHR ''.'' \<notin> set (bo_encode env s) \<and>
        (bo_encode env s = [] \<longrightarrow> s = []) \<and> length (bo_encode env s) \<le> 2 * length s + 2 \<and>
        length (bo_mac env s) = 32) \<and>
     (\<forall>p. wire_ok p \<longrightarrow> bo_read env (bo_write env p) = Some p \<and> bo_write env p \<noteq> [] \<and>
        length (bo_write env p) \<le> 4096)"

lemma boot_codec_okD:
  assumes "boot_codec_ok env"
  shows "bo_decode env (bo_encode env s) = Some s" and "CHR ''.'' \<notin> set (bo_encode env s)"
    and "bo_encode env s = [] \<longleftrightarrow> s = [] \<and> bo_encode env [] = []"
    and "length (bo_encode env s) \<le> 2 * length s + 2" and "length (bo_mac env s) = 32"
    and "wire_ok p \<Longrightarrow> bo_read env (bo_write env p) = Some p"
    and "wire_ok p \<Longrightarrow> bo_write env p \<noteq> []" and "wire_ok p \<Longrightarrow> length (bo_write env p) \<le> 4096"
  using assms by (auto simp: boot_codec_ok_def)

lemma split_once_append: "c \<notin> set a \<Longrightarrow> split_once c (a @ c # b) = Some (a, b)"
  by (induction a) auto

text \<open>\<open>Utc::now()\<close> stays in chrono's range.\<close>

definition utc_ok :: "int \<Rightarrow> bool" where
  "utc_ok now \<longleftrightarrow> \<bar>timestamp now\<bar> \<le> 10 ^ 13"

lemma timestamp_ttl: "timestamp (now + seconds DEFAULT_TTL) = timestamp now + 900"
  by (simp add: timestamp_def seconds_def DEFAULT_TTL_def)

lemma verify_issued:
  assumes "boot_codec_ok env" and "utc_ok now" and "instant_ok at" and "0 \<le> c" and "c \<le> I64_MAX"
    and "(le = None) = (li = None)"
  shows "continuation_verify env now' (continuation_issue env now u c at le li) v =
    (if v \<noteq> u then Inl Invalid
     else if timestamp now + 900 \<le> timestamp now' then Inl Expired
     else Inr \<lparr>bc_user = u, bc_snapshot_cursor = c, bc_snapshot_at = at, bc_last_entity = le,
            bc_last_id = li, bc_expires = timestamp now + 900\<rparr>)"
proof -
  let ?p = "\<lparr>wp_v = TOKEN_VERSION, wp_uid = u, wp_snapshot_cursor = c, wp_snapshot_at = at,
     wp_last_entity = le, wp_last_id = li, wp_exp = timestamp now + 900\<rparr>"
  let ?enc = "bo_encode env (bo_write env ?p)"
  let ?sig = "bo_encode env (bo_mac env ?enc)"
  note codec = boot_codec_okD [OF assms(1)]
  have p: "wire_ok ?p"
    using assms(2-5) by (auto simp: wire_ok_def TOKEN_VERSION_def utc_ok_def I64_MAX_def)
  have token: "continuation_issue env now u c at le li = ?enc @ CHR ''.'' # ?sig"
    by (simp add: continuation_issue_def issue_with_expiry_def timestamp_ttl Let_def)
  have len: "length (?enc @ CHR ''.'' # ?sig) \<le> MAX_TOKEN_LEN"
    using codec(4) [of "bo_write env ?p"] codec(8) [OF p] codec(4) [of "bo_mac env ?enc"] codec(5) [of ?enc]
    by (simp add: MAX_TOKEN_LEN_def)
  have "bo_mac env ?enc \<noteq> []" using codec(5) [of ?enc] by (cases "bo_mac env ?enc") simp_all
  then have "?sig \<noteq> []" using codec(3) by blast
  moreover have "?enc \<noteq> []" using codec(3) codec(7) [OF p] by blast
  ultimately show ?thesis
    using len assms(4,6) codec(6) [OF p] unfolding token continuation_verify_def
    by (cases "v = u"; cases le; cases li) (simp_all add: split_once_append codec(1,2) fail_if_def ok_or_def and_then_def)
qed

text \<open>C37. A bootstrap token comes back as it was issued: presented before its fifteen minutes are
  over by the account it was issued to, it yields the position, the cursor and the snapshot time
  put into it; later it is expired, and for any other account it is invalid.\<close>

theorem continuation_roundtrip:
  assumes "boot_codec_ok env" and "utc_ok now" and "instant_ok at" and "0 \<le> c" and "c \<le> I64_MAX"
    and "(le = None) = (li = None)"
  shows "continuation_verify env now' (continuation_issue env now u c at le li) v =
    (if v \<noteq> u then Inl Invalid
     else if timestamp now + 900 \<le> timestamp now' then Inl Expired
     else Inr \<lparr>bc_user = u, bc_snapshot_cursor = c, bc_snapshot_at = at, bc_last_entity = le,
            bc_last_id = li, bc_expires = timestamp now + 900\<rparr>)"
  by (rule verify_issued [OF assms])

section \<open>One page\<close>

definition page_keys :: "boot_page \<Rightarrow> page_key list" where
  "page_keys page = map (\<lambda>e. (entity_as_str (bn_entity e), bn_id e)) (bp_entities page)"

text \<open>The position a token carries, as the key it stands for.\<close>

definition key_at :: "entity_type option \<times> uuid option \<Rightarrow> page_key option" where
  "key_at pos = (case pos of (Some e, Some i) \<Rightarrow> Some (entity_as_str e, i) | _ \<Rightarrow> None)"

definition paired :: "entity_type option \<times> uuid option \<Rightarrow> bool" where
  "paired pos \<longleftrightarrow> (fst pos = None) = (snd pos = None)"

lemma key_at_split:
  "paired (le, li) \<Longrightarrow> map_option fst (key_at (le, li)) = map_option entity_as_str le"
  "paired (le, li) \<Longrightarrow> map_option snd (key_at (le, li)) = li"
  by (auto simp: key_at_def paired_def split: option.splits)

lemma boot_entities_keys:
  assumes "\<forall>k \<in> fst ` set rows. \<exists>e. fst k = entity_as_str e"
  shows "\<exists>es. boot_entities rows = Inr es \<and> map (\<lambda>e. (entity_as_str (bn_entity e), bn_id e)) es = map fst rows"
  using assms
proof (induction rows)
  case (Cons r rows)
  obtain t i d where r: "r = ((t, i), d)" by (metis surj_pair)
  with Cons obtain e es where "t = entity_as_str e" "boot_entities rows = Inr es"
    "map (\<lambda>e. (entity_as_str (bn_entity e), bn_id e)) es = map fst rows" by auto
  with r show ?case by (simp add: entity_names.parse_as_str)
qed simp

lemma boot_page_reads:
  assumes pos: "paired (le, li)" and "0 < n"
  obtains page where "boot_page_of env ck u n (c, at, le, li) db = Inr page"
    "fetch_page env u at db (key_at (le, li)) n = (page_keys page, bp_has_more page)"
    "bp_snapshot_cursor page = show_int c"
    "bp_next_page page =
       (if bp_has_more page
        then Some (continuation_issue env (bt_issue ck) u c at (Some (bn_entity (last (bp_entities page))))
               (Some (bn_id (last (bp_entities page)))))
        else None)"
    "bp_has_more page \<Longrightarrow> bp_entities page \<noteq> []"
proof -
  let ?rows = "page_rows env db u at (map_option entity_as_str le) li n"
  have "set (map fst ?rows) \<subseteq> set (snapshot_keys u at db)"
    using map_fst_page_rows [of env db u at "key_at (le, li)" n] by (auto simp: key_at_split [OF pos] dest: in_set_takeD)
  then have "\<forall>k \<in> fst ` set (take n ?rows). \<exists>e. fst k = entity_as_str e"
    using snapshot_keys_entity set_take_subset [of n ?rows] by fastforce
  from boot_entities_keys [OF this] obtain es where
    es: "boot_entities (take n ?rows) = Inr es"
    "map (\<lambda>e. (entity_as_str (bn_entity e), bn_id e)) es = map fst (take n ?rows)" by blast
  have ne: "es \<noteq> []" if "n < length ?rows"
    using arg_cong [OF es(2), of length] that assms(2) by (cases es) auto
  show ?thesis
    by (rule that [of "\<lparr>bp_entities = es, bp_snapshot_cursor = show_int c,
           bp_next_page = (if n < length ?rows
             then Some (continuation_issue env (bt_issue ck) u c at (Some (bn_entity (last es))) (Some (bn_id (last es))))
             else None), bp_has_more = n < length ?rows\<rparr>"])
       (use es ne in \<open>auto simp: boot_page_of_def page_keys_def fetch_page_def key_at_split [OF pos] Let_def\<close>)
qed

lemma last_page_key:
  "bp_entities page \<noteq> [] \<Longrightarrow>
     key_at (Some (bn_entity (last (bp_entities page))), Some (bn_id (last (bp_entities page)))) =
     Some (last (page_keys page))"
  by (simp add: key_at_def page_keys_def last_map)

section \<open>A chain of pages\<close>

text \<open>A request of the chain: its clocks, its \<open>limit\<close> and the tables it finds.\<close>

type_synonym boot_request = "boot_clock \<times> nat option \<times> boot_db"

text \<open>The client follows \<open>next_page\<close> as long as there is one and requests are left.\<close>

fun bootstrap_walk ::
  "boot_env \<Rightarrow> uuid \<Rightarrow> string option \<Rightarrow> boot_request list \<Rightarrow> app_error + boot_page list" where
  "bootstrap_walk env u continuation [] = Inr []"
| "bootstrap_walk env u continuation ((ck, limit, db) # rs) =
     and_then (bootstrap env ck u continuation limit db) (\<lambda>(page, db').
     case bp_next_page page of
       None \<Rightarrow> Inr [page]
     | Some token \<Rightarrow> and_then (bootstrap_walk env u (Some token) rs) (\<lambda>pages. Inr (page # pages)))"

definition page_limit :: "nat option \<Rightarrow> nat" where
  "page_limit l = (case l of None \<Rightarrow> 500 | Some n \<Rightarrow> n)"

definition boot_request_ok :: "boot_request \<Rightarrow> bool" where
  "boot_request_ok r = (case r of (ck, l, db) \<Rightarrow>
     1 \<le> page_limit l \<and> page_limit l \<le> 500 \<and> utc_ok (bt_issue ck) \<and> boot_ids_ok db)"

text \<open>Each request arrives within fifteen minutes of the page before it.\<close>

fun in_time :: "boot_request list \<Rightarrow> bool" where
  "in_time (a # b # rs) \<longleftrightarrow>
     timestamp (bt_verify (fst b)) < timestamp (bt_issue (fst a)) + 900 \<and> in_time (b # rs)"
| "in_time _ \<longleftrightarrow> True"

definition page_reads :: "boot_request list \<Rightarrow> (boot_db \<times> nat) list" where
  "page_reads rs = map (\<lambda>(ck, l, db). (db, page_limit l)) rs"

lemma page_reads_simps [simp]:
  "page_reads [] = []" "page_reads ((ck, l, db) # rs) = (db, page_limit l) # page_reads rs"
  by (simp_all add: page_reads_def)

lemma parse_limit_ok:
  "1 \<le> page_limit l \<Longrightarrow> page_limit l \<le> 500 \<Longrightarrow> parse_page_limit l 500 500 = Inr (page_limit l)"
  by (auto simp: parse_page_limit_def page_limit_def split: option.splits)

text \<open>The pages of a chain are the abstract pages over the same reads.\<close>

lemma walk_from:
  assumes env: "boot_codec_ok env" "instant_ok at" "0 \<le> c" "c \<le> I64_MAX"
    and "\<forall>r \<in> set rs. boot_request_ok r" and "in_time rs" and "paired (le, li)"
    and "\<forall>ck l db rs'. rs = (ck, l, db) # rs' \<longrightarrow> (\<exists>db'. boot_start env ck u tok db = Inr ((c, at, le, li), db') \<and>
           (\<forall>p n. fetch_page env u at db' p n = fetch_page env u at db p n))"
  shows "\<exists>pages. bootstrap_walk env u tok rs = Inr pages \<and>
    map page_keys pages = keyset.walk (fetch_page env u at) (key_at (le, li)) (page_reads rs) \<and>
    (\<forall>page \<in> set pages. bp_snapshot_cursor page = show_int c) \<and>
    (keyset.ended (fetch_page env u at) (key_at (le, li)) (page_reads rs) \<longrightarrow>
       pages \<noteq> [] \<and> bp_next_page (last pages) = None)"
  using assms(5-)
proof (induction rs arbitrary: tok le li)
  case Nil
  show ?case by (simp add: boot_pages.walk.simps boot_pages.ended.simps)
next
  case (Cons r rs)
  obtain ck l db where r: "r = (ck, l, db)" by (cases r)
  with Cons.prems(4) obtain db' where start: "boot_start env ck u tok db = Inr ((c, at, le, li), db')"
    and same: "\<And>p n. fetch_page env u at db' p n = fetch_page env u at db p n" by auto
  from Cons.prems(1) r have ok: "1 \<le> page_limit l" "page_limit l \<le> 500" "utc_ok (bt_issue ck)"
    by (auto simp: boot_request_ok_def)
  obtain page where page: "boot_page_of env ck u (page_limit l) (c, at, le, li) db' = Inr page"
      "fetch_page env u at db' (key_at (le, li)) (page_limit l) = (page_keys page, bp_has_more page)"
      "bp_snapshot_cursor page = show_int c"
    and token: "bp_next_page page =
       (if bp_has_more page
        then Some (continuation_issue env (bt_issue ck) u c at (Some (bn_entity (last (bp_entities page))))
               (Some (bn_id (last (bp_entities page)))))
        else None)"
    and ne: "bp_has_more page \<Longrightarrow> bp_entities page \<noteq> []"
    by (rule boot_page_reads [OF Cons.prems(3), of "page_limit l" env ck u c at db']) (use ok in auto)
  have boot: "bootstrap env ck u tok l db = Inr (page, db')"
    by (simp add: bootstrap_def parse_limit_ok [OF ok(1,2)] start page)
  show ?case
  proof (cases "bp_has_more page")
    case False
    with boot page token r same show ?thesis
      by (simp add: boot_pages.walk.simps boot_pages.ended.simps)
  next
    case True
    let ?e = "Some (bn_entity (last (bp_entities page)))" and ?i = "Some (bn_id (last (bp_entities page)))"
    let ?t = "continuation_issue env (bt_issue ck) u c at ?e ?i"
    have next_start: "\<exists>db'. boot_start env ck' u (Some ?t) db2 = Inr ((c, at, ?e, ?i), db') \<and>
        (\<forall>p n. fetch_page env u at db' p n = fetch_page env u at db2 p n)"
      if "rs = (ck', l', db2) # rs'" for ck' l' db2 rs'
    proof -
      from Cons.prems(2) r that have "\<not> timestamp (bt_issue ck) + 900 \<le> timestamp (bt_verify ck')" by simp
      then show ?thesis
        by (simp add: boot_start_def verify_issued [OF env(1) ok(3) env(2-4)])
    qed
    have "in_time rs" using Cons.prems(2) by (cases rs) auto
    from Cons.IH [OF _ this, of ?e ?i "Some ?t"] Cons.prems(1) next_start obtain pages where
      "bootstrap_walk env u (Some ?t) rs = Inr pages"
      "map page_keys pages = keyset.walk (fetch_page env u at) (key_at (?e, ?i)) (page_reads rs)"
      "\<forall>page \<in> set pages. bp_snapshot_cursor page = show_int c"
      "keyset.ended (fetch_page env u at) (key_at (?e, ?i)) (page_reads rs) \<longrightarrow>
         pages \<noteq> [] \<and> bp_next_page (last pages) = None"
      by (auto simp: paired_def)
    with boot page token True r same last_page_key [OF ne [OF True]] show ?thesis
      by (auto simp: boot_pages.walk.simps boot_pages.ended.simps)
  qed
qed

text \<open>The cursor of a first page: the last position of the account's change log.\<close>

definition snapshot_cursor_of :: "uuid \<Rightarrow> boot_db \<Rightarrow> int" where
  "snapshot_cursor_of u db =
     (case lookup_row ss_user (db_states (bd_api db)) u of None \<Rightarrow> 0 | Some s \<Rightarrow> ss_next s - 1)"

lemma boot_start_first:
  "\<exists>db'. boot_start env ck u None db = Inr ((snapshot_cursor_of u db, bt_snapshot ck, None, None), db') \<and>
     (\<forall>p n. fetch_page env u at db' p n = fetch_page env u at db p n)"
  by (auto simp: boot_start_def snapshot_cursor_of_def ensure_sync_state_lookup Let_def fetch_page_def
      page_rows_def boot_rows_def boot_arm_def row_json_def split: option.splits)

text \<open>C38. Following a bootstrap from its first page lists every row once: even when the tables
  change between the pages, the listed keys strictly increase, every row visible at the snapshot
  time throughout is listed, nothing else than rows visible in some page is, every page names the
  same change-log cursor, the position before the snapshot, and with more requests than rows the
  chain ends.\<close>

theorem bootstrap_lists_every_row_once:
  assumes "boot_codec_ok env" and "\<forall>r \<in> set rs. boot_request_ok r" and "in_time rs"
    and "rs = (ck, l, db) # rs'" and "instant_ok (bt_snapshot ck)"
    and "0 \<le> snapshot_cursor_of u db" and "snapshot_cursor_of u db \<le> I64_MAX"
    and "card (\<Union>(ck', l', db') \<in> set rs. set (snapshot_keys u (bt_snapshot ck) db')) < length rs"
  shows "\<exists>pages. bootstrap_walk env u None rs = Inr pages \<and> pages \<noteq> [] \<and>
    bp_next_page (last pages) = None \<and>
    (\<forall>page \<in> set pages. bp_snapshot_cursor page = show_int (snapshot_cursor_of u db)) \<and>
    sorted_wrt (<) (concat (map page_keys pages)) \<and>
    (\<Inter>(ck', l', db') \<in> set rs. set (snapshot_keys u (bt_snapshot ck) db')) \<subseteq> set (concat (map page_keys pages)) \<and>
    set (concat (map page_keys pages)) \<subseteq> (\<Union>(ck', l', db') \<in> set rs. set (snapshot_keys u (bt_snapshot ck) db'))"
proof -
  let ?at = "bt_snapshot ck" and ?reads = "page_reads rs"
  have good: "\<forall>(db, n) \<in> set ?reads. 0 < n \<and> boot_ids_ok db"
    using assms(2) by (auto simp: page_reads_def boot_request_ok_def)
  have union: "(\<Union>(db, n) \<in> set ?reads. set (snapshot_keys u ?at db)) =
      (\<Union>(ck', l', db') \<in> set rs. set (snapshot_keys u ?at db'))"
    by (auto simp: page_reads_def)
  have "{k \<in> (\<Union>(db, n) \<in> set ?reads. set (snapshot_keys u ?at db)). beyond None k} =
      (\<Union>(ck', l', db') \<in> set rs. set (snapshot_keys u ?at db'))"
    unfolding union by auto
  with assms(8) have "card {k \<in> (\<Union>(db, n) \<in> set ?reads. set (snapshot_keys u ?at db)). beyond None k} < length ?reads"
    by (simp add: page_reads_def)
  then have ended: "keyset.ended (fetch_page env u ?at) None ?reads"
    by (rule boot_pages.walk_ends [OF good])
  obtain pages where pages: "bootstrap_walk env u None rs = Inr pages"
    "map page_keys pages = keyset.walk (fetch_page env u ?at) None ?reads"
    "\<forall>page \<in> set pages. bp_snapshot_cursor page = show_int (snapshot_cursor_of u db)"
    "pages \<noteq> []" "bp_next_page (last pages) = None"
    using walk_from [OF assms(1,5,6,7,2,3), of None None u None] boot_start_first assms(4) ended
    by (fastforce simp: paired_def key_at_def)
  have all: "(\<Inter>(ck', l', db') \<in> set rs. set (snapshot_keys u ?at db')) \<subseteq> set (concat (map page_keys pages))"
  proof
    fix k
    assume "k \<in> (\<Inter>(ck', l', db') \<in> set rs. set (snapshot_keys u ?at db'))"
    then have "\<forall>(db, n) \<in> set ?reads. k \<in> set (snapshot_keys u ?at db)" by (auto simp: page_reads_def)
    from boot_pages.walk_complete [OF good ended this] show "k \<in> set (concat (map page_keys pages))"
      unfolding pages(2) by simp
  qed
  have sound: "set (concat (map page_keys pages)) \<subseteq> (\<Union>(ck', l', db') \<in> set rs. set (snapshot_keys u ?at db'))"
    unfolding pages(2) union [symmetric] using boot_pages.walk_beyond [OF good] by blast
  have sorted: "sorted_wrt (<) (concat (map page_keys pages))"
    unfolding pages(2) by (rule boot_pages.walk_sorted [OF good])
  show ?thesis
    by (rule exI [of _ pages], intro conjI pages(1,3,4,5) all sound sorted)
qed

end
