(* ===== verification/ApiBootExamples.thy ===== *)
theory ApiBootExamples
  imports ApiBootProps
begin

text \<open>
  The hypotheses of the bootstrap theorems hold of concrete parameters: a codec that writes
  every field of a payload as a fixed number of hexadecimal digits, and an account with three
  rows read one at a time.
\<close>

section \<open>A codec\<close>

fun digits :: "nat \<Rightarrow> nat \<Rightarrow> string" where
  "digits 0 n = []"
| "digits (Suc k) n = char_of (97 + n mod 16) # digits k (n div 16)"

fun digits_value :: "string \<Rightarrow> nat" where
  "digits_value [] = 0"
| "digits_value (c # cs) = of_char c - 97 + 16 * digits_value cs"

fun fields :: "nat list \<Rightarrow> nat list \<Rightarrow> string" where
  "fields (w # ws) (n # ns) = digits w n @ fields ws ns"
| "fields _ _ = []"

fun unfields :: "nat list \<Rightarrow> string \<Rightarrow> nat list" where
  "unfields [] s = []"
| "unfields (w # ws) s = digits_value (take w s) # unfields ws (drop w s)"

lemma length_digits [simp]: "length (digits k n) = k"
  by (induction k arbitrary: n) simp_all

lemma dot_not_digit: "CHR ''.'' \<notin> set (digits k n)"
proof (induction k arbitrary: n)
  case (Suc k)
  have "(of_char (char_of (97 + n mod 16) :: char) :: nat) \<noteq> of_char (CHR ''.'')"
    by (simp add: of_char_of take_bit_eq_mod)
  then have "char_of (97 + n mod 16) \<noteq> CHR ''.''" by metis
  with Suc show ?case by simp
qed simp

lemma digits_value_digits: "digits_value (digits k n) = n mod 16 ^ k"
proof (induction k arbitrary: n)
  case (Suc k)
  have "(of_char (char_of (97 + n mod 16) :: char) :: nat) = 97 + n mod 16"
    using mod_less_divisor [of 16 n] by (simp add: of_char_of take_bit_eq_mod)
  with Suc show ?case by (simp add: mod_mult2_eq)
qed simp

lemma unfields_fields:
  "list_all2 (\<lambda>w n. n < 16 ^ w) ws ns \<Longrightarrow> unfields ws (fields ws ns) = ns"
  by (induction ws ns rule: list_all2_induct) (simp_all add: digits_value_digits)

lemma length_fields: "length ws = length ns \<Longrightarrow> length (fields ws ns) = sum_list ws"
  by (induction ws ns rule: list_induct2) simp_all

definition int_field :: "int \<Rightarrow> nat" where "int_field i = nat (i + 2 ^ 63)"

definition entity_field :: "entity_type option \<Rightarrow> nat" where
  "entity_field e = (case e of None \<Rightarrow> 0 | Some EList \<Rightarrow> 1 | Some ETask \<Rightarrow> 2 | Some EStep \<Rightarrow> 3 | Some EDayPlan \<Rightarrow> 4)"

definition field_entity :: "nat \<Rightarrow> entity_type option" where
  "field_entity n = (if n = 0 then None else if n = 1 then Some EList else if n = 2 then Some ETask
     else if n = 3 then Some EStep else Some EDayPlan)"

definition widths :: "nat list" where "widths = [2, 32, 16, 6, 2, 2, 12, 1, 1, 32, 16]"

definition demo_write :: "wire_payload \<Rightarrow> string" where
  "demo_write p = fields widths
     [wp_v p, unat (wp_uid p), int_field (wp_snapshot_cursor p),
      nat (date_year (date_naive (wp_snapshot_at p)) + 262143), date_month (date_naive (wp_snapshot_at p)),
      date_day (date_naive (wp_snapshot_at p)), instant_nanos (wp_snapshot_at p),
      entity_field (wp_last_entity p), (if wp_last_id p = None then 0 else 1),
      (case wp_last_id p of None \<Rightarrow> 0 | Some i \<Rightarrow> unat i), int_field (wp_exp p)]"

definition demo_read :: "string \<Rightarrow> wire_payload option" where
  "demo_read s = (case unfields widths s of
     [v, u, c, y, m, d, n, e, f, i, x] \<Rightarrow> Some \<lparr>wp_v = v, wp_uid = of_nat u,
       wp_snapshot_cursor = int c - 2 ^ 63, wp_snapshot_at = Instant (Date (int y - 262143) m d) n,
       wp_last_entity = field_entity e, wp_last_id = (if f = 0 then None else Some (of_nat i)),
       wp_exp = int x - 2 ^ 63\<rparr>
   | _ \<Rightarrow> None)"

fun demo_decode :: "string \<Rightarrow> string option" where
  "demo_decode (a # b # s) = map_option ((#) (char_of (digits_value [a, b]))) (demo_decode s)"
| "demo_decode [] = Some []"
| "demo_decode [a] = None"

definition demo_boot :: boot_env where
  "demo_boot = \<lparr>bo_encode = concat \<circ> map (\<lambda>c. digits 2 (of_char c)), bo_decode = demo_decode,
     bo_mac = (\<lambda>s. digits 32 (foldr (\<lambda>c n. of_char c + 31 * n) s 0)),
     bo_write = demo_write, bo_read = demo_read, bo_uuid = (\<lambda>u. digits 32 (unat u)),
     bo_instant = (\<lambda>t. digits 12 (instant_nanos t)), bo_date = (\<lambda>d. digits 2 (date_day d))\<rparr>"

lemma uuid_field: "unat (u :: uuid) < 16 ^ 32"
  using unsigned_less [of u] by simp

lemma entity_field: "field_entity (entity_field e) = e" "entity_field e < 16"
  by (auto simp: entity_field_def field_entity_def split: option.splits entity_type.splits)

lemma int_field: "\<bar>i\<bar> \<le> I64_MAX \<Longrightarrow> int (int_field i) = i + 2 ^ 63 \<and> int_field i < 16 ^ 16"
  by (auto simp: int_field_def I64_MAX_def)

lemma demo_read_write: "wire_ok p \<Longrightarrow> demo_read (demo_write p) = Some p"
proof -
  assume ok: "wire_ok p"
  then have ints: "\<bar>wp_snapshot_cursor p\<bar> \<le> I64_MAX" "\<bar>wp_exp p\<bar> \<le> I64_MAX"
    and v: "wp_v p < 256" and at: "instant_ok (wp_snapshot_at p)"
    by (simp_all add: wire_ok_def)
  have "unfields widths (demo_write p) =
    [wp_v p, unat (wp_uid p), int_field (wp_snapshot_cursor p),
      nat (date_year (date_naive (wp_snapshot_at p)) + 262143), date_month (date_naive (wp_snapshot_at p)),
      date_day (date_naive (wp_snapshot_at p)), instant_nanos (wp_snapshot_at p),
      entity_field (wp_last_entity p), (if wp_last_id p = None then 0 else 1),
      (case wp_last_id p of None \<Rightarrow> 0 | Some i \<Rightarrow> unat i), int_field (wp_exp p)]"
    unfolding demo_write_def
    by (rule unfields_fields)
      (use v at ints [THEN int_field] uuid_field entity_field(2) in
        \<open>auto simp: widths_def instant_ok_def split: option.splits\<close>)
  then show ?thesis
    using at ints [THEN int_field]
    by (cases p; cases "wp_snapshot_at p"; cases "date_naive (wp_snapshot_at p)")
      (auto simp: demo_read_def entity_field instant_ok_def split: option.splits)
qed

lemma demo_decode_encode: "demo_decode (concat (map (\<lambda>c. digits 2 (of_char c)) s)) = Some s"
proof (induction s)
  case (Cons c s)
  have "digits_value (digits 2 (of_char c)) = of_char c" by (simp add: digits_value_digits)
  with Cons show ?case by (simp add: numeral_2_eq_2 del: digits_value.simps)
qed simp

lemma demo_boot_ok: "boot_codec_ok demo_boot"
proof -
  have "length (concat (map (\<lambda>c. digits 2 (of_char c)) s)) = 2 * length s" for s
    by (induction s) simp_all
  moreover have "CHR ''.'' \<notin> set (concat (map (\<lambda>c. digits 2 (of_char c)) s))" for s
    using dot_not_digit by auto
  moreover have len: "length (demo_write p) = 122" for p
    by (simp add: demo_write_def length_fields widths_def)
  moreover have "digits 2 n \<noteq> []" for n by (simp add: numeral_2_eq_2)
  moreover from len have "demo_write p \<noteq> []" for p
    by (metis list.size(3) zero_neq_numeral)
  ultimately show ?thesis
    by (auto simp: boot_codec_ok_def demo_boot_def demo_decode_encode demo_read_write len)
qed

section \<open>Witnesses\<close>

definition demo_at :: instant where "demo_at = Instant (Date 2026 1 2) 500"

theorem continuation_roundtrip_witness:
  "continuation_verify demo_boot 500000000 (continuation_issue demo_boot 0 1 42 demo_at (Some ETask) (Some 7)) 1 =
     Inr \<lparr>bc_user = 1, bc_snapshot_cursor = 42, bc_snapshot_at = demo_at, bc_last_entity = Some ETask,
          bc_last_id = Some 7, bc_expires = 900\<rparr> \<and>
   continuation_verify demo_boot 900000000 (continuation_issue demo_boot 0 1 42 demo_at (Some ETask) (Some 7)) 1 =
     Inl Expired \<and>
   continuation_verify demo_boot 500000000 (continuation_issue demo_boot 0 1 42 demo_at (Some ETask) (Some 7)) 2 =
     Inl Invalid"
  using continuation_roundtrip [OF demo_boot_ok, of 0 demo_at 42 "Some ETask" "Some 7" 500000000 1 1]
    continuation_roundtrip [OF demo_boot_ok, of 0 demo_at 42 "Some ETask" "Some 7" 900000000 1 1]
    continuation_roundtrip [OF demo_boot_ok, of 0 demo_at 42 "Some ETask" "Some 7" 500000000 1 2]
  by (simp add: utc_ok_def timestamp_def instant_ok_def demo_at_def I64_MAX_def)

definition demo_list :: "uuid \<Rightarrow> uuid \<Rightarrow> list_values row" where
  "demo_list u i = \<lparr>r_user = u, r_id = i, r_val = \<lparr>lv_name = ''home'', lv_color = None, lv_icon = None, lv_rank = ''a0''\<rparr>,
     r_rev = 1, r_updated = demo_at, r_deleted = None\<rparr>"

definition demo_step :: "uuid \<Rightarrow> uuid \<Rightarrow> step_values row" where
  "demo_step u i = \<lparr>r_user = u, r_id = i, r_val = \<lparr>sv_task_id = 9, sv_title = ''one'', sv_is_completed = False, sv_rank = ''a0''\<rparr>,
     r_rev = 2, r_updated = demo_at, r_deleted = None\<rparr>"

text \<open>Two lists of the account, one of another, and a step; before the last page a list created
  later has appeared.\<close>

definition demo_tables :: "list_values row list \<Rightarrow> boot_db" where
  "demo_tables ls = \<lparr>bd_api = \<lparr>db_users = [], db_states = [\<lparr>ss_user = 1, ss_next = 8, ss_min = 0\<rparr>], db_devices = [],
       db_lists = ls @ [demo_list 1 6, demo_list 2 5, demo_list 1 4], db_tasks = [],
       db_steps = [demo_step 1 3], db_plans = [], db_receipts = [], db_changes = []\<rparr>,
     bd_created = (\<lambda>e i. if i = 2 then Instant (Date 2026 1 3) 0 else demo_at)\<rparr>"

definition demo_request :: "int \<Rightarrow> list_values row list \<Rightarrow> boot_request" where
  "demo_request now ls = (\<lparr>bt_verify = now, bt_snapshot = demo_at, bt_issue = now\<rparr>, Some 1, demo_tables ls)"

definition demo_requests :: "boot_request list" where
  "demo_requests = [demo_request 0 [], demo_request 100 [], demo_request 200 [demo_list 1 2], demo_request 300 []]"

lemma demo_keys:
  "snapshot_keys 1 demo_at (demo_tables []) = [(''list'', 4), (''list'', 6), (''step'', 3)]"
  "snapshot_keys 1 demo_at (demo_tables [demo_list 1 2]) = [(''list'', 4), (''list'', 6), (''step'', 3)]"
  by code_simp+

theorem bootstrap_lists_every_row_once_witness:
  "\<exists>pages. bootstrap_walk demo_boot 1 None demo_requests = Inr pages \<and> bp_next_page (last pages) = None \<and>
     (\<forall>page \<in> set pages. bp_snapshot_cursor page = ''7'') \<and>
     set (concat (map page_keys pages)) = {(''list'', 4), (''list'', 6), (''step'', 3)}"
proof -
  have "snapshot_cursor_of 1 (demo_tables []) = 7" "show_int 7 = ''7''" by code_simp+
  moreover have "(\<Union>(ck, l, db) \<in> set demo_requests. set (snapshot_keys 1 demo_at db)) =
      {(''list'', 4), (''list'', 6), (''step'', 3)}"
    "(\<Inter>(ck, l, db) \<in> set demo_requests. set (snapshot_keys 1 demo_at db)) =
      {(''list'', 4), (''list'', 6), (''step'', 3)}"
    by (simp_all add: demo_requests_def demo_request_def demo_keys)
  moreover have "\<forall>r \<in> set demo_requests. boot_request_ok r" "in_time demo_requests" by code_simp+
  ultimately show ?thesis
    using bootstrap_lists_every_row_once [OF demo_boot_ok, of demo_requests
        "\<lparr>bt_verify = 0, bt_snapshot = demo_at, bt_issue = 0\<rparr>" "Some 1" "demo_tables []"
        "[demo_request 100 [], demo_request 200 [demo_list 1 2], demo_request 300 []]" 1]
    by (fastforce simp: demo_requests_def demo_request_def instant_ok_def demo_at_def I64_MAX_def)
qed

end
