(* ===== verification/ApiShared.thy ===== *)
theory ApiShared
  imports ApiBootstrap
begin

text \<open>
  Shared lists, \<open>apps/api/src/shared.rs\<close>: lists several accounts work on, with members in three
  roles, invitations by e-mail address, and writes that name the list revision they are based on.
  Every write locks the list row first, so a request is one step; an error rolls back. Times are
  microseconds; the collation of the database is a sort key, and the readers of UUIDs and of the
  two small request bodies are parameters. Requests arrive as the records serde reads.
\<close>

section \<open>Tables\<close>

record shared_list_row =
  sl_id :: uuid
  sl_owner :: uuid
  sl_name :: string
  sl_color :: "string option"
  sl_icon :: "string option"
  sl_rank :: string
  sl_revision :: int
  sl_created :: int
  sl_updated :: int
  sl_deleted :: "int option"

record member_row =
  sm_list :: uuid
  sm_user :: uuid
  sm_role :: string
  sm_created :: int
  sm_deleted :: "int option"

record shared_task_row =
  st_id :: uuid
  st_list :: uuid
  st_title :: string
  st_note :: string
  st_status :: string
  st_important :: bool
  st_due_on :: "date option"
  st_rank :: string
  st_created :: int
  st_updated :: int
  st_deleted :: "int option"

record shared_step_row =
  sp_id :: uuid
  sp_task :: uuid
  sp_title :: string
  sp_completed :: bool
  sp_rank :: string
  sp_created :: int
  sp_updated :: int
  sp_deleted :: "int option"

record shared_receipt =
  so_list :: uuid
  so_op :: uuid
  so_actor :: uuid
  so_revision :: int

record invitation_row =
  si_id :: uuid
  si_list :: uuid
  si_email :: string
  si_role :: string
  si_status :: string
  si_invited_by :: uuid
  si_responded_by :: "uuid option"
  si_created :: int
  si_updated :: int
  si_responded :: "int option"

record shared_db =
  sd_users :: "account_row list"
  sd_lists :: "shared_list_row list"
  sd_members :: "member_row list"
  sd_tasks :: "shared_task_row list"
  sd_steps :: "shared_step_row list"
  sd_receipts :: "shared_receipt list"
  sd_invitations :: "invitation_row list"
  sd_tick :: nat

record shared_env =
  sh_uuid :: "nat \<Rightarrow> uuid"
  sh_parse_uuid :: "string \<Rightarrow> uuid option"
  sh_revision_body :: "string \<Rightarrow> (int option \<times> uuid option) option"
  sh_invitation_body :: "string \<Rightarrow> uuid option option"
  sh_collate :: "string \<Rightarrow> int"

definition shared_uuid :: "shared_env \<Rightarrow> shared_db \<Rightarrow> uuid \<times> shared_db" where
  "shared_uuid env db = (sh_uuid env (sd_tick db), db\<lparr>sd_tick := sd_tick db + 1\<rparr>)"

definition member_key :: "member_row \<Rightarrow> uuid \<times> uuid" where
  "member_key m = (sm_list m, sm_user m)"

definition shared_receipt_key :: "shared_receipt \<Rightarrow> uuid \<times> uuid" where
  "shared_receipt_key r = (so_list r, so_op r)"

section \<open>Roles\<close>

datatype shared_role = Owner | Editor | Viewer

definition role_parse :: "string \<Rightarrow> shared_role option" where
  "role_parse v =
     (if v = ''owner'' then Some Owner else if v = ''editor'' then Some Editor
      else if v = ''viewer'' then Some Viewer else None)"

fun role_as_str :: "shared_role \<Rightarrow> string" where
  "role_as_str Owner = ''owner''"
| "role_as_str Editor = ''editor''"
| "role_as_str Viewer = ''viewer''"

definition can_edit :: "shared_role \<Rightarrow> bool" where
  "can_edit r \<longleftrightarrow> r = Owner \<or> r = Editor"

definition is_owner :: "shared_role \<Rightarrow> bool" where
  "is_owner r \<longleftrightarrow> r = Owner"

section \<open>Errors\<close>

definition err_shared_forbidden :: "string \<Rightarrow> app_error" where
  "err_shared_forbidden m = Forbidden ''SHARED_LIST_FORBIDDEN'' m"

definition err_list_not_found :: app_error where
  "err_list_not_found = NotFound ''SHARED_LIST_NOT_FOUND'' ''The shared list was not found''"

definition err_shared_task_not_found :: app_error where
  "err_shared_task_not_found = NotFound ''SHARED_TASK_NOT_FOUND'' ''The shared task was not found''"

definition err_member_not_found :: app_error where
  "err_member_not_found = NotFound ''SHARED_MEMBER_NOT_FOUND'' ''The shared list member was not found''"

definition err_invitation_not_found :: app_error where
  "err_invitation_not_found =
     NotFound ''SHARED_INVITATION_NOT_FOUND'' ''The shared list invitation was not found''"

definition err_invitation_not_pending :: app_error where
  "err_invitation_not_pending =
     Conflict ''SHARED_INVITATION_NOT_PENDING'' ''The shared list invitation was already answered''"

definition err_access_revoked :: app_error where
  "err_access_revoked =
     Forbidden ''SHARED_LIST_ACCESS_REVOKED'' ''Your access to this shared list was removed''"

definition err_op_conflict :: app_error where
  "err_op_conflict = Conflict ''OP_ID_CONFLICT'' ''This operation id was used by another actor''"

definition shared_db_error :: app_error where
  "shared_db_error = Internal ''database operation failed: ''"

section \<open>Validation\<close>

definition reject_unstorable_chars :: "string \<Rightarrow> string \<Rightarrow> app_error + unit" where
  "reject_unstorable_chars name v =
     fail_if (has_nul v) (err_validation (name @ '' may not contain NUL characters''))"

definition shared_text :: "string \<Rightarrow> string \<Rightarrow> nat \<Rightarrow> app_error + string" where
  "shared_text name v maximum =
     (let v = trim v in
      and_then (reject_unstorable_chars name v) (\<lambda>_.
      and_then (fail_if (v = [] \<or> chars_count v > maximum)
        (err_validation (name @ '' must contain 1'' @ [CHR 0xE2, CHR 0x80, CHR 0x93] @ show_nat maximum @
           '' characters''))) (\<lambda>_.
      Inr v)))"

definition shared_note :: "string \<Rightarrow> app_error + string" where
  "shared_note v =
     and_then (reject_unstorable_chars ''note'' v) (\<lambda>_.
     and_then (fail_if (length v > 100000) (err_validation ''note is too long'')) (\<lambda>_.
     Inr v))"

definition shared_optional_text :: "string \<Rightarrow> string option \<Rightarrow> nat \<Rightarrow> app_error + string option" where
  "shared_optional_text name v maximum =
     (case map_option trim v of
        None \<Rightarrow> Inr None
      | Some v \<Rightarrow>
          if v = [] then Inr None
          else
            and_then (reject_unstorable_chars name v) (\<lambda>_.
            and_then (fail_if (chars_count v > maximum)
              (err_validation (name @ '' must be at most '' @ show_nat maximum @ '' characters''))) (\<lambda>_.
            Inr (Some v))))"

definition PG_DATE_FLOOR :: date where
  "PG_DATE_FLOOR = Date (- 4713) 11 24"

definition validate_due_on :: "date option \<Rightarrow> app_error + date option" where
  "validate_due_on v =
     (case v of
        Some d \<Rightarrow> if d < PG_DATE_FLOOR
          then Inl (err_validation ''due_on must be a date PostgreSQL can store'') else Inr v
      | None \<Rightarrow> Inr v)"

definition parse_role :: "string \<Rightarrow> app_error + shared_role" where
  "parse_role v = ok_or (role_parse v) (err_validation ''role must be owner, editor, or viewer'')"

definition parse_invite_role :: "string \<Rightarrow> app_error + shared_role" where
  "parse_invite_role v =
     and_then (parse_role v) (\<lambda>r.
     if r = Owner then Inl (err_validation ''invitations can only grant editor or viewer access'')
     else Inr r)"

definition shared_status :: "string \<Rightarrow> app_error + string" where
  "shared_status v =
     ok_or (map_option status_as_str (status_parse v)) (err_validation ''status must be open or completed'')"

definition shared_parse_uuid :: "shared_env \<Rightarrow> string \<Rightarrow> string \<Rightarrow> app_error + uuid" where
  "shared_parse_uuid env name v = ok_or (sh_parse_uuid env v) (err_validation (name @ '' must be a UUID''))"

definition revision_body :: "shared_env \<Rightarrow> string \<Rightarrow> app_error + int option \<times> uuid option" where
  "revision_body env body =
     (if body = [] then Inr (None, None)
      else ok_or (sh_revision_body env body)
        (err_validation ''Request body must be valid JSON matching the endpoint schema''))"

definition invitation_body :: "shared_env \<Rightarrow> string \<Rightarrow> app_error + uuid option" where
  "invitation_body env body =
     (if body = [] then Inr None
      else ok_or (sh_invitation_body env body)
        (err_validation ''Request body must be valid JSON matching the endpoint schema''))"

section \<open>Revisions\<close>

text \<open>\<open>trim_start_matches("W/")\<close> removes every leading \<open>W/\<close>.\<close>

fun trim_weak :: "string \<Rightarrow> string" where
  "trim_weak (a # b # s) = (if a = CHR ''W'' \<and> b = CHR ''/'' then trim_weak s else a # b # s)"
| "trim_weak s = s"

definition trim_matches :: "char \<Rightarrow> string \<Rightarrow> string" where
  "trim_matches c s = trim_end_matches c (dropWhile (\<lambda>x. x = c) s)"

text \<open>The \<open>If-Match\<close> header: absent, not text, or text.\<close>

definition header_revision :: "string option option \<Rightarrow> app_error + int option" where
  "header_revision h =
     (case h of
        None \<Rightarrow> Inr None
      | Some None \<Rightarrow> Inl (err_validation ''If-Match must be an integer revision'')
      | Some (Some v) \<Rightarrow>
          and_then (ok_or (parse_i64 (trim_matches (CHR 0x22) (trim_weak (trim v))))
            (err_validation ''If-Match must be an integer revision'')) (\<lambda>r. Inr (Some r)))"

definition expected_revision :: "string option option \<Rightarrow> int option \<Rightarrow> app_error + int" where
  "expected_revision h body =
     and_then (header_revision h) (\<lambda>header.
     and_then (fail_if (header \<noteq> None \<and> body \<noteq> None \<and> header \<noteq> body)
       (err_validation ''If-Match and body revision must agree'')) (\<lambda>_.
     and_then (ok_or (case header of None \<Rightarrow> body | Some r \<Rightarrow> Some r)
       (BadRequest ''REVISION_REQUIRED'' ''Provide If-Match or a revision in the request body'')) (\<lambda>revision.
     and_then (fail_if (revision \<le> 0) (err_validation ''revision must be positive'')) (\<lambda>_.
     Inr revision))))"

definition check_revision :: "int \<Rightarrow> int \<Rightarrow> app_error + unit" where
  "check_revision current expected = fail_if (current \<noteq> expected) (err_revision_conflict current)"

section \<open>Access\<close>

record shared_access =
  sa_revision :: int
  sa_role :: shared_role

definition live_list :: "shared_db \<Rightarrow> uuid \<Rightarrow> shared_list_row option" where
  "live_list db l =
     (case lookup_row sl_id (sd_lists db) l of
        None \<Rightarrow> None
      | Some r \<Rightarrow> if sl_deleted r = None then Some r else None)"

definition active_member :: "shared_db \<Rightarrow> uuid \<Rightarrow> uuid \<Rightarrow> member_row option" where
  "active_member db l u =
     (case lookup_row member_key (sd_members db) (l, u) of
        None \<Rightarrow> None
      | Some m \<Rightarrow> if sm_deleted m = None then Some m else None)"

definition lock_access :: "shared_db \<Rightarrow> uuid \<Rightarrow> uuid \<Rightarrow> app_error + shared_access" where
  "lock_access db l u =
     (case (live_list db l, active_member db l u) of
        (Some r, Some m) \<Rightarrow>
          and_then (ok_or (role_parse (sm_role m)) (Internal ''stored shared role is invalid'')) (\<lambda>role.
          Inr \<lparr>sa_revision = sl_revision r, sa_role = role\<rparr>)
      | _ \<Rightarrow>
          if live_list db l \<noteq> None \<and>
             (case lookup_row member_key (sd_members db) (l, u) of None \<Rightarrow> False | Some m \<Rightarrow> sm_deleted m \<noteq> None)
          then Inl err_access_revoked
          else Inl err_list_not_found)"

definition require_editor :: "shared_role \<Rightarrow> app_error + unit" where
  "require_editor r =
     fail_if (\<not> can_edit r) (err_shared_forbidden ''Editor access is required for this shared list'')"

definition require_owner :: "shared_role \<Rightarrow> app_error + unit" where
  "require_owner r =
     fail_if (\<not> is_owner r) (err_shared_forbidden ''Owner access is required for this shared list'')"

text \<open>\<open>CHECK (revision > 0)\<close> refuses a revision that wrapped around.\<close>

definition bump_revision :: "clocks \<Rightarrow> uuid \<Rightarrow> int \<Rightarrow> shared_db \<Rightarrow> app_error + int \<times> shared_db" where
  "bump_revision ck l current db =
     and_then (fail_if (current + 1 > I64_MAX) shared_db_error) (\<lambda>_.
     Inr (current + 1, db\<lparr>sd_lists := update_rows sl_id l
       (\<lambda>r. r\<lparr>sl_revision := current + 1, sl_updated := ck_tx ck\<rparr>) (sd_lists db)\<rparr>))"

definition replay_receipt :: "shared_db \<Rightarrow> uuid \<Rightarrow> uuid option \<Rightarrow> uuid \<Rightarrow> app_error + int option" where
  "replay_receipt db l op actor =
     (case op of
        None \<Rightarrow> Inr None
      | Some op \<Rightarrow>
          (case lookup_row shared_receipt_key (sd_receipts db) (l, op) of
             None \<Rightarrow> Inr None
           | Some r \<Rightarrow> if so_actor r = actor then Inr (Some (so_revision r)) else Inl err_op_conflict))"

definition shared_insert_receipt ::
  "shared_env \<Rightarrow> uuid \<Rightarrow> uuid \<Rightarrow> uuid option \<Rightarrow> int \<Rightarrow> shared_db \<Rightarrow> app_error + shared_db" where
  "shared_insert_receipt env l actor op revision db =
     (let (op, db) = (case op of Some op \<Rightarrow> (op, db) | None \<Rightarrow> shared_uuid env db) in
      and_then (fail_if (lookup_row shared_receipt_key (sd_receipts db) (l, op) \<noteq> None) shared_db_error) (\<lambda>_.
      Inr (db\<lparr>sd_receipts := sd_receipts db @
        [\<lparr>so_list = l, so_op = op, so_actor = actor, so_revision = revision\<rparr>]\<rparr>)))"

end
