(* ===== verification/ApiSharedOps.thy ===== *)
theory ApiSharedOps
  imports ApiShared
begin

text \<open>
  The endpoints of \<open>apps/api/src/shared.rs\<close>: what they read, and the writes, each with its
  checks in the order of the code.
\<close>

section \<open>What the endpoints answer\<close>

record shared_list_summary =
  su_id :: uuid
  su_owner :: uuid
  su_name :: string
  su_color :: "string option"
  su_icon :: "string option"
  su_rank :: string
  su_revision :: int
  su_role :: string
  su_created :: int
  su_updated :: int

record shared_task =
  tk_id :: uuid
  tk_list :: uuid
  tk_title :: string
  tk_note :: string
  tk_status :: string
  tk_important :: bool
  tk_due_on :: "date option"
  tk_rank :: string
  tk_revision :: int
  tk_created :: int
  tk_updated :: int

record shared_step =
  sx_id :: uuid
  sx_task :: uuid
  sx_title :: string
  sx_completed :: bool
  sx_rank :: string
  sx_created :: int
  sx_updated :: int

record shared_member =
  mb_user :: uuid
  mb_email :: string
  mb_role :: string
  mb_created :: int

record shared_invitation =
  iv_id :: uuid
  iv_list :: uuid
  iv_list_name :: string
  iv_email :: string
  iv_role :: string
  iv_status :: string
  iv_invited_by :: uuid
  iv_invited_by_email :: string
  iv_revision :: int
  iv_created :: int
  iv_updated :: int

record shared_snapshot =
  sn_list :: shared_list_summary
  sn_members :: "shared_member list"
  sn_invitations :: "shared_invitation list"
  sn_tasks :: "shared_task list"
  sn_steps :: "shared_step list"
  sn_revision :: int

datatype shared_answer =
    AnsList shared_list_summary
  | AnsLists "shared_list_summary list"
  | AnsSnapshot shared_snapshot
  | AnsTask shared_task
  | AnsMember shared_member
  | AnsInvitation shared_invitation
  | AnsInvitations "shared_invitation list"
  | AnsReplayed int
  | AnsNoContent

section \<open>Reads\<close>

definition summary_of :: "shared_list_row \<Rightarrow> string \<Rightarrow> shared_list_summary" where
  "summary_of l role =
     \<lparr>su_id = sl_id l, su_owner = sl_owner l, su_name = sl_name l, su_color = sl_color l,
      su_icon = sl_icon l, su_rank = sl_rank l, su_revision = sl_revision l, su_role = role,
      su_created = sl_created l, su_updated = sl_updated l\<rparr>"

definition shared_task_of :: "int \<Rightarrow> shared_task_row \<Rightarrow> shared_task" where
  "shared_task_of revision t =
     \<lparr>tk_id = st_id t, tk_list = st_list t, tk_title = st_title t, tk_note = st_note t,
      tk_status = st_status t, tk_important = st_important t, tk_due_on = st_due_on t,
      tk_rank = st_rank t, tk_revision = revision, tk_created = st_created t, tk_updated = st_updated t\<rparr>"

definition shared_step_of :: "shared_step_row \<Rightarrow> shared_step" where
  "shared_step_of s =
     \<lparr>sx_id = sp_id s, sx_task = sp_task s, sx_title = sp_title s, sx_completed = sp_completed s,
      sx_rank = sp_rank s, sx_created = sp_created s, sx_updated = sp_updated s\<rparr>"

text \<open>\<open>INVITATION_SELECT\<close>: the invitation joined with its list and the inviting user.\<close>

definition invitation_select :: "shared_db \<Rightarrow> invitation_row \<Rightarrow> shared_invitation option" where
  "invitation_select db i =
     (case (lookup_row sl_id (sd_lists db) (si_list i), lookup_row au_id (sd_users db) (si_invited_by i)) of
        (Some l, Some u) \<Rightarrow> Some
          \<lparr>iv_id = si_id i, iv_list = si_list i, iv_list_name = sl_name l, iv_email = si_email i,
           iv_role = si_role i, iv_status = si_status i, iv_invited_by = si_invited_by i,
           iv_invited_by_email = au_email u, iv_revision = sl_revision l, iv_created = si_created i,
           iv_updated = si_updated i\<rparr>
      | _ \<Rightarrow> None)"

definition fetch_list_summary :: "shared_db \<Rightarrow> uuid \<Rightarrow> uuid \<Rightarrow> app_error + shared_list_summary" where
  "fetch_list_summary db l u =
     (case (live_list db l, active_member db l u) of
        (Some r, Some m) \<Rightarrow> Inr (summary_of r (sm_role m))
      | _ \<Rightarrow> Inl err_list_not_found)"

definition live_task :: "shared_db \<Rightarrow> uuid \<Rightarrow> uuid \<Rightarrow> shared_task_row option" where
  "live_task db l t =
     (case lookup_row st_id (sd_tasks db) t of
        None \<Rightarrow> None
      | Some r \<Rightarrow> if st_list r = l \<and> st_deleted r = None then Some r else None)"

definition fetch_task :: "shared_db \<Rightarrow> uuid \<Rightarrow> uuid \<Rightarrow> app_error + shared_task" where
  "fetch_task db l t =
     (case (live_task db l t, lookup_row sl_id (sd_lists db) l) of
        (Some r, Some sl) \<Rightarrow> Inr (shared_task_of (sl_revision sl) r)
      | _ \<Rightarrow> Inl err_shared_task_not_found)"

definition fetch_member :: "shared_db \<Rightarrow> uuid \<Rightarrow> uuid \<Rightarrow> app_error + shared_member" where
  "fetch_member db l u =
     (case (active_member db l u, lookup_row au_id (sd_users db) u) of
        (Some m, Some a) \<Rightarrow> Inr \<lparr>mb_user = u, mb_email = au_email a, mb_role = sm_role m, mb_created = sm_created m\<rparr>
      | _ \<Rightarrow> Inl err_member_not_found)"

definition fetch_invitation :: "shared_db \<Rightarrow> uuid \<Rightarrow> app_error + shared_invitation" where
  "fetch_invitation db i =
     ok_or (Option.bind (lookup_row si_id (sd_invitations db) i) (invitation_select db)) err_invitation_not_found"

definition pending_for :: "uuid \<Rightarrow> string \<Rightarrow> invitation_row \<Rightarrow> bool" where
  "pending_for l email i \<longleftrightarrow> si_list i = l \<and> si_email i = email \<and> si_status i = ''pending''"

definition fetch_pending_invitation :: "shared_db \<Rightarrow> uuid \<Rightarrow> string \<Rightarrow> shared_invitation option" where
  "fetch_pending_invitation db l email =
     Option.bind (find (pending_for l email) (sd_invitations db)) (invitation_select db)"

text \<open>\<open>ORDER BY a DESC, b\<close>\<close>

definition order_desc :: "('r \<Rightarrow> int) \<Rightarrow> ('r \<Rightarrow> uuid) \<Rightarrow> 'r list \<Rightarrow> 'r list" where
  "order_desc a b rs = rev (sort_key a (rev (sort_key b rs)))"

definition shared_list_lists :: "uuid \<Rightarrow> shared_db \<Rightarrow> shared_list_summary list" where
  "shared_list_lists u db =
     order_desc su_updated su_id
       (List.map_filter (\<lambda>l. case active_member db (sl_id l) u of
           Some m \<Rightarrow> if sl_deleted l = None then Some (summary_of l (sm_role m)) else None
         | None \<Rightarrow> None) (sd_lists db))"

definition shared_list_invitations :: "uuid \<Rightarrow> shared_db \<Rightarrow> shared_invitation list" where
  "shared_list_invitations u db =
     (case lookup_row au_id (sd_users db) u of
        None \<Rightarrow> []
      | Some me \<Rightarrow>
          if au_deleted me \<noteq> None then []
          else order_desc iv_created iv_id
            (List.map_filter (invitation_select db)
              (filter (\<lambda>i. si_email i = au_email me \<and> si_status i = ''pending'' \<and> live_list db (si_list i) \<noteq> None)
                (sd_invitations db))))"

definition shared_get_list :: "shared_env \<Rightarrow> uuid \<Rightarrow> string \<Rightarrow> shared_db \<Rightarrow> app_error + shared_snapshot" where
  "shared_get_list env u list_id db =
     and_then (shared_parse_uuid env ''list_id'' list_id) (\<lambda>l.
     and_then (lock_access db l u) (\<lambda>access.
     and_then (fetch_list_summary db l u) (\<lambda>summary.
     let invitations =
           (if is_owner (sa_role access)
            then List.map_filter (invitation_select db)
              (sort_key (\<lambda>i. (si_created i, si_id i))
                (filter (\<lambda>i. si_list i = l \<and> si_status i = ''pending'') (sd_invitations db)))
            else []);
         members =
           List.map_filter (\<lambda>m. case lookup_row au_id (sd_users db) (sm_user m) of
               Some a \<Rightarrow> if au_deleted a = None
                 then Some \<lparr>mb_user = sm_user m, mb_email = au_email a, mb_role = sm_role m, mb_created = sm_created m\<rparr>
                 else None
             | None \<Rightarrow> None)
             (sort_key (\<lambda>m. (sm_created m, sm_user m))
               (filter (\<lambda>m. sm_list m = l \<and> sm_deleted m = None) (sd_members db)));
         live = filter (\<lambda>t. st_list t = l \<and> st_deleted t = None) (sd_tasks db);
         tasks = map (shared_task_of (su_revision summary))
           (sort_key (\<lambda>t. (sh_collate env (st_rank t), st_created t, st_id t)) live);
         steps = map shared_step_of
           (sort_key (\<lambda>s. (sp_task s, sh_collate env (sp_rank s), sp_created s, sp_id s))
             (filter (\<lambda>s. sp_task s \<in> st_id ` set live \<and> sp_deleted s = None) (sd_steps db)))
     in Inr \<lparr>sn_list = summary, sn_members = members, sn_invitations = invitations, sn_tasks = tasks,
          sn_steps = steps, sn_revision = su_revision summary\<rparr>)))"

section \<open>Lists and tasks\<close>

record create_list_request =
  cl_name :: string
  cl_color :: "string option"
  cl_icon :: "string option"
  cl_op :: "uuid option"

definition shared_create_list ::
  "shared_env \<Rightarrow> clocks \<Rightarrow> uuid \<Rightarrow> create_list_request \<Rightarrow> shared_db \<Rightarrow> app_error + shared_answer \<times> shared_db" where
  "shared_create_list env ck u request db =
     and_then (shared_text ''name'' (cl_name request) 120) (\<lambda>name.
     and_then (shared_optional_text ''color'' (cl_color request) 64) (\<lambda>color.
     and_then (shared_optional_text ''icon'' (cl_icon request) 128) (\<lambda>icon.
     let (list_id, db) = shared_uuid env db in
     and_then (fail_if (lookup_row sl_id (sd_lists db) list_id \<noteq> None \<or> lookup_row au_id (sd_users db) u = None)
       shared_db_error) (\<lambda>_.
     let db = db\<lparr>sd_lists := sd_lists db @ [\<lparr>sl_id = list_id, sl_owner = u, sl_name = name, sl_color = color,
            sl_icon = icon, sl_rank = ''a0'', sl_revision = 1, sl_created = ck_tx ck, sl_updated = ck_tx ck,
            sl_deleted = None\<rparr>]\<rparr> in
     and_then (fail_if (lookup_row member_key (sd_members db) (list_id, u) \<noteq> None) shared_db_error) (\<lambda>_.
     let db = db\<lparr>sd_members := sd_members db @ [\<lparr>sm_list = list_id, sm_user = u, sm_role = ''owner'',
            sm_created = ck_tx ck, sm_deleted = None\<rparr>]\<rparr> in
     and_then (shared_insert_receipt env list_id u (cl_op request) 1 db) (\<lambda>db.
     Inr (AnsList \<lparr>su_id = list_id, su_owner = u, su_name = name, su_color = color, su_icon = icon,
            su_rank = ''a0'', su_revision = 1, su_role = role_as_str Owner, su_created = ck_app ck,
            su_updated = ck_app ck\<rparr>, db)))))))"

record create_task_request =
  ct_id :: "uuid option"
  ct_title :: string
  ct_note :: "string option"
  ct_important :: "bool option"
  ct_due_on :: "date option"
  ct_revision :: "int option"
  ct_op :: "uuid option"

text \<open>Inserting into \<open>shared_tasks\<close>, whose ids are unique across lists.\<close>

definition insert_shared_task :: "shared_task_row \<Rightarrow> shared_db \<Rightarrow> app_error + shared_db" where
  "insert_shared_task t db =
     and_then (fail_if (lookup_row st_id (sd_tasks db) (st_id t) \<noteq> None)
       (Conflict ''SHARED_TASK_EXISTS'' ''A shared task with that id already exists'')) (\<lambda>_.
     Inr (db\<lparr>sd_tasks := sd_tasks db @ [t]\<rparr>))"

definition shared_create_task ::
  "shared_env \<Rightarrow> clocks \<Rightarrow> uuid \<Rightarrow> string \<Rightarrow> string option option \<Rightarrow> create_task_request \<Rightarrow> shared_db \<Rightarrow>
   app_error + shared_answer \<times> shared_db" where
  "shared_create_task env ck u list_id if_match request db =
     and_then (shared_parse_uuid env ''list_id'' list_id) (\<lambda>l.
     and_then (lock_access db l u) (\<lambda>access.
     and_then (require_editor (sa_role access)) (\<lambda>_.
     and_then (replay_receipt db l (ct_op request) u) (\<lambda>replayed.
     case replayed of
       Some replayed_revision \<Rightarrow>
         (case map_option (fetch_task db l) (ct_id request) of
            Some (Inr task) \<Rightarrow> Inr (AnsTask task, db)
          | _ \<Rightarrow> Inr (AnsReplayed replayed_revision, db))
     | None \<Rightarrow>
         and_then (expected_revision if_match (ct_revision request)) (\<lambda>expected.
         and_then (check_revision (sa_revision access) expected) (\<lambda>_.
         and_then (shared_text ''title'' (ct_title request) 1000) (\<lambda>title.
         and_then (shared_note (case ct_note request of None \<Rightarrow> [] | Some n \<Rightarrow> n)) (\<lambda>note.
         and_then (validate_due_on (ct_due_on request)) (\<lambda>due_on.
         let (task_id, db) = (case ct_id request of Some i \<Rightarrow> (i, db) | None \<Rightarrow> shared_uuid env db);
             important = (case ct_important request of None \<Rightarrow> False | Some b \<Rightarrow> b) in
         and_then (insert_shared_task \<lparr>st_id = task_id, st_list = l, st_title = title, st_note = note,
             st_status = ''open'', st_important = important, st_due_on = due_on, st_rank = ''a0'',
             st_created = ck_app ck, st_updated = ck_app ck, st_deleted = None\<rparr> db) (\<lambda>db.
         and_then (bump_revision ck l (sa_revision access) db) (\<lambda>(new_revision, db).
         and_then (shared_insert_receipt env l u (ct_op request) new_revision db) (\<lambda>db.
         Inr (AnsTask \<lparr>tk_id = task_id, tk_list = l, tk_title = title, tk_note = note, tk_status = ''open'',
                tk_important = important, tk_due_on = due_on, tk_rank = ''a0'', tk_revision = new_revision,
                tk_created = ck_app ck, tk_updated = ck_app ck\<rparr>, db)))))))))))))"

record patch_task_request =
  pt_title :: "string option"
  pt_note :: "string option"
  pt_status :: "string option"
  pt_important :: "bool option"
  pt_due_on :: "date option option"
  pt_revision :: "int option"
  pt_op :: "uuid option"

text \<open>The new columns of a patched task.\<close>

definition patched_task :: "clocks \<Rightarrow> patch_task_request \<Rightarrow> shared_task_row \<Rightarrow> app_error + shared_task_row" where
  "patched_task ck request row =
     and_then (case pt_title request of Some v \<Rightarrow> shared_text ''title'' v 1000 | None \<Rightarrow> Inr (st_title row)) (\<lambda>title.
     and_then (case pt_note request of Some v \<Rightarrow> shared_note v | None \<Rightarrow> Inr (st_note row)) (\<lambda>note.
     and_then (case pt_status request of Some v \<Rightarrow> shared_status v | None \<Rightarrow> Inr (st_status row)) (\<lambda>status.
     let important = (case pt_important request of None \<Rightarrow> st_important row | Some b \<Rightarrow> b) in
     and_then (validate_due_on (case pt_due_on request of None \<Rightarrow> st_due_on row | Some d \<Rightarrow> d)) (\<lambda>due_on.
     Inr (row\<lparr>st_title := title, st_note := note, st_status := status, st_important := important,
              st_due_on := due_on, st_updated := ck_tx ck\<rparr>)))))"

definition shared_patch_task ::
  "shared_env \<Rightarrow> clocks \<Rightarrow> uuid \<Rightarrow> string \<Rightarrow> string \<Rightarrow> string option option \<Rightarrow> patch_task_request \<Rightarrow> shared_db \<Rightarrow>
   app_error + shared_answer \<times> shared_db" where
  "shared_patch_task env ck u list_id task_id if_match request db =
     and_then (shared_parse_uuid env ''list_id'' list_id) (\<lambda>l.
     and_then (shared_parse_uuid env ''task_id'' task_id) (\<lambda>t.
     and_then (fail_if (pt_title request = None \<and> pt_note request = None \<and> pt_status request = None \<and>
         pt_important request = None \<and> pt_due_on request = None)
       (err_validation ''at least one task field must be supplied'')) (\<lambda>_.
     and_then (lock_access db l u) (\<lambda>access.
     and_then (require_editor (sa_role access)) (\<lambda>_.
     and_then (replay_receipt db l (pt_op request) u) (\<lambda>replayed.
     if replayed \<noteq> None then and_then (fetch_task db l t) (\<lambda>task. Inr (AnsTask task, db))
     else
       and_then (expected_revision if_match (pt_revision request)) (\<lambda>expected.
       and_then (check_revision (sa_revision access) expected) (\<lambda>_.
       and_then (ok_or (live_task db l t) err_shared_task_not_found) (\<lambda>row.
       and_then (patched_task ck request row) (\<lambda>row.
       let db = db\<lparr>sd_tasks := update_rows st_id t (\<lambda>_. row) (sd_tasks db)\<rparr> in
       and_then (bump_revision ck l (sa_revision access) db) (\<lambda>(new_revision, db).
       and_then (shared_insert_receipt env l u (pt_op request) new_revision db) (\<lambda>db.
       and_then (fetch_task db l t) (\<lambda>task.
       Inr (AnsTask task, db))))))))))))))"

text \<open>
  What the writes without an answer share: access, the role they need, a receipt that ends them,
  the revision check, then the change, the new revision and its receipt.
\<close>

definition revision_write ::
  "shared_env \<Rightarrow> clocks \<Rightarrow> uuid \<Rightarrow> uuid \<Rightarrow> (shared_role \<Rightarrow> app_error + unit) \<Rightarrow> string option option \<Rightarrow>
   int option \<times> uuid option \<Rightarrow> (shared_db \<Rightarrow> app_error + shared_db) \<Rightarrow> shared_db \<Rightarrow>
   app_error + shared_answer \<times> shared_db" where
  "revision_write env ck u l require if_match request change db =
     and_then (lock_access db l u) (\<lambda>access.
     and_then (require (sa_role access)) (\<lambda>_.
     and_then (replay_receipt db l (snd request) u) (\<lambda>replayed.
     if replayed \<noteq> None then Inr (AnsNoContent, db)
     else
       and_then (expected_revision if_match (fst request)) (\<lambda>expected.
       and_then (check_revision (sa_revision access) expected) (\<lambda>_.
       and_then (change db) (\<lambda>db.
       and_then (bump_revision ck l (sa_revision access) db) (\<lambda>(new_revision, db).
       and_then (shared_insert_receipt env l u (snd request) new_revision db) (\<lambda>db.
       Inr (AnsNoContent, db)))))))))"

definition tombstone_task :: "clocks \<Rightarrow> uuid \<Rightarrow> uuid \<Rightarrow> shared_db \<Rightarrow> app_error + shared_db" where
  "tombstone_task ck l t db =
     and_then (ok_or (live_task db l t) err_shared_task_not_found) (\<lambda>_.
     Inr (db\<lparr>sd_tasks := update_rows st_id t
       (\<lambda>r. r\<lparr>st_deleted := Some (ck_tx ck), st_updated := ck_tx ck\<rparr>) (sd_tasks db)\<rparr>))"

definition shared_delete_task ::
  "shared_env \<Rightarrow> clocks \<Rightarrow> uuid \<Rightarrow> string \<Rightarrow> string \<Rightarrow> string option option \<Rightarrow> string \<Rightarrow> shared_db \<Rightarrow>
   app_error + shared_answer \<times> shared_db" where
  "shared_delete_task env ck u list_id task_id if_match body db =
     and_then (revision_body env body) (\<lambda>request.
     and_then (shared_parse_uuid env ''list_id'' list_id) (\<lambda>l.
     and_then (shared_parse_uuid env ''task_id'' task_id) (\<lambda>t.
     revision_write env ck u l require_editor if_match request (tombstone_task ck l t) db)))"

text \<open>Deleting bumps the revision first; the two updates touch different columns of the row.\<close>

definition shared_delete_list ::
  "shared_env \<Rightarrow> clocks \<Rightarrow> uuid \<Rightarrow> string \<Rightarrow> string option option \<Rightarrow> string \<Rightarrow> shared_db \<Rightarrow>
   app_error + shared_answer \<times> shared_db" where
  "shared_delete_list env ck u list_id if_match body db =
     and_then (revision_body env body) (\<lambda>request.
     and_then (shared_parse_uuid env ''list_id'' list_id) (\<lambda>l.
     revision_write env ck u l require_owner if_match request
       (\<lambda>db. Inr (db\<lparr>sd_lists := update_rows sl_id l
          (\<lambda>r. r\<lparr>sl_deleted := Some (ck_tx ck), sl_updated := ck_tx ck\<rparr>) (sd_lists db)\<rparr>)) db))"

section \<open>Members and invitations\<close>

record add_member_request =
  am_email :: string
  am_role :: string
  am_revision :: "int option"
  am_op :: "uuid option"

text \<open>\<open>ON CONFLICT (list_id, email_normalized) WHERE status = 'pending' DO UPDATE\<close>\<close>

definition upsert_invitation ::
  "shared_env \<Rightarrow> clocks \<Rightarrow> uuid \<Rightarrow> string \<Rightarrow> shared_role \<Rightarrow> uuid \<Rightarrow> shared_db \<Rightarrow> app_error + uuid \<times> shared_db" where
  "upsert_invitation env ck l email role u db =
     (let (new_id, db) = shared_uuid env db in
      case find (pending_for l email) (sd_invitations db) of
        Some i \<Rightarrow> Inr (si_id i, db\<lparr>sd_invitations := update_rows si_id (si_id i)
          (\<lambda>i. i\<lparr>si_role := role_as_str role, si_invited_by := u, si_updated := ck_tx ck\<rparr>) (sd_invitations db)\<rparr>)
      | None \<Rightarrow>
          and_then (fail_if (lookup_row si_id (sd_invitations db) new_id \<noteq> None) shared_db_error) (\<lambda>_.
          Inr (new_id, db\<lparr>sd_invitations := sd_invitations db @
            [\<lparr>si_id = new_id, si_list = l, si_email = email, si_role = role_as_str role,
              si_status = ''pending'', si_invited_by = u, si_responded_by = None,
              si_created = ck_tx ck, si_updated = ck_tx ck, si_responded = None\<rparr>]\<rparr>)))"

definition already_member :: "shared_db \<Rightarrow> uuid \<Rightarrow> string \<Rightarrow> bool" where
  "already_member db l email \<longleftrightarrow>
     list_ex (\<lambda>m. sm_list m = l \<and> sm_deleted m = None \<and>
       (case lookup_row au_id (sd_users db) (sm_user m) of
          None \<Rightarrow> False | Some a \<Rightarrow> au_email a = email \<and> au_deleted a = None)) (sd_members db)"

definition shared_add_member ::
  "shared_env \<Rightarrow> clocks \<Rightarrow> uuid \<Rightarrow> string \<Rightarrow> string option option \<Rightarrow> add_member_request \<Rightarrow> shared_db \<Rightarrow>
   app_error + shared_answer \<times> shared_db" where
  "shared_add_member env ck u list_id if_match request db =
     and_then (shared_parse_uuid env ''list_id'' list_id) (\<lambda>l.
     and_then (parse_invite_role (am_role request)) (\<lambda>role.
     and_then (map_err (\<lambda>_. err_validation ''email must be a valid email address'')
       (normalize_email (am_email request))) (\<lambda>email.
     and_then (lock_access db l u) (\<lambda>access.
     and_then (require_owner (sa_role access)) (\<lambda>_.
     and_then (replay_receipt db l (am_op request) u) (\<lambda>replayed.
     case replayed of
       Some revision \<Rightarrow>
         (case fetch_pending_invitation db l email of
            Some invitation \<Rightarrow> Inr (AnsInvitation invitation, db)
          | None \<Rightarrow> Inr (AnsReplayed revision, db))
     | None \<Rightarrow>
         and_then (expected_revision if_match (am_revision request)) (\<lambda>expected.
         and_then (check_revision (sa_revision access) expected) (\<lambda>_.
         and_then (fail_if (already_member db l email)
           (Conflict ''SHARED_MEMBER_EXISTS'' ''That email already belongs to a member of this shared list'')) (\<lambda>_.
         and_then (upsert_invitation env ck l email role u db) (\<lambda>(invitation_id, db).
         and_then (bump_revision ck l (sa_revision access) db) (\<lambda>(new_revision, db).
         and_then (shared_insert_receipt env l u (am_op request) new_revision db) (\<lambda>db.
         and_then (fetch_invitation db invitation_id) (\<lambda>invitation.
         Inr (AnsInvitation invitation, db))))))))))))))"

record invitation_lock =
  il_list :: uuid
  il_revision :: int
  il_role :: shared_role
  il_status :: string
  il_responded_by :: "uuid option"

definition lock_invitation :: "shared_db \<Rightarrow> uuid \<Rightarrow> uuid \<Rightarrow> app_error + invitation_lock" where
  "lock_invitation db i u =
     (case (lookup_row si_id (sd_invitations db) i, lookup_row au_id (sd_users db) u) of
        (Some invite, Some me) \<Rightarrow>
          and_then (fail_if (au_email me \<noteq> si_email invite \<or> au_deleted me \<noteq> None) err_invitation_not_found) (\<lambda>_.
          and_then (ok_or (live_list db (si_list invite)) err_invitation_not_found) (\<lambda>r.
          and_then (ok_or (role_parse (si_role invite)) (Internal ''stored invitation role is invalid'')) (\<lambda>role.
          Inr \<lparr>il_list = si_list invite, il_revision = sl_revision r, il_role = role, il_status = si_status invite,
               il_responded_by = si_responded_by invite\<rparr>)))
      | _ \<Rightarrow> Inl err_invitation_not_found)"

definition respond_to_invitation :: "clocks \<Rightarrow> uuid \<Rightarrow> uuid \<Rightarrow> string \<Rightarrow> shared_db \<Rightarrow> shared_db" where
  "respond_to_invitation ck i u status db =
     db\<lparr>sd_invitations := map (\<lambda>r. if si_id r = i \<and> si_status r = ''pending''
        then r\<lparr>si_status := status, si_responded_by := Some u, si_responded := Some (ck_tx ck), si_updated := ck_tx ck\<rparr>
        else r) (sd_invitations db)\<rparr>"

text \<open>\<open>ON CONFLICT (list_id, user_id) DO UPDATE ... WHERE deleted_at IS NOT NULL\<close>\<close>

definition join_list :: "clocks \<Rightarrow> uuid \<Rightarrow> uuid \<Rightarrow> shared_role \<Rightarrow> shared_db \<Rightarrow> shared_db" where
  "join_list ck l u role db =
     (case lookup_row member_key (sd_members db) (l, u) of
        None \<Rightarrow> db\<lparr>sd_members := sd_members db @ [\<lparr>sm_list = l, sm_user = u, sm_role = role_as_str role,
            sm_created = ck_tx ck, sm_deleted = None\<rparr>]\<rparr>
      | Some m \<Rightarrow>
          if sm_deleted m = None then db
          else db\<lparr>sd_members := update_rows member_key (l, u)
            (\<lambda>m. m\<lparr>sm_role := role_as_str role, sm_deleted := None\<rparr>) (sd_members db)\<rparr>)"

definition shared_accept_invitation ::
  "shared_env \<Rightarrow> clocks \<Rightarrow> uuid \<Rightarrow> string \<Rightarrow> string \<Rightarrow> shared_db \<Rightarrow> app_error + shared_answer \<times> shared_db" where
  "shared_accept_invitation env ck u invitation_id body db =
     and_then (invitation_body env body) (\<lambda>op.
     and_then (shared_parse_uuid env ''invitation_id'' invitation_id) (\<lambda>i.
     and_then (lock_invitation db i u) (\<lambda>invite.
     and_then (replay_receipt db (il_list invite) op u) (\<lambda>replayed.
     if replayed \<noteq> None \<or> (il_status invite = ''accepted'' \<and> il_responded_by invite = Some u) then
       (case fetch_list_summary db (il_list invite) u of
          Inr summary \<Rightarrow> Inr (AnsList summary, db)
        | Inl (NotFound _ _) \<Rightarrow> Inl err_invitation_not_pending
        | Inl e \<Rightarrow> Inl e)
     else
       and_then (fail_if (il_status invite \<noteq> ''pending'') err_invitation_not_pending) (\<lambda>_.
       let db = respond_to_invitation ck i u ''accepted'' (join_list ck (il_list invite) u (il_role invite) db) in
       and_then (bump_revision ck (il_list invite) (il_revision invite) db) (\<lambda>(new_revision, db).
       and_then (shared_insert_receipt env (il_list invite) u op new_revision db) (\<lambda>db.
       and_then (fetch_list_summary db (il_list invite) u) (\<lambda>summary.
       Inr (AnsList summary, db)))))))))"

definition shared_decline_invitation ::
  "shared_env \<Rightarrow> clocks \<Rightarrow> uuid \<Rightarrow> string \<Rightarrow> string \<Rightarrow> shared_db \<Rightarrow> app_error + shared_answer \<times> shared_db" where
  "shared_decline_invitation env ck u invitation_id body db =
     and_then (invitation_body env body) (\<lambda>op.
     and_then (shared_parse_uuid env ''invitation_id'' invitation_id) (\<lambda>i.
     and_then (lock_invitation db i u) (\<lambda>invite.
     and_then (replay_receipt db (il_list invite) op u) (\<lambda>replayed.
     if replayed \<noteq> None \<or> (il_status invite = ''declined'' \<and> il_responded_by invite = Some u)
     then Inr (AnsNoContent, db)
     else
       and_then (fail_if (il_status invite \<noteq> ''pending'') err_invitation_not_pending) (\<lambda>_.
       let db = respond_to_invitation ck i u ''declined'' db in
       and_then (bump_revision ck (il_list invite) (il_revision invite) db) (\<lambda>(new_revision, db).
       and_then (shared_insert_receipt env (il_list invite) u op new_revision db) (\<lambda>db.
       Inr (AnsNoContent, db))))))))"

record patch_member_request =
  pm_role :: string
  pm_revision :: "int option"
  pm_op :: "uuid option"

definition shared_patch_member ::
  "shared_env \<Rightarrow> clocks \<Rightarrow> uuid \<Rightarrow> string \<Rightarrow> string \<Rightarrow> string option option \<Rightarrow> patch_member_request \<Rightarrow> shared_db \<Rightarrow>
   app_error + shared_answer \<times> shared_db" where
  "shared_patch_member env ck u list_id user_id if_match request db =
     and_then (shared_parse_uuid env ''list_id'' list_id) (\<lambda>l.
     and_then (shared_parse_uuid env ''user_id'' user_id) (\<lambda>target.
     and_then (parse_role (pm_role request)) (\<lambda>role.
     and_then (fail_if (target = u \<and> \<not> is_owner role)
       (err_validation ''the list owner cannot demote their own membership'')) (\<lambda>_.
     and_then (lock_access db l u) (\<lambda>access.
     and_then (require_owner (sa_role access)) (\<lambda>_.
     and_then (replay_receipt db l (pm_op request) u) (\<lambda>replayed.
     if replayed \<noteq> None then and_then (fetch_member db l target) (\<lambda>m. Inr (AnsMember m, db))
     else
       and_then (expected_revision if_match (pm_revision request)) (\<lambda>expected.
       and_then (check_revision (sa_revision access) expected) (\<lambda>_.
       and_then (ok_or (active_member db l target) err_member_not_found) (\<lambda>_.
       let db = db\<lparr>sd_members := update_rows member_key (l, target)
              (\<lambda>m. m\<lparr>sm_role := role_as_str role\<rparr>) (sd_members db)\<rparr> in
       and_then (bump_revision ck l (sa_revision access) db) (\<lambda>(new_revision, db).
       and_then (shared_insert_receipt env l u (pm_op request) new_revision db) (\<lambda>db.
       and_then (fetch_member db l target) (\<lambda>m.
       Inr (AnsMember m, db))))))))))))))"

definition shared_remove_member ::
  "shared_env \<Rightarrow> clocks \<Rightarrow> uuid \<Rightarrow> string \<Rightarrow> string \<Rightarrow> string option option \<Rightarrow> string \<Rightarrow> shared_db \<Rightarrow>
   app_error + shared_answer \<times> shared_db" where
  "shared_remove_member env ck u list_id user_id if_match body db =
     and_then (revision_body env body) (\<lambda>request.
     and_then (shared_parse_uuid env ''list_id'' list_id) (\<lambda>l.
     and_then (shared_parse_uuid env ''user_id'' user_id) (\<lambda>target.
     and_then (fail_if (target = u) (err_validation ''the list owner cannot remove themselves'')) (\<lambda>_.
     revision_write env ck u l require_owner if_match request
       (\<lambda>db. and_then (ok_or (active_member db l target) err_member_not_found) (\<lambda>_.
          Inr (db\<lparr>sd_members := update_rows member_key (l, target)
            (\<lambda>m. m\<lparr>sm_deleted := Some (ck_tx ck)\<rparr>) (sd_members db)\<rparr>))) db))))"

end
