(* ===== verification/ApiSharedFacts.thy ===== *)
theory ApiSharedFacts
  imports ApiSharedOps
begin

text \<open>
  What a shared-list request does when it does anything: one change of the list's tables by a
  caller who may make it (\<open>list_change\<close>), then the next revision and a receipt (\<open>commit\<close>).
\<close>

section \<open>Requests\<close>

datatype shared_event =
    CreateList create_list_request
  | CreateTask string "string option option" create_task_request
  | PatchTask string string "string option option" patch_task_request
  | DeleteTask string string "string option option" string
  | DeleteList string "string option option" string
  | AddMember string "string option option" add_member_request
  | PatchMember string string "string option option" patch_member_request
  | RemoveMember string string "string option option" string
  | AcceptInvitation string string
  | DeclineInvitation string string

fun shared_exec ::
  "shared_env \<Rightarrow> clocks \<Rightarrow> uuid \<Rightarrow> shared_event \<Rightarrow> shared_db \<Rightarrow> app_error + shared_answer \<times> shared_db" where
  "shared_exec env ck u (CreateList r) db = shared_create_list env ck u r db"
| "shared_exec env ck u (CreateTask l h r) db = shared_create_task env ck u l h r db"
| "shared_exec env ck u (PatchTask l t h r) db = shared_patch_task env ck u l t h r db"
| "shared_exec env ck u (DeleteTask l t h b) db = shared_delete_task env ck u l t h b db"
| "shared_exec env ck u (DeleteList l h b) db = shared_delete_list env ck u l h b db"
| "shared_exec env ck u (AddMember l h r) db = shared_add_member env ck u l h r db"
| "shared_exec env ck u (PatchMember l v h r) db = shared_patch_member env ck u l v h r db"
| "shared_exec env ck u (RemoveMember l v h b) db = shared_remove_member env ck u l v h b db"
| "shared_exec env ck u (AcceptInvitation i b) db = shared_accept_invitation env ck u i b db"
| "shared_exec env ck u (DeclineInvitation i b) db = shared_decline_invitation env ck u i b db"

text \<open>A request that fails rolls back.\<close>

definition shared_step :: "shared_env \<Rightarrow> clocks \<times> uuid \<times> shared_event \<Rightarrow> shared_db \<Rightarrow> shared_db" where
  "shared_step env r db =
     (case r of (ck, u, ev) \<Rightarrow> case shared_exec env ck u ev db of Inr (answer, db') \<Rightarrow> db' | Inl e \<Rightarrow> db)"

definition shared_run :: "shared_env \<Rightarrow> (clocks \<times> uuid \<times> shared_event) list \<Rightarrow> shared_db \<Rightarrow> shared_db" where
  "shared_run env rs db = fold (shared_step env) rs db"

text \<open>The operation id a request carries, the list it is for, and the revision it names.\<close>

fun op_of :: "shared_env \<Rightarrow> shared_event \<Rightarrow> uuid option" where
  "op_of env (CreateList r) = cl_op r"
| "op_of env (CreateTask l h r) = ct_op r"
| "op_of env (PatchTask l t h r) = pt_op r"
| "op_of env (DeleteTask l t h b) = (case revision_body env b of Inr (_, op) \<Rightarrow> op | Inl _ \<Rightarrow> None)"
| "op_of env (DeleteList l h b) = (case revision_body env b of Inr (_, op) \<Rightarrow> op | Inl _ \<Rightarrow> None)"
| "op_of env (AddMember l h r) = am_op r"
| "op_of env (PatchMember l v h r) = pm_op r"
| "op_of env (RemoveMember l v h b) = (case revision_body env b of Inr (_, op) \<Rightarrow> op | Inl _ \<Rightarrow> None)"
| "op_of env (AcceptInvitation i b) = (case invitation_body env b of Inr op \<Rightarrow> op | Inl _ \<Rightarrow> None)"
| "op_of env (DeclineInvitation i b) = (case invitation_body env b of Inr op \<Rightarrow> op | Inl _ \<Rightarrow> None)"

definition invitation_list :: "shared_env \<Rightarrow> shared_db \<Rightarrow> string \<Rightarrow> uuid option" where
  "invitation_list env db i =
     Option.bind (sh_parse_uuid env i) (\<lambda>i. map_option si_list (lookup_row si_id (sd_invitations db) i))"

fun list_of_event :: "shared_env \<Rightarrow> shared_db \<Rightarrow> shared_event \<Rightarrow> uuid option" where
  "list_of_event env db (CreateList r) = None"
| "list_of_event env db (CreateTask l h r) = sh_parse_uuid env l"
| "list_of_event env db (PatchTask l t h r) = sh_parse_uuid env l"
| "list_of_event env db (DeleteTask l t h b) = sh_parse_uuid env l"
| "list_of_event env db (DeleteList l h b) = sh_parse_uuid env l"
| "list_of_event env db (AddMember l h r) = sh_parse_uuid env l"
| "list_of_event env db (PatchMember l v h r) = sh_parse_uuid env l"
| "list_of_event env db (RemoveMember l v h b) = sh_parse_uuid env l"
| "list_of_event env db (AcceptInvitation i b) = invitation_list env db i"
| "list_of_event env db (DeclineInvitation i b) = invitation_list env db i"

fun based_on :: "shared_env \<Rightarrow> shared_event \<Rightarrow> int option" where
  "based_on env (CreateTask l h r) = (case expected_revision h (ct_revision r) of Inr n \<Rightarrow> Some n | Inl _ \<Rightarrow> None)"
| "based_on env (PatchTask l t h r) = (case expected_revision h (pt_revision r) of Inr n \<Rightarrow> Some n | Inl _ \<Rightarrow> None)"
| "based_on env (DeleteTask l t h b) = (case revision_body env b of
     Inr (v, _) \<Rightarrow> (case expected_revision h v of Inr n \<Rightarrow> Some n | Inl _ \<Rightarrow> None) | Inl _ \<Rightarrow> None)"
| "based_on env (DeleteList l h b) = (case revision_body env b of
     Inr (v, _) \<Rightarrow> (case expected_revision h v of Inr n \<Rightarrow> Some n | Inl _ \<Rightarrow> None) | Inl _ \<Rightarrow> None)"
| "based_on env (AddMember l h r) = (case expected_revision h (am_revision r) of Inr n \<Rightarrow> Some n | Inl _ \<Rightarrow> None)"
| "based_on env (PatchMember l v h r) = (case expected_revision h (pm_revision r) of Inr n \<Rightarrow> Some n | Inl _ \<Rightarrow> None)"
| "based_on env (RemoveMember l v h b) = (case revision_body env b of
     Inr (v, _) \<Rightarrow> (case expected_revision h v of Inr n \<Rightarrow> Some n | Inl _ \<Rightarrow> None) | Inl _ \<Rightarrow> None)"
| "based_on env _ = None"

section \<open>Changes and their commit\<close>

definition role_of :: "shared_db \<Rightarrow> uuid \<Rightarrow> uuid \<Rightarrow> shared_role option" where
  "role_of db l u = Option.bind (active_member db l u) (\<lambda>m. role_parse (sm_role m))"

text \<open>A pending invitation addressed to the caller.\<close>

definition invited :: "shared_db \<Rightarrow> uuid \<Rightarrow> uuid \<Rightarrow> uuid \<Rightarrow> invitation_row \<Rightarrow> bool" where
  "invited db l u i r \<longleftrightarrow> lookup_row si_id (sd_invitations db) i = Some r \<and> si_list r = l \<and>
     si_status r = ''pending'' \<and> (\<exists>me. lookup_row au_id (sd_users db) u = Some me \<and> au_email me = si_email r)"

inductive list_change :: "shared_env \<Rightarrow> clocks \<Rightarrow> uuid \<Rightarrow> uuid \<Rightarrow> shared_db \<Rightarrow> shared_db \<Rightarrow> bool"
  for env ck u l db
where
  new_task: "list_change env ck u l db db1"
    if "role_of db l u = Some r" and "can_edit r" and "st_list t = l"
      and "insert_shared_task t (db\<lparr>sd_tick := n\<rparr>) = Inr db1"
| edit_task: "list_change env ck u l db (db\<lparr>sd_tasks := update_rows st_id t f (sd_tasks db)\<rparr>)"
    if "role_of db l u = Some r" and "can_edit r" and "live_task db l t = Some row"
      and "\<And>r. st_id r = t \<Longrightarrow> st_list r = l \<Longrightarrow> st_id (f r) = t \<and> st_list (f r) = l"
| invite: "list_change env ck u l db db1"
    if "role_of db l u = Some Owner" and "r \<noteq> Owner" and "upsert_invitation env ck l email r u db = Inr (i, db1)"
| set_role: "list_change env ck u l db (db\<lparr>sd_members := update_rows member_key (l, v)
      (\<lambda>m. m\<lparr>sm_role := role_as_str r\<rparr>) (sd_members db)\<rparr>)"
    if "role_of db l u = Some Owner" and "active_member db l v = Some m" and "v = u \<longrightarrow> r = Owner"
| remove_member: "list_change env ck u l db (db\<lparr>sd_members := update_rows member_key (l, v)
      (\<lambda>m. m\<lparr>sm_deleted := Some (ck_tx ck)\<rparr>) (sd_members db)\<rparr>)"
    if "role_of db l u = Some Owner" and "active_member db l v = Some m" and "v \<noteq> u"
| delete_list: "list_change env ck u l db (db\<lparr>sd_lists := update_rows sl_id l
      (\<lambda>r. r\<lparr>sl_deleted := Some (ck_tx ck), sl_updated := ck_tx ck\<rparr>) (sd_lists db)\<rparr>)"
    if "role_of db l u = Some Owner"
| accept: "list_change env ck u l db (respond_to_invitation ck i u ''accepted'' (join_list ck l u r db))"
    if "invited db l u i row" and "role_parse (si_role row) = Some r"
| decline: "list_change env ck u l db (respond_to_invitation ck i u ''declined'' db)"
    if "invited db l u i row"

definition commit ::
  "shared_env \<Rightarrow> clocks \<Rightarrow> uuid \<Rightarrow> uuid \<Rightarrow> uuid option \<Rightarrow> int \<Rightarrow> shared_db \<Rightarrow> shared_db \<Rightarrow> bool" where
  "commit env ck u l op base db1 db' \<longleftrightarrow>
     (\<exists>n db2. bump_revision ck l base db1 = Inr (n, db2) \<and> shared_insert_receipt env l u op n db2 = Inr db')"

text \<open>What a request that is not a list creation does, if it changes anything.\<close>

definition shared_write ::
  "shared_env \<Rightarrow> clocks \<Rightarrow> uuid \<Rightarrow> shared_event \<Rightarrow> shared_db \<Rightarrow> shared_db \<Rightarrow> bool" where
  "shared_write env ck u ev db db' \<longleftrightarrow>
     (\<exists>l row db1. list_of_event env db ev = Some l \<and> live_list db l = Some row \<and>
        replay_receipt db l (op_of env ev) u = Inr None \<and>
        (\<forall>n. based_on env ev = Some n \<longrightarrow> n = sl_revision row) \<and>
        list_change env ck u l db db1 \<and> commit env ck u l (op_of env ev) (sl_revision row) db1 db')"

lemma shared_parse_uuid_Inr: "shared_parse_uuid env n v = Inr x \<longleftrightarrow> sh_parse_uuid env v = Some x"
  by (simp add: shared_parse_uuid_def result_simps)

lemma lock_access_Inr:
  "lock_access db l u = Inr a \<longleftrightarrow>
     (\<exists>row r. live_list db l = Some row \<and> role_of db l u = Some r \<and> a = \<lparr>sa_revision = sl_revision row, sa_role = r\<rparr>)"
  by (auto simp: lock_access_def role_of_def result_simps split: option.splits)

lemma require_Inr:
  "require_editor r = Inr x \<longleftrightarrow> can_edit r" "require_owner r = Inr x \<longleftrightarrow> r = Owner"
  by (simp_all add: require_editor_def require_owner_def is_owner_def result_simps)

lemma check_revision_Inr: "check_revision c e = Inr x \<longleftrightarrow> e = c"
  by (auto simp: check_revision_def result_simps)

lemmas shared_simps = shared_parse_uuid_Inr lock_access_Inr require_Inr check_revision_Inr result_simps

lemma shared_writeI:
  assumes "list_of_event env db ev = Some l" and "live_list db l = Some row"
    and "replay_receipt db l (op_of env ev) u = Inr None"
    and "based_on env ev = Some (sl_revision row)"
    and "shared_insert_receipt env l u (op_of env ev) n db2 = Inr db'"
    and "bump_revision ck l (sl_revision row) db1 = Inr (n, db2)" and "list_change env ck u l db db1"
  shows "shared_write env ck u ev db db'"
  unfolding shared_write_def commit_def
  by (rule exI [of _ l], rule exI [of _ row], rule exI [of _ db1]) (use assms in auto)

lemma list_change_new:
  assumes "insert_shared_task t db0 = Inr db1"
    and "(case i of Some i \<Rightarrow> (i, db) | None \<Rightarrow> shared_uuid env db) = (task_id, db0)"
    and "role_of db l u = Some r" and "can_edit r" and "st_list t = l"
  shows "list_change env ck u l db db1"
proof (rule new_task [OF assms(3-5)])
  have "db0 = db\<lparr>sd_tick := sd_tick db0\<rparr>"
    using assms(2) by (cases i; cases db) (auto simp: shared_uuid_def)
  with assms(1) show "insert_shared_task t (db\<lparr>sd_tick := sd_tick db0\<rparr>) = Inr db1" by simp
qed

lemma list_change_edit:
  assumes "role_of db l u = Some role" and "can_edit role" and "live_task db l t = Some row"
    and "patched_task ck r row = Inr row'"
  shows "list_change env ck u l db (db\<lparr>sd_tasks := update_rows st_id t (\<lambda>_. row') (sd_tasks db)\<rparr>)"
proof (rule edit_task [OF assms(1-3)])
  have "st_id row = t" "st_list row = l"
    using assms(3) by (auto simp: live_task_def split: option.splits if_splits dest: lookup_row_SomeD)
  then show "st_id row' = t \<and> st_list row' = l"
    using assms(4) by (auto simp: patched_task_def shared_simps Let_def)
qed

lemma list_change_tombstone:
  assumes "role_of db l u = Some role" and "can_edit role" and "live_task db l t = Some row"
  shows "list_change env ck u l db
    (db\<lparr>sd_tasks := update_rows st_id t (\<lambda>r. r\<lparr>st_deleted := d, st_updated := n\<rparr>) (sd_tasks db)\<rparr>)"
  by (rule edit_task [OF assms]) simp

lemma create_task_write:
  assumes "shared_create_task env ck u l h r db = Inr (a, db')"
  shows "db' = db \<or> shared_write env ck u (CreateTask l h r) db db'"
proof -
  from assms obtain i replayed where acc: "sh_parse_uuid env l = Some i" "replay_receipt db i (ct_op r) u = Inr replayed"
    by (auto simp: shared_create_task_def shared_simps)
  show ?thesis
  proof (cases replayed)
    case (Some n)
    with assms acc show ?thesis
      by (auto simp: shared_create_task_def and_then_eq_Inr [of "lock_access _ _ _"] and_then_eq_Inr [of "require_editor _"]
          shared_parse_uuid_def split: sum.splits option.splits)
  next
    case None
    obtain task_id db0 where "(case ct_id r of Some i \<Rightarrow> (i, db) | None \<Rightarrow> shared_uuid env db) = (task_id, db0)"
      by fastforce
    with assms acc None show ?thesis
      by (auto simp: shared_create_task_def shared_simps Let_def intro!: shared_writeI intro: list_change_new)
  qed
qed

lemma patch_task_write:
  assumes "shared_patch_task env ck u l t h r db = Inr (a, db')"
  shows "db' = db \<or> shared_write env ck u (PatchTask l t h r) db db'"
  using assms
  by (auto simp: shared_patch_task_def shared_simps Let_def split: if_splits
      intro!: shared_writeI intro: list_change_edit)

lemma revision_write_cases:
  assumes "revision_write env ck u l require h request change db = Inr (a, db')"
  shows "db' = db \<or> (\<exists>row role db1 n db2. live_list db l = Some row \<and> role_of db l u = Some role \<and>
    require role = Inr () \<and> replay_receipt db l (snd request) u = Inr None \<and>
    expected_revision h (fst request) = Inr (sl_revision row) \<and> change db = Inr db1 \<and>
    bump_revision ck l (sl_revision row) db1 = Inr (n, db2) \<and> shared_insert_receipt env l u (snd request) n db2 = Inr db')"
  using assms by (auto simp: revision_write_def shared_simps split: if_splits)

lemma delete_task_write:
  assumes "shared_delete_task env ck u l t h b db = Inr (a, db')"
  shows "db' = db \<or> shared_write env ck u (DeleteTask l t h b) db db'"
  using assms
  by (auto simp: shared_delete_task_def shared_simps tombstone_task_def dest!: revision_write_cases
      intro!: shared_writeI intro: list_change_tombstone)

lemma delete_list_write:
  assumes "shared_delete_list env ck u l h b db = Inr (a, db')"
  shows "db' = db \<or> shared_write env ck u (DeleteList l h b) db db'"
  using assms
  by (auto simp: shared_delete_list_def shared_simps dest!: revision_write_cases
      intro!: shared_writeI intro: delete_list)

lemma add_member_write:
  assumes "shared_add_member env ck u l h r db = Inr (a, db')"
  shows "db' = db \<or> shared_write env ck u (AddMember l h r) db db'"
proof -
  from assms obtain i email replayed where acc: "sh_parse_uuid env l = Some i"
      "replay_receipt db i (am_op r) u = Inr replayed" "normalize_email (am_email r) = Inr email"
    by (auto simp: shared_add_member_def shared_simps)
  show ?thesis
  proof (cases replayed)
    case (Some n)
    with assms acc show ?thesis
      by (auto simp: shared_add_member_def shared_parse_uuid_Inr and_then_eq_Inr split: option.splits)
  next
    case None
    with assms acc show ?thesis
      by (auto simp: shared_add_member_def shared_simps parse_invite_role_def split: if_splits
          intro!: shared_writeI intro: invite)
  qed
qed

lemma patch_member_write:
  assumes "shared_patch_member env ck u l v h r db = Inr (a, db')"
  shows "db' = db \<or> shared_write env ck u (PatchMember l v h r) db db'"
  using assms
  by (auto simp: shared_patch_member_def shared_simps Let_def is_owner_def split: if_splits
      intro!: shared_writeI intro: set_role)

lemma remove_member_write:
  assumes "shared_remove_member env ck u l v h b db = Inr (a, db')"
  shows "db' = db \<or> shared_write env ck u (RemoveMember l v h b) db db'"
  using assms
  by (auto simp: shared_remove_member_def shared_simps dest!: revision_write_cases
      intro!: shared_writeI intro: remove_member)

lemma lock_invitation_Inr:
  "lock_invitation db i u = Inr il \<longleftrightarrow>
     (\<exists>row me list r. lookup_row si_id (sd_invitations db) i = Some row \<and> lookup_row au_id (sd_users db) u = Some me \<and>
        au_email me = si_email row \<and> au_deleted me = None \<and> live_list db (si_list row) = Some list \<and>
        role_parse (si_role row) = Some r \<and>
        il = \<lparr>il_list = si_list row, il_revision = sl_revision list, il_role = r, il_status = si_status row,
              il_responded_by = si_responded_by row\<rparr>)"
  by (auto simp: lock_invitation_def shared_simps split: option.splits)

lemma shared_write_invitationI:
  assumes "invitation_list env db s = Some l" and "live_list db l = Some row"
    and "replay_receipt db l op u = Inr None"
    and "shared_insert_receipt env l u op n db2 = Inr db'" and "bump_revision ck l (sl_revision row) db1 = Inr (n, db2)"
    and "list_change env ck u l db db1"
    and "ev = AcceptInvitation s b \<or> ev = DeclineInvitation s b" and "invitation_body env b = Inr op"
  shows "shared_write env ck u ev db db'"
  unfolding shared_write_def commit_def
  by (rule exI [of _ l], rule exI [of _ row], rule exI [of _ db1]) (use assms in auto)

lemma accept_write:
  assumes "shared_accept_invitation env ck u s b db = Inr (a, db')"
  shows "db' = db \<or> shared_write env ck u (AcceptInvitation s b) db db'"
  using assms
  by (auto simp: shared_accept_invitation_def shared_simps lock_invitation_Inr Let_def invitation_list_def invited_def
      split: if_splits sum.splits app_error.splits intro!: shared_write_invitationI intro: accept)

lemma decline_write:
  assumes "shared_decline_invitation env ck u s b db = Inr (a, db')"
  shows "db' = db \<or> shared_write env ck u (DeclineInvitation s b) db db'"
  using assms
  by (auto simp: shared_decline_invitation_def shared_simps lock_invitation_Inr Let_def invitation_list_def invited_def
      split: if_splits intro!: shared_write_invitationI intro: decline)

lemma shared_insert_receipt_facts:
  assumes "shared_insert_receipt env l u op n db = Inr db'"
  obtains o' where "so_list o' = l" "so_actor o' = u" "so_revision o' = n" "\<And>x. op = Some x \<Longrightarrow> so_op o' = x"
    "lookup_row shared_receipt_key (sd_receipts db) (shared_receipt_key o') = None"
    "sd_receipts db' = sd_receipts db @ [o']" "sd_users db' = sd_users db" "sd_lists db' = sd_lists db"
    "sd_members db' = sd_members db" "sd_tasks db' = sd_tasks db" "sd_steps db' = sd_steps db"
    "sd_invitations db' = sd_invitations db"
proof (cases op)
  case None
  show ?thesis
    by (rule that [of "\<lparr>so_list = l, so_op = sh_uuid env (sd_tick db), so_actor = u, so_revision = n\<rparr>"])
      (use assms None in \<open>auto simp: shared_insert_receipt_def shared_uuid_def shared_receipt_key_def shared_simps\<close>)
next
  case (Some x)
  show ?thesis
    by (rule that [of "\<lparr>so_list = l, so_op = x, so_actor = u, so_revision = n\<rparr>"])
      (use assms Some in \<open>auto simp: shared_insert_receipt_def shared_receipt_key_def shared_simps\<close>)
qed

text \<open>A new list, with its owner and the receipt.\<close>

definition list_created :: "clocks \<Rightarrow> uuid \<Rightarrow> shared_db \<Rightarrow> shared_db \<Rightarrow> bool" where
  "list_created ck u db db' \<longleftrightarrow>
     (\<exists>r. lookup_row sl_id (sd_lists db) (sl_id r) = None \<and> lookup_row au_id (sd_users db) u \<noteq> None \<and>
        sl_owner r = u \<and> sl_revision r = 1 \<and> sl_deleted r = None \<and>
        lookup_row member_key (sd_members db) (sl_id r, u) = None \<and>
        sd_lists db' = sd_lists db @ [r] \<and>
        sd_members db' = sd_members db @
          [\<lparr>sm_list = sl_id r, sm_user = u, sm_role = ''owner'', sm_created = ck_tx ck, sm_deleted = None\<rparr>] \<and>
        (\<exists>o'. so_list o' = sl_id r \<and> so_revision o' = 1 \<and>
          lookup_row shared_receipt_key (sd_receipts db) (shared_receipt_key o') = None \<and>
          sd_receipts db' = sd_receipts db @ [o']) \<and>
        sd_users db' = sd_users db \<and> sd_tasks db' = sd_tasks db \<and> sd_steps db' = sd_steps db \<and>
        sd_invitations db' = sd_invitations db)"

lemma create_list_created:
  assumes "shared_create_list env ck u r db = Inr (a, db')"
  shows "list_created ck u db db'"
proof -
  let ?id = "sh_uuid env (sd_tick db)"
  let ?m = "\<lparr>sm_list = ?id, sm_user = u, sm_role = ''owner'', sm_created = ck_tx ck, sm_deleted = None\<rparr>"
  from assms obtain name color icon db1 where *: "lookup_row sl_id (sd_lists db) ?id = None"
    "lookup_row au_id (sd_users db) u \<noteq> None" "lookup_row member_key (sd_members db) (?id, u) = None"
    and db1: "db1 = db\<lparr>sd_tick := sd_tick db + 1, sd_lists := sd_lists db @ [\<lparr>sl_id = ?id, sl_owner = u, sl_name = name,
        sl_color = color, sl_icon = icon, sl_rank = ''a0'', sl_revision = 1, sl_created = ck_tx ck,
        sl_updated = ck_tx ck, sl_deleted = None\<rparr>], sd_members := sd_members db @ [?m]\<rparr>"
    and "shared_insert_receipt env ?id u (cl_op r) 1 db1 = Inr db'"
    by (auto simp: shared_create_list_def shared_simps Let_def shared_uuid_def)
  from this(5) show ?thesis
    by (rule shared_insert_receipt_facts) (use * in \<open>auto simp: list_created_def db1\<close>)
qed

lemma shared_exec_cases:
  assumes "shared_exec env ck u ev db = Inr (a, db')"
  shows "db' = db \<or> (\<exists>r. ev = CreateList r) \<and> list_created ck u db db' \<or> shared_write env ck u ev db db'"
  using assms
  by (cases ev) (auto dest: create_list_created create_task_write patch_task_write delete_task_write delete_list_write
      add_member_write patch_member_write remove_member_write accept_write decline_write)

end
