(* ===== verification/ApiSharedPolicy.thy ===== *)
theory ApiSharedPolicy
  imports ApiSharedFacts
begin

text \<open>
  Shared lists as a policy: per list its revision, the role of each member, the pending
  invitations and the tasks. \<open>policy_step\<close> says which changes which caller may bring about; every
  endpoint of \<open>shared.rs\<close> is such a step on sound tables.
\<close>

section \<open>Sound tables\<close>

definition invitation_key :: "invitation_row \<Rightarrow> uuid \<times> string" where
  "invitation_key i = (si_list i, si_email i)"

definition pendings :: "shared_db \<Rightarrow> invitation_row list" where
  "pendings db = filter (\<lambda>i. si_status i = ''pending'') (sd_invitations db)"

text \<open>The keys of the tables (the last is \<open>idx_shared_list_invitations_pending\<close>).\<close>

definition shared_keys_ok :: "shared_db \<Rightarrow> bool" where
  "shared_keys_ok db \<longleftrightarrow> pk sl_id (sd_lists db) \<and> pk member_key (sd_members db) \<and> pk st_id (sd_tasks db) \<and>
     pk si_id (sd_invitations db) \<and> pk shared_receipt_key (sd_receipts db) \<and> pk invitation_key (pendings db)"

text \<open>Rows that refer to lists, and the \<open>CHECK\<close> constraints.\<close>

definition shared_refs_ok :: "shared_db \<Rightarrow> bool" where
  "shared_refs_ok db \<longleftrightarrow>
     (\<forall>m \<in> set (sd_members db). sm_list m \<in> sl_id ` set (sd_lists db) \<and> role_parse (sm_role m) \<noteq> None) \<and>
     (\<forall>t \<in> set (sd_tasks db). st_list t \<in> sl_id ` set (sd_lists db)) \<and>
     (\<forall>o' \<in> set (sd_receipts db). so_list o' \<in> sl_id ` set (sd_lists db)) \<and>
     (\<forall>i \<in> set (sd_invitations db). si_list i \<in> sl_id ` set (sd_lists db) \<and> si_role i \<in> {''editor'', ''viewer''}) \<and>
     (\<forall>r \<in> set (sd_lists db). 1 \<le> sl_revision r \<and> sl_revision r \<le> I64_MAX)"

definition shared_ok :: "shared_db \<Rightarrow> bool" where
  "shared_ok db \<longleftrightarrow> shared_keys_ok db \<and> shared_refs_ok db"

lemmas shared_ok_defs = shared_ok_def shared_keys_ok_def shared_refs_ok_def

interpretation role_names: named_enum role_as_str role_parse
proof
  show "role_parse (role_as_str x) = Some x" for x
    by (cases x) (simp_all add: role_parse_def)
  show "role_parse s = Some x \<Longrightarrow> role_as_str x = s" for s x
    by (auto simp: role_parse_def split: if_splits)
qed

lemma role_parse_role_as_str [simp]: "role_parse (role_as_str r) = Some r"
  by (rule role_names.parse_as_str)

lemma role_parse_names [simp]:
  "role_parse ''owner'' = Some Owner" "role_parse ''editor'' = Some Editor" "role_parse ''viewer'' = Some Viewer"
  by (simp_all add: role_parse_def)

lemma find_pending: "find (pending_for l e) is = lookup_row invitation_key (filter (\<lambda>i. si_status i = ''pending'') is) (l, e)"
  by (induction "is") (auto simp: pending_for_def invitation_key_def)

lemma commit_facts:
  assumes "commit env ck u l op base db1 db'"
  obtains o' where "so_list o' = l" "so_actor o' = u" "so_revision o' = base + 1" "\<forall>x. op = Some x \<longrightarrow> so_op o' = x"
    "base + 1 \<le> I64_MAX" "lookup_row shared_receipt_key (sd_receipts db1) (shared_receipt_key o') = None"
    "sd_receipts db' = sd_receipts db1 @ [o']" "sd_users db' = sd_users db1"
    "sd_lists db' = update_rows sl_id l (\<lambda>r. r\<lparr>sl_revision := base + 1, sl_updated := ck_tx ck\<rparr>) (sd_lists db1)"
    "sd_members db' = sd_members db1" "sd_tasks db' = sd_tasks db1" "sd_invitations db' = sd_invitations db1"
proof -
  from assms obtain n db2 where *: "bump_revision ck l base db1 = Inr (n, db2)"
    "shared_insert_receipt env l u op n db2 = Inr db'" by (auto simp: commit_def)
  from *(2) show ?thesis
    by (rule shared_insert_receipt_facts) (rule that, use *(1) in \<open>auto simp: bump_revision_def shared_simps\<close>)
qed

section \<open>What the changes leave alone\<close>

lemma pendings_append: "pendings (db\<lparr>sd_invitations := xs @ ys\<rparr>) =
  pendings (db\<lparr>sd_invitations := xs\<rparr>) @ pendings (db\<lparr>sd_invitations := ys\<rparr>)"
  by (simp add: pendings_def)

lemma pendings_respond:
  assumes "status \<noteq> ''pending''"
  shows "pendings (respond_to_invitation ck i u status db) = delete_rows (\<lambda>r. si_id r = i) (pendings db)"
proof -
  have "filter (\<lambda>r. si_status r = ''pending'') (map (\<lambda>r. if si_id r = i \<and> si_status r = ''pending''
        then r\<lparr>si_status := status, si_responded_by := Some u, si_responded := Some (ck_tx ck), si_updated := ck_tx ck\<rparr>
        else r) rs) = delete_rows (\<lambda>r. si_id r = i) (filter (\<lambda>r. si_status r = ''pending'') rs)" for rs
    using assms by (induction rs) (auto simp: delete_rows_def)
  then show ?thesis by (simp add: pendings_def respond_to_invitation_def)
qed

lemma respond_frame [simp]:
  "sd_users (respond_to_invitation ck i u s db) = sd_users db" "sd_lists (respond_to_invitation ck i u s db) = sd_lists db"
  "sd_members (respond_to_invitation ck i u s db) = sd_members db" "sd_tasks (respond_to_invitation ck i u s db) = sd_tasks db"
  "sd_receipts (respond_to_invitation ck i u s db) = sd_receipts db"
  "map si_id (sd_invitations (respond_to_invitation ck i u s db)) = map si_id (sd_invitations db)"
  by (auto simp: respond_to_invitation_def)

lemma respond_rows:
  "\<forall>r \<in> set (sd_invitations (respond_to_invitation ck i u s db)). \<exists>r' \<in> set (sd_invitations db).
     si_id r = si_id r' \<and> si_list r = si_list r' \<and> si_email r = si_email r' \<and> si_role r = si_role r'"
  by (auto simp: respond_to_invitation_def)

lemma join_frame [simp]:
  "sd_users (join_list ck l u r db) = sd_users db" "sd_lists (join_list ck l u r db) = sd_lists db"
  "sd_tasks (join_list ck l u r db) = sd_tasks db" "sd_receipts (join_list ck l u r db) = sd_receipts db"
  "sd_invitations (join_list ck l u r db) = sd_invitations db" "pendings (join_list ck l u r db) = pendings db"
  by (auto simp: join_list_def pendings_def split: option.splits)

lemma upsert_cases:
  assumes "upsert_invitation env ck l e r u db = Inr (i, db1)"
  obtains (update) x n where "x \<in> set (pendings db)" "invitation_key x = (l, e)"
      "db1 = db\<lparr>sd_tick := n, sd_invitations := update_rows si_id (si_id x)
         (\<lambda>i. i\<lparr>si_role := role_as_str r, si_invited_by := u, si_updated := ck_tx ck\<rparr>) (sd_invitations db)\<rparr>"
  | (insert) x n where "lookup_row invitation_key (pendings db) (l, e) = None"
      "lookup_row si_id (sd_invitations db) (si_id x) = None" "invitation_key x = (l, e)"
      "si_status x = ''pending''" "si_role x = role_as_str r"
      "db1 = db\<lparr>sd_tick := n, sd_invitations := sd_invitations db @ [x]\<rparr>"
proof (cases "find (pending_for l e) (sd_invitations db)")
  case (Some x)
  then have "x \<in> set (pendings db)" "invitation_key x = (l, e)"
    by (auto simp: find_Some_iff pendings_def pending_for_def invitation_key_def)
  with assms Some show ?thesis
    by (intro update) (auto simp: upsert_invitation_def shared_uuid_def Let_def)
next
  case None
  with assms show ?thesis
    by (intro insert) (auto simp: upsert_invitation_def shared_uuid_def Let_def shared_simps find_pending pendings_def
        invitation_key_def)
qed

lemma pendings_update:
  assumes "\<And>r. si_status (f r) = si_status r"
  shows "pendings (db\<lparr>sd_tick := n, sd_invitations := update_rows si_id k f (sd_invitations db)\<rparr>) =
    update_rows si_id k f (pendings db)"
proof -
  have "filter (\<lambda>r. si_status r = ''pending'') (update_rows si_id k f rs) =
    update_rows si_id k f (filter (\<lambda>r. si_status r = ''pending'') rs)" for rs
    using assms by (induction rs) (auto simp: update_rows_def)
  then show ?thesis by (simp add: pendings_def)
qed

lemma pendings_insert:
  "si_status x = ''pending'' \<Longrightarrow>
     pendings (db\<lparr>sd_tick := n, sd_invitations := sd_invitations db @ [x]\<rparr>) = pendings db @ [x]"
  by (simp add: pendings_def)

text \<open>The role a pending invitation offers.\<close>

definition pending_role :: "shared_db \<Rightarrow> uuid \<Rightarrow> string \<Rightarrow> shared_role option" where
  "pending_role db l e =
     Option.bind (lookup_row invitation_key (pendings db) (l, e)) (\<lambda>i. role_parse (si_role i))"

lemma upsert_pending_role:
  assumes "upsert_invitation env ck l e r u db = Inr (i, db1)" and "shared_keys_ok db"
  shows "pending_role db1 l' e' = (if l' = l \<and> e' = e then Some r else pending_role db l' e')"
  using assms(1)
proof (cases rule: upsert_cases)
  case (update x n)
  let ?g = "\<lambda>i. if si_id i = si_id x
     then i\<lparr>si_role := role_as_str r, si_invited_by := u, si_updated := ck_tx ck\<rparr> else i"
  from assms(2) have pks: "pk invitation_key (pendings db)" "pk si_id (sd_invitations db)"
    by (simp_all add: shared_keys_ok_def)
  have "lookup_row invitation_key (pendings db1) k = map_option ?g (lookup_row invitation_key (pendings db) k)" for k
    unfolding update(3) by (subst pendings_update) (auto simp: update_rows_def invitation_key_def intro!: lookup_row_map_rows)
  moreover have "lookup_row invitation_key (pendings db) (l, e) = Some x"
    using lookup_row_pk [OF pks(1) update(1)] update(2) by simp
  moreover have "si_id y \<noteq> si_id x" if "lookup_row invitation_key (pendings db) k = Some y" "k \<noteq> (l, e)" for k y
  proof
    assume "si_id y = si_id x"
    with lookup_row_SomeD [OF that(1)] update(1) lookup_row_pk [OF pks(2), of x] lookup_row_pk [OF pks(2), of y]
    have "x = y" by (auto simp: pendings_def)
    with lookup_row_SomeD [OF that(1)] update(2) that(2) show False by simp
  qed
  ultimately show ?thesis
    by (cases "lookup_row invitation_key (pendings db) (l', e')") (auto simp: pending_role_def)
next
  case (insert x n)
  then show ?thesis
    by (auto simp: pending_role_def pendings_insert lookup_row_append split: option.splits)
qed

section \<open>Sound tables stay sound\<close>

lemma upsert_ok:
  assumes "upsert_invitation env ck l e r u db = Inr (i, db1)" and "shared_ok db" and "r \<noteq> Owner"
    and "l \<in> sl_id ` set (sd_lists db)"
  shows "shared_ok db1"
  using assms(1)
proof (cases rule: upsert_cases)
  case (update x n)
  have role: "role_as_str r \<in> {''editor'', ''viewer''}" using assms(3) by (cases r) auto
  have "pk invitation_key (update_rows si_id k
      (\<lambda>i. i\<lparr>si_role := role_as_str r, si_invited_by := u, si_updated := ck_tx ck\<rparr>) (pendings db))" for k
    using assms(2) by (simp add: shared_ok_defs pk_def map_other_key invitation_key_def)
  with update(3) assms(2) role show ?thesis
    by (auto simp: shared_ok_defs pendings_update table_simps set_update_rows)
next
  case (insert x n)
  have "role_as_str r \<in> {''editor'', ''viewer''}" using assms(3) by (cases r) auto
  with insert assms(2,4) show ?thesis
    by (auto simp: shared_ok_defs pendings_insert table_simps invitation_key_def)
qed

lemma role_of_active: "role_of db l u = Some r \<Longrightarrow> \<exists>m. active_member db l u = Some m"
  by (auto simp: role_of_def bind_eq_Some_conv)

lemma active_member_row: "active_member db l u = Some m \<Longrightarrow> lookup_row member_key (sd_members db) (l, u) = Some m \<and> sm_deleted m = None"
  by (auto simp: active_member_def split: option.splits if_splits)

lemma member_list: "shared_ok db \<Longrightarrow> active_member db l u = Some m \<Longrightarrow> l \<in> sl_id ` set (sd_lists db)"
  by (auto simp: shared_ok_defs member_key_def dest!: active_member_row lookup_row_SomeD)

lemma edit_rows:
  assumes "pk st_id ts" and "t0 \<in> set ts" and "st_id t0 = t" and "st_list t0 = l"
    and "\<And>r. st_id r = t \<Longrightarrow> st_list r = l \<Longrightarrow> st_id (f r) = t \<and> st_list (f r) = l"
  shows "map st_id (update_rows st_id t f ts) = map st_id ts" and "map st_list (update_rows st_id t f ts) = map st_list ts"
proof -
  have "st_list r = l" if "r \<in> set ts" "st_id r = t" for r
    using lookup_row_pk [OF assms(1) that(1)] lookup_row_pk [OF assms(1,2)] that(2) assms(3,4) by simp
  with assms(5) show "map st_id (update_rows st_id t f ts) = map st_id ts"
    "map st_list (update_rows st_id t f ts) = map st_list ts"
    by (auto simp: update_rows_def)
qed

lemma live_task_row: "live_task db l t = Some r \<Longrightarrow> r \<in> set (sd_tasks db) \<and> st_id r = t \<and> st_list r = l"
  by (auto simp: live_task_def split: option.splits if_splits dest: lookup_row_SomeD)

lemma join_ok:
  assumes "shared_ok db" and "l \<in> sl_id ` set (sd_lists db)"
  shows "shared_ok (join_list ck l u r db)"
  using assms
  by (auto simp: join_list_def shared_ok_defs pendings_def table_simps member_key_def set_update_rows split: option.splits)

lemma respond_ok:
  assumes "shared_ok db" and "s \<noteq> ''pending''"
  shows "shared_ok (respond_to_invitation ck i u s db)"
proof -
  have "pk si_id (sd_invitations (respond_to_invitation ck i u s db))"
    using assms(1) by (simp add: shared_ok_defs pk_def)
  moreover have "\<forall>i \<in> set (sd_invitations (respond_to_invitation ck i u s db)).
      si_list i \<in> sl_id ` set (sd_lists db) \<and> si_role i \<in> {''editor'', ''viewer''}"
    using respond_rows [of ck i u s db] assms(1) by (fastforce simp: shared_ok_defs)
  ultimately show ?thesis
    using assms by (simp add: shared_ok_defs pendings_respond pk_delete)
qed

lemma list_change_ok:
  assumes "list_change env ck u l db db1" and "shared_ok db" and "live_list db l = Some row"
  shows "shared_ok db1"
proof -
  have l: "l \<in> sl_id ` set (sd_lists db)"
    using assms(3) by (auto simp: live_list_def split: option.splits if_splits dest: lookup_row_SomeD)
  from assms(1) show ?thesis
  proof cases
    case (new_task r t n)
    with assms(2) l show ?thesis
      by (auto simp: insert_shared_task_def shared_simps shared_ok_defs pendings_def table_simps)
  next
    case (edit_task r t row f)
    from assms(2) have "pk st_id (sd_tasks db)" by (simp add: shared_ok_defs)
    note rows = edit_rows [OF this, of row t l f]
    have "st_list ` set (update_rows st_id t f (sd_tasks db)) = st_list ` set (sd_tasks db)"
      using arg_cong [OF rows(2), of set] live_task_row [OF edit_task(4)] edit_task(5) by simp
    then have "\<forall>x \<in> set (update_rows st_id t f (sd_tasks db)). st_list x \<in> st_list ` set (sd_tasks db)" by blast
    moreover have "pk st_id (update_rows st_id t f (sd_tasks db))"
      using rows(1) live_task_row [OF edit_task(4)] edit_task(5) assms(2) by (simp add: shared_ok_defs pk_def)
    ultimately show ?thesis
      using assms(2) unfolding edit_task(1) shared_ok_defs pendings_def by auto
  next
    case (invite r e i)
    show ?thesis by (rule upsert_ok [OF invite(3) assms(2) invite(2) l])
  next
    case (set_role v m r)
    with assms(2) show ?thesis
      by (auto simp: shared_ok_defs pendings_def table_simps member_key_def set_update_rows)
  next
    case (remove_member v m)
    with assms(2) show ?thesis
      by (auto simp: shared_ok_defs pendings_def table_simps member_key_def set_update_rows)
  next
    case delete_list
    have "\<forall>r \<in> set (sd_lists db1). 1 \<le> sl_revision r \<and> sl_revision r \<le> I64_MAX"
      using assms(2) by (auto simp: delete_list(1) set_update_rows shared_ok_defs)
    with assms(2) show ?thesis
      by (simp add: delete_list(1) shared_ok_defs pendings_def table_simps keys_update)
  next
    case (accept i row r)
    with join_ok [OF assms(2) l] show ?thesis by (simp add: respond_ok)
  next
    case (decline i row)
    with assms(2) show ?thesis by (simp add: respond_ok)
  qed
qed

lemma commit_ok:
  assumes "commit env ck u l op base db1 db'" and "shared_ok db1" and "0 \<le> base" and "l \<in> sl_id ` set (sd_lists db1)"
  shows "shared_ok db'"
proof -
  obtain o' where o': "so_list o' = l" "so_actor o' = u" "so_revision o' = base + 1" "\<forall>x. op = Some x \<longrightarrow> so_op o' = x"
    "base + 1 \<le> I64_MAX" "lookup_row shared_receipt_key (sd_receipts db1) (shared_receipt_key o') = None"
    "sd_receipts db' = sd_receipts db1 @ [o']" "sd_users db' = sd_users db1"
    "sd_lists db' = update_rows sl_id l (\<lambda>r. r\<lparr>sl_revision := base + 1, sl_updated := ck_tx ck\<rparr>) (sd_lists db1)"
    "sd_members db' = sd_members db1" "sd_tasks db' = sd_tasks db1" "sd_invitations db' = sd_invitations db1"
    using assms(1) by (rule commit_facts)
  have "sl_id ` set (sd_lists db') = sl_id ` set (sd_lists db1)"
    by (simp add: o'(9) keys_update)
  moreover have "\<forall>r \<in> set (sd_lists db'). 1 \<le> sl_revision r \<and> sl_revision r \<le> I64_MAX"
    using assms(2,3) o'(5) by (auto simp: o'(9) set_update_rows shared_ok_defs)
  moreover have "shared_keys_ok db'"
    using assms(2) o'(6-12) by (simp add: shared_ok_defs pendings_def table_simps)
  ultimately show ?thesis
    using assms(2,4) o'(1,7-12) by (simp add: shared_ok_def shared_refs_ok_def)
qed

section \<open>The policy\<close>

record shared_policy =
  po_revision :: "uuid \<Rightarrow> int option"
  po_roles :: "uuid \<Rightarrow> uuid \<Rightarrow> shared_role option"
  po_invites :: "uuid \<Rightarrow> string \<Rightarrow> shared_role option"
  po_tasks :: "uuid \<Rightarrow> shared_task_row list"

text \<open>What the tables mean: live lists with their revision, active members, pending invitations.\<close>

definition policy_of :: "shared_db \<Rightarrow> shared_policy" where
  "policy_of db =
     \<lparr>po_revision = (\<lambda>l. map_option sl_revision (live_list db l)), po_roles = role_of db,
      po_invites = pending_role db, po_tasks = (\<lambda>l. filter (\<lambda>t. st_list t = l) (sd_tasks db))\<rparr>"

text \<open>
  The steps caller \<open>u\<close> may take: make a list of their own, change the tasks of a list they may
  edit, invite, promote, demote, remove or delete as an owner, though never demote or remove
  themselves, and answer an invitation to their own address. Each names the next revision.
\<close>

inductive policy_step :: "(uuid \<Rightarrow> string option) \<Rightarrow> uuid \<Rightarrow> shared_policy \<Rightarrow> shared_policy \<Rightarrow> bool"
  for address u p
where
  stay: "policy_step address u p p"
| new_list: "policy_step address u p (p\<lparr>po_revision := (po_revision p)(l := Some 1),
      po_roles := (po_roles p)(l := [u \<mapsto> Owner])\<rparr>)"
    if "po_revision p l = None" and "po_roles p l = Map.empty"
| tasks: "policy_step address u p (p\<lparr>po_revision := (po_revision p)(l := Some (n + 1)), po_tasks := (po_tasks p)(l := ts)\<rparr>)"
    if "po_revision p l = Some n" and "po_roles p l u = Some r" and "can_edit r"
| offer: "policy_step address u p (p\<lparr>po_revision := (po_revision p)(l := Some (n + 1)),
      po_invites := (po_invites p)(l := (po_invites p l)(e := Some r))\<rparr>)"
    if "po_revision p l = Some n" and "po_roles p l u = Some Owner" and "r \<noteq> Owner"
| role: "policy_step address u p (p\<lparr>po_revision := (po_revision p)(l := Some (n + 1)),
      po_roles := (po_roles p)(l := (po_roles p l)(v := Some r))\<rparr>)"
    if "po_revision p l = Some n" and "po_roles p l u = Some Owner" and "po_roles p l v \<noteq> None" and "v = u \<longrightarrow> r = Owner"
| remove: "policy_step address u p (p\<lparr>po_revision := (po_revision p)(l := Some (n + 1)),
      po_roles := (po_roles p)(l := (po_roles p l)(v := None))\<rparr>)"
    if "po_revision p l = Some n" and "po_roles p l u = Some Owner" and "v \<noteq> u"
| drop_list: "policy_step address u p (p\<lparr>po_revision := (po_revision p)(l := None)\<rparr>)"
    if "po_revision p l = Some n" and "po_roles p l u = Some Owner"
| join: "policy_step address u p (p\<lparr>po_revision := (po_revision p)(l := Some (n + 1)),
      po_roles := (po_roles p)(l := (po_roles p l)(u := Some (case po_roles p l u of None \<Rightarrow> r | Some r' \<Rightarrow> r'))),
      po_invites := (po_invites p)(l := (po_invites p l)(e := None))\<rparr>)"
    if "po_revision p l = Some n" and "address u = Some e" and "po_invites p l e = Some r"
| refuse: "policy_step address u p (p\<lparr>po_revision := (po_revision p)(l := Some (n + 1)),
      po_invites := (po_invites p)(l := (po_invites p l)(e := None))\<rparr>)"
    if "po_revision p l = Some n" and "address u = Some e" and "po_invites p l e = Some r"

definition address_of :: "shared_db \<Rightarrow> uuid \<Rightarrow> string option" where
  "address_of db u = map_option au_email (lookup_row au_id (sd_users db) u)"

lemma policy_simps [simp]:
  "po_revision (policy_of db) l = map_option sl_revision (live_list db l)" "po_roles (policy_of db) = role_of db"
  "po_invites (policy_of db) = pending_role db" "po_tasks (policy_of db) l = filter (\<lambda>t. st_list t = l) (sd_tasks db)"
  by (simp_all add: policy_of_def)

lemma policy_eqI:
  assumes "\<And>l. map_option sl_revision (live_list db l) = po_revision p l" and "\<And>l v. role_of db l v = po_roles p l v"
    and "\<And>l e. pending_role db l e = po_invites p l e" and "\<And>l. filter (\<lambda>t. st_list t = l) (sd_tasks db) = po_tasks p l"
  shows "policy_of db = p"
  by (rule shared_policy.equality) (use assms in \<open>auto simp: policy_of_def fun_eq_iff\<close>)

lemma live_list_update:
  assumes "\<And>r. sl_id (f r) = sl_id r" and "\<And>r. sl_deleted (f r) = sl_deleted r"
    and "sd_lists db' = update_rows sl_id l f (sd_lists db)"
  shows "live_list db' l' = (if l' = l then map_option f (live_list db l) else live_list db l')"
  unfolding live_list_def assms(3) lookup_row_update [of sl_id, OF assms(1)]
  by (cases "lookup_row sl_id (sd_lists db) l") (auto simp: assms(2))

lemma frame_views:
  "sd_members db' = sd_members db \<Longrightarrow> role_of db' = role_of db"
  "sd_members db' = sd_members db \<Longrightarrow> active_member db' = active_member db"
  "sd_invitations db' = sd_invitations db \<Longrightarrow> pending_role db' = pending_role db"
  "sd_invitations db' = sd_invitations db \<Longrightarrow> pendings db' = pendings db"
  "sd_lists db' = sd_lists db \<Longrightarrow> live_list db' = live_list db"
  by (auto simp: fun_eq_iff role_of_def active_member_def pending_role_def pendings_def live_list_def)

lemma policy_commit:
  assumes "commit env ck u l op base db1 db'" and "live_list db1 l \<noteq> None"
  shows "policy_of db' = (policy_of db1)\<lparr>po_revision := (po_revision (policy_of db1))(l := Some (base + 1))\<rparr>"
  using assms(1)
proof (rule commit_facts)
  assume *: "sd_lists db' = update_rows sl_id l (\<lambda>r. r\<lparr>sl_revision := base + 1, sl_updated := ck_tx ck\<rparr>) (sd_lists db1)"
    "sd_members db' = sd_members db1" "sd_tasks db' = sd_tasks db1" "sd_invitations db' = sd_invitations db1"
  have "live_list db' l' = (if l' = l then map_option (\<lambda>r. r\<lparr>sl_revision := base + 1, sl_updated := ck_tx ck\<rparr>) (live_list db1 l)
      else live_list db1 l')" for l'
    by (rule live_list_update [OF _ _ *(1)]) simp_all
  then show ?thesis
    using assms(2) by (intro policy_eqI)
      (auto simp: frame_views(1) [OF *(2)] frame_views(3) [OF *(4)] *(3))
qed

lemma role_of_update:
  assumes "sd_members db' = update_rows member_key (l, v) f (sd_members db)"
    and "\<And>m. member_key (f m) = member_key m" and "lookup_row member_key (sd_members db) (l, v) = Some m"
  shows "role_of db' l' v' =
    (if l' = l \<and> v' = v then (if sm_deleted (f m) = None then role_parse (sm_role (f m)) else None) else role_of db l' v')"
  by (auto simp: role_of_def active_member_def assms(1,3) lookup_row_update [of member_key, OF assms(2)])

lemma role_of_join:
  assumes "shared_ok db"
  shows "role_of (join_list ck l u r db) l' v =
    (if l' = l \<and> v = u then Some (case role_of db l u of None \<Rightarrow> r | Some r' \<Rightarrow> r') else role_of db l' v)"
proof -
  have "\<exists>r. role_parse (sm_role m) = Some r" if "lookup_row member_key (sd_members db) k = Some m" for k m
    using assms lookup_row_SomeD [OF that] by (auto simp: shared_ok_defs)
  from this [of "(l, u)"] show ?thesis
    by (cases "lookup_row member_key (sd_members db) (l, u)") (auto simp: join_list_def role_of_def active_member_def lookup_row_append member_key_def
        lookup_row_update [of member_key] split: option.splits)
qed

lemma pending_role_respond:
  assumes "shared_ok db" and "status \<noteq> ''pending''" and "invited db l u i row"
  shows "pending_role (respond_to_invitation ck i u status db) l' e =
    (if l' = l \<and> e = si_email row then None else pending_role db l' e)"
proof -
  from assms(3) have row: "row \<in> set (pendings db)" "si_id row = i" "invitation_key row = (l, si_email row)"
    by (auto simp: invited_def pendings_def invitation_key_def dest: lookup_row_SomeD)
  from assms(1) have pks: "pk invitation_key (pendings db)" "pk si_id (sd_invitations db)" by (simp_all add: shared_ok_defs)
  have same: "y = row" if "y \<in> set (pendings db)" "si_id y = i" for y
    using lookup_row_pk [OF pks(2), of y] lookup_row_pk [OF pks(2), of row] that row by (simp add: pendings_def)
  have found: "l' = l \<and> e = si_email row" if "lookup_row invitation_key (pendings db) (l', e) = Some y" "si_id y = i" for y
    using lookup_row_SomeD [OF that(1)] same [of y] that(2) row(3) by simp
  note lookup = pending_role_def pendings_respond [OF assms(2)] lookup_row_delete [OF pks(1)]
  show ?thesis
  proof (cases "l' = l \<and> e = si_email row")
    case True
    with lookup_row_pk [OF pks(1) row(1)] row(2,3) show ?thesis by (simp add: lookup)
  next
    case False
    with found have "si_id y \<noteq> i" if "lookup_row invitation_key (pendings db) (l', e) = Some y" for y
      using that by blast
    then show ?thesis
      by (cases "lookup_row invitation_key (pendings db) (l', e)") (simp_all add: lookup False del: de_Morgan_conj)
  qed
qed

end
