(* ===== verification/ApiSharedProps.thy ===== *)
theory ApiSharedProps
  imports ApiSharedPolicy
begin

text \<open>
  What shared lists promise: only the changes the caller's role allows, an owner for every live
  list, no lost update, and requests that take effect once.
\<close>

section \<open>Every write is a step of the policy\<close>

lemma live_list_lists: "live_list db l = Some row \<Longrightarrow> l \<in> sl_id ` set (sd_lists db)"
  by (auto simp: live_list_def split: option.splits if_splits dest: lookup_row_SomeD)

lemma invited_role:
  assumes "invited db l u i row" and "shared_ok db"
  shows "\<exists>e r. address_of db u = Some e \<and> si_email row = e \<and> role_parse (si_role row) = Some r \<and> pending_role db l e = Some r"
proof -
  from assms(1) have row: "row \<in> set (pendings db)" "invitation_key row = (l, si_email row)" "row \<in> set (sd_invitations db)"
    by (auto simp: invited_def pendings_def invitation_key_def dest: lookup_row_SomeD)
  from assms(2) row(3) obtain r where r: "role_parse (si_role row) = Some r" by (auto simp: shared_ok_defs)
  from assms(2) have "pk invitation_key (pendings db)" by (simp add: shared_ok_defs)
  from lookup_row_pk [OF this row(1)] row(2) r assms(1) show ?thesis
    by (auto simp: pending_role_def address_of_def invited_def)
qed

lemma filter_edited:
  "\<forall>r \<in> set ts. st_id r = t \<longrightarrow> st_list r = l \<and> st_list (f r) = l \<Longrightarrow> l' \<noteq> l \<Longrightarrow>
     filter (\<lambda>x. st_list x = l') (update_rows st_id t f ts) = filter (\<lambda>x. st_list x = l') ts"
  by (induction ts) (auto simp: update_rows_def)

lemma write_policy:
  assumes change: "list_change env ck u l db db1" and live: "live_list db l = Some row"
    and commit: "commit env ck u l op (sl_revision row) db1 db'" and ok: "shared_ok db"
  shows "policy_step (address_of db) u (policy_of db) (policy_of db')"
proof -
  let ?p = "policy_of db" and ?n = "sl_revision row"
  have n: "po_revision ?p l = Some ?n" by (simp add: live)
  have live1: "live_list db1 l \<noteq> None" if "sd_lists db1 = sd_lists db"
    using live frame_views(5) [OF that] by simp
  note after = policy_commit [OF commit]
  from change show ?thesis
  proof cases
    case (new_task r t k)
    then have eqs: "sd_lists db1 = sd_lists db" "sd_members db1 = sd_members db" "sd_invitations db1 = sd_invitations db"
      "sd_tasks db1 = sd_tasks db @ [t]"
      by (auto simp: insert_shared_task_def shared_simps)
    have "policy_of db1 = ?p\<lparr>po_tasks := (po_tasks ?p)(l := po_tasks ?p l @ [t])\<rparr>"
      by (rule policy_eqI) (use eqs new_task(3) frame_views [of db1 db] in auto)
    with after [OF live1 [OF eqs(1)]] have "policy_of db' = ?p\<lparr>po_revision := (po_revision ?p)(l := Some (?n + 1)),
        po_tasks := (po_tasks ?p)(l := po_tasks ?p l @ [t])\<rparr>" by simp
    with policy_step.tasks [OF n] new_task(1,2) show ?thesis by simp
  next
    case (edit_task r t task f)
    from ok have key: "pk st_id (sd_tasks db)" by (simp add: shared_ok_defs)
    have "\<forall>r \<in> set (sd_tasks db). st_id r = t \<longrightarrow> st_list r = l \<and> st_list (f r) = l"
    proof (intro ballI impI)
      fix x
      assume "x \<in> set (sd_tasks db)" "st_id x = t"
      with lookup_row_pk [OF key, of x] lookup_row_pk [OF key, of task] live_task_row [OF edit_task(4)] have "x = task"
        by simp
      with live_task_row [OF edit_task(4)] edit_task(5) [of task] show "st_list x = l \<and> st_list (f x) = l" by simp
    qed
    then have "filter (\<lambda>t. st_list t = l') (sd_tasks db1) = filter (\<lambda>t. st_list t = l') (sd_tasks db)" if "l' \<noteq> l" for l'
      using filter_edited that by (simp add: edit_task(1))
    then have "policy_of db1 = ?p\<lparr>po_tasks := (po_tasks ?p)(l := po_tasks (policy_of db1) l)\<rparr>"
      by (intro policy_eqI) (use edit_task(1) frame_views [of db1 db] in auto)
    with after [OF live1] edit_task(1) have "policy_of db' = ?p\<lparr>po_revision := (po_revision ?p)(l := Some (?n + 1)),
        po_tasks := (po_tasks ?p)(l := po_tasks (policy_of db1) l)\<rparr>" by simp
    with policy_step.tasks [OF n] edit_task(2,3) show ?thesis by simp
  next
    case (invite r e i)
    from ok have "shared_keys_ok db" by (simp add: shared_ok_def)
    note pending = upsert_pending_role [OF invite(3) this]
    from invite(3) have eqs: "sd_lists db1 = sd_lists db" "sd_members db1 = sd_members db" "sd_tasks db1 = sd_tasks db"
      by (auto elim: upsert_cases)
    have "policy_of db1 = ?p\<lparr>po_invites := (po_invites ?p)(l := (po_invites ?p l)(e := Some r))\<rparr>"
      by (rule policy_eqI) (use eqs pending frame_views [of db1 db] in auto)
    with after [OF live1 [OF eqs(1)]] have "policy_of db' = ?p\<lparr>po_revision := (po_revision ?p)(l := Some (?n + 1)),
        po_invites := (po_invites ?p)(l := (po_invites ?p l)(e := Some r))\<rparr>" by simp
    with policy_step.offer [OF n] invite(1,2) show ?thesis by simp
  next
    case (set_role v m r)
    note member = active_member_row [OF set_role(3)]
    have "role_of db1 l' v' = (if l' = l \<and> v' = v then Some r else role_of db l' v')" for l' v'
      by (subst role_of_update [of db1 l v "\<lambda>m. m\<lparr>sm_role := role_as_str r\<rparr>" db m])
        (use member in \<open>simp_all add: set_role(1) member_key_def\<close>)
    then have "policy_of db1 = ?p\<lparr>po_roles := (po_roles ?p)(l := (po_roles ?p l)(v := Some r))\<rparr>"
      by (intro policy_eqI) (use set_role(1) frame_views [of db1 db] in auto)
    with after [OF live1] set_role(1) have "policy_of db' = ?p\<lparr>po_revision := (po_revision ?p)(l := Some (?n + 1)),
        po_roles := (po_roles ?p)(l := (po_roles ?p l)(v := Some r))\<rparr>" by simp
    moreover have "role_of db l v \<noteq> None"
      using ok member set_role(3) by (auto simp: role_of_def shared_ok_defs dest!: lookup_row_SomeD)
    ultimately show ?thesis using policy_step.role [OF n] set_role(2,4) by simp
  next
    case (remove_member v m)
    note member = active_member_row [OF remove_member(3)]
    have "role_of db1 l' v' = (if l' = l \<and> v' = v then None else role_of db l' v')" for l' v'
      by (subst role_of_update [of db1 l v "\<lambda>m. m\<lparr>sm_deleted := Some (ck_tx ck)\<rparr>" db m])
        (use member in \<open>simp_all add: remove_member(1) member_key_def\<close>)
    then have "policy_of db1 = ?p\<lparr>po_roles := (po_roles ?p)(l := (po_roles ?p l)(v := None))\<rparr>"
      by (intro policy_eqI) (use remove_member(1) frame_views [of db1 db] in auto)
    with after [OF live1] remove_member(1) have "policy_of db' = ?p\<lparr>po_revision := (po_revision ?p)(l := Some (?n + 1)),
        po_roles := (po_roles ?p)(l := (po_roles ?p l)(v := None))\<rparr>" by simp
    then show ?thesis using policy_step.remove [OF n] remove_member(2,4) by simp
  next
    case delete_list
    have "policy_of db' = ?p\<lparr>po_revision := (po_revision ?p)(l := None)\<rparr>"
      using commit
    proof (rule commit_facts)
      assume *: "sd_lists db' = update_rows sl_id l (\<lambda>r. r\<lparr>sl_revision := ?n + 1, sl_updated := ck_tx ck\<rparr>) (sd_lists db1)"
        "sd_members db' = sd_members db1" "sd_tasks db' = sd_tasks db1" "sd_invitations db' = sd_invitations db1"
      have "live_list db' l' = (if l' = l then None else live_list db l')" for l'
        by (cases "lookup_row sl_id (sd_lists db) l")
          (simp_all add: live_list_def *(1) delete_list(1) lookup_row_update [of sl_id])
      then show ?thesis
        by (intro policy_eqI) (use * delete_list(1) frame_views [of db' db] in auto)
    qed
    then show ?thesis using policy_step.drop_list [OF n] delete_list(2) by simp
  next
    case (accept i inv' r)
    from invited_role [OF accept(2) ok] accept(3) have e: "address_of db u = Some (si_email inv')"
      "pending_role db l (si_email inv') = Some r" by auto
    have "invited (join_list ck l u r db) l u i inv'" "shared_ok (join_list ck l u r db)"
      using accept(2) join_ok [OF ok live_list_lists [OF live]] by (simp_all add: invited_def)
    note pending = pending_role_respond [OF this(2) _ this(1)]
    have "policy_of db1 = ?p\<lparr>po_roles := (po_roles ?p)(l := (po_roles ?p l)(u := Some (case po_roles ?p l u of None \<Rightarrow> r | Some r' \<Rightarrow> r'))),
        po_invites := (po_invites ?p)(l := (po_invites ?p l)(si_email inv' := None))\<rparr>"
      by (rule policy_eqI)
        (use accept(1) pending role_of_join [OF ok] frame_views [of db1 "join_list ck l u r db"]
          frame_views [of "join_list ck l u r db" db] frame_views [of db1 db] in \<open>auto simp: frame_views(1) [of db1 "join_list ck l u r db"]\<close>)
    with after [OF live1] accept(1) have "policy_of db' = ?p\<lparr>po_revision := (po_revision ?p)(l := Some (?n + 1)),
        po_roles := (po_roles ?p)(l := (po_roles ?p l)(u := Some (case po_roles ?p l u of None \<Rightarrow> r | Some r' \<Rightarrow> r'))),
        po_invites := (po_invites ?p)(l := (po_invites ?p l)(si_email inv' := None))\<rparr>" by simp
    then show ?thesis using policy_step.join [where address = "address_of db", OF n e(1)] e(2) by simp
  next
    case (decline i inv')
    from invited_role [OF decline(2) ok] obtain r where e: "address_of db u = Some (si_email inv')"
      "pending_role db l (si_email inv') = Some r" by auto
    note pending = pending_role_respond [OF ok _ decline(2)]
    have "policy_of db1 = ?p\<lparr>po_invites := (po_invites ?p)(l := (po_invites ?p l)(si_email inv' := None))\<rparr>"
      by (rule policy_eqI) (use decline(1) pending frame_views [of db1 db] in auto)
    with after [OF live1] decline(1) have "policy_of db' = ?p\<lparr>po_revision := (po_revision ?p)(l := Some (?n + 1)),
        po_invites := (po_invites ?p)(l := (po_invites ?p l)(si_email inv' := None))\<rparr>" by simp
    then show ?thesis using policy_step.refuse [where address = "address_of db", OF n e(1)] e(2) by simp
  qed
qed

lemma created_policy:
  assumes "list_created ck u db db'" and "shared_ok db"
  shows "policy_step address u (policy_of db) (policy_of db')"
proof -
  let ?p = "policy_of db"
  from assms(1) obtain r m where r: "lookup_row sl_id (sd_lists db) (sl_id r) = None" "sl_revision r = 1" "sl_deleted r = None"
    and m: "m = \<lparr>sm_list = sl_id r, sm_user = u, sm_role = ''owner'', sm_created = ck_tx ck, sm_deleted = None\<rparr>"
    and db': "sd_lists db' = sd_lists db @ [r]" "sd_members db' = sd_members db @ [m]"
      "sd_tasks db' = sd_tasks db" "sd_invitations db' = sd_invitations db"
    by (auto simp: list_created_def)
  have none: "lookup_row member_key (sd_members db) (sl_id r, v) = None" for v
    using assms(2) r(1) by (auto simp: shared_ok_defs lookup_row_None member_key_def)
  have "live_list db (sl_id r) = None" using r(1) by (simp add: live_list_def)
  moreover have "role_of db (sl_id r) = Map.empty"
    by (rule ext) (simp add: role_of_def active_member_def none)
  moreover have "policy_of db' = ?p\<lparr>po_revision := (po_revision ?p)(sl_id r := Some 1),
      po_roles := (po_roles ?p)(sl_id r := [u \<mapsto> Owner])\<rparr>"
  proof (rule policy_eqI)
    show "map_option sl_revision (live_list db' l) = po_revision (?p\<lparr>po_revision := (po_revision ?p)(sl_id r := Some 1),
        po_roles := (po_roles ?p)(sl_id r := [u \<mapsto> Owner])\<rparr>) l" for l
      using r by (cases "lookup_row sl_id (sd_lists db) l") (auto simp: live_list_def db' lookup_row_append)
    show "role_of db' l v = po_roles (?p\<lparr>po_revision := (po_revision ?p)(sl_id r := Some 1),
        po_roles := (po_roles ?p)(sl_id r := [u \<mapsto> Owner])\<rparr>) l v" for l v
      using none by (cases "lookup_row member_key (sd_members db) (l, v)")
        (auto simp: role_of_def active_member_def db' lookup_row_append m member_key_def)
  qed (use db' frame_views [of db' db] in simp_all)
  ultimately show ?thesis using policy_step.new_list [of ?p "sl_id r"] by simp
qed

lemma created_ok:
  assumes "list_created ck u db db'" and "shared_ok db"
  shows "shared_ok db'"
  using assms by (auto simp: list_created_def shared_ok_defs pendings_def table_simps member_key_def I64_MAX_def)

lemma exec_policy:
  assumes "shared_ok db" and "shared_exec env ck u ev db = Inr (answer, db')"
  shows "policy_step (address_of db) u (policy_of db) (policy_of db')" and "shared_ok db'"
proof -
  consider "db' = db" | "list_created ck u db db'" | "shared_write env ck u ev db db'"
    using shared_exec_cases [OF assms(2)] by blast
  then have "policy_step (address_of db) u (policy_of db) (policy_of db') \<and> shared_ok db'"
  proof cases
    case 1
    with assms(1) show ?thesis by (simp add: policy_step.stay)
  next
    case 2
    with created_policy [OF 2 assms(1)] created_ok [OF 2 assms(1)] show ?thesis by simp
  next
    case 3
    then obtain l row db1 where w: "live_list db l = Some row" "list_change env ck u l db db1"
      "commit env ck u l (op_of env ev) (sl_revision row) db1 db'" by (auto simp: shared_write_def)
    have ok1: "shared_ok db1" by (rule list_change_ok [OF w(2) assms(1) w(1)])
    have "0 \<le> sl_revision row"
      using w(1) assms(1) by (force simp: live_list_def shared_ok_defs split: option.splits if_splits dest: lookup_row_SomeD)
    moreover have "sl_id ` set (sd_lists db1) = sl_id ` set (sd_lists db)"
      using w(2) by cases (auto simp: insert_shared_task_def shared_simps keys_update elim!: upsert_cases)
    then have "l \<in> sl_id ` set (sd_lists db1)" using live_list_lists [OF w(1)] by simp
    ultimately have "shared_ok db'" using commit_ok [OF w(3) ok1] by simp
    with write_policy [OF w(2,1,3) assms(1)] show ?thesis by simp
  qed
  then show "policy_step (address_of db) u (policy_of db) (policy_of db')" and "shared_ok db'" by simp_all
qed

text \<open>C39. On sound tables every request on shared lists that succeeds is a step the policy allows its
  caller, and leaves the tables sound: viewers and strangers change nothing, editors only the
  tasks, owners the members, the invitations and the list, nobody demotes or removes themselves,
  membership grows only by accepting an invitation sent to the caller's own address, and every
  change moves the list to its next revision.\<close>

theorem shared_requests_follow_policy:
  assumes "shared_ok db" and "shared_exec env ck u ev db = Inr (answer, db')"
  shows "policy_step (address_of db) u (policy_of db) (policy_of db') \<and> shared_ok db'"
  using exec_policy [OF assms] by simp

section \<open>Owners\<close>

text \<open>
  An owner whose account is live: the membership row and the user's row are separate, and
  \<open>DELETE /account\<close> (\<open>account.rs\<close>) marks the user's row only. So the requests on shared lists run
  together with deletions of accounts; the extractor \<open>AuthUser\<close> admits a caller only while the
  account is live.
\<close>

definition account_live :: "shared_db \<Rightarrow> uuid \<Rightarrow> bool" where
  "account_live db u \<longleftrightarrow> (case lookup_row au_id (sd_users db) u of None \<Rightarrow> False | Some a \<Rightarrow> au_deleted a = None)"

definition live_owner :: "shared_db \<Rightarrow> uuid \<Rightarrow> uuid \<Rightarrow> bool" where
  "live_owner db l v \<longleftrightarrow> role_of db l v = Some Owner \<and> account_live db v"

datatype owner_event = Shared_request clocks uuid shared_event | Account_deletion clocks uuid

fun owner_step :: "shared_env \<Rightarrow> owner_event \<Rightarrow> shared_db \<Rightarrow> shared_db" where
  "owner_step env (Shared_request ck u ev) db = (if account_live db u then shared_step env (ck, u, ev) db else db)"
| "owner_step env (Account_deletion ck u) db =
     (if account_live db u
      then db\<lparr>sd_users := update_rows au_id u (\<lambda>a. a\<lparr>au_deleted := Some (ck_tx ck)\<rparr>) (sd_users db)\<rparr> else db)"

definition owner_run :: "shared_env \<Rightarrow> owner_event list \<Rightarrow> shared_db \<Rightarrow> shared_db" where
  "owner_run env evs db = fold (owner_step env) evs db"

text \<open>The deletion is that of \<open>delete_account\<close>, seen from the users' table.\<close>

lemma account_deletion_users:
  assumes "delete_account ck auth adb = (Inr answer, adb')" and "ab_users adb = sd_users db"
  shows "ab_users adb' = sd_users (owner_step env (Account_deletion ck (us_user auth)) db)"
  using assms by (auto simp: delete_account_def account_live_def revoke_sessions_def split: if_splits option.splits)

text \<open>No account is deleted while it is the only live owner of a live list.\<close>

fun no_sole_owner_leaves :: "shared_env \<Rightarrow> owner_event list \<Rightarrow> shared_db \<Rightarrow> bool" where
  "no_sole_owner_leaves env [] db = True"
| "no_sole_owner_leaves env (ev # evs) db =
     ((case ev of
         Shared_request ck u x \<Rightarrow> True
       | Account_deletion ck u \<Rightarrow> \<forall>r \<in> set (sd_lists db). live_list db (sl_id r) \<noteq> None \<and> live_owner db (sl_id r) u \<longrightarrow>
           (\<exists>m \<in> set (sd_members db). sm_user m \<noteq> u \<and> live_owner db (sl_id r) (sm_user m))) \<and>
      no_sole_owner_leaves env evs (owner_step env ev db))"

definition owned :: "(uuid \<Rightarrow> bool) \<Rightarrow> shared_policy \<Rightarrow> bool" where
  "owned alive p \<longleftrightarrow> (\<forall>l. po_revision p l \<noteq> None \<longrightarrow> (\<exists>v. po_roles p l v = Some Owner \<and> alive v))"

lemma policy_keeps_owners:
  assumes "policy_step address u p p'" and "owned alive p" and u: "alive u"
  shows "owned alive p'"
  using assms(1)
proof cases
  case stay
  with assms(2) show ?thesis by simp
next
  case (join l n e r)
  have "\<exists>v. po_roles p' l' v = Some Owner \<and> alive v" if "po_revision p l' \<noteq> None" for l'
  proof -
    from assms(2) that obtain v where v: "po_roles p l' v = Some Owner" "alive v" by (auto simp: owned_def)
    then have "po_roles p' l' v = Some Owner" by (auto simp: join(1) split: option.splits)
    with v(2) show ?thesis by blast
  qed
  moreover have "po_revision p l' \<noteq> None" if "po_revision p' l' \<noteq> None" for l'
    using that join(1,2) by (cases "l' = l") simp_all
  ultimately show ?thesis by (simp add: owned_def)
qed (use assms(2) u in \<open>auto simp: owned_def, (metis option.distinct(1) option.inject)+\<close>)

lemma exec_users:
  assumes "shared_exec env ck u ev db = Inr (a, db')"
  shows "sd_users db' = sd_users db"
proof -
  consider "db' = db" | "list_created ck u db db'" | "shared_write env ck u ev db db'"
    using shared_exec_cases [OF assms] by blast
  then show ?thesis
  proof cases
    case 2
    then show ?thesis by (auto simp: list_created_def)
  next
    case 3
    then obtain l row db1 where "live_list db l = Some row"
      and c: "list_change env ck u l db db1" "commit env ck u l (op_of env ev) (sl_revision row) db1 db'"
      unfolding shared_write_def by blast
    from c(2) have "sd_users db' = sd_users db1" by (rule commit_facts)
    moreover have "sd_users db1 = sd_users db"
      using c(1) by cases (auto simp: insert_shared_task_def shared_simps elim!: upsert_cases)
    ultimately show ?thesis by simp
  qed simp
qed

lemma step_ok:
  assumes "shared_ok db" and "owned alive (policy_of db)" and "alive u"
  shows "shared_ok (shared_step env (ck, u, ev) db) \<and> owned alive (policy_of (shared_step env (ck, u, ev) db)) \<and>
    sd_users (shared_step env (ck, u, ev) db) = sd_users db"
proof (cases "shared_exec env ck u ev db")
  case (Inr x)
  then obtain a db' where x: "shared_exec env ck u ev db = Inr (a, db')" by (cases x) auto
  from exec_policy [OF assms(1) x] policy_keeps_owners [OF _ assms(2,3)] exec_users [OF x] show ?thesis
    by (simp add: shared_step_def x)
qed (use assms in \<open>simp add: shared_step_def\<close>)

lemma deletion_views:
  assumes "db' = db\<lparr>sd_users := update_rows au_id u (\<lambda>a. a\<lparr>au_deleted := Some t\<rparr>) (sd_users db)\<rparr>"
  shows "role_of db' = role_of db" "live_list db' = live_list db" "shared_ok db' = shared_ok db"
    "account_live db' v \<longleftrightarrow> account_live db v \<and> v \<noteq> u"
proof -
  show "role_of db' = role_of db" by (rule frame_views(1)) (simp add: assms)
  show "live_list db' = live_list db" by (rule frame_views(5)) (simp add: assms)
  show "shared_ok db' = shared_ok db" by (simp add: assms shared_ok_defs pendings_def)
  show "account_live db' v \<longleftrightarrow> account_live db v \<and> v \<noteq> u"
    using lookup_row_update [of au_id "\<lambda>a. a\<lparr>au_deleted := Some t\<rparr>" u "sd_users db" v]
    by (cases "v = u"; cases "lookup_row au_id (sd_users db) v") (simp_all add: account_live_def assms)
qed

lemma sole_owner_stays:
  assumes "no_sole_owner_leaves env [Account_deletion ck u] db" and "live_list db l \<noteq> None" and "live_owner db l v"
  shows "\<exists>v'. v' \<noteq> u \<and> live_owner db l v'"
proof (cases "v = u")
  case True
  obtain row where "row \<in> set (sd_lists db)" "sl_id row = l"
    using live_list_lists assms(2) by (metis imageE option.exhaust)
  with assms True show ?thesis by auto
qed (use assms(3) in blast)

lemma owner_step_ok:
  assumes "shared_ok db" and "\<forall>l. live_list db l \<noteq> None \<longrightarrow> (\<exists>v. live_owner db l v)"
    and "no_sole_owner_leaves env [ev] db"
  shows "shared_ok (owner_step env ev db) \<and>
    (\<forall>l. live_list (owner_step env ev db) l \<noteq> None \<longrightarrow> (\<exists>v. live_owner (owner_step env ev db) l v))"
proof (cases ev)
  case (Shared_request ck u x)
  show ?thesis
  proof (cases "account_live db u")
    case True
    have o: "owned (account_live db) (policy_of db)" using assms(2) by (auto simp: owned_def live_owner_def)
    note step = step_ok [OF assms(1) o True, of env ck x]
    then have "account_live (shared_step env (ck, u, x) db) = account_live db" by (simp add: fun_eq_iff account_live_def)
    with step show ?thesis by (simp add: Shared_request True owned_def live_owner_def)
  qed (use assms Shared_request in simp)
next
  case (Account_deletion ck u)
  show ?thesis
  proof (cases "account_live db u")
    case True
    let ?db = "db\<lparr>sd_users := update_rows au_id u (\<lambda>a. a\<lparr>au_deleted := Some (ck_tx ck)\<rparr>) (sd_users db)\<rparr>"
    note view = deletion_views [where db' = ?db and db = db and u = u and t = "ck_tx ck", OF refl]
    have "\<exists>v. live_owner ?db l v" if l: "live_list db l \<noteq> None" for l
    proof -
      obtain v where "live_owner db l v" using assms(2) l by blast
      from sole_owner_stays [OF assms(3) [unfolded Account_deletion] l this] obtain v' where "v' \<noteq> u" "live_owner db l v'" by blast
      then show ?thesis by (auto simp: live_owner_def view)
    qed
    with assms(1) show ?thesis by (simp add: Account_deletion True view)
  qed (use assms Account_deletion in simp)
qed

lemma owner_run_ok:
  assumes "shared_ok db" and "\<forall>l. live_list db l \<noteq> None \<longrightarrow> (\<exists>v. live_owner db l v)"
    and "no_sole_owner_leaves env evs db"
  shows "shared_ok (owner_run env evs db) \<and>
    (\<forall>l. live_list (owner_run env evs db) l \<noteq> None \<longrightarrow> (\<exists>v. live_owner (owner_run env evs db) l v))"
  using assms
proof (induction evs arbitrary: db)
  case (Cons ev evs)
  have "no_sole_owner_leaves env [ev] db" using Cons.prems(3) by simp
  note step = owner_step_ok [OF Cons.prems(1,2) this]
  with Cons.IH [of "owner_step env ev db"] Cons.prems(3) show ?case by (simp add: owner_run_def)
qed (simp add: owner_run_def)

text \<open>C40. A live shared list keeps an active member who owns it and whose account is live, through any
  sequence of requests on shared lists by anyone, owners who promote, demote and remove each
  other included, and of deletions of accounts, as long as no account is deleted while it is the
  only live owner of a live list. (That proviso is needed: \<open>account_deletion_orphans\<close>.)\<close>

theorem shared_lists_keep_an_owner:
  assumes "shared_ok db" and "\<forall>l. live_list db l \<noteq> None \<longrightarrow> (\<exists>v. live_owner db l v)"
    and "no_sole_owner_leaves env evs db" and "live_list (owner_run env evs db) l \<noteq> None"
  shows "\<exists>v. live_owner (owner_run env evs db) l v"
  using owner_run_ok [OF assms(1-3)] assms(4) by blast

text \<open>The code does not ask: deleting the account of the only live owner succeeds, the list stays
  live, and nobody owns it any more.\<close>

lemma account_deletion_orphans:
  assumes "live_list db l \<noteq> None" and "live_owner db l u" and "\<forall>v. live_owner db l v \<longrightarrow> v = u"
  shows "live_list (owner_step env (Account_deletion ck u) db) l \<noteq> None \<and>
    (\<nexists>v. live_owner (owner_step env (Account_deletion ck u) db) l v)"
proof -
  have "owner_step env (Account_deletion ck u) db =
      db\<lparr>sd_users := update_rows au_id u (\<lambda>a. a\<lparr>au_deleted := Some (ck_tx ck)\<rparr>) (sd_users db)\<rparr>"
    using assms(2) by (simp add: live_owner_def)
  note view = deletion_views [OF this]
  show ?thesis using assms(1,3) by (auto simp only: view live_owner_def)
qed

section \<open>Revisions and receipts\<close>

definition list_revision :: "shared_db \<Rightarrow> uuid \<Rightarrow> int option" where
  "list_revision db l = map_option sl_revision (lookup_row sl_id (sd_lists db) l)"

definition invitation_of :: "shared_db \<Rightarrow> uuid \<Rightarrow> uuid option" where
  "invitation_of db i = map_option si_list (lookup_row si_id (sd_invitations db) i)"

text \<open>Revisions only grow, receipts and the lists of invitations stay.\<close>

definition grows :: "shared_db \<Rightarrow> shared_db \<Rightarrow> bool" where
  "grows db db' \<longleftrightarrow> (\<forall>l n. list_revision db l = Some n \<longrightarrow> (\<exists>n' \<ge> n. list_revision db' l = Some n')) \<and>
     (\<exists>rs. sd_receipts db' = sd_receipts db @ rs) \<and>
     (\<forall>i l. invitation_of db i = Some l \<longrightarrow> invitation_of db' i = Some l)"

lemma grows_refl [simp]: "grows db db"
  by (simp add: grows_def)

lemma grows_trans: "grows a b \<Longrightarrow> grows b c \<Longrightarrow> grows a c"
  by (auto simp: grows_def) (meson order_trans)

lemma change_grows:
  assumes "list_change env ck u l db db1"
  shows "list_revision db1 = list_revision db" and "sd_receipts db1 = sd_receipts db"
    and "invitation_of db i = Some l' \<Longrightarrow> invitation_of db1 i = Some l'"
proof -
  show "list_revision db1 = list_revision db"
    using assms by cases (auto simp: fun_eq_iff list_revision_def insert_shared_task_def shared_simps
        lookup_row_update [of sl_id] option.map_comp o_def elim!: upsert_cases)
  show "sd_receipts db1 = sd_receipts db"
    using assms by cases (auto simp: insert_shared_task_def shared_simps elim!: upsert_cases)
  have respond: "invitation_of (respond_to_invitation ck k u s db) i = invitation_of db i" for k s db
  proof -
    have "lookup_row si_id (sd_invitations (respond_to_invitation ck k u s db)) i =
      map_option (\<lambda>r. if si_id r = k \<and> si_status r = ''pending''
        then r\<lparr>si_status := s, si_responded_by := Some u, si_responded := Some (ck_tx ck), si_updated := ck_tx ck\<rparr>
        else r) (lookup_row si_id (sd_invitations db) i)"
      by (simp add: respond_to_invitation_def lookup_row_map_rows)
    then show ?thesis
      by (cases "lookup_row si_id (sd_invitations db) i") (simp_all add: invitation_of_def)
  qed
  have join: "invitation_of (join_list ck l u r db) i = invitation_of db i" for r
    by (simp add: invitation_of_def)
  show "invitation_of db1 i = Some l'" if "invitation_of db i = Some l'"
    using assms that
  proof cases
    case (accept k row r)
    with that show ?thesis by (simp add: respond join)
  next
    case (decline k row)
    with that show ?thesis by (simp add: respond)
  qed (auto simp: invitation_of_def insert_shared_task_def shared_simps lookup_row_append
        lookup_row_update [of si_id] elim!: upsert_cases split: if_splits)
qed

lemma write_grows:
  assumes "shared_write env ck u ev db db'"
  obtains l n o' where "list_of_event env db ev = Some l" "list_revision db l = Some n" "live_list db l \<noteq> None"
    "\<forall>m. based_on env ev = Some m \<longrightarrow> m = n" "replay_receipt db l (op_of env ev) u = Inr None"
    "list_revision db' l = Some (n + 1)" "so_list o' = l" "so_actor o' = u"
    "\<forall>x. op_of env ev = Some x \<longrightarrow> so_op o' = x" "o' \<in> set (sd_receipts db')" "grows db db'"
proof -
  from assms obtain l row db1 where w: "list_of_event env db ev = Some l" "live_list db l = Some row"
    "replay_receipt db l (op_of env ev) u = Inr None" "\<forall>n. based_on env ev = Some n \<longrightarrow> n = sl_revision row"
    "list_change env ck u l db db1" "commit env ck u l (op_of env ev) (sl_revision row) db1 db'"
    by (auto simp: shared_write_def)
  have n: "list_revision db l = Some (sl_revision row)"
    using w(2) by (auto simp: list_revision_def live_list_def split: option.splits if_splits)
  from w(6) show ?thesis
  proof (rule commit_facts)
    fix o'
    assume *: "so_list o' = l" "so_actor o' = u" "\<forall>x. op_of env ev = Some x \<longrightarrow> so_op o' = x"
      "sd_receipts db' = sd_receipts db1 @ [o']"
      "sd_lists db' = update_rows sl_id l (\<lambda>r. r\<lparr>sl_revision := sl_revision row + 1, sl_updated := ck_tx ck\<rparr>) (sd_lists db1)"
      "sd_invitations db' = sd_invitations db1"
    have rev: "list_revision db' l' = (if l' = l then map_option (\<lambda>_. sl_revision row + 1) (list_revision db1 l) else list_revision db1 l')" for l'
      by (simp add: list_revision_def *(5) lookup_row_update [of sl_id] option.map_comp o_def)
    have "grows db db'"
      using rev n *(4,6) change_grows [OF w(5)] by (auto simp: grows_def invitation_of_def)
    with w n rev * change_grows(1) [OF w(5)] show ?thesis by (intro that [of l "sl_revision row" o']) simp_all
  qed
qed

lemma exec_grows:
  assumes "shared_exec env ck u ev db = Inr (answer, db')"
  shows "grows db db'"
proof -
  consider "db' = db" | "list_created ck u db db'" | "shared_write env ck u ev db db'"
    using shared_exec_cases [OF assms] by blast
  then show ?thesis
  proof cases
    case 2
    then show ?thesis
      by (auto simp: list_created_def grows_def list_revision_def invitation_of_def lookup_row_append split: option.splits)
  next
    case 3
    then show ?thesis by (rule write_grows)
  qed simp
qed

lemma run_grows: "grows db (shared_run env rs db)"
proof (induction rs arbitrary: db)
  case (Cons r rs)
  have "grows db (shared_step env r db)"
    by (auto simp: shared_step_def intro: exec_grows split: prod.splits sum.splits)
  with Cons.IH [of "shared_step env r db"] show ?case by (auto simp: shared_run_def intro: grows_trans)
qed (simp add: shared_run_def)

lemma list_of_event_grows:
  assumes "grows db db'" and "list_of_event env db ev = Some l"
  shows "list_of_event env db' ev = Some l"
  using assms by (cases ev) (auto simp: grows_def invitation_list_def invitation_of_def bind_eq_Some_conv)

lemma effective_write:
  assumes "shared_exec env ck u ev db = Inr (a, db')" and "db' \<noteq> db" and "\<forall>r. ev \<noteq> CreateList r"
  shows "shared_write env ck u ev db db'"
  using shared_exec_cases [OF assms(1)] assms(2,3) by blast

lemma based_not_create: "based_on env ev = Some n \<Longrightarrow> \<forall>r. ev \<noteq> CreateList r"
  by auto

text \<open>C12. No update of a shared list is lost: of two writes to a list that name the same revision, by
  whomever, at most one takes effect, however many requests run in between.\<close>

theorem no_lost_update:
  assumes "based_on env ev = Some n" and "based_on env ev' = Some n"
    and "list_of_event env db ev = Some l" and "list_of_event env db ev' = Some l"
    and "shared_exec env ck u ev db = Inr (a, db1)" and "db1 \<noteq> db"
    and "shared_exec env ck' u' ev' (shared_run env rs db1) = Inr (a', db2)"
  shows "db2 = shared_run env rs db1"
proof (rule ccontr)
  let ?db = "shared_run env rs db1"
  assume "db2 \<noteq> ?db"
  from effective_write [OF assms(7) this based_not_create [OF assms(2)]] have w2: "shared_write env ck' u' ev' ?db db2" .
  have w1: "shared_write env ck u ev db db1" by (rule effective_write [OF assms(5,6) based_not_create [OF assms(1)]])
  from w1 have 1: "list_revision db1 l = Some (n + 1)" and g: "grows db db1"
    by (rule write_grows, use assms(1,3) in auto)+
  from w2 obtain l' where 2: "list_of_event env ?db ev' = Some l'" "list_revision ?db l' = Some n"
    by (rule write_grows) (use assms(2) in auto)
  from list_of_event_grows [OF grows_trans [OF g run_grows] assms(4)] 2(1) have "l' = l" by simp
  moreover obtain n' where "n + 1 \<le> n'" "list_revision ?db l = Some n'"
    using run_grows [of db1 env rs, unfolded grows_def, THEN conjunct1, rule_format, OF 1] by blast
  ultimately show False using 2(2) by simp
qed

text \<open>C24. A request on an existing shared list that carries an operation id takes effect once: sent
  again after it changed something, by anyone and after any other requests, it changes nothing
  more. The request that creates a list carries an operation id too and is excluded, because there
  it fails: its id is stored under the new list and never looked up, and sent again it makes
  another list (\<open>create_list_again\<close>).\<close>

theorem shared_request_takes_effect_once:
  assumes "op_of env ev = Some x" and "\<forall>r. ev \<noteq> CreateList r"
    and "shared_exec env ck u ev db = Inr (a, db1)" and "db1 \<noteq> db"
    and "shared_exec env ck' u' ev (shared_run env rs db1) = Inr (a', db2)"
  shows "db2 = shared_run env rs db1"
proof (rule ccontr)
  let ?db = "shared_run env rs db1"
  assume "db2 \<noteq> ?db"
  from effective_write [OF assms(5) this assms(2)] have w2: "shared_write env ck' u' ev ?db db2" .
  have w1: "shared_write env ck u ev db db1" by (rule effective_write [OF assms(3,4,2)])
  then obtain l o' where 1: "list_of_event env db ev = Some l" "so_list o' = l" "so_op o' = x"
    "o' \<in> set (sd_receipts db1)" "grows db db1"
    by (rule write_grows) (use assms(1) in auto)
  from w2 obtain l' where 2: "list_of_event env ?db ev = Some l'" "replay_receipt ?db l' (Some x) u' = Inr None"
    by (rule write_grows) (use assms(1) in auto)
  from list_of_event_grows [OF grows_trans [OF 1(5) run_grows] 1(1)] 2(1) have "l' = l" by simp
  moreover have "o' \<in> set (sd_receipts ?db)" using 1(4) run_grows [of db1 env rs] by (auto simp: grows_def)
  then have "(l, x) \<in> shared_receipt_key ` set (sd_receipts ?db)"
    using 1(2,3) by (force simp: shared_receipt_key_def)
  then have "lookup_row shared_receipt_key (sd_receipts ?db) (l, x) \<noteq> None" by (simp add: lookup_row_None)
  ultimately show False using 2(2) by (auto simp: replay_receipt_def split: option.splits if_splits)
qed

section \<open>Creating and deleting a list again\<close>

text \<open>
  Creating a list records the operation id under the new list's own id, so sending the request
  again makes another list; deleting a list makes the receipt unreachable, so sending the
  deletion again reports that there is no such list.
\<close>

lemma create_list_again:
  assumes "shared_create_list env ck u r db = Inr (a, db1)" and "sh_uuid env (sd_tick db1) \<notin> sl_id ` set (sd_lists db1)"
    and "(sh_uuid env (sd_tick db1), u) \<notin> member_key ` set (sd_members db1)" and "cl_op r = Some x"
    and "\<forall>o' \<in> set (sd_receipts db1). so_list o' \<noteq> sh_uuid env (sd_tick db1)"
  shows "\<exists>a' db2. shared_create_list env ck u r db1 = Inr (a', db2) \<and> length (sd_lists db2) = length (sd_lists db) + 2"
proof -
  from assms(1) have len: "length (sd_lists db1) = length (sd_lists db) + 1"
    and ok: "\<exists>v. shared_text ''name'' (cl_name r) 120 = Inr v" "\<exists>v. shared_optional_text ''color'' (cl_color r) 64 = Inr v"
      "\<exists>v. shared_optional_text ''icon'' (cl_icon r) 128 = Inr v" and user: "lookup_row au_id (sd_users db1) u \<noteq> None"
    using create_list_created [OF assms(1)] by (auto simp: shared_create_list_def shared_simps list_created_def)
  have "lookup_row shared_receipt_key (sd_receipts db1) (sh_uuid env (sd_tick db1), x) = None"
    using assms(5) by (auto simp: lookup_row_None shared_receipt_key_def)
  with assms(2-4) ok user len show ?thesis
    by (auto simp: shared_create_list_def shared_uuid_def Let_def shared_insert_receipt_def lookup_row_None fail_if_def)
qed

end
