(* ===== verification/ApiSharedExamples.thy ===== *)
theory ApiSharedExamples
  imports ApiSharedProps
begin

text \<open>
  The theorems on shared lists at work: Ann makes a list, invites Bob, who accepts; they edit the
  same task list. Identifiers are numbers written in decimal.
\<close>

definition demo_shared :: shared_env where
  "demo_shared = \<lparr>sh_uuid = (\<lambda>n. of_nat (100 + n)), sh_parse_uuid = (\<lambda>s. map_option of_nat (parse_digits s)),
     sh_revision_body = (\<lambda>s. map_option (\<lambda>n. (Some n, None)) (parse_i64 s)), sh_invitation_body = (\<lambda>_. Some None),
     sh_collate = (\<lambda>s. int (length s))\<rparr>"

definition demo_clock :: clocks where
  "demo_clock = \<lparr>ck_app = 10, ck_tx = 11, ck_wall = 12\<rparr>"

definition no_lists :: shared_db where
  "no_lists = \<lparr>sd_users = [\<lparr>au_id = 1, au_email = ''ann@example.com'', au_deleted = None\<rparr>,
       \<lparr>au_id = 2, au_email = ''bob@example.com'', au_deleted = None\<rparr>],
     sd_lists = [], sd_members = [], sd_tasks = [], sd_steps = [], sd_receipts = [], sd_invitations = [], sd_tick = 0\<rparr>"

definition new_list_request :: shared_event where
  "new_list_request = CreateList \<lparr>cl_name = '' home '', cl_color = None, cl_icon = None, cl_op = Some 7\<rparr>"

definition invite_bob :: shared_event where
  "invite_bob = AddMember ''100'' None \<lparr>am_email = ''Bob@Example.com'', am_role = ''editor'', am_revision = Some 1, am_op = Some 8\<rparr>"

definition new_task_request :: "string \<Rightarrow> int \<Rightarrow> uuid \<Rightarrow> shared_event" where
  "new_task_request title n x = CreateTask ''100'' None \<lparr>ct_id = None, ct_title = title, ct_note = None, ct_important = None,
     ct_due_on = None, ct_revision = Some n, ct_op = Some x\<rparr>"

text \<open>A list row, the tables after Ann's invitation and after Bob has accepted it.\<close>

definition shared_home :: "int \<Rightarrow> shared_list_row" where
  "shared_home n = \<lparr>sl_id = 100, sl_owner = 1, sl_name = ''home'', sl_color = None, sl_icon = None, sl_rank = ''a0'',
     sl_revision = n, sl_created = 11, sl_updated = 11, sl_deleted = None\<rparr>"

definition member :: "uuid \<Rightarrow> string \<Rightarrow> member_row" where
  "member u r = \<lparr>sm_list = 100, sm_user = u, sm_role = r, sm_created = 11, sm_deleted = None\<rparr>"

definition invitation :: "string \<Rightarrow> uuid option \<Rightarrow> invitation_row" where
  "invitation status u = \<lparr>si_id = 101, si_list = 100, si_email = ''bob@example.com'', si_role = ''editor'', si_status = status,
     si_invited_by = 1, si_responded_by = u, si_created = 11, si_updated = 11, si_responded = map_option (\<lambda>_. 11) u\<rparr>"

definition receipt :: "uuid \<Rightarrow> uuid \<Rightarrow> int \<Rightarrow> shared_receipt" where
  "receipt x u n = \<lparr>so_list = 100, so_op = x, so_actor = u, so_revision = n\<rparr>"

definition bob_invited :: shared_db where
  "bob_invited = no_lists\<lparr>sd_lists := [shared_home 2], sd_members := [member 1 ''owner''],
     sd_receipts := [receipt 7 1 1, receipt 8 1 2], sd_invitations := [invitation ''pending'' None], sd_tick := 2\<rparr>"

definition bob_joined :: shared_db where
  "bob_joined = no_lists\<lparr>sd_lists := [shared_home 3], sd_members := [member 1 ''owner'', member 2 ''editor''],
     sd_receipts := [receipt 7 1 1, receipt 8 1 2, receipt 102 2 3],
     sd_invitations := [invitation ''accepted'' (Some 2)], sd_tick := 3\<rparr>"

lemma sound_tables: "shared_ok bob_invited" "shared_ok bob_joined"
  by (simp_all add: shared_ok_defs pendings_def pk_def bob_invited_def bob_joined_def no_lists_def shared_home_def
      member_def invitation_def receipt_def member_key_def shared_receipt_key_def invitation_key_def I64_MAX_def)

text \<open>The bound on notes, compared in binary.\<close>

lemma shared_note_code [code]:
  "shared_note v =
     and_then (reject_unstorable_chars ''note'' v) (\<lambda>_.
     and_then (fail_if (int (length v) > 100000) (err_validation ''note is too long'')) (\<lambda>_.
     Inr v))"
  by (simp add: shared_note_def)

lemma story:
  "shared_run demo_shared [(demo_clock, 1, new_list_request), (demo_clock, 1, invite_bob)] no_lists = bob_invited"
  "map_option snd (case shared_exec demo_shared demo_clock 2 (AcceptInvitation ''101'' []) bob_invited of
     Inr x \<Rightarrow> Some x | Inl _ \<Rightarrow> None) = Some bob_joined"
  by code_simp+

theorem shared_requests_follow_policy_witness:
  "policy_step (address_of bob_invited) 2 (policy_of bob_invited) (policy_of bob_joined) \<and> shared_ok bob_joined"
proof -
  from story(2) obtain a where "shared_exec demo_shared demo_clock 2 (AcceptInvitation ''101'' []) bob_invited = Inr (a, bob_joined)"
    by (auto split: sum.splits)
  with shared_requests_follow_policy [OF sound_tables(1)] show ?thesis by blast
qed

text \<open>Ann makes Bob an owner; Bob removes Ann; Ann, no longer a member, tries to delete the list.\<close>

definition takeover :: "(clocks \<times> uuid \<times> shared_event) list" where
  "takeover = [(demo_clock, 1, PatchMember ''100'' ''2'' None \<lparr>pm_role = ''owner'', pm_revision = Some 3, pm_op = Some 9\<rparr>),
     (demo_clock, 2, RemoveMember ''100'' ''1'' (Some (Some ''4'')) []), (demo_clock, 1, DeleteList ''100'' (Some (Some ''5'')) [])]"

definition takeover_run :: "owner_event list" where
  "takeover_run = map (\<lambda>(ck, u, ev). Shared_request ck u ev) takeover @ [Account_deletion demo_clock 1]"

text \<open>At last Ann deletes her account; the list has Bob.\<close>

theorem shared_lists_keep_an_owner_witness:
  "(\<exists>v. live_owner (owner_run demo_shared takeover_run bob_joined) 100 v) \<and>
   \<not> account_live (owner_run demo_shared takeover_run bob_joined) 1"
proof
  have "live_list bob_joined l \<noteq> None \<longrightarrow> (\<exists>v. live_owner bob_joined l v)" for l
  proof (cases "l = 100")
    case True
    have "live_owner bob_joined 100 1" by code_simp
    with True show ?thesis by blast
  qed (simp add: live_list_def bob_joined_def shared_home_def)
  moreover have "\<not> Option.is_none (live_list (owner_run demo_shared takeover_run bob_joined) 100)" by code_simp
  moreover have "no_sole_owner_leaves demo_shared takeover_run bob_joined" by code_simp
  ultimately show "\<exists>v. live_owner (owner_run demo_shared takeover_run bob_joined) 100 v"
    by (intro shared_lists_keep_an_owner [OF sound_tables(2)]) (simp_all add: Option.is_none_def)
  show "\<not> account_live (owner_run demo_shared takeover_run bob_joined) 1" by code_simp
qed

text \<open>The tables after a successful request.\<close>

definition result_db :: "app_error + shared_answer \<times> shared_db \<Rightarrow> shared_db option" where
  "result_db x = (case x of Inr (a, db) \<Rightarrow> Some db | Inl e \<Rightarrow> None)"

lemma result_dbD: "result_db x \<noteq> None \<Longrightarrow> \<exists>a db. x = Inr (a, db) \<and> result_db x = Some db"
  by (auto simp: result_db_def split: sum.splits)

definition with_milk :: shared_db where
  "with_milk = shared_run demo_shared [(demo_clock, 2, new_task_request ''milk'' 3 20)] bob_joined"

lemma milk:
  "\<exists>a. shared_exec demo_shared demo_clock 2 (new_task_request ''milk'' 3 20) bob_joined = Inr (a, with_milk)"
  "with_milk \<noteq> bob_joined"
proof -
  have "isl (shared_exec demo_shared demo_clock 2 (new_task_request ''milk'' 3 20) bob_joined) = False" by code_simp
  then show "\<exists>a. shared_exec demo_shared demo_clock 2 (new_task_request ''milk'' 3 20) bob_joined = Inr (a, with_milk)"
    by (auto simp: with_milk_def shared_run_def shared_step_def split: sum.splits)
  have "length (sd_tasks with_milk) \<noteq> length (sd_tasks bob_joined)" by code_simp
  then show "with_milk \<noteq> bob_joined" by auto
qed

text \<open>Ann's write on the revision Bob's was based on is refused, so it cannot take effect.\<close>

theorem no_lost_update_witness:
  "case shared_exec demo_shared demo_clock 1 (new_task_request ''bread'' 3 21) with_milk of
     Inr (a, db) \<Rightarrow> db = with_milk | Inl e \<Rightarrow> True"
proof -
  have "based_on demo_shared (new_task_request ''milk'' 3 20) = Some 3" "based_on demo_shared (new_task_request ''bread'' 3 21) = Some 3"
    "list_of_event demo_shared bob_joined (new_task_request ''milk'' 3 20) = Some 100"
    "list_of_event demo_shared bob_joined (new_task_request ''bread'' 3 21) = Some 100" by code_simp+
  moreover obtain b where "shared_exec demo_shared demo_clock 2 (new_task_request ''milk'' 3 20) bob_joined = Inr (b, with_milk)"
    using milk(1) by blast
  ultimately show ?thesis
    using no_lost_update [of demo_shared "new_task_request ''milk'' 3 20" 3 "new_task_request ''bread'' 3 21" bob_joined 100
        demo_clock 2 _ with_milk demo_clock 1 "[]"] milk(2)
    by (auto simp: shared_run_def split: sum.split)
qed

text \<open>Bob's request sent again succeeds and changes nothing.\<close>

theorem shared_request_takes_effect_once_witness:
  "result_db (shared_exec demo_shared demo_clock 2 (new_task_request ''milk'' 3 20) with_milk) = Some with_milk"
proof -
  have "result_db (shared_exec demo_shared demo_clock 2 (new_task_request ''milk'' 3 20) with_milk) \<noteq> None"
    unfolding Option.is_none_def [symmetric] by code_simp
  then obtain a db where run: "shared_exec demo_shared demo_clock 2 (new_task_request ''milk'' 3 20) with_milk = Inr (a, db)"
    "result_db (shared_exec demo_shared demo_clock 2 (new_task_request ''milk'' 3 20) with_milk) = Some db"
    using result_dbD by blast
  have "op_of demo_shared (new_task_request ''milk'' 3 20) = Some 20"
    "\<forall>r. new_task_request ''milk'' 3 20 \<noteq> CreateList r"
    by code_simp (simp add: new_task_request_def)
  moreover obtain b where "shared_exec demo_shared demo_clock 2 (new_task_request ''milk'' 3 20) bob_joined = Inr (b, with_milk)"
    using milk(1) by blast
  ultimately have "db = with_milk"
    using shared_request_takes_effect_once [of demo_shared "new_task_request ''milk'' 3 20" 20 demo_clock 2 bob_joined _ with_milk
        demo_clock 2 "[]" a db] milk(2) run(1) by (simp add: shared_run_def)
  with run(2) show ?thesis by simp
qed

end
