(* ===== verification/NativeModel.thy ===== *)
theory NativeModel
  imports Json
begin

text \<open>
  The data of the local store, \<open>crates/native-core/src/models.rs\<close> and \<open>error.rs\<close>: lists,
  tasks, steps and day plans with their timestamps (text, as in SQLite), the inputs of the
  operations, and the JSON \<open>serde\<close> writes for those that are stored in the outbox. The
  patches keep an absent field (\<open>None\<close>) apart from an explicit null (\<open>Some None\<close>). An error
  carries its variant; the message, meant for the user interface, is left out.
\<close>

datatype error_code =
    EC_ValidationFailed | EC_NotFound | EC_Conflict | EC_StaleSyncSession | EC_InvalidDate
  | EC_Database | EC_Unsupported | EC_Internal

fun error_code_as_str :: "error_code \<Rightarrow> string" where
  "error_code_as_str EC_ValidationFailed = ''VALIDATION_FAILED''"
| "error_code_as_str EC_NotFound = ''NOT_FOUND''"
| "error_code_as_str EC_Conflict = ''CONFLICT''"
| "error_code_as_str EC_StaleSyncSession = ''STALE_SYNC_SESSION''"
| "error_code_as_str EC_InvalidDate = ''INVALID_DATE''"
| "error_code_as_str EC_Database = ''DATABASE_ERROR''"
| "error_code_as_str EC_Unsupported = ''UNSUPPORTED''"
| "error_code_as_str EC_Internal = ''INTERNAL''"

datatype store_error =
    SE_Validation | SE_NotFound | SE_Conflict | SE_StaleSyncSession | SE_InvalidDate
  | SE_Unsupported | SE_Database | SE_Json | SE_Internal

fun store_error_code :: "store_error \<Rightarrow> error_code" where
  "store_error_code SE_Validation = EC_ValidationFailed"
| "store_error_code SE_NotFound = EC_NotFound"
| "store_error_code SE_Conflict = EC_Conflict"
| "store_error_code SE_StaleSyncSession = EC_StaleSyncSession"
| "store_error_code SE_InvalidDate = EC_InvalidDate"
| "store_error_code SE_Unsupported = EC_Unsupported"
| "store_error_code SE_Database = EC_Database"
| "store_error_code SE_Json = EC_Database"
| "store_error_code SE_Internal = EC_Database"

datatype nstatus = NOpen | NCompleted

fun nstatus_as_str :: "nstatus \<Rightarrow> string" where
  "nstatus_as_str NOpen = ''open''"
| "nstatus_as_str NCompleted = ''completed''"

definition nstatus_parse :: "string \<Rightarrow> nstatus option" where
  "nstatus_parse v =
     (if v = ''open'' then Some NOpen else if v = ''completed'' then Some NCompleted else None)"

section \<open>Entities\<close>

record task_list =
  tl_id :: string
  tl_name :: string
  tl_color :: "string option"
  tl_icon :: "string option"
  tl_rank :: string
  tl_created_at :: string
  tl_updated_at :: string
  tl_deleted_at :: "string option"

record task =
  t_id :: string
  t_list_id :: "string option"
  t_title :: string
  t_note :: string
  t_tags :: "string list"
  t_status :: nstatus
  t_important :: bool
  t_due_on :: "string option"
  t_remind_at :: "string option"
  t_remind_timezone :: "string option"
  t_rank :: string
  t_series_id :: "string option"
  t_occurrence_key :: "string option"
  t_recurrence :: "json option"
  t_completed_at :: "string option"
  t_created_at :: string
  t_updated_at :: string
  t_deleted_at :: "string option"

record step =
  s_id :: string
  s_task_id :: string
  s_title :: string
  s_is_completed :: bool
  s_rank :: string
  s_created_at :: string
  s_updated_at :: string
  s_deleted_at :: "string option"

record day_plan =
  d_id :: string
  d_task_id :: string
  d_local_date :: string
  d_rank :: string
  d_created_at :: string
  d_updated_at :: string
  d_deleted_at :: "string option"

record task_with_steps =
  tws_task :: task
  tws_steps :: "step list"
  tws_day_plan_dates :: "string list"

section \<open>Inputs\<close>

record new_task =
  nt_title :: string
  nt_list_id :: "string option"
  nt_note :: "string option"
  nt_tags :: "string list"
  nt_important :: "bool option"
  nt_due_on :: "string option"
  nt_remind_at :: "string option"
  nt_remind_timezone :: "string option"
  nt_recurrence :: "json option"
  nt_rank :: "string option"
  nt_plan_date :: "string option"

record ntask_patch =
  np_title :: "string option option"
  np_list_id :: "string option option"
  np_note :: "string option option"
  np_tags :: "string list option"
  np_status :: "nstatus option option"
  np_important :: "bool option option"
  np_due_on :: "string option option"
  np_remind_at :: "string option option"
  np_remind_timezone :: "string option option"
  np_recurrence :: "json option option"
  np_rank :: "string option option"
  np_completed_at :: "string option option"

definition ntask_patch_is_empty :: "ntask_patch \<Rightarrow> bool" where
  "ntask_patch_is_empty p \<longleftrightarrow>
     np_title p = None \<and> np_list_id p = None \<and> np_note p = None \<and> np_tags p = None \<and>
     np_status p = None \<and> np_important p = None \<and> np_due_on p = None \<and> np_remind_at p = None \<and>
     np_remind_timezone p = None \<and> np_recurrence p = None \<and> np_rank p = None \<and>
     np_completed_at p = None"

record new_list =
  nl_name :: string
  nl_color :: "string option"
  nl_icon :: "string option"

record nlist_patch =
  nlp_name :: "string option option"
  nlp_color :: "string option option"
  nlp_icon :: "string option option"
  nlp_rank :: "string option option"

definition nlist_patch_is_empty :: "nlist_patch \<Rightarrow> bool" where
  "nlist_patch_is_empty p \<longleftrightarrow>
     nlp_name p = None \<and> nlp_color p = None \<and> nlp_icon p = None \<and> nlp_rank p = None"

record nstep_patch =
  nsp_title :: "string option option"
  nsp_is_completed :: "bool option option"
  nsp_rank :: "string option option"

definition nstep_patch_is_empty :: "nstep_patch \<Rightarrow> bool" where
  "nstep_patch_is_empty p \<longleftrightarrow>
     nsp_title p = None \<and> nsp_is_completed p = None \<and> nsp_rank p = None"

datatype task_view = MyDay | Important | Planned | AllTasks | CompletedTasks | InList

record task_query =
  tq_view :: task_view
  tq_list_id :: "string option"
  tq_search :: "string option"
  tq_tags :: "string list"
  tq_local_date :: "string option"
  tq_due_from :: "string option"
  tq_due_to :: "string option"
  tq_include_completed :: bool
  tq_limit :: "nat option"

record view_counts =
  vc_my_day :: nat
  vc_important :: nat
  vc_planned :: nat
  vc_completed :: nat
  vc_all :: nat
  vc_lists :: "(string \<times> nat) list"

section \<open>What serde writes\<close>

definition jopt :: "('a \<Rightarrow> json) \<Rightarrow> 'a option \<Rightarrow> json" where
  "jopt f v = (case v of None \<Rightarrow> JNull | Some x \<Rightarrow> f x)"

definition list_to_value :: "task_list \<Rightarrow> json" where
  "list_to_value l =
     jobj [(''id'', JStr (tl_id l)), (''name'', JStr (tl_name l)), (''color'', jopt JStr (tl_color l)),
           (''icon'', jopt JStr (tl_icon l)), (''rank'', JStr (tl_rank l)),
           (''createdAt'', JStr (tl_created_at l)), (''updatedAt'', JStr (tl_updated_at l)),
           (''deletedAt'', jopt JStr (tl_deleted_at l))]"

definition task_to_value :: "task \<Rightarrow> json" where
  "task_to_value t =
     jobj [(''id'', JStr (t_id t)), (''listId'', jopt JStr (t_list_id t)), (''title'', JStr (t_title t)),
           (''note'', JStr (t_note t)), (''tags'', JArr (map JStr (t_tags t))),
           (''status'', JStr (nstatus_as_str (t_status t))), (''important'', JBool (t_important t)),
           (''dueOn'', jopt JStr (t_due_on t)), (''remindAt'', jopt JStr (t_remind_at t)),
           (''remindTimezone'', jopt JStr (t_remind_timezone t)), (''rank'', JStr (t_rank t)),
           (''seriesId'', jopt JStr (t_series_id t)), (''occurrenceKey'', jopt JStr (t_occurrence_key t)),
           (''recurrence'', jopt (\<lambda>r. r) (t_recurrence t)),
           (''completedAt'', jopt JStr (t_completed_at t)), (''createdAt'', JStr (t_created_at t)),
           (''updatedAt'', JStr (t_updated_at t)), (''deletedAt'', jopt JStr (t_deleted_at t))]"

definition step_to_value :: "step \<Rightarrow> json" where
  "step_to_value s =
     jobj [(''id'', JStr (s_id s)), (''taskId'', JStr (s_task_id s)), (''title'', JStr (s_title s)),
           (''isCompleted'', JBool (s_is_completed s)), (''rank'', JStr (s_rank s)),
           (''createdAt'', JStr (s_created_at s)), (''updatedAt'', JStr (s_updated_at s)),
           (''deletedAt'', jopt JStr (s_deleted_at s))]"

definition day_plan_to_value :: "day_plan \<Rightarrow> json" where
  "day_plan_to_value d =
     jobj [(''id'', JStr (d_id d)), (''taskId'', JStr (d_task_id d)),
           (''localDate'', JStr (d_local_date d)), (''rank'', JStr (d_rank d)),
           (''createdAt'', JStr (d_created_at d)), (''updatedAt'', JStr (d_updated_at d)),
           (''deletedAt'', jopt JStr (d_deleted_at d))]"

text \<open>\<open>skip_serializing_if = "Option::is_none"\<close>: only the fields that are present.\<close>

definition present :: "string \<Rightarrow> ('a \<Rightarrow> json) \<Rightarrow> 'a option \<Rightarrow> (string \<times> json) list" where
  "present k f v = (case v of None \<Rightarrow> [] | Some x \<Rightarrow> [(k, f x)])"

definition ntask_patch_to_value :: "ntask_patch \<Rightarrow> json" where
  "ntask_patch_to_value p =
     jobj (present ''title'' (jopt JStr) (np_title p) @ present ''listId'' (jopt JStr) (np_list_id p) @
           present ''note'' (jopt JStr) (np_note p) @
           present ''tags'' (\<lambda>ts. JArr (map JStr ts)) (np_tags p) @
           present ''status'' (jopt (JStr \<circ> nstatus_as_str)) (np_status p) @
           present ''important'' (jopt JBool) (np_important p) @
           present ''dueOn'' (jopt JStr) (np_due_on p) @ present ''remindAt'' (jopt JStr) (np_remind_at p) @
           present ''remindTimezone'' (jopt JStr) (np_remind_timezone p) @
           present ''recurrence'' (jopt (\<lambda>r. r)) (np_recurrence p) @
           present ''rank'' (jopt JStr) (np_rank p) @
           present ''completedAt'' (jopt JStr) (np_completed_at p))"

definition nlist_patch_to_value :: "nlist_patch \<Rightarrow> json" where
  "nlist_patch_to_value p =
     jobj (present ''name'' (jopt JStr) (nlp_name p) @ present ''color'' (jopt JStr) (nlp_color p) @
           present ''icon'' (jopt JStr) (nlp_icon p) @ present ''rank'' (jopt JStr) (nlp_rank p))"

definition nstep_patch_to_value :: "nstep_patch \<Rightarrow> json" where
  "nstep_patch_to_value p =
     jobj (present ''title'' (jopt JStr) (nsp_title p) @
           present ''isCompleted'' (jopt JBool) (nsp_is_completed p) @
           present ''rank'' (jopt JStr) (nsp_rank p))"

end
