(* ===== verification/NativeText.thy ===== *)
theory NativeText
  imports NativeModel
begin

text \<open>
  The text helpers of \<open>crates/native-core/src/store.rs\<close>: identifiers, titles, notes, tags,
  dates and the base-36 ranks. What comes from other crates (\<open>chrono\<close>, the Unicode case
  tables, the clock, UUIDv7) is the parameter \<open>native_env\<close>; \<open>ne_now\<close> and \<open>ne_uuid\<close> are
  indexed by how often the store has asked.
\<close>

record native_env =
  ne_lower :: "string \<Rightarrow> string"
  ne_upper :: "string \<Rightarrow> string"
  ne_date_ok :: "string \<Rightarrow> bool"
  ne_instant :: "string \<Rightarrow> string option"
  ne_now :: "nat \<Rightarrow> string"
  ne_uuid :: "nat \<Rightarrow> string"

definition validate_non_empty_id :: "string \<Rightarrow> store_error + unit" where
  "validate_non_empty_id i = fail_if (trim i = [] \<or> length i > 128) SE_Validation"

definition clean_single_line :: "string \<Rightarrow> nat \<Rightarrow> string" where
  "clean_single_line v n =
     chars_take n (join [CHR 0x20] (split_whitespace (controls_to_space v)))"

definition clean_title :: "string \<Rightarrow> store_error + string" where
  "clean_title v =
     (let v = clean_single_line v 1000 in and_then (fail_if (v = []) SE_Validation) (\<lambda>_. Inr v))"

definition clean_list_name :: "string \<Rightarrow> store_error + string" where
  "clean_list_name v =
     (let v = clean_single_line v 120 in and_then (fail_if (v = []) SE_Validation) (\<lambda>_. Inr v))"

definition clean_note :: "string option \<Rightarrow> string" where
  "clean_note v = chars_take 20000 (crlf_to_lf (case v of None \<Rightarrow> [] | Some s \<Rightarrow> s))"

fun nnormalize_tags_loop ::
  "(string \<Rightarrow> string) \<Rightarrow> string list \<Rightarrow> string set \<Rightarrow> string list \<Rightarrow> store_error + string list" where
  "nnormalize_tags_loop lower [] seen out = Inr out"
| "nnormalize_tags_loop lower (raw # tags) seen out =
     (let tag = trim raw; len = chars_count tag in
      and_then (fail_if (len = 0 \<or> len > 32) SE_Validation) (\<lambda>_.
      if lower tag \<in> seen then nnormalize_tags_loop lower tags seen out
      else nnormalize_tags_loop lower tags (insert (lower tag) seen) (out @ [tag])))"

definition nnormalize_tags :: "(string \<Rightarrow> string) \<Rightarrow> string list \<Rightarrow> store_error + string list" where
  "nnormalize_tags lower tags =
     and_then (nnormalize_tags_loop lower tags {} []) (\<lambda>out.
     and_then (fail_if (length out > 20) SE_Validation) (\<lambda>_. Inr out))"

definition validate_date :: "native_env \<Rightarrow> string \<Rightarrow> store_error + unit" where
  "validate_date env v = fail_if (\<not> ne_date_ok env v) SE_InvalidDate"

definition normalize_instant :: "native_env \<Rightarrow> string \<Rightarrow> store_error + string" where
  "normalize_instant env v = ok_or (ne_instant env v) SE_InvalidDate"

definition validate_optional_text :: "string option \<Rightarrow> nat \<Rightarrow> store_error + string option" where
  "validate_optional_text v n =
     (case v of
        None \<Rightarrow> Inr None
      | Some s \<Rightarrow>
          let s = trim s in
          and_then (fail_if (chars_count s > n) SE_Validation) (\<lambda>_.
          Inr (if s = [] then None else Some s)))"

definition required :: "'a option option \<Rightarrow> store_error + 'a" where
  "required v = ok_or (Option.bind v (\<lambda>x. x)) SE_Validation"

definition required_optional :: "'a option option \<Rightarrow> store_error + 'a option" where
  "required_optional v = ok_or v SE_Validation"

text \<open>The check every operation makes of a rank it is given.\<close>

definition clean_rank :: "string \<Rightarrow> store_error + string" where
  "clean_rank r =
     (let r = trim r in
      and_then (fail_if (r = [] \<or> chars_count r > 128) SE_Validation) (\<lambda>_. Inr r))"

definition clean_timezone :: "string \<Rightarrow> store_error + string" where
  "clean_timezone z =
     (let z = trim z in
      and_then (fail_if (z = [] \<or> chars_count z > 64) SE_Validation) (\<lambda>_. Inr z))"

section \<open>Ranks\<close>

text \<open>\<open>char::to_digit(36)\<close>\<close>

definition digit36 :: "char \<Rightarrow> nat option" where
  "digit36 c =
     (if is_ascii_digit c then Some (byte c - 48)
      else if is_ascii_lower c then Some (byte c - 87)
      else if is_ascii_upper c then Some (byte c - 55)
      else None)"

fun digits36 :: "string \<Rightarrow> nat \<Rightarrow> nat option" where
  "digits36 [] acc = Some acc"
| "digits36 (c # s) acc = (case digit36 c of None \<Rightarrow> None | Some d \<Rightarrow> digits36 s (acc * 36 + d))"

text \<open>
  \<open>u64::from_str_radix(rank, 36)\<close>: an optional plus sign, at least one digit, no overflow (the
  running value only grows, so it overflows somewhere exactly when the whole does).
\<close>

definition from_str_radix36 :: "string \<Rightarrow> nat option" where
  "from_str_radix36 s =
     (let ds = (case s of c # r \<Rightarrow> if c = CHR ''+'' then r else s | [] \<Rightarrow> []) in
      if ds = [] then None
      else Option.bind (digits36 ds 0) (\<lambda>n. if n \<le> U64_MAX then Some n else None))"

definition parse_rank :: "string \<Rightarrow> nat" where
  "parse_rank r = (case from_str_radix36 r of None \<Rightarrow> 0 | Some n \<Rightarrow> n)"

definition digit36_char :: "nat \<Rightarrow> char" where
  "digit36_char n = (if n < 10 then char_of (48 + n) else char_of (87 + n))"

fun base36_digits :: "nat \<Rightarrow> string" where
  "base36_digits n = (if n = 0 then [] else base36_digits (n div 36) @ [digit36_char (n mod 36)])"

declare base36_digits.simps [simp del]

definition encode_base36 :: "nat \<Rightarrow> string" where
  "encode_base36 n = (if n = 0 then ''0'' else base36_digits n)"

text \<open>\<open>format!("{:0>6}", s)\<close>\<close>

definition pad6 :: "string \<Rightarrow> string" where
  "pad6 s = replicate (6 - length s) (CHR ''0'') @ s"

definition next_rank :: "string list \<Rightarrow> string" where
  "next_rank rows = pad6 (encode_base36 (min U64_MAX (fold max (map parse_rank rows) 0 + 1)))"

section \<open>Ranks are ordered\<close>

lemma digit36_of_char: "n < 36 \<Longrightarrow> digit36 (digit36_char n) = Some n"
  by (auto simp: digit36_def digit36_char_def is_ascii_digit_def is_ascii_lower_def)

lemma digits36_append:
  "digits36 (s @ t) acc = Option.bind (digits36 s acc) (digits36 t)"
  by (induction s arbitrary: acc) (auto split: option.splits)

lemma digits36_base36: "digits36 (base36_digits n) acc = Some (acc * 36 ^ length (base36_digits n) + n)"
proof (induction n arbitrary: acc rule: base36_digits.induct)
  case (1 n)
  show ?case
  proof (cases "n = 0")
    case True
    then show ?thesis by (simp add: base36_digits.simps [of 0])
  next
    case False
    with 1 [OF False] show ?thesis
      by (subst (1 2) base36_digits.simps)
        (simp add: digits36_append digit36_of_char algebra_simps)
  qed
qed

lemma digits36_zeros: "digits36 (replicate k (CHR ''0'') @ s) 0 = digits36 s 0"
  by (induction k) (simp_all add: digit36_def is_ascii_digit_def byte_def)

lemma encode_not_Nil [simp]: "encode_base36 n \<noteq> []"
  by (simp add: encode_base36_def base36_digits.simps [of n])

lemma digits36_encode: "digits36 (encode_base36 n) 0 = Some n"
  by (simp add: encode_base36_def digits36_base36 digit36_def is_ascii_digit_def byte_def)

lemma no_plus: "CHR ''+'' \<notin> set (pad6 (encode_base36 n))"
proof -
  have "digit36_char k \<noteq> CHR ''+''" if "k < 36" for k
    using digit36_of_char [OF that]
    by (auto simp: digit36_def is_ascii_digit_def is_ascii_lower_def is_ascii_upper_def byte_def)
  then have plus: "CHR ''+'' \<noteq> digit36_char (k mod 36)" for k
    by (metis mod_less_divisor zero_less_numeral)
  have "CHR ''+'' \<notin> set (base36_digits n)"
    by (induction n rule: base36_digits.induct) (subst base36_digits.simps, simp add: plus)
  then show ?thesis by (auto simp: pad6_def encode_base36_def)
qed

lemma parse_rank_pad6:
  assumes "n \<le> U64_MAX"
  shows "parse_rank (pad6 (encode_base36 n)) = n"
proof -
  obtain c r where s: "pad6 (encode_base36 n) = c # r"
    by (cases "pad6 (encode_base36 n)") (auto simp: pad6_def)
  moreover have "c \<noteq> CHR ''+''" using no_plus [of n] s by auto
  moreover have "digits36 (c # r) 0 = Some n"
    unfolding s [symmetric] pad6_def by (simp add: digits36_zeros digits36_encode)
  ultimately show ?thesis using assms
    by (simp add: parse_rank_def from_str_radix36_def Let_def del: digits36.simps)
qed

text \<open>Digit strings of the same length compare as the numbers they denote.\<close>

definition digits_value :: "nat list \<Rightarrow> nat" where
  "digits_value ds = foldl (\<lambda>a d. a * 36 + d) 0 ds"

lemma digits_value_Cons: "digits_value (d # ds) = d * 36 ^ length ds + digits_value ds"
proof -
  have "foldl (\<lambda>a d. a * 36 + d) a ds = a * 36 ^ length ds + foldl (\<lambda>a d. a * 36 + d) 0 ds" for a :: nat
  proof (induction ds arbitrary: a)
    case (Cons e ds)
    have "foldl (\<lambda>a d. a * 36 + d) (a * 36 + e) ds = (a * 36 + e) * 36 ^ length ds +
        foldl (\<lambda>a d. a * 36 + d) 0 ds"
      "foldl (\<lambda>a d. a * 36 + d) e ds = e * 36 ^ length ds + foldl (\<lambda>a d. a * 36 + d) 0 ds"
      by (rule Cons)+
    then show ?case by (simp add: distrib_right)
  qed simp
  from this [of d] show ?thesis by (simp add: digits_value_def)
qed

lemma digits_value_bound: "\<forall>d \<in> set ds. d < 36 \<Longrightarrow> digits_value ds < 36 ^ length ds"
proof (induction ds)
  case (Cons d ds)
  then have "digits_value ds < 36 ^ length ds" "d \<le> 35" by auto
  then have "d * 36 ^ length ds + digits_value ds < 35 * 36 ^ length ds + 36 ^ length ds"
    by (intro add_le_less_mono mult_le_mono) auto
  then show ?case by (simp add: digits_value_Cons)
qed (simp add: digits_value_def)

lemma digit36_char_less: "d < 36 \<Longrightarrow> e < 36 \<Longrightarrow> digit36_char d < digit36_char e \<longleftrightarrow> d < e"
  by (auto simp: digit36_char_def less_char_def)

lemma digits_less:
  "length ds = length es \<Longrightarrow> \<forall>d \<in> set ds. d < 36 \<Longrightarrow> \<forall>e \<in> set es. e < 36 \<Longrightarrow>
     digits_value ds < digits_value es \<Longrightarrow> map digit36_char ds < map digit36_char es"
proof (induction ds arbitrary: es)
  case (Cons d ds)
  then obtain e es' where es: "es = e # es'" "length ds = length es'" by (cases es) auto
  have bounds: "digits_value ds < 36 ^ length ds" "digits_value es' < 36 ^ length ds"
    using Cons.prems(2,3) es digits_value_bound [of ds] digits_value_bound [of es'] by auto
  have less: "d * 36 ^ length ds + digits_value ds < e * 36 ^ length ds + digits_value es'"
    using Cons.prems(4) es by (simp add: digits_value_Cons)
  have "\<not> e < d"
  proof
    assume "e < d"
    then have "(e + 1) * 36 ^ length ds \<le> d * 36 ^ length ds" by (intro mult_le_mono) auto
    with less bounds(2) show False by (simp add: algebra_simps)
  qed
  then consider "d < e" | "d = e" by linarith
  then show ?case
  proof cases
    case 1
    with Cons.prems(2,3) es show ?thesis by (simp add: digit36_char_less)
  next
    case 2
    with less Cons es show ?thesis by simp
  qed
qed simp

lemma digits_value_append_one: "digits_value (ds @ [d]) = digits_value ds * 36 + d"
  by (simp add: digits_value_def)

lemma base36_digits_value:
  "\<exists>ds. base36_digits n = map digit36_char ds \<and> (\<forall>d \<in> set ds. d < 36) \<and> digits_value ds = n"
proof (induction n rule: base36_digits.induct)
  case (1 n)
  show ?case
  proof (cases "n = 0")
    case True
    then show ?thesis by (simp add: base36_digits.simps [of 0] digits_value_def)
  next
    case False
    with 1 obtain ds where "base36_digits (n div 36) = map digit36_char ds" "\<forall>d \<in> set ds. d < 36"
      "digits_value ds = n div 36" by blast
    with False show ?thesis
      by (intro exI [of _ "ds @ [n mod 36]"])
        (simp add: base36_digits.simps [of n] digits_value_append_one)
  qed
qed

lemma length_base36: "n < 36 ^ k \<Longrightarrow> length (base36_digits n) \<le> k"
proof (induction k arbitrary: n)
  case 0
  then show ?case by (simp add: base36_digits.simps [of 0])
next
  case (Suc k)
  then have "n div 36 < 36 ^ k" by (simp add: less_mult_imp_div_less mult.commute)
  with Suc.IH show ?case by (subst base36_digits.simps) simp
qed

lemma pad6_digits:
  assumes "n < 36 ^ 6"
  shows "\<exists>ds. pad6 (encode_base36 n) = map digit36_char ds \<and> length ds = 6 \<and>
    (\<forall>d \<in> set ds. d < 36) \<and> digits_value ds = n"
proof -
  have zero: "digit36_char 0 = CHR ''0''" by (simp add: digit36_char_def char_of_eq_iff)
  obtain ds where ds: "encode_base36 n = map digit36_char ds" "\<forall>d \<in> set ds. d < 36"
      "digits_value ds = n" "length ds \<le> 6"
  proof (cases "n = 0")
    case True
    then show ?thesis
      by (intro that [of "[0]"]) (simp_all add: encode_base36_def zero digits_value_def)
  next
    case False
    obtain ds where "base36_digits n = map digit36_char ds" "\<forall>d \<in> set ds. d < 36" "digits_value ds = n"
      using base36_digits_value by blast
    with False length_base36 [OF assms] show ?thesis
      by (intro that [of ds]) (simp_all add: encode_base36_def)
  qed
  have "digits_value (replicate k 0 @ ds) = digits_value ds" for k
    by (induction k) (simp_all add: digits_value_Cons)
  with ds show ?thesis
    by (intro exI [of _ "replicate (6 - length ds) 0 @ ds"]) (auto simp: pad6_def zero)
qed

lemma pad6_less:
  assumes "m < n" and "n < 36 ^ 6"
  shows "pad6 (encode_base36 m) < pad6 (encode_base36 n)"
proof -
  obtain ds es where "pad6 (encode_base36 m) = map digit36_char ds" "length ds = 6"
    "\<forall>d \<in> set ds. d < 36" "digits_value ds = m"
    "pad6 (encode_base36 n) = map digit36_char es" "length es = 6"
    "\<forall>d \<in> set es. d < 36" "digits_value es = n"
    using pad6_digits [of m] pad6_digits [of n] assms by auto
  with assms(1) digits_less [of ds es] show ?thesis by simp
qed

lemma fold_max_ge: "(m::nat) \<le> fold max xs m" "x \<in> set xs \<Longrightarrow> x \<le> fold max xs m"
proof -
  have le: "(m::nat) \<le> fold max xs m" for m xs
  proof (induction xs arbitrary: m)
    case (Cons x xs)
    show ?case using order_trans [OF max.cobounded2 Cons [of "max x m"]] by simp
  qed simp
  show "m \<le> fold max xs m" by (rule le)
  show "x \<in> set xs \<Longrightarrow> x \<le> fold max xs m"
  proof (induction xs arbitrary: m)
    case (Cons y ys)
    then show ?case using le [of "max y m" ys] by auto
  qed simp
qed

lemma fold_max_bound: "(\<And>x. x \<in> set xs \<Longrightarrow> x \<le> b) \<Longrightarrow> m \<le> b \<Longrightarrow> fold max xs m \<le> (b::nat)"
  by (induction xs arbitrary: m) auto

text \<open>A rank the store made itself.\<close>

definition made_rank :: "string \<Rightarrow> bool" where
  "made_rank r \<longleftrightarrow> (\<exists>n < 36 ^ 6 - 1. r = pad6 (encode_base36 n))"

lemma U64_big: "n < 36 ^ 6 \<Longrightarrow> n \<le> U64_MAX"
  by (simp add: U64_MAX_def)

text \<open>C17. A new entity goes to the end: the rank chosen for it is greater (as text, the order of
  every list) than all ranks the store made before, below the six-digit limit.\<close>

theorem next_rank_is_last:
  assumes "\<forall>r \<in> set rows. made_rank r" and "r \<in> set rows"
  shows "r < next_rank rows"
proof -
  have parsed: "\<exists>n < 36 ^ 6 - 1. q = pad6 (encode_base36 n) \<and> parse_rank q = n" if "q \<in> set rows" for q
    using assms(1) that U64_big by (fastforce simp: made_rank_def parse_rank_pad6)
  let ?m = "fold max (map parse_rank rows) 0"
  have "?m \<le> 36 ^ 6 - 2"
    using parsed by (intro fold_max_bound) fastforce+
  then have m: "?m + 1 < 36 ^ 6" by simp
  obtain n where n: "r = pad6 (encode_base36 n)" "parse_rank r = n"
    using parsed [OF assms(2)] by blast
  have "n \<le> ?m" using n(2) assms(2) by (intro fold_max_ge) auto
  then show ?thesis
    unfolding next_rank_def n(1) using m U64_big [OF m] by (simp add: min_absorb2 pad6_less)
qed

end
