(* ===== verification/NativeDb.thy ===== *)
theory NativeDb
  imports NativeText "HOL-Library.Product_Lexorder" "HOL-Library.Multiset"
begin

text \<open>
  The SQLite database of \<open>crates/native-core/src/store.rs\<close> (\<open>SCHEMA_V1\<close>) and what all its
  operations share: rows by key, the inserts with the constraints they can violate, the
  outbox (\<open>append_mutation\<close>), and the orders lists are shown in. An operation is one SQLite
  transaction: it returns the new database or an error, after which the old one stands.
  \<open>nd_tick\<close> counts the calls to the clock and to the UUID generator, which \<open>native_env\<close>
  answers.
\<close>

section \<open>State\<close>

record shadow_row =
  sh_entity :: string
  sh_id :: string
  sh_rev :: int
  sh_payload :: json

record outbox_row =
  ob_op_id :: string
  ob_device_id :: string
  ob_client_seq :: int
  ob_entity :: string
  ob_entity_id :: string
  ob_kind :: string
  ob_patch :: json
  ob_created_at :: string
  ob_status :: string
  ob_error :: "string option"

record native_db =
  nd_lists :: "task_list list"
  nd_tasks :: "task list"
  nd_steps :: "step list"
  nd_plans :: "day_plan list"
  nd_shadow :: "shadow_row list"
  nd_outbox :: "outbox_row list"
  nd_kv :: "string \<Rightarrow> string option"
  nd_tick :: nat

definition native_now :: "native_env \<Rightarrow> native_db \<Rightarrow> string \<times> native_db" where
  "native_now env db = (ne_now env (nd_tick db), db\<lparr>nd_tick := nd_tick db + 1\<rparr>)"

definition native_uuid :: "native_env \<Rightarrow> native_db \<Rightarrow> string \<times> native_db" where
  "native_uuid env db = (ne_uuid env (nd_tick db), db\<lparr>nd_tick := nd_tick db + 1\<rparr>)"

section \<open>Start-up\<close>

definition kv_default :: "string \<Rightarrow> string \<Rightarrow> native_db \<Rightarrow> native_db" where
  "kv_default k v db = (if nd_kv db k = None then db\<lparr>nd_kv := (nd_kv db)(k \<mapsto> v)\<rparr> else db)"

definition ensure_local_identity :: "native_env \<Rightarrow> native_db \<Rightarrow> native_db" where
  "ensure_local_identity env db =
     (let db = (if nd_kv db ''device_id'' = None
                then (let (u, db) = native_uuid env db in db\<lparr>nd_kv := (nd_kv db)(''device_id'' \<mapsto> u)\<rparr>)
                else db);
          db = kv_default ''client_seq'' ''0'' db;
          db = kv_default ''sync_cursor'' ''0'' db
      in kv_default ''sync_enabled'' ''false'' db)"

section \<open>Rows\<close>

definition list_by_id :: "native_db \<Rightarrow> string \<Rightarrow> task_list option" where
  "list_by_id db i = lookup_row tl_id (nd_lists db) i"

definition task_by_id :: "native_db \<Rightarrow> string \<Rightarrow> task option" where
  "task_by_id db i = lookup_row t_id (nd_tasks db) i"

definition step_by_id :: "native_db \<Rightarrow> string \<Rightarrow> step option" where
  "step_by_id db i = lookup_row s_id (nd_steps db) i"

text \<open>\<open>... .ok_or_else(NotFound)?\<close> and the check that the row is not deleted.\<close>

definition live :: "('r \<Rightarrow> string option) \<Rightarrow> 'r option \<Rightarrow> store_error + 'r" where
  "live deleted r =
     and_then (ok_or r SE_NotFound) (\<lambda>r.
     and_then (fail_if (deleted r \<noteq> None) SE_NotFound) (\<lambda>_. Inr r))"

definition insert_list_row :: "task_list \<Rightarrow> native_db \<Rightarrow> store_error + native_db" where
  "insert_list_row l db =
     and_then (fail_if (list_by_id db (tl_id l) \<noteq> None) SE_Database) (\<lambda>_.
     Inr (db\<lparr>nd_lists := nd_lists db @ [l]\<rparr>))"

definition ninsert_task :: "task \<Rightarrow> native_db \<Rightarrow> store_error + native_db" where
  "ninsert_task t db =
     and_then (validate_non_empty_id (t_id t)) (\<lambda>_.
     and_then (clean_title (t_title t)) (\<lambda>_.
     and_then (fail_if (task_by_id db (t_id t) \<noteq> None) SE_Database) (\<lambda>_.
     and_then (fail_if (\<not> (case t_list_id t of None \<Rightarrow> True | Some l \<Rightarrow> list_by_id db l \<noteq> None))
       SE_Database) (\<lambda>_.
     Inr (db\<lparr>nd_tasks := nd_tasks db @ [t]\<rparr>)))))"

definition ninsert_step :: "step \<Rightarrow> native_db \<Rightarrow> store_error + native_db" where
  "ninsert_step s db =
     and_then (fail_if (step_by_id db (s_id s) \<noteq> None) SE_Database) (\<lambda>_.
     and_then (fail_if (task_by_id db (s_task_id s) = None) SE_Database) (\<lambda>_.
     Inr (db\<lparr>nd_steps := nd_steps db @ [s]\<rparr>)))"

definition plan_slot_of :: "day_plan \<Rightarrow> string \<times> string" where
  "plan_slot_of d = (d_task_id d, d_local_date d)"

definition ninsert_day_plan :: "day_plan \<Rightarrow> native_db \<Rightarrow> store_error + native_db" where
  "ninsert_day_plan d db =
     and_then (fail_if (lookup_row d_id (nd_plans db) (d_id d) \<noteq> None) SE_Database) (\<lambda>_.
     and_then (fail_if (lookup_row plan_slot_of (nd_plans db) (plan_slot_of d) \<noteq> None) SE_Database) (\<lambda>_.
     and_then (fail_if (task_by_id db (d_task_id d) = None) SE_Database) (\<lambda>_.
     Inr (db\<lparr>nd_plans := nd_plans db @ [d]\<rparr>))))"

definition nensure_active_list :: "native_db \<Rightarrow> string \<Rightarrow> store_error + unit" where
  "nensure_active_list db i =
     and_then (validate_non_empty_id i) (\<lambda>_.
     (case list_by_id db i of
        Some l \<Rightarrow> fail_if (tl_deleted_at l \<noteq> None) SE_NotFound
      | None \<Rightarrow> Inl SE_NotFound))"

section \<open>The outbox\<close>

definition saturating_add1 :: "int \<Rightarrow> int" where
  "saturating_add1 n = (if n = I64_MAX then I64_MAX else n + 1)"

text \<open>\<open>SELECT COALESCE(MAX(client_seq), 0) FROM outbox WHERE device_id = ?1\<close>\<close>

definition max_outbox_seq :: "outbox_row list \<Rightarrow> string \<Rightarrow> int" where
  "max_outbox_seq rows device =
     (case map ob_client_seq (filter (\<lambda>r. ob_device_id r = device) rows) of
        [] \<Rightarrow> 0 | s # ss \<Rightarrow> fold max ss s)"

definition append_mutation ::
  "native_env \<Rightarrow> string \<Rightarrow> string \<Rightarrow> string \<Rightarrow> json \<Rightarrow> native_db \<Rightarrow> store_error + native_db" where
  "append_mutation env entity entity_id kind patch db =
     and_then (ok_or (nd_kv db ''device_id'') SE_Internal) (\<lambda>device_id.
     and_then (ok_or (nd_kv db ''client_seq'') SE_Internal) (\<lambda>current_seq.
     and_then (ok_or (parse_i64 current_seq) SE_Internal) (\<lambda>current.
     let client_seq = saturating_add1 (max current (max_outbox_seq (nd_outbox db) device_id));
         status = (if nd_kv db ''sync_enabled'' = Some ''true'' then ''pending'' else ''local'');
         db = db\<lparr>nd_kv := (nd_kv db)(''client_seq'' \<mapsto> show_int client_seq)\<rparr>;
         (op_id, db) = native_uuid env db;
         (created_at, db) = native_now env db in
     and_then (fail_if (list_ex (\<lambda>r. ob_op_id r = op_id \<or>
           (ob_device_id r = device_id \<and> ob_client_seq r = client_seq)) (nd_outbox db)) SE_Database) (\<lambda>_.
     Inr (db\<lparr>nd_outbox := nd_outbox db @
       [\<lparr>ob_op_id = op_id, ob_device_id = device_id, ob_client_seq = client_seq, ob_entity = entity,
         ob_entity_id = entity_id, ob_kind = kind, ob_patch = patch, ob_created_at = created_at,
         ob_status = status, ob_error = None\<rparr>]\<rparr>)))))"

section \<open>Orders\<close>

datatype cmp = Lt | Eq | Gt

definition cmp_str :: "string \<Rightarrow> string \<Rightarrow> cmp" where
  "cmp_str a b = (if a < b then Lt else if a = b then Eq else Gt)"

definition then_with :: "cmp \<Rightarrow> cmp \<Rightarrow> cmp" where
  "then_with c d = (if c = Eq then d else c)"

text \<open>\<open>slice::sort_by\<close> is a stable sort.\<close>

fun insert_by :: "('a \<Rightarrow> 'a \<Rightarrow> cmp) \<Rightarrow> 'a \<Rightarrow> 'a list \<Rightarrow> 'a list" where
  "insert_by c x [] = [x]"
| "insert_by c x (y # ys) = (if c x y = Gt then y # insert_by c x ys else x # y # ys)"

definition sort_by :: "('a \<Rightarrow> 'a \<Rightarrow> cmp) \<Rightarrow> 'a list \<Rightarrow> 'a list" where
  "sort_by c xs = foldr (insert_by c) xs []"

definition compare_lists :: "task_list \<Rightarrow> task_list \<Rightarrow> cmp" where
  "compare_lists l r =
     then_with (cmp_str (tl_rank l) (tl_rank r)) (cmp_str (tl_created_at l) (tl_created_at r))"

definition sorted_lists :: "task_list list \<Rightarrow> task_list list" where
  "sorted_lists ls = sort_by compare_lists (filter (\<lambda>l. tl_deleted_at l = None) ls)"

definition compare_tasks :: "task \<Rightarrow> task \<Rightarrow> cmp" where
  "compare_tasks l r =
     (if t_status l \<noteq> t_status r then (if t_status l = NOpen then Lt else Gt)
      else (let by_rank = then_with (cmp_str (t_rank l) (t_rank r))
                            (cmp_str (t_created_at l) (t_created_at r)) in
            case (t_due_on l, t_due_on r) of
              (Some a, Some b) \<Rightarrow> if a \<noteq> b then cmp_str a b else by_rank
            | (Some _, None) \<Rightarrow> Lt
            | (None, Some _) \<Rightarrow> Gt
            | (None, None) \<Rightarrow> by_rank))"

text \<open>
  The contract of a comparison function: it compares the values of a key in a linear order.
  Then sorting with it is sorting by the key.
\<close>

locale key_comparison =
  fixes c :: "'a \<Rightarrow> 'a \<Rightarrow> cmp" and key :: "'a \<Rightarrow> 'k::linorder"
  assumes compares: "c x y = (if key x < key y then Lt else if key x = key y then Eq else Gt)"
begin

lemma insert_by_key: "insert_by c x ys = insort_key key x ys"
  by (induction ys) (auto simp: compares)

lemma sort_by_key: "sort_by c xs = sort_key key xs"
  by (simp add: sort_by_def sort_key_def insert_by_key [abs_def])

lemma sort_by_sorted: "sorted (map key (sort_by c xs))"
  by (simp add: sort_by_key)

lemma sort_by_mset: "mset (sort_by c xs) = mset xs"
  by (simp add: sort_by_key)

lemma comparison_antisym: "c x y = Lt \<longleftrightarrow> c y x = Gt"
  by (auto simp: compares)

end

definition list_key :: "task_list \<Rightarrow> string \<times> string" where
  "list_key l = (tl_rank l, tl_created_at l)"

definition task_key :: "task \<Rightarrow> bool \<times> bool \<times> string \<times> string \<times> string" where
  "task_key t =
     (t_status t = NCompleted, t_due_on t = None, (case t_due_on t of None \<Rightarrow> [] | Some d \<Rightarrow> d),
      t_rank t, t_created_at t)"

interpretation list_order: key_comparison compare_lists list_key
  by unfold_locales (auto simp: compare_lists_def list_key_def then_with_def cmp_str_def less_prod_def)

interpretation task_order: key_comparison compare_tasks task_key
proof
  show "compare_tasks x y =
      (if task_key x < task_key y then Lt else if task_key x = task_key y then Eq else Gt)" for x y
    by (cases "t_status x"; cases "t_status y"; cases "t_due_on x"; cases "t_due_on y")
      (auto simp: compare_tasks_def task_key_def then_with_def cmp_str_def less_prod_def Let_def)
qed

end
