(* ===== verification/NativeStore.thy ===== *)
theory NativeStore
  imports NativeDb
begin

text \<open>
  The operations of \<open>TodoStore\<close> (\<open>crates/native-core/src/store.rs\<close>) on lists, tasks, steps and
  day plans, each with its checks, its statement and the outbox entry (or entries) it
  appends in the same transaction.
\<close>

section \<open>Lists\<close>

definition create_list :: "native_env \<Rightarrow> new_list \<Rightarrow> native_db \<Rightarrow> store_error + task_list \<times> native_db" where
  "create_list env inp db =
     and_then (clean_list_name (nl_name inp)) (\<lambda>name.
     and_then (validate_optional_text (nl_color inp) 64) (\<lambda>color.
     and_then (validate_optional_text (nl_icon inp) 128) (\<lambda>icon.
     let (now, db) = native_now env db;
         (i, db) = native_uuid env db;
         l = \<lparr>tl_id = i, tl_name = name, tl_color = color, tl_icon = icon,
              tl_rank = next_rank (map tl_rank (nd_lists db)), tl_created_at = now,
              tl_updated_at = now, tl_deleted_at = None\<rparr> in
     and_then (insert_list_row l db) (\<lambda>db.
     and_then (append_mutation env ''list'' i ''create'' (list_to_value l) db) (\<lambda>db.
     Inr (l, db))))))"

text \<open>One field of a dynamic \<open>UPDATE ... SET\<close>: nothing when the patch does not mention it.\<close>

definition set_field ::
  "'a option \<Rightarrow> ('a \<Rightarrow> store_error + 'b) \<Rightarrow> ('b \<Rightarrow> 'r \<Rightarrow> 'r) \<Rightarrow> ('r \<Rightarrow> 'r) \<Rightarrow> store_error + ('r \<Rightarrow> 'r)" where
  "set_field f check upd sets =
     (case f of None \<Rightarrow> Inr sets | Some v \<Rightarrow> and_then (check v) (\<lambda>x. Inr (upd x \<circ> sets)))"

definition patch_list ::
  "native_env \<Rightarrow> string \<Rightarrow> nlist_patch \<Rightarrow> native_db \<Rightarrow> store_error + task_list \<times> native_db" where
  "patch_list env i patch db =
     and_then (fail_if (nlist_patch_is_empty patch) SE_Validation) (\<lambda>_.
     and_then (validate_non_empty_id i) (\<lambda>_.
     and_then (live tl_deleted_at (list_by_id db i)) (\<lambda>_.
     and_then (set_field (nlp_name patch) (\<lambda>v. and_then (required (Some v)) clean_list_name)
       (\<lambda>x r. r\<lparr>tl_name := x\<rparr>) id) (\<lambda>sets.
     and_then (set_field (nlp_color patch) (\<lambda>v. validate_optional_text v 64)
       (\<lambda>x r. r\<lparr>tl_color := x\<rparr>) sets) (\<lambda>sets.
     and_then (set_field (nlp_icon patch) (\<lambda>v. validate_optional_text v 128)
       (\<lambda>x r. r\<lparr>tl_icon := x\<rparr>) sets) (\<lambda>sets.
     and_then (set_field (nlp_rank patch) (\<lambda>v. and_then (required (Some v)) clean_rank)
       (\<lambda>x r. r\<lparr>tl_rank := x\<rparr>) sets) (\<lambda>sets.
     let (now, db) = native_now env db;
         db = db\<lparr>nd_lists := update_rows tl_id i (\<lambda>r. (sets r)\<lparr>tl_updated_at := now\<rparr>) (nd_lists db)\<rparr> in
     and_then (ok_or (list_by_id db i) SE_NotFound) (\<lambda>updated.
     and_then (append_mutation env ''list'' i ''patch'' (nlist_patch_to_value patch) db) (\<lambda>db.
     Inr (updated, db))))))))))"

text \<open>The loop of \<open>delete_list\<close>: each live task of the list loses its reference.\<close>

definition detach_task :: "native_env \<Rightarrow> string \<Rightarrow> string \<Rightarrow> native_db \<Rightarrow> store_error + native_db" where
  "detach_task env now task_id db =
     append_mutation env ''task'' task_id ''patch'' (jobj [(''listId'', JNull)])
       (db\<lparr>nd_tasks := update_rows t_id task_id
             (\<lambda>t. t\<lparr>t_list_id := None, t_updated_at := now\<rparr>) (nd_tasks db)\<rparr>)"

definition delete_list :: "native_env \<Rightarrow> string \<Rightarrow> native_db \<Rightarrow> store_error + native_db" where
  "delete_list env i db =
     and_then (validate_non_empty_id i) (\<lambda>_.
     (case list_by_id db i of
        None \<Rightarrow> Inr db
      | Some l \<Rightarrow>
          if tl_deleted_at l \<noteq> None then Inr db
          else
            let (now, db) = native_now env db;
                db = db\<lparr>nd_lists := update_rows tl_id i
                       (\<lambda>r. r\<lparr>tl_deleted_at := Some now, tl_updated_at := now\<rparr>) (nd_lists db)\<rparr> in
            and_then (append_mutation env ''list'' i ''delete'' (jobj []) db) (\<lambda>db.
            let task_ids = map t_id (filter (\<lambda>t. t_list_id t = Some i \<and> t_deleted_at t = None) (nd_tasks db)) in
            try_fold (detach_task env now) task_ids db)))"

definition restore_list :: "native_env \<Rightarrow> string \<Rightarrow> native_db \<Rightarrow> store_error + native_db" where
  "restore_list env i db =
     and_then (validate_non_empty_id i) (\<lambda>_.
     (case list_by_id db i of
        None \<Rightarrow> Inr db
      | Some l \<Rightarrow>
          if tl_deleted_at l = None then Inr db
          else
            let (now, db) = native_now env db;
                db = db\<lparr>nd_lists := update_rows tl_id i
                       (\<lambda>r. r\<lparr>tl_deleted_at := None, tl_updated_at := now\<rparr>) (nd_lists db)\<rparr> in
            append_mutation env ''list'' i ''restore'' (jobj []) db))"

section \<open>Tasks\<close>

record prepared_new_task =
  pn_list_id :: "string option"
  pn_title :: string
  pn_note :: string
  pn_tags :: "string list"
  pn_important :: bool
  pn_due_on :: "string option"
  pn_remind_at :: "string option"
  pn_remind_timezone :: "string option"
  pn_recurrence :: "json option"
  pn_rank :: "string option"
  pn_plan_date :: "string option"

definition opt_check :: "('a \<Rightarrow> store_error + 'b) \<Rightarrow> 'a option \<Rightarrow> store_error + 'b option" where
  "opt_check f v = (case v of None \<Rightarrow> Inr None | Some x \<Rightarrow> and_then (f x) (\<lambda>y. Inr (Some y)))"

definition prepare_new_task :: "native_env \<Rightarrow> new_task \<Rightarrow> store_error + prepared_new_task" where
  "prepare_new_task env inp =
     and_then (clean_title (nt_title inp)) (\<lambda>title.
     and_then (opt_check (validate_date env) (nt_due_on inp)) (\<lambda>_.
     and_then (opt_check (validate_date env) (nt_plan_date inp)) (\<lambda>_.
     and_then (opt_check (normalize_instant env) (nt_remind_at inp)) (\<lambda>remind_at.
     and_then (opt_check clean_timezone (nt_remind_timezone inp)) (\<lambda>remind_timezone.
     and_then (fail_if (case nt_recurrence inp of None \<Rightarrow> False | Some r \<Rightarrow> \<not> is_object r)
       SE_Validation) (\<lambda>_.
     and_then (opt_check clean_rank (nt_rank inp)) (\<lambda>rank.
     and_then (nnormalize_tags (ne_lower env) (nt_tags inp)) (\<lambda>tags.
     Inr \<lparr>pn_list_id = nt_list_id inp, pn_title = title, pn_note = clean_note (nt_note inp),
          pn_tags = tags,
          pn_important = (case nt_important inp of None \<Rightarrow> False | Some b \<Rightarrow> b),
          pn_due_on = nt_due_on inp, pn_remind_at = remind_at,
          pn_remind_timezone = remind_timezone, pn_recurrence = nt_recurrence inp,
          pn_rank = rank, pn_plan_date = nt_plan_date inp\<rparr>))))))))"

text \<open>The day plan both \<open>create_task\<close> and \<open>add_to_day\<close> insert, at the end of its day.\<close>

definition day_ranks :: "native_db \<Rightarrow> string \<Rightarrow> string list" where
  "day_ranks db date =
     map d_rank (filter (\<lambda>d. d_local_date d = date \<and> d_deleted_at d = None) (nd_plans db))"

definition create_day_plan ::
  "native_env \<Rightarrow> string \<Rightarrow> string \<Rightarrow> string \<Rightarrow> native_db \<Rightarrow> store_error + native_db" where
  "create_day_plan env task_id date created_at db =
     (let (i, db) = native_uuid env db;
          plan = \<lparr>d_id = i, d_task_id = task_id, d_local_date = date,
                  d_rank = next_rank (day_ranks db date), d_created_at = created_at,
                  d_updated_at = created_at, d_deleted_at = None\<rparr> in
      and_then (ninsert_day_plan plan db) (\<lambda>db.
      append_mutation env ''day_plan'' i ''create'' (day_plan_to_value plan) db))"

definition create_task :: "native_env \<Rightarrow> new_task \<Rightarrow> native_db \<Rightarrow> store_error + task \<times> native_db" where
  "create_task env inp db =
     and_then (prepare_new_task env inp) (\<lambda>p.
     and_then (case pn_list_id p of None \<Rightarrow> Inr () | Some l \<Rightarrow> nensure_active_list db l) (\<lambda>_.
     let rank = (case pn_rank p of Some r \<Rightarrow> r | None \<Rightarrow> next_rank (map t_rank (nd_tasks db)));
         (created_at, db) = native_now env db;
         (i, db) = native_uuid env db;
         t = \<lparr>t_id = i, t_list_id = pn_list_id p, t_title = pn_title p, t_note = pn_note p,
              t_tags = pn_tags p, t_status = NOpen, t_important = pn_important p,
              t_due_on = pn_due_on p, t_remind_at = pn_remind_at p,
              t_remind_timezone = pn_remind_timezone p, t_rank = rank, t_series_id = None,
              t_occurrence_key = pn_due_on p, t_recurrence = pn_recurrence p,
              t_completed_at = None, t_created_at = created_at, t_updated_at = created_at,
              t_deleted_at = None\<rparr> in
     and_then (ninsert_task t db) (\<lambda>db.
     and_then (append_mutation env ''task'' i ''create'' (task_to_value t) db) (\<lambda>db.
     and_then (case pn_plan_date p of
         None \<Rightarrow> Inr db | Some date \<Rightarrow> create_day_plan env i date created_at db) (\<lambda>db.
     Inr (t, db))))))"

text \<open>
  \<open>patch_task\<close> builds the assignments of its \<open>UPDATE\<close>, and beside them the patch it will log,
  with the values it cleaned.
\<close>

record task_edit =
  te_set :: "task \<Rightarrow> task"
  te_patch :: ntask_patch
  te_sets :: nat

definition edit :: "(task \<Rightarrow> task) \<Rightarrow> (ntask_patch \<Rightarrow> ntask_patch) \<Rightarrow> task_edit \<Rightarrow> task_edit" where
  "edit f g e = \<lparr>te_set = f \<circ> te_set e, te_patch = g (te_patch e), te_sets = te_sets e + 1\<rparr>"

definition edit_field ::
  "'a option \<Rightarrow> ('a \<Rightarrow> store_error + 'b) \<Rightarrow> ('b \<Rightarrow> task \<Rightarrow> task) \<Rightarrow> ('b \<Rightarrow> ntask_patch \<Rightarrow> ntask_patch) \<Rightarrow>
   task_edit \<Rightarrow> store_error + task_edit" where
  "edit_field f check upd log e =
     (case f of None \<Rightarrow> Inr e | Some v \<Rightarrow> and_then (check v) (\<lambda>x. Inr (edit (upd x) (log x) e)))"

definition check_recurrence :: "json \<Rightarrow> store_error + json" where
  "check_recurrence r = and_then (fail_if (\<not> is_object r) SE_Validation) (\<lambda>_. Inr r)"

definition check_list_ref :: "native_db \<Rightarrow> string \<Rightarrow> store_error + string" where
  "check_list_ref db l =
     and_then (validate_non_empty_id l) (\<lambda>_.
     and_then (nensure_active_list db l) (\<lambda>_. Inr l))"

definition patch_task_texts ::
  "native_env \<Rightarrow> native_db \<Rightarrow> ntask_patch \<Rightarrow> task_edit \<Rightarrow> store_error + task_edit" where
  "patch_task_texts env db p e =
     and_then (edit_field (np_title p) (\<lambda>v. and_then (required (Some v)) clean_title)
       (\<lambda>x t. t\<lparr>t_title := x\<rparr>) (\<lambda>x q. q\<lparr>np_title := Some (Some x)\<rparr>) e) (\<lambda>e.
     and_then (edit_field (np_list_id p) (opt_check (check_list_ref db))
       (\<lambda>x t. t\<lparr>t_list_id := x\<rparr>) (\<lambda>x q. q) e) (\<lambda>e.
     and_then (edit_field (np_note p) (\<lambda>v. Inr (clean_note v))
       (\<lambda>x t. t\<lparr>t_note := x\<rparr>) (\<lambda>x q. q\<lparr>np_note := Some (Some x)\<rparr>) e) (\<lambda>e.
     and_then (edit_field (np_tags p) (nnormalize_tags (ne_lower env))
       (\<lambda>x t. t\<lparr>t_tags := x\<rparr>) (\<lambda>x q. q\<lparr>np_tags := Some x\<rparr>) e) (\<lambda>e.
     edit_field (np_important p) (\<lambda>v. required (Some v))
       (\<lambda>x t. t\<lparr>t_important := x\<rparr>) (\<lambda>x q. q) e))))"

definition patch_task_schedule :: "native_env \<Rightarrow> ntask_patch \<Rightarrow> task_edit \<Rightarrow> store_error + task_edit" where
  "patch_task_schedule env p e =
     and_then (edit_field (np_due_on p)
       (opt_check (\<lambda>d. and_then (validate_date env d) (\<lambda>_. Inr d)))
       (\<lambda>x t. t\<lparr>t_due_on := x\<rparr>) (\<lambda>x q. q) e) (\<lambda>e.
     and_then (edit_field (np_remind_at p) (opt_check (normalize_instant env))
       (\<lambda>x t. t\<lparr>t_remind_at := x\<rparr>) (\<lambda>x q. q\<lparr>np_remind_at := Some x\<rparr>) e) (\<lambda>e.
     and_then (edit_field (np_remind_timezone p) (opt_check clean_timezone)
       (\<lambda>x t. t\<lparr>t_remind_timezone := x\<rparr>) (\<lambda>x q. q\<lparr>np_remind_timezone := Some x\<rparr>) e) (\<lambda>e.
     and_then (edit_field (np_recurrence p) (opt_check check_recurrence)
       (\<lambda>x t. t\<lparr>t_recurrence := x\<rparr>) (\<lambda>x q. q) e) (\<lambda>e.
     edit_field (np_rank p) (\<lambda>v. and_then (required (Some v)) clean_rank)
       (\<lambda>x t. t\<lparr>t_rank := x\<rparr>) (\<lambda>x q. q) e))))"

text \<open>The completion time: cleared by reopening, else the one given, else now.\<close>

definition patch_completed_at ::
  "native_env \<Rightarrow> ntask_patch \<Rightarrow> nstatus option \<Rightarrow> native_db \<Rightarrow>
   store_error + string option option \<times> native_db" where
  "patch_completed_at env p status db =
     (if status = Some NOpen then Inr (Some None, db)
      else (case np_completed_at p of
              Some v \<Rightarrow> and_then (opt_check (normalize_instant env) v) (\<lambda>x. Inr (Some x, db))
            | None \<Rightarrow>
                if status = Some NCompleted
                then (let (now, db) = native_now env db in Inr (Some (Some now), db))
                else Inr (None, db)))"

definition patch_task_edits ::
  "native_env \<Rightarrow> ntask_patch \<Rightarrow> native_db \<Rightarrow> store_error + task_edit \<times> native_db" where
  "patch_task_edits env p db =
     and_then (patch_task_texts env db p \<lparr>te_set = id, te_patch = p, te_sets = 0\<rparr>) (\<lambda>e.
     and_then (patch_task_schedule env p e) (\<lambda>e.
     and_then (edit_field (np_status p) (\<lambda>v. required (Some v))
       (\<lambda>x t. t\<lparr>t_status := x\<rparr>) (\<lambda>x q. q) e) (\<lambda>e.
     and_then (patch_completed_at env p (Option.bind (np_status p) (\<lambda>x. x)) db) (\<lambda>(completed_at, db).
     and_then (edit_field completed_at Inr
       (\<lambda>x t. t\<lparr>t_completed_at := x\<rparr>) (\<lambda>x q. q\<lparr>np_completed_at := Some x\<rparr>) e) (\<lambda>e.
     Inr (e, db))))))"

definition patch_task ::
  "native_env \<Rightarrow> string \<Rightarrow> ntask_patch \<Rightarrow> native_db \<Rightarrow> store_error + task \<times> native_db" where
  "patch_task env i patch db =
     and_then (fail_if (ntask_patch_is_empty patch) SE_Validation) (\<lambda>_.
     and_then (validate_non_empty_id i) (\<lambda>_.
     and_then (live t_deleted_at (task_by_id db i)) (\<lambda>_.
     and_then (patch_task_edits env patch db) (\<lambda>(e, db).
     let (now, db) = native_now env db in
     and_then (fail_if (te_sets e = 0) SE_Validation) (\<lambda>_.
     let db = db\<lparr>nd_tasks := update_rows t_id i (\<lambda>t. (te_set e t)\<lparr>t_updated_at := now\<rparr>) (nd_tasks db)\<rparr> in
     and_then (ok_or (task_by_id db i) SE_NotFound) (\<lambda>updated.
     and_then (append_mutation env ''task'' i ''patch'' (ntask_patch_to_value (te_patch e)) db) (\<lambda>db.
     Inr (updated, db))))))))"

definition commit_completion ::
  "native_env \<Rightarrow> string \<Rightarrow> string \<Rightarrow> task option \<Rightarrow> native_db \<Rightarrow>
   store_error + (task \<times> task option) \<times> native_db" where
  "commit_completion env i completed_at next_task db =
     and_then (validate_non_empty_id i) (\<lambda>_.
     and_then (normalize_instant env completed_at) (\<lambda>completed_at.
     and_then (case next_task of
         None \<Rightarrow> Inr ()
       | Some n \<Rightarrow> and_then (validate_non_empty_id (t_id n)) (\<lambda>_. fail_if (t_id n = i) SE_Conflict)) (\<lambda>_.
     and_then (live t_deleted_at (task_by_id db i)) (\<lambda>_.
     and_then (case Option.bind next_task t_list_id of
         None \<Rightarrow> Inr () | Some l \<Rightarrow> nensure_active_list db l) (\<lambda>_.
     let (now, db) = native_now env db;
         db = db\<lparr>nd_tasks := update_rows t_id i
                (\<lambda>t. t\<lparr>t_status := NCompleted, t_completed_at := Some completed_at, t_updated_at := now\<rparr>)
                (nd_tasks db)\<rparr> in
     and_then (ok_or (task_by_id db i) SE_NotFound) (\<lambda>completed.
     and_then (append_mutation env ''task'' i ''patch''
       (jobj [(''status'', JStr ''completed''), (''completedAt'', JStr completed_at)]) db) (\<lambda>db.
     and_then (case next_task of
         None \<Rightarrow> Inr db
       | Some n \<Rightarrow>
           and_then (ninsert_task n db) (\<lambda>db.
           append_mutation env ''task'' (t_id n) ''create'' (task_to_value n) db)) (\<lambda>db.
     Inr ((completed, next_task), db)))))))))"

definition delete_task :: "native_env \<Rightarrow> string \<Rightarrow> native_db \<Rightarrow> store_error + native_db" where
  "delete_task env i db =
     and_then (validate_non_empty_id i) (\<lambda>_.
     (case task_by_id db i of
        None \<Rightarrow> Inr db
      | Some t \<Rightarrow>
          if t_deleted_at t \<noteq> None then Inr db
          else
            let (now, db) = native_now env db;
                db = db\<lparr>nd_tasks := update_rows t_id i
                       (\<lambda>r. r\<lparr>t_deleted_at := Some now, t_updated_at := now\<rparr>) (nd_tasks db)\<rparr> in
            append_mutation env ''task'' i ''delete'' (jobj []) db))"

definition restore_task :: "native_env \<Rightarrow> string \<Rightarrow> native_db \<Rightarrow> store_error + native_db" where
  "restore_task env i db =
     and_then (validate_non_empty_id i) (\<lambda>_.
     (case task_by_id db i of
        None \<Rightarrow> Inr db
      | Some t \<Rightarrow>
          if t_deleted_at t = None then Inr db
          else
            let (now, db) = native_now env db;
                db = db\<lparr>nd_tasks := update_rows t_id i
                       (\<lambda>r. r\<lparr>t_deleted_at := None, t_updated_at := now\<rparr>) (nd_tasks db)\<rparr> in
            append_mutation env ''task'' i ''restore'' (jobj []) db))"

text \<open>\<open>position\<close> of the first match, and the neighbour a reorder swaps with.\<close>

fun position :: "('a \<Rightarrow> bool) \<Rightarrow> 'a list \<Rightarrow> nat option" where
  "position p [] = None"
| "position p (x # xs) = (if p x then Some 0 else map_option Suc (position p xs))"

definition siblings_of :: "native_db \<Rightarrow> task \<Rightarrow> task list" where
  "siblings_of db t =
     sort_by compare_tasks
       (filter (\<lambda>x. t_deleted_at x = None \<and> t_status x = t_status t \<and> t_list_id x = t_list_id t)
         (nd_tasks db))"

definition swap_target :: "string \<Rightarrow> nat \<Rightarrow> nat \<Rightarrow> nat option" where
  "swap_target direction index len =
     (if direction = ''up'' then (if index = 0 then None else Some (index - 1))
      else (if index + 1 < len then Some (index + 1) else None))"

definition reorder_task :: "native_env \<Rightarrow> string \<Rightarrow> string \<Rightarrow> native_db \<Rightarrow> store_error + native_db" where
  "reorder_task env i direction db =
     and_then (validate_non_empty_id i) (\<lambda>_.
     and_then (fail_if (direction \<noteq> ''up'' \<and> direction \<noteq> ''down'') SE_Validation) (\<lambda>_.
     and_then (live t_deleted_at (task_by_id db i)) (\<lambda>current.
     let siblings = siblings_of db current in
     (case position (\<lambda>t. t_id t = i) siblings of
        None \<Rightarrow> Inr db
      | Some index \<Rightarrow>
          (case swap_target direction index (length siblings) of
             None \<Rightarrow> Inr db
           | Some target \<Rightarrow>
               let other = siblings ! target;
                   (now, db) = native_now env db;
                   set_rank = (\<lambda>r t. t\<lparr>t_rank := r, t_updated_at := now\<rparr>);
                   db = db\<lparr>nd_tasks := update_rows t_id (t_id current) (set_rank (t_rank other)) (nd_tasks db)\<rparr>;
                   db = db\<lparr>nd_tasks := update_rows t_id (t_id other) (set_rank (t_rank current)) (nd_tasks db)\<rparr> in
               and_then (append_mutation env ''task'' (t_id current) ''patch''
                 (jobj [(''rank'', JStr (t_rank other))]) db)
               (append_mutation env ''task'' (t_id other) ''patch''
                 (jobj [(''rank'', JStr (t_rank current))])))))))"

section \<open>Day plans\<close>

definition plan_by_slot :: "native_db \<Rightarrow> string \<Rightarrow> string \<Rightarrow> day_plan option" where
  "plan_by_slot db task_id date = lookup_row plan_slot_of (nd_plans db) (task_id, date)"

definition add_to_day :: "native_env \<Rightarrow> string \<Rightarrow> string \<Rightarrow> native_db \<Rightarrow> store_error + native_db" where
  "add_to_day env task_id date db =
     and_then (validate_non_empty_id task_id) (\<lambda>_.
     and_then (validate_date env date) (\<lambda>_.
     and_then (live t_deleted_at (task_by_id db task_id)) (\<lambda>_.
     (case plan_by_slot db task_id date of
        Some plan \<Rightarrow>
          if d_deleted_at plan \<noteq> None then
            (let (now, db) = native_now env db;
                 db = db\<lparr>nd_plans := update_rows d_id (d_id plan)
                        (\<lambda>r. r\<lparr>d_deleted_at := None, d_updated_at := now\<rparr>) (nd_plans db)\<rparr> in
             append_mutation env ''day_plan'' (d_id plan) ''restore'' (jobj []) db)
          else Inr db
      | None \<Rightarrow>
          let (created_at, db) = native_now env db in
          create_day_plan env task_id date created_at db))))"

definition remove_from_day :: "native_env \<Rightarrow> string \<Rightarrow> string \<Rightarrow> native_db \<Rightarrow> store_error + native_db" where
  "remove_from_day env task_id date db =
     and_then (validate_non_empty_id task_id) (\<lambda>_.
     and_then (validate_date env date) (\<lambda>_.
     (case plan_by_slot db task_id date of
        None \<Rightarrow> Inr db
      | Some plan \<Rightarrow>
          if d_deleted_at plan \<noteq> None then Inr db
          else
            let (now, db) = native_now env db;
                db = db\<lparr>nd_plans := update_rows d_id (d_id plan)
                       (\<lambda>r. r\<lparr>d_deleted_at := Some now, d_updated_at := now\<rparr>) (nd_plans db)\<rparr> in
            append_mutation env ''day_plan'' (d_id plan) ''delete'' (jobj []) db)))"

section \<open>Steps\<close>

definition create_step :: "native_env \<Rightarrow> string \<Rightarrow> string \<Rightarrow> native_db \<Rightarrow> store_error + step \<times> native_db" where
  "create_step env task_id title db =
     and_then (validate_non_empty_id task_id) (\<lambda>_.
     and_then (clean_title title) (\<lambda>title.
     and_then (live t_deleted_at (task_by_id db task_id)) (\<lambda>_.
     let ranks = map s_rank (filter (\<lambda>s. s_task_id s = task_id \<and> s_deleted_at s = None) (nd_steps db));
         (created_at, db) = native_now env db;
         (i, db) = native_uuid env db;
         s = \<lparr>s_id = i, s_task_id = task_id, s_title = title, s_is_completed = False,
              s_rank = next_rank ranks, s_created_at = created_at, s_updated_at = created_at,
              s_deleted_at = None\<rparr> in
     and_then (ninsert_step s db) (\<lambda>db.
     and_then (append_mutation env ''step'' i ''create'' (step_to_value s) db) (\<lambda>db.
     Inr (s, db))))))"

definition patch_step ::
  "native_env \<Rightarrow> string \<Rightarrow> nstep_patch \<Rightarrow> native_db \<Rightarrow> store_error + step \<times> native_db" where
  "patch_step env i patch db =
     and_then (fail_if (nstep_patch_is_empty patch) SE_Validation) (\<lambda>_.
     and_then (validate_non_empty_id i) (\<lambda>_.
     and_then (live s_deleted_at (step_by_id db i)) (\<lambda>_.
     and_then (set_field (nsp_title patch) (\<lambda>v. and_then (required (Some v)) clean_title)
       (\<lambda>x r. r\<lparr>s_title := x\<rparr>) id) (\<lambda>sets.
     and_then (set_field (nsp_is_completed patch) (\<lambda>v. required (Some v))
       (\<lambda>x r. r\<lparr>s_is_completed := x\<rparr>) sets) (\<lambda>sets.
     and_then (set_field (nsp_rank patch) (\<lambda>v. and_then (required (Some v)) clean_rank)
       (\<lambda>x r. r\<lparr>s_rank := x\<rparr>) sets) (\<lambda>sets.
     let (now, db) = native_now env db;
         db = db\<lparr>nd_steps := update_rows s_id i (\<lambda>r. (sets r)\<lparr>s_updated_at := now\<rparr>) (nd_steps db)\<rparr> in
     and_then (ok_or (step_by_id db i) SE_NotFound) (\<lambda>updated.
     and_then (append_mutation env ''step'' i ''patch'' (nstep_patch_to_value patch) db) (\<lambda>db.
     Inr (updated, db)))))))))"

definition delete_step :: "native_env \<Rightarrow> string \<Rightarrow> native_db \<Rightarrow> store_error + native_db" where
  "delete_step env i db =
     and_then (validate_non_empty_id i) (\<lambda>_.
     (case step_by_id db i of
        None \<Rightarrow> Inr db
      | Some s \<Rightarrow>
          if s_deleted_at s \<noteq> None then Inr db
          else
            let (now, db) = native_now env db;
                db = db\<lparr>nd_steps := update_rows s_id i
                       (\<lambda>r. r\<lparr>s_deleted_at := Some now, s_updated_at := now\<rparr>) (nd_steps db)\<rparr> in
            append_mutation env ''step'' i ''delete'' (jobj []) db))"

end
