(* ===== verification/NativeQuery.thy ===== *)
theory NativeQuery
  imports NativeStore
begin

text \<open>
  The reads of \<open>TodoStore\<close> (\<open>crates/native-core/src/store.rs\<close>): \<open>get_task\<close>, \<open>list_tasks\<close>,
  \<open>list_day_plan\<close>, \<open>list_lists\<close>, \<open>get_counts\<close>, \<open>list_outbox\<close>, and what they promise: the filter,
  the order, the limit, and counts that agree with the views they stand next to.
\<close>

section \<open>Filters\<close>

definition task_matches_search :: "native_env \<Rightarrow> task \<Rightarrow> string \<Rightarrow> bool" where
  "task_matches_search env t search =
     (let needle = ne_lower env (trim search) in
      if needle = [] then True
      else
        let haystack = ne_lower env (t_title t @ [CHR 0x0A] @ t_note t @ [CHR 0x0A] @
                         join [CHR 0x20] (t_tags t)) in
        list_all (\<lambda>token. contains haystack token) (split_whitespace needle))"

definition task_matches_query :: "native_env \<Rightarrow> task_query \<Rightarrow> task \<Rightarrow> bool" where
  "task_matches_query env q t =
     (if t_deleted_at t \<noteq> None then False
      else if tq_view q = CompletedTasks \<and> t_status t \<noteq> NCompleted then False
      else if tq_view q \<noteq> CompletedTasks \<and> \<not> tq_include_completed q \<and> t_status t \<noteq> NOpen then False
      else if tq_view q = Important \<and> \<not> t_important t then False
      else if tq_view q = Planned \<and> t_due_on t = None then False
      else if tq_view q = InList \<and> t_list_id t \<noteq> tq_list_id q then False
      else if (case tq_due_from q of None \<Rightarrow> False
               | Some d \<Rightarrow> (case t_due_on t of None \<Rightarrow> True | Some due \<Rightarrow> due < d)) then False
      else if (case tq_due_to q of None \<Rightarrow> False
               | Some d \<Rightarrow> (case t_due_on t of None \<Rightarrow> True | Some due \<Rightarrow> d < due)) then False
      else if tq_tags q \<noteq> [] \<and>
              \<not> list_all (\<lambda>tag. ne_lower env (trim tag) \<in> ne_lower env ` set (t_tags t)) (tq_tags q) then False
      else task_matches_search env t (case tq_search q of None \<Rightarrow> [] | Some s \<Rightarrow> s))"

section \<open>Details\<close>

definition compare_steps :: "step \<Rightarrow> step \<Rightarrow> cmp" where
  "compare_steps l r =
     then_with (cmp_str (s_rank l) (s_rank r)) (cmp_str (s_created_at l) (s_created_at r))"

definition compare_plans :: "day_plan \<Rightarrow> day_plan \<Rightarrow> cmp" where
  "compare_plans l r =
     then_with (cmp_str (d_local_date l) (d_local_date r)) (cmp_str (d_rank l) (d_rank r))"

text \<open>
  \<open>index_by_task\<close> keeps the last position of an id, so with a repeated id only the last
  occurrence receives the details.
\<close>

fun attach_details :: "native_db \<Rightarrow> task list \<Rightarrow> task_with_steps list" where
  "attach_details db [] = []"
| "attach_details db (t # ts) =
     (let mine = t_id t \<notin> t_id ` set ts in
      \<lparr>tws_task = t,
       tws_steps = (if mine then sort_by compare_steps
           (filter (\<lambda>s. s_deleted_at s = None \<and> s_task_id s = t_id t) (nd_steps db)) else []),
       tws_day_plan_dates = (if mine then map d_local_date (sort_by compare_plans
           (filter (\<lambda>d. d_deleted_at d = None \<and> d_task_id d = t_id t) (nd_plans db))) else [])\<rparr>
      # attach_details db ts)"

definition get_task :: "native_db \<Rightarrow> string \<Rightarrow> store_error + task_with_steps option" where
  "get_task db i =
     and_then (validate_non_empty_id i) (\<lambda>_.
     (case task_by_id db i of
        None \<Rightarrow> Inr None
      | Some t \<Rightarrow>
          if t_deleted_at t \<noteq> None then Inr None
          else Inr (case attach_details db [t] of [] \<Rightarrow> None | x # _ \<Rightarrow> Some x)))"

section \<open>Views\<close>

text \<open>The join of live plans of a day with live tasks.\<close>

definition day_rows :: "native_db \<Rightarrow> string \<Rightarrow> (task \<times> string) list" where
  "day_rows db date =
     concat (map (\<lambda>t. map (\<lambda>d. (t, d_rank d))
       (filter (\<lambda>d. d_task_id d = t_id t \<and> d_deleted_at d = None \<and> d_local_date d = date) (nd_plans db)))
       (filter (\<lambda>t. t_deleted_at t = None) (nd_tasks db)))"

definition compare_day :: "task \<times> string \<Rightarrow> task \<times> string \<Rightarrow> cmp" where
  "compare_day l r =
     then_with (cmp_str (snd l) (snd r)) (cmp_str (t_created_at (fst l)) (t_created_at (fst r)))"

definition list_tasks :: "native_env \<Rightarrow> native_db \<Rightarrow> task_query \<Rightarrow> store_error + task_with_steps list" where
  "list_tasks env db q =
     and_then (opt_check (validate_date env) (tq_local_date q)) (\<lambda>_.
     and_then (opt_check (validate_date env) (tq_due_from q)) (\<lambda>_.
     and_then (opt_check (validate_date env) (tq_due_to q)) (\<lambda>_.
     and_then (fail_if (tq_view q = MyDay \<and> tq_local_date q = None) SE_Validation) (\<lambda>_.
     let rows = (if tq_view q = MyDay
                 then day_rows db (case tq_local_date q of None \<Rightarrow> [] | Some d \<Rightarrow> d)
                 else map (\<lambda>t. (t, [])) (nd_tasks db));
         rows = filter (\<lambda>r. task_matches_query env q (fst r)) rows;
         rows = (if tq_view q = MyDay then sort_by compare_day rows
                 else sort_by (\<lambda>l r. compare_tasks (fst l) (fst r)) rows);
         limit = max 1 (min 5000 (case tq_limit q of None \<Rightarrow> 500 | Some n \<Rightarrow> n)) in
     Inr (attach_details db (map fst (take limit rows)))))))"

definition list_day_plan :: "native_env \<Rightarrow> native_db \<Rightarrow> string \<Rightarrow> store_error + task_with_steps list" where
  "list_day_plan env db date =
     and_then (validate_date env date) (\<lambda>_.
     Inr (attach_details db (map fst (sort_by compare_day (day_rows db date)))))"

definition list_lists :: "native_db \<Rightarrow> task_list list" where
  "list_lists db = sorted_lists (nd_lists db)"

fun count_lists :: "task list \<Rightarrow> (string \<times> nat) list \<Rightarrow> (string \<times> nat) list" where
  "count_lists [] counts = counts"
| "count_lists (t # ts) counts =
     count_lists ts
       (case t_list_id t of
          None \<Rightarrow> counts
        | Some l \<Rightarrow> jput l ((case jget counts l of None \<Rightarrow> 0 | Some n \<Rightarrow> n) + 1) counts)"

definition get_counts :: "native_env \<Rightarrow> native_db \<Rightarrow> string \<Rightarrow> store_error + view_counts" where
  "get_counts env db date =
     and_then (validate_date env date) (\<lambda>_.
     let open_tasks = filter (\<lambda>t. t_deleted_at t = None \<and> t_status t = NOpen) (nd_tasks db);
         my_day_ids = d_task_id ` set (filter (\<lambda>d. d_local_date d = date \<and> d_deleted_at d = None) (nd_plans db));
         zero = fold (\<lambda>l m. jput (tl_id l) 0 m) (list_lists db) [] in
     Inr \<lparr>vc_my_day = length (filter (\<lambda>t. t_id t \<in> my_day_ids) open_tasks),
          vc_important = length (filter t_important open_tasks),
          vc_planned = length (filter (\<lambda>t. t_due_on t \<noteq> None) open_tasks),
          vc_completed = length (filter (\<lambda>t. t_deleted_at t = None \<and> t_status t = NCompleted) (nd_tasks db)),
          vc_all = length open_tasks,
          vc_lists = count_lists open_tasks zero\<rparr>)"

section \<open>The lists shown are the right ones, in order\<close>

interpretation day_order: key_comparison compare_day "\<lambda>r. (snd r, t_created_at (fst r))"
  by unfold_locales (auto simp: compare_day_def then_with_def cmp_str_def less_prod_def)

interpretation pair_order: key_comparison "\<lambda>l r. compare_tasks (fst l) (fst r)" "\<lambda>r. task_key (fst r)"
  by unfold_locales (rule task_order.compares)

interpretation step_order: key_comparison compare_steps "\<lambda>s. (s_rank s, s_created_at s)"
  by unfold_locales (auto simp: compare_steps_def then_with_def cmp_str_def less_prod_def)

interpretation plan_order: key_comparison compare_plans "\<lambda>d. (d_local_date d, d_rank d)"
  by unfold_locales (auto simp: compare_plans_def then_with_def cmp_str_def less_prod_def)

lemma map_task_attach: "map tws_task (attach_details db ts) = ts"
  by (induction ts) (simp_all add: Let_def)

text \<open>What a view shows, said of the task, its plans and the query alone.\<close>

definition planned_for :: "native_db \<Rightarrow> string \<Rightarrow> task \<Rightarrow> bool" where
  "planned_for db date t \<longleftrightarrow> (\<exists>d \<in> set (nd_plans db).
     d_task_id d = t_id t \<and> d_local_date d = date \<and> d_deleted_at d = None)"

definition belongs :: "native_db \<Rightarrow> task_query \<Rightarrow> task \<Rightarrow> bool" where
  "belongs db q t = (case tq_view q of
     MyDay \<Rightarrow> (case tq_local_date q of None \<Rightarrow> False | Some date \<Rightarrow> planned_for db date t)
   | Important \<Rightarrow> t_important t
   | Planned \<Rightarrow> t_due_on t \<noteq> None
   | AllTasks \<Rightarrow> True
   | CompletedTasks \<Rightarrow> t_status t = NCompleted
   | InList \<Rightarrow> t_list_id t = tq_list_id q)"

definition due_between :: "string option \<Rightarrow> string option \<Rightarrow> task \<Rightarrow> bool" where
  "due_between lo hi t \<longleftrightarrow>
     (\<forall>d. lo = Some d \<longrightarrow> (\<exists>due. t_due_on t = Some due \<and> d \<le> due)) \<and>
     (\<forall>d. hi = Some d \<longrightarrow> (\<exists>due. t_due_on t = Some due \<and> due \<le> d))"

definition carries :: "native_env \<Rightarrow> string list \<Rightarrow> task \<Rightarrow> bool" where
  "carries env tags t \<longleftrightarrow>
     (\<forall>tag \<in> set tags. \<exists>tag' \<in> set (t_tags t). ne_lower env tag' = ne_lower env (trim tag))"

definition mentions :: "native_env \<Rightarrow> string \<Rightarrow> task \<Rightarrow> bool" where
  "mentions env search t \<longleftrightarrow> (\<forall>w \<in> set (split_whitespace (ne_lower env (trim search))). \<exists>a b.
     ne_lower env (t_title t @ [CHR 0x0A] @ t_note t @ [CHR 0x0A] @ join [CHR 0x20] (t_tags t)) = a @ w @ b)"

definition shown :: "native_env \<Rightarrow> native_db \<Rightarrow> task_query \<Rightarrow> task \<Rightarrow> bool" where
  "shown env db q t \<longleftrightarrow>
     t_deleted_at t = None \<and>
     (tq_view q = CompletedTasks \<or> tq_include_completed q \<or> t_status t = NOpen) \<and>
     belongs db q t \<and> due_between (tq_due_from q) (tq_due_to q) t \<and> carries env (tq_tags q) t \<and>
     mentions env (case tq_search q of None \<Rightarrow> [] | Some s \<Rightarrow> s) t"

definition plan_rank :: "native_db \<Rightarrow> string \<Rightarrow> task \<Rightarrow> string" where
  "plan_rank db date t = (case find (\<lambda>d. d_task_id d = t_id t \<and> d_deleted_at d = None \<and>
     d_local_date d = date) (nd_plans db) of None \<Rightarrow> [] | Some d \<Rightarrow> d_rank d)"

definition page_limit :: "task_query \<Rightarrow> nat" where
  "page_limit q = max 1 (min 5000 (case tq_limit q of None \<Rightarrow> 500 | Some n \<Rightarrow> n))"

lemma contains_iff: "contains s p \<longleftrightarrow> (\<exists>a b. s = a @ p @ b)"
proof (induction s)
  case (Cons c s)
  have "starts_with (c # s) p \<longleftrightarrow> (\<exists>b. c # s = p @ b)"
    unfolding starts_with_def by (metis append_eq_conv_conj append_take_drop_id)
  with Cons show ?case by (auto simp: Cons_eq_append_conv)
qed auto

lemma no_words: "split_whitespace [] = []"
  by code_simp

lemma search_mentions: "task_matches_search env t s \<longleftrightarrow> mentions env s t"
  by (auto simp: task_matches_search_def mentions_def Let_def list_all_iff contains_iff no_words)

lemma tags_carried:
  "tags \<noteq> [] \<and> \<not> list_all (\<lambda>tag. ne_lower env (trim tag) \<in> ne_lower env ` set (t_tags t)) tags \<longleftrightarrow>
     \<not> carries env tags t"
  by (auto simp: carries_def list_all_iff image_iff) metis+

lemma due_bounds:
  "(case t_due_on t of None \<Rightarrow> True | Some due \<Rightarrow> due < d) \<longleftrightarrow> \<not> due_between (Some d) None t"
  "(case t_due_on t of None \<Rightarrow> True | Some due \<Rightarrow> d < due) \<longleftrightarrow> \<not> due_between None (Some d) t"
  by (auto simp: due_between_def split: option.splits)

lemma due_from_until:
  "(case lo of None \<Rightarrow> False | Some d \<Rightarrow> \<not> due_between (Some d) None t) \<or>
   (case hi of None \<Rightarrow> False | Some d \<Rightarrow> \<not> due_between None (Some d) t) \<longleftrightarrow> \<not> due_between lo hi t"
  by (auto simp: due_between_def split: option.splits)

lemma query_conditions:
  "task_matches_query env q t \<longleftrightarrow>
     t_deleted_at t = None \<and>
     (if tq_view q = CompletedTasks then t_status t = NCompleted
      else tq_include_completed q \<or> t_status t = NOpen) \<and>
     (tq_view q = Important \<longrightarrow> t_important t) \<and> (tq_view q = Planned \<longrightarrow> t_due_on t \<noteq> None) \<and>
     (tq_view q = InList \<longrightarrow> t_list_id t = tq_list_id q) \<and>
     due_between (tq_due_from q) (tq_due_to q) t \<and> carries env (tq_tags q) t \<and>
     mentions env (case tq_search q of None \<Rightarrow> [] | Some s \<Rightarrow> s) t"
  unfolding task_matches_query_def tags_carried search_mentions due_bounds
  using due_from_until[where lo = "tq_due_from q" and hi = "tq_due_to q" and t = t]
  by (cases "tq_view q") (auto split: if_splits)

lemma matches_shown:
  "task_matches_query env q t \<and> belongs db q t \<longleftrightarrow> shown env db q t"
  unfolding query_conditions shown_def belongs_def by (cases "tq_view q") auto

lemma matches_belongs:
  "tq_view q \<noteq> MyDay \<Longrightarrow> task_matches_query env q t \<Longrightarrow> belongs db q t"
  unfolding query_conditions belongs_def by (cases "tq_view q") auto

text \<open>With one plan for a task and a day, the join gives each planned task once.\<close>

lemma slot_rows:
  assumes "distinct (map f xs)"
  shows "map g (filter (\<lambda>x. f x = k \<and> P x) xs) =
    (case find (\<lambda>x. f x = k \<and> P x) xs of None \<Rightarrow> [] | Some x \<Rightarrow> [g x])"
  using assms
proof (induction xs)
  case (Cons a xs)
  have "filter (\<lambda>x. f x = k \<and> P x) xs = []" if "f a = k"
    unfolding that[symmetric] using Cons.prems by (auto simp: filter_empty_conv) (metis imageI)
  then show ?case using Cons by auto
qed simp

lemma planned_find:
  "planned_for db date t \<longleftrightarrow> find (\<lambda>d. d_task_id d = t_id t \<and> d_deleted_at d = None \<and>
     d_local_date d = date) (nd_plans db) \<noteq> None"
  unfolding planned_for_def find_None_iff by blast

lemma day_rows_once:
  assumes "pk plan_slot_of (nd_plans db)"
  shows "day_rows db date =
    map (\<lambda>t. (t, plan_rank db date t)) (filter (\<lambda>t. t_deleted_at t = None \<and> planned_for db date t) (nd_tasks db))"
proof -
  have eq: "(\<lambda>d. d_task_id d = i \<and> d_deleted_at d = None \<and> d_local_date d = date) =
      (\<lambda>d. plan_slot_of d = (i, date) \<and> d_deleted_at d = None)" for i
    by (auto simp: plan_slot_of_def)
  have one: "map (\<lambda>d. (t, d_rank d)) (filter (\<lambda>d. d_task_id d = t_id t \<and> d_deleted_at d = None \<and>
      d_local_date d = date) (nd_plans db)) =
      (if planned_for db date t then [(t, plan_rank db date t)] else [])" for t
    using slot_rows[OF assms[unfolded pk_def], of "\<lambda>d. (t, d_rank d)" "(t_id t, date)" "\<lambda>d. d_deleted_at d = None"]
    unfolding plan_rank_def planned_find eq by (auto split: option.split)
  have "concat (map (\<lambda>t. if P t then [g t] else []) (filter Q ts)) = map g (filter (\<lambda>t. Q t \<and> P t) ts)"
    for P Q and g :: "task \<Rightarrow> task \<times> string" and ts
    by (induction ts) auto
  then show ?thesis unfolding day_rows_def one by simp
qed

lemma map_fst_sort:
  assumes "\<And>t. fst (g t) = t"
  shows "map fst (sort_key k (map g ts)) = sort_key (\<lambda>t. k (g t)) ts"
proof -
  have "map fst (insort_key k (g t) ys) = insort_key (\<lambda>t. k (g t)) t (map fst ys)"
    if "\<forall>y \<in> set ys. g (fst y) = y" for t ys
    using that assms by (induction ys) auto
  moreover have "\<forall>y \<in> set (sort_key k (map g ts)). g (fst y) = y" for ts using assms by auto
  ultimately show ?thesis by (induction ts) (simp_all add: sort_key_def)
qed

lemma list_tasks_rows:
  assumes "list_tasks env db q = Inr page" and "tq_view q \<noteq> MyDay"
  shows "map tws_task page =
    take (page_limit q) (sort_key task_key (filter (shown env db q) (nd_tasks db)))"
proof -
  have "filter (\<lambda>r. task_matches_query env q (fst r)) (map (\<lambda>t. (t, []::string)) ts) =
      map (\<lambda>t. (t, [])) (filter (shown env db q) ts)" for ts
    by (induction ts) (auto simp flip: matches_shown intro: matches_belongs[OF assms(2)])
  with assms show ?thesis
    by (auto simp: list_tasks_def and_then_eq_Inr Let_def pair_order.sort_by_key map_task_attach
        page_limit_def map_fst_sort simp flip: take_map)
qed

lemma list_day_rows:
  assumes "list_tasks env db q = Inr page" and "tq_view q = MyDay" and "pk plan_slot_of (nd_plans db)"
  obtains date where "tq_local_date q = Some date"
    and "map tws_task page = take (page_limit q)
      (sort_key (\<lambda>t. (plan_rank db date t, t_created_at t)) (filter (shown env db q) (nd_tasks db)))"
proof -
  obtain date where d: "tq_local_date q = Some date"
    using assms(1,2) by (auto simp: list_tasks_def and_then_eq_Inr fail_if_def split: if_splits)
  have sh: "shown env db q = (\<lambda>t. (t_deleted_at t = None \<and> planned_for db date t) \<and> task_matches_query env q t)"
    unfolding matches_shown[symmetric] belongs_def using assms(2) d by (auto simp: query_conditions)
  have "filter (\<lambda>r. task_matches_query env q (fst r)) (map (\<lambda>t. (t, plan_rank db date t))
        (filter (\<lambda>t. t_deleted_at t = None \<and> planned_for db date t) ts)) =
      map (\<lambda>t. (t, plan_rank db date t)) (filter (shown env db q) ts)" for ts
    unfolding sh filter_map filter_filter o_def fst_conv by (rule refl)
  note rows = this
  have "page = attach_details db (map fst (take (page_limit q) (sort_by compare_day
      (filter (\<lambda>r. task_matches_query env q (fst r)) (day_rows db date)))))"
    using assms(1,2) d by (auto simp: list_tasks_def and_then_eq_Inr Let_def page_limit_def)
  then have "map tws_task page = take (page_limit q)
      (sort_key (\<lambda>t. (plan_rank db date t, t_created_at t)) (filter (shown env db q) (nd_tasks db)))"
    unfolding day_rows_once[OF assms(3)] rows
    by (simp add: map_task_attach day_order.sort_by_key map_fst_sort flip: take_map)
  with d show ?thesis by (rule that)
qed

text \<open>C18. A task view shows exactly the tasks it is for, once each: live, open unless completed ones
  are asked for, belonging to the view (planned for the day, important, with a due date, of the
  list, completed), within the due dates asked for, with every tag asked for and every word of
  the search text. They come in the order of the view (My Day: the rank of the plan, then
  creation; else open before completed, earlier due dates first, undated last, then rank, then
  creation), cut at the limit (500 by default, at most 5000). My Day needs one plan for a task
  and a day, which the database's unique index keeps.\<close>

theorem list_tasks_exact:
  assumes "list_tasks env db q = Inr page" and "tq_view q = MyDay \<Longrightarrow> pk plan_slot_of (nd_plans db)"
  shows "\<exists>rest. mset (map tws_task page @ rest) = mset (filter (shown env db q) (nd_tasks db)) \<and>
    (tq_view q \<noteq> MyDay \<longrightarrow> sorted (map task_key (map tws_task page @ rest))) \<and>
    (tq_view q = MyDay \<longrightarrow> (\<exists>date. tq_local_date q = Some date \<and>
       sorted (map (\<lambda>t. (plan_rank db date t, t_created_at t)) (map tws_task page @ rest)))) \<and>
    length page = min (page_limit q) (length (filter (shown env db q) (nd_tasks db)))"
proof -
  have cut: "\<exists>rest. mset (map tws_task page @ rest) = mset ts \<and> sorted (map k (map tws_task page @ rest)) \<and>
      length page = min n (length ts)"
    if rows: "map tws_task page = take n (sort_key k ts)" for n and k :: "task \<Rightarrow> 'k::linorder" and ts
  proof (intro exI conjI)
    have all: "map tws_task page @ drop n (sort_key k ts) = sort_key k ts" unfolding rows by simp
    show "mset (map tws_task page @ drop n (sort_key k ts)) = mset ts" unfolding all by simp
    show "sorted (map k (map tws_task page @ drop n (sort_key k ts)))" unfolding all by simp
    show "length page = min n (length ts)" using arg_cong [OF rows, of length] by simp
  qed
  show ?thesis
  proof (cases "tq_view q = MyDay")
    case True
    obtain date where d: "tq_local_date q = Some date" and "map tws_task page = take (page_limit q)
        (sort_key (\<lambda>t. (plan_rank db date t, t_created_at t)) (filter (shown env db q) (nd_tasks db)))"
      by (rule list_day_rows[OF assms(1) True assms(2)[OF True]])
    from cut[OF this(2)] True d show ?thesis by auto
  next
    case False
    from cut[OF list_tasks_rows[OF assms(1) False]] False show ?thesis by auto
  qed
qed

section \<open>Counts\<close>

definition view_query :: "task_view \<Rightarrow> string option \<Rightarrow> task_query" where
  "view_query v l =
     \<lparr>tq_view = v, tq_list_id = l, tq_search = None, tq_tags = [], tq_local_date = None,
      tq_due_from = None, tq_due_to = None, tq_include_completed = False, tq_limit = None\<rparr>"

definition lower_empty :: "native_env \<Rightarrow> bool" where
  "lower_empty env \<longleftrightarrow> ne_lower env [] = []"

definition day_query :: "string \<Rightarrow> task_query" where
  "day_query date = (view_query MyDay None)\<lparr>tq_local_date := Some date\<rparr>"

lemma view_fields: "tq_view (view_query v l) = v" "tq_list_id (view_query v l) = l"
  by (simp_all add: view_query_def)

lemma view_shown:
  assumes "lower_empty env"
  shows "shown env db (view_query v l) t \<longleftrightarrow>
    t_deleted_at t = None \<and> (v \<noteq> CompletedTasks \<longrightarrow> t_status t = NOpen) \<and> belongs db (view_query v l) t"
    "shown env db (day_query date) t \<longleftrightarrow>
    t_deleted_at t = None \<and> t_status t = NOpen \<and> planned_for db date t"
proof -
  have "mentions env [] t"
    using assms by (simp add: mentions_def lower_empty_def trim_def trim_chunks_def no_words)
  then show "shown env db (view_query v l) t \<longleftrightarrow>
    t_deleted_at t = None \<and> (v \<noteq> CompletedTasks \<longrightarrow> t_status t = NOpen) \<and> belongs db (view_query v l) t"
    "shown env db (day_query date) t \<longleftrightarrow>
    t_deleted_at t = None \<and> t_status t = NOpen \<and> planned_for db date t"
    by (auto simp: shown_def view_query_def day_query_def belongs_def due_between_def carries_def)
qed

lemma count_lists_get:
  "jget (count_lists ts m) l =
     (let n = length (filter (\<lambda>t. t_list_id t = Some l) ts) in
      case jget m l of Some k \<Rightarrow> Some (k + n) | None \<Rightarrow> if n = 0 then None else Some n)"
  by (induction ts arbitrary: m) (auto simp: Let_def split: option.splits)

lemma zero_lists_get:
  "jget (fold (\<lambda>l m. jput (tl_id l) (0::nat) m) ls m) i =
     (if i \<in> tl_id ` set ls then Some 0 else jget m i)"
  by (induction ls arbitrary: m) auto

lemma set_list_lists: "set (list_lists db) = {l \<in> set (nd_lists db). tl_deleted_at l = None}"
  by (auto simp: list_lists_def sorted_lists_def list_order.sort_by_key)

text \<open>C19. The counts agree with the views they label: each, that of My Day at the date asked for
  included, is the number of tasks the view shows before it is cut at the limit, and the count
  of a list is the number of open tasks its view shows (zero for a live list without any).\<close>

theorem counts_match_views:
  assumes "get_counts env db date = Inr c" and "lower_empty env"
  shows "vc_all c = length (filter (shown env db (view_query AllTasks None)) (nd_tasks db)) \<and>
    vc_my_day c = length (filter (shown env db (day_query date)) (nd_tasks db)) \<and>
    vc_important c = length (filter (shown env db (view_query Important None)) (nd_tasks db)) \<and>
    vc_planned c = length (filter (shown env db (view_query Planned None)) (nd_tasks db)) \<and>
    vc_completed c = length (filter (shown env db (view_query CompletedTasks None)) (nd_tasks db)) \<and>
    (\<forall>l \<in> set (list_lists db). jget (vc_lists c) (tl_id l) =
       Some (length (filter (shown env db (view_query InList (Some (tl_id l)))) (nd_tasks db))))"
proof -
  let ?op = "\<lambda>t. t_deleted_at t = None \<and> t_status t = NOpen"
  have ff: "length (filter P (filter Q xs)) = length (filter R xs)"
    if "\<And>x. P x \<and> Q x \<longleftrightarrow> R x" for P Q R and xs :: "task list"
    using that by (simp add: conj_commute)
  have "jget (vc_lists c) (tl_id l) =
       Some (length (filter (\<lambda>t. t_list_id t = Some (tl_id l)) (filter ?op (nd_tasks db))))"
    if "l \<in> set (list_lists db)" for l
    using assms(1) that by (auto simp: get_counts_def and_then_eq_Inr Let_def count_lists_get zero_lists_get)
  moreover have "t_id t \<in> d_task_id ` {d \<in> set (nd_plans db). d_local_date d = date \<and> d_deleted_at d = None}
      \<longleftrightarrow> planned_for db date t" for t
    by (auto simp: planned_for_def image_iff)
  ultimately show ?thesis using assms
    by (auto simp: get_counts_def and_then_eq_Inr Let_def view_shown belongs_def view_fields
        intro!: arg_cong [where f = length] filter_cong ff)
qed

end
