(* ===== verification/NativeFacts.thy ===== *)
theory NativeFacts
  imports NativeQuery ApiLife
begin

text \<open>
  What the local store's operations keep: the outbox is numbered without gaps, it is a legal
  log of the entities' lives (each entry is one the server's machine \<open>life_step\<close> accepts at
  that point), and the tables stay well-formed. The operations are collected in the step
  relation \<open>store_step\<close>, one rule per operation the user interface writes with.
\<close>

section \<open>The step relation\<close>

text \<open>
  One rule for each operation by which the user edits lists, tasks, steps and day plans. The
  other public operations that write are not steps of this relation: \<open>import_data\<close>, \<open>clear_all\<close>,
  \<open>apply_server_result\<close> and the \<open>sync_*\<close> operations replace tables, outbox or device, and have
  their own theorems (\<open>NativeServerFacts\<close>, \<open>NativeRebase\<close>, \<open>NativeMergeFacts\<close>, \<open>NativeImportFacts\<close>).
  \<open>commit_completion\<close> is a step only with a live follow-up task, as the scheduler builds it; the
  function itself would insert any.
\<close>

inductive store_step :: "native_env \<Rightarrow> native_db \<Rightarrow> native_db \<Rightarrow> bool" for env where
  create_list: "create_list env inp db = Inr (l, db') \<Longrightarrow> store_step env db db'"
| patch_list: "patch_list env i lp db = Inr (l, db') \<Longrightarrow> store_step env db db'"
| delete_list: "delete_list env i db = Inr db' \<Longrightarrow> store_step env db db'"
| restore_list: "restore_list env i db = Inr db' \<Longrightarrow> store_step env db db'"
| create_task: "create_task env nt db = Inr (t, db') \<Longrightarrow> store_step env db db'"
| patch_task: "patch_task env i tp db = Inr (t, db') \<Longrightarrow> store_step env db db'"
| commit_completion: "commit_completion env i at nxt db = Inr (r, db') \<Longrightarrow>
    (case nxt of None \<Rightarrow> True | Some n \<Rightarrow> t_deleted_at n = None) \<Longrightarrow> store_step env db db'"
| delete_task: "delete_task env i db = Inr db' \<Longrightarrow> store_step env db db'"
| restore_task: "restore_task env i db = Inr db' \<Longrightarrow> store_step env db db'"
| reorder_task: "reorder_task env i dir db = Inr db' \<Longrightarrow> store_step env db db'"
| add_to_day: "add_to_day env i date db = Inr db' \<Longrightarrow> store_step env db db'"
| remove_from_day: "remove_from_day env i date db = Inr db' \<Longrightarrow> store_step env db db'"
| create_step: "create_step env i title db = Inr (s, db') \<Longrightarrow> store_step env db db'"
| patch_step: "patch_step env i sp db = Inr (s, db') \<Longrightarrow> store_step env db db'"
| delete_step: "delete_step env i db = Inr db' \<Longrightarrow> store_step env db db'"

section \<open>Lives\<close>

definition life_of :: "('r \<Rightarrow> string option) \<Rightarrow> 'r option \<Rightarrow> life" where
  "life_of deleted r =
     (case r of None \<Rightarrow> Absent | Some x \<Rightarrow> if deleted x = None then Live else Tombstoned)"

definition nlife :: "native_db \<Rightarrow> string \<times> string \<Rightarrow> life" where
  "nlife db = (\<lambda>(e, i).
     if e = ''list'' then life_of tl_deleted_at (lookup_row tl_id (nd_lists db) i)
     else if e = ''task'' then life_of t_deleted_at (lookup_row t_id (nd_tasks db) i)
     else if e = ''step'' then life_of s_deleted_at (lookup_row s_id (nd_steps db) i)
     else if e = ''day_plan'' then life_of d_deleted_at (lookup_row d_id (nd_plans db) i)
     else Absent)"

fun log_life :: "outbox_row list \<Rightarrow> (string \<times> string \<Rightarrow> life) \<Rightarrow> (string \<times> string \<Rightarrow> life) option" where
  "log_life [] f = Some f"
| "log_life (r # rs) f =
     (case parse_kind (ob_kind r) of
        None \<Rightarrow> None
      | Some k \<Rightarrow>
          (case life_step k (f (ob_entity r, ob_entity_id r)) of
             None \<Rightarrow> None
           | Some l \<Rightarrow> log_life rs (f((ob_entity r, ob_entity_id r) := l))))"

lemma log_life_append:
  "log_life (rs @ rs') f = Option.bind (log_life rs f) (log_life rs')"
  by (induction rs arbitrary: f) (auto split: option.splits)

lemma life_of_simps [simp]:
  "life_of d None = Absent" "life_of d (Some x) = (if d x = None then Live else Tombstoned)"
  by (simp_all add: life_of_def)

section \<open>The counter\<close>

definition counter :: "native_db \<Rightarrow> (string \<times> int) option" where
  "counter db =
     (case (nd_kv db ''device_id'', nd_kv db ''client_seq'') of
        (Some d, Some s) \<Rightarrow> (case parse_i64 s of Some c \<Rightarrow> Some (d, c) | None \<Rightarrow> None)
      | _ \<Rightarrow> None)"

definition outbox_ok :: "native_db \<Rightarrow> bool" where
  "outbox_ok db \<longleftrightarrow>
     (case counter db of
        None \<Rightarrow> False
      | Some (d, c) \<Rightarrow> 0 \<le> c \<and> (\<forall>r \<in> set (nd_outbox db). ob_device_id r = d \<longrightarrow> ob_client_seq r \<le> c))"

text \<open>
  The entries a step adds: they replay the lives, they belong to the device, and as long as
  the counter has not reached its last value they are numbered consecutively.
\<close>

definition numbered :: "native_db \<Rightarrow> native_db \<Rightarrow> outbox_row list \<Rightarrow> bool" where
  "numbered db db' new \<longleftrightarrow>
     (outbox_ok db \<longrightarrow> outbox_ok db' \<and>
        (\<exists>d c c'. counter db = Some (d, c) \<and> counter db' = Some (d, c') \<and> c \<le> c' \<and>
           (\<forall>r \<in> set new. ob_device_id r = d) \<and>
           (c' < I64_MAX \<longrightarrow> map ob_client_seq new = [c + 1 .. c'])))"

definition logs :: "native_db \<Rightarrow> native_db \<Rightarrow> bool" where
  "logs db db' \<longleftrightarrow>
     (\<exists>new. nd_outbox db' = nd_outbox db @ new \<and> log_life new (nlife db) = Some (nlife db') \<and>
            numbered db db' new)"

lemma numbered_trans:
  assumes "numbered db db1 new" "numbered db1 db2 new'"
  shows "numbered db db2 (new @ new')"
  unfolding numbered_def
proof
  assume "outbox_ok db"
  with assms(1) obtain d c c1 where 1: "outbox_ok db1" "counter db = Some (d, c)"
    "counter db1 = Some (d, c1)" "c \<le> c1" "\<forall>r \<in> set new. ob_device_id r = d"
    "c1 < I64_MAX \<longrightarrow> map ob_client_seq new = [c + 1 .. c1]"
    by (auto simp: numbered_def)
  with assms(2) obtain c2 where 2: "outbox_ok db2" "counter db2 = Some (d, c2)" "c1 \<le> c2"
    "\<forall>r \<in> set new'. ob_device_id r = d" "c2 < I64_MAX \<longrightarrow> map ob_client_seq new' = [c1 + 1 .. c2]"
    by (auto simp: numbered_def)
  have "c2 < I64_MAX \<longrightarrow> map ob_client_seq (new @ new') = [c + 1 .. c2]"
    using 1(4,6) 2(3,5) upto_split2 [of "c + 1" c1 c2] by (cases "c = c1") auto
  with 1 2 show "outbox_ok db2 \<and> (\<exists>d c c'. counter db = Some (d, c) \<and> counter db2 = Some (d, c') \<and>
      c \<le> c' \<and> (\<forall>r \<in> set (new @ new'). ob_device_id r = d) \<and>
      (c' < I64_MAX \<longrightarrow> map ob_client_seq (new @ new') = [c + 1 .. c']))"
    by auto
qed

lemma logs_refl: "logs db db"
  unfolding logs_def numbered_def
  by (rule exI [of _ "[]"]) (auto simp: outbox_ok_def split: option.splits)

lemma logs_trans: "logs db db1 \<Longrightarrow> logs db1 db2 \<Longrightarrow> logs db db2"
  unfolding logs_def by (fastforce simp: log_life_append intro: numbered_trans)

lemma max_outbox_seq_le:
  assumes "\<forall>r \<in> set rows. ob_device_id r = d \<longrightarrow> ob_client_seq r \<le> c" "0 \<le> c"
  shows "max_outbox_seq rows d \<le> c"
proof -
  have "fold max ss s \<le> c" if "\<forall>x \<in> set ss. x \<le> c" "s \<le> c" for ss :: "int list" and s
    using that by (induction ss arbitrary: s) auto
  moreover have "\<forall>x \<in> set (map ob_client_seq (filter (\<lambda>r. ob_device_id r = d) rows)). x \<le> c"
    using assms(1) by auto
  ultimately show ?thesis
    using assms(2) by (cases "map ob_client_seq (filter (\<lambda>r. ob_device_id r = d) rows)")
      (auto simp: max_outbox_seq_def)
qed

lemma parse_i64_range: "parse_i64 s = Some c \<Longrightarrow> c \<le> I64_MAX"
  by (auto simp: parse_i64_def in_i64_def split: list.splits if_splits bind_splits)

lemma append_mutation_effect:
  assumes "append_mutation env e i k p db = Inr db'"
  obtains r where "nd_outbox db' = nd_outbox db @ [r]" "ob_entity r = e" "ob_entity_id r = i"
    "ob_kind r = k" "ob_patch r = p" "nlife db' = nlife db" "numbered db db' [r]"
    "nd_lists db' = nd_lists db" "nd_tasks db' = nd_tasks db" "nd_steps db' = nd_steps db"
    "nd_plans db' = nd_plans db"
proof -
  from assms obtain d s c where dev: "nd_kv db ''device_id'' = Some d" "nd_kv db ''client_seq'' = Some s"
      "parse_i64 s = Some c"
    by (auto simp: append_mutation_def and_then_eq_Inr ok_or_eq_Inr)
  let ?n = "saturating_add1 (max c (max_outbox_seq (nd_outbox db) d))"
  from assms dev obtain r where r: "db' = db\<lparr>nd_kv := (nd_kv db)(''client_seq'' \<mapsto> show_int ?n),
      nd_tick := nd_tick db + 2, nd_outbox := nd_outbox db @ [r]\<rparr>"
      "ob_entity r = e" "ob_entity_id r = i" "ob_kind r = k" "ob_patch r = p" "ob_device_id r = d"
      "ob_client_seq r = ?n"
    by (auto simp: append_mutation_def and_then_eq_Inr ok_or_eq_Inr Let_def native_uuid_def
        native_now_def fail_if_eq_Inr)
  have "numbered db db' [r]"
    unfolding numbered_def
  proof
    assume ok: "outbox_ok db"
    have c: "0 \<le> c" "\<forall>r \<in> set (nd_outbox db). ob_device_id r = d \<longrightarrow> ob_client_seq r \<le> c"
      and cnt: "counter db = Some (d, c)"
      using ok dev by (auto simp: outbox_ok_def counter_def)
    have "max_outbox_seq (nd_outbox db) d \<le> c" using c by (intro max_outbox_seq_le)
    then have n: "?n = (if c = I64_MAX then I64_MAX else c + 1)" by (simp add: saturating_add1_def)
    have "c \<le> I64_MAX" by (rule parse_i64_range [OF dev(3)])
    then have "0 \<le> ?n" "?n \<le> I64_MAX" "c \<le> ?n" using c(1) n by auto
    moreover have "parse_i64 (show_int ?n) = Some ?n"
      using \<open>0 \<le> ?n\<close> \<open>?n \<le> I64_MAX\<close> by (intro parse_i64_show_int) (auto simp: I64_MIN_def)
    then have "counter db' = Some (d, ?n)"
      using dev by (simp add: counter_def r(1))
    ultimately show "outbox_ok db' \<and> (\<exists>d c c'. counter db = Some (d, c) \<and> counter db' = Some (d, c') \<and>
        c \<le> c' \<and> (\<forall>r \<in> set [r]. ob_device_id r = d) \<and>
        (c' < I64_MAX \<longrightarrow> map ob_client_seq [r] = [c + 1 .. c']))"
      using c(2) cnt n r(6,7) by (fastforce simp: outbox_ok_def r(1))
  qed
  with r show ?thesis by (intro that [of r]) (auto simp: nlife_def)
qed

text \<open>One logged change: the entity moves along \<open>life_step\<close>, then its entry is appended.\<close>

lemma logs_append:
  assumes "append_mutation env e i k p db1 = Inr db2"
    and "nlife db1 = (nlife db)((e, i) := l)" "parse_kind k = Some kk"
    and "life_step kk (nlife db (e, i)) = Some l"
    and "nd_outbox db1 = nd_outbox db" "nd_kv db1 = nd_kv db"
  shows "logs db db2"
proof -
  from assms(1) obtain r where r: "nd_outbox db2 = nd_outbox db1 @ [r]" "ob_entity r = e"
    "ob_entity_id r = i" "ob_kind r = k" "nlife db2 = nlife db1" "numbered db1 db2 [r]"
    by (rule append_mutation_effect)
  have "counter db1 = counter db" using assms(6) by (simp add: counter_def)
  moreover from this have "outbox_ok db1 = outbox_ok db"
    using assms(5) by (simp add: outbox_ok_def split: option.splits)
  ultimately have "numbered db db2 [r]" using r(6) by (simp add: numbered_def)
  with r assms show ?thesis by (auto simp: logs_def intro!: exI [of _ "[r]"])
qed

section \<open>Changes of the tables\<close>

lemma nlife_update:
  "ls = nd_lists db \<Longrightarrow> (\<And>r. tl_id (f r) = tl_id r) \<Longrightarrow>
     nlife (db\<lparr>nd_lists := update_rows tl_id i f ls\<rparr>) =
       (nlife db)((''list'', i) := life_of tl_deleted_at (map_option f (lookup_row tl_id (nd_lists db) i)))"
  "ts = nd_tasks db \<Longrightarrow> (\<And>r. t_id (g r) = t_id r) \<Longrightarrow>
     nlife (db\<lparr>nd_tasks := update_rows t_id i g ts\<rparr>) =
       (nlife db)((''task'', i) := life_of t_deleted_at (map_option g (lookup_row t_id (nd_tasks db) i)))"
  "ss = nd_steps db \<Longrightarrow> (\<And>r. s_id (h r) = s_id r) \<Longrightarrow>
     nlife (db\<lparr>nd_steps := update_rows s_id i h ss\<rparr>) =
       (nlife db)((''step'', i) := life_of s_deleted_at (map_option h (lookup_row s_id (nd_steps db) i)))"
  "ps = nd_plans db \<Longrightarrow> (\<And>r. d_id (k r) = d_id r) \<Longrightarrow>
     nlife (db\<lparr>nd_plans := update_rows d_id i k ps\<rparr>) =
       (nlife db)((''day_plan'', i) := life_of d_deleted_at (map_option k (lookup_row d_id (nd_plans db) i)))"
  by (auto simp: nlife_def fun_eq_iff lookup_row_update)

lemma nlife_insert:
  "ls = nd_lists db \<Longrightarrow> lookup_row tl_id (nd_lists db) (tl_id l) = None \<Longrightarrow>
     nlife (db\<lparr>nd_lists := ls @ [l]\<rparr>) =
       (nlife db)((''list'', tl_id l) := life_of tl_deleted_at (Some l))"
  "ts = nd_tasks db \<Longrightarrow> lookup_row t_id (nd_tasks db) (t_id t) = None \<Longrightarrow>
     nlife (db\<lparr>nd_tasks := ts @ [t]\<rparr>) =
       (nlife db)((''task'', t_id t) := life_of t_deleted_at (Some t))"
  "ss = nd_steps db \<Longrightarrow> lookup_row s_id (nd_steps db) (s_id s) = None \<Longrightarrow>
     nlife (db\<lparr>nd_steps := ss @ [s]\<rparr>) =
       (nlife db)((''step'', s_id s) := life_of s_deleted_at (Some s))"
  "ps = nd_plans db \<Longrightarrow> lookup_row d_id (nd_plans db) (d_id d) = None \<Longrightarrow>
     nlife (db\<lparr>nd_plans := ps @ [d]\<rparr>) =
       (nlife db)((''day_plan'', d_id d) := life_of d_deleted_at (Some d))"
  by (auto simp: nlife_def fun_eq_iff lookup_row_append split: option.splits)

lemma nlife_tick [simp]: "nlife (db\<lparr>nd_tick := n\<rparr>) = nlife db"
  by (auto simp: nlife_def fun_eq_iff)

lemma nlife_at:
  "nlife db (''list'', i) = life_of tl_deleted_at (lookup_row tl_id (nd_lists db) i)"
  "nlife db (''task'', i) = life_of t_deleted_at (lookup_row t_id (nd_tasks db) i)"
  "nlife db (''step'', i) = life_of s_deleted_at (lookup_row s_id (nd_steps db) i)"
  "nlife db (''day_plan'', i) = life_of d_deleted_at (lookup_row d_id (nd_plans db) i)"
  by (simp_all add: nlife_def)

lemma kinds_parse [simp]:
  "parse_kind ''create'' = Some KCreate" "parse_kind ''patch'' = Some KPatch"
  "parse_kind ''delete'' = Some KDelete" "parse_kind ''restore'' = Some KRestore"
  by (simp_all add: parse_kind_def)

lemma live_Inr: "live d x = Inr r \<longleftrightarrow> x = Some r \<and> d r = None"
  by (cases x) (auto simp: live_def and_then_eq_Inr fail_if_eq_Inr)

lemmas by_id_defs = list_by_id_def task_by_id_def step_by_id_def
lemmas gen_defs = native_now_def native_uuid_def

section \<open>Well-formed tables\<close>

definition ntables_ok :: "native_db \<Rightarrow> bool" where
  "ntables_ok db \<longleftrightarrow>
     pk tl_id (nd_lists db) \<and> pk t_id (nd_tasks db) \<and> pk s_id (nd_steps db) \<and> pk d_id (nd_plans db) \<and>
     pk plan_slot_of (nd_plans db) \<and>
     (\<forall>t \<in> set (nd_tasks db). \<forall>l. t_list_id t = Some l \<longrightarrow> l \<in> tl_id ` set (nd_lists db)) \<and>
     (\<forall>s \<in> set (nd_steps db). s_task_id s \<in> t_id ` set (nd_tasks db)) \<and>
     (\<forall>d \<in> set (nd_plans db). d_task_id d \<in> t_id ` set (nd_tasks db))"

lemma update_keeps_all:
  "\<forall>r \<in> set t. P r \<Longrightarrow> (\<And>r. r \<in> set t \<Longrightarrow> P r \<Longrightarrow> P (f r)) \<Longrightarrow> \<forall>r \<in> set (update_rows key k f t). P r"
  by (auto simp: update_rows_def)

lemma tables_update:
  "ls = nd_lists db \<Longrightarrow> (\<And>r. tl_id (f r) = tl_id r) \<Longrightarrow> ntables_ok db \<Longrightarrow>
     ntables_ok (db\<lparr>nd_lists := update_rows tl_id i f ls\<rparr>)"
  "ts = nd_tasks db \<Longrightarrow> (\<And>r. t_id (g r) = t_id r) \<Longrightarrow>
     (\<forall>r l. t_list_id (g r) = Some l \<longrightarrow> t_list_id r = Some l \<or> l \<in> tl_id ` set (nd_lists db)) \<Longrightarrow>
     ntables_ok db \<Longrightarrow> ntables_ok (db\<lparr>nd_tasks := update_rows t_id i g ts\<rparr>)"
  "ss = nd_steps db \<Longrightarrow> (\<And>r. s_id (h r) = s_id r) \<Longrightarrow> (\<And>r. s_task_id (h r) = s_task_id r) \<Longrightarrow> ntables_ok db \<Longrightarrow>
     ntables_ok (db\<lparr>nd_steps := update_rows s_id i h ss\<rparr>)"
  "ps = nd_plans db \<Longrightarrow> (\<And>r. d_id (k r) = d_id r) \<Longrightarrow> (\<And>r. plan_slot_of (k r) = plan_slot_of r) \<Longrightarrow> ntables_ok db \<Longrightarrow>
     ntables_ok (db\<lparr>nd_plans := update_rows d_id i k ps\<rparr>)"
proof -
  show "ls = nd_lists db \<Longrightarrow> (\<And>r. tl_id (f r) = tl_id r) \<Longrightarrow> ntables_ok db \<Longrightarrow>
     ntables_ok (db\<lparr>nd_lists := update_rows tl_id i f ls\<rparr>)"
    by (simp add: ntables_ok_def pk_update keys_update)
  show "ts = nd_tasks db \<Longrightarrow> (\<And>r. t_id (g r) = t_id r) \<Longrightarrow>
     (\<forall>r l. t_list_id (g r) = Some l \<longrightarrow> t_list_id r = Some l \<or> l \<in> tl_id ` set (nd_lists db)) \<Longrightarrow>
     ntables_ok db \<Longrightarrow> ntables_ok (db\<lparr>nd_tasks := update_rows t_id i g ts\<rparr>)"
    by (simp add: ntables_ok_def pk_update keys_update) (rule update_keeps_all, blast, blast)
  show "ss = nd_steps db \<Longrightarrow> (\<And>r. s_id (h r) = s_id r) \<Longrightarrow> (\<And>r. s_task_id (h r) = s_task_id r) \<Longrightarrow> ntables_ok db \<Longrightarrow>
     ntables_ok (db\<lparr>nd_steps := update_rows s_id i h ss\<rparr>)"
    by (simp add: ntables_ok_def pk_update) (rule update_keeps_all, auto)
  assume ps: "ps = nd_plans db" and k: "\<And>r. d_id (k r) = d_id r" "\<And>r. plan_slot_of (k r) = plan_slot_of r" and ok: "ntables_ok db"
  have "map plan_slot_of (update_rows d_id i k t) = map plan_slot_of t" for t
    by (simp add: update_rows_def k(2))
  moreover have "d_task_id (k r) = d_task_id r" for r using k(2) [of r] by (simp add: plan_slot_of_def)
  ultimately show "ntables_ok (db\<lparr>nd_plans := update_rows d_id i k ps\<rparr>)"
    using ok k(1) ps by (simp add: ntables_ok_def pk_update) (simp add: pk_def, rule update_keeps_all, auto)
qed

lemma tables_tick [simp]: "ntables_ok (db\<lparr>nd_tick := n\<rparr>) = ntables_ok db"
  by (simp add: ntables_ok_def)

lemma tables_same:
  assumes "nd_lists db' = nd_lists db" "nd_tasks db' = nd_tasks db" "nd_steps db' = nd_steps db"
    "nd_plans db' = nd_plans db"
  shows "ntables_ok db' = ntables_ok db"
  using assms by (simp add: ntables_ok_def)

text \<open>A step that keeps the tables well-formed and logs what it does.\<close>

definition good :: "native_db \<Rightarrow> native_db \<Rightarrow> bool" where
  "good db db' \<longleftrightarrow> (ntables_ok db \<longrightarrow> ntables_ok db' \<and> logs db db')"

lemma good_refl: "good db db"
  by (simp add: good_def logs_refl)

lemma good_trans: "good db db1 \<Longrightarrow> good db1 db2 \<Longrightarrow> good db db2"
  by (auto simp: good_def intro: logs_trans)

lemma good_append:
  assumes app: "append_mutation env e i k p db1 = Inr db2"
    and "ntables_ok db \<Longrightarrow> ntables_ok db1" "nlife db1 = (nlife db)((e, i) := l)" "parse_kind k = Some kk"
    and "life_step kk (nlife db (e, i)) = Some l"
    and "nd_outbox db1 = nd_outbox db" "nd_kv db1 = nd_kv db"
  shows "good db db2"
proof -
  have "ntables_ok db2 = ntables_ok db1"
    using app by (rule append_mutation_effect) (rule tables_same)
  with assms logs_append [OF app] show ?thesis by (auto simp: good_def)
qed

section \<open>Every operation is good\<close>

lemma good_create_list: "create_list env inp db = Inr (l, db') \<Longrightarrow> good db db'"
  unfolding create_list_def
  by (auto simp: and_then_eq_Inr Let_def gen_defs insert_list_row_def by_id_defs fail_if_eq_Inr
      nlife_at nlife_insert ntables_ok_def pk_append_one
      elim!: good_append [where kk = KCreate and l = Live])

lemma set_field_keeps:
  assumes "set_field f check upd sets = Inr sets'" and "\<And>r. P r (sets r)"
    and "\<And>x r s. P r s \<Longrightarrow> P r (upd x s)"
  shows "P r (sets' r)"
  using assms by (auto simp: set_field_def and_then_eq_Inr split: option.splits)

lemma good_patch_list: 
  assumes "patch_list env i lp db = Inr (l, db')"
  shows "good db db'"
proof -
  from assms obtain s1 s2 s3 s4 where f: "set_field (nlp_name lp) (\<lambda>v. and_then (required (Some v)) clean_list_name)
       (\<lambda>x r. r\<lparr>tl_name := x\<rparr>) id = Inr s1"
     "set_field (nlp_color lp) (\<lambda>v. validate_optional_text v 64) (\<lambda>x r. r\<lparr>tl_color := x\<rparr>) s1 = Inr s2"
     "set_field (nlp_icon lp) (\<lambda>v. validate_optional_text v 128) (\<lambda>x r. r\<lparr>tl_icon := x\<rparr>) s2 = Inr s3"
     "set_field (nlp_rank lp) (\<lambda>v. and_then (required (Some v)) clean_rank)
       (\<lambda>x r. r\<lparr>tl_rank := x\<rparr>) s3 = Inr s4"
    and found: "\<exists>r. lookup_row tl_id (nd_lists db) i = Some r \<and> tl_deleted_at r = None"
    and app: "append_mutation env ''list'' i ''patch'' (nlist_patch_to_value lp)
      (db\<lparr>nd_tick := nd_tick db + 1, nd_lists := update_rows tl_id i
         (\<lambda>r. (s4 r)\<lparr>tl_updated_at := ne_now env (nd_tick db)\<rparr>) (nd_lists db)\<rparr>) = Inr db'"
    by (auto simp: patch_list_def and_then_eq_Inr Let_def gen_defs by_id_defs live_Inr)
  define P where "P = (\<lambda>(r :: task_list) (s :: task_list).
    tl_id s = tl_id r \<and> tl_deleted_at s = tl_deleted_at r)"
  have "P r (s1 r)" for r by (rule set_field_keeps [OF f(1)]) (auto simp: P_def)
  then have "P r (s2 r)" for r by (rule set_field_keeps [OF f(2)]) (auto simp: P_def)
  then have "P r (s3 r)" for r by (rule set_field_keeps [OF f(3)]) (auto simp: P_def)
  then have "P r (s4 r)" for r by (rule set_field_keeps [OF f(4)]) (auto simp: P_def)
  then have "tl_id (s4 r) = tl_id r" "tl_deleted_at (s4 r) = tl_deleted_at r" for r
    by (simp_all add: P_def)
  with found show ?thesis
    by (intro good_append [OF app, where kk = KPatch and l = Live])
      (auto simp: nlife_at nlife_update tables_update)
qed

lemma good_detach:
  assumes "detach_task env now i db = Inr db'" and "nlife db (''task'', i) = Live"
  shows "good db db'" and "nlife db' = nlife db"
proof -
  let ?db1 = "db\<lparr>nd_tasks := update_rows t_id i
             (\<lambda>t. t\<lparr>t_list_id := None, t_updated_at := now\<rparr>) (nd_tasks db)\<rparr>"
  have app: "append_mutation env ''task'' i ''patch'' (jobj [(''listId'', JNull)]) ?db1 = Inr db'"
    using assms(1) by (simp add: detach_task_def)
  have life: "nlife ?db1 = (nlife db)((''task'', i) := Live)"
    using assms(2) by (cases "lookup_row t_id (nd_tasks db) i")
      (auto simp: nlife_update nlife_at split: if_splits)
  show "good db db'"
    by (rule good_append [OF app _ life, where kk = KPatch]) (auto intro!: tables_update simp: assms(2))
  show "nlife db' = nlife db"
    using app life assms(2) by (auto elim!: append_mutation_effect)
qed

lemma good_delete_list: 
  assumes "delete_list env i db = Inr db'"
  shows "good db db'"
proof (cases "\<exists>l. list_by_id db i = Some l \<and> tl_deleted_at l = None")
  case False
  with assms show ?thesis
    by (auto simp: delete_list_def and_then_eq_Inr good_refl split: option.splits if_splits)
next
  case True
  let ?now = "ne_now env (nd_tick db)"
  let ?db1 = "db\<lparr>nd_tick := nd_tick db + 1, nd_lists := update_rows tl_id i
      (\<lambda>r. r\<lparr>tl_deleted_at := Some ?now, tl_updated_at := ?now\<rparr>) (nd_lists db)\<rparr>"
  from True assms obtain db2 where
    app: "append_mutation env ''list'' i ''delete'' (jobj []) ?db1 = Inr db2" and
    loop: "try_fold (detach_task env ?now)
      (map t_id (filter (\<lambda>t. t_list_id t = Some i \<and> t_deleted_at t = None) (nd_tasks db2))) db2 = Inr db'"
    by (auto simp: delete_list_def and_then_eq_Inr Let_def gen_defs)
  have first: "good db db2"
    using True by (intro good_append [OF app, where kk = KDelete and l = Tombstoned])
      (auto simp: nlife_at nlife_update tables_update by_id_defs)
  show ?thesis
    unfolding good_def
  proof
    assume ok: "ntables_ok db"
    with first have ok2: "ntables_ok db2" "logs db db2" by (auto simp: good_def)
    have live: "nlife db2 (''task'', t_id t) = Live"
      if "t \<in> set (nd_tasks db2)" "t_deleted_at t = None" for t
      using ok2(1) that by (simp add: nlife_at lookup_row_pk ntables_ok_def)
    have "ntables_ok db' \<and> logs db2 db' \<and> nlife db' = nlife db2"
    proof (rule try_fold_invariant [OF loop, where P = "\<lambda>s. ntables_ok s \<and> logs db2 s \<and> nlife s = nlife db2"])
      show "ntables_ok db2 \<and> logs db2 db2 \<and> nlife db2 = nlife db2" using ok2 logs_refl by blast
      fix x s s'
      assume x: "x \<in> set (map t_id (filter (\<lambda>t. t_list_id t = Some i \<and> t_deleted_at t = None) (nd_tasks db2)))"
        and s: "ntables_ok s \<and> logs db2 s \<and> nlife s = nlife db2" "detach_task env ?now x s = Inr s'"
      have "nlife s (''task'', x) = Live" using x s(1) live by auto
      from good_detach [OF s(2) this] s(1) show "ntables_ok s' \<and> logs db2 s' \<and> nlife s' = nlife db2"
        by (auto simp: good_def intro: logs_trans)
    qed
    with ok2(2) show "ntables_ok db' \<and> logs db db'" by (auto intro: logs_trans)
  qed
qed

lemma good_restore_list: "restore_list env i db = Inr db' \<Longrightarrow> good db db'"
  unfolding restore_list_def
  by (auto simp: and_then_eq_Inr Let_def gen_defs by_id_defs good_refl nlife_at nlife_update
      tables_update split: option.splits if_splits
      elim!: good_append [where kk = KRestore and l = Live])

lemma good_delete_task: "delete_task env i db = Inr db' \<Longrightarrow> good db db'"
  unfolding delete_task_def
  by (auto simp: and_then_eq_Inr Let_def gen_defs by_id_defs good_refl nlife_at nlife_update
      tables_update split: option.splits if_splits
      elim!: good_append [where kk = KDelete and l = Tombstoned])

lemma good_restore_task: "restore_task env i db = Inr db' \<Longrightarrow> good db db'"
  unfolding restore_task_def
  by (auto simp: and_then_eq_Inr Let_def gen_defs by_id_defs good_refl nlife_at nlife_update
      tables_update split: option.splits if_splits
      elim!: good_append [where kk = KRestore and l = Live])

lemma good_delete_step: "delete_step env i db = Inr db' \<Longrightarrow> good db db'"
  unfolding delete_step_def
  by (auto simp: and_then_eq_Inr Let_def gen_defs by_id_defs good_refl nlife_at nlife_update
      tables_update split: option.splits if_splits
      elim!: good_append [where kk = KDelete and l = Tombstoned])

lemma lookup_present: "lookup_row key t k = Some r \<Longrightarrow> k \<in> key ` set t"
  by (auto dest: lookup_row_SomeD)

lemma ninsert_task_tables:
  assumes "ninsert_task t db = Inr db'"
  shows "db' = db\<lparr>nd_tasks := nd_tasks db @ [t]\<rparr>" "lookup_row t_id (nd_tasks db) (t_id t) = None"
    "ntables_ok db \<Longrightarrow> ntables_ok db'"
  using assms
  by (auto simp: ninsert_task_def and_then_eq_Inr fail_if_eq_Inr by_id_defs ntables_ok_def pk_append_one
      dest!: lookup_present split: option.splits)

lemma ninsert_step_tables:
  assumes "ninsert_step s db = Inr db'"
  shows "db' = db\<lparr>nd_steps := nd_steps db @ [s]\<rparr>" "lookup_row s_id (nd_steps db) (s_id s) = None"
    "ntables_ok db \<Longrightarrow> ntables_ok db'"
  using assms
  by (auto simp: ninsert_step_def and_then_eq_Inr fail_if_eq_Inr by_id_defs ntables_ok_def pk_append_one
      dest!: lookup_present)

lemma ninsert_day_plan_tables:
  assumes "ninsert_day_plan d db = Inr db'"
  shows "db' = db\<lparr>nd_plans := nd_plans db @ [d]\<rparr>" "lookup_row d_id (nd_plans db) (d_id d) = None"
    "ntables_ok db \<Longrightarrow> ntables_ok db'"
  using assms
  by (auto simp: ninsert_day_plan_def and_then_eq_Inr fail_if_eq_Inr by_id_defs ntables_ok_def pk_append_one
      dest!: lookup_present)

lemma good_insert_task:
  assumes "ninsert_task t db = Inr db1" "t_deleted_at t = None"
    and "append_mutation env ''task'' i ''create'' p db1 = Inr db2" "i = t_id t"
  shows "good db db2"
  using ninsert_task_tables [OF assms(1)] assms(2,4)
  by (intro good_append [OF assms(3), where kk = KCreate and l = Live]) (auto simp: nlife_at nlife_insert)

lemma good_insert_step:
  assumes "ninsert_step s db = Inr db1" "s_deleted_at s = None"
    and "append_mutation env ''step'' i ''create'' p db1 = Inr db2" "i = s_id s"
  shows "good db db2"
  using ninsert_step_tables [OF assms(1)] assms(2,4)
  by (intro good_append [OF assms(3), where kk = KCreate and l = Live]) (auto simp: nlife_at nlife_insert)

lemma good_insert_day_plan:
  assumes "ninsert_day_plan d db = Inr db1" "d_deleted_at d = None"
    and "append_mutation env ''day_plan'' i ''create'' p db1 = Inr db2" "i = d_id d"
  shows "good db db2"
  using ninsert_day_plan_tables [OF assms(1)] assms(2,4)
  by (intro good_append [OF assms(3), where kk = KCreate and l = Live]) (auto simp: nlife_at nlife_insert)

lemma good_tick: "good db (db\<lparr>nd_tick := n\<rparr>)"
proof -
  have "counter (db\<lparr>nd_tick := n\<rparr>) = counter db" by (simp add: counter_def)
  then have "logs db (db\<lparr>nd_tick := n\<rparr>)"
    using logs_refl [of db] by (auto simp: logs_def numbered_def outbox_ok_def)
  then show ?thesis by (simp add: good_def)
qed

lemma good_create_day_plan:
  assumes "create_day_plan env task_id date at db = Inr db'"
  shows "good db db'"
  using assms unfolding create_day_plan_def
  by (simp add: and_then_eq_Inr Let_def gen_defs, elim exE conjE)
    (rule good_trans [OF good_tick good_insert_day_plan], assumption, simp, assumption, simp)

lemma good_plan_opt:
  "(case date of None \<Rightarrow> Inr db | Some d \<Rightarrow> create_day_plan env i d at db) = Inr db' \<Longrightarrow> good db db'"
  by (cases date) (auto simp: good_refl good_create_day_plan)

lemma good_create_task:
  assumes "create_task env inp db = Inr (t, db')"
  shows "good db db'"
  using assms unfolding create_task_def
  by (simp add: and_then_eq_Inr Let_def gen_defs, elim exE conjE, hypsubst)
    (drule good_plan_opt, rule good_trans, rule good_trans [OF good_tick], rule good_insert_task,
      assumption, simp, assumption, simp, assumption)

text \<open>What the assignments of \<open>patch_task\<close> leave of a row.\<close>

definition keeps_task :: "native_db \<Rightarrow> task \<Rightarrow> task \<Rightarrow> bool" where
  "keeps_task db t s \<longleftrightarrow>
     t_id s = t_id t \<and> t_deleted_at s = t_deleted_at t \<and>
     (\<forall>l. t_list_id s = Some l \<longrightarrow> t_list_id t = Some l \<or> list_by_id db l \<noteq> None)"

lemma check_list_ref_found: "opt_check (check_list_ref db) v = Inr x \<Longrightarrow> x = Some l \<Longrightarrow> list_by_id db l \<noteq> None"
  by (auto simp: opt_check_def check_list_ref_def nensure_active_list_def and_then_eq_Inr split: option.splits)

lemma keeps_refl: "keeps_task db t t"
  by (simp add: keeps_task_def)

lemma edit_field_keeps:
  assumes "edit_field f check upd log e = Inr e'" and "\<forall>t. keeps_task db t (te_set e t)"
    and "\<And>x t s. check (the f) = Inr x \<Longrightarrow> keeps_task db t s \<Longrightarrow> keeps_task db t (upd x s)"
  shows "\<forall>t. keeps_task db t (te_set e' t)"
  using assms by (auto simp: edit_field_def edit_def and_then_eq_Inr split: option.splits)

lemma patch_texts_keeps:
  assumes "patch_task_texts env db p e = Inr e'" and "\<forall>t. keeps_task db t (te_set e t)"
  shows "\<forall>t. keeps_task db t (te_set e' t)"
  using assms unfolding patch_task_texts_def
  by (elim and_then_InrE)
    (erule edit_field_keeps, (erule edit_field_keeps)+, assumption,
      auto simp: keeps_task_def dest: check_list_ref_found)

lemma patch_schedule_keeps:
  assumes "patch_task_schedule env p e = Inr e'" and "\<forall>t. keeps_task db t (te_set e t)"
  shows "\<forall>t. keeps_task db t (te_set e' t)"
  using assms unfolding patch_task_schedule_def
  by (elim and_then_InrE)
    (erule edit_field_keeps, (erule edit_field_keeps)+, assumption, auto simp: keeps_task_def)

lemma patch_completed_at_frame:
  "patch_completed_at env p s db = Inr (c, db') \<Longrightarrow> \<exists>n. db' = db\<lparr>nd_tick := n\<rparr>"
  by (auto simp: patch_completed_at_def and_then_eq_Inr gen_defs Let_def split: if_splits option.splits)
    (metis native_db.surjective native_db.update_convs(8))+

lemma patch_edits_keeps:
  assumes "patch_task_edits env p db = Inr (e, db')"
  shows "keeps_task db t (te_set e t)" and "\<exists>n. db' = db\<lparr>nd_tick := n\<rparr>"
proof -
  from assms obtain e1 e2 e3 c where e: "patch_task_texts env db p \<lparr>te_set = id, te_patch = p, te_sets = 0\<rparr> = Inr e1"
    "patch_task_schedule env p e1 = Inr e2"
    "edit_field (np_status p) (\<lambda>v. required (Some v)) (\<lambda>x t. t\<lparr>t_status := x\<rparr>) (\<lambda>x q. q) e2 = Inr e3"
    "patch_completed_at env p (Option.bind (np_status p) (\<lambda>x. x)) db = Inr (c, db')"
    "edit_field c Inr (\<lambda>x t. t\<lparr>t_completed_at := x\<rparr>) (\<lambda>x q. q\<lparr>np_completed_at := Some x\<rparr>) e3 = Inr e"
    by (auto simp: patch_task_edits_def and_then_eq_Inr)
  show "\<exists>n. db' = db\<lparr>nd_tick := n\<rparr>" using e(4) by (rule patch_completed_at_frame)
  have "\<forall>t. keeps_task db t (te_set e1 t)"
    by (rule patch_texts_keeps [OF e(1)]) (simp add: keeps_refl)
  then have "\<forall>t. keeps_task db t (te_set e2 t)" by (rule patch_schedule_keeps [OF e(2)])
  then have "\<forall>t. keeps_task db t (te_set e3 t)"
    by (rule edit_field_keeps [OF e(3)]) (auto simp: keeps_task_def)
  then have "\<forall>t. keeps_task db t (te_set e t)"
    by (rule edit_field_keeps [OF e(5)]) (auto simp: keeps_task_def)
  then show "keeps_task db t (te_set e t)" by blast
qed

lemma good_patch_task:
  assumes "patch_task env i p db = Inr (t, db')"
  shows "good db db'"
proof -
  from assms obtain e db0 where
    edits: "patch_task_edits env p db = Inr (e, db0)" and
    found: "\<exists>r. lookup_row t_id (nd_tasks db) i = Some r \<and> t_deleted_at r = None" and
    app: "append_mutation env ''task'' i ''patch'' (ntask_patch_to_value (te_patch e))
      (db0\<lparr>nd_tick := nd_tick db0 + 1, nd_tasks := update_rows t_id i
         (\<lambda>t. (te_set e t)\<lparr>t_updated_at := ne_now env (nd_tick db0)\<rparr>) (nd_tasks db0)\<rparr>) = Inr db'"
    by (auto simp: patch_task_def and_then_eq_Inr Let_def gen_defs by_id_defs live_Inr)
  obtain n where db0: "db0 = db\<lparr>nd_tick := n\<rparr>" using patch_edits_keeps(2) [OF edits] by blast
  note keeps = patch_edits_keeps(1) [OF edits, unfolded keeps_task_def]
  have "t_id (te_set e t) = t_id t" "t_deleted_at (te_set e t) = t_deleted_at t" for t
    using keeps by blast+
  moreover have "\<forall>t l. t_list_id (te_set e t) = Some l \<longrightarrow> t_list_id t = Some l \<or> l \<in> tl_id ` set (nd_lists db)"
    using keeps by (auto simp: by_id_defs lookup_row_None)
  ultimately show ?thesis using found
    by (intro good_append [OF app, where kk = KPatch and l = Live])
      (auto simp: db0 nlife_at nlife_update tables_update)
qed

lemma nlife_update_live:
  assumes "nlife db (''task'', i) = Live" and "\<And>r. t_id (g r) = t_id r" and "\<And>r. t_deleted_at (g r) = t_deleted_at r"
    and "ts = nd_tasks db"
  shows "nlife (db\<lparr>nd_tasks := update_rows t_id i g ts\<rparr>) = nlife db"
  using assms by (cases "lookup_row t_id (nd_tasks db) i")
    (auto simp: nlife_update nlife_at fun_eq_iff split: if_splits)

lemma live_task_life: "task_by_id db i = Some t \<Longrightarrow> t_deleted_at t = None \<Longrightarrow> nlife db (''task'', i) = Live"
  by (simp add: nlife_at by_id_defs)

lemma good_commit_completion:
  assumes "commit_completion env i at nxt db = Inr (r, db')"
    and "case nxt of None \<Rightarrow> True | Some n \<Rightarrow> t_deleted_at n = None"
  shows "good db db'"
proof -
  from assms(1) obtain at' db1 t where
    found: "task_by_id db i = Some t" "t_deleted_at t = None" and
    app: "append_mutation env ''task'' i ''patch''
       (jobj [(''status'', JStr ''completed''), (''completedAt'', JStr at')])
       (db\<lparr>nd_tick := nd_tick db + 1, nd_tasks := update_rows t_id i
          (\<lambda>t. t\<lparr>t_status := NCompleted, t_completed_at := Some at',
                 t_updated_at := ne_now env (nd_tick db)\<rparr>) (nd_tasks db)\<rparr>) = Inr db1" and
    next_task: "(case nxt of None \<Rightarrow> Inr db1
       | Some n \<Rightarrow> and_then (ninsert_task n db1) (\<lambda>db.
           append_mutation env ''task'' (t_id n) ''create'' (task_to_value n) db)) = Inr db'"
    by (auto simp: commit_completion_def and_then_eq_Inr Let_def gen_defs live_Inr)
  have "good db db1"
    using live_task_life [OF found]
    by (intro good_append [OF app, where kk = KPatch and l = Live])
      (auto simp: nlife_update_live tables_update fun_upd_idem_iff)
  moreover have "good db1 db'"
  proof (cases nxt)
    case (Some n)
    with next_task obtain db2 where ins: "ninsert_task n db1 = Inr db2" and
      app2: "append_mutation env ''task'' (t_id n) ''create'' (task_to_value n) db2 = Inr db'"
      by (auto simp: and_then_eq_Inr)
    show ?thesis
      using assms(2) Some by (intro good_insert_task [OF ins _ app2]) simp_all
  qed (use next_task in \<open>simp add: good_refl\<close>)
  ultimately show ?thesis by (rule good_trans)
qed

lemma good_create_step: "create_step env i title db = Inr (s, db') \<Longrightarrow> good db db'"
  unfolding create_step_def
  by (simp add: and_then_eq_Inr Let_def gen_defs, elim exE conjE, hypsubst)
    (rule good_trans [OF good_tick good_insert_step], assumption, simp, assumption, simp)

lemma good_patch_step:
  assumes "patch_step env i sp db = Inr (s, db')"
  shows "good db db'"
proof -
  from assms obtain s1 s2 s3 where f: "set_field (nsp_title sp) (\<lambda>v. and_then (required (Some v)) clean_title)
       (\<lambda>x r. r\<lparr>s_title := x\<rparr>) id = Inr s1"
     "set_field (nsp_is_completed sp) (\<lambda>v. required (Some v)) (\<lambda>x r. r\<lparr>s_is_completed := x\<rparr>) s1 = Inr s2"
     "set_field (nsp_rank sp) (\<lambda>v. and_then (required (Some v)) clean_rank)
       (\<lambda>x r. r\<lparr>s_rank := x\<rparr>) s2 = Inr s3"
    and found: "\<exists>r. lookup_row s_id (nd_steps db) i = Some r \<and> s_deleted_at r = None"
    and app: "append_mutation env ''step'' i ''patch'' (nstep_patch_to_value sp)
      (db\<lparr>nd_tick := nd_tick db + 1, nd_steps := update_rows s_id i
         (\<lambda>r. (s3 r)\<lparr>s_updated_at := ne_now env (nd_tick db)\<rparr>) (nd_steps db)\<rparr>) = Inr db'"
    by (auto simp: patch_step_def and_then_eq_Inr Let_def gen_defs by_id_defs live_Inr)
  define P where "P = (\<lambda>(r :: step) (s :: step).
    s_id s = s_id r \<and> s_deleted_at s = s_deleted_at r \<and> s_task_id s = s_task_id r)"
  have "P r (s1 r)" for r by (rule set_field_keeps [OF f(1)]) (auto simp: P_def)
  then have "P r (s2 r)" for r by (rule set_field_keeps [OF f(2)]) (auto simp: P_def)
  then have "P r (s3 r)" for r by (rule set_field_keeps [OF f(3)]) (auto simp: P_def)
  then have "s_id (s3 r) = s_id r" "s_deleted_at (s3 r) = s_deleted_at r"
    "s_task_id (s3 r) = s_task_id r" for r
    by (simp_all add: P_def)
  with found show ?thesis
    by (intro good_append [OF app, where kk = KPatch and l = Live])
      (auto simp: nlife_at nlife_update tables_update)
qed

lemma plan_by_slot_row:
  assumes "plan_by_slot db t date = Some p" "ntables_ok db"
  shows "lookup_row d_id (nd_plans db) (d_id p) = Some p"
  using assms by (auto simp: plan_by_slot_def ntables_ok_def intro: lookup_row_pk dest: lookup_row_SomeD)

lemma good_plan_update:
  assumes app: "append_mutation env ''day_plan'' (d_id p) k patch
      (db\<lparr>nd_tick := n, nd_plans := update_rows d_id (d_id p)
         (\<lambda>r. r\<lparr>d_deleted_at := v, d_updated_at := now\<rparr>) (nd_plans db)\<rparr>) = Inr db'"
    and "plan_by_slot db t date = Some p" "parse_kind k = Some kk"
    and "life_step kk (life_of d_deleted_at (Some p)) = Some (if v = None then Live else Tombstoned)"
  shows "good db db'"
  unfolding good_def
proof
  assume ok: "ntables_ok db"
  have "good db db'"
    using plan_by_slot_row [OF assms(2) ok] assms(3,4)
    by (intro good_append [OF app, where kk = kk and l = "if v = None then Live else Tombstoned"])
      (auto simp: nlife_at nlife_update tables_update plan_slot_of_def)
  with ok show "ntables_ok db' \<and> logs db db'" by (simp add: good_def)
qed

lemma good_add_to_day: "add_to_day env i date db = Inr db' \<Longrightarrow> good db db'"
  unfolding add_to_day_def
  by (auto simp: and_then_eq_Inr Let_def gen_defs good_refl split: option.splits if_splits
      intro: good_trans [OF good_tick good_create_day_plan]
      elim!: good_plan_update [where kk = KRestore])

lemma good_remove_from_day: "remove_from_day env i date db = Inr db' \<Longrightarrow> good db db'"
  unfolding remove_from_day_def
  by (auto simp: and_then_eq_Inr Let_def gen_defs good_refl split: option.splits if_splits
      elim!: good_plan_update [where kk = KDelete])

lemma position_Some: "position p xs = Some n \<Longrightarrow> n < length xs \<and> p (xs ! n)"
  by (induction xs arbitrary: n) (auto split: if_splits)

lemma good_task_patch:
  assumes app: "append_mutation env ''task'' i ''patch'' p
      (db\<lparr>nd_tasks := update_rows t_id i g (nd_tasks db)\<rparr>) = Inr db'"
    and "nlife db (''task'', i) = Live"
    and "\<And>r. t_id (g r) = t_id r" "\<And>r. t_deleted_at (g r) = t_deleted_at r" "\<And>r. t_list_id (g r) = t_list_id r"
  shows "good db db'"
  using assms(2-) by (intro good_append [OF app, where kk = KPatch and l = Live])
    (auto simp: nlife_update_live tables_update fun_upd_idem_iff)

lemma good_reorder_task:
  assumes "reorder_task env i dir db = Inr db'"
  shows "good db db'"
proof -
  from assms obtain cur where cur: "task_by_id db i = Some cur" "t_deleted_at cur = None"
    by (auto simp: reorder_task_def and_then_eq_Inr live_Inr)
  let ?sib = "siblings_of db cur"
  show ?thesis
  proof (cases "Option.bind (position (\<lambda>t. t_id t = i) ?sib) (\<lambda>n. swap_target dir n (length ?sib))")
    case None
    with assms cur show ?thesis
      by (auto simp: reorder_task_def and_then_eq_Inr live_Inr Let_def good_refl split: option.splits)
  next
    case (Some target)
    then obtain n where n: "position (\<lambda>t. t_id t = i) ?sib = Some n" "swap_target dir n (length ?sib) = Some target"
      by (auto split: bind_splits)
    have "target < length ?sib"
      using n(2) position_Some [OF n(1)] by (auto simp: swap_target_def split: if_splits)
    then have "?sib ! target \<in> set ?sib" by simp
    then have other: "?sib ! target \<in> set (nd_tasks db)" "t_deleted_at (?sib ! target) = None"
      by (auto simp: siblings_of_def task_order.sort_by_key)
    let ?o = "?sib ! target"
    let ?now = "ne_now env (nd_tick db)"
    let ?db0 = "db\<lparr>nd_tick := nd_tick db + 1\<rparr>"
    let ?ts1 = "update_rows t_id (t_id cur) (\<lambda>t. t\<lparr>t_rank := t_rank ?o, t_updated_at := ?now\<rparr>) (nd_tasks db)"
    let ?db2 = "?db0\<lparr>nd_tasks := update_rows t_id (t_id ?o)
        (\<lambda>t. t\<lparr>t_rank := t_rank cur, t_updated_at := ?now\<rparr>) ?ts1\<rparr>"
    from assms cur n obtain db3 where
      app1: "append_mutation env ''task'' (t_id cur) ''patch'' (jobj [(''rank'', JStr (t_rank ?o))]) ?db2 = Inr db3" and
      app2: "append_mutation env ''task'' (t_id ?o) ''patch'' (jobj [(''rank'', JStr (t_rank cur))]) db3 = Inr db'"
      by (auto simp: reorder_task_def and_then_eq_Inr live_Inr Let_def gen_defs)
    show ?thesis
      unfolding good_def
    proof
      assume ok: "ntables_ok db"
      have lives: "nlife db (''task'', t_id cur) = Live" "nlife db (''task'', t_id ?o) = Live"
        using cur other ok by (auto simp: nlife_at by_id_defs ntables_ok_def lookup_row_pk dest: lookup_row_SomeD)
      have one: "nlife (?db0\<lparr>nd_tasks := ?ts1\<rparr>) = nlife db" "ntables_ok (?db0\<lparr>nd_tasks := ?ts1\<rparr>)"
        using lives ok by (simp_all add: nlife_update_live tables_update)
      have "nlife ((?db0\<lparr>nd_tasks := ?ts1\<rparr>)\<lparr>nd_tasks := update_rows t_id (t_id ?o)
          (\<lambda>t. t\<lparr>t_rank := t_rank cur, t_updated_at := ?now\<rparr>) ?ts1\<rparr>) = nlife (?db0\<lparr>nd_tasks := ?ts1\<rparr>)"
        by (rule nlife_update_live) (use one lives in simp_all)
      then have life2: "nlife ?db2 = nlife db" using one by simp
      have "ntables_ok ((?db0\<lparr>nd_tasks := ?ts1\<rparr>)\<lparr>nd_tasks := update_rows t_id (t_id ?o)
          (\<lambda>t. t\<lparr>t_rank := t_rank cur, t_updated_at := ?now\<rparr>) ?ts1\<rparr>)"
        by (rule tables_update(2)) (use one in simp_all)
      then have ok2: "ntables_ok ?db2" by simp
      have "good db db3"
        using life2 ok2 lives by (intro good_append [OF app1, where kk = KPatch and l = Live])
          (simp_all add: fun_upd_idem)
      moreover have "nlife db3 = nlife db"
        using app1 life2 by (auto elim: append_mutation_effect)
      then have "good db3 db'"
        using lives by (intro good_append [OF app2, where kk = KPatch and l = Live])
          (simp_all add: fun_upd_idem)
      ultimately show "ntables_ok db' \<and> logs db db'" using ok by (auto simp: good_def intro: logs_trans)
    qed
  qed
qed

lemma store_step_good: "store_step env db db' \<Longrightarrow> good db db'"
  by (induction rule: store_step.induct)
    (auto intro: good_create_list good_patch_list good_delete_list good_restore_list good_create_task
      good_patch_task good_commit_completion good_delete_task good_restore_task good_reorder_task
      good_add_to_day good_remove_from_day good_create_step good_patch_step good_delete_step)

lemma store_steps_good:
  assumes "(store_step env)\<^sup>*\<^sup>* db db'"
  shows "good db db'"
  using assms by (induction rule: rtranclp_induct) (blast intro: good_refl good_trans store_step_good)+

text \<open>C20. The local tables stay well-formed through every sequence of operations: identifiers are
  unique, tasks refer to existing lists, steps and plans to existing tasks, and a task has at
  most one plan per day.\<close>

theorem store_tables_ok:
  assumes "(store_step env)\<^sup>*\<^sup>* db db'" and "ntables_ok db"
  shows "ntables_ok db'"
  using store_steps_good [OF assms(1)] assms(2) by (simp add: good_def)

text \<open>C21. The outbox is a legal log: whatever sequence of operations ran, the entries they
  appended, read in order, take each entity through the server's life cycle (create, patch,
  delete, restore, each legal at its point) from its life before to its life now.\<close>

theorem outbox_replays_lives:
  assumes "(store_step env)\<^sup>*\<^sup>* db db'" and "ntables_ok db"
  shows "\<exists>new. nd_outbox db' = nd_outbox db @ new \<and> log_life new (nlife db) = Some (nlife db')"
  using store_steps_good [OF assms(1)] assms(2) by (auto simp: good_def logs_def)

text \<open>C22. The outbox is numbered without gaps: the entries a sequence of operations appends all
  carry this device and, as long as the counter has not reached its last 64-bit value, exactly
  the numbers after the counter, in order; these are the numbers the server expects.\<close>

theorem outbox_numbered:
  assumes "(store_step env)\<^sup>*\<^sup>* db db'" and "ntables_ok db" and "outbox_ok db"
  shows "outbox_ok db' \<and>
    (\<exists>new d c c'. nd_outbox db' = nd_outbox db @ new \<and> counter db = Some (d, c) \<and>
       counter db' = Some (d, c') \<and> c \<le> c' \<and> (\<forall>r \<in> set new. ob_device_id r = d) \<and>
       (c' < I64_MAX \<longrightarrow> map ob_client_seq new = [c + 1 .. c']))"
  using store_steps_good [OF assms(1)] assms(2,3) unfolding good_def logs_def numbered_def by blast

end
