(* ===== verification/NativeExamples.thy ===== *)
theory NativeExamples
  imports NativeFacts "HOL-Library.Code_Target_Nat"
begin

text \<open>
  A concrete store on which the properties of the local database are applied: each theorem's
  hypotheses hold there.
\<close>

section \<open>A store\<close>

definition demo_native :: native_env where
  "demo_native =
     \<lparr>ne_lower = (\<lambda>s. s), ne_upper = (\<lambda>s. s), ne_date_ok = (\<lambda>s. s = ''2026-09-01''), ne_instant = Some,
      ne_now = (\<lambda>n. CHR ''T'' # replicate n (CHR ''1'')), ne_uuid = (\<lambda>n. CHR ''u'' # replicate n (CHR ''1''))\<rparr>"

definition store0 :: native_db where
  "store0 =
     \<lparr>nd_lists = [], nd_tasks = [], nd_steps = [], nd_plans = [], nd_shadow = [], nd_outbox = [],
      nd_kv = [''device_id'' \<mapsto> ''d'', ''client_seq'' \<mapsto> ''0''], nd_tick = 0\<rparr>"

definition demo_list_input :: new_list where
  "demo_list_input = \<lparr>nl_name = '' Home '', nl_color = None, nl_icon = None\<rparr>"

definition store1 :: native_db where
  "store1 = snd (projr (create_list demo_native demo_list_input store0))"

definition demo_task_input :: new_task where
  "demo_task_input =
     \<lparr>nt_title = ''Write'', nt_list_id = Some ''u1'', nt_note = None, nt_tags = [''work''], nt_important = Some True,
      nt_due_on = None, nt_remind_at = None, nt_remind_timezone = None, nt_recurrence = None,
      nt_rank = None, nt_plan_date = Some ''2026-09-01''\<rparr>"

definition store2 :: native_db where
  "store2 = snd (projr (create_task demo_native demo_task_input store1))"

lemma demo_create_list: "\<not> isl (create_list demo_native demo_list_input store0)"
  by code_simp

lemma demo_create_task: "\<not> isl (create_task demo_native demo_task_input store1)"
  by code_simp

lemma demo_steps: "(store_step demo_native)\<^sup>*\<^sup>* store0 store2"
proof -
  obtain l where "create_list demo_native demo_list_input store0 = Inr (l, store1)"
    using demo_create_list by (cases "create_list demo_native demo_list_input store0") (auto simp: store1_def)
  moreover obtain t where "create_task demo_native demo_task_input store1 = Inr (t, store2)"
    using demo_create_task by (cases "create_task demo_native demo_task_input store1") (auto simp: store2_def)
  ultimately show ?thesis
    by (meson store_step.create_list store_step.create_task converse_rtranclp_into_rtranclp rtranclp.rtrancl_refl)
qed

lemma store0_ok: "ntables_ok store0"
  by (simp add: ntables_ok_def store0_def pk_def)

lemma store0_outbox: "outbox_ok store0"
  by code_simp

section \<open>The properties, applied\<close>

theorem next_rank_is_last_witness: "''000001'' < next_rank [''000001'']"
proof -
  have "made_rank ''000001''"
    unfolding made_rank_def by (rule exI [of _ 1]) code_simp
  then show ?thesis using next_rank_is_last [of "[''000001'']" "''000001''"] by simp
qed

text \<open>The day view of the store with its task planned: its query, its page.\<close>

theorem list_tasks_exact_witness:
  "\<exists>page rest. list_tasks demo_native store2 (day_query ''2026-09-01'') = Inr page \<and>
     mset (map tws_task page @ rest) =
       mset (filter (shown demo_native store2 (day_query ''2026-09-01'')) (nd_tasks store2))"
proof -
  have "\<not> isl (list_tasks demo_native store2 (day_query ''2026-09-01''))" by code_simp
  then obtain page where page: "list_tasks demo_native store2 (day_query ''2026-09-01'') = Inr page"
    by (metis isl_def sum.exhaust)
  have "pk plan_slot_of (nd_plans store2)" by code_simp
  from list_tasks_exact [OF page this] page show ?thesis by blast
qed

theorem counts_match_views_witness:
  "\<exists>c. get_counts demo_native store2 ''2026-09-01'' = Inr c \<and>
     vc_my_day c = length (filter (shown demo_native store2 (day_query ''2026-09-01'')) (nd_tasks store2))"
proof -
  have "\<not> isl (get_counts demo_native store2 ''2026-09-01'')" by code_simp
  then obtain c where c: "get_counts demo_native store2 ''2026-09-01'' = Inr c"
    by (metis isl_def sum.exhaust)
  have "lower_empty demo_native" by (simp add: lower_empty_def demo_native_def)
  from counts_match_views [OF c this] c show ?thesis by blast
qed

theorem store_tables_ok_witness: "ntables_ok store2"
  by (rule store_tables_ok [OF demo_steps store0_ok])

theorem outbox_replays_lives_witness: "log_life (nd_outbox store2) (nlife store0) = Some (nlife store2)"
  using outbox_replays_lives [OF demo_steps store0_ok] by (simp add: store0_def)

lemma store2_counter: "counter store2 = Some (''d'', 3)"
  by code_simp

theorem outbox_numbered_witness: "outbox_ok store2 \<and> map ob_client_seq (nd_outbox store2) = [1 .. 3]"
proof -
  have "counter store0 = Some (''d'', 0)" and "nd_outbox store0 = []" by code_simp+
  then show ?thesis
    using outbox_numbered [OF demo_steps store0_ok store0_outbox] store2_counter
    by (auto simp: I64_MAX_def)
qed

end
