(* ===== verification/NativeProject.thy ===== *)
theory NativeProject
  imports NativeStore
begin

text \<open>
  The projection helpers of \<open>crates/native-core/src/store/sync_support.rs\<close> and
  \<open>store.rs\<close>: the server's copy of an entity is a JSON object (the shadow); the pending
  mutations of the outbox are replayed on it, and the result is written to the entity's
  table. JSON text columns hold the value itself.
\<close>

section \<open>The key-value table\<close>

definition kv_string :: "native_db \<Rightarrow> string \<Rightarrow> string option" where
  "kv_string db k = nd_kv db k"

definition kv_set :: "string \<Rightarrow> string \<Rightarrow> native_db \<Rightarrow> native_db" where
  "kv_set k v db = db\<lparr>nd_kv := (nd_kv db)(k \<mapsto> v)\<rparr>"

definition kv_delete :: "string \<Rightarrow> native_db \<Rightarrow> native_db" where
  "kv_delete k db = db\<lparr>nd_kv := (nd_kv db)(k := None)\<rparr>"

definition assert_sync_session :: "native_db \<Rightarrow> string option \<Rightarrow> store_error + unit" where
  "assert_sync_session db expected =
     (case expected of
        None \<Rightarrow> Inr ()
      | Some s \<Rightarrow> fail_if (kv_string db ''sync_session'' \<noteq> Some s) SE_StaleSyncSession)"

section \<open>Entities as JSON objects\<close>

definition entity_order :: "string \<Rightarrow> nat" where
  "entity_order e =
     (if e = ''list'' then 0 else if e = ''task'' then 1 else if e = ''step'' then 2
      else if e = ''day_plan'' then 3 else 4)"

definition mutable_fields :: "string \<Rightarrow> string list" where
  "mutable_fields e =
     (if e = ''task'' then
        [''listId'', ''title'', ''note'', ''tags'', ''status'', ''important'', ''dueOn'', ''remindAt'',
         ''remindTimezone'', ''rank'', ''seriesId'', ''occurrenceKey'', ''recurrence'', ''completedAt'']
      else if e = ''list'' then [''name'', ''color'', ''icon'', ''rank'']
      else if e = ''step'' then [''taskId'', ''title'', ''isCompleted'', ''rank'']
      else if e = ''day_plan'' then [''taskId'', ''localDate'', ''rank''] else [])"

definition as_object_or_empty :: "json \<Rightarrow> jmap" where
  "as_object_or_empty v = (case as_object v of None \<Rightarrow> [] | Some m \<Rightarrow> m)"

text \<open>The loop over \<open>mutable_fields\<close>: each one the source carries is copied.\<close>

definition copy_field :: "jmap \<Rightarrow> string \<Rightarrow> jmap \<Rightarrow> jmap" where
  "copy_field source f data = (case jget source f of None \<Rightarrow> data | Some v \<Rightarrow> jput f v data)"

definition copy_fields :: "jmap \<Rightarrow> string list \<Rightarrow> jmap \<Rightarrow> jmap" where
  "copy_fields source fs data = fold (copy_field source) fs data"

definition full_patch :: "string \<Rightarrow> json \<Rightarrow> json" where
  "full_patch entity v =
     JObj (case as_object v of None \<Rightarrow> [] | Some source \<Rightarrow> copy_fields source (mutable_fields entity) [])"

definition apply_mutation_to_data :: "string \<Rightarrow> jmap \<Rightarrow> outbox_row \<Rightarrow> string \<Rightarrow> jmap" where
  "apply_mutation_to_data entity base m now =
     (let data =
        (if ob_kind m = ''create''
         then jput ''createdAt'' (JStr now) (jput ''id'' (JStr (ob_entity_id m)) [])
         else jput ''id'' (JStr (ob_entity_id m)) base) in
      if ob_kind m = ''delete'' then jput ''updatedAt'' (JStr now) (jput ''deletedAt'' (JStr now) data)
      else
        let data = (if ob_kind m = ''restore'' then jput ''deletedAt'' JNull data else data);
            data = (case as_object (ob_patch m) of
                      None \<Rightarrow> data
                    | Some patch \<Rightarrow> copy_fields patch (mutable_fields entity) data)
        in jput ''updatedAt'' (JStr now) data)"

section \<open>Entities from JSON objects\<close>

definition string_field :: "jmap \<Rightarrow> string \<Rightarrow> string option" where
  "string_field data k = Option.bind (jget data k) as_str"

fun strings_of :: "json list \<Rightarrow> string list" where
  "strings_of [] = []"
| "strings_of (v # vs) = (case as_str v of None \<Rightarrow> strings_of vs | Some s \<Rightarrow> s # strings_of vs)"

definition tags_from_data :: "jmap \<Rightarrow> string list" where
  "tags_from_data data =
     (case Option.bind (jget data ''tags'') as_array of None \<Rightarrow> [] | Some vs \<Rightarrow> strings_of vs)"

definition nullable_string :: "jmap \<Rightarrow> string \<Rightarrow> string option" where
  "nullable_string data k =
     (case string_field data k of None \<Rightarrow> None | Some s \<Rightarrow> if s = [] then None else Some s)"

definition required_string :: "jmap \<Rightarrow> string \<Rightarrow> string \<Rightarrow> string" where
  "required_string data k fallback =
     (case string_field data k of None \<Rightarrow> fallback | Some s \<Rightarrow> if trim s = [] then fallback else s)"

definition bool_field :: "jmap \<Rightarrow> string \<Rightarrow> bool" where
  "bool_field data k = (case Option.bind (jget data k) as_bool of None \<Rightarrow> False | Some b \<Rightarrow> b)"

definition date_field :: "native_env \<Rightarrow> jmap \<Rightarrow> string \<Rightarrow> string option" where
  "date_field env data k =
     (case string_field data k of None \<Rightarrow> None | Some s \<Rightarrow> if ne_date_ok env s then Some s else None)"

definition or_else :: "'a option \<Rightarrow> 'a \<Rightarrow> 'a" where
  "or_else v d = (case v of None \<Rightarrow> d | Some x \<Rightarrow> x)"

text \<open>The names given to an entity whose own is missing, in UTF-8.\<close>

definition untitled_task :: string where
  "untitled_task =
     [CHR 0xE6, CHR 0x9C, CHR 0xAA, CHR 0xE5, CHR 0x91, CHR 0xBD, CHR 0xE5, CHR 0x90, CHR 0x8D,
      CHR 0xE4, CHR 0xBB, CHR 0xBB, CHR 0xE5, CHR 0x8A, CHR 0xA1]"

definition untitled_list :: string where
  "untitled_list =
     [CHR 0xE6, CHR 0x9C, CHR 0xAA, CHR 0xE5, CHR 0x91, CHR 0xBD, CHR 0xE5, CHR 0x90, CHR 0x8D,
      CHR 0xE6, CHR 0xB8, CHR 0x85, CHR 0xE5, CHR 0x8D, CHR 0x95]"

definition task_from_data :: "native_env \<Rightarrow> string \<Rightarrow> jmap \<Rightarrow> string \<Rightarrow> task" where
  "task_from_data env i data now =
     \<lparr>t_id = i, t_list_id = nullable_string data ''listId'',
      t_title = required_string data ''title'' untitled_task,
      t_note = or_else (string_field data ''note'') [], t_tags = tags_from_data data,
      t_status = or_else (Option.bind (string_field data ''status'') nstatus_parse) NOpen,
      t_important = bool_field data ''important'', t_due_on = date_field env data ''dueOn'',
      t_remind_at = nullable_string data ''remindAt'',
      t_remind_timezone = nullable_string data ''remindTimezone'',
      t_rank = required_string data ''rank'' ''a0'', t_series_id = nullable_string data ''seriesId'',
      t_occurrence_key = nullable_string data ''occurrenceKey'',
      t_recurrence = (case jget data ''recurrence'' of None \<Rightarrow> None | Some v \<Rightarrow> if is_object v then Some v else None),
      t_completed_at = nullable_string data ''completedAt'',
      t_created_at = or_else (string_field data ''createdAt'') now,
      t_updated_at = or_else (string_field data ''updatedAt'') now,
      t_deleted_at = nullable_string data ''deletedAt''\<rparr>"

definition list_from_data :: "string \<Rightarrow> jmap \<Rightarrow> string \<Rightarrow> task_list" where
  "list_from_data i data now =
     \<lparr>tl_id = i, tl_name = required_string data ''name'' untitled_list,
      tl_color = nullable_string data ''color'', tl_icon = nullable_string data ''icon'',
      tl_rank = required_string data ''rank'' ''a0'',
      tl_created_at = or_else (string_field data ''createdAt'') now,
      tl_updated_at = or_else (string_field data ''updatedAt'') now,
      tl_deleted_at = nullable_string data ''deletedAt''\<rparr>"

definition step_from_data :: "string \<Rightarrow> jmap \<Rightarrow> string \<Rightarrow> step" where
  "step_from_data i data now =
     \<lparr>s_id = i, s_task_id = required_string data ''taskId'' [],
      s_title = or_else (string_field data ''title'') [],
      s_is_completed = bool_field data ''isCompleted'', s_rank = required_string data ''rank'' ''a0'',
      s_created_at = or_else (string_field data ''createdAt'') now,
      s_updated_at = or_else (string_field data ''updatedAt'') now,
      s_deleted_at = nullable_string data ''deletedAt''\<rparr>"

definition day_plan_from_data :: "native_env \<Rightarrow> string \<Rightarrow> jmap \<Rightarrow> string \<Rightarrow> day_plan" where
  "day_plan_from_data env i data now =
     \<lparr>d_id = i, d_task_id = required_string data ''taskId'' [],
      d_local_date = or_else (date_field env data ''localDate'') ''1970-01-01'',
      d_rank = required_string data ''rank'' ''a0'',
      d_created_at = or_else (string_field data ''createdAt'') now,
      d_updated_at = or_else (string_field data ''updatedAt'') now,
      d_deleted_at = nullable_string data ''deletedAt''\<rparr>"

section \<open>Writing rows\<close>

definition list_ref :: "native_db \<Rightarrow> string option \<Rightarrow> bool" where
  "list_ref db l = (case l of None \<Rightarrow> True | Some i \<Rightarrow> list_by_id db i \<noteq> None)"

definition upsert_list_row :: "task_list \<Rightarrow> native_db \<Rightarrow> store_error + native_db" where
  "upsert_list_row l db = Inr (db\<lparr>nd_lists := upsert_row tl_id l (nd_lists db)\<rparr>)"

definition upsert_task_row :: "task \<Rightarrow> native_db \<Rightarrow> store_error + native_db" where
  "upsert_task_row t db =
     and_then (fail_if (\<not> list_ref db (t_list_id t)) SE_Database) (\<lambda>_.
     Inr (db\<lparr>nd_tasks := upsert_row t_id t (nd_tasks db)\<rparr>))"

definition upsert_step_row :: "step \<Rightarrow> native_db \<Rightarrow> store_error + native_db" where
  "upsert_step_row s db =
     and_then (fail_if (task_by_id db (s_task_id s) = None) SE_Database) (\<lambda>_.
     Inr (db\<lparr>nd_steps := upsert_row s_id s (nd_steps db)\<rparr>))"

text \<open>\<open>ON CONFLICT(id)\<close> does not cover the second constraint, \<open>UNIQUE(task_id, local_date)\<close>.\<close>

definition slot_taken :: "day_plan \<Rightarrow> native_db \<Rightarrow> bool" where
  "slot_taken d db \<longleftrightarrow> list_ex (\<lambda>r. plan_slot_of r = plan_slot_of d \<and> d_id r \<noteq> d_id d) (nd_plans db)"

definition upsert_day_plan_row :: "day_plan \<Rightarrow> native_db \<Rightarrow> store_error + native_db" where
  "upsert_day_plan_row d db =
     and_then (fail_if (slot_taken d db) SE_Database) (\<lambda>_.
     and_then (fail_if (task_by_id db (d_task_id d) = None) SE_Database) (\<lambda>_.
     Inr (db\<lparr>nd_plans := upsert_row d_id d (nd_plans db)\<rparr>)))"

definition upsert_entity_data ::
  "native_env \<Rightarrow> string \<Rightarrow> string \<Rightarrow> jmap \<Rightarrow> string \<Rightarrow> bool \<Rightarrow> native_db \<Rightarrow> store_error + native_db" where
  "upsert_entity_data env entity i data now remote_wins_plan_slot db =
     (if entity = ''task'' then
        (let t = task_from_data env i data now;
             t = (if list_ref db (t_list_id t) then t else t\<lparr>t_list_id := None\<rparr>)
         in upsert_task_row t db)
      else if entity = ''list'' then upsert_list_row (list_from_data i data now) db
      else if entity = ''step'' then
        (let s = step_from_data i data now in
         if task_by_id db (s_task_id s) = None then Inr db else upsert_step_row s db)
      else if entity = ''day_plan'' then
        (let d = day_plan_from_data env i data now in
         if task_by_id db (d_task_id d) = None then Inr db
         else
           let db = (if remote_wins_plan_slot
                     then db\<lparr>nd_plans := delete_rows (\<lambda>r. plan_slot_of r = plan_slot_of d \<and> d_id r \<noteq> d_id d) (nd_plans db)\<rparr>
                     else db)
           in upsert_day_plan_row d db)
      else Inl SE_Unsupported)"

definition shadow_key :: "shadow_row \<Rightarrow> string \<times> string" where
  "shadow_key r = (sh_entity r, sh_id r)"

definition upsert_shadow :: "string \<Rightarrow> string \<Rightarrow> int \<Rightarrow> jmap \<Rightarrow> native_db \<Rightarrow> native_db" where
  "upsert_shadow entity i server_rev data db =
     db\<lparr>nd_shadow := upsert_row shadow_key
          \<lparr>sh_entity = entity, sh_id = i, sh_rev = server_rev, sh_payload = JObj data\<rparr> (nd_shadow db)\<rparr>"

section \<open>Rebuilding entities\<close>

definition pending_for_entity :: "native_db \<Rightarrow> string \<Rightarrow> string \<Rightarrow> outbox_row list" where
  "pending_for_entity db entity i =
     sort_key ob_client_seq
       (filter (\<lambda>r. ob_entity r = entity \<and> ob_entity_id r = i \<and> ob_status r = ''pending'') (nd_outbox db))"

definition replay :: "string \<Rightarrow> string \<Rightarrow> outbox_row list \<Rightarrow> jmap \<Rightarrow> jmap" where
  "replay entity now ms data = fold (\<lambda>m data. apply_mutation_to_data entity data m now) ms data"

definition reproject_entity ::
  "native_env \<Rightarrow> string \<Rightarrow> string \<times> string \<Rightarrow> native_db \<Rightarrow> store_error + native_db" where
  "reproject_entity env now e db =
     (case e of (entity, i) \<Rightarrow>
       (case lookup_row shadow_key (nd_shadow db) (entity, i) of
          None \<Rightarrow> Inr db
        | Some shadow \<Rightarrow>
            let data = jput ''id'' (JStr i) (as_object_or_empty (sh_payload shadow));
                data = replay entity now (pending_for_entity db entity i) data
            in upsert_entity_data env entity i data now True db))"

text \<open>First occurrences only, parents before children.\<close>

definition affected_order :: "(string \<times> string) list \<Rightarrow> (string \<times> string) list" where
  "affected_order es = sort_key (\<lambda>(e, i). (entity_order e, i)) (rev (remdups (rev es)))"

definition reproject_entities ::
  "native_env \<Rightarrow> string \<Rightarrow> (string \<times> string) list \<Rightarrow> native_db \<Rightarrow> store_error + native_db" where
  "reproject_entities env now es db = try_fold (reproject_entity env now) (affected_order es) db"

end
