(* ===== verification/NativeSync.thy ===== *)
theory NativeSync
  imports NativeProject
begin

text \<open>
  The local half of synchronisation: session fence, device identity and binding
  (\<open>crates/native-core/src/store/sync_support.rs\<close>), the outbox as the client reads it and
  \<open>apply_server_result\<close> with the change application (\<open>store.rs\<close>).
\<close>

section \<open>Session, identity and binding\<close>

definition sync_set_session :: "string option \<Rightarrow> native_db \<Rightarrow> native_db" where
  "sync_set_session s db =
     (case s of Some v \<Rightarrow> kv_set ''sync_session'' v db | None \<Rightarrow> kv_delete ''sync_session'' db)"

definition sync_clear_session_if :: "string option \<Rightarrow> native_db \<Rightarrow> native_db" where
  "sync_clear_session_if expected db =
     (case expected of
        None \<Rightarrow> db
      | Some s \<Rightarrow> if kv_string db ''sync_session'' \<noteq> Some s then db else kv_delete ''sync_session'' db)"

text \<open>One round of the loop of \<open>rotate_device_id\<close>: \<open>op_id\<close> is the primary key.\<close>

definition renumber_op :: "string \<Rightarrow> nat \<times> string \<Rightarrow> native_db \<Rightarrow> store_error + native_db" where
  "renumber_op device_id p db =
     (case p of (index, op_id) \<Rightarrow>
       let seq = int (index + 1) in
       and_then (fail_if (list_ex (\<lambda>r. ob_op_id r \<noteq> op_id \<and> ob_device_id r = device_id \<and>
           ob_client_seq r = seq) (nd_outbox db)) SE_Database) (\<lambda>_.
       Inr (db\<lparr>nd_outbox := update_rows ob_op_id op_id
              (\<lambda>r. r\<lparr>ob_device_id := device_id, ob_client_seq := seq, ob_status := ''local'', ob_error := None\<rparr>)
              (nd_outbox db)\<rparr>)))"

definition rotate_device_id :: "native_env \<Rightarrow> native_db \<Rightarrow> store_error + string \<times> native_db" where
  "rotate_device_id env db =
     (let (device_id, db) = native_uuid env db;
          op_ids = map ob_op_id (sort_key (\<lambda>r. (ob_client_seq r, ob_created_at r)) (nd_outbox db)) in
      and_then (try_fold (renumber_op device_id) (enumerate 0 op_ids) db) (\<lambda>db.
      let db = kv_set ''device_id'' device_id db;
          db = kv_set ''client_seq'' ''0'' db;
          db = kv_set ''sync_cursor'' ''0'' db;
          db = kv_set ''sync_enabled'' ''false'' db
      in Inr (device_id, kv_set ''bootstrap_required'' ''0'' db)))"

record sync_diagnostics =
  sd_enabled :: bool
  sd_device_id :: string
  sd_cursor :: string
  sd_pending :: nat
  sd_rejected :: nat
  sd_bound_account :: "string option"
  sd_bound_api_url :: "string option"

definition non_empty_kv :: "native_db \<Rightarrow> string \<Rightarrow> string option" where
  "non_empty_kv db k = (case kv_string db k of None \<Rightarrow> None | Some v \<Rightarrow> if v = [] then None else Some v)"

definition count_status :: "string \<Rightarrow> native_db \<Rightarrow> nat" where
  "count_status s db = length (filter (\<lambda>r. ob_status r = s) (nd_outbox db))"

definition diagnostics :: "native_db \<Rightarrow> sync_diagnostics" where
  "diagnostics db =
     \<lparr>sd_enabled = (case kv_string db ''sync_enabled'' of None \<Rightarrow> False | Some v \<Rightarrow> v = ''true''),
      sd_device_id = or_else (kv_string db ''device_id'') [],
      sd_cursor = or_else (kv_string db ''sync_cursor'') ''0'',
      sd_pending = count_status ''pending'' db, sd_rejected = count_status ''rejected'' db,
      sd_bound_account = non_empty_kv db ''bound_account'',
      sd_bound_api_url = non_empty_kv db ''bound_api_url''\<rparr>"

definition move_status :: "string \<Rightarrow> string \<Rightarrow> native_db \<Rightarrow> native_db" where
  "move_status a b db =
     db\<lparr>nd_outbox := map (\<lambda>r. if ob_status r = a then r\<lparr>ob_status := b\<rparr> else r) (nd_outbox db)\<rparr>"

definition sync_set_enabled :: "bool \<Rightarrow> native_db \<Rightarrow> native_db" where
  "sync_set_enabled enabled db =
     (let db = (if enabled then move_status ''local'' ''pending'' db else move_status ''pending'' ''local'' db)
      in kv_set ''sync_enabled'' (if enabled then ''true'' else ''false'') db)"

definition sync_clear_account_binding :: "native_db \<Rightarrow> native_db" where
  "sync_clear_account_binding db =
     (let db = db\<lparr>nd_outbox := []\<rparr>;
          db = kv_delete ''bound_account'' db;
          db = kv_delete ''bound_api_url'' db;
          db = kv_set ''sync_enabled'' ''false'' db;
          db = kv_set ''sync_cursor'' ''0'' db;
          db = kv_set ''client_seq'' ''0'' db
      in kv_set ''bootstrap_required'' ''0'' db)"

definition sync_clear_rejected :: "native_env \<Rightarrow> native_db \<Rightarrow> store_error + native_db" where
  "sync_clear_rejected env db =
     (let rejected = map (\<lambda>r. (ob_entity r, ob_entity_id r))
            (sort_key ob_client_seq (filter (\<lambda>r. ob_status r = ''rejected'') (nd_outbox db))) in
      if rejected = [] then Inr db
      else
        let db = db\<lparr>nd_outbox := delete_rows (\<lambda>r. ob_status r = ''rejected'') (nd_outbox db)\<rparr>;
            (now, db) = native_now env db
        in reproject_entities env now rejected db)"

section \<open>Reading the outbox\<close>

definition get_device_id :: "native_env \<Rightarrow> native_db \<Rightarrow> store_error + string \<times> native_db" where
  "get_device_id env db =
     (let db = ensure_local_identity env db in
      and_then (ok_or (kv_string db ''device_id'') SE_Database) (\<lambda>i. Inr (i, db)))"

definition get_sync_cursor :: "native_db \<Rightarrow> string" where
  "get_sync_cursor db = or_else (kv_string db ''sync_cursor'') ''0''"

definition bootstrap_required :: "native_db \<Rightarrow> native_db" where
  "bootstrap_required db = kv_set ''bootstrap_required'' ''1'' db"

definition pending_mutations :: "nat \<Rightarrow> native_db \<Rightarrow> outbox_row list" where
  "pending_mutations limit db =
     take (max 1 (min limit 500))
       (sort_key ob_client_seq (filter (\<lambda>r. ob_status r = ''pending'') (nd_outbox db)))"

definition upcoming_reminders :: "native_db \<Rightarrow> task list" where
  "upcoming_reminders db =
     sort_key (\<lambda>t. or_else (t_remind_at t) [])
       (filter (\<lambda>t. t_deleted_at t = None \<and> t_status t = NOpen \<and> t_remind_at t \<noteq> None) (nd_tasks db))"

section \<open>Server changes\<close>

record server_ack =
  sa_op_id :: string
  sa_server_seq :: "int option"
  sa_status :: string
  sa_error_code :: "string option"

record server_change =
  sc_server_seq :: int
  sc_op_id :: string
  sc_entity :: string
  sc_entity_id :: string
  sc_kind :: string
  sc_patch :: json

record server_result =
  sr_acks :: "server_ack list"
  sr_changes :: "server_change list"
  sr_next_cursor :: string
  sr_session_id :: "string option"

fun snake_to_camel_loop :: "(string \<Rightarrow> string) \<Rightarrow> string list \<Rightarrow> bool \<Rightarrow> string" where
  "snake_to_camel_loop upper [] uppercase = []"
| "snake_to_camel_loop upper (c # cs) uppercase =
     (if c = ''_'' then snake_to_camel_loop upper cs True
      else if uppercase then upper c @ snake_to_camel_loop upper cs False
      else c @ snake_to_camel_loop upper cs False)"

definition snake_to_camel :: "native_env \<Rightarrow> string \<Rightarrow> string" where
  "snake_to_camel env s = snake_to_camel_loop (ne_upper env) (str_chars s) False"

definition camelize_object :: "native_env \<Rightarrow> jmap \<Rightarrow> jmap" where
  "camelize_object env m = fold (\<lambda>(k, v). jput (snake_to_camel env k) v) m []"

definition optional_text_value :: "json option \<Rightarrow> store_error + string option" where
  "optional_text_value v =
     (case v of
        None \<Rightarrow> Inr None
      | Some x \<Rightarrow> (case x of JNull \<Rightarrow> Inr None | JStr s \<Rightarrow> Inr (Some s) | _ \<Rightarrow> Inl SE_Validation))"

definition bool_value :: "json option \<Rightarrow> bool option" where
  "bool_value v =
     (case v of
        Some (JBool b) \<Rightarrow> Some b
      | Some (JNum (JInt n)) \<Rightarrow> Some (I64_MIN \<le> n \<and> n \<le> I64_MAX \<and> n \<noteq> 0)
      | Some (JNum (JFloat _)) \<Rightarrow> Some False
      | _ \<Rightarrow> None)"

datatype field_kind = FieldText | FieldBool | FieldJson

datatype sql_value = SqlNull | SqlText string | SqlInteger int | SqlJson json

definition field_mapping :: "string \<Rightarrow> string \<Rightarrow> (string \<times> field_kind) option" where
  "field_mapping entity key =
     (if entity = ''task'' then
        map_of
          [(''listId'', ''list_id'', FieldText), (''title'', ''title'', FieldText), (''note'', ''note'', FieldText),
           (''tags'', ''tags_json'', FieldJson), (''status'', ''status'', FieldText),
           (''important'', ''important'', FieldBool), (''dueOn'', ''due_on'', FieldText),
           (''remindAt'', ''remind_at'', FieldText), (''remindTimezone'', ''remind_timezone'', FieldText),
           (''rank'', ''rank'', FieldText), (''seriesId'', ''series_id'', FieldText),
           (''occurrenceKey'', ''occurrence_key'', FieldText), (''recurrence'', ''recurrence_json'', FieldJson),
           (''completedAt'', ''completed_at'', FieldText), (''createdAt'', ''created_at'', FieldText),
           (''deletedAt'', ''deleted_at'', FieldText)] key
      else if entity = ''list'' then
        map_of
          [(''name'', ''name'', FieldText), (''color'', ''color'', FieldText), (''icon'', ''icon'', FieldText),
           (''rank'', ''rank'', FieldText), (''createdAt'', ''created_at'', FieldText),
           (''deletedAt'', ''deleted_at'', FieldText)] key
      else if entity = ''step'' then
        map_of
          [(''taskId'', ''task_id'', FieldText), (''title'', ''title'', FieldText),
           (''isCompleted'', ''is_completed'', FieldBool), (''rank'', ''rank'', FieldText),
           (''createdAt'', ''created_at'', FieldText), (''deletedAt'', ''deleted_at'', FieldText)] key
      else if entity = ''day_plan'' then
        map_of
          [(''taskId'', ''task_id'', FieldText), (''localDate'', ''local_date'', FieldText),
           (''rank'', ''rank'', FieldText), (''createdAt'', ''created_at'', FieldText),
           (''deletedAt'', ''deleted_at'', FieldText)] key
      else None)"

definition sql_value_of :: "field_kind \<Rightarrow> json \<Rightarrow> store_error + sql_value" where
  "sql_value_of k v =
     (case k of
        FieldText \<Rightarrow>
          and_then (optional_text_value (Some v)) (\<lambda>t.
          Inr (case t of None \<Rightarrow> SqlNull | Some s \<Rightarrow> SqlText s))
      | FieldBool \<Rightarrow>
          Inr (case bool_value (Some v) of None \<Rightarrow> SqlNull | Some b \<Rightarrow> SqlInteger (if b then 1 else 0))
      | FieldJson \<Rightarrow> Inr (if v = JNull then SqlNull else SqlJson v))"

fun server_assignments :: "string \<Rightarrow> jmap \<Rightarrow> store_error + (string \<times> sql_value) list" where
  "server_assignments entity [] = Inr []"
| "server_assignments entity ((key, v) # m) =
     (case field_mapping entity key of
        None \<Rightarrow> server_assignments entity m
      | Some (column, kind) \<Rightarrow>
          and_then (sql_value_of kind v) (\<lambda>x.
          and_then (server_assignments entity m) (\<lambda>rest. Inr ((column, x) # rest))))"

text \<open>
  One \<open>column = value\<close> of an \<open>UPDATE\<close>: \<open>NOT NULL\<close> and \<open>CHECK\<close> constraints fail the statement,
  and a text that is no array of strings reads back as no tags.
\<close>

definition not_null_text :: "sql_value \<Rightarrow> store_error + string" where
  "not_null_text x = (case x of SqlText s \<Rightarrow> Inr s | _ \<Rightarrow> Inl SE_Database)"

definition null_text :: "sql_value \<Rightarrow> string option" where
  "null_text x = (case x of SqlText s \<Rightarrow> Some s | _ \<Rightarrow> None)"

definition not_null_bool :: "sql_value \<Rightarrow> store_error + bool" where
  "not_null_bool x = (case x of SqlInteger n \<Rightarrow> Inr (n \<noteq> 0) | _ \<Rightarrow> Inl SE_Database)"

definition tags_of_sql :: "sql_value \<Rightarrow> store_error + string list" where
  "tags_of_sql x =
     (case x of
        SqlJson v \<Rightarrow>
          Inr (case as_array v of
                 None \<Rightarrow> [] | Some vs \<Rightarrow> if list_all (\<lambda>v. as_str v \<noteq> None) vs then strings_of vs else [])
      | _ \<Rightarrow> Inl SE_Database)"

definition set_list_column :: "string \<times> sql_value \<Rightarrow> task_list \<Rightarrow> store_error + task_list" where
  "set_list_column a l =
     (case a of (column, x) \<Rightarrow>
       if column = ''name'' then and_then (not_null_text x) (\<lambda>s. Inr (l\<lparr>tl_name := s\<rparr>))
       else if column = ''color'' then Inr (l\<lparr>tl_color := null_text x\<rparr>)
       else if column = ''icon'' then Inr (l\<lparr>tl_icon := null_text x\<rparr>)
       else if column = ''rank'' then and_then (not_null_text x) (\<lambda>s. Inr (l\<lparr>tl_rank := s\<rparr>))
       else if column = ''created_at'' then and_then (not_null_text x) (\<lambda>s. Inr (l\<lparr>tl_created_at := s\<rparr>))
       else if column = ''deleted_at'' then Inr (l\<lparr>tl_deleted_at := null_text x\<rparr>)
       else Inr l)"

definition set_task_column :: "string \<times> sql_value \<Rightarrow> task \<Rightarrow> store_error + task" where
  "set_task_column a t =
     (case a of (column, x) \<Rightarrow>
       if column = ''list_id'' then Inr (t\<lparr>t_list_id := null_text x\<rparr>)
       else if column = ''title'' then and_then (not_null_text x) (\<lambda>s. Inr (t\<lparr>t_title := s\<rparr>))
       else if column = ''note'' then and_then (not_null_text x) (\<lambda>s. Inr (t\<lparr>t_note := s\<rparr>))
       else if column = ''tags_json'' then and_then (tags_of_sql x) (\<lambda>ts. Inr (t\<lparr>t_tags := ts\<rparr>))
       else if column = ''status'' then
         and_then (not_null_text x) (\<lambda>s.
         and_then (ok_or (nstatus_parse s) SE_Database) (\<lambda>st. Inr (t\<lparr>t_status := st\<rparr>)))
       else if column = ''important'' then and_then (not_null_bool x) (\<lambda>b. Inr (t\<lparr>t_important := b\<rparr>))
       else if column = ''due_on'' then Inr (t\<lparr>t_due_on := null_text x\<rparr>)
       else if column = ''remind_at'' then Inr (t\<lparr>t_remind_at := null_text x\<rparr>)
       else if column = ''remind_timezone'' then Inr (t\<lparr>t_remind_timezone := null_text x\<rparr>)
       else if column = ''rank'' then and_then (not_null_text x) (\<lambda>s. Inr (t\<lparr>t_rank := s\<rparr>))
       else if column = ''series_id'' then Inr (t\<lparr>t_series_id := null_text x\<rparr>)
       else if column = ''occurrence_key'' then Inr (t\<lparr>t_occurrence_key := null_text x\<rparr>)
       else if column = ''recurrence_json'' then
         Inr (t\<lparr>t_recurrence := (case x of SqlJson v \<Rightarrow> Some v | _ \<Rightarrow> None)\<rparr>)
       else if column = ''completed_at'' then Inr (t\<lparr>t_completed_at := null_text x\<rparr>)
       else if column = ''created_at'' then and_then (not_null_text x) (\<lambda>s. Inr (t\<lparr>t_created_at := s\<rparr>))
       else if column = ''deleted_at'' then Inr (t\<lparr>t_deleted_at := null_text x\<rparr>)
       else Inr t)"

definition set_step_column :: "string \<times> sql_value \<Rightarrow> step \<Rightarrow> store_error + step" where
  "set_step_column a s =
     (case a of (column, x) \<Rightarrow>
       if column = ''task_id'' then and_then (not_null_text x) (\<lambda>v. Inr (s\<lparr>s_task_id := v\<rparr>))
       else if column = ''title'' then and_then (not_null_text x) (\<lambda>v. Inr (s\<lparr>s_title := v\<rparr>))
       else if column = ''is_completed'' then and_then (not_null_bool x) (\<lambda>b. Inr (s\<lparr>s_is_completed := b\<rparr>))
       else if column = ''rank'' then and_then (not_null_text x) (\<lambda>v. Inr (s\<lparr>s_rank := v\<rparr>))
       else if column = ''created_at'' then and_then (not_null_text x) (\<lambda>v. Inr (s\<lparr>s_created_at := v\<rparr>))
       else if column = ''deleted_at'' then Inr (s\<lparr>s_deleted_at := null_text x\<rparr>)
       else Inr s)"

definition set_plan_column :: "string \<times> sql_value \<Rightarrow> day_plan \<Rightarrow> store_error + day_plan" where
  "set_plan_column a d =
     (case a of (column, x) \<Rightarrow>
       if column = ''task_id'' then and_then (not_null_text x) (\<lambda>v. Inr (d\<lparr>d_task_id := v\<rparr>))
       else if column = ''local_date'' then and_then (not_null_text x) (\<lambda>v. Inr (d\<lparr>d_local_date := v\<rparr>))
       else if column = ''rank'' then and_then (not_null_text x) (\<lambda>v. Inr (d\<lparr>d_rank := v\<rparr>))
       else if column = ''created_at'' then and_then (not_null_text x) (\<lambda>v. Inr (d\<lparr>d_created_at := v\<rparr>))
       else if column = ''deleted_at'' then Inr (d\<lparr>d_deleted_at := null_text x\<rparr>)
       else Inr d)"

end
