(* ===== verification/NativeServer.thy ===== *)
theory NativeServer
  imports NativeSync
begin

text \<open>
  What the local store does with an answer of the server: \<open>apply_server_result\<close> with
  \<open>apply_server_change\<close> and \<open>apply_materialized_change\<close> (\<open>store.rs\<close>), and the two ways to
  start from a whole snapshot, \<open>sync_replace_snapshot_fenced\<close> and \<open>sync_initialize_cloud\<close>
  (\<open>sync_support.rs\<close>).
\<close>

section \<open>Materialising a change\<close>

text \<open>The \<open>UPDATE\<close> of an existing row: the assignments, \<open>updated_at\<close>, then the constraints.\<close>

definition update_materialized ::
  "string \<Rightarrow> string \<Rightarrow> (string \<times> sql_value) list \<Rightarrow> string \<Rightarrow> native_db \<Rightarrow> store_error + native_db" where
  "update_materialized entity i sets now db =
     (if entity = ''list'' then
        and_then (ok_or (list_by_id db i) SE_Database) (\<lambda>r.
        and_then (try_fold set_list_column sets r) (\<lambda>r.
        Inr (db\<lparr>nd_lists := update_rows tl_id i (\<lambda>_. r\<lparr>tl_updated_at := now\<rparr>) (nd_lists db)\<rparr>)))
      else if entity = ''task'' then
        and_then (ok_or (task_by_id db i) SE_Database) (\<lambda>r.
        and_then (try_fold set_task_column sets r) (\<lambda>r.
        and_then (fail_if (\<not> list_ref db (t_list_id r)) SE_Database) (\<lambda>_.
        Inr (db\<lparr>nd_tasks := update_rows t_id i (\<lambda>_. r\<lparr>t_updated_at := now\<rparr>) (nd_tasks db)\<rparr>))))
      else if entity = ''step'' then
        and_then (ok_or (step_by_id db i) SE_Database) (\<lambda>r.
        and_then (try_fold set_step_column sets r) (\<lambda>r.
        and_then (fail_if (task_by_id db (s_task_id r) = None) SE_Database) (\<lambda>_.
        Inr (db\<lparr>nd_steps := update_rows s_id i (\<lambda>_. r\<lparr>s_updated_at := now\<rparr>) (nd_steps db)\<rparr>))))
      else
        and_then (ok_or (lookup_row d_id (nd_plans db) i) SE_Database) (\<lambda>r.
        and_then (try_fold set_plan_column sets r) (\<lambda>r.
        and_then (fail_if (slot_taken r db) SE_Database) (\<lambda>_.
        and_then (fail_if (task_by_id db (d_task_id r) = None) SE_Database) (\<lambda>_.
        Inr (db\<lparr>nd_plans := update_rows d_id i (\<lambda>_. r\<lparr>d_updated_at := now\<rparr>) (nd_plans db)\<rparr>))))))"

definition str_or :: "jmap \<Rightarrow> string \<Rightarrow> string \<Rightarrow> string" where
  "str_or m k d = or_else (string_field m k) d"

definition non_blank_or :: "jmap \<Rightarrow> string \<Rightarrow> string \<Rightarrow> string" where
  "non_blank_or m k d =
     (case string_field m k of None \<Rightarrow> d | Some s \<Rightarrow> if trim s = [] then d else s)"

definition materialize_task :: "string \<Rightarrow> jmap \<Rightarrow> string \<Rightarrow> native_db \<Rightarrow> store_error + native_db" where
  "materialize_task i m now db =
     and_then (optional_text_value (jget m ''listId'')) (\<lambda>list_id.
     and_then (case list_id of None \<Rightarrow> Inr () | Some l \<Rightarrow> nensure_active_list db l) (\<lambda>_.
     and_then (optional_text_value (jget m ''dueOn'')) (\<lambda>due_on.
     and_then (optional_text_value (jget m ''remindAt'')) (\<lambda>remind_at.
     and_then (optional_text_value (jget m ''remindTimezone'')) (\<lambda>remind_timezone.
     and_then (optional_text_value (jget m ''seriesId'')) (\<lambda>series_id.
     and_then (optional_text_value (jget m ''occurrenceKey'')) (\<lambda>occurrence_key.
     and_then (optional_text_value (jget m ''completedAt'')) (\<lambda>completed_at.
     and_then (optional_text_value (jget m ''deletedAt'')) (\<lambda>deleted_at.
     ninsert_task
       \<lparr>t_id = i, t_list_id = list_id, t_title = non_blank_or m ''title'' untitled_task,
        t_note = str_or m ''note'' [], t_tags = tags_from_data m,
        t_status = or_else (Option.bind (string_field m ''status'') nstatus_parse) NOpen,
        t_important = or_else (bool_value (jget m ''important'')) False, t_due_on = due_on,
        t_remind_at = remind_at, t_remind_timezone = remind_timezone, t_rank = str_or m ''rank'' ''a0'',
        t_series_id = series_id, t_occurrence_key = occurrence_key,
        t_recurrence = (case jget m ''recurrence'' of None \<Rightarrow> None | Some v \<Rightarrow> if is_object v then Some v else None),
        t_completed_at = completed_at, t_created_at = str_or m ''createdAt'' now, t_updated_at = now,
        t_deleted_at = deleted_at\<rparr> db)))))))))"

definition materialize_list :: "string \<Rightarrow> jmap \<Rightarrow> string \<Rightarrow> native_db \<Rightarrow> store_error + native_db" where
  "materialize_list i m now db =
     and_then (optional_text_value (jget m ''color'')) (\<lambda>color.
     and_then (optional_text_value (jget m ''icon'')) (\<lambda>icon.
     and_then (optional_text_value (jget m ''deletedAt'')) (\<lambda>deleted_at.
     insert_list_row
       \<lparr>tl_id = i, tl_name = non_blank_or m ''name'' untitled_list, tl_color = color, tl_icon = icon,
        tl_rank = str_or m ''rank'' ''a0'', tl_created_at = str_or m ''createdAt'' now,
        tl_updated_at = now, tl_deleted_at = deleted_at\<rparr> db)))"

definition materialize_step :: "string \<Rightarrow> jmap \<Rightarrow> string \<Rightarrow> native_db \<Rightarrow> store_error + native_db" where
  "materialize_step i m now db =
     and_then (optional_text_value (jget m ''taskId'')) (\<lambda>task_id.
     (case task_id of
        None \<Rightarrow> Inr db
      | Some t \<Rightarrow>
          and_then (optional_text_value (jget m ''deletedAt'')) (\<lambda>deleted_at.
          ninsert_step
            \<lparr>s_id = i, s_task_id = t, s_title = str_or m ''title'' [],
             s_is_completed = or_else (bool_value (jget m ''isCompleted'')) False,
             s_rank = str_or m ''rank'' ''a0'', s_created_at = str_or m ''createdAt'' now,
             s_updated_at = now, s_deleted_at = deleted_at\<rparr> db)))"

definition materialize_day_plan :: "string \<Rightarrow> jmap \<Rightarrow> string \<Rightarrow> native_db \<Rightarrow> store_error + native_db" where
  "materialize_day_plan i m now db =
     and_then (optional_text_value (jget m ''taskId'')) (\<lambda>task_id.
     (case task_id of
        None \<Rightarrow> Inr db
      | Some t \<Rightarrow>
          and_then (optional_text_value (jget m ''localDate'')) (\<lambda>local_date.
          (case local_date of
             None \<Rightarrow> Inr db
           | Some date \<Rightarrow>
               and_then (optional_text_value (jget m ''deletedAt'')) (\<lambda>deleted_at.
               ninsert_day_plan
                 \<lparr>d_id = i, d_task_id = t, d_local_date = date, d_rank = str_or m ''rank'' ''a0'',
                  d_created_at = str_or m ''createdAt'' now, d_updated_at = now,
                  d_deleted_at = deleted_at\<rparr> db)))))"

definition row_exists :: "string \<Rightarrow> string \<Rightarrow> native_db \<Rightarrow> store_error + bool" where
  "row_exists entity i db =
     (if entity = ''task'' then Inr (task_by_id db i \<noteq> None)
      else if entity = ''list'' then Inr (list_by_id db i \<noteq> None)
      else if entity = ''step'' then Inr (step_by_id db i \<noteq> None)
      else if entity = ''day_plan'' then Inr (lookup_row d_id (nd_plans db) i \<noteq> None)
      else Inl SE_Unsupported)"

definition apply_materialized_change ::
  "string \<Rightarrow> string \<Rightarrow> string \<Rightarrow> jmap \<Rightarrow> jmap \<Rightarrow> string \<Rightarrow> native_db \<Rightarrow> store_error + native_db" where
  "apply_materialized_change entity i kind patch merged now db =
     and_then (row_exists entity i db) (\<lambda>present.
     if present then
       and_then (server_assignments entity patch) (\<lambda>sets. update_materialized entity i sets now db)
     else if kind \<noteq> ''create'' then Inr db
     else if entity = ''task'' then materialize_task i merged now db
     else if entity = ''list'' then materialize_list i merged now db
     else if entity = ''step'' then materialize_step i merged now db
     else materialize_day_plan i merged now db)"

section \<open>Applying an answer\<close>

definition change_object :: "json \<Rightarrow> store_error + jmap" where
  "change_object p = (case p of JObj m \<Rightarrow> Inr m | JNull \<Rightarrow> Inr [] | _ \<Rightarrow> Inl SE_Validation)"

text \<open>Deletion and restoration as fields of the patch.\<close>

definition normalize_change :: "string \<Rightarrow> string \<Rightarrow> jmap \<Rightarrow> store_error + jmap" where
  "normalize_change kind now m =
     (if kind = ''delete'' then
        Inr (if jget m ''deletedAt'' = None then jput ''deletedAt'' (JStr now) m else m)
      else if kind = ''restore'' then Inr (jput ''deletedAt'' JNull m)
      else if kind = ''create'' \<or> kind = ''patch'' then Inr m
      else Inl SE_Unsupported)"

definition shadow_data :: "native_db \<Rightarrow> string \<Rightarrow> string \<Rightarrow> jmap" where
  "shadow_data db entity i =
     (case lookup_row shadow_key (nd_shadow db) (entity, i) of
        None \<Rightarrow> [] | Some r \<Rightarrow> as_object_or_empty (sh_payload r))"

definition apply_server_change :: "native_env \<Rightarrow> server_change \<Rightarrow> native_db \<Rightarrow> store_error + native_db" where
  "apply_server_change env c db =
     and_then (change_object (sc_patch c)) (\<lambda>m.
     let patch = camelize_object env m;
         (now, db) = native_now env db in
     and_then (normalize_change (sc_kind c) now patch) (\<lambda>patch.
     let merged = fold (\<lambda>(k, v). jput k v) patch (shadow_data db (sc_entity c) (sc_entity_id c));
         db = upsert_shadow (sc_entity c) (sc_entity_id c) (sc_server_seq c) merged db in
     apply_materialized_change (sc_entity c) (sc_entity_id c) (sc_kind c) patch merged now db))"

text \<open>The loop over the acknowledgements, which collects the entities they concern.\<close>

definition apply_ack ::
  "server_ack \<Rightarrow> (string \<times> string) list \<times> native_db \<Rightarrow> (string \<times> string) list \<times> native_db" where
  "apply_ack a st =
     (case st of (affected, db) \<Rightarrow>
       let affected =
             (case lookup_row ob_op_id (nd_outbox db) (sa_op_id a) of
                None \<Rightarrow> affected | Some r \<Rightarrow> affected @ [(ob_entity r, ob_entity_id r)])
       in if sa_status a = ''rejected'' then
            (affected, db\<lparr>nd_outbox := update_rows ob_op_id (sa_op_id a)
               (\<lambda>r. r\<lparr>ob_status := ''rejected'', ob_error := sa_error_code a\<rparr>) (nd_outbox db)\<rparr>)
          else if sa_status a = ''applied'' \<or> sa_status a = ''already_processed'' \<or> sa_status a = ''accepted'' then
            (affected, db\<lparr>nd_outbox := delete_rows (\<lambda>r. ob_op_id r = sa_op_id a) (nd_outbox db)\<rparr>)
          else (affected, db))"

definition apply_acks ::
  "server_ack list \<Rightarrow> native_db \<Rightarrow> (string \<times> string) list \<times> native_db" where
  "apply_acks acks db = fold apply_ack acks ([], db)"

definition update_kv :: "string \<Rightarrow> string \<Rightarrow> native_db \<Rightarrow> native_db" where
  "update_kv k v db = (if nd_kv db k = None then db else kv_set k v db)"

definition apply_server_result :: "native_env \<Rightarrow> server_result \<Rightarrow> native_db \<Rightarrow> store_error + native_db" where
  "apply_server_result env r db =
     and_then (assert_sync_session db (sr_session_id r)) (\<lambda>_.
     let (affected, db) = apply_acks (sr_acks r) db;
         affected = affected @ map (\<lambda>c. (sc_entity c, sc_entity_id c)) (sr_changes r) in
     and_then (try_fold (apply_server_change env) (sr_changes r) db) (\<lambda>db.
     let (now, db) = native_now env db in
     and_then (reproject_entities env now affected db) (\<lambda>db.
     Inr (update_kv ''bootstrap_required'' ''0'' (kv_set ''sync_cursor'' (sr_next_cursor r) db)))))"

section \<open>Snapshots\<close>

record cloud_snapshot =
  cs_cursor :: string
  cs_lists :: "task_list list"
  cs_tasks :: "task list"
  cs_steps :: "step list"
  cs_plans :: "day_plan list"

text \<open>
  A \<open>HashMap\<close> of rows by id: a later row of the same id replaces an earlier one. The code
  iterates over it in no particular order; the list is one such order.
\<close>

definition row_map :: "('r \<Rightarrow> 'k) \<Rightarrow> 'r list \<Rightarrow> 'r list" where
  "row_map key rows = fold (upsert_row key) rows []"

definition clear_materialized :: "native_db \<Rightarrow> native_db" where
  "clear_materialized db = db\<lparr>nd_plans := [], nd_steps := [], nd_tasks := [], nd_lists := []\<rparr>"

definition entity_data :: "json \<Rightarrow> jmap" where
  "entity_data v = as_object_or_empty v"

definition write_shadow_snapshot :: "cloud_snapshot \<Rightarrow> native_db \<Rightarrow> native_db" where
  "write_shadow_snapshot s db =
     (let db = db\<lparr>nd_shadow := []\<rparr>;
          db = fold (\<lambda>l. upsert_shadow ''list'' (tl_id l) 0 (entity_data (list_to_value l))) (cs_lists s) db;
          db = fold (\<lambda>t. upsert_shadow ''task'' (t_id t) 0 (entity_data (task_to_value t))) (cs_tasks s) db;
          db = fold (\<lambda>t. upsert_shadow ''step'' (s_id t) 0 (entity_data (step_to_value t))) (cs_steps s) db
      in fold (\<lambda>d. upsert_shadow ''day_plan'' (d_id d) 0 (entity_data (day_plan_to_value d))) (cs_plans s) db)"

definition later_than :: "string \<Rightarrow> string \<Rightarrow> bool" where
  "later_than l remote = (if l = [] then False else remote = [] \<or> remote < l)"

definition write_step_if_task :: "step \<Rightarrow> native_db \<Rightarrow> store_error + native_db" where
  "write_step_if_task s db = (if task_by_id db (s_task_id s) \<noteq> None then upsert_step_row s db else Inr db)"

definition write_plan_if_task :: "day_plan \<Rightarrow> native_db \<Rightarrow> store_error + native_db" where
  "write_plan_if_task d db = (if task_by_id db (d_task_id d) \<noteq> None then upsert_day_plan_row d db else Inr db)"

definition write_materialized ::
  "task_list list \<Rightarrow> task list \<Rightarrow> step list \<Rightarrow> day_plan list \<Rightarrow> native_db \<Rightarrow> store_error + native_db" where
  "write_materialized ls ts ss ds db =
     (let db = clear_materialized db in
      and_then (try_fold upsert_list_row ls db) (\<lambda>db.
      and_then (try_fold upsert_task_row ts db) (\<lambda>db.
      and_then (try_fold write_step_if_task ss db) (\<lambda>db.
      try_fold write_plan_if_task ds db))))"

end
