(* ===== verification/NativeCloud.thy ===== *)
theory NativeCloud
  imports NativeServer
begin

text \<open>
  Starting from a whole snapshot of the account
  (\<open>crates/native-core/src/store/sync_support.rs\<close>): \<open>sync_replace_snapshot_fenced\<close> rebuilds
  the tables from it and the pending mutations, \<open>sync_initialize_cloud\<close> binds the store to
  an account, keeping the cloud's rows or merging the local ones into them.
\<close>

section \<open>Replacing the snapshot\<close>

text \<open>The key under which a map of slots holds a plan of the snapshot: the last one wins.\<close>

definition slot_owner :: "day_plan list \<Rightarrow> string \<times> string \<Rightarrow> string option" where
  "slot_owner plans slot = map_option d_id (lookup_row plan_slot_of (rev plans) slot)"

definition remote_wins_slot :: "day_plan list \<Rightarrow> day_plan \<Rightarrow> bool" where
  "remote_wins_slot plans d =
     (case slot_owner plans (plan_slot_of d) of None \<Rightarrow> False | Some i \<Rightarrow> i \<noteq> d_id d)"

text \<open>\<open>local_data_index\<close> and \<open>remote_data_index\<close> at one key.\<close>

definition data_of ::
  "task_list list \<Rightarrow> task list \<Rightarrow> step list \<Rightarrow> day_plan list \<Rightarrow> string \<times> string \<Rightarrow> jmap option" where
  "data_of ls ts ss ds key =
     (case key of (entity, i) \<Rightarrow>
       if entity = ''list'' then map_option (entity_data \<circ> list_to_value) (lookup_row tl_id (rev ls) i)
       else if entity = ''task'' then map_option (entity_data \<circ> task_to_value) (lookup_row t_id (rev ts) i)
       else if entity = ''step'' then map_option (entity_data \<circ> step_to_value) (lookup_row s_id (rev ss) i)
       else if entity = ''day_plan'' then map_option (entity_data \<circ> day_plan_to_value) (lookup_row d_id (rev ds) i)
       else None)"

definition snapshot_data :: "cloud_snapshot \<Rightarrow> string \<times> string \<Rightarrow> jmap option" where
  "snapshot_data s = data_of (cs_lists s) (cs_tasks s) (cs_steps s) (cs_plans s)"

definition local_data :: "native_db \<Rightarrow> string \<times> string \<Rightarrow> jmap option" where
  "local_data db = data_of (nd_lists db) (nd_tasks db) (nd_steps db) (nd_plans db)"

definition pending_rows :: "native_db \<Rightarrow> outbox_row list" where
  "pending_rows db = sort_key ob_client_seq (filter (\<lambda>r. ob_status r = ''pending'') (nd_outbox db))"

text \<open>The keys of the \<open>BTreeMap\<close> of groups, in its order, and one group.\<close>

definition group_keys :: "outbox_row list \<Rightarrow> (string \<times> string) list" where
  "group_keys ms = sort (remdups (map (\<lambda>r. (ob_entity r, ob_entity_id r)) ms))"

definition group_of :: "outbox_row list \<Rightarrow> string \<times> string \<Rightarrow> outbox_row list" where
  "group_of ms key = filter (\<lambda>r. (ob_entity r, ob_entity_id r) = key) ms"

record merged_rows =
  mr_lists :: "task_list list"
  mr_tasks :: "task list"
  mr_steps :: "step list"
  mr_plans :: "day_plan list"

definition rows_of_snapshot :: "cloud_snapshot \<Rightarrow> merged_rows" where
  "rows_of_snapshot s =
     \<lparr>mr_lists = row_map tl_id (cs_lists s), mr_tasks = row_map t_id (cs_tasks s),
      mr_steps = row_map s_id (cs_steps s), mr_plans = row_map d_id (cs_plans s)\<rparr>"

definition rebase_group ::
  "native_env \<Rightarrow> string \<Rightarrow> cloud_snapshot \<Rightarrow> native_db \<Rightarrow> outbox_row list \<Rightarrow> string \<times> string \<Rightarrow>
   merged_rows \<Rightarrow> merged_rows" where
  "rebase_group env now s db ms key rows =
     (case key of (entity, i) \<Rightarrow>
       let base = (case snapshot_data s key of
                     Some m \<Rightarrow> m
                   | None \<Rightarrow> (case local_data db key of Some m \<Rightarrow> m | None \<Rightarrow> []));
           data = replay entity now (group_of ms key) (jput ''id'' (JStr i) base) in
       if entity = ''list'' then
         rows\<lparr>mr_lists := upsert_row tl_id (list_from_data i data now) (mr_lists rows)\<rparr>
       else if entity = ''task'' then
         rows\<lparr>mr_tasks := upsert_row t_id (task_from_data env i data now) (mr_tasks rows)\<rparr>
       else if entity = ''step'' then
         rows\<lparr>mr_steps := upsert_row s_id (step_from_data i data now) (mr_steps rows)\<rparr>
       else if entity = ''day_plan'' then
         (let plan = day_plan_from_data env i data now in
          if remote_wins_slot (cs_plans s) plan then rows
          else rows\<lparr>mr_plans := upsert_row d_id plan (mr_plans rows)\<rparr>)
       else rows)"

definition sync_replace_snapshot_fenced ::
  "native_env \<Rightarrow> cloud_snapshot \<Rightarrow> string option \<Rightarrow> native_db \<Rightarrow> store_error + native_db" where
  "sync_replace_snapshot_fenced env s session_id db =
     and_then (assert_sync_session db session_id) (\<lambda>_.
     let (now, db) = native_now env db;
         ms = pending_rows db;
         rows = fold (rebase_group env now s db ms) (group_keys ms) (rows_of_snapshot s) in
     and_then (write_materialized (mr_lists rows) (mr_tasks rows) (mr_steps rows) (mr_plans rows) db) (\<lambda>db.
     let db = write_shadow_snapshot s db;
         db = kv_set ''sync_cursor'' (cs_cursor s) db
     in Inr (kv_set ''bootstrap_required'' ''0'' db)))"

section \<open>Binding to an account\<close>

datatype cloud_merge_mode = MergeLocal | CloudOnly

record cloud_init =
  ci_snapshot :: cloud_snapshot
  ci_mode :: cloud_merge_mode
  ci_email :: string
  ci_api_url :: "string option"
  ci_session_id :: "string option"

record prepared_op =
  po_entity :: string
  po_entity_id :: string
  po_kind :: string
  po_patch :: json

text \<open>
  The body of the four merge loops, which differ in the row type only; for day plans a new
  local row also yields to the snapshot's owner of its slot (\<open>yields\<close>).
\<close>

definition merge_row ::
  "string \<Rightarrow> ('r \<Rightarrow> string) \<Rightarrow> ('r \<Rightarrow> string option) \<Rightarrow> ('r \<Rightarrow> string) \<Rightarrow> ('r \<Rightarrow> json) \<Rightarrow> ('r \<Rightarrow> bool) \<Rightarrow>
   'r list \<Rightarrow> 'r \<Rightarrow> 'r list \<times> prepared_op list \<Rightarrow> 'r list \<times> prepared_op list" where
  "merge_row entity key deleted updated to_value yields remote row st =
     (case st of (merged, ops) \<Rightarrow>
       let keep = upsert_row key row merged;
           op = (\<lambda>kind patch. \<lparr>po_entity = entity, po_entity_id = key row, po_kind = kind, po_patch = patch\<rparr>);
           full = full_patch entity (to_value row) in
       case lookup_row key remote (key row) of
         None \<Rightarrow>
           if deleted row = None \<and> \<not> yields row then (keep, ops @ [op ''create'' full]) else (merged, ops)
       | Some server \<Rightarrow>
           if deleted row \<noteq> None then
             (keep, if deleted server = None then ops @ [op ''delete'' (JObj [])] else ops)
           else if deleted server \<noteq> None then
             (if later_than (updated row) (updated server) then (keep, ops @ [op ''restore'' full]) else (merged, ops))
           else if later_than (updated row) (updated server) then (keep, ops @ [op ''patch'' full])
           else (merged, ops))"

definition merge_rows ::
  "string \<Rightarrow> ('r \<Rightarrow> string) \<Rightarrow> ('r \<Rightarrow> string option) \<Rightarrow> ('r \<Rightarrow> string) \<Rightarrow> ('r \<Rightarrow> json) \<Rightarrow> ('r \<Rightarrow> bool) \<Rightarrow>
   'r list \<Rightarrow> 'r list \<Rightarrow> 'r list \<times> prepared_op list" where
  "merge_rows entity key deleted updated to_value yields remote rows =
     fold (merge_row entity key deleted updated to_value yields remote) rows (remote, [])"

definition merge_lists :: "cloud_snapshot \<Rightarrow> task_list list \<Rightarrow> task_list list \<times> prepared_op list" where
  "merge_lists s =
     merge_rows ''list'' tl_id tl_deleted_at tl_updated_at list_to_value (\<lambda>_. False) (row_map tl_id (cs_lists s))"

definition merge_tasks :: "cloud_snapshot \<Rightarrow> task list \<Rightarrow> task list \<times> prepared_op list" where
  "merge_tasks s =
     merge_rows ''task'' t_id t_deleted_at t_updated_at task_to_value (\<lambda>_. False) (row_map t_id (cs_tasks s))"

definition merge_steps :: "cloud_snapshot \<Rightarrow> step list \<Rightarrow> step list \<times> prepared_op list" where
  "merge_steps s =
     merge_rows ''step'' s_id s_deleted_at s_updated_at step_to_value (\<lambda>_. False) (row_map s_id (cs_steps s))"

definition merge_plans :: "cloud_snapshot \<Rightarrow> day_plan list \<Rightarrow> day_plan list \<times> prepared_op list" where
  "merge_plans s =
     merge_rows ''day_plan'' d_id d_deleted_at d_updated_at day_plan_to_value (remote_wins_slot (cs_plans s))
       (row_map d_id (cs_plans s))"

text \<open>The tables and the operations the merge leaves, from the local rows before it.\<close>

definition merge_snapshot :: "cloud_snapshot \<Rightarrow> native_db \<Rightarrow> merged_rows \<times> prepared_op list" where
  "merge_snapshot s db =
     (let (ls, list_ops) = merge_lists s (nd_lists db);
          (ts, task_ops) = merge_tasks s (nd_tasks db);
          (ss, step_ops) = merge_steps s (nd_steps db);
          (ds, plan_ops) = merge_plans s (nd_plans db)
      in (\<lparr>mr_lists = ls, mr_tasks = ts, mr_steps = ss, mr_plans = ds\<rparr>,
          list_ops @ task_ops @ step_ops @ plan_ops))"

definition trim_end_slashes :: "string \<Rightarrow> string" where
  "trim_end_slashes s = rev (dropWhile (\<lambda>c. c = CHR ''/'') (rev s))"

definition clean_api_url :: "string option \<Rightarrow> string option" where
  "clean_api_url u =
     (case u of
        None \<Rightarrow> None
      | Some s \<Rightarrow> (let s = trim s in if s = [] then None else Some (to_ascii_lowercase (trim_end_slashes s))))"

definition append_prepared :: "native_env \<Rightarrow> prepared_op \<Rightarrow> native_db \<Rightarrow> store_error + native_db" where
  "append_prepared env o' db = append_mutation env (po_entity o') (po_entity_id o') (po_kind o') (po_patch o') db"

definition sync_initialize_cloud ::
  "native_env \<Rightarrow> cloud_init \<Rightarrow> native_db \<Rightarrow> store_error + nat \<times> native_db" where
  "sync_initialize_cloud env req db =
     (let account_email = to_ascii_lowercase (trim (ci_email req));
          s = ci_snapshot req in
      and_then (fail_if (account_email = []) SE_Validation) (\<lambda>_.
      and_then (assert_sync_session db (ci_session_id req)) (\<lambda>_.
      let (rows, prepared) =
            (case ci_mode req of CloudOnly \<Rightarrow> (rows_of_snapshot s, []) | MergeLocal \<Rightarrow> merge_snapshot s db);
          db = db\<lparr>nd_outbox := [], nd_shadow := []\<rparr> in
      and_then (write_materialized (mr_lists rows) (mr_tasks rows) (mr_steps rows) (mr_plans rows) db) (\<lambda>db.
      let db = write_shadow_snapshot s db;
          db = kv_set ''client_seq'' ''0'' db;
          db = kv_set ''sync_enabled'' ''true'' db in
      and_then (try_fold (append_prepared env) prepared db) (\<lambda>db.
      let db = kv_set ''sync_cursor'' (cs_cursor s) db;
          db = kv_set ''bound_account'' account_email db;
          db = (case clean_api_url (ci_api_url req) of
                  Some u \<Rightarrow> kv_set ''bound_api_url'' u db | None \<Rightarrow> kv_delete ''bound_api_url'' db)
      in Inr (length prepared, kv_set ''bootstrap_required'' ''0'' db))))))"

section \<open>Import, export and reset\<close>

record export_bundle =
  eb_format :: string
  eb_version :: nat
  eb_exported_at :: string
  eb_app_version :: string
  eb_tasks :: "task list"
  eb_lists :: "task_list list"
  eb_steps :: "step list"
  eb_plans :: "day_plan list"

datatype import_mode = ImportMerge | ImportReplace

definition compare_export_steps :: "step \<Rightarrow> step \<Rightarrow> cmp" where
  "compare_export_steps l r =
     then_with (cmp_str (s_task_id l) (s_task_id r))
       (then_with (cmp_str (s_rank l) (s_rank r)) (cmp_str (s_created_at l) (s_created_at r)))"

definition compare_export_plans :: "day_plan \<Rightarrow> day_plan \<Rightarrow> cmp" where
  "compare_export_plans l r =
     then_with (cmp_str (d_local_date l) (d_local_date r)) (cmp_str (d_rank l) (d_rank r))"

definition export_data :: "native_env \<Rightarrow> native_db \<Rightarrow> export_bundle \<times> native_db" where
  "export_data env db =
     (let (now, db) = native_now env db in
      (\<lparr>eb_format = ''todo-export'', eb_version = 1, eb_exported_at = now, eb_app_version = ''1.0.0'',
        eb_tasks = sort_by compare_tasks (nd_tasks db), eb_lists = sort_by compare_lists (nd_lists db),
        eb_steps = sort_by compare_export_steps (nd_steps db),
        eb_plans = sort_by compare_export_plans (nd_plans db)\<rparr>, db))"

definition check_ids :: "string list \<Rightarrow> store_error + unit" where
  "check_ids ids = fail_if (\<not> distinct ids) SE_Validation"

definition validate_unique_import_ids :: "export_bundle \<Rightarrow> store_error + unit" where
  "validate_unique_import_ids b =
     and_then (check_ids (map tl_id (eb_lists b))) (\<lambda>_.
     and_then (check_ids (map t_id (eb_tasks b))) (\<lambda>_.
     and_then (check_ids (map s_id (eb_steps b))) (\<lambda>_.
     check_ids (map d_id (eb_plans b)))))"

definition import_kind :: "bool \<Rightarrow> string" where
  "import_kind known = (if known then ''patch'' else ''create'')"

definition import_list :: "native_env \<Rightarrow> task_list \<Rightarrow> native_db \<Rightarrow> store_error + native_db" where
  "import_list env l db =
     (let known = list_by_id db (tl_id l) \<noteq> None in
      and_then (upsert_list_row l db) (\<lambda>db.
      append_mutation env ''list'' (tl_id l) (import_kind known) (list_to_value l) db))"

definition import_task :: "native_env \<Rightarrow> task \<Rightarrow> native_db \<Rightarrow> store_error + native_db" where
  "import_task env t db =
     and_then (nnormalize_tags (ne_lower env) (t_tags t)) (\<lambda>tags.
     let t = t\<lparr>t_tags := tags\<rparr>; known = task_by_id db (t_id t) \<noteq> None in
     and_then (upsert_task_row t db) (\<lambda>db.
     append_mutation env ''task'' (t_id t) (import_kind known) (task_to_value t) db))"

definition import_step :: "native_env \<Rightarrow> step \<Rightarrow> native_db \<Rightarrow> store_error + native_db" where
  "import_step env s db =
     (let known = step_by_id db (s_id s) \<noteq> None in
      and_then (upsert_step_row s db) (\<lambda>db.
      append_mutation env ''step'' (s_id s) (import_kind known) (step_to_value s) db))"

definition import_day_plan :: "native_env \<Rightarrow> day_plan \<Rightarrow> native_db \<Rightarrow> store_error + native_db" where
  "import_day_plan env d db =
     (let known = lookup_row d_id (nd_plans db) (d_id d) \<noteq> None in
      and_then (upsert_day_plan_row d db) (\<lambda>db.
      append_mutation env ''day_plan'' (d_id d) (import_kind known) (day_plan_to_value d) db))"

definition import_data ::
  "native_env \<Rightarrow> export_bundle \<Rightarrow> import_mode \<Rightarrow> native_db \<Rightarrow> store_error + native_db" where
  "import_data env b mode db =
     and_then (fail_if (eb_format b \<noteq> ''todo-export'' \<or> eb_version b \<noteq> 1) SE_Validation) (\<lambda>_.
     and_then (try_fold (\<lambda>l _. and_then (clean_list_name (tl_name l)) (\<lambda>_. Inr ())) (eb_lists b) ()) (\<lambda>_.
     and_then (try_fold (\<lambda>t _. and_then (clean_title (t_title t)) (\<lambda>_. Inr ())) (eb_tasks b) ()) (\<lambda>_.
     and_then (validate_unique_import_ids b) (\<lambda>_.
     let db = (if mode = ImportReplace then (clear_materialized db)\<lparr>nd_outbox := [], nd_shadow := []\<rparr> else db) in
     and_then (try_fold (import_list env) (eb_lists b) db) (\<lambda>db.
     and_then (try_fold (import_task env) (eb_tasks b) db) (\<lambda>db.
     and_then (try_fold (import_step env) (eb_steps b) db) (\<lambda>db.
     try_fold (import_day_plan env) (eb_plans b) db)))))))"

definition clear_all :: "native_db \<Rightarrow> native_db" where
  "clear_all db = kv_delete ''sync_session'' ((clear_materialized db)\<lparr>nd_outbox := [], nd_shadow := []\<rparr>)"

end
