(* ===== verification/NativeServerFacts.thy ===== *)
theory NativeServerFacts
  imports NativeSyncFacts
begin

text \<open>
  What an answer of the server does to the local store: acknowledgements settle only what
  they name, pending edits are replayed over the server's copy, a stale session changes
  nothing, and two answers the store can never apply.
\<close>

section \<open>What stays the same\<close>

definition same_books :: "native_db \<Rightarrow> native_db \<Rightarrow> bool" where
  "same_books db db' \<longleftrightarrow> nd_outbox db' = nd_outbox db \<and> nd_kv db' = nd_kv db"

lemma same_books_refl [simp]: "same_books db db"
  by (simp add: same_books_def)

lemma same_books_trans: "same_books db db1 \<Longrightarrow> same_books db1 db2 \<Longrightarrow> same_books db db2"
  by (simp add: same_books_def)

lemmas upsert_defs = upsert_list_row_def upsert_task_row_def upsert_step_row_def upsert_day_plan_row_def

lemmas insert_defs = insert_list_row_def ninsert_task_def ninsert_step_def ninsert_day_plan_def

lemma upsert_entity_frame:
  assumes "upsert_entity_data env e i data now w db = Inr db'"
  shows "same_books db db'" and "nd_shadow db' = nd_shadow db"
  using assms
  by (auto simp: upsert_entity_data_def upsert_defs same_books_def Let_def and_then_eq_Inr split: if_splits)

lemma update_materialized_frame:
  assumes "update_materialized e i sets now db = Inr db'"
  shows "same_books db db'" and "nd_shadow db' = nd_shadow db"
  using assms by (auto simp: update_materialized_def same_books_def and_then_eq_Inr split: if_splits)

lemma materialize_frame:
  "materialize_task i m now db = Inr db' \<Longrightarrow> same_books db db' \<and> nd_shadow db' = nd_shadow db"
  "materialize_list i m now db = Inr db' \<Longrightarrow> same_books db db' \<and> nd_shadow db' = nd_shadow db"
  "materialize_step i m now db = Inr db' \<Longrightarrow> same_books db db' \<and> nd_shadow db' = nd_shadow db"
  "materialize_day_plan i m now db = Inr db' \<Longrightarrow> same_books db db' \<and> nd_shadow db' = nd_shadow db"
  by (auto simp: materialize_task_def materialize_list_def materialize_step_def materialize_day_plan_def
      insert_defs same_books_def and_then_eq_Inr split: option.splits)

lemma apply_materialized_frame:
  assumes "apply_materialized_change e i k p m now db = Inr db'"
  shows "same_books db db'" and "nd_shadow db' = nd_shadow db"
  using assms update_materialized_frame materialize_frame
  by (auto simp: apply_materialized_change_def and_then_eq_Inr split: if_splits)

lemma apply_server_change_frame:
  assumes "apply_server_change env c db = Inr db'"
  shows "same_books db db'"
    and "lookup_row shadow_key (nd_shadow db') (sc_entity c, sc_entity_id c) \<noteq> None"
    and "lookup_row shadow_key (nd_shadow db) k \<noteq> None \<Longrightarrow> lookup_row shadow_key (nd_shadow db') k \<noteq> None"
proof -
  from assms obtain p m now where
    run: "apply_materialized_change (sc_entity c) (sc_entity_id c) (sc_kind c) p m now
      (upsert_shadow (sc_entity c) (sc_entity_id c) (sc_server_seq c) m (db\<lparr>nd_tick := nd_tick db + 1\<rparr>)) = Inr db'"
    by (auto simp: apply_server_change_def native_now_def and_then_eq_Inr Let_def)
  note frame = apply_materialized_frame [OF run]
  from frame(1) show "same_books db db'" by (simp add: same_books_def upsert_shadow_def)
  from frame(2) show "lookup_row shadow_key (nd_shadow db') (sc_entity c, sc_entity_id c) \<noteq> None"
    by (simp add: upsert_shadow_def lookup_row_upsert shadow_key_def)
  from frame(2) show "lookup_row shadow_key (nd_shadow db) k \<noteq> None \<Longrightarrow>
      lookup_row shadow_key (nd_shadow db') k \<noteq> None"
    by (simp add: upsert_shadow_def lookup_row_upsert)
qed

lemma reproject_frame:
  assumes "reproject_entity env now e db = Inr db'"
  shows "same_books db db'" and "nd_shadow db' = nd_shadow db"
  using assms upsert_entity_frame
  by (auto simp: reproject_entity_def Let_def split: prod.splits option.splits)

text \<open>The pieces of a successful \<open>apply_server_result\<close>.\<close>

lemma apply_server_result_Inr:
  assumes "apply_server_result env r db = Inr db'"
  obtains affected db1 db2 db3 where
    "assert_sync_session db (sr_session_id r) = Inr ()"
    and "apply_acks (sr_acks r) db = (affected, db1)"
    and "try_fold (apply_server_change env) (sr_changes r) db1 = Inr db2"
    and "try_fold (reproject_entity env (ne_now env (nd_tick db2)))
      (affected_order (affected @ map (\<lambda>c. (sc_entity c, sc_entity_id c)) (sr_changes r)))
      (db2\<lparr>nd_tick := nd_tick db2 + 1\<rparr>) = Inr db3"
    and "db' = update_kv ''bootstrap_required'' ''0'' (kv_set ''sync_cursor'' (sr_next_cursor r) db3)"
  using assms
  by (auto simp: apply_server_result_def reproject_entities_def native_now_def and_then_eq_Inr Let_def
      split: prod.splits)

lemma update_kv_tables [simp]:
  "nd_outbox (update_kv k v db) = nd_outbox db" "nd_shadow (update_kv k v db) = nd_shadow db"
  "nd_lists (update_kv k v db) = nd_lists db" "nd_tasks (update_kv k v db) = nd_tasks db"
  "nd_steps (update_kv k v db) = nd_steps db" "nd_plans (update_kv k v db) = nd_plans db"
  "nd_outbox (kv_set k v db) = nd_outbox db" "nd_shadow (kv_set k v db) = nd_shadow db"
  "nd_lists (kv_set k v db) = nd_lists db" "nd_tasks (kv_set k v db) = nd_tasks db"
  "nd_steps (kv_set k v db) = nd_steps db" "nd_plans (kv_set k v db) = nd_plans db"
  "nd_kv (kv_set k v db) = (nd_kv db)(k \<mapsto> v)"
  by (simp_all add: update_kv_def kv_set_def)

section \<open>Acknowledgements\<close>

definition settles :: "server_ack \<Rightarrow> bool" where
  "settles a \<longleftrightarrow> sa_status a = ''applied'' \<or> sa_status a = ''already_processed'' \<or> sa_status a = ''accepted''"

lemma apply_ack_outbox:
  "nd_outbox (snd (apply_ack a st)) =
     (if sa_status a = ''rejected'' then
        update_rows ob_op_id (sa_op_id a) (\<lambda>r. r\<lparr>ob_status := ''rejected'', ob_error := sa_error_code a\<rparr>) (nd_outbox (snd st))
      else if settles a then delete_rows (\<lambda>r. ob_op_id r = sa_op_id a) (nd_outbox (snd st))
      else nd_outbox (snd st))"
  by (cases st) (simp add: apply_ack_def settles_def Let_def)

lemma apply_ack_rest:
  "nd_kv (snd (apply_ack a st)) = nd_kv (snd st)" "nd_shadow (snd (apply_ack a st)) = nd_shadow (snd st)"
  "nd_lists (snd (apply_ack a st)) = nd_lists (snd st)" "nd_tasks (snd (apply_ack a st)) = nd_tasks (snd st)"
  "nd_steps (snd (apply_ack a st)) = nd_steps (snd st)" "nd_plans (snd (apply_ack a st)) = nd_plans (snd st)"
  by (cases st; simp add: apply_ack_def Let_def)+

lemma apply_acks_rest:
  "nd_kv (snd (apply_acks as db)) = nd_kv db" "nd_shadow (snd (apply_acks as db)) = nd_shadow db"
  "nd_lists (snd (apply_acks as db)) = nd_lists db" "nd_tasks (snd (apply_acks as db)) = nd_tasks db"
  "nd_steps (snd (apply_acks as db)) = nd_steps db" "nd_plans (snd (apply_acks as db)) = nd_plans db"
proof -
  have "nd_kv (snd (fold apply_ack as st)) = nd_kv (snd st) \<and> nd_shadow (snd (fold apply_ack as st)) = nd_shadow (snd st) \<and>
    nd_lists (snd (fold apply_ack as st)) = nd_lists (snd st) \<and> nd_tasks (snd (fold apply_ack as st)) = nd_tasks (snd st) \<and>
    nd_steps (snd (fold apply_ack as st)) = nd_steps (snd st) \<and> nd_plans (snd (fold apply_ack as st)) = nd_plans (snd st)" for st
    by (induction as arbitrary: st) (simp_all add: apply_ack_rest)
  then show "nd_kv (snd (apply_acks as db)) = nd_kv db" "nd_shadow (snd (apply_acks as db)) = nd_shadow db"
    "nd_lists (snd (apply_acks as db)) = nd_lists db" "nd_tasks (snd (apply_acks as db)) = nd_tasks db"
    "nd_steps (snd (apply_acks as db)) = nd_steps db" "nd_plans (snd (apply_acks as db)) = nd_plans db"
    by (simp_all add: apply_acks_def)
qed

lemma ack_keep:
  "r \<in> set (nd_outbox (snd st)) \<Longrightarrow> sa_op_id a \<noteq> ob_op_id r \<Longrightarrow> r \<in> set (nd_outbox (snd (apply_ack a st)))"
  by (auto simp: apply_ack_outbox set_update_rows delete_rows_def)

lemma ack_ids:
  "i \<in> ob_op_id ` set (nd_outbox (snd st)) \<Longrightarrow> \<not> (sa_op_id a = i \<and> settles a) \<Longrightarrow>
     i \<in> ob_op_id ` set (nd_outbox (snd (apply_ack a st)))"
  by (auto simp: apply_ack_outbox keys_update delete_rows_def)

lemma ack_from:
  assumes "r' \<in> set (nd_outbox (snd (apply_ack a st)))"
  shows "\<exists>r \<in> set (nd_outbox (snd st)). r' = r \<or>
    (sa_op_id a = ob_op_id r \<and> sa_status a = ''rejected'' \<and>
     r' = r\<lparr>ob_status := ''rejected'', ob_error := sa_error_code a\<rparr>)"
proof (cases "sa_status a = ''rejected''")
  case True
  with assms obtain r where "r \<in> set (nd_outbox (snd st))"
    "r' = (if ob_op_id r = sa_op_id a
           then r\<lparr>ob_status := ''rejected'', ob_error := sa_error_code a\<rparr> else r)"
    by (auto simp: apply_ack_outbox update_rows_def)
  with True show ?thesis by (intro bexI [of _ r]) auto
next
  case False
  with assms show ?thesis by (auto simp: apply_ack_outbox delete_rows_def split: if_splits)
qed

lemma apply_acks_keep:
  assumes "r \<in> set (nd_outbox db)" and "\<forall>a \<in> set as. sa_op_id a \<noteq> ob_op_id r"
  shows "r \<in> set (nd_outbox (snd (apply_acks as db)))"
proof -
  have "r \<in> set (nd_outbox (snd (fold apply_ack as st)))" if "r \<in> set (nd_outbox (snd st))" for st
    using that assms(2) by (induction as arbitrary: st) (simp_all add: ack_keep del: split_paired_All)
  then show ?thesis using assms(1) by (simp add: apply_acks_def)
qed

lemma apply_acks_gone:
  assumes "i \<in> ob_op_id ` set (nd_outbox db)" and "i \<notin> ob_op_id ` set (nd_outbox (snd (apply_acks as db)))"
  shows "\<exists>a \<in> set as. sa_op_id a = i \<and> settles a"
proof -
  have ids: "i \<in> ob_op_id ` set (nd_outbox (snd (fold apply_ack as st)))"
    if "i \<in> ob_op_id ` set (nd_outbox (snd st))" "\<forall>a \<in> set as. \<not> (sa_op_id a = i \<and> settles a)" for st
    using that
  proof (induction as arbitrary: st)
    case (Cons a as)
    then have "i \<in> ob_op_id ` set (nd_outbox (snd (apply_ack a st)))" by (intro ack_ids) auto
    with Cons.IH Cons.prems(2) show ?case by simp
  qed simp
  from assms ids [of "([], db)"] show ?thesis by (simp add: apply_acks_def) blast
qed

text \<open>What an acknowledgement may have made of an entry.\<close>

definition marked :: "server_ack list \<Rightarrow> outbox_row \<Rightarrow> outbox_row \<Rightarrow> bool" where
  "marked as r r' \<longleftrightarrow> r' = r \<or>
     (\<exists>a \<in> set as. sa_op_id a = ob_op_id r \<and> sa_status a = ''rejected'' \<and>
        r' = r\<lparr>ob_status := ''rejected'', ob_error := sa_error_code a\<rparr>)"

lemma apply_acks_from:
  assumes "r' \<in> set (nd_outbox (snd (apply_acks as db)))"
  shows "\<exists>r \<in> set (nd_outbox db). marked as r r'"
proof -
  have "\<exists>r \<in> set (nd_outbox (snd st)). marked as r r'"
    if "r' \<in> set (nd_outbox (snd (fold apply_ack as st)))" for st
    using that
  proof (induction as arbitrary: st)
    case (Cons a as)
    then obtain r1 where r1: "r1 \<in> set (nd_outbox (snd (apply_ack a st)))" "marked as r1 r'" by fastforce
    obtain r where r: "r \<in> set (nd_outbox (snd st))" "marked [a] r r1"
      using ack_from [OF r1(1)] by (auto simp: marked_def)
    from r1(2) r(2) have "marked (a # as) r r'"
      unfolding marked_def by auto
    with r(1) show ?case by blast
  qed (simp add: marked_def)
  from this [of "([], db)"] assms show ?thesis by (simp add: apply_acks_def)
qed

lemma try_fold_books:
  "try_fold (apply_server_change env) cs db = Inr db' \<Longrightarrow> same_books db db'"
  by (rule try_fold_invariant [where P = "same_books db"])
    (auto intro: same_books_trans dest: apply_server_change_frame(1))

lemma reproject_loop_frame:
  assumes "try_fold (reproject_entity env now) es db = Inr db'"
  shows "same_books db db' \<and> nd_shadow db' = nd_shadow db"
  using assms
  by (rule try_fold_invariant [where P = "\<lambda>s. same_books db s \<and> nd_shadow s = nd_shadow db"])
    (auto intro: same_books_trans dest: reproject_frame)

lemma apply_server_result_outbox:
  assumes "apply_server_result env r db = Inr db'"
  shows "nd_outbox db' = nd_outbox (snd (apply_acks (sr_acks r) db))"
  using assms
  by (elim apply_server_result_Inr) (auto dest!: try_fold_books reproject_loop_frame simp: same_books_def)

lemma apply_server_result_kv:
  assumes "apply_server_result env r db = Inr db'" "k \<noteq> ''sync_cursor''" "k \<noteq> ''bootstrap_required''"
  shows "nd_kv db' k = nd_kv db k"
  using assms(1)
proof (rule apply_server_result_Inr)
  fix affected db1 db2 db3
  assume "apply_acks (sr_acks r) db = (affected, db1)"
    and run: "try_fold (apply_server_change env) (sr_changes r) db1 = Inr db2"
      "try_fold (reproject_entity env (ne_now env (nd_tick db2)))
      (affected_order (affected @ map (\<lambda>c. (sc_entity c, sc_entity_id c)) (sr_changes r)))
      (db2\<lparr>nd_tick := nd_tick db2 + 1\<rparr>) = Inr db3"
    and db': "db' = update_kv ''bootstrap_required'' ''0'' (kv_set ''sync_cursor'' (sr_next_cursor r) db3)"
  then have "nd_kv db1 = nd_kv db" by (metis apply_acks_rest(1) snd_conv)
  moreover have "nd_kv db3 = nd_kv db1"
    using try_fold_books [OF run(1)] reproject_loop_frame [OF run(2)] by (simp add: same_books_def)
  ultimately show ?thesis
    using assms(2,3) by (simp add: db' update_kv_def kv_set_def)
qed

text \<open>C26. Nothing unacknowledged leaves the outbox: applying an answer of the server keeps every
  entry no acknowledgement names, removes an entry only when an acknowledgement says it was
  processed, and changes an entry only by marking it rejected with the error code.\<close>

theorem acks_settle_only_what_they_name:
  assumes "apply_server_result env req db = Inr db'"
  shows "(\<forall>r \<in> set (nd_outbox db).
      ((\<forall>a \<in> set (sr_acks req). sa_op_id a \<noteq> ob_op_id r) \<longrightarrow> r \<in> set (nd_outbox db')) \<and>
      (ob_op_id r \<in> ob_op_id ` set (nd_outbox db') \<or>
       (\<exists>a \<in> set (sr_acks req). sa_op_id a = ob_op_id r \<and> settles a))) \<and>
    (\<forall>r' \<in> set (nd_outbox db'). \<exists>r \<in> set (nd_outbox db). marked (sr_acks req) r r')"
proof (intro conjI ballI impI)
  fix r assume r: "r \<in> set (nd_outbox db)"
  show "r \<in> set (nd_outbox db')" if "\<forall>a \<in> set (sr_acks req). sa_op_id a \<noteq> ob_op_id r"
    using apply_acks_keep [OF r that] by (simp add: apply_server_result_outbox [OF assms])
  have "ob_op_id r \<in> ob_op_id ` set (nd_outbox db)" using r by simp
  then show "ob_op_id r \<in> ob_op_id ` set (nd_outbox db') \<or>
      (\<exists>a \<in> set (sr_acks req). sa_op_id a = ob_op_id r \<and> settles a)"
    using apply_acks_gone [of "ob_op_id r" db "sr_acks req"]
    unfolding apply_server_result_outbox [OF assms] by blast
next
  fix r' assume "r' \<in> set (nd_outbox db')"
  then show "\<exists>r \<in> set (nd_outbox db). marked (sr_acks req) r r'"
    by (intro apply_acks_from) (simp add: apply_server_result_outbox [OF assms])
qed

text \<open>C27. A delayed answer cannot touch the store of another session: an answer, a snapshot or an
  initialisation that carries a session token succeeds only while that token is the bound one
  (otherwise it is refused as stale), and clearing another session's token leaves this one.\<close>

theorem stale_session_refused:
  assumes "kv_string db ''sync_session'' \<noteq> Some t"
  shows "(sr_session_id r = Some t \<longrightarrow> apply_server_result env r db = Inl SE_StaleSyncSession) \<and>
    sync_replace_snapshot_fenced env s (Some t) db = Inl SE_StaleSyncSession \<and>
    (ci_session_id q = Some t \<longrightarrow> sync_initialize_cloud env q db \<in> {Inl SE_StaleSyncSession, Inl SE_Validation}) \<and>
    sync_clear_session_if (Some t) db = db"
  using assms
  by (auto simp: apply_server_result_def sync_replace_snapshot_fenced_def sync_initialize_cloud_def
      assert_sync_session_def sync_clear_session_if_def Let_def fail_if_def)

section \<open>Pending edits win\<close>

lemma try_fold_sets:
  assumes "try_fold f xs s = Inr t" and "x \<in> set xs" and "I s"
    and inv: "\<And>y s s'. I s \<Longrightarrow> f y s = Inr s' \<Longrightarrow> I s'"
    and sets: "\<And>s s'. I s \<Longrightarrow> f x s = Inr s' \<Longrightarrow> Q s'"
    and keeps: "\<And>y s s'. y \<noteq> x \<Longrightarrow> I s \<Longrightarrow> Q s \<Longrightarrow> f y s = Inr s' \<Longrightarrow> Q s'"
  shows "Q t"
proof -
  obtain ys zs where xs: "xs = ys @ x # zs" using assms(2) by (meson split_list)
  from assms(1) obtain s1 s2 where s1: "try_fold f ys s = Inr s1" and s2: "f x s1 = Inr s2"
    and t: "try_fold f zs s2 = Inr t"
    by (auto simp: xs try_fold_append and_then_eq_Inr)
  have "I s1" by (rule try_fold_invariant [where P = I, OF s1 \<open>I s\<close>]) (rule inv)
  then have "I s2 \<and> Q s2" using s2 inv sets by blast
  with t have "I t \<and> Q t"
  proof (rule try_fold_invariant [where P = "\<lambda>s. I s \<and> Q s"])
    fix y s s' assume "I s \<and> Q s" "f y s = Inr s'"
    then show "I s' \<and> Q s'" using inv sets keeps by (cases "y = x") blast+
  qed
  then show ?thesis ..
qed

text \<open>The projection of an entity: its shadow with the pending mutations replayed.\<close>

definition projected :: "native_db \<Rightarrow> string \<Rightarrow> string \<Rightarrow> string \<Rightarrow> jmap" where
  "projected db entity i now =
     replay entity now (pending_for_entity db entity i) (jput ''id'' (JStr i) (shadow_data db entity i))"

lemma projected_cong:
  "nd_outbox db' = nd_outbox db \<Longrightarrow> nd_shadow db' = nd_shadow db \<Longrightarrow> projected db' e i now = projected db e i now"
  by (simp add: projected_def pending_for_entity_def shadow_data_def)

lemma upsert_entity_other_task:
  assumes "upsert_entity_data env e j data now w db = Inr db'" and "(e, j) \<noteq> (''task'', i)"
  shows "task_by_id db' i = task_by_id db i"
  using assms
  by (auto simp: upsert_entity_data_def upsert_defs task_by_id_def lookup_row_upsert Let_def and_then_eq_Inr
      task_from_data_def split: if_splits)

lemma reproject_other_task:
  assumes "reproject_entity env now e db = Inr db'" and "e \<noteq> (''task'', i)"
  shows "task_by_id db' i = task_by_id db i"
  using assms upsert_entity_other_task
  by (auto simp: reproject_entity_def Let_def split: prod.splits option.splits)

end
