(* ===== verification/NativeRebase.thy ===== *)
theory NativeRebase
  imports NativeServerFacts
begin

text \<open>
  The tables after an answer of the server: a task the answer changes is the server's copy
  with the pending operations replayed on it, so an edit not yet acknowledged is not lost;
  and two answers the store refuses every time it sees them.
\<close>

section \<open>Replaying\<close>

lemma jget_copy_fields:
  "jget (copy_fields src fs data) k = (if k \<in> set fs \<and> jget src k \<noteq> None then jget src k else jget data k)"
proof -
  have "copy_fields src (fs :: string list) data = fold (copy_field src) fs data" by (simp add: copy_fields_def)
  moreover have "jget (fold (copy_field src) fs data) k =
      (if k \<in> set fs \<and> jget src k \<noteq> None then jget src k else jget data k)"
    by (induction fs arbitrary: data) (auto simp: copy_field_def split: option.splits)
  ultimately show ?thesis by simp
qed

lemma jget_mutation:
  assumes "f \<in> set (mutable_fields e)" and "f \<notin> {''id'', ''updatedAt'', ''createdAt'', ''deletedAt''}"
  shows "jget (apply_mutation_to_data e base m now) f =
    (if ob_kind m = ''delete'' then jget base f
     else case Option.bind (as_object (ob_patch m)) (\<lambda>p. jget p f) of
       Some v \<Rightarrow> Some v
     | None \<Rightarrow> if ob_kind m = ''create'' then None else jget base f)"
  using assms by (auto simp: apply_mutation_to_data_def Let_def jget_copy_fields split: option.splits)
    (simp_all add: jget_def)

text \<open>
  The last word of the pending operations on a field: an operation that sets it (a deletion sets
  none), after which none sets it again or starts the entity anew.
\<close>

definition last_edit :: "string \<Rightarrow> json \<Rightarrow> outbox_row list \<Rightarrow> bool" where
  "last_edit f v ops \<longleftrightarrow> (\<exists>before m later p. ops = before @ m # later \<and>
     ob_kind m \<noteq> ''delete'' \<and> as_object (ob_patch m) = Some p \<and> jget p f = Some v \<and>
     (\<forall>m' \<in> set later. ob_kind m' = ''delete'' \<or> ob_kind m' \<noteq> ''create'' \<and>
        (\<forall>p'. as_object (ob_patch m') = Some p' \<longrightarrow> jget p' f = None)))"

lemma replay_last_edit:
  assumes "last_edit f v ops" and "f \<in> set (mutable_fields e)"
    and "f \<notin> {''id'', ''updatedAt'', ''createdAt'', ''deletedAt''}"
  shows "jget (replay e now ops data) f = Some v"
proof -
  obtain before m later p where ops: "ops = before @ m # later" and m: "ob_kind m \<noteq> ''delete''"
      "as_object (ob_patch m) = Some p" "jget p f = Some v"
    and later: "\<forall>m' \<in> set later. ob_kind m' = ''delete'' \<or> ob_kind m' \<noteq> ''create'' \<and>
        (\<forall>p'. as_object (ob_patch m') = Some p' \<longrightarrow> jget p' f = None)"
    using assms(1) unfolding last_edit_def by blast
  have "jget (replay e now later base) f = jget base f" for base
    using later
  proof (induction later arbitrary: base)
    case (Cons m' later)
    have "jget (apply_mutation_to_data e base m' now) f = jget base f"
      using Cons.prems by (auto simp: jget_mutation [OF assms(2,3)] split: option.splits bind_splits)
    with Cons show ?case by (simp add: replay_def)
  qed (simp add: replay_def)
  then show ?thesis by (simp add: ops replay_def jget_mutation [OF assms(2,3)] m)
qed

text \<open>The task an answer names: the replayed copy, without a list the store does not have.\<close>

definition keep_known_list :: "native_db \<Rightarrow> task \<Rightarrow> task" where
  "keep_known_list db t = t\<lparr>t_list_id :=
     (case t_list_id t of None \<Rightarrow> None | Some l \<Rightarrow> if list_by_id db l = None then None else Some l)\<rparr>"

lemma keep_known_cong: "nd_lists db' = nd_lists db \<Longrightarrow> keep_known_list db' t = keep_known_list db t"
  by (simp add: keep_known_list_def list_by_id_def cong: option.case_cong)

lemma reproject_task:
  assumes "reproject_entity env now (''task'', i) db = Inr db'"
    and "lookup_row shadow_key (nd_shadow db) (''task'', i) \<noteq> None"
  shows "task_by_id db' i = Some (keep_known_list db' (task_from_data env i (projected db ''task'' i now) now))"
proof -
  let ?t = "task_from_data env i (projected db ''task'' i now) now"
  have k: "keep_known_list db ?t = (if list_ref db (t_list_id ?t) then ?t else ?t\<lparr>t_list_id := None\<rparr>)"
    by (simp add: keep_known_list_def list_ref_def split: option.split)
  then have db': "db' = db\<lparr>nd_tasks := upsert_row t_id (keep_known_list db ?t) (nd_tasks db)\<rparr>"
    using assms
    by (auto simp: reproject_entity_def upsert_entity_data_def upsert_task_row_def Let_def and_then_eq_Inr
        projected_def shadow_data_def split: option.splits if_splits)
  have "t_id (keep_known_list db ?t) = i" by (simp add: keep_known_list_def task_from_data_def)
  then have "task_by_id db' i = Some (keep_known_list db ?t)"
    by (simp add: db' task_by_id_def lookup_row_upsert)
  moreover have "keep_known_list db' ?t = keep_known_list db ?t" by (rule keep_known_cong) (simp add: db')
  ultimately show ?thesis by simp
qed

lemma reproject_other_list:
  assumes "reproject_entity env now e db = Inr db'" and "fst e \<noteq> ''list''"
  shows "nd_lists db' = nd_lists db"
  using assms
  by (auto simp: reproject_entity_def upsert_entity_data_def upsert_task_row_def upsert_step_row_def
      upsert_day_plan_row_def Let_def and_then_eq_Inr split: option.splits if_splits prod.splits)

lemma set_affected_order: "set (affected_order es) = set es"
  by (simp add: affected_order_def)

text \<open>Lists come first, so no list is written after a task is.\<close>

lemma lists_come_first:
  assumes "affected_order es = ys @ (''task'', i) # zs" and "z \<in> set zs"
  shows "fst z \<noteq> ''list''"
proof -
  have "sorted (map (\<lambda>(e, i). (entity_order e, i)) (affected_order es))" by (simp add: affected_order_def)
  then have "(entity_order ''task'', i) \<le> (case z of (e, j) \<Rightarrow> (entity_order e, j))"
    using assms by (auto simp: sorted_append)
  then show ?thesis by (auto simp: entity_order_def less_eq_prod_def split: prod.splits)
qed

lemma reprojected_task:
  assumes run: "try_fold (reproject_entity env now) (affected_order es) db = Inr db'"
    and i: "(''task'', i) \<in> set es" and shadow: "lookup_row shadow_key (nd_shadow db) (''task'', i) \<noteq> None"
  shows "task_by_id db' i = Some (keep_known_list db' (task_from_data env i (projected db ''task'' i now) now))"
proof -
  obtain ys zs where es: "affected_order es = ys @ (''task'', i) # zs"
    using i by (metis set_affected_order split_list)
  from run obtain s1 s2 where s1: "try_fold (reproject_entity env now) ys db = Inr s1"
    and s2: "reproject_entity env now (''task'', i) s1 = Inr s2"
    and run2: "try_fold (reproject_entity env now) zs s2 = Inr db'"
    by (auto simp: es try_fold_append and_then_eq_Inr)
  have books: "nd_outbox s1 = nd_outbox db \<and> nd_shadow s1 = nd_shadow db"
    using reproject_loop_frame [OF s1] by (simp add: same_books_def)
  let ?t = "task_from_data env i (projected db ''task'' i now) now"
  have "projected s1 ''task'' i now = projected db ''task'' i now" using books by (intro projected_cong) simp_all
  with reproject_task [OF s2] books shadow have start: "task_by_id s2 i = Some (keep_known_list s2 ?t)" by simp
  have "distinct (affected_order es)" by (simp add: affected_order_def)
  then have other: "z \<noteq> (''task'', i) \<and> fst z \<noteq> ''list''" if "z \<in> set zs" for z
    using that lists_come_first [OF es that] by (auto simp: es)
  have "task_by_id d' i = task_by_id d i \<and> nd_lists d' = nd_lists d"
    if "try_fold (reproject_entity env now) zs d = Inr d'" "\<forall>z \<in> set zs. z \<noteq> (''task'', i) \<and> fst z \<noteq> ''list''"
    for d d' zs
    using that
  proof (induction zs arbitrary: d)
    case (Cons z zs)
    then obtain e where e: "reproject_entity env now z d = Inr e" "try_fold (reproject_entity env now) zs e = Inr d'"
      by (auto simp: and_then_eq_Inr)
    have "task_by_id e i = task_by_id d i" "nd_lists e = nd_lists d"
      using Cons.prems(2) by (auto intro: reproject_other_task [OF e(1)] reproject_other_list [OF e(1)])
    with Cons.IH [OF e(2)] Cons.prems(2) show ?case by simp
  qed simp
  from this [OF run2] other have "task_by_id db' i = task_by_id s2 i" "nd_lists db' = nd_lists s2" by blast+
  with start keep_known_cong [OF this(2), of ?t] show ?thesis by simp
qed

lemma changes_reach_shadow:
  assumes "try_fold (apply_server_change env) cs db = Inr db'" and "c \<in> set cs"
  shows "lookup_row shadow_key (nd_shadow db') (sc_entity c, sc_entity_id c) \<noteq> None"
  by (rule try_fold_sets [OF assms, where I = "\<lambda>_. True"])
    (use apply_server_change_frame in simp_all)

lemma answered_task:
  assumes "apply_server_result env r db = Inr db'" and "c \<in> set (sr_changes r)" and "sc_entity c = ''task''"
  shows "\<exists>now. task_by_id db' (sc_entity_id c) = Some (keep_known_list db'
    (task_from_data env (sc_entity_id c) (projected db' ''task'' (sc_entity_id c) now) now))"
  using assms(1)
proof (rule apply_server_result_Inr)
  fix affected and db1 db2 db3 :: native_db
  let ?i = "sc_entity_id c" and ?now = "ne_now env (nd_tick db2)"
  let ?es = "affected @ map (\<lambda>c. (sc_entity c, sc_entity_id c)) (sr_changes r)"
  let ?db2 = "db2\<lparr>nd_tick := nd_tick db2 + 1\<rparr>"
  assume changes: "try_fold (apply_server_change env) (sr_changes r) db1 = Inr db2"
    and rebuild: "try_fold (reproject_entity env ?now) (affected_order ?es) ?db2 = Inr db3"
    and db': "db' = update_kv ''bootstrap_required'' ''0'' (kv_set ''sync_cursor'' (sr_next_cursor r) db3)"
  have "(''task'', ?i) \<in> set ?es" using assms(2,3) by force
  moreover have "lookup_row shadow_key (nd_shadow ?db2) (''task'', ?i) \<noteq> None"
    using changes_reach_shadow [OF changes assms(2)] assms(3) by simp
  ultimately have "task_by_id db3 ?i =
      Some (keep_known_list db3 (task_from_data env ?i (projected ?db2 ''task'' ?i ?now) ?now))"
    by (rule reprojected_task [OF rebuild])
  moreover have "projected db' ''task'' ?i ?now = projected ?db2 ''task'' ?i ?now"
    using reproject_loop_frame [OF rebuild] by (intro projected_cong) (simp_all add: db' same_books_def)
  moreover have "task_by_id db' ?i = task_by_id db3 ?i" by (simp add: db' task_by_id_def)
  moreover have "keep_known_list db' t = keep_known_list db3 t" for t by (rule keep_known_cong) (simp add: db')
  ultimately show ?thesis by metis
qed


text \<open>
  What a task reads when a field of it was set to a JSON value: the fourteen fields a client may
  edit, each for the values it accepts (a text, or \<open>null\<close> for none).
\<close>

definition reads_text :: "json \<Rightarrow> string option \<Rightarrow> bool" where
  "reads_text v x \<longleftrightarrow> (\<forall>s. v = JStr s \<and> s \<noteq> [] \<longrightarrow> x = Some s) \<and> (v = JNull \<longrightarrow> x = None)"

definition field_reads :: "native_env \<Rightarrow> native_db \<Rightarrow> string \<Rightarrow> json \<Rightarrow> task \<Rightarrow> bool" where
  "field_reads env db f v t \<longleftrightarrow>
     (f = ''listId'' \<longrightarrow> (\<forall>s. v = JStr s \<and> s \<noteq> [] \<and> list_by_id db s \<noteq> None \<longrightarrow> t_list_id t = Some s) \<and>
        (v = JNull \<longrightarrow> t_list_id t = None)) \<and>
     (f = ''title'' \<longrightarrow> (\<forall>s. v = JStr s \<and> trim s \<noteq> [] \<longrightarrow> t_title t = s)) \<and>
     (f = ''note'' \<longrightarrow> (\<forall>s. v = JStr s \<longrightarrow> t_note t = s)) \<and>
     (f = ''tags'' \<longrightarrow> (\<forall>ts. v = JArr (map JStr ts) \<longrightarrow> t_tags t = ts)) \<and>
     (f = ''status'' \<longrightarrow> (v = JStr ''open'' \<longrightarrow> t_status t = NOpen) \<and>
        (v = JStr ''completed'' \<longrightarrow> t_status t = NCompleted)) \<and>
     (f = ''important'' \<longrightarrow> (\<forall>b. v = JBool b \<longrightarrow> t_important t = b)) \<and>
     (f = ''dueOn'' \<longrightarrow> (\<forall>s. v = JStr s \<and> ne_date_ok env s \<longrightarrow> t_due_on t = Some s) \<and>
        (v = JNull \<longrightarrow> t_due_on t = None)) \<and>
     (f = ''remindAt'' \<longrightarrow> reads_text v (t_remind_at t)) \<and>
     (f = ''remindTimezone'' \<longrightarrow> reads_text v (t_remind_timezone t)) \<and>
     (f = ''rank'' \<longrightarrow> (\<forall>s. v = JStr s \<and> trim s \<noteq> [] \<longrightarrow> t_rank t = s)) \<and>
     (f = ''seriesId'' \<longrightarrow> reads_text v (t_series_id t)) \<and>
     (f = ''occurrenceKey'' \<longrightarrow> reads_text v (t_occurrence_key t)) \<and>
     (f = ''recurrence'' \<longrightarrow> (\<forall>m. v = JObj m \<longrightarrow> t_recurrence t = Some v) \<and>
        (v = JNull \<longrightarrow> t_recurrence t = None)) \<and>
     (f = ''completedAt'' \<longrightarrow> reads_text v (t_completed_at t))"

lemma strings_of_texts [simp]: "strings_of (map JStr ts) = ts"
  by (induction ts) simp_all

lemma task_reads_field:
  assumes "jget data f = Some v"
  shows "field_reads env db f v (keep_known_list db (task_from_data env i data now))"
  using assms
  unfolding field_reads_def reads_text_def
  by (intro conjI impI allI)
    (auto simp: keep_known_list_def task_from_data_def nullable_string_def required_string_def string_field_def
      bool_field_def date_field_def tags_from_data_def or_else_def nstatus_parse_def
      is_object_def)

lemma field_reads_other: "f \<notin> set (mutable_fields ''task'') \<Longrightarrow> field_reads env db f v t"
  by (auto simp: mutable_fields_def field_reads_def)

lemma mutable_not_kept:
  "f \<in> set (mutable_fields ''task'') \<Longrightarrow> f \<notin> {''id'', ''updatedAt'', ''createdAt'', ''deletedAt''}"
  by (auto simp: mutable_fields_def)

text \<open>C29. An edit made while the answer was under way is not lost: after applying an answer that
  changes a task, each of its fourteen editable fields reads as the last of the operations still
  pending for the task that sets it says (\<open>last_edit\<close>, \<open>field_reads\<close>), whatever the answer says of
  that field.\<close>

theorem pending_edit_survives:
  assumes "apply_server_result env r db = Inr db'" and "c \<in> set (sr_changes r)" and "sc_entity c = ''task''"
  shows "\<exists>t. task_by_id db' (sc_entity_id c) = Some t \<and>
    (\<forall>f v. last_edit f v (pending_for_entity db' ''task'' (sc_entity_id c)) \<longrightarrow> field_reads env db' f v t)"
proof -
  let ?i = "sc_entity_id c"
  from answered_task [OF assms] obtain now where
    t: "task_by_id db' ?i = Some (keep_known_list db' (task_from_data env ?i (projected db' ''task'' ?i now) now))"
    by blast
  have "field_reads env db' f v (keep_known_list db' (task_from_data env ?i (projected db' ''task'' ?i now) now))"
    if "last_edit f v (pending_for_entity db' ''task'' ?i)" for f v
  proof (cases "f \<in> set (mutable_fields ''task'')")
    case True
    show ?thesis unfolding projected_def
      by (rule task_reads_field [OF replay_last_edit [OF that True mutable_not_kept [OF True]]])
  qed (rule field_reads_other)
  with t show ?thesis by blast
qed

section \<open>Answers the store always refuses\<close>

lemma jsorted_distinct: "jsorted m \<Longrightarrow> distinct (map fst m)"
  unfolding jsorted_def jkeys_def by (metis strict_sorted_iff)

lemma jsorted_camelize: "jsorted (camelize_object env m)"
  unfolding camelize_object_def
proof -
  have "jsorted (fold (\<lambda>(k, v). jput (snake_to_camel env k) v) m a)" if "jsorted a" for a
    using that by (induction m arbitrary: a) (auto simp: jsorted_jput)
  then show "jsorted (fold (\<lambda>(k, v). jput (snake_to_camel env k) v) m [])" by (simp add: jsorted_def jkeys_def)
qed

lemma merged_get:
  assumes "jsorted patch"
  shows "jget (fold (\<lambda>(k, v). jput k v) patch []) k = jget patch k"
  using jmap.get_puts_distinct [OF jsorted_distinct [OF assms], of "[]" k]
  by (simp add: jget_def [of patch] split: option.splits)

lemma apply_acks_by_id:
  "list_by_id (snd (apply_acks as db)) i = list_by_id db i" "task_by_id (snd (apply_acks as db)) i = task_by_id db i"
  "shadow_data (snd (apply_acks as db)) e i = shadow_data db e i"
  by (simp_all add: list_by_id_def task_by_id_def shadow_data_def apply_acks_rest)

text \<open>An answer fails when its first change does.\<close>

lemma first_change_fails:
  assumes "assert_sync_session db (sr_session_id r) = Inr ()" and "sr_changes r = c # cs"
    and "apply_server_change env c (snd (apply_acks (sr_acks r) db)) = Inl e"
  shows "apply_server_result env r db = Inl e"
  using assms by (simp add: apply_server_result_def split_beta Let_def)

text \<open>A change that creates an entity the store has neither in its table nor in the shadow.\<close>

lemma apply_create:
  assumes "sc_kind c = ''create''" and "sc_patch c = JObj m"
    and "shadow_data db (sc_entity c) (sc_entity_id c) = []"
    and "row_exists (sc_entity c) (sc_entity_id c) db = Inr False"
  shows "\<exists>db1 merged. (\<forall>k. jget merged k = jget (camelize_object env m) k) \<and>
    nd_lists db1 = nd_lists db \<and> nd_tasks db1 = nd_tasks db \<and> nd_plans db1 = nd_plans db \<and>
    apply_server_change env c db =
      (if sc_entity c = ''task'' then materialize_task (sc_entity_id c) merged (ne_now env (nd_tick db)) db1
       else if sc_entity c = ''list'' then materialize_list (sc_entity_id c) merged (ne_now env (nd_tick db)) db1
       else if sc_entity c = ''step'' then materialize_step (sc_entity_id c) merged (ne_now env (nd_tick db)) db1
       else materialize_day_plan (sc_entity_id c) merged (ne_now env (nd_tick db)) db1)"
proof -
  let ?now = "ne_now env (nd_tick db)" and ?patch = "camelize_object env m"
  let ?merged = "fold (\<lambda>(k, v). jput k v) ?patch []"
  let ?db = "upsert_shadow (sc_entity c) (sc_entity_id c) (sc_server_seq c) ?merged (db\<lparr>nd_tick := nd_tick db + 1\<rparr>)"
  have "shadow_data (db\<lparr>nd_tick := nd_tick db + 1\<rparr>) (sc_entity c) (sc_entity_id c) = []"
    using assms(3) by (simp add: shadow_data_def)
  moreover have "row_exists (sc_entity c) (sc_entity_id c) ?db = Inr False"
    using assms(4) by (simp add: row_exists_def upsert_shadow_def by_id_defs split: if_splits)
  moreover have "\<forall>k. jget ?merged k = jget ?patch k" by (simp add: merged_get jsorted_camelize)
  ultimately have run: "apply_server_change env c db =
      apply_materialized_change (sc_entity c) (sc_entity_id c) ''create'' ?patch ?merged ?now ?db"
    and get: "\<forall>k. jget ?merged k = jget ?patch k"
    and absent: "row_exists (sc_entity c) (sc_entity_id c) ?db = Inr False"
    using assms(1,2) by (simp_all add: apply_server_change_def change_object_def normalize_change_def native_now_def Let_def)
  have "apply_materialized_change e i ''create'' p mg now d =
      (if e = ''task'' then materialize_task i mg now d else if e = ''list'' then materialize_list i mg now d
       else if e = ''step'' then materialize_step i mg now d else materialize_day_plan i mg now d)"
    if "row_exists e i d = Inr False" for e i p mg now d
    using that by (simp add: apply_materialized_change_def)
  with run absent get show ?thesis
    by (intro exI [of _ ?db] exI [of _ ?merged]) (simp only: run, simp add: upsert_shadow_def)
qed

text \<open>An answer whose first change creates a task in a list that was deleted on this device
  is refused, whatever else it carries: the error is NotFound, nothing of the answer is applied,
  and the same answer is refused again, so the cursor cannot move past the change.\<close>

theorem deleted_list_blocks_answer:
  assumes "assert_sync_session db (sr_session_id r) = Inr ()"
    and "sr_changes r = c # cs" and "sc_entity c = ''task''" and "sc_kind c = ''create''" and "sc_patch c = JObj m"
    and "task_by_id db (sc_entity_id c) = None" and "shadow_data db ''task'' (sc_entity_id c) = []"
    and "jget (camelize_object env m) ''listId'' = Some (JStr l)" and "trim l \<noteq> []" and "length l \<le> 128"
    and "list_by_id db l = Some tlist" and "tl_deleted_at tlist \<noteq> None"
  shows "apply_server_result env r db = Inl SE_NotFound"
proof (rule first_change_fails [OF assms(1,2)])
  let ?db = "snd (apply_acks (sr_acks r) db)"
  have "row_exists ''task'' (sc_entity_id c) ?db = Inr False"
    using assms(6) by (simp add: row_exists_def apply_acks_by_id)
  then obtain db1 merged where db1: "\<forall>k. jget merged k = jget (camelize_object env m) k"
    "nd_lists db1 = nd_lists ?db"
    "apply_server_change env c ?db = materialize_task (sc_entity_id c) merged (ne_now env (nd_tick ?db)) db1"
    using apply_create [OF assms(4,5), of ?db env] assms(3,7) by (auto simp: apply_acks_by_id)
  have "list_by_id db1 l = list_by_id ?db l" using db1(2) by (simp add: list_by_id_def)
  then have "nensure_active_list db1 l = Inl SE_NotFound"
    using assms(9-12) by (simp add: nensure_active_list_def validate_non_empty_id_def apply_acks_by_id)
  then show "apply_server_change env c ?db = Inl SE_NotFound"
    using db1 assms(8) by (simp add: materialize_task_def optional_text_value_def)
qed

text \<open>The same for the second constraint of day plans: another local plan holds the slot.\<close>

lemma taken_slot_blocks_answer:
  assumes "assert_sync_session db (sr_session_id r) = Inr ()"
    and "sr_changes r = c # cs" and "sc_entity c = ''day_plan''" and "sc_kind c = ''create''" and "sc_patch c = JObj m"
    and "shadow_data db ''day_plan'' (sc_entity_id c) = []"
    and "jget (camelize_object env m) ''taskId'' = Some (JStr t)"
    and "jget (camelize_object env m) ''localDate'' = Some (JStr date)"
    and "jget (camelize_object env m) ''deletedAt'' = None"
    and "d \<in> set (nd_plans db)" and "plan_slot_of d = (t, date)"
    and "lookup_row d_id (nd_plans db) (sc_entity_id c) = None"
  shows "apply_server_result env r db = Inl SE_Database"
proof (rule first_change_fails [OF assms(1,2)])
  let ?db = "snd (apply_acks (sr_acks r) db)"
  have "row_exists ''day_plan'' (sc_entity_id c) ?db = Inr False"
    using assms(12) by (simp add: row_exists_def apply_acks_rest)
  then obtain db1 merged where db1: "\<forall>k. jget merged k = jget (camelize_object env m) k"
    "nd_plans db1 = nd_plans ?db"
    "apply_server_change env c ?db = materialize_day_plan (sc_entity_id c) merged (ne_now env (nd_tick ?db)) db1"
    using apply_create [OF assms(4,5), of ?db env] assms(3,6) by (auto simp: apply_acks_by_id)
  have "lookup_row plan_slot_of (nd_plans db) (t, date) \<noteq> None"
    using assms(10,11) by (metis image_eqI lookup_row_None)
  then show "apply_server_change env c ?db = Inl SE_Database"
    using db1 assms(7-9,12)
    by (simp add: materialize_day_plan_def optional_text_value_def ninsert_day_plan_def plan_slot_of_def apply_acks_rest)
qed

end
