(* ===== verification/NativeMergeFacts.thy ===== *)
theory NativeMergeFacts
  imports NativeRebase
begin

text \<open>
  Joining an account: what the merge of local and cloud rows decides, and that the operations
  it logs take the account's copy to the merged rows.
\<close>

section \<open>The decision\<close>

text \<open>
  Last writer wins, except that a local deletion always does: the row a merge keeps for an id,
  from the cloud's row and the local one.
\<close>

definition winner ::
  "('r \<Rightarrow> string option) \<Rightarrow> ('r \<Rightarrow> string) \<Rightarrow> ('r \<Rightarrow> bool) \<Rightarrow> 'r option \<Rightarrow> 'r option \<Rightarrow> 'r option" where
  "winner deleted updated yields server row =
     (case (server, row) of
        (_, None) \<Rightarrow> server
      | (None, Some r) \<Rightarrow> if deleted r = None \<and> \<not> yields r then Some r else None
      | (Some s, Some r) \<Rightarrow>
          if deleted r \<noteq> None \<or> later_than (updated r) (updated s) then Some r else Some s)"

fun op_lives :: "prepared_op list \<Rightarrow> (string \<times> string \<Rightarrow> life) \<Rightarrow> (string \<times> string \<Rightarrow> life) option" where
  "op_lives [] f = Some f"
| "op_lives (p # ps) f =
     (case parse_kind (po_kind p) of
        None \<Rightarrow> None
      | Some k \<Rightarrow>
          (case life_step k (f (po_entity p, po_entity_id p)) of
             None \<Rightarrow> None
           | Some l \<Rightarrow> op_lives ps (f((po_entity p, po_entity_id p) := l))))"

lemma op_lives_append: "op_lives (ps @ qs) f = Option.bind (op_lives ps f) (op_lives qs)"
  by (induction ps arbitrary: f) (auto split: option.splits)

lemma op_lives_log:
  assumes "map (\<lambda>r. (ob_entity r, ob_entity_id r, ob_kind r)) rs =
    map (\<lambda>p. (po_entity p, po_entity_id p, po_kind p)) ps"
  shows "log_life rs f = op_lives ps f"
  using assms
proof (induction rs arbitrary: ps f)
  case (Cons r rs)
  then obtain p qs where "ps = p # qs" by (cases ps) auto
  with Cons show ?case by (auto simp: fun_upd_def split: option.splits)
qed simp

text \<open>The lives of one entity's table, inside all lives.\<close>

definition table_lives ::
  "string \<Rightarrow> ('r \<Rightarrow> string option) \<Rightarrow> ('r \<Rightarrow> string) \<Rightarrow> 'r list \<Rightarrow> (string \<times> string \<Rightarrow> life) \<Rightarrow> (string \<times> string \<Rightarrow> life)" where
  "table_lives e deleted key rows f =
     (\<lambda>(e', i). if e' = e then life_of deleted (lookup_row key rows i) else f (e', i))"

lemma table_lives_upsert:
  "table_lives e deleted key (upsert_row key r rows) f =
     (table_lives e deleted key rows f)((e, key r) := life_of deleted (Some r))"
  by (auto simp: table_lives_def fun_eq_iff lookup_row_upsert)

lemma merge_row_step:
  assumes "merge_row e key deleted updated to_value yields remote r (merged, ops) = (merged', ops')"
    and "lookup_row key merged (key r) = lookup_row key remote (key r)"
    and "op_lives ops f = Some (table_lives e deleted key merged f)"
  shows "op_lives ops' f = Some (table_lives e deleted key merged' f)"
    and "lookup_row key merged' i =
      (if i = key r then winner deleted updated yields (lookup_row key remote i) (Some r) else lookup_row key merged i)"
proof -
  have life: "table_lives e deleted key merged f (e, key r) = life_of deleted (lookup_row key remote (key r))"
    by (simp add: table_lives_def assms(2))
  show "op_lives ops' f = Some (table_lives e deleted key merged' f)"
    using assms(1,3) life
    by (cases "lookup_row key remote (key r)")
      (auto simp: merge_row_def Let_def op_lives_append table_lives_upsert life_of_def split: if_splits)
  show "lookup_row key merged' i =
      (if i = key r then winner deleted updated yields (lookup_row key remote i) (Some r) else lookup_row key merged i)"
    using assms(1,2)
    by (cases "lookup_row key remote (key r)")
      (auto simp: merge_row_def Let_def winner_def lookup_row_upsert split: if_splits)
qed

lemma merge_fold:
  assumes "fold (merge_row e key deleted updated to_value yields remote) rows (merged, ops) = (merged', ops')"
    and "pk key rows" and "\<forall>r \<in> set rows. lookup_row key merged (key r) = lookup_row key remote (key r)"
    and "op_lives ops f = Some (table_lives e deleted key merged f)"
  shows "op_lives ops' f = Some (table_lives e deleted key merged' f) \<and>
    (\<forall>i. lookup_row key merged' i = (case lookup_row key rows i of
       None \<Rightarrow> lookup_row key merged i
     | Some r \<Rightarrow> winner deleted updated yields (lookup_row key remote i) (Some r)))"
  using assms
proof (induction rows arbitrary: merged ops)
  case (Cons r rows)
  obtain m1 o1 where step: "merge_row e key deleted updated to_value yields remote r (merged, ops) = (m1, o1)"
    by (cases "merge_row e key deleted updated to_value yields remote r (merged, ops)")
  have "lookup_row key merged (key r) = lookup_row key remote (key r)" using Cons.prems(3) by simp
  note one = merge_row_step [OF step this Cons.prems(4)]
  have fresh: "lookup_row key rows (key r) = None" and "pk key rows"
    using Cons.prems(2) by (auto simp: pk_def lookup_row_None)
  moreover from fresh have "\<forall>r' \<in> set rows. key r' \<noteq> key r" by (metis imageI lookup_row_None)
  ultimately have "op_lives ops' f = Some (table_lives e deleted key merged' f) \<and>
    (\<forall>i. lookup_row key merged' i = (case lookup_row key rows i of
       None \<Rightarrow> lookup_row key m1 i
     | Some r \<Rightarrow> winner deleted updated yields (lookup_row key remote i) (Some r)))"
    using Cons.prems(1,3) step one by (intro Cons.IH) auto
  with one(2) fresh show ?case by (auto split: option.splits)
qed simp

lemma merge_rows_decides:
  assumes "merge_rows e key deleted updated to_value yields remote rows = (merged, ops)" and "pk key rows"
  shows "lookup_row key merged i = winner deleted updated yields (lookup_row key remote i) (lookup_row key rows i)"
    and "op_lives ops (table_lives e deleted key remote f) = Some (table_lives e deleted key merged f)"
proof -
  have idem: "table_lives e deleted key t (table_lives e deleted key u f) = table_lives e deleted key t f" for t u
    by (auto simp: table_lives_def fun_eq_iff)
  note all = merge_fold [OF assms(1) [unfolded merge_rows_def] assms(2), of "table_lives e deleted key remote f",
      simplified idem op_lives.simps]
  then show "op_lives ops (table_lives e deleted key remote f) = Some (table_lives e deleted key merged f)" by simp
  from all show "lookup_row key merged i = winner deleted updated yields (lookup_row key remote i) (lookup_row key rows i)"
    by (auto simp: winner_def split: option.splits)
qed

section \<open>The whole snapshot\<close>

text \<open>The lives of all entities in four tables.\<close>

definition rows_lives :: "merged_rows \<Rightarrow> string \<times> string \<Rightarrow> life" where
  "rows_lives rows =
     table_lives ''day_plan'' d_deleted_at d_id (mr_plans rows)
      (table_lives ''step'' s_deleted_at s_id (mr_steps rows)
       (table_lives ''task'' t_deleted_at t_id (mr_tasks rows)
        (table_lives ''list'' tl_deleted_at tl_id (mr_lists rows) (\<lambda>_. Absent))))"

lemma table_lives_commute:
  "e \<noteq> e' \<Longrightarrow> table_lives e d k rows (table_lives e' d' k' rows' f) = table_lives e' d' k' rows' (table_lives e d k rows f)"
  by (auto simp: table_lives_def fun_eq_iff)

lemma merge_snapshot_lives:
  assumes "merge_snapshot s db = (rows, ops)" and "ntables_ok db"
  shows "op_lives ops (rows_lives (rows_of_snapshot s)) = Some (rows_lives rows)"
proof -
  from assms(1) obtain ls lo ts to ss so ds do where
    m: "merge_lists s (nd_lists db) = (ls, lo)" "merge_tasks s (nd_tasks db) = (ts, to)"
      "merge_steps s (nd_steps db) = (ss, so)" "merge_plans s (nd_plans db) = (ds, do)"
    and rows: "rows = \<lparr>mr_lists = ls, mr_tasks = ts, mr_steps = ss, mr_plans = ds\<rparr>" "ops = lo @ to @ so @ do"
    by (auto simp: merge_snapshot_def split: prod.splits)
  have pks: "pk tl_id (nd_lists db)" "pk t_id (nd_tasks db)" "pk s_id (nd_steps db)" "pk d_id (nd_plans db)"
    using assms(2) by (simp_all add: ntables_ok_def)
  note ops = merge_rows_decides(2) [OF m(1) [unfolded merge_lists_def] pks(1)]
    merge_rows_decides(2) [OF m(2) [unfolded merge_tasks_def] pks(2)]
    merge_rows_decides(2) [OF m(3) [unfolded merge_steps_def] pks(3)]
    merge_rows_decides(2) [OF m(4) [unfolded merge_plans_def] pks(4)]
  let ?L = "table_lives ''list'' tl_deleted_at tl_id" and ?T = "table_lives ''task'' t_deleted_at t_id"
    and ?S = "table_lives ''step'' s_deleted_at s_id" and ?D = "table_lives ''day_plan'' d_deleted_at d_id"
  let ?r = "rows_of_snapshot s"
  have swap: "rows_lives ?r = ?L (mr_lists ?r) (?D (mr_plans ?r) (?S (mr_steps ?r) (?T (mr_tasks ?r) (\<lambda>_. Absent))))"
    "?L ls (?D pr (?S sr (?T tr (\<lambda>_. Absent)))) = ?T tr (?L ls (?D pr (?S sr (\<lambda>_. Absent))))"
    "?T ts (?L ls (?D pr (?S sr (\<lambda>_. Absent)))) = ?S sr (?T ts (?L ls (?D pr (\<lambda>_. Absent))))"
    "?S ss (?T ts (?L ls (?D pr (\<lambda>_. Absent)))) = ?D pr (?S ss (?T ts (?L ls (\<lambda>_. Absent))))" for pr sr tr
    by (auto simp: rows_lives_def table_lives_def fun_eq_iff)
  have "op_lives lo (rows_lives ?r) =
      Some (?T (mr_tasks ?r) (?L ls (?D (mr_plans ?r) (?S (mr_steps ?r) (\<lambda>_. Absent)))))"
    using ops(1) unfolding swap(1) swap(2) [symmetric] by (simp add: rows_of_snapshot_def)
  moreover have "op_lives to (?T (mr_tasks ?r) (?L ls (?D (mr_plans ?r) (?S (mr_steps ?r) (\<lambda>_. Absent))))) =
      Some (?S (mr_steps ?r) (?T ts (?L ls (?D (mr_plans ?r) (\<lambda>_. Absent)))))"
    using ops(2) unfolding swap(3) [symmetric] by (simp add: rows_of_snapshot_def)
  moreover have "op_lives so (?S (mr_steps ?r) (?T ts (?L ls (?D (mr_plans ?r) (\<lambda>_. Absent))))) =
      Some (?D (mr_plans ?r) (?S ss (?T ts (?L ls (\<lambda>_. Absent)))))"
    using ops(3) unfolding swap(4) [symmetric] by (simp add: rows_of_snapshot_def)
  moreover have "op_lives do (?D (mr_plans ?r) (?S ss (?T ts (?L ls (\<lambda>_. Absent))))) = Some (rows_lives rows)"
    using ops(4) by (simp add: rows_of_snapshot_def rows_lives_def rows(1))
  ultimately show ?thesis by (simp add: rows(2) op_lives_append)
qed

lemma lookup_row_map: "lookup_row key (row_map key rows) k = lookup_row key (rev rows) k"
proof -
  have "lookup_row key (fold (upsert_row key) rows acc) k =
      (case lookup_row key (rev rows) k of None \<Rightarrow> lookup_row key acc k | Some r \<Rightarrow> Some r)" for acc
    by (induction rows arbitrary: acc) (auto simp: lookup_row_append lookup_row_upsert split: option.splits)
  then show ?thesis by (simp add: row_map_def split: option.splits)
qed

section \<open>What the merge sends\<close>

text \<open>
  Independently of the code of the merge: the kind of operation a local row is sent as, given the
  account's row of its id, and the fields it carries, each editable one with its value. A row the
  account does not have is created unless it is deleted or gives way; a local deletion is sent
  unless the account's row is deleted; a later edit is a patch, of a deleted row a restore.
\<close>

definition op_sent ::
  "('r \<Rightarrow> string option) \<Rightarrow> ('r \<Rightarrow> string) \<Rightarrow> ('r \<Rightarrow> bool) \<Rightarrow> 'r option \<Rightarrow> 'r \<Rightarrow> string option" where
  "op_sent deleted updated yields server r =
     (case server of
        None \<Rightarrow> if deleted r = None \<and> \<not> yields r then Some ''create'' else None
      | Some s \<Rightarrow>
          if deleted r \<noteq> None then (if deleted s = None then Some ''delete'' else None)
          else if later_than (updated r) (updated s)
          then Some (if deleted s = None then ''patch'' else ''restore'') else None)"

type_synonym sent_op = "string \<times> string \<times> string \<times> (string \<times> json) list"

definition ops_sent ::
  "string \<Rightarrow> ('r \<Rightarrow> string) \<Rightarrow> ('r \<Rightarrow> string option) \<Rightarrow> ('r \<Rightarrow> string) \<Rightarrow> ('r \<Rightarrow> bool) \<Rightarrow>
   ('r \<Rightarrow> (string \<times> json) list) \<Rightarrow> 'r list \<Rightarrow> 'r list \<Rightarrow> sent_op list" where
  "ops_sent e key deleted updated yields edits remote rows = concat (map (\<lambda>r.
     case op_sent deleted updated yields (lookup_row key (rev remote) (key r)) r of
       None \<Rightarrow> []
     | Some k \<Rightarrow> [(e, key r, k, if k = ''delete'' then [] else edits r)]) rows)"

definition list_edits :: "task_list \<Rightarrow> (string \<times> json) list" where
  "list_edits l = [(''name'', JStr (tl_name l)), (''color'', jopt JStr (tl_color l)),
     (''icon'', jopt JStr (tl_icon l)), (''rank'', JStr (tl_rank l))]"

definition task_edits :: "task \<Rightarrow> (string \<times> json) list" where
  "task_edits t = [(''listId'', jopt JStr (t_list_id t)), (''title'', JStr (t_title t)),
     (''note'', JStr (t_note t)), (''tags'', JArr (map JStr (t_tags t))),
     (''status'', JStr (if t_status t = NOpen then ''open'' else ''completed'')),
     (''important'', JBool (t_important t)), (''dueOn'', jopt JStr (t_due_on t)),
     (''remindAt'', jopt JStr (t_remind_at t)), (''remindTimezone'', jopt JStr (t_remind_timezone t)),
     (''rank'', JStr (t_rank t)), (''seriesId'', jopt JStr (t_series_id t)),
     (''occurrenceKey'', jopt JStr (t_occurrence_key t)), (''recurrence'', jopt (\<lambda>r. r) (t_recurrence t)),
     (''completedAt'', jopt JStr (t_completed_at t))]"

definition step_edits :: "step \<Rightarrow> (string \<times> json) list" where
  "step_edits s = [(''taskId'', JStr (s_task_id s)), (''title'', JStr (s_title s)),
     (''isCompleted'', JBool (s_is_completed s)), (''rank'', JStr (s_rank s))]"

definition plan_edits :: "day_plan \<Rightarrow> (string \<times> json) list" where
  "plan_edits d = [(''taskId'', JStr (d_task_id d)), (''localDate'', JStr (d_local_date d)),
     (''rank'', JStr (d_rank d))]"

text \<open>All of them, lists first; a day plan gives way to the account's plan of its slot.\<close>

definition slot_lost :: "day_plan list \<Rightarrow> day_plan \<Rightarrow> bool" where
  "slot_lost plans d \<longleftrightarrow> (case find (\<lambda>r. d_task_id r = d_task_id d \<and> d_local_date r = d_local_date d) (rev plans) of
     None \<Rightarrow> False | Some r \<Rightarrow> d_id r \<noteq> d_id d)"

definition merge_sends :: "cloud_snapshot \<Rightarrow> native_db \<Rightarrow> sent_op list" where
  "merge_sends s db =
     ops_sent ''list'' tl_id tl_deleted_at tl_updated_at (\<lambda>_. False) list_edits (cs_lists s) (nd_lists db) @
     ops_sent ''task'' t_id t_deleted_at t_updated_at (\<lambda>_. False) task_edits (cs_tasks s) (nd_tasks db) @
     ops_sent ''step'' s_id s_deleted_at s_updated_at (\<lambda>_. False) step_edits (cs_steps s) (nd_steps db) @
     ops_sent ''day_plan'' d_id d_deleted_at d_updated_at (slot_lost (cs_plans s)) plan_edits
       (cs_plans s) (nd_plans db)"

definition says :: "sent_op \<Rightarrow> string \<times> string \<times> string \<times> json \<Rightarrow> bool" where
  "says op logged = (case (op, logged) of ((e, i, k, carried), (e', i', k', patch)) \<Rightarrow>
     e' = e \<and> i' = i \<and> k' = k \<and> (\<exists>m. patch = JObj m \<and> (\<forall>f. jget m f = map_of carried f)))"

definition op_of_prepared :: "prepared_op \<Rightarrow> string \<times> string \<times> string \<times> json" where
  "op_of_prepared p = (po_entity p, po_entity_id p, po_kind p, po_patch p)"

lemma full_patch_fields:
  assumes "distinct (map fst ps)" and "filter (\<lambda>p. fst p \<in> set (mutable_fields e)) ps = es"
  shows "\<exists>m. full_patch e (jobj ps) = JObj m \<and> (\<forall>f. jget m f = map_of es f)"
proof -
  have "jget (fold (\<lambda>(k, v). jput k v) ps []) f = map_of ps f" for f
    using jmap.get_puts_distinct [OF assms(1), of "[]" f] by (simp split: option.splits)
  moreover have "(if f \<in> set (mutable_fields e) \<and> map_of ps f \<noteq> None then map_of ps f else None) = map_of es f" for f
    unfolding assms(2) [symmetric] by (induction ps) auto
  ultimately have "jget (copy_fields (fold (\<lambda>(k, v). jput k v) ps []) (mutable_fields e) []) f = map_of es f" for f
    unfolding jget_copy_fields by (metis jget_Nil)
  then show ?thesis by (simp add: full_patch_def jobj_def)
qed

lemma full_patch_edits:
  "\<exists>m. full_patch ''list'' (list_to_value l) = JObj m \<and> (\<forall>f. jget m f = map_of (list_edits l) f)"
  "\<exists>m. full_patch ''task'' (task_to_value t) = JObj m \<and> (\<forall>f. jget m f = map_of (task_edits t) f)"
  "\<exists>m. full_patch ''step'' (step_to_value st) = JObj m \<and> (\<forall>f. jget m f = map_of (step_edits st) f)"
  "\<exists>m. full_patch ''day_plan'' (day_plan_to_value d) = JObj m \<and> (\<forall>f. jget m f = map_of (plan_edits d) f)"
  unfolding list_to_value_def task_to_value_def step_to_value_def day_plan_to_value_def
  by (rule full_patch_fields; simp add: list_edits_def task_edits_def step_edits_def plan_edits_def
      mutable_fields_def; cases "t_status t"; simp)+

lemma merge_row_sends:
  assumes "\<exists>m. full_patch e (to_value r) = JObj m \<and> (\<forall>f. jget m f = map_of (edits r) f)"
  shows "\<exists>new. snd (merge_row e key deleted updated to_value yields remote r st) = snd st @ new \<and>
    list_all2 says (case op_sent deleted updated yields (lookup_row key remote (key r)) r of
       None \<Rightarrow> [] | Some k \<Rightarrow> [(e, key r, k, if k = ''delete'' then [] else edits r)])
     (map op_of_prepared new)"
  using assms
  by (cases st; cases "lookup_row key remote (key r)")
    (auto simp: merge_row_def op_sent_def Let_def says_def op_of_prepared_def jget_def)

lemma merge_rows_send:
  assumes "\<And>r. \<exists>m. full_patch e (to_value r) = JObj m \<and> (\<forall>f. jget m f = map_of (edits r) f)"
  shows "list_all2 says (ops_sent e key deleted updated yields edits remote rows)
    (map op_of_prepared (snd (merge_rows e key deleted updated to_value yields (row_map key remote) rows)))"
proof -
  have "\<exists>new. snd (fold (merge_row e key deleted updated to_value yields (row_map key remote)) rows st) = snd st @ new \<and>
      list_all2 says (ops_sent e key deleted updated yields edits remote rows) (map op_of_prepared new)" for st
  proof (induction rows arbitrary: st)
    case (Cons r rows)
    let ?st = "merge_row e key deleted updated to_value yields (row_map key remote) r st"
    from merge_row_sends [of e to_value r edits key deleted updated yields "row_map key remote" st, OF assms]
    obtain new1 where one: "snd ?st = snd st @ new1" "list_all2 says
        (case op_sent deleted updated yields (lookup_row key (rev remote) (key r)) r of
           None \<Rightarrow> [] | Some k \<Rightarrow> [(e, key r, k, if k = ''delete'' then [] else edits r)]) (map op_of_prepared new1)"
      unfolding lookup_row_map by blast
    from Cons.IH [of ?st] obtain new2 where two: "snd (fold (merge_row e key deleted updated to_value yields
        (row_map key remote)) rows ?st) = snd ?st @ new2"
      "list_all2 says (ops_sent e key deleted updated yields edits remote rows) (map op_of_prepared new2)"
      by blast
    show ?case
      using list_all2_appendI [OF one(2) two(2)] one(1) two(1)
      by (intro exI [of _ "new1 @ new2"]) (simp add: ops_sent_def)
  qed (simp add: ops_sent_def)
  from this [of "(row_map key remote, [])"] show ?thesis by (simp add: merge_rows_def)
qed

lemma slot_lost_iff: "remote_wins_slot plans = slot_lost plans"
  by (auto simp: fun_eq_iff remote_wins_slot_def slot_owner_def slot_lost_def lookup_row_def plan_slot_of_def
      split: option.splits)

lemma merge_snapshot_sends:
  assumes "merge_snapshot s db = (rows, ops)"
  shows "list_all2 says (merge_sends s db) (map op_of_prepared ops)"
proof -
  have "ops = snd (merge_lists s (nd_lists db)) @ snd (merge_tasks s (nd_tasks db)) @
      snd (merge_steps s (nd_steps db)) @ snd (merge_plans s (nd_plans db))"
    using assms by (auto simp: merge_snapshot_def split: prod.splits)
  then show ?thesis
    unfolding merge_sends_def merge_lists_def merge_tasks_def merge_steps_def merge_plans_def slot_lost_iff
    by (simp only: map_append) (intro list_all2_appendI merge_rows_send full_patch_edits)
qed

section \<open>The operations logged\<close>

text \<open>An operation appended to a numbered outbox takes the next number and the device's status.\<close>

lemma append_mutation_next:
  assumes "append_mutation env e i k p db = Inr db'" and "counter db = Some (d, c)" and "0 \<le> c" and "c < I64_MAX"
    and "\<forall>r \<in> set (nd_outbox db). ob_device_id r = d \<longrightarrow> ob_client_seq r \<le> c"
  shows "\<exists>r. nd_outbox db' = nd_outbox db @ [r] \<and> (ob_entity r, ob_entity_id r, ob_kind r) = (e, i, k) \<and>
    ob_patch r = p \<and> ob_client_seq r = c + 1 \<and> ob_device_id r = d \<and>
    ob_status r = (if nd_kv db ''sync_enabled'' = Some ''true'' then ''pending'' else ''local'') \<and>
    counter db' = Some (d, c + 1) \<and> nd_kv db' ''sync_enabled'' = nd_kv db ''sync_enabled'' \<and>
    nd_lists db' = nd_lists db \<and> nd_tasks db' = nd_tasks db \<and> nd_steps db' = nd_steps db \<and>
    nd_plans db' = nd_plans db \<and> nd_shadow db' = nd_shadow db"
proof -
  from assms(2) obtain s where dev: "nd_kv db ''device_id'' = Some d" "nd_kv db ''client_seq'' = Some s"
      "parse_i64 s = Some c"
    by (auto simp: counter_def split: option.splits)
  have "max_outbox_seq (nd_outbox db) d \<le> c" using assms(3,5) by (intro max_outbox_seq_le)
  then have n: "saturating_add1 (max c (max_outbox_seq (nd_outbox db) d)) = c + 1"
    using assms(4) by (simp add: saturating_add1_def)
  have "parse_i64 (show_int (c + 1)) = Some (c + 1)"
    using assms(3,4) by (intro parse_i64_show_int) (auto simp: I64_MIN_def)
  with assms(1) dev n show ?thesis
    by (auto simp: append_mutation_def and_then_eq_Inr ok_or_eq_Inr Let_def native_uuid_def
        native_now_def fail_if_eq_Inr counter_def)
qed

lemma append_all:
  assumes "try_fold (append_prepared env) ps db = Inr db'" and "counter db = Some (d, c)" and "0 \<le> c"
    and "c + int (length ps) \<le> I64_MAX" and "\<forall>r \<in> set (nd_outbox db). ob_device_id r = d \<longrightarrow> ob_client_seq r \<le> c"
    and "nd_kv db ''sync_enabled'' = Some ''true''"
  shows "\<exists>new. nd_outbox db' = nd_outbox db @ new \<and>
    map (\<lambda>r. (ob_entity r, ob_entity_id r, ob_kind r)) new = map (\<lambda>p. (po_entity p, po_entity_id p, po_kind p)) ps \<and>
    map ob_patch new = map po_patch ps \<and>
    map ob_client_seq new = [c + 1 .. c + int (length ps)] \<and> (\<forall>r \<in> set new. ob_status r = ''pending'') \<and>
    nd_lists db' = nd_lists db \<and> nd_tasks db' = nd_tasks db \<and> nd_steps db' = nd_steps db \<and>
    nd_plans db' = nd_plans db \<and> nd_shadow db' = nd_shadow db"
  using assms
proof (induction ps arbitrary: db c)
  case (Cons p ps)
  from Cons.prems(1) obtain db1 where db1: "append_prepared env p db = Inr db1"
    and rest: "try_fold (append_prepared env) ps db1 = Inr db'"
    by (auto simp: and_then_eq_Inr)
  from append_mutation_next [OF db1 [unfolded append_prepared_def] Cons.prems(2,3) _ Cons.prems(5)] Cons.prems(4,6)
  obtain r where r: "nd_outbox db1 = nd_outbox db @ [r]"
    "(ob_entity r, ob_entity_id r, ob_kind r) = (po_entity p, po_entity_id p, po_kind p)" "ob_patch r = po_patch p"
    "ob_client_seq r = c + 1" "ob_status r = ''pending''" "counter db1 = Some (d, c + 1)"
    "nd_kv db1 ''sync_enabled'' = Some ''true''"
    and same: "nd_lists db1 = nd_lists db" "nd_tasks db1 = nd_tasks db" "nd_steps db1 = nd_steps db"
      "nd_plans db1 = nd_plans db" "nd_shadow db1 = nd_shadow db"
    by auto
  have "\<forall>r \<in> set (nd_outbox db1). ob_device_id r = d \<longrightarrow> ob_client_seq r \<le> c + 1"
    using Cons.prems(5) r(1,4) by fastforce
  with Cons.IH [OF rest r(6)] Cons.prems(3,4) r(7) obtain new where new: "nd_outbox db' = nd_outbox db1 @ new"
    "map (\<lambda>r. (ob_entity r, ob_entity_id r, ob_kind r)) new = map (\<lambda>p. (po_entity p, po_entity_id p, po_kind p)) ps"
    "map ob_patch new = map po_patch ps"
    "map ob_client_seq new = [c + 1 + 1 .. c + 1 + int (length ps)]" "\<forall>r \<in> set new. ob_status r = ''pending''"
    and same': "nd_lists db' = nd_lists db1" "nd_tasks db' = nd_tasks db1" "nd_steps db' = nd_steps db1"
      "nd_plans db' = nd_plans db1" "nd_shadow db' = nd_shadow db1"
    by auto
  have "[c + 1 .. c + int (length (p # ps))] = (c + 1) # [c + 1 + 1 .. c + 1 + int (length ps)]"
    by (subst upto_rec1) (auto simp: algebra_simps)
  with r new same same' show ?case by (intro exI [of _ "r # new"]) auto
qed simp

section \<open>The tables written\<close>

lemma fold_upsert_fresh: "pk key (acc @ rows) \<Longrightarrow> fold (upsert_row key) rows acc = acc @ rows"
proof (induction rows arbitrary: acc)
  case (Cons r rows)
  then have "upsert_row key r acc = acc @ [r]" by (auto simp: upsert_row_def pk_def lookup_row_None)
  with Cons.IH [of "acc @ [r]"] Cons.prems show ?case by simp
qed simp

lemma pk_fold_upsert: "pk key acc \<Longrightarrow> pk key (fold (upsert_row key) rows acc)"
  by (induction rows arbitrary: acc) (simp_all add: pk_upsert)

lemma pk_row_map: "pk key (row_map key rows)"
  unfolding row_map_def by (rule pk_fold_upsert) (simp add: pk_def)

lemma pk_merge_rows:
  assumes "pk key remote"
  shows "pk key (fst (merge_rows e key deleted updated to_value yields remote rows))"
proof -
  have "pk key (fst (fold (merge_row e key deleted updated to_value yields remote) rows st))" if "pk key (fst st)" for st
    using that
  proof (induction rows arbitrary: st)
    case (Cons r rows)
    have "pk key (fst (merge_row e key deleted updated to_value yields remote r st))"
      using Cons.prems by (cases st) (auto simp: merge_row_def Let_def pk_upsert split: option.splits)
    with Cons.IH show ?case by simp
  qed simp
  then show ?thesis using assms by (simp add: merge_rows_def)
qed

lemma upsert_lists_run:
  "try_fold upsert_list_row ls db = Inr db' \<Longrightarrow>
     nd_lists db' = fold (upsert_row tl_id) ls (nd_lists db) \<and> nd_tasks db' = nd_tasks db \<and> same_books db db'"
  by (induction ls arbitrary: db) (fastforce simp: upsert_list_row_def same_books_def)+

lemma upsert_tasks_run:
  "try_fold upsert_task_row ts db = Inr db' \<Longrightarrow>
     nd_tasks db' = fold (upsert_row t_id) ts (nd_tasks db) \<and> nd_lists db' = nd_lists db \<and> same_books db db'"
  by (induction ts arbitrary: db) (fastforce simp: upsert_task_row_def same_books_def and_then_eq_Inr)+

definition same_but_children :: "native_db \<Rightarrow> native_db \<Rightarrow> bool" where
  "same_but_children db db' \<longleftrightarrow> nd_lists db' = nd_lists db \<and> nd_tasks db' = nd_tasks db \<and> same_books db db'"

lemma write_children:
  assumes "try_fold write_step_if_task ss db = Inr db1" and "try_fold write_plan_if_task ds db1 = Inr db2"
  shows "same_but_children db db2"
proof -
  have "same_but_children db db1"
    using assms(1) by (rule try_fold_invariant)
      (auto simp: write_step_if_task_def upsert_step_row_def and_then_eq_Inr same_but_children_def same_books_def split: if_splits)
  with assms(2) show ?thesis
    by (rule try_fold_invariant)
      (auto simp: write_plan_if_task_def upsert_day_plan_row_def and_then_eq_Inr same_but_children_def same_books_def split: if_splits)
qed

lemma write_materialized_tables:
  assumes "write_materialized ls ts ss ds db = Inr db'" and "pk tl_id ls" and "pk t_id ts"
  shows "nd_lists db' = ls" and "nd_tasks db' = ts" and "same_books db db'"
proof -
  from assms(1) obtain db1 db2 db3 where run: "try_fold upsert_list_row ls (clear_materialized db) = Inr db1"
    "try_fold upsert_task_row ts db1 = Inr db2" "try_fold write_step_if_task ss db2 = Inr db3"
    "try_fold write_plan_if_task ds db3 = Inr db'"
    by (auto simp: write_materialized_def and_then_eq_Inr)
  have "fold (upsert_row tl_id) ls [] = ls" "fold (upsert_row t_id) ts [] = ts"
    using assms(2,3) by (simp_all add: fold_upsert_fresh)
  with upsert_lists_run [OF run(1)] upsert_tasks_run [OF run(2)] write_children [OF run(3,4)]
  show "nd_lists db' = ls" and "nd_tasks db' = ts" and "same_books db db'"
    by (simp_all add: clear_materialized_def same_but_children_def same_books_def)
qed

lemma shadow_fold_tables:
  "nd_lists (fold (\<lambda>x. upsert_shadow e (k x) v (f x)) xs db) = nd_lists db"
  "nd_tasks (fold (\<lambda>x. upsert_shadow e (k x) v (f x)) xs db) = nd_tasks db"
  "nd_outbox (fold (\<lambda>x. upsert_shadow e (k x) v (f x)) xs db) = nd_outbox db"
  "nd_kv (fold (\<lambda>x. upsert_shadow e (k x) v (f x)) xs db) = nd_kv db"
  by (induction xs arbitrary: db) (simp_all add: upsert_shadow_def)

lemma write_shadow_tables:
  "nd_lists (write_shadow_snapshot s db) = nd_lists db" "nd_tasks (write_shadow_snapshot s db) = nd_tasks db"
  "nd_outbox (write_shadow_snapshot s db) = nd_outbox db" "nd_kv (write_shadow_snapshot s db) = nd_kv db"
  by (simp_all add: write_shadow_snapshot_def Let_def shadow_fold_tables)

text \<open>C31. Joining an account with local data keeps, for every list and every task, the row the
  decision \<open>winner\<close> names (the later writer, a local deletion always, a local row the account
  does not have unless it is deleted); and the operations it leaves in the outbox are pending,
  numbered from 1, are exactly those the local rows call for, lists before tasks before steps
  before day plans (\<open>merge_sends\<close>: a create, patch or restore carries every editable field of the
  row with its value), and take the lives of the account's rows exactly to those of the merged
  rows, each step one the server's machine accepts.\<close>

theorem cloud_merge_decides:
  assumes "sync_initialize_cloud env req db = Inr (n, db')" and "ci_mode req = MergeLocal" and "ntables_ok db"
    and "nd_kv db ''device_id'' = Some d" and "int n \<le> I64_MAX"
  shows "(\<forall>i. list_by_id db' i = winner tl_deleted_at tl_updated_at (\<lambda>_. False)
        (lookup_row tl_id (rev (cs_lists (ci_snapshot req))) i) (list_by_id db i)) \<and>
    (\<forall>i. task_by_id db' i = winner t_deleted_at t_updated_at (\<lambda>_. False)
        (lookup_row t_id (rev (cs_tasks (ci_snapshot req))) i) (task_by_id db i)) \<and>
    map ob_client_seq (nd_outbox db') = [1 .. int n] \<and> (\<forall>r \<in> set (nd_outbox db'). ob_status r = ''pending'') \<and>
    list_all2 says (merge_sends (ci_snapshot req) db)
      (map (\<lambda>r. (ob_entity r, ob_entity_id r, ob_kind r, ob_patch r)) (nd_outbox db')) \<and>
    log_life (nd_outbox db') (rows_lives (rows_of_snapshot (ci_snapshot req))) =
      Some (rows_lives (fst (merge_snapshot (ci_snapshot req) db)))"
proof -
  let ?s = "ci_snapshot req"
  obtain rows ops where merge: "merge_snapshot ?s db = (rows, ops)" by fastforce
  from assms(1,2) merge obtain db1 and db2 :: native_db where
    wrote: "write_materialized (mr_lists rows) (mr_tasks rows) (mr_steps rows) (mr_plans rows)
        (db\<lparr>nd_outbox := [], nd_shadow := []\<rparr>) = Inr db1"
    and logged: "try_fold (append_prepared env) ops
        (kv_set ''sync_enabled'' ''true'' (kv_set ''client_seq'' ''0'' (write_shadow_snapshot ?s db1))) = Inr db2"
    and db': "nd_lists db' = nd_lists db2" "nd_tasks db' = nd_tasks db2" "nd_outbox db' = nd_outbox db2"
    and n: "n = length ops"
    by (auto simp: sync_initialize_cloud_def and_then_eq_Inr Let_def kv_delete_def split: option.splits)
  from merge obtain lo to where parts: "merge_lists ?s (nd_lists db) = (mr_lists rows, lo)"
      "merge_tasks ?s (nd_tasks db) = (mr_tasks rows, to)"
    by (auto simp: merge_snapshot_def split: prod.splits)
  have pks: "pk tl_id (mr_lists rows)" "pk t_id (mr_tasks rows)"
    using parts pk_merge_rows [OF pk_row_map] unfolding merge_lists_def merge_tasks_def by (metis fst_conv)+
  note tables = write_materialized_tables [OF wrote pks]
  let ?db = "kv_set ''sync_enabled'' ''true'' (kv_set ''client_seq'' ''0'' (write_shadow_snapshot ?s db1))"
  have "parse_i64 ''0'' = Some 0" by code_simp
  then have "counter ?db = Some (d, 0)" "nd_outbox ?db = []"
    using tables(3) assms(4) by (simp_all add: counter_def write_shadow_tables same_books_def)
  with append_all [OF logged] assms(5) n obtain new where new: "nd_outbox db2 = new"
    "map (\<lambda>r. (ob_entity r, ob_entity_id r, ob_kind r)) new = map (\<lambda>p. (po_entity p, po_entity_id p, po_kind p)) ops"
    "map ob_client_seq new = [1 .. int n]" "\<forall>r \<in> set new. ob_status r = ''pending''" "map ob_patch new = map po_patch ops"
    and same: "nd_lists db2 = mr_lists rows" "nd_tasks db2 = mr_tasks rows"
    using tables by (auto simp: write_shadow_tables)
  have "map (\<lambda>r. (ob_entity r, ob_entity_id r, ob_kind r, ob_patch r)) new = map op_of_prepared ops"
    using new(2,5)
  proof (induction new arbitrary: ops)
    case (Cons r new)
    then show ?case by (cases ops) (auto simp: op_of_prepared_def)
  qed simp
  then have "list_all2 says (merge_sends ?s db) (map (\<lambda>r. (ob_entity r, ob_entity_id r, ob_kind r, ob_patch r)) new)"
    using merge_snapshot_sends [OF merge] by simp
  moreover have "log_life new (rows_lives (rows_of_snapshot ?s)) = Some (rows_lives rows)"
    using op_lives_log [OF new(2)] merge_snapshot_lives [OF merge assms(3)] by simp
  moreover have "pk tl_id (nd_lists db)" "pk t_id (nd_tasks db)" using assms(3) by (simp_all add: ntables_ok_def)
  ultimately show ?thesis
    using new same db' merge
      merge_rows_decides(1) [OF parts(1) [unfolded merge_lists_def]]
      merge_rows_decides(1) [OF parts(2) [unfolded merge_tasks_def]]
    by (simp add: by_id_defs lookup_row_map)
qed

end
