(* ===== verification/NativeImportFacts.thy ===== *)
theory NativeImportFacts
  imports NativeMergeFacts
begin

text \<open>
  Export and import: a backup taken of one store and imported over another gives the same
  tables. The four import loops (lists, tasks, steps, day plans) share one contract, the
  locale \<open>row_import\<close>.
\<close>

section \<open>Appending to the outbox never fails\<close>

text \<open>The outbox is numbered up to \<open>c\<close>, and its ids were drawn before.\<close>

definition log_ready :: "native_env \<Rightarrow> string \<Rightarrow> int \<Rightarrow> native_db \<Rightarrow> bool" where
  "log_ready env d c db \<longleftrightarrow>
     counter db = Some (d, c) \<and> 0 \<le> c \<and>
     (\<forall>r \<in> set (nd_outbox db). ob_device_id r = d \<longrightarrow> ob_client_seq r \<le> c) \<and>
     (\<forall>r \<in> set (nd_outbox db). \<exists>k < nd_tick db. ob_op_id r = ne_uuid env k)"

definition tables :: "native_db \<Rightarrow> task_list list \<times> task list \<times> step list \<times> day_plan list" where
  "tables db = (nd_lists db, nd_tasks db, nd_steps db, nd_plans db)"

lemma append_succeeds:
  assumes "log_ready env d c db" and "c < I64_MAX" and "inj (ne_uuid env)"
  shows "\<exists>db'. append_mutation env e i k p db = Inr db' \<and> log_ready env d (c + 1) db' \<and> tables db' = tables db \<and>
    (\<exists>r. nd_outbox db' = nd_outbox db @ [r] \<and> (ob_entity r, ob_entity_id r, ob_kind r) = (e, i, k) \<and> ob_patch r = p)"
proof -
  from assms(1) obtain s where dev: "nd_kv db ''device_id'' = Some d" "nd_kv db ''client_seq'' = Some s"
      "parse_i64 s = Some c" and c: "0 \<le> c"
    and seqs: "\<forall>r \<in> set (nd_outbox db). ob_device_id r = d \<longrightarrow> ob_client_seq r \<le> c"
    and ids: "\<forall>r \<in> set (nd_outbox db). \<exists>k < nd_tick db. ob_op_id r = ne_uuid env k"
    by (auto simp: log_ready_def counter_def split: option.splits)
  have "max_outbox_seq (nd_outbox db) d \<le> c" using seqs c by (intro max_outbox_seq_le)
  then have n: "saturating_add1 (max c (max_outbox_seq (nd_outbox db) d)) = c + 1"
    using assms(2) by (simp add: saturating_add1_def)
  have num: "parse_i64 (show_int (c + 1)) = Some (c + 1)"
    using c assms(2) by (intro parse_i64_show_int) (auto simp: I64_MIN_def)
  have "ob_op_id r \<noteq> ne_uuid env (nd_tick db)" if "r \<in> set (nd_outbox db)" for r
    using ids that assms(3) by (metis injD less_irrefl)
  with seqs have fresh: "\<not> list_ex (\<lambda>r. ob_op_id r = ne_uuid env (nd_tick db) \<or>
      (ob_device_id r = d \<and> ob_client_seq r = c + 1)) (nd_outbox db)"
    by (fastforce simp: list_ex_iff)
  show ?thesis
    using dev n num fresh c seqs ids
    by (auto simp: append_mutation_def Let_def native_uuid_def native_now_def log_ready_def counter_def tables_def
        fail_if_def less_Suc_eq intro: exI [of _ "nd_tick db"] less_SucI)
qed

section \<open>One import loop\<close>

text \<open>
  The contract: \<open>f\<close> imports one row into the table that \<open>get\<close> and \<open>put\<close> access. When the
  table stays well-formed and the row's references exist, it adds the row and logs a create.
\<close>

locale row_import =
  fixes env :: native_env
    and f :: "'r \<Rightarrow> native_db \<Rightarrow> store_error + native_db"
    and get :: "native_db \<Rightarrow> 'r list" and put :: "'r list \<Rightarrow> native_db \<Rightarrow> native_db"
    and wf :: "'r list \<Rightarrow> bool" and ref :: "'r \<Rightarrow> native_db \<Rightarrow> bool"
    and entity :: string and key :: "'r \<Rightarrow> string" and to_value :: "'r \<Rightarrow> json"
  assumes import_row: "wf (get db @ [r]) \<Longrightarrow> ref r db \<Longrightarrow>
      f r db = append_mutation env entity (key r) ''create'' (to_value r) (put (get db @ [r]) db)"
    and get_put: "get (put rs db) = rs"
    and get_tables: "tables db = tables db' \<Longrightarrow> get db = get db'"
    and put_tables: "tables db = tables db' \<Longrightarrow> tables (put rs db) = tables (put rs db')"
    and put_put: "tables (put rs (put rs' db)) = tables (put rs db)"
    and put_same: "put (get db) db = db"
    and put_ready: "log_ready env d c (put rs db) = log_ready env d c db"
    and put_outbox: "nd_outbox (put rs db) = nd_outbox db"
    and ref_put: "ref r (put rs db) = ref r db"
    and ref_tables: "tables db = tables db' \<Longrightarrow> ref r db = ref r db'"
    and wf_prefix: "wf (rs @ rs') \<Longrightarrow> wf rs"
begin

lemma import_rows:
  assumes "wf (get db @ rs)" and "\<forall>r \<in> set rs. ref r db" and "log_ready env d c db"
    and "c + int (length rs) \<le> I64_MAX" and "inj (ne_uuid env)"
  shows "\<exists>db' new. try_fold f rs db = Inr db' \<and> tables db' = tables (put (get db @ rs) db) \<and>
    log_ready env d (c + int (length rs)) db' \<and> nd_outbox db' = nd_outbox db @ new \<and>
    map (\<lambda>r. (ob_entity r, ob_entity_id r, ob_kind r, ob_patch r)) new =
      map (\<lambda>r. (entity, key r, ''create'', to_value r)) rs"
  using assms
proof (induction rs arbitrary: db c)
  case Nil
  then show ?case by (simp add: put_same)
next
  case (Cons r rs)
  let ?db = "put (get db @ [r]) db"
  have "wf (get db @ [r])" using Cons.prems(1) wf_prefix [of "get db @ [r]" rs] by simp
  then have run: "f r db = append_mutation env entity (key r) ''create'' (to_value r) ?db"
    using Cons.prems(2) by (intro import_row) simp_all
  have "log_ready env d c ?db" using Cons.prems(3) by (simp add: put_ready)
  from append_succeeds [OF this _ Cons.prems(5)] Cons.prems(4)
  obtain db1 x where db1: "append_mutation env entity (key r) ''create'' (to_value r) ?db = Inr db1"
    "log_ready env d (c + 1) db1" "tables db1 = tables ?db" "nd_outbox db1 = nd_outbox db @ [x]"
    "(ob_entity x, ob_entity_id x, ob_kind x) = (entity, key r, ''create'')" "ob_patch x = to_value r"
    by (force simp: put_outbox)
  have get1: "get db1 = get db @ [r]" using get_tables [OF db1(3)] by (simp add: get_put)
  have "\<forall>r \<in> set rs. ref r db1" using Cons.prems(2) ref_tables [OF db1(3)] by (simp add: ref_put)
  with Cons.IH [of db1 "c + 1"] Cons.prems(1,4,5) get1 db1(2) obtain db' new where
    db': "try_fold f rs db1 = Inr db'" "tables db' = tables (put (get db1 @ rs) db1)"
    "log_ready env d (c + 1 + int (length rs)) db'" "nd_outbox db' = nd_outbox db1 @ new"
    "map (\<lambda>r. (ob_entity r, ob_entity_id r, ob_kind r, ob_patch r)) new =
      map (\<lambda>r. (entity, key r, ''create'', to_value r)) rs"
    by auto
  have "tables db' = tables (put (get db @ r # rs) db)"
    using db'(2) get1 put_tables [OF db1(3), of "get db @ r # rs"] by (simp add: put_put)
  then show ?case
    using run db1(1,4,5,6) db'(1,3,4,5)
    by (intro exI [of _ db'] exI [of _ "x # new"]) (auto simp: algebra_simps)
qed

end

lemma log_ready_tables [simp]:
  "log_ready env d c (db\<lparr>nd_lists := a\<rparr>) = log_ready env d c db"
  "log_ready env d c (db\<lparr>nd_tasks := b\<rparr>) = log_ready env d c db"
  "log_ready env d c (db\<lparr>nd_steps := x\<rparr>) = log_ready env d c db"
  "log_ready env d c (db\<lparr>nd_plans := y\<rparr>) = log_ready env d c db"
  by (simp_all add: log_ready_def counter_def)

lemma pk_fresh:
  assumes "pk key (rows @ [r])"
  shows "lookup_row key rows (key r) = None" and "upsert_row key r rows = rows @ [r]"
  using assms by (simp_all add: pk_append_one upsert_row_def)

lemma pk_prefix: "pk key (rs @ rs') \<Longrightarrow> pk key rs"
  by (simp add: pk_def)

definition plans_wf :: "day_plan list \<Rightarrow> bool" where
  "plans_wf ds \<longleftrightarrow> pk d_id ds \<and> pk plan_slot_of ds"

lemma plans_wf_free:
  assumes "plans_wf (nd_plans db @ [d])"
  shows "\<not> slot_taken d db" and "lookup_row d_id (nd_plans db) (d_id d) = None"
proof -
  have "plan_slot_of d \<notin> plan_slot_of ` set (nd_plans db)" and "d_id d \<notin> d_id ` set (nd_plans db)"
    using assms by (auto simp: plans_wf_def pk_def)
  then show "\<not> slot_taken d db" and "lookup_row d_id (nd_plans db) (d_id d) = None"
    by (simp_all add: slot_taken_def list_ex_iff lookup_row_None) (metis imageI)
qed

text \<open>A task as the import writes it: its tags normalised.\<close>

definition task_importable :: "native_env \<Rightarrow> task \<Rightarrow> bool" where
  "task_importable env t \<longleftrightarrow>
     nnormalize_tags (ne_lower env) (t_tags t) = Inr (t_tags t) \<and> (\<exists>s. clean_title (t_title t) = Inr s)"

interpretation list_import: row_import env "import_list env" nd_lists "\<lambda>rs db. db\<lparr>nd_lists := rs\<rparr>"
  "pk tl_id" "\<lambda>_ _. True" "''list''" tl_id list_to_value for env
  by unfold_locales
    (auto simp: import_list_def upsert_list_row_def by_id_defs pk_fresh import_kind_def tables_def dest: pk_prefix)

interpretation task_import: row_import env "import_task env" nd_tasks "\<lambda>rs db. db\<lparr>nd_tasks := rs\<rparr>"
  "pk t_id" "\<lambda>t db. list_ref db (t_list_id t) \<and> task_importable env t" "''task''" t_id task_to_value for env
  by unfold_locales
    (auto simp: import_task_def upsert_task_row_def by_id_defs list_ref_def pk_fresh import_kind_def tables_def
      task_importable_def Let_def dest: pk_prefix split: option.splits)

interpretation step_import: row_import env "import_step env" nd_steps "\<lambda>rs db. db\<lparr>nd_steps := rs\<rparr>"
  "pk s_id" "\<lambda>s db. task_by_id db (s_task_id s) \<noteq> None" "''step''" s_id step_to_value for env
  by unfold_locales
    (auto simp: import_step_def upsert_step_row_def by_id_defs pk_fresh import_kind_def tables_def dest: pk_prefix)

interpretation plan_import: row_import env "import_day_plan env" nd_plans "\<lambda>rs db. db\<lparr>nd_plans := rs\<rparr>"
  plans_wf "\<lambda>d db. task_by_id db (d_task_id d) \<noteq> None" "''day_plan''" d_id day_plan_to_value for env
  by unfold_locales
    (auto simp: import_day_plan_def upsert_day_plan_row_def upsert_row_def by_id_defs plans_wf_free import_kind_def
      tables_def plans_wf_def dest: pk_prefix)

section \<open>The round trip\<close>

interpretation export_step_order: key_comparison compare_export_steps "\<lambda>s. (s_task_id s, s_rank s, s_created_at s)"
  by unfold_locales (auto simp: compare_export_steps_def then_with_def cmp_str_def less_prod_def)

interpretation export_plan_order: key_comparison compare_export_plans "\<lambda>d. (d_local_date d, d_rank d)"
  by unfold_locales (auto simp: compare_export_plans_def then_with_def cmp_str_def less_prod_def)

text \<open>A store whose rows pass the checks of the import.\<close>

definition exportable :: "native_env \<Rightarrow> native_db \<Rightarrow> bool" where
  "exportable env db \<longleftrightarrow>
     (\<forall>l \<in> set (nd_lists db). \<exists>s. clean_list_name (tl_name l) = Inr s) \<and>
     (\<forall>t \<in> set (nd_tasks db). task_importable env t)"

lemma pk_mset: "mset xs = mset ys \<Longrightarrow> pk key xs = pk key ys"
  unfolding pk_def by (rule mset_eq_imp_distinct_iff) simp

lemma check_all: "(\<forall>x \<in> set xs. \<exists>s. f x = Inr s) \<Longrightarrow> try_fold (\<lambda>x _. and_then (f x) (\<lambda>_. Inr ())) xs () = Inr ()"
  by (induction xs) auto

text \<open>What one loop logs, as triples.\<close>

definition creates :: "string \<Rightarrow> string list \<Rightarrow> (string \<times> string \<times> string) list" where
  "creates e is = map (\<lambda>i. (e, i, ''create'')) is"

definition triples :: "outbox_row list \<Rightarrow> (string \<times> string \<times> string) list" where
  "triples rs = map (\<lambda>r. (ob_entity r, ob_entity_id r, ob_kind r)) rs"

lemma triples_creates:
  assumes "map (\<lambda>r. (ob_entity r, ob_entity_id r, ob_kind r, ob_patch r)) n = map (\<lambda>r. (e, key r, ''create'', v r)) rs"
  shows "triples n = creates e (map key rs)"
  using arg_cong [OF assms, of "map (\<lambda>(a, b, c, d). (a, b, c))"] by (simp add: triples_def creates_def comp_def)

text \<open>The four loops, one after the other, on empty tables.\<close>

lemma import_loops:
  assumes ready: "log_ready env d c db" and empty: "tables db = ([], [], [], [])" "nd_outbox db = []"
    and inj: "inj (ne_uuid env)" and room: "c + int (length ls + length ts + length ss + length ds) \<le> I64_MAX"
    and keys: "pk tl_id ls" "pk t_id ts" "pk s_id ss" "plans_wf ds"
    and refs: "\<forall>t \<in> set ts. task_importable env t \<and> (\<forall>l. t_list_id t = Some l \<longrightarrow> l \<in> tl_id ` set ls)"
      "\<forall>s \<in> set ss. s_task_id s \<in> t_id ` set ts" "\<forall>p \<in> set ds. d_task_id p \<in> t_id ` set ts"
  shows "\<exists>db1 db2 db3 db4. try_fold (import_list env) ls db = Inr db1 \<and> try_fold (import_task env) ts db1 = Inr db2 \<and>
    try_fold (import_step env) ss db2 = Inr db3 \<and> try_fold (import_day_plan env) ds db3 = Inr db4 \<and>
    tables db4 = (ls, ts, ss, ds) \<and>
    triples (nd_outbox db4) = creates ''list'' (map tl_id ls) @ creates ''task'' (map t_id ts) @
      creates ''step'' (map s_id ss) @ creates ''day_plan'' (map d_id ds)"
proof -
  from ready list_import.import_rows [of db ls env d c] keys(1) inj room obtain db1 n1 where
    l: "try_fold (import_list env) ls db = Inr db1" "tables db1 = (ls, [], [], [])"
      "log_ready env d (c + int (length ls)) db1" "nd_outbox db1 = n1"
      "map (\<lambda>r. (ob_entity r, ob_entity_id r, ob_kind r, ob_patch r)) n1 =
        map (\<lambda>r. (''list'', tl_id r, ''create'', list_to_value r)) ls"
    using empty by (auto simp: tables_def)
  have "\<forall>t \<in> set ts. list_ref db1 (t_list_id t) \<and> task_importable env t"
    using refs(1) l(2) by (fastforce simp: list_ref_def by_id_defs tables_def lookup_row_None split: option.splits)
  with task_import.import_rows [of db1 ts env d "c + int (length ls)"] keys(2) inj room l obtain db2 n2 where
    t: "try_fold (import_task env) ts db1 = Inr db2" "tables db2 = (ls, ts, [], [])"
      "log_ready env d (c + int (length ls) + int (length ts)) db2" "nd_outbox db2 = n1 @ n2"
      "map (\<lambda>r. (ob_entity r, ob_entity_id r, ob_kind r, ob_patch r)) n2 =
        map (\<lambda>r. (''task'', t_id r, ''create'', task_to_value r)) ts"
    by (auto simp: tables_def)
  have "\<forall>s \<in> set ss. task_by_id db2 (s_task_id s) \<noteq> None"
    using refs(2) t(2) by (auto simp: by_id_defs tables_def lookup_row_None)
  with step_import.import_rows [of db2 ss env d "c + int (length ls) + int (length ts)"] keys(3) inj room t
  obtain db3 n3 where
    s: "try_fold (import_step env) ss db2 = Inr db3" "tables db3 = (ls, ts, ss, [])"
      "log_ready env d (c + int (length ls) + int (length ts) + int (length ss)) db3" "nd_outbox db3 = n1 @ n2 @ n3"
      "map (\<lambda>r. (ob_entity r, ob_entity_id r, ob_kind r, ob_patch r)) n3 =
        map (\<lambda>r. (''step'', s_id r, ''create'', step_to_value r)) ss"
    by (auto simp: tables_def)
  have "\<forall>p \<in> set ds. task_by_id db3 (d_task_id p) \<noteq> None"
    using refs(3) s(2) by (auto simp: by_id_defs tables_def lookup_row_None)
  with plan_import.import_rows [of db3 ds env d "c + int (length ls) + int (length ts) + int (length ss)"]
    keys(4) inj room s
  obtain db4 n4 where
    p: "try_fold (import_day_plan env) ds db3 = Inr db4" "tables db4 = (ls, ts, ss, ds)" "nd_outbox db4 = n1 @ n2 @ n3 @ n4"
      "map (\<lambda>r. (ob_entity r, ob_entity_id r, ob_kind r, ob_patch r)) n4 =
        map (\<lambda>r. (''day_plan'', d_id r, ''create'', day_plan_to_value r)) ds"
    by (auto simp: tables_def)
  have "triples (n1 @ n2 @ n3 @ n4) = triples n1 @ triples n2 @ triples n3 @ triples n4" by (simp add: triples_def)
  with l(1) t(1) s(1) p(1,2,3) triples_creates [OF l(5)] triples_creates [OF t(5)] triples_creates [OF s(5)]
    triples_creates [OF p(4)]
  show ?thesis by auto
qed

text \<open>C32. A backup restores: importing an export of a well-formed store over any store, in
  replace mode, succeeds and leaves exactly the rows of the exported store (in the export's
  order); everything the importing store had is gone, and its outbox holds one create per row,
  lists before tasks before steps before day plans.\<close>

theorem import_restores_export:
  assumes "ntables_ok db" and "exportable env db" and "inj (ne_uuid env)"
    and "log_ready env d c (db0\<lparr>nd_outbox := []\<rparr>)"
    and "c + int (length (nd_lists db) + length (nd_tasks db) + length (nd_steps db) + length (nd_plans db)) \<le> I64_MAX"
  shows "\<exists>db'. import_data env (fst (export_data env db)) ImportReplace db0 = Inr db' \<and>
    mset (nd_lists db') = mset (nd_lists db) \<and> mset (nd_tasks db') = mset (nd_tasks db) \<and>
    mset (nd_steps db') = mset (nd_steps db) \<and> mset (nd_plans db') = mset (nd_plans db) \<and>
    triples (nd_outbox db') = creates ''list'' (map tl_id (nd_lists db')) @ creates ''task'' (map t_id (nd_tasks db')) @
      creates ''step'' (map s_id (nd_steps db')) @ creates ''day_plan'' (map d_id (nd_plans db'))"
proof -
  define ls ts ss ds where "ls = sort_by compare_lists (nd_lists db)" and "ts = sort_by compare_tasks (nd_tasks db)"
    and "ss = sort_by compare_export_steps (nd_steps db)" and "ds = sort_by compare_export_plans (nd_plans db)"
  have msets: "mset ls = mset (nd_lists db)" "mset ts = mset (nd_tasks db)" "mset ss = mset (nd_steps db)"
      "mset ds = mset (nd_plans db)"
    by (simp_all add: ls_def ts_def ss_def ds_def list_order.sort_by_mset task_order.sort_by_mset
        export_step_order.sort_by_mset export_plan_order.sort_by_mset)
  then have sets: "set ls = set (nd_lists db)" "set ts = set (nd_tasks db)" "set ss = set (nd_steps db)"
      "set ds = set (nd_plans db)"
    and lens: "length ls = length (nd_lists db)" "length ts = length (nd_tasks db)" "length ss = length (nd_steps db)"
      "length ds = length (nd_plans db)"
    by (metis set_mset_mset size_mset)+
  have keys: "pk tl_id ls" "pk t_id ts" "pk s_id ss" "plans_wf ds"
    using assms(1) by (simp_all add: ntables_ok_def plans_wf_def pk_mset [OF msets(1)] pk_mset [OF msets(2)]
        pk_mset [OF msets(3)] pk_mset [OF msets(4)])
  let ?db = "(clear_materialized db0)\<lparr>nd_outbox := [], nd_shadow := []\<rparr>"
  have "log_ready env d c ?db" using assms(4) by (simp add: log_ready_def counter_def clear_materialized_def)
  moreover have "tables ?db = ([], [], [], [])" by (simp add: tables_def clear_materialized_def)
  moreover have "\<forall>t \<in> set ts. task_importable env t \<and> (\<forall>l. t_list_id t = Some l \<longrightarrow> l \<in> tl_id ` set ls)"
      "\<forall>s \<in> set ss. s_task_id s \<in> t_id ` set ts" "\<forall>p \<in> set ds. d_task_id p \<in> t_id ` set ts"
    using assms(1,2) sets by (auto simp: ntables_ok_def exportable_def)
  ultimately obtain db1 db2 db3 db4 where run: "try_fold (import_list env) ls ?db = Inr db1"
    "try_fold (import_task env) ts db1 = Inr db2" "try_fold (import_step env) ss db2 = Inr db3"
    "try_fold (import_day_plan env) ds db3 = Inr db4" and res: "tables db4 = (ls, ts, ss, ds)"
    "triples (nd_outbox db4) = creates ''list'' (map tl_id ls) @ creates ''task'' (map t_id ts) @
      creates ''step'' (map s_id ss) @ creates ''day_plan'' (map d_id ds)"
    using import_loops [of env d c ?db ls ts ss ds] keys assms(3,5) lens by auto
  have checks: "try_fold (\<lambda>l _. and_then (clean_list_name (tl_name l)) (\<lambda>_. Inr ())) ls () = Inr ()"
    "try_fold (\<lambda>t _. and_then (clean_title (t_title t)) (\<lambda>_. Inr ())) ts () = Inr ()"
    using assms(2) sets by (auto intro!: check_all simp: exportable_def task_importable_def)
  have "validate_unique_import_ids (fst (export_data env db)) = Inr ()"
    using keys by (simp add: validate_unique_import_ids_def check_ids_def export_data_def native_now_def pk_def plans_wf_def
        ls_def ts_def ss_def ds_def)
  with checks run have "import_data env (fst (export_data env db)) ImportReplace db0 = Inr db4"
    by (simp add: import_data_def export_data_def native_now_def ls_def ts_def ss_def ds_def)
  then show ?thesis using res msets by (auto simp: tables_def)
qed

end
