(* ===== verification/NativeSyncExamples.thy ===== *)
theory NativeSyncExamples
  imports NativeExamples NativeImportFacts
begin

text \<open>
  The synchronisation properties of the local store, applied: each theorem's hypotheses hold
  on a concrete store and a concrete answer.
\<close>

section \<open>Stores and answers\<close>

definition demo_task :: task where
  "demo_task =
     \<lparr>t_id = ''k'', t_list_id = None, t_title = ''Old'', t_note = [], t_tags = [], t_status = NOpen,
      t_important = False, t_due_on = None, t_remind_at = None, t_remind_timezone = None, t_rank = ''a0'',
      t_series_id = None, t_occurrence_key = None, t_recurrence = None, t_completed_at = None,
      t_created_at = ''T'', t_updated_at = ''T'', t_deleted_at = None\<rparr>"

definition demo_edit :: outbox_row where
  "demo_edit =
     \<lparr>ob_op_id = ''o2'', ob_device_id = ''d'', ob_client_seq = 2, ob_entity = ''task'', ob_entity_id = ''k'',
      ob_kind = ''patch'', ob_patch = JObj [(''title'', JStr ''Mine'')], ob_created_at = ''T'',
      ob_status = ''pending'', ob_error = None\<rparr>"

definition sync_store :: native_db where
  "sync_store =
     store0\<lparr>nd_tasks := [demo_task], nd_outbox := [demo_edit\<lparr>ob_op_id := ''o1'', ob_client_seq := 1\<rparr>, demo_edit],
       nd_kv := (nd_kv store0)(''client_seq'' \<mapsto> ''2'', ''sync_session'' \<mapsto> ''S'')\<rparr>"

definition demo_change :: server_change where
  "demo_change =
     \<lparr>sc_server_seq = 7, sc_op_id = ''x'', sc_entity = ''task'', sc_entity_id = ''k'', sc_kind = ''patch'',
      sc_patch = JObj [(''note'', JStr ''Read''), (''title'', JStr ''Theirs'')]\<rparr>"

definition demo_answer :: server_result where
  "demo_answer =
     \<lparr>sr_acks = [\<lparr>sa_op_id = ''o1'', sa_server_seq = Some 6, sa_status = ''applied'', sa_error_code = None\<rparr>],
      sr_changes = [demo_change], sr_next_cursor = ''7'', sr_session_id = Some ''S''\<rparr>"

definition synced_store :: native_db where
  "synced_store = projr (apply_server_result demo_native demo_answer sync_store)"

lemma demo_answered: "apply_server_result demo_native demo_answer sync_store = Inr synced_store"
proof -
  have "\<not> isl (apply_server_result demo_native demo_answer sync_store)" by code_simp
  then show ?thesis
    by (cases "apply_server_result demo_native demo_answer sync_store") (simp_all add: synced_store_def)
qed

section \<open>The properties, applied\<close>

theorem rotate_device_id_renumbers_witness:
  "\<exists>db'. rotate_device_id demo_native sync_store = Inr (''u'', db') \<and>
     map ob_client_seq (sort_key ob_client_seq (nd_outbox db')) = [1, 2]"
proof -
  have "pk ob_op_id (nd_outbox sync_store)"
    and "ne_uuid demo_native (nd_tick sync_store) \<notin> ob_device_id ` set (nd_outbox sync_store)"
    by code_simp+
  from rotate_device_id_renumbers [OF this]
  have "\<exists>db'. rotate_device_id demo_native sync_store = Inr (ne_uuid demo_native (nd_tick sync_store), db') \<and>
     map ob_client_seq (sort_key ob_client_seq (nd_outbox db')) = [1 .. int (length (nd_outbox sync_store))]"
    by blast
  moreover have "ne_uuid demo_native (nd_tick sync_store) = ''u''"
    "[1 .. int (length (nd_outbox sync_store))] = [1, 2]" by code_simp+
  ultimately show ?thesis by simp
qed

theorem acks_settle_only_what_they_name_witness: "demo_edit \<in> set (nd_outbox synced_store)"
proof -
  have "demo_edit \<in> set (nd_outbox sync_store)" by (simp add: sync_store_def)
  moreover have "\<forall>a \<in> set (sr_acks demo_answer). sa_op_id a \<noteq> ob_op_id demo_edit" by code_simp
  ultimately show ?thesis using acks_settle_only_what_they_name [OF demo_answered] by blast
qed

theorem stale_session_refused_witness:
  "apply_server_result demo_native (demo_answer\<lparr>sr_session_id := Some ''old''\<rparr>) sync_store = Inl SE_StaleSyncSession"
proof -
  have "kv_string sync_store ''sync_session'' \<noteq> Some ''old''" by code_simp
  from stale_session_refused [OF this] show ?thesis by simp
qed


theorem pending_edit_survives_witness: "\<exists>t. task_by_id synced_store ''k'' = Some t \<and> t_title t = ''Mine''"
proof -
  have c: "demo_change \<in> set (sr_changes demo_answer)" "sc_entity demo_change = ''task''"
    "sc_entity_id demo_change = ''k''"
    by (simp_all add: demo_answer_def demo_change_def)
  have "pending_for_entity synced_store ''task'' (sc_entity_id demo_change) = [] @ demo_edit # []"
    and m: "ob_kind demo_edit \<noteq> ''delete''"
      "as_object (ob_patch demo_edit) = Some [(''title'', JStr ''Mine'')]"
      "jget [(''title'', JStr ''Mine'')] ''title'' = Some (JStr ''Mine'')" "trim ''Mine'' \<noteq> []"
    by code_simp+
  then have "last_edit ''title'' (JStr ''Mine'') (pending_for_entity synced_store ''task'' (sc_entity_id demo_change))"
    unfolding last_edit_def by (intro exI [of _ "[]"] exI [of _ demo_edit] exI [of _ "[(''title'', JStr ''Mine'')]"]) simp
  with pending_edit_survives [OF demo_answered c(1,2)] obtain t
    where t: "task_by_id synced_store (sc_entity_id demo_change) = Some t"
      and "field_reads demo_native synced_store ''title'' (JStr ''Mine'') t"
    by blast
  then have "t_title t = ''Mine''" using m(4) by (simp add: field_reads_def)
  with t c(3) show ?thesis by simp
qed

definition list_deleted_store :: native_db where
  "list_deleted_store =
     store0\<lparr>nd_lists := [\<lparr>tl_id = ''l'', tl_name = ''Home'', tl_color = None, tl_icon = None, tl_rank = ''a0'',
       tl_created_at = ''T'', tl_updated_at = ''T'', tl_deleted_at = Some ''T''\<rparr>]\<rparr>"

definition blocked_answer :: server_result where
  "blocked_answer = demo_answer\<lparr>sr_acks := [], sr_session_id := None, sr_changes :=
     [demo_change\<lparr>sc_kind := ''create'', sc_patch := JObj [(''listId'', JStr ''l''), (''title'', JStr ''Theirs'')]\<rparr>]\<rparr>"

theorem deleted_list_blocks_answer_witness:
  "apply_server_result demo_native blocked_answer list_deleted_store = Inl SE_NotFound"
proof (rule deleted_list_blocks_answer)
  show "sr_changes blocked_answer = hd (sr_changes blocked_answer) # []" by (simp add: blocked_answer_def)
  show "list_by_id list_deleted_store ''l'' = Some (hd (nd_lists list_deleted_store))"
    by (simp add: list_deleted_store_def by_id_defs)
qed code_simp+

definition demo_join :: cloud_init where
  "demo_join =
     \<lparr>ci_snapshot = \<lparr>cs_cursor = ''9'', cs_lists = [],
        cs_tasks = [demo_task\<lparr>t_title := ''Cloud'', t_updated_at := ''S''\<rparr>], cs_steps = [], cs_plans = []\<rparr>,
      ci_mode = MergeLocal, ci_email = ''a@b.c'', ci_api_url = None, ci_session_id = None\<rparr>"

theorem cloud_merge_decides_witness:
  "\<exists>n db'. sync_initialize_cloud demo_native demo_join sync_store = Inr (n, db') \<and>
     task_by_id db' ''k'' = Some demo_task \<and> map ob_client_seq (nd_outbox db') = [1 .. int n] \<and>
     list_all2 says (merge_sends (ci_snapshot demo_join) sync_store)
       (map (\<lambda>r. (ob_entity r, ob_entity_id r, ob_kind r, ob_patch r)) (nd_outbox db'))"
proof -
  have ok: "\<not> isl (sync_initialize_cloud demo_native demo_join sync_store)"
    and "int (fst (projr (sync_initialize_cloud demo_native demo_join sync_store))) \<le> I64_MAX"
    by code_simp+
  moreover from ok obtain n db' where run: "sync_initialize_cloud demo_native demo_join sync_store = Inr (n, db')"
    by (metis isl_def old.prod.exhaust old.sum.exhaust)
  ultimately have n: "int n \<le> I64_MAX" by simp
  have "ci_mode demo_join = MergeLocal" "nd_kv sync_store ''device_id'' = Some ''d''"
    by (simp_all add: demo_join_def sync_store_def store0_def)
  moreover have "ntables_ok sync_store"
    by (simp add: ntables_ok_def sync_store_def store0_def pk_def demo_task_def)
  ultimately have "task_by_id db' ''k'' = winner t_deleted_at t_updated_at (\<lambda>_. False)
        (lookup_row t_id (rev (cs_tasks (ci_snapshot demo_join))) ''k'') (task_by_id sync_store ''k'')"
    and "map ob_client_seq (nd_outbox db') = [1 .. int n]"
    and "list_all2 says (merge_sends (ci_snapshot demo_join) sync_store)
       (map (\<lambda>r. (ob_entity r, ob_entity_id r, ob_kind r, ob_patch r)) (nd_outbox db'))"
    using cloud_merge_decides [OF run _ _ _ n] by blast+
  moreover have "winner t_deleted_at t_updated_at (\<lambda>_. False)
        (lookup_row t_id (rev (cs_tasks (ci_snapshot demo_join))) ''k'') (task_by_id sync_store ''k'') = Some demo_task"
    by code_simp
  ultimately show ?thesis using run by auto
qed

theorem import_restores_export_witness:
  "\<exists>db'. import_data demo_native (fst (export_data demo_native sync_store)) ImportReplace store1 = Inr db' \<and>
     mset (nd_tasks db') = mset [demo_task]"
proof -
  have tables: "ntables_ok sync_store"
    by (simp add: ntables_ok_def sync_store_def store0_def pk_def demo_task_def)
  have fine: "exportable demo_native sync_store"
  proof -
    have "nnormalize_tags (ne_lower demo_native) (t_tags demo_task) = Inr (t_tags demo_task)" by code_simp
    moreover have "clean_title (t_title demo_task) = Inr ''Old''" by code_simp
    ultimately show ?thesis by (simp add: exportable_def task_importable_def sync_store_def store0_def)
  qed
  have inj: "inj (ne_uuid demo_native)"
    by (rule injI) (simp add: demo_native_def replicate_eq_replicate)
  have "counter store1 = Some (''d'', 1)" by code_simp
  then have ready: "log_ready demo_native ''d'' 1 (store1\<lparr>nd_outbox := []\<rparr>)"
    by (simp add: log_ready_def counter_def)
  have "1 + int (length (nd_lists sync_store) + length (nd_tasks sync_store) + length (nd_steps sync_store) +
      length (nd_plans sync_store)) \<le> I64_MAX"
    by code_simp
  from import_restores_export [OF tables fine inj ready this] show ?thesis
    by (auto simp: sync_store_def)
qed

end
