(* ===== verification/NativeGate.thy ===== *)
theory NativeGate
  imports Prelude
begin

text \<open>
  \<open>src/apps/native/src-tauri/src/db.rs\<close>, the runtime gate: storage commands take a lease
  through two atomics, and the commands of an account switch (\<open>commands.rs\<close>) close the gate,
  drain it, and move a phase under a mutex. The operations are functions on the gate; the
  threads are a list of program counters, one step for each access to what they share, with
  the timeouts, failures and panics that can come in between. In the end: a switch is
  prepared and requested by one thread at a time, with no lease held.
\<close>

section \<open>The gate\<close>

datatype switch_runtime_phase =
    Runtime_active | Runtime_draining | Runtime_preparing | Runtime_prepared
  | Runtime_drain_failed | Runtime_request_in_progress | Runtime_restart_required | Runtime_failed

datatype gate_error =
    Gate_switch_in_progress | Gate_drain_timeout | Gate_not_prepared | Gate_not_abortable
  | Gate_poisoned

text \<open>The mutex around the phase is here as the thread that holds it, and its poison.\<close>

record runtime_gate =
  gt_accepting :: bool
  gt_in_flight :: nat
  gt_phase :: switch_runtime_phase
  gt_holder :: "nat option"
  gt_poisoned :: bool

definition gate_new :: runtime_gate where
  "gate_new = \<lparr>gt_accepting = True, gt_in_flight = 0, gt_phase = Runtime_active,
     gt_holder = None, gt_poisoned = False\<rparr>"

definition accepts_storage :: "runtime_gate \<Rightarrow> bool" where
  "accepts_storage g = gt_accepting g"

definition fetch_add :: "runtime_gate \<Rightarrow> runtime_gate" where
  "fetch_add g = g\<lparr>gt_in_flight := gt_in_flight g + 1\<rparr>"

definition fetch_sub :: "runtime_gate \<Rightarrow> runtime_gate" where
  "fetch_sub g = g\<lparr>gt_in_flight := gt_in_flight g - 1\<rparr>"

text \<open>\<open>self.control.lock()\<close> by thread \<open>i\<close>, when the mutex is free, and the end of the guard.\<close>

definition gate_lock :: "nat \<Rightarrow> runtime_gate \<Rightarrow> gate_error + runtime_gate" where
  "gate_lock i g = (if gt_poisoned g then Inl Gate_poisoned else Inr (g\<lparr>gt_holder := Some i\<rparr>))"

definition unlock :: "runtime_gate \<Rightarrow> runtime_gate" where
  "unlock g = g\<lparr>gt_holder := None\<rparr>"

section \<open>Operations\<close>

text \<open>\<open>begin_switch\<close> up to its loop; the ways out of the loop: nothing is in flight, or the
  deadline has passed.\<close>

definition begin_switch_start :: "nat \<Rightarrow> runtime_gate \<Rightarrow> gate_error + runtime_gate" where
  "begin_switch_start i g = and_then (gate_lock i g) (\<lambda>g.
     if gt_phase g \<noteq> Runtime_active then Inl Gate_switch_in_progress
     else Inr (g\<lparr>gt_accepting := False, gt_phase := Runtime_draining\<rparr>))"

definition begin_switch_drained :: "runtime_gate \<Rightarrow> runtime_gate" where
  "begin_switch_drained g = unlock (g\<lparr>gt_phase := Runtime_preparing\<rparr>)"

definition begin_switch_timeout :: "runtime_gate \<Rightarrow> runtime_gate" where
  "begin_switch_timeout g = unlock (g\<lparr>gt_phase := Runtime_drain_failed\<rparr>)"

definition prepare_committed :: "runtime_gate \<Rightarrow> runtime_gate" where
  "prepare_committed g =
     (if \<not> gt_poisoned g \<and> gt_phase g = Runtime_preparing
      then g\<lparr>gt_phase := Runtime_prepared\<rparr> else g)"

definition prepare_failed :: "runtime_gate \<Rightarrow> runtime_gate" where
  "prepare_failed g =
     (if \<not> gt_poisoned g \<and> gt_phase g = Runtime_preparing
      then g\<lparr>gt_phase := Runtime_drain_failed\<rparr> else g)"

definition begin_request :: "nat \<Rightarrow> runtime_gate \<Rightarrow> gate_error + runtime_gate" where
  "begin_request i g = and_then (gate_lock i g) (\<lambda>g.
     if gt_phase g \<noteq> Runtime_prepared
     then Inl (if gt_phase g \<in> {Runtime_draining, Runtime_preparing, Runtime_request_in_progress}
       then Gate_switch_in_progress else Gate_not_prepared)
     else Inr (g\<lparr>gt_phase := Runtime_request_in_progress\<rparr>))"

text \<open>The ends of a \<open>SwitchRequestGuard\<close>: marked, or dropped on an early return or a panic.\<close>

definition mark_restart_required :: "runtime_gate \<Rightarrow> runtime_gate" where
  "mark_restart_required g = unlock (g\<lparr>gt_phase := Runtime_restart_required\<rparr>)"

definition mark_failed :: "runtime_gate \<Rightarrow> runtime_gate" where
  "mark_failed g = unlock (g\<lparr>gt_phase := Runtime_failed\<rparr>)"

definition drop_request :: "runtime_gate \<Rightarrow> runtime_gate" where
  "drop_request g = unlock (if gt_phase g = Runtime_request_in_progress
     then g\<lparr>gt_phase := Runtime_failed\<rparr> else g)"

definition begin_abort :: "nat \<Rightarrow> runtime_gate \<Rightarrow> gate_error + runtime_gate" where
  "begin_abort i g = and_then (gate_lock i g) (\<lambda>g.
     if gt_phase g \<in> {Runtime_active, Runtime_prepared, Runtime_drain_failed} then Inr g
     else Inl (if gt_phase g \<in> {Runtime_draining, Runtime_preparing, Runtime_request_in_progress}
       then Gate_switch_in_progress else Gate_not_abortable))"

definition activate_after_abort :: "runtime_gate \<Rightarrow> runtime_gate" where
  "activate_after_abort g = unlock (g\<lparr>gt_phase := Runtime_active, gt_accepting := True\<rparr>)"

definition fail_closed :: "runtime_gate \<Rightarrow> runtime_gate" where
  "fail_closed g = unlock (g\<lparr>gt_phase := Runtime_failed\<rparr>)"

text \<open>A panic while a guard lives poisons the mutex.\<close>

definition poison :: "runtime_gate \<Rightarrow> runtime_gate" where
  "poison g = unlock (g\<lparr>gt_poisoned := True\<rparr>)"

section \<open>Threads\<close>

text \<open>
  Where a thread is: between the two checks of \<open>enter_storage\<close>, before or after it has counted
  itself, holding a lease, in \<open>begin_switch\<close> with or without the mutex, preparing the switch,
  on its way to an abort, or holding the guard of a request or of an abort.
\<close>

datatype gate_task =
    Task_idle | Task_entering | Task_entered | Task_leaving | Task_lease
  | Task_draining | Task_waiting | Task_preparing | Task_abort_wanted
  | Task_requesting | Task_aborting

type_synonym gate_state = "runtime_gate \<times> gate_task list"

inductive gate_step :: "gate_state \<Rightarrow> gate_state \<Rightarrow> bool" where
  enter_first: "i < length ts \<Longrightarrow> ts ! i = Task_idle \<Longrightarrow> accepts_storage g \<Longrightarrow>
    gate_step (g, ts) (g, ts[i := Task_entering])"
| enter_add: "i < length ts \<Longrightarrow> ts ! i = Task_entering \<Longrightarrow>
    gate_step (g, ts) (fetch_add g, ts[i := Task_entered])"
| enter_second: "i < length ts \<Longrightarrow> ts ! i = Task_entered \<Longrightarrow>
    gate_step (g, ts) (g, ts[i := if accepts_storage g then Task_lease else Task_leaving])"
| enter_sub: "i < length ts \<Longrightarrow> ts ! i = Task_leaving \<Longrightarrow>
    gate_step (g, ts) (fetch_sub g, ts[i := Task_idle])"
| drop_lease: "i < length ts \<Longrightarrow> ts ! i = Task_lease \<Longrightarrow>
    gate_step (g, ts) (fetch_sub g, ts[i := Task_idle])"
| switch_begins: "i < length ts \<Longrightarrow> ts ! i = Task_idle \<Longrightarrow> gt_holder g = None \<Longrightarrow>
    begin_switch_start i g = Inr g' \<Longrightarrow> gate_step (g, ts) (g', ts[i := Task_draining])"
| switch_waits: "i < length ts \<Longrightarrow> ts ! i = Task_draining \<Longrightarrow> 0 < gt_in_flight g \<Longrightarrow>
    gate_step (g, ts) (unlock g, ts[i := Task_waiting])"
| switch_wakes: "i < length ts \<Longrightarrow> ts ! i = Task_waiting \<Longrightarrow> gt_holder g = None \<Longrightarrow>
    gate_lock i g = Inr g' \<Longrightarrow> gate_step (g, ts) (g', ts[i := Task_draining])"
| switch_poisoned: "i < length ts \<Longrightarrow> ts ! i = Task_waiting \<Longrightarrow> gt_holder g = None \<Longrightarrow>
    gate_lock i g = Inl e \<Longrightarrow> gate_step (g, ts) (g, ts[i := Task_idle])"
| switch_times_out: "i < length ts \<Longrightarrow> ts ! i = Task_draining \<Longrightarrow> 0 < gt_in_flight g \<Longrightarrow>
    gate_step (g, ts) (begin_switch_timeout g, ts[i := Task_abort_wanted])"
| switch_drained: "i < length ts \<Longrightarrow> ts ! i = Task_draining \<Longrightarrow> gt_in_flight g = 0 \<Longrightarrow>
    gate_step (g, ts) (begin_switch_drained g, ts[i := Task_preparing])"
| prepare_succeeds: "i < length ts \<Longrightarrow> ts ! i = Task_preparing \<Longrightarrow> gt_holder g = None \<Longrightarrow>
    gate_step (g, ts) (prepare_committed g, ts[i := Task_idle])"
| prepare_fails: "i < length ts \<Longrightarrow> ts ! i = Task_preparing \<Longrightarrow> gt_holder g = None \<Longrightarrow>
    gate_step (g, ts) (prepare_failed g, ts[i := Task_abort_wanted])"
| prepare_panics: "i < length ts \<Longrightarrow> ts ! i = Task_preparing \<Longrightarrow>
    gate_step (g, ts) (g, ts[i := Task_idle])"
| request_begins: "i < length ts \<Longrightarrow> ts ! i = Task_idle \<Longrightarrow> gt_holder g = None \<Longrightarrow>
    begin_request i g = Inr g' \<Longrightarrow> gate_step (g, ts) (g', ts[i := Task_requesting])"
| request_ends: "i < length ts \<Longrightarrow> ts ! i = Task_requesting \<Longrightarrow>
    g' \<in> {mark_restart_required g, mark_failed g, drop_request g, poison (drop_request g)} \<Longrightarrow>
    gate_step (g, ts) (g', ts[i := Task_idle])"
| abort_begins: "i < length ts \<Longrightarrow> ts ! i = Task_idle \<or> ts ! i = Task_abort_wanted \<Longrightarrow>
    gt_holder g = None \<Longrightarrow> begin_abort i g = Inr g' \<Longrightarrow>
    gate_step (g, ts) (g', ts[i := Task_aborting])"
| abort_refused: "i < length ts \<Longrightarrow> ts ! i = Task_abort_wanted \<Longrightarrow> gt_holder g = None \<Longrightarrow>
    begin_abort i g = Inl e \<Longrightarrow> gate_step (g, ts) (g, ts[i := Task_idle])"
| abort_ends: "i < length ts \<Longrightarrow> ts ! i = Task_aborting \<Longrightarrow>
    g' \<in> {activate_after_abort g, fail_closed g, unlock g, poison g} \<Longrightarrow>
    gate_step (g, ts) (g', ts[i := Task_idle])"

text \<open>From a new gate and \<open>n\<close> threads at rest.\<close>

inductive gate_reachable :: "nat \<Rightarrow> gate_state \<Rightarrow> bool" for n :: nat where
  gate_init: "gate_reachable n (gate_new, replicate n Task_idle)"
| gate_next: "gate_reachable n s \<Longrightarrow> gate_step s s' \<Longrightarrow> gate_reachable n s'"

section \<open>The invariant\<close>

fun counted :: "gate_task \<Rightarrow> bool" where
  "counted Task_entered = True"
| "counted Task_leaving = True"
| "counted Task_lease = True"
| "counted _ = False"

fun holding :: "gate_task \<Rightarrow> bool" where
  "holding Task_draining = True"
| "holding Task_requesting = True"
| "holding Task_aborting = True"
| "holding _ = False"

text \<open>The phases in which nothing may be written: the gate is shut and drained.\<close>

definition drained_phase :: "switch_runtime_phase \<Rightarrow> bool" where
  "drained_phase p \<longleftrightarrow> p \<in> {Runtime_preparing, Runtime_prepared, Runtime_request_in_progress,
     Runtime_restart_required}"

definition task_fits :: "switch_runtime_phase \<Rightarrow> gate_task \<Rightarrow> bool" where
  "task_fits p t = (case t of
     Task_draining \<Rightarrow> p = Runtime_draining
   | Task_waiting \<Rightarrow> p = Runtime_draining
   | Task_preparing \<Rightarrow> p = Runtime_preparing
   | Task_requesting \<Rightarrow> p = Runtime_request_in_progress
   | Task_aborting \<Rightarrow> p \<in> {Runtime_active, Runtime_prepared, Runtime_drain_failed}
   | Task_lease \<Rightarrow> \<not> drained_phase p
   | _ \<Rightarrow> True)"

fun switching :: "gate_task \<Rightarrow> bool" where
  "switching Task_draining = True"
| "switching Task_waiting = True"
| "switching Task_preparing = True"
| "switching _ = False"

definition gate_ok :: "gate_state \<Rightarrow> bool" where
  "gate_ok s = (case s of (g, ts) \<Rightarrow>
     gt_in_flight g = length (filter counted ts) \<and>
     (gt_accepting g \<longrightarrow> gt_phase g \<in> {Runtime_active, Runtime_failed}) \<and>
     (\<forall>i<length ts. task_fits (gt_phase g) (ts ! i) \<and> (holding (ts ! i) \<longleftrightarrow> gt_holder g = Some i)) \<and>
     (\<forall>i<length ts. \<forall>j<length ts. switching (ts ! i) \<and> switching (ts ! j) \<longrightarrow> i = j))"

lemma count_update:
  "i < length ts \<Longrightarrow> length (filter P (ts[i := x])) + (if P (ts ! i) then 1 else 0) =
     length (filter P ts) + (if P x then 1 else 0)"
proof (induction ts arbitrary: i)
  case (Cons t ts)
  then show ?case by (cases i) auto
qed simp

lemma count_pos: "i < length ts \<Longrightarrow> P (ts ! i) \<Longrightarrow> 0 < length (filter P ts)"
  by (metis filter_empty_conv length_greater_0_conv nth_mem)

lemmas gate_defs = fetch_add_def fetch_sub_def gate_lock_def unlock_def begin_switch_start_def
  begin_switch_drained_def begin_switch_timeout_def prepare_committed_def prepare_failed_def
  begin_request_def mark_restart_required_def mark_failed_def drop_request_def begin_abort_def
  activate_after_abort_def fail_closed_def poison_def accepts_storage_def

text \<open>What the steps have in common: one thread moves, the others keep their place, wherever
  that is.\<close>

lemma all_tasks: "(\<forall>t. P t) \<longleftrightarrow> P Task_idle \<and> P Task_entering \<and> P Task_entered \<and> P Task_leaving \<and>
    P Task_lease \<and> P Task_draining \<and> P Task_waiting \<and> P Task_preparing \<and> P Task_abort_wanted \<and>
    P Task_requesting \<and> P Task_aborting"
  by (auto intro: gate_task.induct)

lemma gate_okI:
  assumes ok: "gate_ok (g, ts)" and i: "i < length ts"
    and count: "gt_in_flight g' + (if counted (ts ! i) then 1 else 0) =
      gt_in_flight g + (if counted x then 1 else 0)"
    and accepting: "gt_accepting g' \<Longrightarrow> gt_phase g' \<in> {Runtime_active, Runtime_failed}"
    and fits: "task_fits (gt_phase g') x" and held: "holding x \<longleftrightarrow> gt_holder g' = Some i"
    and others: "\<And>j. j \<noteq> i \<Longrightarrow> \<forall>t. task_fits (gt_phase g) t \<and>
      (holding t \<longleftrightarrow> gt_holder g = Some j) \<and> (switching (ts ! i) \<longrightarrow> \<not> switching t) \<and>
      (counted t \<longrightarrow> 0 < gt_in_flight g) \<longrightarrow>
      task_fits (gt_phase g') t \<and> (holding t \<longleftrightarrow> gt_holder g' = Some j) \<and>
      (switching x \<longrightarrow> \<not> switching t)"
  shows "gate_ok (g', ts[i := x])"
proof -
  have o: "task_fits (gt_phase g') (ts ! j) \<and> (holding (ts ! j) \<longleftrightarrow> gt_holder g' = Some j) \<and>
      (switching x \<longrightarrow> \<not> switching (ts ! j))" if j: "j < length ts" "j \<noteq> i" for j
    using ok i j count_pos[of j ts counted] by (intro others[rule_format]) (auto simp: gate_ok_def)
  have "gt_in_flight g' = length (filter counted (ts[i := x]))"
    using ok count count_update[OF i, of counted x] by (auto simp: gate_ok_def split: if_splits)
  moreover have "k = j" if "k < length ts" "j < length ts" "switching (ts[i := x] ! k)"
      "switching (ts[i := x] ! j)" for k j
  proof (cases "k = i \<or> j = i")
    case True
    then show ?thesis using that o[of k] o[of j] i by (auto simp: nth_list_update split: if_splits)
  next
    case False
    then show ?thesis using ok that by (auto simp: gate_ok_def)
  qed
  moreover have "task_fits (gt_phase g') (ts[i := x] ! k) \<and>
      (holding (ts[i := x] ! k) \<longleftrightarrow> gt_holder g' = Some k)" if "k < length ts" for k
    using o[of k] fits held that by (cases "k = i") auto
  ultimately show ?thesis using accepting by (simp add: gate_ok_def)
qed

lemma gate_ok_at:
  assumes "gate_ok (g, ts)" "i < length ts"
  shows "task_fits (gt_phase g) (ts ! i) \<and> (holding (ts ! i) \<longleftrightarrow> gt_holder g = Some i) \<and>
    (gt_accepting g \<longrightarrow> gt_phase g \<in> {Runtime_active, Runtime_failed}) \<and>
    (counted (ts ! i) \<longrightarrow> 0 < gt_in_flight g)"
  using assms count_pos[of i ts counted] by (auto simp: gate_ok_def)

lemmas gate_task_defs = task_fits_def drained_phase_def

lemma gate_ok_step: "gate_step s s' \<Longrightarrow> gate_ok s \<Longrightarrow> gate_ok s'"
proof (induction rule: gate_step.induct)
qed (rule gate_okI, assumption, assumption,
    (frule (1) gate_ok_at, (auto simp: gate_defs gate_task_defs all_tasks split: if_splits; fail))+)+

lemma gate_ok_new: "gate_ok (gate_new, replicate n Task_idle)"
  by (auto simp: gate_ok_def gate_new_def task_fits_def)

lemma reachable_ok: "gate_reachable n s \<Longrightarrow> gate_ok s"
  by (induction rule: gate_reachable.induct) (rule gate_ok_new, erule (1) gate_ok_step)

section \<open>What the gate promises\<close>

text \<open>C15. A switch is prepared and requested alone: in every reachable interleaving of storage
  commands, switch commands, timeouts and panics, while one thread prepares a switch (the gate
  was drained) or holds the guard of a request, the gate is shut and no other thread holds a
  lease, prepares, requests or aborts.\<close>

theorem switch_is_exclusive:
  assumes "gate_reachable n (g, ts)" and "i < length ts" "j < length ts" "j \<noteq> i"
    and "ts ! i = Task_preparing \<or> ts ! i = Task_requesting"
  shows "\<not> accepts_storage g \<and>
    ts ! j \<notin> {Task_lease, Task_preparing, Task_requesting, Task_aborting}"
proof -
  note ok = reachable_ok[OF assms(1)]
  note fits = gate_ok_at[OF ok assms(2)] gate_ok_at[OF ok assms(3)]
  have alone: "\<not> (switching (ts ! i) \<and> switching (ts ! j))"
    using ok assms(2-4) by (auto simp: gate_ok_def)
  show ?thesis
  proof (cases "ts ! i = Task_preparing")
    case True
    then have "gt_phase g = Runtime_preparing" "\<not> accepts_storage g" "\<not> switching (ts ! j)"
      using fits(1) alone by (auto simp: task_fits_def accepts_storage_def)
    then show ?thesis using fits(2) by (cases "ts ! j") (simp_all add: task_fits_def drained_phase_def)
  next
    case False
    then have "gt_phase g = Runtime_request_in_progress" "\<not> accepts_storage g" "gt_holder g = Some i"
      using fits(1) assms(5) by (auto simp: task_fits_def accepts_storage_def)
    then show ?thesis using fits(2) assms(4)
      by (cases "ts ! j") (simp_all add: task_fits_def drained_phase_def)
  qed
qed

text \<open>Once a restart is required there is no way back: no step reopens the gate.\<close>

lemma restart_step:
  "gate_step s s' \<Longrightarrow> gate_ok s \<Longrightarrow> gt_phase (fst s) = Runtime_restart_required \<Longrightarrow>
     gt_phase (fst s') = Runtime_restart_required"
  by (induction rule: gate_step.induct; (frule (1) gate_ok_at)?)
    (auto simp: gate_defs task_fits_def split: if_splits)

theorem restart_required_is_final:
  assumes "gate_reachable n s" and "gt_phase (fst s) = Runtime_restart_required"
    and "gate_step\<^sup>*\<^sup>* s (g', ts')"
  shows "gt_phase g' = Runtime_restart_required \<and> \<not> accepts_storage g' \<and> Task_lease \<notin> set ts'"
proof -
  have "gate_ok s' \<and> gt_phase (fst s') = Runtime_restart_required" if "gate_step\<^sup>*\<^sup>* s s'" for s'
    using that by (induction rule: rtranclp_induct)
      (use reachable_ok[OF assms(1)] assms(2) gate_ok_step restart_step in auto)
  from this[OF assms(3)] show ?thesis
    by (auto simp: gate_ok_def accepts_storage_def in_set_conv_nth task_fits_def drained_phase_def)
qed

section \<open>The gate at work\<close>

text \<open>A storage command that saw the gate open is overtaken by a switch.\<close>

lemma overtaken: "gate_reachable 2 (\<lparr>gt_accepting = False, gt_in_flight = 1,
    gt_phase = Runtime_preparing, gt_holder = None, gt_poisoned = False\<rparr>, [Task_preparing, Task_entered])"
proof -
  have "gate_reachable 2 (gate_new, [Task_idle, Task_entering])"
    by (rule gate_next[OF gate_init])
      (use enter_first[where i = 1 and ts = "[Task_idle, Task_idle]" and g = gate_new] in
        \<open>simp add: gate_new_def gate_defs numeral_2_eq_2\<close>)
  then have "gate_reachable 2 (gate_new\<lparr>gt_accepting := False, gt_phase := Runtime_draining,
      gt_holder := Some 0\<rparr>, [Task_draining, Task_entering])"
    by (rule gate_next) (use switch_begins[where i = 0 and ts = "[Task_idle, Task_entering]" and g = gate_new] in
      \<open>simp add: gate_new_def gate_defs\<close>)
  then have "gate_reachable 2 (gate_new\<lparr>gt_accepting := False, gt_phase := Runtime_preparing\<rparr>,
      [Task_preparing, Task_entering])"
    by (rule gate_next) (use switch_drained[where i = 0 and ts = "[Task_draining, Task_entering]" and
      g = "gate_new\<lparr>gt_accepting := False, gt_phase := Runtime_draining, gt_holder := Some 0\<rparr>"] in
      \<open>simp add: gate_new_def gate_defs\<close>)
  then show ?thesis
    by (rule gate_next) (use enter_add[where i = 1 and ts = "[Task_preparing, Task_entering]" and
      g = "gate_new\<lparr>gt_accepting := False, gt_phase := Runtime_preparing\<rparr>"] in
      \<open>simp add: gate_new_def gate_defs\<close>)
qed

theorem switch_is_exclusive_witness:
  "[Task_preparing, Task_entered] ! 1 \<notin> {Task_lease, Task_preparing, Task_requesting, Task_aborting}"
  using switch_is_exclusive[OF overtaken, of 0 1] by simp

text \<open>A switch from the first command to the restart it asks for.\<close>

definition gate_in :: "switch_runtime_phase \<Rightarrow> nat option \<Rightarrow> runtime_gate" where
  "gate_in p k = \<lparr>gt_accepting = False, gt_in_flight = 0, gt_phase = p, gt_holder = k,
     gt_poisoned = False\<rparr>"

lemma whole_switch: "gate_reachable 1 (gate_in Runtime_restart_required None, [Task_idle])"
proof -
  note defs = gate_in_def gate_new_def gate_defs
  have "gate_reachable 1 (gate_in Runtime_draining (Some 0), [Task_draining])"
    by (rule gate_next[OF gate_init])
      (use switch_begins[where i = 0 and ts = "[Task_idle]" and g = gate_new] in \<open>simp add: defs\<close>)
  then have "gate_reachable 1 (gate_in Runtime_preparing None, [Task_preparing])"
    by (rule gate_next) (use switch_drained[where i = 0 and ts = "[Task_draining]" and
      g = "gate_in Runtime_draining (Some 0)"] in \<open>simp add: defs\<close>)
  then have "gate_reachable 1 (gate_in Runtime_prepared None, [Task_idle])"
    by (rule gate_next) (use prepare_succeeds[where i = 0 and ts = "[Task_preparing]" and
      g = "gate_in Runtime_preparing None"] in \<open>simp add: defs\<close>)
  then have "gate_reachable 1 (gate_in Runtime_request_in_progress (Some 0), [Task_requesting])"
    by (rule gate_next) (use request_begins[where i = 0 and ts = "[Task_idle]" and
      g = "gate_in Runtime_prepared None"] in \<open>simp add: defs\<close>)
  then show ?thesis
    by (rule gate_next) (use request_ends[where i = 0 and ts = "[Task_requesting]" and
      g = "gate_in Runtime_request_in_progress (Some 0)" and
      g' = "mark_restart_required (gate_in Runtime_request_in_progress (Some 0))"] in
      \<open>simp add: defs\<close>)
qed

theorem restart_required_is_final_witness:
  "gt_phase (gate_in Runtime_restart_required None) = Runtime_restart_required \<and>
     \<not> accepts_storage (gate_in Runtime_restart_required None) \<and> Task_lease \<notin> set [Task_idle]"
  using restart_required_is_final[OF whole_switch, of "gate_in Runtime_restart_required None" "[Task_idle]"]
  by (simp add: gate_in_def)

text \<open>An abort that finds the journal advanced while the gate is open fails the gate, and leaves
  it open.\<close>

lemma fail_closed_leaves_gate_open:
  "\<exists>g ts. gate_reachable 1 (g, ts) \<and> gt_phase g = Runtime_failed \<and> accepts_storage g"
proof -
  have "gate_reachable 1 (gate_new\<lparr>gt_holder := Some 0\<rparr>, [Task_aborting])"
    by (rule gate_next[OF gate_init])
      (use abort_begins[where i = 0 and ts = "[Task_idle]" and g = gate_new] in
        \<open>fastforce simp: gate_new_def gate_defs\<close>)
  then have "gate_reachable 1 (gate_new\<lparr>gt_phase := Runtime_failed\<rparr>, [Task_idle])"
    by (rule gate_next) (use abort_ends[where i = 0 and ts = "[Task_aborting]" and
      g = "gate_new\<lparr>gt_holder := Some 0\<rparr>" and g' = "fail_closed (gate_new\<lparr>gt_holder := Some 0\<rparr>)"] in
      \<open>simp add: gate_new_def gate_defs\<close>)
  then show ?thesis by (fastforce simp: gate_new_def accepts_storage_def)
qed

end
