(* ===== verification/AccModel.thy ===== *)
theory AccModel
  imports Json "HOL-Library.AList" "HOL-Library.Sublist"
begin

text \<open>
  The data of \<open>src/crates/native-accounts\<close>: the account registry (\<open>registry.rs\<close>), the account
  switch journal (\<open>switch.rs\<close>), the migration and installation markers (\<open>migration.rs\<close>), the
  fault points (\<open>fault.rs\<close>) and the errors (\<open>error.rs\<close>), and the files they live in. A path is
  the list of its components. A file holds what its bytes decode to: one of the JSON values the
  crate writes, a two-line replacement journal, a SQLite database, or \<open>Garbage\<close>, bytes that
  decode to nothing (a write that was cut off). A database is its tables, each a list of rows
  in the order of its primary key (every query the crate makes orders by it), and what
  \<open>PRAGMA integrity_check\<close> answers.
\<close>

type_synonym path = "string list"

section \<open>Errors\<close>

datatype account_error =
    Acc_io string
  | Acc_json string
  | Acc_sqlite string
  | Invalid_registry string
  | Invalid_account_id string
  | Unsafe_path string path
  | Active_account_missing string
  | Needs_review string path
  | Acc_integrity path string
  | Migration_failed string path
  | Verification_mismatch string
  | Fault_injected string

definition path_text :: "path \<Rightarrow> string" where
  "path_text p = concat (map (\<lambda>c. CHR ''/'' # c) p)"

definition path_quoted :: "path \<Rightarrow> string" where
  "path_quoted p = [CHR 0x22] @ path_text p @ [CHR 0x22]"

fun error_text :: "account_error \<Rightarrow> string" where
  "error_text (Acc_io s) = ''account filesystem error: '' @ s"
| "error_text (Acc_json s) = ''account registry json error: '' @ s"
| "error_text (Acc_sqlite s) = ''account sqlite error: '' @ s"
| "error_text (Invalid_registry s) = ''invalid account registry: '' @ s"
| "error_text (Invalid_account_id s) = ''invalid account id: '' @ s"
| "error_text (Unsafe_path s p) = ''unsafe account path: '' @ s @ path_text p"
| "error_text (Active_account_missing s) =
     ''active account '' @ s @ '' has no database and no legacy source''"
| "error_text (Needs_review reason p) =
     ''legacy database requires manual review: '' @ reason @ ''; state='' @ path_quoted p"
| "error_text (Acc_integrity p detail) =
     ''database integrity check failed for '' @ path_quoted p @ '': '' @ detail"
| "error_text (Migration_failed s p) = ''legacy migration failed: '' @ s @ ''; state='' @ path_quoted p"
| "error_text (Verification_mismatch s) = ''database verification mismatch: '' @ s"
| "error_text (Fault_injected s) = ''injected fault: '' @ s"

section \<open>The registry\<close>

datatype account_kind = Anonymous | Cloud

record account_record =
  ar_id :: string
  ar_kind :: account_kind
  ar_email :: "string option"
  ar_api_url :: "string option"
  ar_pending :: bool
  ar_created_at :: string
  ar_schema_version :: nat
  ar_last_opened_at :: string

record account_registry =
  rg_version :: nat
  rg_active :: string
  rg_accounts :: "account_record list"

section \<open>The account switch journal\<close>

datatype switch_phase = Prepared | Restart_required | Verifying_target | Switch_failed

record pending_switch =
  sw_version :: nat
  sw_phase :: switch_phase
  sw_from :: string
  sw_to :: string
  sw_generation :: "64 word"
  sw_created_at :: string
  sw_updated_at :: string
  sw_error_code :: "string option"

section \<open>Databases and their snapshots\<close>

text \<open>SQLite's storage classes; a real is its 64 bits.\<close>

datatype lite_value =
    Lite_null
  | Lite_integer int
  | Lite_real "64 word"
  | Lite_text string
  | Lite_blob string

record lite_table =
  tb_columns :: "string list"
  tb_rows :: "lite_value list list"

record database =
  db_integrity :: "string list"
  db_tables :: "(string \<times> lite_table) list"

definition empty_database :: database where
  "empty_database = \<lparr>db_integrity = [''ok''], db_tables = []\<rparr>"

record verification_summary =
  vs_integrity :: string
  vs_counts :: "(string \<times> nat) list"
  vs_table_digests :: "(string \<times> string) list"
  vs_device_id :: "string option"
  vs_sync_cursor :: "string option"
  vs_client_seq :: "string option"
  vs_bound_account :: "string option"
  vs_bound_api_url :: "string option"
  vs_outbox_count :: nat
  vs_shadow_count :: nat
  vs_schema_versions :: "int list"

record data_snapshot =
  sn_integrity :: string
  sn_counts :: "(string \<times> nat) list"
  sn_table_digests :: "(string \<times> string) list"
  sn_device_id :: "string option"
  sn_sync_cursor :: "string option"
  sn_client_seq :: "string option"
  sn_bound_account :: "string option"
  sn_bound_api_url :: "string option"
  sn_outbox_rows :: "string list"
  sn_shadow_rows :: "string list"
  sn_schema_versions :: "int list"
  sn_fingerprint :: string

section \<open>Migration and installation markers\<close>

datatype migration_phase =
    Not_started | Backup_created | Copy_verified | Registry_committed | Complete
  | Requires_review | Migration_phase_failed

record migration_state =
  mg_version :: nat
  mg_phase :: migration_phase
  mg_source_file :: string
  mg_backup_file :: "string option"
  mg_target_account_id :: "string option"
  mg_target_file :: "string option"
  mg_source_fingerprint :: "string option"
  mg_backup_fingerprint :: "string option"
  mg_target_fingerprint :: "string option"
  mg_verified :: "verification_summary option"
  mg_reason :: "string option"
  mg_error :: "string option"
  mg_updated_at :: string

datatype installation_phase =
    Install_prepared | Install_database_created | Install_registry_committed

record installation_state =
  in_version :: nat
  in_phase :: installation_phase
  in_account_id :: string
  in_created_at :: string
  in_updated_at :: string

section \<open>Files\<close>

datatype content =
    Registry_file account_registry
  | Switch_file pending_switch
  | Migration_file migration_state
  | Installation_file installation_state
  | Replace_journal path path
  | Database_file database
  | Garbage

datatype node = Dir | File content | Symlink path

section \<open>Fault points\<close>

datatype fault_point =
    Installation_prepared | Installation_database_created | Migration_backup_created
  | Migration_copy_verified | Switch_prepared_persisted | Switch_restart_required_persisted
  | Switch_failed_persisted | Switch_verifying_target_persisted | Registry_active_before_update
  | Registry_active_after_update | Target_database_before_open | Target_database_after_open
  | Switch_journal_before_cleanup | Registry_replace_fallback | Credential_get | Credential_set
  | Credential_delete | Reminder_cancel | Sqlite_busy

fun fault_point_str :: "fault_point \<Rightarrow> string" where
  "fault_point_str Installation_prepared = ''installation_prepared''"
| "fault_point_str Installation_database_created = ''installation_database_created''"
| "fault_point_str Migration_backup_created = ''migration_backup_created''"
| "fault_point_str Migration_copy_verified = ''migration_copy_verified''"
| "fault_point_str Switch_prepared_persisted = ''switch_prepared_persisted''"
| "fault_point_str Switch_restart_required_persisted = ''switch_restart_required_persisted''"
| "fault_point_str Switch_failed_persisted = ''switch_failed_persisted''"
| "fault_point_str Switch_verifying_target_persisted = ''switch_verifying_target_persisted''"
| "fault_point_str Registry_active_before_update = ''registry_active_before_update''"
| "fault_point_str Registry_active_after_update = ''registry_active_after_update''"
| "fault_point_str Target_database_before_open = ''target_database_before_open''"
| "fault_point_str Target_database_after_open = ''target_database_after_open''"
| "fault_point_str Switch_journal_before_cleanup = ''switch_journal_before_cleanup''"
| "fault_point_str Registry_replace_fallback = ''registry_replace_fallback''"
| "fault_point_str Credential_get = ''credential_get''"
| "fault_point_str Credential_set = ''credential_set''"
| "fault_point_str Credential_delete = ''credential_delete''"
| "fault_point_str Reminder_cancel = ''reminder_cancel''"
| "fault_point_str Sqlite_busy = ''sqlite_busy''"

datatype fault_action =
    Fault_error string string
  | Fault_block nat
  | Fault_terminate int

record fault_event =
  fe_event_id :: string
  fe_point :: fault_point
  fe_phase :: "string option"
  fe_account_id :: "string option"
  fe_detail :: "string option"
  fe_at :: string

record fault_evidence =
  ev_event_id :: string
  ev_point :: string
  ev_phase :: "string option"
  ev_account_id :: "string option"
  ev_at :: string
  ev_result :: string

section \<open>The host\<close>

text \<open>
  What the process has from outside: the canonical data root, the platform, the \<open>n\<close>th reading
  of the clock in each format, the \<open>n\<close>th UUID, \<open>Uuid::parse_str\<close> (to the canonical text),
  \<open>Sha256::digest\<close>, \<open>String::from_utf8_lossy\<close>, the fault injector if one is installed, and
  \<open>TodoStore::open\<close> of the other crate (on the content of the database it is given).
\<close>

record host =
  h_root :: path
  h_windows :: bool
  h_now :: "nat \<Rightarrow> string"
  h_millis :: "nat \<Rightarrow> int"
  h_stamp :: "nat \<Rightarrow> string"
  h_uuid :: "nat \<Rightarrow> string"
  h_uuid_parse :: "string \<Rightarrow> string option"
  h_sha :: "string \<Rightarrow> string"
  h_utf8_lossy :: "string \<Rightarrow> string"
  h_injector :: "(fault_event \<Rightarrow> fault_action option) option"
  h_open_store :: "database \<Rightarrow> string + database"

end
