(* ===== verification/AccDisk.thy ===== *)
theory AccDisk
  imports AccModel
begin

text \<open>
  The account crate as programs over a disk. A program is a function from the world (the files,
  how the next attempts to touch them will go, the ticks of the clock and of the id source, the
  fault evidence recorded, and the migration state that \<open>migration.rs\<close> passes down as
  \<open>&mut MigrationState\<close>) to how it ends and the world it leaves. It ends with a value, with
  the error of a \<open>Result\<close>, or \<open>Killed\<close>: the process died at that point (a crash, a SIGKILL, or
  the \<open>process::exit\<close> of an injected fault). Every attempt to change a file, to read one or to
  query SQLite takes one element of \<open>w_luck\<close>; when the list is used up everything goes well. So
  a statement over all worlds covers a failure or a kill between any two effects, and partly
  written files. \<open>wp\<close> is the weakest precondition of a program for a postcondition of each of
  the three endings.
\<close>

section \<open>Worlds and programs\<close>

datatype luck = Fine | Write_error | Read_error | Kill

record world =
  w_files :: "(path \<times> node) list"
  w_luck :: "luck list"
  w_tick :: nat
  w_evidence :: "fault_evidence list"
  w_migration :: migration_state

datatype 'a ending = Done 'a | Failed account_error | Killed

type_synonym 'a act = "world \<Rightarrow> 'a ending \<times> world"

text \<open>\<open>Ok(x)\<close>, \<open>return Err(e)\<close>, the rest of the block after a \<open>?\<close>, a \<open>Result\<close> computed without
  touching the disk, and a \<open>match\<close> on the result of a call.\<close>

definition ret :: "'a \<Rightarrow> 'a act" where
  "ret x w = (Done x, w)"

definition raise :: "account_error \<Rightarrow> 'a act" where
  "raise e w = (Failed e, w)"

definition andthen :: "'a act \<Rightarrow> ('a \<Rightarrow> 'b act) \<Rightarrow> 'b act" where
  "andthen m k w = (case m w of
     (Done x, w') \<Rightarrow> k x w'
   | (Failed e, w') \<Rightarrow> (Failed e, w')
   | (Killed, w') \<Rightarrow> (Killed, w'))"

definition of_result :: "account_error + 'a \<Rightarrow> 'a act" where
  "of_result r = (case r of Inl e \<Rightarrow> raise e | Inr x \<Rightarrow> ret x)"

definition handle :: "'a act \<Rightarrow> ('a \<Rightarrow> 'b act) \<Rightarrow> (account_error \<Rightarrow> 'b act) \<Rightarrow> 'b act" where
  "handle m k r w = (case m w of
     (Done x, w') \<Rightarrow> k x w'
   | (Failed e, w') \<Rightarrow> r e w'
   | (Killed, w') \<Rightarrow> (Killed, w'))"

text \<open>\<open>let _ = m;\<close> and \<open>m.ok()\<close>.\<close>

definition ignore :: "'a act \<Rightarrow> unit act" where
  "ignore m = handle m (\<lambda>_. ret ()) (\<lambda>_. ret ())"

definition attempt_ok :: "'a act \<Rightarrow> 'a option act" where
  "attempt_ok m = handle m (\<lambda>x. ret (Some x)) (\<lambda>_. ret None)"

definition guard :: "bool \<Rightarrow> account_error \<Rightarrow> unit act" where
  "guard b e = (if b then raise e else ret ())"

section \<open>Weakest preconditions\<close>

definition wp :: "'a act \<Rightarrow> ('a \<Rightarrow> world \<Rightarrow> bool) \<Rightarrow> (account_error \<Rightarrow> world \<Rightarrow> bool) \<Rightarrow>
    (world \<Rightarrow> bool) \<Rightarrow> world \<Rightarrow> bool" where
  "wp m Q E K w = (case m w of
     (Done x, w') \<Rightarrow> Q x w'
   | (Failed e, w') \<Rightarrow> E e w'
   | (Killed, w') \<Rightarrow> K w')"

named_theorems wp_rules \<open>weakest preconditions of the program formers\<close>

lemma wp_ret [wp_rules, simp]: "wp (ret x) Q E K = Q x"
  by (simp add: wp_def ret_def fun_eq_iff)

lemma wp_raise [wp_rules, simp]: "wp (raise e) Q E K = E e"
  by (simp add: wp_def raise_def fun_eq_iff)

lemma wp_andthen [wp_rules, simp]: "wp (andthen m k) Q E K = wp m (\<lambda>x. wp (k x) Q E K) E K"
  by (simp add: wp_def andthen_def fun_eq_iff split: ending.splits prod.splits)

lemma wp_handle [wp_rules, simp]:
  "wp (handle m k r) Q E K = wp m (\<lambda>x. wp (k x) Q E K) (\<lambda>e. wp (r e) Q E K) K"
  by (simp add: wp_def handle_def fun_eq_iff split: ending.splits prod.splits)

lemma wp_ignore [wp_rules, simp]: "wp (ignore m) Q E K = wp m (\<lambda>_. Q ()) (\<lambda>_. Q ()) K"
  by (simp add: ignore_def)

lemma wp_attempt_ok [wp_rules, simp]:
  "wp (attempt_ok m) Q E K = wp m (\<lambda>x. Q (Some x)) (\<lambda>_. Q None) K"
  by (simp add: attempt_ok_def)

lemma wp_guard [wp_rules, simp]: "wp (guard b e) Q E K w = (if b then E e w else Q () w)"
  by (simp add: guard_def)

lemma wp_of_result [wp_rules, simp]:
  "wp (of_result r) Q E K w = (case r of Inl e \<Rightarrow> E e w | Inr x \<Rightarrow> Q x w)"
  by (cases r) (simp_all add: of_result_def)

lemma wp_if [wp_rules]: "wp (if b then m else n) Q E K w = (if b then wp m Q E K w else wp n Q E K w)"
  by simp

text \<open>The same as introduction rules, so that a program is taken apart by resolution alone, with
  one rule for each way to branch.\<close>

named_theorems wp_intros \<open>the program formers and branches as introduction rules\<close>

lemma wp_formers [wp_intros]:
  "Q x w \<Longrightarrow> wp (ret x) Q E K w"
  "E e w \<Longrightarrow> wp (raise e) Q E K w"
  "wp m (\<lambda>x. wp (k x) Q E K) E K w \<Longrightarrow> wp (andthen m k) Q E K w"
  "wp m (\<lambda>x. wp (k x) Q E K) (\<lambda>e. wp (r e) Q E K) K w \<Longrightarrow> wp (handle m k r) Q E K w"
  by simp_all

lemma wp_unit_formers [wp_intros]:
  "wp m (\<lambda>_. Q ()) (\<lambda>_. Q ()) K w \<Longrightarrow> wp (ignore m) Q E K w"
  "(b \<Longrightarrow> E e w) \<Longrightarrow> (\<not> b \<Longrightarrow> Q () w) \<Longrightarrow> wp (guard b e) Q E K w"
  by simp_all

lemma wp_attempt_intro [wp_intros]:
  "wp m (\<lambda>x. Q (Some x)) (\<lambda>_. Q None) K w \<Longrightarrow> wp (attempt_ok m) Q E K w"
  by simp

lemma wp_branches [wp_intros]:
  "(b \<Longrightarrow> wp m Q E K w) \<Longrightarrow> (\<not> b \<Longrightarrow> wp n Q E K w) \<Longrightarrow> wp (if b then m else n) Q E K w"
  "(x = None \<Longrightarrow> wp m Q E K w) \<Longrightarrow> (\<And>y. x = Some y \<Longrightarrow> wp (k y) Q E K w) \<Longrightarrow>
     wp (case x of None \<Rightarrow> m | Some y \<Rightarrow> k y) Q E K w"
  "(\<And>a b. z = (a, b) \<Longrightarrow> wp (g a b) Q E K w) \<Longrightarrow> wp (case z of (a, b) \<Rightarrow> g a b) Q E K w"
  "(\<And>e. s = Inl e \<Longrightarrow> wp (f e) Q E K w) \<Longrightarrow> (\<And>y. s = Inr y \<Longrightarrow> wp (t y) Q E K w) \<Longrightarrow>
     wp (case s of Inl e \<Rightarrow> f e | Inr y \<Rightarrow> t y) Q E K w"
  by (auto split: option.split prod.split sum.split)

lemma wp_ok_or [wp_intros]:
  "(x = None \<Longrightarrow> E e w) \<Longrightarrow> (\<And>y. x = Some y \<Longrightarrow> Q y w) \<Longrightarrow> wp (of_result (ok_or x e)) Q E K w"
  by (cases x) simp_all

lemma wp_result_intro [wp_intros]:
  "(\<And>e. s = Inl e \<Longrightarrow> E e w) \<Longrightarrow> (\<And>y. s = Inr y \<Longrightarrow> Q y w) \<Longrightarrow> wp (of_result s) Q E K w"
  by (simp split: sum.split)

lemma wp_mono:
  assumes "wp m Q E K w"
    and "\<And>x w'. Q x w' \<Longrightarrow> Q' x w'" and "\<And>e w'. E e w' \<Longrightarrow> E' e w'" and "\<And>w'. K w' \<Longrightarrow> K' w'"
  shows "wp m Q' E' K' w"
  using assms by (simp add: wp_def split: ending.splits prod.splits)

lemma wp_conj:
  "wp m Q E K w \<Longrightarrow> wp m Q' E' K' w \<Longrightarrow>
     wp m (\<lambda>x w. Q x w \<and> Q' x w) (\<lambda>e w. E e w \<and> E' e w) (\<lambda>w. K w \<and> K' w) w"
  by (simp add: wp_def split: ending.splits prod.splits)

lemma wp_result:
  "wp m Q E K w \<Longrightarrow> m w = (r, w') \<Longrightarrow>
     (case r of Done x \<Rightarrow> Q x w' | Failed e \<Rightarrow> E e w' | Killed \<Rightarrow> K w')"
  by (simp add: wp_def split: ending.splits)

section \<open>The disk\<close>

definition node_at :: "world \<Rightarrow> path \<Rightarrow> node option" where
  "node_at w p = map_of (w_files w) p"

definition put_node :: "path \<Rightarrow> node \<Rightarrow> world \<Rightarrow> world" where
  "put_node p n w = w\<lparr>w_files := AList.update p n (w_files w)\<rparr>"

definition drop_node :: "path \<Rightarrow> world \<Rightarrow> world" where
  "drop_node p w = w\<lparr>w_files := AList.delete p (w_files w)\<rparr>"

lemma node_at_put [simp]: "node_at (put_node p n w) q = (if q = p then Some n else node_at w q)"
  by (simp add: node_at_def put_node_def update_conv')

lemma node_at_drop [simp]: "node_at (drop_node p w) q = (if q = p then None else node_at w q)"
  by (simp add: node_at_def drop_node_def delete_conv')

lemma node_at_others [simp]:
  "node_at (w\<lparr>w_luck := l\<rparr>) = node_at w" "node_at (w\<lparr>w_tick := t\<rparr>) = node_at w"
  "node_at (w\<lparr>w_evidence := e\<rparr>) = node_at w" "node_at (w\<lparr>w_migration := s\<rparr>) = node_at w"
  by (simp_all add: node_at_def fun_eq_iff)

text \<open>Symbolic links are followed as the kernel does, forty at most.\<close>

primrec follow :: "nat \<Rightarrow> world \<Rightarrow> path \<Rightarrow> node option" where
  "follow 0 w p = None"
| "follow (Suc n) w p = (case node_at w p of Some (Symlink q) \<Rightarrow> follow n w q | r \<Rightarrow> r)"

definition target_of :: "world \<Rightarrow> path \<Rightarrow> node option" where
  "target_of w p = follow 40 w p"

lemma follow_plain: "0 < n \<Longrightarrow> \<forall>q. node_at w p \<noteq> Some (Symlink q) \<Longrightarrow> follow n w p = node_at w p"
  by (cases n) (auto split: option.splits node.splits)

lemma target_of_plain:
  "node_at w p = None \<Longrightarrow> target_of w p = None"
  "node_at w p = Some Dir \<Longrightarrow> target_of w p = Some Dir"
  "node_at w p = Some (File c) \<Longrightarrow> target_of w p = Some (File c)"
  by (simp_all add: target_of_def follow_plain)

definition path_exists :: "world \<Rightarrow> path \<Rightarrow> bool" where
  "path_exists w p \<longleftrightarrow> target_of w p \<noteq> None"

definition is_file :: "world \<Rightarrow> path \<Rightarrow> bool" where
  "is_file w p = (case target_of w p of Some (File c) \<Rightarrow> True | _ \<Rightarrow> False)"

definition is_dir :: "world \<Rightarrow> path \<Rightarrow> bool" where
  "is_dir w p \<longleftrightarrow> target_of w p = Some Dir"

definition is_symlink :: "world \<Rightarrow> path \<Rightarrow> bool" where
  "is_symlink w p = (case node_at w p of Some (Symlink q) \<Rightarrow> True | _ \<Rightarrow> False)"

text \<open>\<open>Path::canonicalize\<close>, of a path that exists.\<close>

primrec canonical_in :: "nat \<Rightarrow> world \<Rightarrow> path \<Rightarrow> path" where
  "canonical_in 0 w p = p"
| "canonical_in (Suc n) w p = (case node_at w p of Some (Symlink q) \<Rightarrow> canonical_in n w q | _ \<Rightarrow> p)"

definition canonical :: "world \<Rightarrow> path \<Rightarrow> path" where
  "canonical w p = canonical_in 40 w p"

lemma canonical_in_plain: "\<not> is_symlink w p \<Longrightarrow> canonical_in n w p = p"
  by (cases n) (auto simp: is_symlink_def split: option.splits node.splits)

lemma canonical_plain: "\<not> is_symlink w p \<Longrightarrow> canonical w p = p"
  by (simp add: canonical_def canonical_in_plain)

lemma plain_file:
  assumes "node_at w p = Some (File c)"
  shows "is_file w p" "path_exists w p" "\<not> is_symlink w p" "target_of w p = Some (File c)"
  using target_of_plain(3)[OF assms] assms by (simp_all add: is_file_def path_exists_def is_symlink_def)

lemma no_node:
  assumes "node_at w p = None"
  shows "\<not> is_file w p" "\<not> path_exists w p" "\<not> is_symlink w p"
  using target_of_plain(1)[OF assms] assms by (simp_all add: is_file_def path_exists_def is_symlink_def)

definition gets :: "(world \<Rightarrow> 'a) \<Rightarrow> 'a act" where
  "gets f w = (Done (f w), w)"

lemma wp_gets [wp_rules, simp]: "wp (gets f) Q E K w = Q (f w) w"
  by (simp add: wp_def gets_def)

lemma wp_gets_intro [wp_intros]: "Q (f w) w \<Longrightarrow> wp (gets f) Q E K w"
  by simp

section \<open>Effects\<close>

definition take_luck :: "world \<Rightarrow> luck \<times> world" where
  "take_luck w = (case w_luck w of [] \<Rightarrow> (Fine, w) | l # ls \<Rightarrow> (l, w\<lparr>w_luck := ls\<rparr>))"

text \<open>One change of the disk: it happens, the call returns an error and nothing happens, or
  the process dies first.\<close>

definition effect :: "(world \<Rightarrow> world) \<Rightarrow> unit act" where
  "effect f w = (let (l, w) = take_luck w in
     case l of
       Write_error \<Rightarrow> (Failed (Acc_io ''i/o error''), w)
     | Kill \<Rightarrow> (Killed, w)
     | _ \<Rightarrow> (Done (), f w))"

text \<open>One access that changes nothing but may fail: reading a file, a SQLite query.\<close>

definition access :: "account_error \<Rightarrow> unit act" where
  "access e w = (let (l, w) = take_luck w in
     case l of
       Read_error \<Rightarrow> (Failed e, w)
     | Kill \<Rightarrow> (Killed, w)
     | _ \<Rightarrow> (Done (), w))"

lemma take_luck_files [simp]:
  "node_at (snd (take_luck w)) = node_at w" "w_tick (snd (take_luck w)) = w_tick w"
  "w_files (snd (take_luck w)) = w_files w"
  by (simp_all add: take_luck_def split: list.splits)

text \<open>The clock and the id source: every reading is a new tick.\<close>

definition tick :: "(nat \<Rightarrow> 'a) \<Rightarrow> 'a act" where
  "tick f w = (Done (f (w_tick w)), w\<lparr>w_tick := Suc (w_tick w)\<rparr>)"

definition now_text :: "host \<Rightarrow> string act" where
  "now_text h = tick (h_now h)"

definition new_uuid :: "host \<Rightarrow> string act" where
  "new_uuid h = tick (h_uuid h)"

text \<open>Reading a whole file and decoding it.\<close>

definition read_file :: "path \<Rightarrow> content act" where
  "read_file p = andthen (access (Acc_io ''i/o error'')) (\<lambda>_ w.
     case target_of w p of
       Some (File c) \<Rightarrow> (Done c, w)
     | Some Dir \<Rightarrow> (Failed (Acc_io ''is a directory''), w)
     | _ \<Rightarrow> (Failed (Acc_io ''not found''), w))"

section \<open>fault.rs\<close>

fun registry_of :: "content \<Rightarrow> account_registry option" where
  "registry_of (Registry_file r) = Some r"
| "registry_of _ = None"

fun switch_of :: "content \<Rightarrow> pending_switch option" where
  "switch_of (Switch_file j) = Some j"
| "switch_of _ = None"

fun migration_of :: "content \<Rightarrow> migration_state option" where
  "migration_of (Migration_file s) = Some s"
| "migration_of _ = None"

fun installation_of :: "content \<Rightarrow> installation_state option" where
  "installation_of (Installation_file s) = Some s"
| "installation_of _ = None"

definition fault_event_new :: "host \<Rightarrow> fault_point \<Rightarrow> string option \<Rightarrow> string option \<Rightarrow>
    string option \<Rightarrow> fault_event act" where
  "fault_event_new h pt phase account detail =
     andthen (new_uuid h) (\<lambda>i. andthen (now_text h) (\<lambda>t.
       ret \<lparr>fe_event_id = i, fe_point = pt, fe_phase = phase, fe_account_id = account,
            fe_detail = detail, fe_at = t\<rparr>))"

definition record_evidence :: "fault_event \<Rightarrow> string \<Rightarrow> unit act" where
  "record_evidence ev result w = (Done (), w\<lparr>w_evidence := w_evidence w @
     [\<lparr>ev_event_id = fe_event_id ev, ev_point = fault_point_str (fe_point ev),
       ev_phase = fe_phase ev, ev_account_id = fe_account_id ev, ev_at = fe_at ev,
       ev_result = result\<rparr>]\<rparr>)"

definition fault_at :: "host \<Rightarrow> fault_point \<Rightarrow> string option \<Rightarrow> string option \<Rightarrow>
    string option \<Rightarrow> unit act" where
  "fault_at h pt phase account detail = (case h_injector h of
     None \<Rightarrow> ret ()
   | Some decide \<Rightarrow> andthen (fault_event_new h pt phase account detail) (\<lambda>ev.
       case decide ev of
         None \<Rightarrow> record_evidence ev ''passed''
       | Some (Fault_error code message) \<Rightarrow>
           andthen (record_evidence ev (''error:'' @ code)) (\<lambda>_.
             raise (Fault_injected (code @ '': '' @ message)))
       | Some (Fault_block ms) \<Rightarrow> record_evidence ev (''blocked:'' @ show_nat ms)
       | Some (Fault_terminate code) \<Rightarrow>
           andthen (record_evidence ev (''terminate:'' @ show_int code)) (\<lambda>_ w. (Killed, w))))"

end
