(* ===== verification/AccPaths.thy ===== *)
theory AccPaths
  imports AccDisk
begin

text \<open>
  \<open>src/crates/native-accounts/src/paths.rs\<close>: the names of the files under the data root, the
  checks on account ids and relative paths, the directories, and the atomic write of a JSON
  file through a temporary file with its two-step replacement on Windows. The data root is
  the canonical \<open>h_root\<close>. The facts at the end say what a write leaves on the disk however it
  ends.
\<close>

section \<open>Identifiers and names\<close>

definition DEFAULT_ACCOUNT_ID :: string where
  "DEFAULT_ACCOUNT_ID = ''default''"

definition DATABASE_FILE :: string where
  "DATABASE_FILE = ''shishi.sqlite3''"

definition validate_account_id :: "host \<Rightarrow> string \<Rightarrow> account_error + unit" where
  "validate_account_id h i =
     (if i = DEFAULT_ACCOUNT_ID then Inr ()
      else and_then (ok_or (h_uuid_parse h i) (Invalid_account_id i)) (\<lambda>parsed.
        if parsed \<noteq> i then Inl (Invalid_account_id i) else Inr ()))"

definition refresh_token_key :: "host \<Rightarrow> string \<Rightarrow> account_error + string" where
  "refresh_token_key h i = and_then (validate_account_id h i) (\<lambda>_. Inr (''cloud-refresh:'' @ i))"

definition database_file_name :: "host \<Rightarrow> string \<Rightarrow> account_error + string" where
  "database_file_name h i = and_then (validate_account_id h i) (\<lambda>_. Inr DATABASE_FILE)"

definition account_dir :: "host \<Rightarrow> string \<Rightarrow> account_error + path" where
  "account_dir h i = and_then (validate_account_id h i) (\<lambda>_. Inr (h_root h @ [''accounts'', i]))"

definition database_path :: "host \<Rightarrow> string \<Rightarrow> account_error + path" where
  "database_path h i = and_then (account_dir h i) (\<lambda>d.
     and_then (database_file_name h i) (\<lambda>f. Inr (d @ [f])))"

definition legacy_database_path :: "host \<Rightarrow> path" where
  "legacy_database_path h = h_root h @ [DATABASE_FILE]"

definition accounts_file :: "host \<Rightarrow> path" where
  "accounts_file h = h_root h @ [''accounts.json'']"

definition migration_state_file :: "host \<Rightarrow> path" where
  "migration_state_file h = h_root h @ [''migration-state.json'']"

definition installation_state_file :: "host \<Rightarrow> path" where
  "installation_state_file h = h_root h @ [''installation-state.json'']"

definition pending_account_switch_file :: "host \<Rightarrow> path" where
  "pending_account_switch_file h = h_root h @ [''pending-account-switch.json'']"

definition migration_backups_dir :: "host \<Rightarrow> path" where
  "migration_backups_dir h = h_root h @ [''migration-backups'']"

text \<open>\<open>Path::components\<close> of a Unix path: empty components and inner dots are skipped, a
  leading dot is \<open>CurDir\<close>.\<close>

definition path_parts :: "string \<Rightarrow> string list" where
  "path_parts s = filter (\<lambda>c. c \<noteq> [] \<and> c \<noteq> ''.'') (split_on (CHR ''/'') s)"

definition validate_relative_path :: "string \<Rightarrow> account_error + unit" where
  "validate_relative_path s =
     (if starts_with s ''/'' \<or> s = [] then Inl (Unsafe_path s [])
      else if hd (split_on (CHR ''/'') s) = ''.'' \<or> ''..'' \<in> set (path_parts s)
        then Inl (Unsafe_path s [])
      else Inr ())"

section \<open>File operations\<close>

definition not_found :: account_error where
  "not_found = Acc_io ''not found''"

definition create_dir_all :: "path \<Rightarrow> unit act" where
  "create_dir_all p = andthen (gets (\<lambda>w. (is_dir w p, node_at w p))) (\<lambda>(d, n).
     if d then ret ()
     else if n \<noteq> None then raise (Acc_io ''not a directory'')
     else effect (put_node p Dir))"

definition remove_file :: "path \<Rightarrow> unit act" where
  "remove_file p = andthen (gets (\<lambda>w. node_at w p)) (\<lambda>n.
     case n of
       None \<Rightarrow> raise not_found
     | Some Dir \<Rightarrow> raise (Acc_io ''is a directory'')
     | _ \<Rightarrow> effect (drop_node p))"

definition rename_file :: "path \<Rightarrow> path \<Rightarrow> unit act" where
  "rename_file p q = andthen (gets (\<lambda>w. (node_at w p, node_at w q))) (\<lambda>(n, t).
     case n of
       None \<Rightarrow> raise not_found
     | Some x \<Rightarrow> if t = Some Dir then raise (Acc_io ''is a directory'')
                 else effect (\<lambda>w. put_node q x (drop_node p w)))"

definition ensure_data_root :: "host \<Rightarrow> path act" where
  "ensure_data_root h = andthen (create_dir_all (h_root h)) (\<lambda>_.
     let state_dir = (\<lambda>name. let p = h_root h @ [name] in
       andthen (create_dir_all p) (\<lambda>_. andthen (gets (\<lambda>w. node_at w p)) (\<lambda>n.
         guard (n \<noteq> Some Dir) (Unsafe_path ''state directory is not a real directory: '' p))))
     in andthen (state_dir ''accounts'') (\<lambda>_.
        andthen (state_dir ''migration-backups'') (\<lambda>_. ret (h_root h))))"

definition ensure_account_dir :: "host \<Rightarrow> string \<Rightarrow> path act" where
  "ensure_account_dir h i = andthen (ensure_data_root h) (\<lambda>root.
     let accounts_root = root @ [''accounts'']; dir = accounts_root @ [i] in
     andthen (of_result (validate_account_id h i)) (\<lambda>_.
     andthen (andthen (gets (\<lambda>w. node_at w dir)) (\<lambda>n. case n of
         Some (Symlink q) \<Rightarrow> raise (Unsafe_path ''account directory is a symlink: '' dir)
       | Some (File c) \<Rightarrow> raise (Unsafe_path ''account path is not a directory: '' dir)
       | Some Dir \<Rightarrow> ret ()
       | None \<Rightarrow> effect (put_node dir Dir))) (\<lambda>_.
     andthen (gets (\<lambda>w. (canonical w dir, canonical w accounts_root))) (\<lambda>(c, r).
     andthen (guard (\<not> prefix r c) (Unsafe_path ''account directory escapes accounts root: '' c))
       (\<lambda>_. ret c)))))"

definition validate_database_path :: "path \<Rightarrow> unit act" where
  "validate_database_path p = andthen (gets (\<lambda>w. node_at w p)) (\<lambda>n. case n of
     Some (Symlink q) \<Rightarrow> raise (Unsafe_path ''database path is a symlink: '' p)
   | Some Dir \<Rightarrow> raise (Unsafe_path ''database path is not a regular file: '' p)
   | _ \<Rightarrow> ret ())"

definition validate_legacy_source :: "path \<Rightarrow> unit act" where
  "validate_legacy_source p = validate_database_path p"

text \<open>\<open>sync_all\<close> changes nothing a reader can see; it can fail.\<close>

definition sync_file :: "path \<Rightarrow> unit act" where
  "sync_file p = andthen (gets (\<lambda>w. is_file w p)) (\<lambda>f.
     if f then effect (\<lambda>w. w) else raise not_found)"

definition sync_directory :: "path \<Rightarrow> unit act" where
  "sync_directory p = ret ()"

section \<open>Atomic replacement\<close>

definition replace_journal_path :: "path \<Rightarrow> path" where
  "replace_journal_path p = butlast p @ [last p @ ''.replace-journal'']"

definition temp_path :: "path \<Rightarrow> string \<Rightarrow> path" where
  "temp_path p u = butlast p @ [''.'' @ last p @ ''.'' @ u @ ''.tmp'']"

definition old_path :: "path \<Rightarrow> string \<Rightarrow> path" where
  "old_path p u = butlast p @ [last p @ ''.old-'' @ u]"

definition write_replace_journal :: "path \<Rightarrow> path \<Rightarrow> path \<Rightarrow> unit act" where
  "write_replace_journal target source backup = (let j = replace_journal_path target in
     andthen (effect (put_node j (File Garbage))) (\<lambda>_.
     andthen (effect (put_node j (File (Replace_journal source backup)))) (\<lambda>_.
     andthen (sync_file j) (\<lambda>_. sync_directory (butlast j)))))"

definition replace_file :: "host \<Rightarrow> path \<Rightarrow> path \<Rightarrow> unit act" where
  "replace_file h source target =
     (if h_windows h then
        andthen (gets (\<lambda>w. path_exists w target)) (\<lambda>e.
        if \<not> e then rename_file source target
        else handle (rename_file source target) ret (\<lambda>replace_error.
          handle (fault_at h Registry_replace_fallback (Some ''REPLACE_FILE_FALLBACK'') None
                    (Some (error_text replace_error)))
            (\<lambda>_. andthen (new_uuid h) (\<lambda>u.
               let backup = old_path target u; j = replace_journal_path target in
               andthen (write_replace_journal target source backup) (\<lambda>_.
               andthen (rename_file target backup) (\<lambda>_.
               handle (rename_file source target)
                 (\<lambda>_. andthen (ignore (remove_file backup)) (\<lambda>_. ignore (remove_file j)))
                 (\<lambda>err. andthen (attempt_ok (rename_file backup target)) (\<lambda>restored.
                    andthen (if restored \<noteq> None then ignore (remove_file j) else ret ()) (\<lambda>_.
                    raise (Acc_io (error_text replace_error @ ''; fallback: '' @
                      error_text err)))))))))
            (\<lambda>err. raise (Acc_io (error_text err)))))
      else rename_file source target)"

definition create_new :: "path \<Rightarrow> unit act" where
  "create_new p = andthen (gets (\<lambda>w. node_at w p)) (\<lambda>n.
     if n \<noteq> None then raise (Acc_io ''already exists'') else effect (put_node p (File Garbage)))"

definition write_json_atomic :: "host \<Rightarrow> path \<Rightarrow> content \<Rightarrow> unit act" where
  "write_json_atomic h p c =
     andthen (create_dir_all (butlast p)) (\<lambda>_.
     andthen (new_uuid h) (\<lambda>u. let temp = temp_path p u in
     andthen (create_new temp) (\<lambda>_.
     andthen (effect (put_node temp (File c))) (\<lambda>_.
     andthen (effect (\<lambda>w. w)) (\<lambda>_.
     andthen (effect (\<lambda>w. w)) (\<lambda>_.
     handle (replace_file h temp p)
       (\<lambda>_. sync_directory (butlast p))
       (\<lambda>e. andthen (ignore (remove_file temp)) (\<lambda>_.
          raise (Acc_io (''atomic replace '' @ path_text p @ '': '' @ error_text e))))))))))"

section \<open>What the primitives leave\<close>

text \<open>Temporary files aside, the disk is as before; or it is as before but for one path.\<close>

definition is_temp :: "path \<Rightarrow> bool" where
  "is_temp p \<longleftrightarrow> p \<noteq> [] \<and> starts_with (last p) ''.'' \<and> ends_with (last p) ''.tmp''"

text \<open>Time passes: the clock moves on, the list of luck gets shorter.\<close>

definition elapses :: "world \<Rightarrow> world \<Rightarrow> bool" where
  "elapses w w' \<longleftrightarrow> w_tick w \<le> w_tick w' \<and> set (w_luck w') \<subseteq> set (w_luck w)"

text \<open>What a path holds, directories aside: making a directory that is missing changes no
  file.\<close>

definition file_at :: "world \<Rightarrow> path \<Rightarrow> node option" where
  "file_at w p = (case node_at w p of Some Dir \<Rightarrow> None | n \<Rightarrow> n)"

definition untouched :: "world \<Rightarrow> world \<Rightarrow> bool" where
  "untouched w w' \<longleftrightarrow> elapses w w' \<and> node_at w' = node_at w"

definition same_files :: "world \<Rightarrow> world \<Rightarrow> bool" where
  "same_files w w' \<longleftrightarrow> elapses w w' \<and> (\<forall>p. \<not> is_temp p \<longrightarrow> file_at w' p = file_at w p)"

definition stored :: "path \<Rightarrow> node option \<Rightarrow> world \<Rightarrow> world \<Rightarrow> bool" where
  "stored q n w w' \<longleftrightarrow> elapses w w' \<and>
     (\<forall>p. \<not> is_temp p \<longrightarrow> file_at w' p = (if p = q then n else file_at w p))"

lemma elapses_refl [simp]: "elapses w w"
  by (simp add: elapses_def)

lemma elapses_trans [trans]: "elapses a b \<Longrightarrow> elapses b c \<Longrightarrow> elapses a c"
  by (auto simp: elapses_def)

lemma elapses_put [simp]:
  "elapses w (put_node p n w') = elapses w w'" "elapses w (drop_node p w') = elapses w w'"
  "elapses (put_node p n w) w' = elapses w w'" "elapses (drop_node p w) w' = elapses w w'"
  "elapses w w' \<Longrightarrow> elapses w (w'\<lparr>w_tick := Suc (w_tick w')\<rparr>)"
  by (auto simp: elapses_def put_node_def drop_node_def)

lemma elapses_tick: "elapses (w\<lparr>w_tick := Suc (w_tick w)\<rparr>) w' \<Longrightarrow> elapses w w'"
  by (simp add: elapses_def)

lemma untouched_refl [simp]: "untouched w w"
  by (simp add: untouched_def)

lemma same_files_refl [simp]: "same_files w w"
  by (simp add: same_files_def)

lemma untouched_trans [trans]: "untouched a b \<Longrightarrow> untouched b c \<Longrightarrow> untouched a c"
  by (auto simp: untouched_def intro: elapses_trans)

lemma same_files_trans [trans]: "same_files a b \<Longrightarrow> same_files b c \<Longrightarrow> same_files a c"
  by (auto simp: same_files_def intro: elapses_trans)

lemma stored_trans [trans]:
  "same_files a b \<Longrightarrow> stored p n b c \<Longrightarrow> stored p n a c"
  "stored p n a b \<Longrightarrow> same_files b c \<Longrightarrow> stored p n a c"
  by (auto simp: same_files_def stored_def intro: elapses_trans)

lemma file_at_put [simp]:
  "file_at (put_node p (File c) w) q = (if q = p then Some (File c) else file_at w q)"
  "file_at (put_node p Dir w) q = (if q = p then None else file_at w q)"
  "file_at (drop_node p w) q = (if q = p then None else file_at w q)"
  by (simp_all add: file_at_def)

lemma file_at_others [simp]:
  "file_at (w\<lparr>w_luck := l\<rparr>) = file_at w" "file_at (w\<lparr>w_tick := t\<rparr>) = file_at w"
  "file_at (w\<lparr>w_evidence := e\<rparr>) = file_at w" "file_at (w\<lparr>w_migration := s\<rparr>) = file_at w"
  by (simp_all add: file_at_def fun_eq_iff)

lemma file_at_eq: "node_at w' = node_at w \<Longrightarrow> file_at w' = file_at w"
  by (simp add: file_at_def fun_eq_iff)

lemma file_at_None: "node_at w p = None \<Longrightarrow> file_at w p = None"
  "node_at w p = Some Dir \<Longrightarrow> file_at w p = None"
  by (simp_all add: file_at_def)

lemma file_at_file: "file_at w p = Some (File c) \<longleftrightarrow> node_at w p = Some (File c)"
  by (auto simp: file_at_def split: option.splits node.splits)

lemma untouched_iff:
  "untouched w w' \<longleftrightarrow> elapses w w' \<and> node_at w' = node_at w \<and> file_at w' = file_at w"
  by (auto simp: untouched_def dest: file_at_eq)

lemma untouched_same: "untouched w w' \<Longrightarrow> same_files w w'"
  by (simp add: same_files_def untouched_iff)

lemma take_luck_cases:
  obtains l w' where "take_luck w = (l, w')" "untouched w w'" "l \<in> insert Fine (set (w_luck w))"
proof
  show "take_luck w = (fst (take_luck w), snd (take_luck w))" by simp
  show "untouched w (snd (take_luck w))" "fst (take_luck w) \<in> insert Fine (set (w_luck w))"
    by (auto simp: untouched_def elapses_def take_luck_def split: list.splits)
qed

lemma wp_effect:
  assumes "\<And>w'. untouched w w' \<Longrightarrow> Q () (f w')"
    and "\<And>w'. untouched w w' \<Longrightarrow> E (Acc_io ''i/o error'') w'"
    and "\<And>w'. untouched w w' \<Longrightarrow> K w'"
  shows "wp (effect f) Q E K w"
proof (cases rule: take_luck_cases[of w])
  case (1 l w')
  then show ?thesis using assms by (cases l) (simp_all add: wp_def effect_def)
qed

text \<open>An access goes well where the luck holds no read error.\<close>

definition calm :: "world \<Rightarrow> bool" where
  "calm w \<longleftrightarrow> Read_error \<notin> set (w_luck w)"

lemma calm_elapses: "calm w \<Longrightarrow> elapses w w' \<Longrightarrow> calm w'"
  by (auto simp: calm_def elapses_def)

lemma wp_access:
  assumes "\<And>w'. untouched w w' \<Longrightarrow> Q () w'"
    and "\<And>w'. \<not> calm w \<Longrightarrow> untouched w w' \<Longrightarrow> E e w'"
    and "\<And>w'. untouched w w' \<Longrightarrow> K w'"
  shows "wp (access e) Q E K w"
proof (cases rule: take_luck_cases[of w])
  case (1 l w')
  then show ?thesis using assms by (cases l) (simp_all add: wp_def access_def calm_def)
qed

lemma wp_tick [simp]: "wp (tick f) Q E K w = Q (f (w_tick w)) (w\<lparr>w_tick := Suc (w_tick w)\<rparr>)"
  by (simp add: wp_def tick_def)

lemma untouched_tick [simp]: "untouched w (w\<lparr>w_tick := Suc (w_tick w)\<rparr>)"
  by (simp add: untouched_def elapses_def)

lemma wp_fault_at:
  assumes "\<And>w'. untouched w w' \<Longrightarrow> Q () w'"
    and "\<And>s w'. untouched w w' \<Longrightarrow> E (Fault_injected s) w'"
    and "\<And>w'. untouched w w' \<Longrightarrow> K w'"
  shows "wp (fault_at h pt a b c) Q E K w"
  using assms
  by (auto simp: fault_at_def fault_event_new_def new_uuid_def now_text_def record_evidence_def
      wp_def andthen_def tick_def raise_def ret_def node_at_def untouched_def elapses_def fun_eq_iff
      split: option.splits fault_action.splits)

lemma is_temp_snoc [simp]:
  "is_temp (p @ [n]) \<longleftrightarrow> starts_with n ''.'' \<and> ends_with n ''.tmp''"
  by (simp add: is_temp_def)

lemma temp_path_is_temp [simp]: "is_temp (temp_path p u)"
  by (simp add: temp_path_def starts_with_def ends_with_def)

text \<open>An atomic write where a rename replaces its target: the new content is there exactly if
  the write succeeded.\<close>

lemma wp_create_dir_all:
  assumes "\<And>w'. same_files w w' \<Longrightarrow> Q () w'" and "\<And>e w'. same_files w w' \<Longrightarrow> E e w'"
    and "\<And>w'. same_files w w' \<Longrightarrow> K w'"
  shows "wp (create_dir_all p) Q E K w"
  using assms
  by (auto simp: create_dir_all_def same_files_def untouched_iff file_at_None
      intro!: wp_effect)

lemma wp_put_temp:
  assumes "is_temp t"
    and "\<And>w'. same_files w w' \<Longrightarrow> node_at w' t = Some n \<Longrightarrow> Q () w'"
    and "\<And>e w'. same_files w w' \<Longrightarrow> E e w'" and "\<And>w'. same_files w w' \<Longrightarrow> K w'"
  shows "wp (effect (put_node t n)) Q E K w"
proof (rule wp_effect)
  fix w' assume u: "untouched w w'"
  have "file_at (put_node t n w') p = file_at w p" if "\<not> is_temp p" for p
    using that assms(1) u by (auto simp: file_at_def untouched_iff)
  then show "Q () (put_node t n w')" using u assms(2) by (simp add: same_files_def untouched_iff)
qed (use assms untouched_same in auto)

lemma wp_remove_file:
  assumes "\<And>w'. stored p None w w' \<Longrightarrow> Q () w'"
    and "\<And>e w'. same_files w w' \<Longrightarrow> e \<noteq> not_found \<Longrightarrow> E e w'"
    and "\<And>w'. same_files w w' \<Longrightarrow> K w'" and "file_at w p = None \<Longrightarrow> E not_found w"
  shows "wp (remove_file p) Q E K w"
  using assms
  by (auto simp: remove_file_def stored_def same_files_def untouched_iff not_found_def file_at_None
      split: option.splits node.splits intro!: wp_effect)

lemma wp_remove_temp:
  assumes "is_temp t" and "\<And>w'. same_files w w' \<Longrightarrow> Q () w'"
    and "\<And>e w'. same_files w w' \<Longrightarrow> E e w'" and "\<And>w'. same_files w w' \<Longrightarrow> K w'"
  shows "wp (remove_file t) Q E K w"
proof -
  have "stored t None w w' \<Longrightarrow> same_files w w'" for w'
    using assms(1) by (auto simp: stored_def same_files_def)
  then show ?thesis using assms by (auto intro!: wp_remove_file)
qed

lemma wp_rename_temp:
  assumes "is_temp t" "\<not> is_temp p" "node_at w t = Some (File c)"
    and "\<And>w'. stored p (Some (File c)) w w' \<Longrightarrow> Q () w'"
    and "\<And>e w'. same_files w w' \<Longrightarrow> E e w'" and "\<And>w'. same_files w w' \<Longrightarrow> K w'"
  shows "wp (rename_file t p) Q E K w"
  using assms
  by (auto simp: rename_file_def stored_def same_files_def untouched_iff intro!: wp_effect)

lemma wp_write_json_atomic:
  assumes unix: "\<not> h_windows h" and p: "\<not> is_temp p"
    and Q: "\<And>w'. stored p (Some (File c)) w w' \<Longrightarrow> Q () w'"
    and E: "\<And>e w'. same_files w w' \<Longrightarrow> E e w'"
    and K: "\<And>w'. same_files w w' \<Longrightarrow> K w'"
  shows "wp (write_json_atomic h p c) Q E K w"
proof -
  let ?inv = "\<lambda>t v. same_files w v \<and> node_at v t = Some (File c)"
  have put: "wp (effect (put_node (temp_path p u) (File d))) (\<lambda>_ v. same_files w v \<and>
      node_at v (temp_path p u) = Some (File d)) (\<lambda>_. same_files w) (same_files w) v"
    if "same_files w v" for d u v
    by (rule wp_put_temp) (use that same_files_trans in auto)
  have idle: "wp (effect (\<lambda>w. w)) (\<lambda>_. ?inv t) (\<lambda>_. same_files w) (same_files w) v"
    if "?inv t v" for t v
    by (rule wp_effect) (use that untouched_same same_files_trans in \<open>auto simp: untouched_iff\<close>)
  have replace: "wp (replace_file h (temp_path p u) p) (\<lambda>_. stored p (Some (File c)) w)
      (\<lambda>_. same_files w) (same_files w) v" if "?inv (temp_path p u) v" for u v
    using unix unfolding replace_file_def
    by (simp, intro wp_rename_temp) (use that p same_files_trans stored_trans in auto)
  have clean: "wp (remove_file (temp_path p u)) (\<lambda>_. same_files w) (\<lambda>_. same_files w)
      (same_files w) v" if "same_files w v" for u v
    by (rule wp_remove_temp) (use that same_files_trans in auto)
  have "wp (write_json_atomic h p c) (\<lambda>_. stored p (Some (File c)) w) (\<lambda>_. same_files w)
      (same_files w) w"
    unfolding write_json_atomic_def new_uuid_def create_new_def sync_directory_def Let_def
      wp_andthen wp_handle
    apply (rule wp_create_dir_all)
    subgoal for v
      apply simp
      apply (intro conjI impI)
      subgoal by (simp add: same_files_def elapses_def)
      subgoal
        apply (rule wp_mono[OF put])
        subgoal by (simp add: same_files_def elapses_def)
        apply (erule conjE, rule wp_mono[OF put], assumption)
        apply (rule wp_mono[OF idle], assumption)
        apply (rule wp_mono[OF idle], assumption)
        apply (rule wp_mono[OF replace], assumption, assumption)
        apply (erule wp_mono[OF clean], assumption+)+
        done
      done
    by assumption+
  then show ?thesis by (rule wp_mono) (auto intro: Q E K)
qed

end
