(* ===== verification/AccRegistry.thy ===== *)
theory AccRegistry
  imports AccPaths
begin

text \<open>
  \<open>src/crates/native-accounts/src/registry.rs\<close>: the records of the accounts, what a valid
  registry is, the operations on it, reading and saving \<open>accounts.json\<close>, and the recovery of a
  registry whose replacement was cut off. \<open>serde_json\<close> writes different registries as
  different bytes, so the comparison of serialised candidates is equality.
\<close>

section \<open>Text\<close>

definition acc_normalize_email :: "string \<Rightarrow> string" where
  "acc_normalize_email email = to_ascii_lowercase (trim email)"

definition valid_email :: "string \<Rightarrow> bool" where
  "valid_email email = (let trimmed = trim email in
     length trimmed \<le> 320 \<and> \<not> list_ex is_whitespace (str_chars trimmed) \<and>
     length (split_on (CHR ''@'') trimmed) = 2 \<and>
     list_all (\<lambda>part. part \<noteq> []) (split_on (CHR ''@'') trimmed))"

definition trim_end_slash :: "string \<Rightarrow> string" where
  "trim_end_slash s = rev (dropWhile (\<lambda>c. c = CHR ''/'') (rev s))"

definition bad_api_url :: account_error where
  "bad_api_url = Invalid_registry ''api url must be an absolute http(s) URL''"

definition normalize_api_url :: "string \<Rightarrow> account_error + string" where
  "normalize_api_url api_url = (let trimmed = trim_end_slash (trim api_url) in
     if trimmed = [] \<or> list_ex is_whitespace (str_chars trimmed) then Inl bad_api_url
     else let canonical = to_ascii_lowercase trimmed in
       if \<not> (starts_with canonical ''http://'' \<or> starts_with canonical ''https://'')
       then Inl bad_api_url else Inr canonical)"

section \<open>Records\<close>

definition account_anonymous :: "host \<Rightarrow> account_record act" where
  "account_anonymous h = andthen (now_text h) (\<lambda>now. ret
     \<lparr>ar_id = DEFAULT_ACCOUNT_ID, ar_kind = Anonymous, ar_email = None, ar_api_url = None,
      ar_pending = False, ar_created_at = now, ar_schema_version = 1,
      ar_last_opened_at = now\<rparr>)"

definition account_cloud_with_id :: "host \<Rightarrow> string \<Rightarrow> string \<Rightarrow> account_record act" where
  "account_cloud_with_id h i email = andthen (now_text h) (\<lambda>now. ret
     \<lparr>ar_id = i, ar_kind = Cloud, ar_email = Some (acc_normalize_email email),
      ar_api_url = None, ar_pending = False, ar_created_at = now, ar_schema_version = 1,
      ar_last_opened_at = now\<rparr>)"

definition account_cloud :: "host \<Rightarrow> string \<Rightarrow> account_record act" where
  "account_cloud h email = andthen (new_uuid h) (\<lambda>i. account_cloud_with_id h i email)"

definition account_cloud_with_identity :: "host \<Rightarrow> string \<Rightarrow> string \<Rightarrow> string \<Rightarrow> bool \<Rightarrow>
    account_record act" where
  "account_cloud_with_identity h i email api_url pending =
     andthen (of_result (normalize_api_url api_url)) (\<lambda>url.
     andthen (now_text h) (\<lambda>now. ret
     \<lparr>ar_id = i, ar_kind = Cloud, ar_email = Some (acc_normalize_email email),
      ar_api_url = Some url, ar_pending = pending, ar_created_at = now, ar_schema_version = 1,
      ar_last_opened_at = now\<rparr>))"

definition account_touch :: "host \<Rightarrow> account_record \<Rightarrow> account_record act" where
  "account_touch h a = andthen (now_text h) (\<lambda>now. ret (a\<lparr>ar_last_opened_at := now\<rparr>))"

section \<open>The registry\<close>

definition new_with_default :: "host \<Rightarrow> account_registry act" where
  "new_with_default h = andthen (account_anonymous h) (\<lambda>a. ret
     \<lparr>rg_version = 1, rg_active = DEFAULT_ACCOUNT_ID, rg_accounts = [a]\<rparr>)"

definition validate_anonymous :: "account_record \<Rightarrow> account_error + unit" where
  "validate_anonymous a =
     (if ar_id a \<noteq> DEFAULT_ACCOUNT_ID
        then Inl (Invalid_registry ''anonymous account must be default'')
      else if ar_email a \<noteq> None
        then Inl (Invalid_registry ''anonymous account must not contain email'')
      else if ar_api_url a \<noteq> None \<or> ar_pending a
        then Inl (Invalid_registry ''anonymous account must not have server identity'')
      else Inr ())"

definition validate_cloud :: "account_record \<Rightarrow> account_error + unit" where
  "validate_cloud a =
     (if ar_id a = DEFAULT_ACCOUNT_ID
        then Inl (Invalid_registry ''cloud account cannot use default id'')
      else and_then (ok_or (case ar_email a of
             Some e \<Rightarrow> if valid_email e then Some e else None
           | None \<Rightarrow> None) (Invalid_registry (''cloud account '' @ ar_id a @ '' has invalid email'')))
        (\<lambda>email.
          if email \<noteq> acc_normalize_email email
            then Inl (Invalid_registry (''cloud account '' @ ar_id a @ '' email is not normalized''))
          else case ar_api_url a of
              Some url \<Rightarrow> and_then (normalize_api_url url) (\<lambda>normalized.
                if normalized \<noteq> url
                then Inl (Invalid_registry
                  (''cloud account '' @ ar_id a @ '' api url is not normalized''))
                else Inr ())
            | None \<Rightarrow> if ar_pending a
                then Inl (Invalid_registry
                  (''pending account '' @ ar_id a @ '' must have an api url''))
                else Inr ()))"

definition validate_account :: "host \<Rightarrow> account_record \<Rightarrow> string list \<Rightarrow>
    account_error + string list" where
  "validate_account h a ids =
     and_then (validate_account_id h (ar_id a)) (\<lambda>_.
       if ar_id a \<in> set ids then Inl (Invalid_registry (''duplicate account id '' @ ar_id a))
       else if ar_schema_version a = 0
         then Inl (Invalid_registry (''account '' @ ar_id a @ '' has zero schema version''))
       else and_then (case ar_kind a of
             Anonymous \<Rightarrow> validate_anonymous a
           | Cloud \<Rightarrow> validate_cloud a) (\<lambda>_. Inr (ids @ [ar_id a])))"

definition validate_registry :: "host \<Rightarrow> account_registry \<Rightarrow> account_error + unit" where
  "validate_registry h r =
     (if rg_version r \<noteq> 1
        then Inl (Invalid_registry (''unsupported registry version '' @ show_nat (rg_version r)))
      else if rg_accounts r = [] then Inl (Invalid_registry ''registry has no accounts'')
      else and_then (try_fold (validate_account h) (rg_accounts r) []) (\<lambda>ids.
        if rg_active r \<notin> set ids
        then Inl (Invalid_registry (''active account '' @ rg_active r @ '' is not registered''))
        else Inr ()))"

definition rg_account :: "account_registry \<Rightarrow> string \<Rightarrow> account_record option" where
  "rg_account r i = lookup_row ar_id (rg_accounts r) i"

text \<open>\<open>account_mut\<close>: the first account with the id is changed.\<close>

primrec update_account :: "string \<Rightarrow> (account_record \<Rightarrow> account_record) \<Rightarrow> account_record list \<Rightarrow>
    account_record list" where
  "update_account i f [] = []"
| "update_account i f (a # as) = (if ar_id a = i then f a # as else a # update_account i f as)"

text \<open>\<open>active().expect(..)\<close>: a panic ends the process.\<close>

definition active_account :: "account_registry \<Rightarrow> account_record act" where
  "active_account r = (case rg_account r (rg_active r) of
     Some a \<Rightarrow> ret a
   | None \<Rightarrow> (\<lambda>w. (Killed, w)))"

definition find_cloud_by_email :: "account_registry \<Rightarrow> string \<Rightarrow> account_record option" where
  "find_cloud_by_email r email = find (\<lambda>a. ar_kind a = Cloud \<and>
     ar_email a = Some (acc_normalize_email email)) (rg_accounts r)"

definition find_cloud_by_identity :: "account_registry \<Rightarrow> string \<Rightarrow> string \<Rightarrow>
    account_record option" where
  "find_cloud_by_identity r email api_url = (case normalize_api_url api_url of
     Inl e \<Rightarrow> None
   | Inr api \<Rightarrow> find (\<lambda>a. ar_kind a = Cloud \<and>
       ar_email a = Some (acc_normalize_email email) \<and> ar_api_url a = Some api) (rg_accounts r))"

definition ensure_default :: "host \<Rightarrow> account_registry \<Rightarrow> account_registry act" where
  "ensure_default h r = (case rg_account r DEFAULT_ACCOUNT_ID of
     Some a \<Rightarrow> ret r
   | None \<Rightarrow> andthen (account_anonymous h) (\<lambda>a. ret (r\<lparr>rg_accounts := rg_accounts r @ [a]\<rparr>)))"

definition rg_upsert :: "host \<Rightarrow> account_record \<Rightarrow> account_registry \<Rightarrow>
    account_error + account_registry" where
  "rg_upsert h a r = and_then (validate_account_id h (ar_id a)) (\<lambda>_.
     if rg_account r (ar_id a) \<noteq> None
     then Inr (r\<lparr>rg_accounts := update_account (ar_id a) (\<lambda>_. a) (rg_accounts r)\<rparr>)
     else Inr (r\<lparr>rg_accounts := rg_accounts r @ [a]\<rparr>))"

definition set_active :: "string \<Rightarrow> account_registry \<Rightarrow> account_error + account_registry" where
  "set_active i r =
     (if rg_account r i = None
      then Inl (Invalid_registry (''active account '' @ i @ '' is not registered''))
      else Inr (r\<lparr>rg_active := i\<rparr>))"

definition rg_database_path :: "host \<Rightarrow> account_registry \<Rightarrow> string \<Rightarrow> account_error + path" where
  "rg_database_path h r i =
     (if rg_account r i = None
      then Inl (Invalid_registry (''account '' @ i @ '' is not registered''))
      else database_path h i)"

definition ensure_active_directory :: "host \<Rightarrow> account_registry \<Rightarrow> path act" where
  "ensure_active_directory h r = ensure_account_dir h (rg_active r)"

record active_context =
  cx_account_id :: string
  cx_kind :: account_kind
  cx_email :: "string option"
  cx_api_url :: "string option"
  cx_database_path :: path
  cx_migrated_from_legacy :: bool

definition context_new :: "host \<Rightarrow> account_registry \<Rightarrow> bool \<Rightarrow> active_context act" where
  "context_new h r migrated = andthen (active_account r) (\<lambda>a.
     andthen (of_result (rg_database_path h r (ar_id a))) (\<lambda>p. ret
       \<lparr>cx_account_id = ar_id a, cx_kind = ar_kind a, cx_email = ar_email a,
        cx_api_url = ar_api_url a, cx_database_path = p,
        cx_migrated_from_legacy = migrated\<rparr>))"

section \<open>accounts.json\<close>

definition read_registry_file :: "host \<Rightarrow> path \<Rightarrow> account_registry act" where
  "read_registry_file h p = andthen (read_file p) (\<lambda>c.
     andthen (of_result (ok_or (registry_of c) (Acc_json ''expected value''))) (\<lambda>r.
     andthen (of_result (validate_registry h r)) (\<lambda>_. ret r)))"

definition registry_load :: "host \<Rightarrow> account_registry act" where
  "registry_load h = read_registry_file h (accounts_file h)"

definition registry_save :: "host \<Rightarrow> account_registry \<Rightarrow> unit act" where
  "registry_save h r = andthen (of_result (validate_registry h r)) (\<lambda>_.
     write_json_atomic h (accounts_file h) (Registry_file r))"

text \<open>The candidates of a replacement journal that are files, all inside the data root.\<close>

primrec journal_candidates :: "host \<Rightarrow> string \<Rightarrow> path list \<Rightarrow> path list act" where
  "journal_candidates h what [] = ret []"
| "journal_candidates h what (c # cs) =
     andthen (gets (\<lambda>w. (is_file w c, canonical w c))) (\<lambda>(f, p).
       if \<not> f then journal_candidates h what cs
       else andthen (guard (\<not> prefix (h_root h) p)
              (Unsafe_path (what @ '' journal escapes data root: '') c)) (\<lambda>_.
            andthen (journal_candidates h what cs) (\<lambda>rest. ret (c # rest))))"

primrec first_registry :: "host \<Rightarrow> path list \<Rightarrow> account_registry option act" where
  "first_registry h [] = ret None"
| "first_registry h (c # cs) = andthen (attempt_ok (read_registry_file h c)) (\<lambda>r.
     if r \<noteq> None then ret r else first_registry h cs)"

definition recover_from_journal :: "host \<Rightarrow> path \<Rightarrow> account_registry option act" where
  "recover_from_journal h target = (let journal = replace_journal_path target in
     andthen (gets (\<lambda>w. (path_exists w journal, is_symlink w journal))) (\<lambda>(e, s).
     if \<not> e then ret None
     else andthen (guard s (Unsafe_path ''registry replacement journal is a symlink: '' journal)) (\<lambda>_.
       andthen (handle (read_file journal) ret (\<lambda>err. raise (Invalid_registry
           (''registry replacement journal is unreadable: '' @ error_text err)))) (\<lambda>raw.
       case raw of
         Replace_journal source backup \<Rightarrow>
           andthen (journal_candidates h ''registry replacement'' [source, backup]) (\<lambda>existing.
           andthen (first_registry h existing) (\<lambda>chosen.
           andthen (of_result (ok_or chosen (Invalid_registry
               ''replacement journal candidates are missing or invalid''))) (\<lambda>registry.
           andthen (registry_save h registry) (\<lambda>_.
           andthen (ignore (remove_file journal)) (\<lambda>_. ret (Some registry))))))
       | _ \<Rightarrow> raise (Invalid_registry ''replacement journal has no source'')))))"

definition is_artifact :: "string \<Rightarrow> bool" where
  "is_artifact name \<longleftrightarrow> starts_with name ''accounts.json.old-'' \<or>
     starts_with name ''accounts.old-'' \<or>
     (starts_with name ''.accounts.json.'' \<and> ends_with name ''.tmp'')"

definition read_dir :: "path \<Rightarrow> path list act" where
  "read_dir d = andthen (access (Acc_io ''i/o error'')) (\<lambda>_.
     gets (\<lambda>w. filter (\<lambda>p. p \<noteq> [] \<and> butlast p = d) (map fst (w_files w))))"

primrec scan_artifacts :: "host \<Rightarrow> path list \<Rightarrow> account_registry list \<Rightarrow> path list \<Rightarrow>
    (account_registry list \<times> path list) act" where
  "scan_artifacts h [] candidates invalid = ret (candidates, invalid)"
| "scan_artifacts h (p # ps) candidates invalid =
     (if \<not> is_artifact (last p) then scan_artifacts h ps candidates invalid
      else andthen (gets (\<lambda>w. is_symlink w p)) (\<lambda>s.
        if s then scan_artifacts h ps candidates (invalid @ [p])
        else handle (read_registry_file h p)
          (\<lambda>r. scan_artifacts h ps (candidates @ [r]) invalid)
          (\<lambda>_. scan_artifacts h ps candidates (invalid @ [p]))))"

definition unique_registries :: "account_registry list \<Rightarrow>
    account_error + account_registry option" where
  "unique_registries candidates = (case candidates of
     [] \<Rightarrow> Inr None
   | first # rest \<Rightarrow>
       if list_ex (\<lambda>c. c \<noteq> first) rest
       then Inl (Invalid_registry ''multiple conflicting registry replacement artifacts'')
       else Inr (Some first))"

definition recover_from_artifacts :: "host \<Rightarrow> account_registry option act" where
  "recover_from_artifacts h = (let target = accounts_file h in
     andthen (gets (\<lambda>w. is_dir w (h_root h))) (\<lambda>d.
     andthen (if d then andthen (read_dir (h_root h)) (\<lambda>ps. scan_artifacts h ps [] [])
              else ret ([], [])) (\<lambda>(candidates, invalid).
     andthen (of_result (unique_registries candidates)) (\<lambda>unique.
     andthen (gets (\<lambda>w. path_exists w target)) (\<lambda>e.
     case unique of
       None \<Rightarrow>
         if e then raise (Invalid_registry
           ''accounts.json is corrupt and no valid replacement backup exists'')
         else if invalid \<noteq> [] then raise (Invalid_registry
           ''registry replacement artifacts exist but none is valid'')
         else ret None
     | Some registry \<Rightarrow>
         andthen (if e then andthen (attempt_ok (read_registry_file h target)) (\<lambda>r. ret (r \<noteq> None))
                  else ret False) (\<lambda>readable.
         if readable then ret (Some registry)
         else andthen (registry_save h registry) (\<lambda>_. ret (Some registry))))))))"

definition recover_registry :: "host \<Rightarrow> account_registry option act" where
  "recover_registry h = andthen (recover_from_journal h (accounts_file h)) (\<lambda>r.
     if r \<noteq> None then ret r else recover_from_artifacts h)"

definition load_with_recovery :: "host \<Rightarrow> account_registry option act" where
  "load_with_recovery h = (let target = accounts_file h in
     andthen (gets (\<lambda>w. (path_exists w target, is_symlink w target))) (\<lambda>(e, s).
     if e then andthen (guard s (Unsafe_path ''accounts.json is a symlink: '' target)) (\<lambda>_.
       handle (read_registry_file h target) (\<lambda>r. ret (Some r)) (\<lambda>_. recover_registry h))
     else recover_registry h))"

end
