(* ===== verification/AccSnapshot.thy ===== *)
theory AccSnapshot
  imports AccRegistry
begin

text \<open>
  \<open>src/crates/native-accounts/src/snapshot.rs\<close>: what the account crate reads from a database to
  compare two copies of it, and the digests it compares them by. \<open>Sha256\<close> is the host's
  function; the bytes it is given are written out.
\<close>

section \<open>Digests\<close>

definition hex :: "string \<Rightarrow> string" where
  "hex bytes = concat (map (\<lambda>c. [hex_char (byte c div 16), hex_char (byte c mod 16)]) bytes)"

definition hex16 :: "64 word \<Rightarrow> string" where
  "hex16 v = map (\<lambda>i. hex_char (unat v div 16 ^ (15 - i) mod 16)) [0..<16]"

definition encode_value :: "host \<Rightarrow> lite_value \<Rightarrow> json" where
  "encode_value h v = (case v of
     Lite_null \<Rightarrow> JNull
   | Lite_integer i \<Rightarrow> JNum (JInt i)
   | Lite_real bits \<Rightarrow> JStr (''real:'' @ hex16 bits)
   | Lite_text s \<Rightarrow> JStr (''text:'' @ h_utf8_lossy h s)
   | Lite_blob b \<Rightarrow> JStr (''blob:'' @ hex b))"

definition table_content_digest :: "host \<Rightarrow> string \<Rightarrow> lite_table \<Rightarrow> string" where
  "table_content_digest h name tb =
     (if tb_columns tb = [] then hex (h_sha h (name @ '':no-columns''))
      else hex (h_sha h (name @ [CHR 0x00] @ join [CHR 0x1F] (tb_columns tb) @ [CHR 0x1E] @
        concat (map (\<lambda>row. json_to_string (JArr (map (encode_value h) row)) @ [CHR 0x1E])
          (tb_rows tb)))))"

section \<open>Queries\<close>

definition table_exists :: "database \<Rightarrow> string \<Rightarrow> bool" where
  "table_exists db name \<longleftrightarrow> map_of (db_tables db) name \<noteq> None"

definition column_index :: "lite_table \<Rightarrow> string \<Rightarrow> nat option" where
  "column_index tb c = find (\<lambda>i. tb_columns tb ! i = c) [0..<length (tb_columns tb)]"

definition sql_error :: account_error where
  "sql_error = Acc_sqlite ''sqlite error''"

fun get_text :: "lite_value \<Rightarrow> account_error + string" where
  "get_text (Lite_text s) = Inr s"
| "get_text _ = Inl sql_error"

fun get_integer :: "lite_value \<Rightarrow> account_error + int" where
  "get_integer (Lite_integer i) = Inr i"
| "get_integer _ = Inl sql_error"

fun get_optional_text :: "lite_value \<Rightarrow> account_error + string option" where
  "get_optional_text Lite_null = Inr None"
| "get_optional_text v = and_then (get_text v) (\<lambda>s. Inr (Some s))"

primrec collect :: "('a \<Rightarrow> 'e + 'b) \<Rightarrow> 'a list \<Rightarrow> 'e + 'b list" where
  "collect f [] = Inr []"
| "collect f (x # xs) = and_then (f x) (\<lambda>y. and_then (collect f xs) (\<lambda>ys. Inr (y # ys)))"

text \<open>\<open>SELECT c1, c2, .. FROM table\<close> in the order of the primary key.\<close>

definition select_columns :: "database \<Rightarrow> string \<Rightarrow> string list \<Rightarrow>
    account_error + lite_value list list" where
  "select_columns db name cs = and_then (ok_or (map_of (db_tables db) name) sql_error) (\<lambda>tb.
     and_then (collect (\<lambda>c. ok_or (column_index tb c) sql_error) cs) (\<lambda>is.
       Inr (map (\<lambda>row. map (\<lambda>i. row ! i) is) (tb_rows tb))))"

definition kv_get :: "database \<Rightarrow> string \<Rightarrow> account_error + string option" where
  "kv_get db key =
     (if \<not> table_exists db ''kv_state'' then Inr None
      else and_then (select_columns db ''kv_state'' [''key'', ''value'']) (\<lambda>rows.
        case find (\<lambda>row. row ! 0 = Lite_text key) rows of
          None \<Rightarrow> Inr None
        | Some row \<Rightarrow> and_then (get_text (row ! 1)) (\<lambda>v. Inr (if v = [] then None else Some v))))"

definition snapshot_tables :: "string list" where
  "snapshot_tables = [''local_lists'', ''local_tasks'', ''local_steps'', ''local_day_plans'',
     ''outbox'', ''server_shadow'', ''kv_state'', ''schema_migrations'']"

definition outbox_row_json :: "lite_value list \<Rightarrow> account_error + string" where
  "outbox_row_json row =
     and_then (get_text (row ! 0)) (\<lambda>op. and_then (get_text (row ! 1)) (\<lambda>dev.
     and_then (get_integer (row ! 2)) (\<lambda>seq. and_then (get_text (row ! 3)) (\<lambda>ty.
     and_then (get_text (row ! 4)) (\<lambda>i. and_then (get_text (row ! 5)) (\<lambda>kind.
     and_then (get_text (row ! 6)) (\<lambda>patch. and_then (get_text (row ! 7)) (\<lambda>status.
     and_then (get_optional_text (row ! 8)) (\<lambda>code.
       Inr (json_to_string (JArr [JStr op, JStr dev, JNum (JInt seq), JStr ty, JStr i, JStr kind,
         JStr patch, JStr status, case code of None \<Rightarrow> JNull | Some c \<Rightarrow> JStr c])))))))))))"

definition shadow_row_json :: "lite_value list \<Rightarrow> account_error + string" where
  "shadow_row_json row =
     and_then (get_text (row ! 0)) (\<lambda>ty. and_then (get_text (row ! 1)) (\<lambda>i.
     and_then (get_integer (row ! 2)) (\<lambda>rev. and_then (get_text (row ! 3)) (\<lambda>payload.
       Inr (json_to_string (JArr [JStr ty, JStr i, JNum (JInt rev), JStr payload]))))))"

section \<open>Snapshots\<close>

definition snapshot_summary :: "data_snapshot \<Rightarrow> verification_summary" where
  "snapshot_summary s =
     \<lparr>vs_integrity = sn_integrity s, vs_counts = sn_counts s,
      vs_table_digests = sn_table_digests s, vs_device_id = sn_device_id s,
      vs_sync_cursor = sn_sync_cursor s, vs_client_seq = sn_client_seq s,
      vs_bound_account = sn_bound_account s, vs_bound_api_url = sn_bound_api_url s,
      vs_outbox_count = length (sn_outbox_rows s), vs_shadow_count = length (sn_shadow_rows s),
      vs_schema_versions = sn_schema_versions s\<rparr>"

definition assert_same :: "data_snapshot \<Rightarrow> data_snapshot \<Rightarrow> string \<Rightarrow> account_error + unit" where
  "assert_same a b ctxt =
     (if sn_fingerprint a \<noteq> sn_fingerprint b \<or> snapshot_summary a \<noteq> snapshot_summary b
      then Inl (Verification_mismatch ctxt) else Inr ())"

definition integrity_check :: "database \<Rightarrow> path \<Rightarrow> account_error + string" where
  "integrity_check db p = (let result = join ''; '' (db_integrity db) in
     if result \<noteq> ''ok'' then Inl (Acc_integrity p result) else Inr result)"

definition json_option :: "string option \<Rightarrow> json" where
  "json_option x = (case x of None \<Rightarrow> JNull | Some s \<Rightarrow> JStr s)"

text \<open>The bytes of \<open>FingerprintInput\<close>, its fields in the order they are declared.\<close>

definition fingerprint_input :: "data_snapshot \<Rightarrow> string" where
  "fingerprint_input s = json_to_string (JObj
     [(''integrity'', JStr (sn_integrity s)),
      (''counts'', JObj (map (\<lambda>(k, n). (k, JNum (JInt (int n)))) (sn_counts s))),
      (''table_digests'', JObj (map (\<lambda>(k, d). (k, JStr d)) (sn_table_digests s))),
      (''device_id'', json_option (sn_device_id s)),
      (''sync_cursor'', json_option (sn_sync_cursor s)),
      (''client_seq'', json_option (sn_client_seq s)),
      (''bound_account'', json_option (sn_bound_account s)),
      (''bound_api_url'', json_option (sn_bound_api_url s)),
      (''outbox_rows'', JArr (map JStr (sn_outbox_rows s))),
      (''shadow_rows'', JArr (map JStr (sn_shadow_rows s))),
      (''schema_versions'', JArr (map (\<lambda>v. JNum (JInt v)) (sn_schema_versions s)))])"

definition snapshot_of :: "host \<Rightarrow> path \<Rightarrow> database \<Rightarrow> account_error + data_snapshot" where
  "snapshot_of h p db =
     and_then (integrity_check db p) (\<lambda>integrity.
     let tables = filter (table_exists db) snapshot_tables;
         counts = fold (\<lambda>t. jput t (length (tb_rows (the (map_of (db_tables db) t))))) tables [];
         digests = fold (\<lambda>t. jput t (table_content_digest h t (the (map_of (db_tables db) t))))
           tables []
     in and_then (kv_get db ''device_id'') (\<lambda>device. and_then (kv_get db ''sync_cursor'') (\<lambda>cursor.
        and_then (kv_get db ''client_seq'') (\<lambda>seq. and_then (kv_get db ''bound_account'') (\<lambda>account.
        and_then (kv_get db ''bound_api_url'') (\<lambda>url.
        and_then (if table_exists db ''outbox''
          then and_then (select_columns db ''outbox'' [''op_id'', ''device_id'', ''client_seq'',
            ''entity_type'', ''entity_id'', ''kind'', ''patch_json'', ''sync_status'',
            ''error_code'']) (collect outbox_row_json) else Inr []) (\<lambda>outbox.
        and_then (if table_exists db ''server_shadow''
          then and_then (select_columns db ''server_shadow'' [''entity_type'', ''entity_id'',
            ''server_rev'', ''payload_json'']) (collect shadow_row_json) else Inr []) (\<lambda>shadow.
        and_then (if table_exists db ''schema_migrations''
          then and_then (select_columns db ''schema_migrations'' [''version''])
            (collect (\<lambda>row. get_integer (row ! 0))) else Inr []) (\<lambda>versions.
        let s = \<lparr>sn_integrity = integrity, sn_counts = counts, sn_table_digests = digests,
                 sn_device_id = device, sn_sync_cursor = cursor, sn_client_seq = seq,
                 sn_bound_account = account, sn_bound_api_url = url, sn_outbox_rows = outbox,
                 sn_shadow_rows = shadow, sn_schema_versions = versions,
                 sn_fingerprint = []\<rparr>
        in Inr (s\<lparr>sn_fingerprint := hex (h_sha h (fingerprint_input s))\<rparr>))))))))))"

text \<open>Opening a file read-only and asking SQLite; a file that is no database is refused by the
  first query, a busy database by any of them.\<close>

definition open_read_only :: "path \<Rightarrow> database act" where
  "open_read_only p = andthen (gets (\<lambda>w. is_file w p)) (\<lambda>f.
     if \<not> f then raise (Acc_io (''database not found: '' @ path_text p))
     else andthen (access (Acc_sqlite ''database is locked'')) (\<lambda>_.
       andthen (gets (\<lambda>w. target_of w p)) (\<lambda>n. case n of
         Some (File (Database_file db)) \<Rightarrow> ret db
       | _ \<Rightarrow> raise (Acc_sqlite ''file is not a database''))))"

definition read_snapshot :: "host \<Rightarrow> path \<Rightarrow> data_snapshot act" where
  "read_snapshot h p = andthen (open_read_only p) (\<lambda>db. of_result (snapshot_of h p db))"

definition verify_integrity :: "path \<Rightarrow> unit act" where
  "verify_integrity p = andthen (open_read_only p) (\<lambda>db.
     andthen (of_result (integrity_check db p)) (\<lambda>_. ret ()))"

end
