(* ===== verification/AccSwitch.thy ===== *)
theory AccSwitch
  imports AccSnapshot
begin

text \<open>
  \<open>src/crates/native-accounts/src/switch.rs\<close>: the account list, adding and verifying a cloud
  account, and the switch from one account to another, whose journal carries it across the
  restart of the process: prepare, request, the recovery at start-up, finish, and the ways
  back (abort, rollback).
\<close>

section \<open>The journal\<close>

definition switch_validate :: "host \<Rightarrow> pending_switch \<Rightarrow> account_error + unit" where
  "switch_validate h j =
     (if sw_version j \<noteq> 1
      then Inl (Invalid_registry ''unsupported account switch journal version'')
      else and_then (validate_account_id h (sw_from j)) (\<lambda>_.
           and_then (validate_account_id h (sw_to j)) (\<lambda>_.
           if sw_from j = sw_to j
           then Inl (Invalid_registry ''account switch source and target are equal'')
           else Inr ())))"

definition switch_load :: "host \<Rightarrow> pending_switch option act" where
  "switch_load h = (let p = pending_account_switch_file h in
     andthen (gets (\<lambda>w. (path_exists w p, is_symlink w p))) (\<lambda>(e, s).
     if \<not> e then ret None
     else andthen (guard s (Unsafe_path ''account switch journal is a symlink: '' p)) (\<lambda>_.
       andthen (read_file p) (\<lambda>c.
       andthen (of_result (ok_or (switch_of c)
         (Invalid_registry ''account switch journal is corrupt: expected value''))) (\<lambda>j.
       andthen (of_result (switch_validate h j)) (\<lambda>_. ret (Some j)))))))"

definition switch_save :: "host \<Rightarrow> pending_switch \<Rightarrow> unit act" where
  "switch_save h j = andthen (of_result (switch_validate h j)) (\<lambda>_.
     write_json_atomic h (pending_account_switch_file h) (Switch_file j))"

definition switch_touch :: "host \<Rightarrow> switch_phase \<Rightarrow> pending_switch \<Rightarrow> pending_switch act" where
  "switch_touch h phase j = andthen (now_text h) (\<lambda>now.
     ret (j\<lparr>sw_phase := phase, sw_updated_at := now\<rparr>))"

definition remove_journal :: "host \<Rightarrow> unit act" where
  "remove_journal h =
     andthen (fault_at h Switch_journal_before_cleanup None None (Some ''remove switch journal''))
       (\<lambda>_. handle (remove_file (pending_account_switch_file h))
         (\<lambda>_. sync_directory (h_root h))
         (\<lambda>e. if e = not_found then ret () else raise e))"

section \<open>Answers\<close>

record account_summary =
  as_id :: string
  as_kind :: string
  as_email :: "string option"
  as_api_url :: "string option"
  as_pending :: bool
  as_active :: bool
  as_last_opened_at :: string

record account_list =
  al_active :: string
  al_accounts :: "account_summary list"

record switch_status =
  st_active :: bool
  st_from :: "string option"
  st_to :: "string option"
  st_generation :: "64 word option"
  st_phase :: "switch_phase option"
  st_pending_outbox :: nat
  st_error_code :: "string option"

record switch_failure =
  sf_from :: string
  sf_to :: string
  sf_error_code :: string

record switch_recovery =
  sr_target_committed :: bool
  sr_failure :: "switch_failure option"

datatype abort_outcome = Aborted | No_prepared_switch | Not_prepared switch_phase

fun kind_str :: "account_kind \<Rightarrow> string" where
  "kind_str Anonymous = ''anonymous''"
| "kind_str Cloud = ''cloud''"

definition summary_from_record :: "account_record \<Rightarrow> string \<Rightarrow> account_summary" where
  "summary_from_record a active =
     \<lparr>as_id = ar_id a, as_kind = kind_str (ar_kind a), as_email = ar_email a,
      as_api_url = ar_api_url a, as_pending = ar_pending a, as_active = (ar_id a = active),
      as_last_opened_at = ar_last_opened_at a\<rparr>"

definition registry_missing :: account_error where
  "registry_missing = Invalid_registry ''accounts.json is missing''"

definition load_registry :: "host \<Rightarrow> account_error \<Rightarrow> account_registry act" where
  "load_registry h e = andthen (load_with_recovery h) (\<lambda>r. of_result (ok_or r e))"

definition list_accounts :: "host \<Rightarrow> account_list act" where
  "list_accounts h = andthen (load_registry h registry_missing) (\<lambda>r. ret
     \<lparr>al_active = rg_active r,
      al_accounts = map (\<lambda>a. summary_from_record a (rg_active r)) (rg_accounts r)\<rparr>)"

definition pending_outbox_count :: "path \<Rightarrow> nat act" where
  "pending_outbox_count p = andthen (gets (\<lambda>w. is_file w p)) (\<lambda>f.
     if \<not> f then ret 0
     else andthen (attempt_ok (open_read_only p)) (\<lambda>db. case db of
         None \<Rightarrow> ret 0
       | Some db \<Rightarrow> ret (case select_columns db ''outbox'' [''sync_status''] of
           Inl e \<Rightarrow> 0
         | Inr rows \<Rightarrow> length (filter (\<lambda>row. row ! 0 = Lite_text ''pending'') rows))))"

definition status_with :: "host \<Rightarrow> account_registry option \<Rightarrow> pending_switch option \<Rightarrow>
    switch_status act" where
  "status_with h registry journal = (let from = map_option rg_active registry in
     andthen (case registry of
         None \<Rightarrow> ret 0
       | Some r \<Rightarrow> (case database_path h (rg_active r) of
           Inl e \<Rightarrow> ret 0
         | Inr p \<Rightarrow> pending_outbox_count p)) (\<lambda>pending.
     ret (case journal of
       Some j \<Rightarrow> \<lparr>st_active = False, st_from = Some (sw_from j), st_to = Some (sw_to j),
         st_generation = Some (sw_generation j), st_phase = Some (sw_phase j),
         st_pending_outbox = pending, st_error_code = sw_error_code j\<rparr>
     | None \<Rightarrow> \<lparr>st_active = True, st_from = from, st_to = None, st_generation = None,
         st_phase = None, st_pending_outbox = pending, st_error_code = None\<rparr>)))"

definition status_from_journal :: "host \<Rightarrow> pending_switch option \<Rightarrow> switch_status act" where
  "status_from_journal h journal =
     andthen (load_with_recovery h) (\<lambda>registry. status_with h registry journal)"

definition get_switch_status :: "host \<Rightarrow> switch_status act" where
  "get_switch_status h = andthen (switch_load h) (\<lambda>journal. status_from_journal h journal)"

definition switch_status_read_only :: "host \<Rightarrow> switch_status act" where
  "switch_status_read_only h = andthen (switch_load h) (\<lambda>journal.
     andthen (attempt_ok (registry_load h)) (\<lambda>registry. status_with h registry journal))"

section \<open>The identity of a switch target\<close>

definition mismatch :: "string \<Rightarrow> account_error + unit" where
  "mismatch s = Inl (Verification_mismatch s)"

definition check_cloud_target :: "account_record \<Rightarrow> data_snapshot \<Rightarrow> account_error + unit" where
  "check_cloud_target t s =
     and_then (ok_or (ar_email t) (Invalid_registry ''cloud target has no email'')) (\<lambda>email.
     and_then (case sn_bound_account s of
         Some bound \<Rightarrow> if acc_normalize_email bound \<noteq> acc_normalize_email email
           then mismatch (''target database is bound to a different account ('' @ bound @ '')'')
           else Inr ()
       | None \<Rightarrow> Inr ()) (\<lambda>_.
     case ar_api_url t of
       Some url \<Rightarrow>
         and_then (case sn_bound_api_url s of
             Some bound_api \<Rightarrow> and_then (normalize_api_url bound_api) (\<lambda>n.
               if n \<noteq> url
               then mismatch ''target database is bound to a different API server''
               else Inr ())
           | None \<Rightarrow> Inr ()) (\<lambda>_.
         if \<not> ar_pending t then
           if sn_bound_account s = None
           then mismatch ''verified cloud target database has no account binding''
           else if sn_bound_api_url s = None
           then mismatch ''verified cloud target database has no API server binding''
           else Inr ()
         else Inr ())
     | None \<Rightarrow>
         if \<not> ar_pending t \<and> sn_bound_account s = None
         then mismatch ''cloud target database has no account binding''
         else if sn_bound_api_url s \<noteq> None
         then mismatch
           ''cloud target has a server-bound database but no registered server identity''
         else Inr ()))"

definition check_target :: "account_record \<Rightarrow> data_snapshot \<Rightarrow> account_error + unit" where
  "check_target t s = (case ar_kind t of
     Anonymous \<Rightarrow> if ar_id t \<noteq> DEFAULT_ACCOUNT_ID
       then mismatch ''anonymous target is not the default account'' else Inr ()
   | Cloud \<Rightarrow> check_cloud_target t s)"

definition verify_target_identity :: "host \<Rightarrow> account_record \<Rightarrow> unit act" where
  "verify_target_identity h t =
     andthen (ensure_account_dir h (ar_id t)) (\<lambda>_.
     andthen (of_result (database_path h (ar_id t))) (\<lambda>p.
     andthen (validate_database_path p) (\<lambda>_.
     andthen (gets (\<lambda>w. is_file w p)) (\<lambda>f.
     andthen (guard (\<not> f) (Active_account_missing (ar_id t))) (\<lambda>_.
     andthen (read_snapshot h p) (\<lambda>s. of_result (check_target t s)))))))"

section \<open>Prepare, request, abort\<close>

definition prepare_account_switch :: "host \<Rightarrow> string \<Rightarrow> switch_status act" where
  "prepare_account_switch h target_id =
     andthen (of_result (validate_account_id h target_id)) (\<lambda>_.
     andthen (load_registry h registry_missing) (\<lambda>registry.
     let from = rg_active registry in
     andthen (guard (from = target_id)
       (Invalid_registry ''target account is already active'')) (\<lambda>_.
     andthen (of_result (ok_or (rg_account registry target_id)
       (Invalid_registry (''target account '' @ target_id @ '' is not registered'')))) (\<lambda>target.
     andthen (verify_target_identity h target) (\<lambda>_.
     andthen (switch_load h) (\<lambda>existing.
     andthen (guard (case existing of Some e \<Rightarrow> sw_to e \<noteq> target_id | None \<Rightarrow> False)
       (Invalid_registry ''another account switch is already pending'')) (\<lambda>_.
     if (case existing of
           Some e \<Rightarrow> sw_phase e = Prepared \<or> sw_phase e = Restart_required
         | None \<Rightarrow> False)
     then status_from_journal h existing
     else andthen (of_result (database_path h from)) (\<lambda>current_db.
       andthen (pending_outbox_count current_db) (\<lambda>pending_outbox.
       andthen (now_text h) (\<lambda>now.
       andthen (tick (h_millis h)) (\<lambda>millis.
       let journal = \<lparr>sw_version = 1, sw_phase = Prepared, sw_from = from, sw_to = target_id,
             sw_generation = word_of_int millis, sw_created_at = now, sw_updated_at = now,
             sw_error_code = None\<rparr> in
       andthen (switch_save h journal) (\<lambda>_.
       andthen (fault_at h Switch_prepared_persisted (Some ''PREPARED'') (Some target_id)
         (Some ''journal persisted'')) (\<lambda>_.
       ret \<lparr>st_active = False, st_from = Some from, st_to = Some target_id,
            st_generation = Some (sw_generation journal), st_phase = Some Prepared,
            st_pending_outbox = pending_outbox, st_error_code = None\<rparr>)))))))))))))"

definition requested_journal :: "host \<Rightarrow> string \<Rightarrow> 64 word \<Rightarrow> pending_switch act" where
  "requested_journal h target_id generation = andthen (switch_load h) (\<lambda>j.
     andthen (of_result (ok_or j (Invalid_registry ''no prepared account switch exists''))) (\<lambda>j.
     andthen (guard (sw_to j \<noteq> target_id \<or> sw_generation j \<noteq> generation)
       (Invalid_registry ''account switch request does not match the prepared journal'')) (\<lambda>_.
     ret j)))"

definition not_requestable :: account_error where
  "not_requestable = Invalid_registry ''account switch is not in a requestable phase''"

definition validate_account_switch_request :: "host \<Rightarrow> string \<Rightarrow> 64 word \<Rightarrow> unit act" where
  "validate_account_switch_request h target_id generation =
     andthen (requested_journal h target_id generation) (\<lambda>j.
       guard (sw_phase j \<noteq> Prepared \<and> sw_phase j \<noteq> Restart_required) not_requestable)"

definition request_account_switch :: "host \<Rightarrow> string \<Rightarrow> 64 word \<Rightarrow> switch_status act" where
  "request_account_switch h target_id generation =
     andthen (requested_journal h target_id generation) (\<lambda>j.
     andthen (case sw_phase j of
         Prepared \<Rightarrow> andthen (switch_touch h Restart_required j) (\<lambda>j.
           andthen (switch_save h j) (\<lambda>_.
           andthen (fault_at h Switch_restart_required_persisted (Some ''RESTART_REQUIRED'')
             (Some (sw_to j)) (Some ''journal persisted'')) (\<lambda>_. ret j)))
       | Restart_required \<Rightarrow> ret j
       | _ \<Rightarrow> raise not_requestable) (\<lambda>j.
     status_from_journal h (Some j)))"

definition abort_prepared_switch :: "host \<Rightarrow> abort_outcome act" where
  "abort_prepared_switch h = andthen (switch_load h) (\<lambda>j. case j of
     None \<Rightarrow> ret No_prepared_switch
   | Some j \<Rightarrow> if sw_phase j = Prepared
       then andthen (remove_journal h) (\<lambda>_. ret Aborted)
       else ret (Not_prepared (sw_phase j)))"

section \<open>After the restart\<close>

definition finish_pending_switch :: "host \<Rightarrow> unit act" where
  "finish_pending_switch h = andthen (switch_load h) (\<lambda>j. case j of
     None \<Rightarrow> ret ()
   | Some j \<Rightarrow>
       andthen (guard (sw_phase j \<noteq> Verifying_target)
         (Invalid_registry ''pending switch is not ready to finish'')) (\<lambda>_.
       andthen (registry_load h) (\<lambda>r.
       andthen (guard (rg_active r \<noteq> sw_to j) (Invalid_registry
         ''finish switch target does not match registry active account'')) (\<lambda>_.
       remove_journal h))))"

definition recovery_default :: switch_recovery where
  "recovery_default = \<lparr>sr_target_committed = False, sr_failure = None\<rparr>"

definition failed_recovery :: "pending_switch \<Rightarrow> string \<Rightarrow> switch_recovery" where
  "failed_recovery j code = \<lparr>sr_target_committed = False,
     sr_failure = Some \<lparr>sf_from = sw_from j, sf_to = sw_to j, sf_error_code = code\<rparr>\<rparr>"

definition neither :: "account_registry \<Rightarrow> pending_switch \<Rightarrow> bool" where
  "neither r j \<longleftrightarrow> rg_active r \<noteq> sw_from j \<and> rg_active r \<noteq> sw_to j"

text \<open>The journal is already \<open>FAILED\<close>: the source is made active again if it is not.\<close>

definition repair_failed :: "host \<Rightarrow> pending_switch \<Rightarrow> switch_recovery act" where
  "repair_failed h j = andthen (load_with_recovery h) (\<lambda>r.
     andthen (case r of
         None \<Rightarrow> ret ()
       | Some r \<Rightarrow>
           andthen (guard (neither r j) (Invalid_registry
             ''failed switch registry active account is neither source nor target'')) (\<lambda>_.
           if rg_active r = sw_to j then registry_save h (r\<lparr>rg_active := sw_from j\<rparr>)
           else ret ())) (\<lambda>_.
     ret (failed_recovery j (case sw_error_code j of
       Some c \<Rightarrow> c | None \<Rightarrow> ''SWITCH_FAILED''))))"

text \<open>The registry's active account is moved between two fault points.\<close>

definition commit_active :: "host \<Rightarrow> account_registry \<Rightarrow> string \<Rightarrow> string \<Rightarrow> string \<Rightarrow> string \<Rightarrow>
    unit act" where
  "commit_active h r i phase before after =
     andthen (fault_at h Registry_active_before_update (Some phase) (Some i) (Some before)) (\<lambda>_.
     andthen (registry_save h (r\<lparr>rg_active := i\<rparr>)) (\<lambda>_.
     fault_at h Registry_active_after_update (Some phase) (Some i) (Some after)))"

text \<open>The journal is marked \<open>FAILED\<close>, then the source is made active again.\<close>

definition fail_switch :: "host \<Rightarrow> account_registry \<Rightarrow> pending_switch \<Rightarrow> string \<Rightarrow> string \<Rightarrow>
    string \<Rightarrow> string \<Rightarrow> unit act" where
  "fail_switch h r j code detail before after =
     andthen (switch_touch h Switch_failed j) (\<lambda>j.
     let j = j\<lparr>sw_error_code := Some code\<rparr> in
     andthen (switch_save h j) (\<lambda>_.
     andthen (fault_at h Switch_failed_persisted (Some ''FAILED'') (Some (sw_to j))
       (Some detail)) (\<lambda>_.
     if rg_active r = sw_to j then commit_active h r (sw_from j) ''FAILED'' before after
     else ret ())))"

definition commit_target :: "host \<Rightarrow> account_registry \<Rightarrow> pending_switch \<Rightarrow> unit act" where
  "commit_target h r j =
     andthen (switch_touch h Verifying_target j) (\<lambda>j.
     andthen (switch_save h j) (\<lambda>_.
     if rg_active r \<noteq> sw_to j then
       andthen (fault_at h Switch_verifying_target_persisted (Some ''VERIFYING_TARGET'')
         (Some (sw_to j)) (Some ''journal persisted before registry update'')) (\<lambda>_.
       commit_active h r (sw_to j) ''VERIFYING_TARGET'' ''commit verified target''
         ''target committed'')
     else fault_at h Switch_verifying_target_persisted (Some ''VERIFYING_TARGET'')
         (Some (sw_to j)) (Some ''journal persisted; registry already target'')))"

definition recover_pending_switch :: "host \<Rightarrow> switch_recovery act" where
  "recover_pending_switch h = andthen (switch_load h) (\<lambda>j. case j of
     None \<Rightarrow> ret recovery_default
   | Some j \<Rightarrow>
       if sw_phase j = Switch_failed then repair_failed h j
       else if sw_phase j = Prepared then andthen (remove_journal h) (\<lambda>_. ret recovery_default)
       else andthen (load_registry h
           (Invalid_registry ''accounts.json is missing during account switch'')) (\<lambda>r.
         andthen (guard (neither r j) (Invalid_registry
           ''registry active account is neither switch source nor target'')) (\<lambda>_.
         andthen (of_result (ok_or (rg_account r (sw_to j))
           (Invalid_registry ''account switch target is not registered''))) (\<lambda>target.
         handle (verify_target_identity h target)
           (\<lambda>_. andthen (commit_target h r j) (\<lambda>_.
              ret \<lparr>sr_target_committed = True, sr_failure = None\<rparr>))
           (\<lambda>e. andthen (fail_switch h r j ''TARGET_INVALID''
                ''failed journal persisted before registry restore''
                ''restore source after target validation failure'' ''source restored'') (\<lambda>_.
              ret (failed_recovery j (''TARGET_INVALID: '' @ error_text e))))))))"

definition rollback_pending_switch :: "host \<Rightarrow> string \<Rightarrow> switch_failure act" where
  "rollback_pending_switch h code = andthen (switch_load h) (\<lambda>j.
     andthen (of_result (ok_or j (Invalid_registry ''no account switch is pending''))) (\<lambda>j.
     andthen (registry_load h) (\<lambda>r.
     andthen (fail_switch h r j code ''rollback failed journal persisted''
       ''rollback target to source'' ''rollback source committed'') (\<lambda>_.
     ret \<lparr>sf_from = sw_from j, sf_to = sw_to j, sf_error_code = code\<rparr>))))"

section \<open>Cloud accounts\<close>

text \<open>\<open>Connection::open\<close> and a first query: a missing file is created, empty.\<close>

definition connection_open :: "path \<Rightarrow> database act" where
  "connection_open p = andthen (gets (\<lambda>w. target_of w p)) (\<lambda>n. case n of
     None \<Rightarrow> andthen (effect (put_node p (File (Database_file empty_database))))
       (\<lambda>_. ret empty_database)
   | Some (File (Database_file db)) \<Rightarrow>
       andthen (access (Acc_sqlite ''database is locked'')) (\<lambda>_. ret db)
   | _ \<Rightarrow> raise (Acc_sqlite ''file is not a database''))"

definition create_database :: "path \<Rightarrow> path \<Rightarrow> unit act" where
  "create_database directory target = andthen (connection_open target) (\<lambda>db.
     let integrity = (case db_integrity db of [] \<Rightarrow> [] | s # _ \<Rightarrow> s) in
     andthen (guard (integrity \<noteq> ''ok'') (Acc_integrity target integrity)) (\<lambda>_.
     andthen (sync_file target) (\<lambda>_. sync_directory directory)))"

definition create_pending_cloud_account :: "host \<Rightarrow> string \<Rightarrow> string \<Rightarrow> account_summary act" where
  "create_pending_cloud_account h email0 api_url0 = (let email = acc_normalize_email email0 in
     andthen (guard (\<not> valid_email email)
       (Invalid_registry ''cloud account email is invalid'')) (\<lambda>_.
     andthen (switch_load h) (\<lambda>journal.
     andthen (guard (case journal of Some j \<Rightarrow> sw_phase j \<noteq> Switch_failed | None \<Rightarrow> False)
       (Invalid_registry ''cannot add an account while a switch is pending'')) (\<lambda>_.
     andthen (of_result (normalize_api_url api_url0)) (\<lambda>api_url.
     andthen (load_registry h registry_missing) (\<lambda>registry.
     case find_cloud_by_identity registry email api_url of
       Some existing \<Rightarrow> ret (summary_from_record existing (rg_active registry))
     | None \<Rightarrow>
         andthen (guard (case find_cloud_by_email registry email of
             Some existing \<Rightarrow> ar_api_url existing = None | None \<Rightarrow> False)
           (Invalid_registry ''an account with this email has no verified server identity'')) (\<lambda>_.
         andthen (new_uuid h) (\<lambda>i.
         andthen (account_cloud_with_identity h i email api_url True) (\<lambda>record.
         andthen (ensure_account_dir h i) (\<lambda>directory.
         let target = directory @ [DATABASE_FILE] in
         andthen (validate_database_path target) (\<lambda>_.
         andthen (gets (\<lambda>w. path_exists w target)) (\<lambda>e.
         andthen (if e then andthen (read_snapshot h target) (\<lambda>s.
               guard (sn_bound_account s \<noteq> None \<or> list_ex (\<lambda>(t, n). 0 < n) (sn_counts s))
                 (Invalid_registry ''pending account database already contains data''))
             else create_database directory target) (\<lambda>_.
         andthen (of_result (rg_upsert h record registry)) (\<lambda>registry.
         andthen (registry_save h registry) (\<lambda>_.
         andthen (of_result (ok_or (rg_account registry i)
           (Invalid_registry ''pending account was not persisted''))) (\<lambda>added.
         ret (summary_from_record added (rg_active registry))))))))))))))))))"

definition verify_cloud_identity :: "host \<Rightarrow> string \<Rightarrow> string \<Rightarrow> unit act" where
  "verify_cloud_identity h email api_url = andthen (registry_load h) (\<lambda>r.
     andthen (active_account r) (\<lambda>active.
     if ar_kind active \<noteq> Cloud then ret ()
     else andthen (of_result (ok_or (ar_email active)
         (Verification_mismatch ''cloud account has no registered email''))) (\<lambda>expected.
       andthen (guard (acc_normalize_email email \<noteq> acc_normalize_email expected)
         (Verification_mismatch ''login email does not match the active account'')) (\<lambda>_.
       case ar_api_url active of
         None \<Rightarrow> ret ()
       | Some url \<Rightarrow> andthen (of_result (normalize_api_url api_url)) (\<lambda>n.
           guard (n \<noteq> url)
             (Verification_mismatch ''login API server does not match the active account''))))))"

definition mark_account_verified :: "host \<Rightarrow> account_summary act" where
  "mark_account_verified h = andthen (registry_load h) (\<lambda>r.
     let active_id = rg_active r in
     andthen (active_account r) (\<lambda>active.
     if \<not> ar_pending active then ret (summary_from_record active active_id)
     else andthen (guard (ar_kind active \<noteq> Cloud)
         (Invalid_registry ''anonymous account cannot be marked verified'')) (\<lambda>_.
       andthen (of_result (ok_or (ar_email active)
         (Invalid_registry ''cloud account has no email''))) (\<lambda>email.
       andthen (of_result (ok_or (ar_api_url active)
         (Invalid_registry ''cloud account has no api url''))) (\<lambda>api_url.
       andthen (of_result (database_path h active_id)) (\<lambda>p.
       andthen (read_snapshot h p) (\<lambda>s.
       andthen (guard (sn_bound_account s \<noteq> Some email \<or> sn_bound_api_url s \<noteq> Some api_url)
         (Verification_mismatch
           ''cloud server identity is not bound in the active database'')) (\<lambda>_.
       andthen (now_text h) (\<lambda>now.
       let r = r\<lparr>rg_accounts := update_account active_id
             (\<lambda>a. a\<lparr>ar_pending := False, ar_last_opened_at := now\<rparr>) (rg_accounts r)\<rparr> in
       andthen (registry_save h r) (\<lambda>_.
       andthen (of_result (ok_or (rg_account r active_id)
         (Invalid_registry ''active account disappeared''))) (\<lambda>a.
       ret (summary_from_record a active_id))))))))))))"

end
