(* ===== verification/AccMigrate.thy ===== *)
theory AccMigrate
  imports AccSwitch
begin

text \<open>
  \<open>src/crates/native-accounts/src/migration.rs\<close>: finding or making the active account when the
  application starts. A data root is empty (a fresh installation, carried by its marker), has a
  legacy database (copied through a verified backup, carried by the migration state), or has a
  registry. Every step is persisted before the next, so that a start that was cut off is
  resumed by the next one.
\<close>

section \<open>The migration state\<close>

definition migration_new :: "host \<Rightarrow> migration_state act" where
  "migration_new h = andthen (now_text h) (\<lambda>now. ret
     \<lparr>mg_version = 1, mg_phase = Not_started, mg_source_file = ''shishi.sqlite3'',
      mg_backup_file = None, mg_target_account_id = None, mg_target_file = None,
      mg_source_fingerprint = None, mg_backup_fingerprint = None, mg_target_fingerprint = None,
      mg_verified = None, mg_reason = None, mg_error = None, mg_updated_at = now\<rparr>)"

definition validate_optional_path :: "string option \<Rightarrow> account_error + unit" where
  "validate_optional_path p = (case p of None \<Rightarrow> Inr () | Some p \<Rightarrow> validate_relative_path p)"

definition migration_validate :: "migration_state \<Rightarrow> account_error + unit" where
  "migration_validate s =
     (if mg_version s \<noteq> 1
      then Inl (Invalid_registry (''unsupported migration state version '' @ show_nat (mg_version s)))
      else and_then (validate_relative_path (mg_source_file s)) (\<lambda>_.
           and_then (validate_optional_path (mg_backup_file s)) (\<lambda>_.
           validate_optional_path (mg_target_file s))))"

definition migration_save :: "host \<Rightarrow> migration_state \<Rightarrow> unit act" where
  "migration_save h s = write_json_atomic h (migration_state_file h) (Migration_file s)"

text \<open>The state file whose Windows replacement was cut off.\<close>

primrec first_decoded :: "(content \<Rightarrow> 'a option) \<Rightarrow> path list \<Rightarrow> 'a option act" where
  "first_decoded decode [] = ret None"
| "first_decoded decode (c # cs) = andthen (attempt_ok (read_file c)) (\<lambda>raw.
     case raw of
       None \<Rightarrow> first_decoded decode cs
     | Some raw \<Rightarrow> (case decode raw of Some s \<Rightarrow> ret (Some s) | None \<Rightarrow> first_decoded decode cs))"

definition recover_state_journal :: "host \<Rightarrow> (content \<Rightarrow> 'a option) \<Rightarrow> path \<Rightarrow> 'a option act" where
  "recover_state_journal h decode target = (let journal = replace_journal_path target in
     andthen (gets (\<lambda>w. (path_exists w journal, is_symlink w journal))) (\<lambda>(e, s).
     if \<not> e then ret None
     else andthen (guard s (Unsafe_path ''state replacement journal is a symlink: '' journal)) (\<lambda>_.
       andthen (handle (read_file journal) ret (\<lambda>err. raise (Invalid_registry
           (''state replacement journal is unreadable: '' @ error_text err)))) (\<lambda>raw.
       case raw of
         Replace_journal source backup \<Rightarrow>
           andthen (journal_candidates h ''state'' [source, backup]) (\<lambda>existing.
           andthen (first_decoded decode existing) (\<lambda>chosen.
           of_result (and_then (ok_or chosen (Invalid_registry
             ''state replacement journal candidates are missing or invalid'')) (\<lambda>s. Inr (Some s)))))
       | _ \<Rightarrow> raise (Invalid_registry ''state journal has no source'')))))"

definition read_migration_state :: "host \<Rightarrow> migration_state option act" where
  "read_migration_state h = andthen (read_file (migration_state_file h)) (\<lambda>raw.
     andthen (of_result (ok_or (migration_of raw)
       (Invalid_registry ''migration state is corrupt: expected value''))) (\<lambda>s.
     andthen (of_result (migration_validate s)) (\<lambda>_. ret (Some s))))"

definition migration_load :: "host \<Rightarrow> migration_state option act" where
  "migration_load h = (let p = migration_state_file h in
     andthen (gets (\<lambda>w. path_exists w p)) (\<lambda>e.
     if \<not> e then
       andthen (recover_state_journal h migration_of p) (\<lambda>s. case s of
         None \<Rightarrow> ret None
       | Some s \<Rightarrow>
           andthen (of_result (migration_validate s)) (\<lambda>_.
           andthen (migration_save h s) (\<lambda>_.
           andthen (ignore (remove_file (replace_journal_path p))) (\<lambda>_. ret (Some s)))))
     else read_migration_state h))"

definition migration_state_read_only :: "host \<Rightarrow> migration_state option act" where
  "migration_state_read_only h = andthen (gets (\<lambda>w. path_exists w (migration_state_file h))) (\<lambda>e.
     if \<not> e then ret None else read_migration_state h)"

section \<open>The installation marker\<close>

definition installation_new :: "host \<Rightarrow> installation_state act" where
  "installation_new h = andthen (now_text h) (\<lambda>now. ret
     \<lparr>in_version = 1, in_phase = Install_prepared, in_account_id = DEFAULT_ACCOUNT_ID,
      in_created_at = now, in_updated_at = now\<rparr>)"

definition installation_check :: "installation_state \<Rightarrow> account_error + unit" where
  "installation_check s = fail_if (in_version s \<noteq> 1 \<or> in_account_id s \<noteq> DEFAULT_ACCOUNT_ID)
     (Invalid_registry ''installation state is invalid'')"

definition installation_save :: "host \<Rightarrow> installation_state \<Rightarrow> unit act" where
  "installation_save h s = write_json_atomic h (installation_state_file h) (Installation_file s)"

definition installation_touch :: "host \<Rightarrow> installation_phase \<Rightarrow> installation_state \<Rightarrow>
    installation_state act" where
  "installation_touch h phase s = andthen (now_text h) (\<lambda>now.
     ret (s\<lparr>in_phase := phase, in_updated_at := now\<rparr>))"

definition installation_load :: "host \<Rightarrow> installation_state option act" where
  "installation_load h = (let p = installation_state_file h in
     andthen (gets (\<lambda>w. path_exists w p)) (\<lambda>e.
     if \<not> e then
       andthen (recover_state_journal h installation_of p) (\<lambda>s. case s of
         None \<Rightarrow> ret None
       | Some s \<Rightarrow>
           andthen (of_result (installation_check s)) (\<lambda>_.
           andthen (installation_save h s) (\<lambda>_.
           andthen (ignore (remove_file (replace_journal_path p))) (\<lambda>_. ret (Some s)))))
     else andthen (read_file p) (\<lambda>raw.
       andthen (of_result (ok_or (installation_of raw)
         (Invalid_registry ''installation state is corrupt: expected value''))) (\<lambda>s.
       andthen (of_result (installation_check s)) (\<lambda>_. ret (Some s))))))"

section \<open>Fresh installations\<close>

primrec database_files_in :: "path list \<Rightarrow> path list act" where
  "database_files_in [] = ret []"
| "database_files_in (d # ds) = andthen (gets (\<lambda>w. (node_at w d, path_exists w (d @ [DATABASE_FILE]))))
     (\<lambda>(n, e). andthen (guard (n \<noteq> Some Dir) (Unsafe_path ''unexpected account entry: '' d)) (\<lambda>_.
       andthen (database_files_in ds) (\<lambda>rest.
       ret (if e then (d @ [DATABASE_FILE]) # rest else rest))))"

definition account_database_files :: "host \<Rightarrow> path list act" where
  "account_database_files h = (let accounts = h_root h @ [''accounts''] in
     andthen (gets (\<lambda>w. is_dir w accounts)) (\<lambda>d.
     if \<not> d then ret [] else andthen (read_dir accounts) database_files_in))"

definition ensure_fresh_database :: "host \<Rightarrow> unit act" where
  "ensure_fresh_database h = andthen (ensure_account_dir h DEFAULT_ACCOUNT_ID) (\<lambda>directory.
     let target = directory @ [DATABASE_FILE]; quarantine_dir = migration_backups_dir h in
     andthen (validate_database_path target) (\<lambda>_.
     andthen (gets (\<lambda>w. path_exists w target)) (\<lambda>e.
     andthen (if e then handle (read_snapshot h target) (\<lambda>_. ret True) (\<lambda>_.
           andthen (create_dir_all quarantine_dir) (\<lambda>_.
           andthen (new_uuid h) (\<lambda>u.
           andthen (rename_file target
             (quarantine_dir @ [''fresh-corrupt-database-'' @ u @ ''.sqlite3''])) (\<lambda>_.
           andthen (sync_directory quarantine_dir) (\<lambda>_. ret False)))))
         else ret False) (\<lambda>good.
     if good then ret () else create_database directory target))))"

definition resume_fresh_installation :: "host \<Rightarrow> installation_state \<Rightarrow>
    account_registry option \<Rightarrow> active_context act" where
  "resume_fresh_installation h state registry =
     andthen (migration_load h) (\<lambda>m.
     andthen (guard (m \<noteq> None)
       (Invalid_registry ''installation marker conflicts with migration state'')) (\<lambda>_.
     andthen (gets (\<lambda>w. path_exists w (legacy_database_path h))) (\<lambda>legacy.
     andthen (guard legacy
       (Invalid_registry ''installation marker conflicts with legacy database'')) (\<lambda>_.
     andthen (case registry of Some r \<Rightarrow> ret r | None \<Rightarrow> new_with_default h) (\<lambda>registry.
     andthen (of_result (validate_registry h registry)) (\<lambda>_.
     andthen (guard (rg_active registry \<noteq> DEFAULT_ACCOUNT_ID)
       (Invalid_registry ''installation marker requires the default active account'')) (\<lambda>_.
     andthen (of_result (database_path h DEFAULT_ACCOUNT_ID)) (\<lambda>expected.
     andthen (account_database_files h) (\<lambda>databases.
     andthen (case find (\<lambda>d. d \<noteq> expected) databases of
         Some d \<Rightarrow> raise (Invalid_registry
           (''installation marker found an unexpected account database: '' @ path_quoted d))
       | None \<Rightarrow> ret ()) (\<lambda>_.
     andthen (ensure_fresh_database h) (\<lambda>_.
     andthen (if in_phase state = Install_prepared
         then andthen (installation_touch h Install_database_created state) (\<lambda>s.
              andthen (installation_save h s) (\<lambda>_. ret s))
         else ret state) (\<lambda>state.
     andthen (fault_at h Installation_database_created (Some ''DATABASE_CREATED'')
       (Some DEFAULT_ACCOUNT_ID) (Some ''fresh database created'')) (\<lambda>_.
     andthen (if in_phase state = Install_database_created
         then andthen (registry_save h registry) (\<lambda>_.
              andthen (installation_touch h Install_registry_committed state) (\<lambda>s.
              installation_save h s))
         else ret ()) (\<lambda>_.
     andthen (registry_save h registry) (\<lambda>_.
     andthen (validate_database_path expected) (\<lambda>_.
     andthen (gets (\<lambda>w. is_file w expected)) (\<lambda>f.
     andthen (guard (\<not> f) (Active_account_missing DEFAULT_ACCOUNT_ID)) (\<lambda>_.
     andthen (registry_load h) (\<lambda>reloaded.
     andthen (guard (rg_active reloaded \<noteq> DEFAULT_ACCOUNT_ID)
       (Invalid_registry ''fresh registry did not persist the default account'')) (\<lambda>_.
     andthen (handle (remove_file (installation_state_file h)) ret
       (\<lambda>e. if e = not_found then ret () else raise e)) (\<lambda>_.
     andthen (sync_directory (h_root h)) (\<lambda>_.
     context_new h reloaded False))))))))))))))))))))))"

definition initialize_fresh :: "host \<Rightarrow> active_context act" where
  "initialize_fresh h = andthen (installation_new h) (\<lambda>state.
     andthen (installation_save h state) (\<lambda>_.
     andthen (fault_at h Installation_prepared (Some ''PREPARED'') (Some DEFAULT_ACCOUNT_ID)
       (Some ''fresh installation marker persisted'')) (\<lambda>_.
     resume_fresh_installation h state None)))"

end
