(* ===== verification/AccLegacy.thy ===== *)
theory AccLegacy
  imports AccMigrate
begin

text \<open>
  \<open>src/crates/native-accounts/src/migration.rs\<close>, the migration of a legacy database: whose
  data it is, the backup, the verified copy, and \<open>ensure_active_account\<close>, which decides at every
  start what is left to do. The \<open>&mut MigrationState\<close> of \<open>run_migration_inner\<close>, \<open>ensure_backup\<close>
  and \<open>preserve_ambiguous\<close> is the field \<open>w_migration\<close> of the world.
\<close>

section \<open>The mutable state\<close>

definition set_migration :: "migration_state \<Rightarrow> unit act" where
  "set_migration s w = (Done (), w\<lparr>w_migration := s\<rparr>)"

definition edit_migration :: "(migration_state \<Rightarrow> migration_state) \<Rightarrow> unit act" where
  "edit_migration f w = (Done (), w\<lparr>w_migration := f (w_migration w)\<rparr>)"

definition touch_migration :: "host \<Rightarrow> migration_phase \<Rightarrow> unit act" where
  "touch_migration h phase = andthen (now_text h) (\<lambda>now.
     edit_migration (\<lambda>s. s\<lparr>mg_phase := phase, mg_updated_at := now\<rparr>))"

definition save_migration :: "host \<Rightarrow> unit act" where
  "save_migration h = andthen (gets w_migration) (migration_save h)"

section \<open>Whose data a legacy database holds\<close>

datatype ownership = Owner_anonymous | Owner_bound string | Owner_ambiguous string

definition classify_bound :: "database \<Rightarrow> string \<Rightarrow> account_error + ownership" where
  "classify_bound db bound = (let email = acc_normalize_email bound in
     if \<not> valid_email email
     then Inr (Owner_ambiguous (''bound_account is not a valid email: '' @ bound))
     else and_then (kv_get db ''device_id'') (\<lambda>device.
       case (case device of Some d \<Rightarrow> if trim d = [] then None else Some d | None \<Rightarrow> None) of
         None \<Rightarrow> Inr (Owner_ambiguous ''bound account has no device_id'')
       | Some device \<Rightarrow>
           and_then (if table_exists db ''outbox''
             then and_then (select_columns db ''outbox'' [''device_id''])
               (collect (\<lambda>row. get_text (row ! 0))) else Inr []) (\<lambda>devices.
           if list_ex (\<lambda>d. d \<noteq> device) devices
           then Inr (Owner_ambiguous ''outbox device_id does not match bound device_id'')
           else Inr (Owner_bound email))))"

definition classify_database :: "database \<Rightarrow> account_error + ownership" where
  "classify_database db =
     (if \<not> table_exists db ''kv_state'' then Inr Owner_anonymous
      else and_then (kv_get db ''bound_account'') (\<lambda>bound.
           and_then (kv_get db ''sync_enabled'') (\<lambda>sync_enabled.
           case bound of
             Some bound \<Rightarrow> classify_bound db bound
           | None \<Rightarrow>
               if sync_enabled = Some ''true''
               then Inr (Owner_ambiguous ''sync_enabled is true but bound_account is missing'')
               else Inr Owner_anonymous)))"

definition classify_legacy_database :: "path \<Rightarrow> ownership act" where
  "classify_legacy_database p =
     andthen (connection_open p) (\<lambda>db. of_result (classify_database db))"

section \<open>Copies\<close>

definition backup_database :: "path \<Rightarrow> path \<Rightarrow> unit act" where
  "backup_database source destination =
     andthen (gets (\<lambda>w. path_exists w destination)) (\<lambda>e.
     andthen (if e then remove_file destination else ret ()) (\<lambda>_.
     andthen (connection_open source) (\<lambda>db.
     andthen (effect (put_node destination (File Garbage))) (\<lambda>_.
     effect (put_node destination (File (Database_file db)))))))"

definition ensure_backup :: "host \<Rightarrow> path \<Rightarrow> data_snapshot \<Rightarrow> path act" where
  "ensure_backup h source source_snapshot =
     andthen (gets w_migration) (\<lambda>state.
     andthen (case mg_backup_file state of
         None \<Rightarrow> ret None
       | Some relative \<Rightarrow> let p = h_root h @ path_parts relative in
           andthen (gets (\<lambda>w. is_file w p)) (\<lambda>f.
           if \<not> f then ret None
           else andthen (attempt_ok (read_snapshot h p)) (\<lambda>s. case s of
               Some s \<Rightarrow> if sn_fingerprint s = sn_fingerprint source_snapshot
                 then andthen (edit_migration (\<lambda>st. st\<lparr>mg_backup_fingerprint :=
                   Some (sn_fingerprint s)\<rparr>)) (\<lambda>_. ret (Some p))
                 else ret None
             | None \<Rightarrow> ret None))) (\<lambda>present.
     case present of
       Some p \<Rightarrow> ret p
     | None \<Rightarrow>
         let directory = migration_backups_dir h in
         andthen (create_dir_all directory) (\<lambda>_.
         andthen (tick (h_stamp h)) (\<lambda>stamp.
         let file_name = stamp @ ''-shishi.sqlite3'';
             relative = ''migration-backups/'' @ file_name;
             destination = h_root h @ path_parts relative in
         andthen (new_uuid h) (\<lambda>u.
         let temp = directory @ [''.'' @ file_name @ ''.'' @ u @ ''.tmp''] in
         andthen (backup_database source temp) (\<lambda>_.
         andthen (sync_file temp) (\<lambda>_.
         andthen (read_snapshot h temp) (\<lambda>s.
         andthen (of_result (assert_same source_snapshot s ''source/backup copy'')) (\<lambda>_.
         andthen (gets (\<lambda>w. path_exists w destination)) (\<lambda>e.
         andthen (guard e (Unsafe_path ''backup destination already exists: '' destination)) (\<lambda>_.
         andthen (rename_file temp destination) (\<lambda>_.
         andthen (sync_file destination) (\<lambda>_.
         andthen (sync_directory directory) (\<lambda>_.
         andthen (edit_migration (\<lambda>st. st\<lparr>mg_backup_file := Some relative,
           mg_backup_fingerprint := Some (sn_fingerprint s)\<rparr>)) (\<lambda>_.
         andthen (touch_migration h Backup_created) (\<lambda>_.
         andthen (save_migration h) (\<lambda>_.
         andthen (gets w_migration) (\<lambda>st.
         andthen (fault_at h Migration_backup_created (Some ''BACKUP_CREATED'')
           (mg_target_account_id st) (Some ''legacy backup durably created'')) (\<lambda>_.
         ret destination)))))))))))))))))))"

definition copy_database_from_backup :: "host \<Rightarrow> path \<Rightarrow> path \<Rightarrow> unit act" where
  "copy_database_from_backup h backup target = (let parent = butlast target in
     andthen (create_dir_all parent) (\<lambda>_.
     andthen (new_uuid h) (\<lambda>u. let temp = parent @ [''.'' @ DATABASE_FILE @ ''.'' @ u @ ''.tmp''] in
     andthen (backup_database backup temp) (\<lambda>_.
     andthen (sync_file temp) (\<lambda>_.
     andthen (read_snapshot h temp) (\<lambda>s.
     andthen (read_snapshot h backup) (\<lambda>b.
     andthen (of_result (assert_same b s ''target copy'')) (\<lambda>_.
     andthen (rename_file temp target) (\<lambda>_.
     andthen (sync_file target) (\<lambda>_. sync_directory parent))))))))))"

definition quarantine_invalid_target :: "host \<Rightarrow> path \<Rightarrow> unit act" where
  "quarantine_invalid_target h target = (let directory = migration_backups_dir h in
     andthen (create_dir_all directory) (\<lambda>_.
     andthen (new_uuid h) (\<lambda>u.
     rename_file target (directory @ [''quarantine-target-'' @ u @ ''.sqlite3'']))))"

definition preserve_ambiguous :: "host \<Rightarrow> path \<Rightarrow> string \<Rightarrow> active_context act" where
  "preserve_ambiguous h source reason =
     andthen (read_snapshot h source) (\<lambda>s.
     andthen (ensure_backup h source s) (\<lambda>_.
     andthen (edit_migration (\<lambda>st. st\<lparr>mg_reason := Some reason\<rparr>)) (\<lambda>_.
     andthen (touch_migration h Requires_review) (\<lambda>_.
     andthen (save_migration h) (\<lambda>_.
     raise (Needs_review reason (migration_state_file h)))))))"

section \<open>The migration\<close>

text \<open>The account the data goes to, and the registry with that account.\<close>

definition migration_target :: "host \<Rightarrow> ownership \<Rightarrow> account_registry \<Rightarrow>
    (string \<times> account_registry) act" where
  "migration_target h owner registry = andthen (gets w_migration) (\<lambda>state.
     case owner of
       Owner_bound email \<Rightarrow>
         (case mg_target_account_id state of
            Some i \<Rightarrow> andthen (of_result (validate_account_id h i)) (\<lambda>_. ret (i, registry))
          | None \<Rightarrow> (case find_cloud_by_email registry email of
              Some existing \<Rightarrow> ret (ar_id existing, registry)
            | None \<Rightarrow> andthen (account_cloud h email) (\<lambda>record.
                andthen (of_result (rg_upsert h record registry)) (\<lambda>registry.
                ret (ar_id record, registry)))))
     | _ \<Rightarrow> ret (DEFAULT_ACCOUNT_ID, registry))"

definition check_target_account :: "host \<Rightarrow> ownership \<Rightarrow> string \<Rightarrow> account_registry \<Rightarrow>
    account_registry act" where
  "check_target_account h owner target_id registry = (case owner of
     Owner_bound email \<Rightarrow>
       (case rg_account registry target_id of
          Some existing \<Rightarrow>
            if ar_kind existing \<noteq> Cloud \<or> ar_email existing \<noteq> Some (acc_normalize_email email)
            then raise (Invalid_registry
              (''target account '' @ target_id @ '' does not match bound email''))
            else ret registry
        | None \<Rightarrow> andthen (account_cloud_with_id h target_id email) (\<lambda>record.
            of_result (rg_upsert h record registry)))
   | _ \<Rightarrow> if target_id \<noteq> DEFAULT_ACCOUNT_ID
          then raise (Invalid_registry ''anonymous migration must target default'')
          else ret registry)"

definition add_target_account :: "host \<Rightarrow> ownership \<Rightarrow> string \<Rightarrow> account_registry \<Rightarrow>
    account_registry act" where
  "add_target_account h owner target_id registry =
     (if rg_account registry target_id \<noteq> None then ret registry
      else andthen (case owner of
          Owner_bound email \<Rightarrow> andthen (account_cloud_with_id h target_id email) (\<lambda>record.
            of_result (rg_upsert h record registry))
        | _ \<Rightarrow> ensure_default h registry) (\<lambda>registry.
        if rg_account registry target_id = None
        then raise (Invalid_registry
          (''migration target '' @ target_id @ '' is not in registry''))
        else ret registry))"

definition verified_copy :: "host \<Rightarrow> path \<Rightarrow> string \<Rightarrow> data_snapshot \<Rightarrow>
    (path \<times> data_snapshot) act" where
  "verified_copy h source target_id source_snapshot =
     andthen (ensure_backup h source source_snapshot) (\<lambda>backup_path.
     andthen (read_snapshot h backup_path) (\<lambda>backup.
     andthen (of_result (assert_same source_snapshot backup ''source/backup'')) (\<lambda>_.
     andthen (edit_migration (\<lambda>st. st\<lparr>mg_backup_fingerprint := Some (sn_fingerprint backup)\<rparr>)) (\<lambda>_.
     andthen (ensure_account_dir h target_id) (\<lambda>target_dir.
     let target = target_dir @ [DATABASE_FILE] in
     andthen (validate_database_path target) (\<lambda>_.
     andthen (gets (\<lambda>w. path_exists w target)) (\<lambda>e.
     andthen (if e then andthen (attempt_ok (read_snapshot h target)) (\<lambda>s.
           if (case s of Some s \<Rightarrow> sn_fingerprint s = sn_fingerprint backup | None \<Rightarrow> False)
           then ret () else quarantine_invalid_target h target)
         else ret ()) (\<lambda>_.
     andthen (gets (\<lambda>w. is_file w target)) (\<lambda>f.
     andthen (if f then ret () else copy_database_from_backup h backup_path target) (\<lambda>_.
     andthen (read_snapshot h target) (\<lambda>t.
     andthen (of_result (assert_same backup t ''backup/target'')) (\<lambda>_.
     andthen (edit_migration (\<lambda>st. st\<lparr>mg_target_fingerprint := Some (sn_fingerprint t),
       mg_verified := Some (snapshot_summary t)\<rparr>)) (\<lambda>_.
     andthen (touch_migration h Copy_verified) (\<lambda>_.
     andthen (save_migration h) (\<lambda>_.
     andthen (fault_at h Migration_copy_verified (Some ''COPY_VERIFIED'') (Some target_id)
       (Some ''backup/target fingerprints match'')) (\<lambda>_.
     ret (target, backup)))))))))))))))))"

definition commit_migration :: "host \<Rightarrow> string \<Rightarrow> account_registry \<Rightarrow> path \<Rightarrow> data_snapshot \<Rightarrow>
    active_context act" where
  "commit_migration h target_id registry target backup =
     andthen (ensure_default h registry) (\<lambda>registry.
     andthen (of_result (set_active target_id registry)) (\<lambda>registry.
     andthen (registry_save h registry) (\<lambda>_.
     andthen (touch_migration h Registry_committed) (\<lambda>_.
     andthen (save_migration h) (\<lambda>_.
     andthen (registry_load h) (\<lambda>reloaded.
     andthen (guard (rg_active reloaded \<noteq> target_id)
       (Invalid_registry ''active account was not persisted'')) (\<lambda>_.
     andthen (gets (\<lambda>w. is_file w target)) (\<lambda>f.
     andthen (guard (\<not> f) (Active_account_missing target_id)) (\<lambda>_.
     andthen (read_snapshot h target) (\<lambda>final.
     andthen (of_result (assert_same backup final ''final target'')) (\<lambda>_.
     andthen (touch_migration h Complete) (\<lambda>_.
     andthen (edit_migration (\<lambda>st. st\<lparr>mg_error := None\<rparr>)) (\<lambda>_.
     andthen (save_migration h) (\<lambda>_.
     context_new h reloaded True))))))))))))))"

definition run_migration_inner :: "host \<Rightarrow> path \<Rightarrow> ownership \<Rightarrow> active_context act" where
  "run_migration_inner h source owner =
     andthen (read_snapshot h source) (\<lambda>source_snapshot.
     andthen (load_with_recovery h) (\<lambda>loaded.
     andthen (case loaded of Some r \<Rightarrow> ret r | None \<Rightarrow> new_with_default h) (\<lambda>registry.
     case owner of
       Owner_ambiguous reason \<Rightarrow> preserve_ambiguous h source reason
     | _ \<Rightarrow>
         andthen (migration_target h owner registry) (\<lambda>(target_id, registry).
         andthen (of_result (validate_account_id h target_id)) (\<lambda>_.
         andthen (check_target_account h owner target_id registry) (\<lambda>registry.
         andthen (edit_migration (\<lambda>st. st\<lparr>mg_target_account_id := Some target_id,
           mg_target_file := Some (''accounts/'' @ target_id @ ''/shishi.sqlite3'')\<rparr>)) (\<lambda>_.
         andthen (gets w_migration) (\<lambda>st.
         andthen (if mg_phase st = Not_started
             then andthen (touch_migration h Not_started) (\<lambda>_. save_migration h)
             else ret ()) (\<lambda>_.
         andthen (if sn_fingerprint source_snapshot = [] then read_snapshot h source
                  else ret source_snapshot) (\<lambda>source_snapshot.
         andthen (edit_migration (\<lambda>st. st\<lparr>mg_source_fingerprint :=
           Some (sn_fingerprint source_snapshot)\<rparr>)) (\<lambda>_.
         andthen (verified_copy h source target_id source_snapshot) (\<lambda>(target, backup).
         andthen (add_target_account h owner target_id registry) (\<lambda>registry.
         commit_migration h target_id registry target backup)))))))))))))"

definition run_migration :: "host \<Rightarrow> ownership \<Rightarrow> migration_state option \<Rightarrow> active_context act" where
  "run_migration h owner existing =
     andthen (case existing of Some s \<Rightarrow> ret s | None \<Rightarrow> migration_new h) (\<lambda>state.
     if mg_phase state = Requires_review
     then raise (Needs_review (case mg_reason state of Some r \<Rightarrow> r | None \<Rightarrow> [])
       (migration_state_file h))
     else let source = legacy_database_path h in
       andthen (gets (\<lambda>w. is_file w source)) (\<lambda>f.
       andthen (guard (\<not> f) (Active_account_missing DEFAULT_ACCOUNT_ID)) (\<lambda>_.
       andthen (set_migration state) (\<lambda>_.
       handle (run_migration_inner h source owner) ret (\<lambda>e.
         case e of
           Fault_injected s \<Rightarrow> raise (Fault_injected s)
         | Needs_review r p \<Rightarrow> andthen (gets w_migration) (\<lambda>st.
             raise (Needs_review (case mg_reason st of Some r \<Rightarrow> r | None \<Rightarrow> [])
               (migration_state_file h)))
         | _ \<Rightarrow>
             andthen (touch_migration h Migration_phase_failed) (\<lambda>_.
             andthen (edit_migration (\<lambda>st. st\<lparr>mg_error := Some (error_text e)\<rparr>)) (\<lambda>_.
             andthen (ignore (save_migration h)) (\<lambda>_.
             raise (Migration_failed (error_text e) (migration_state_file h))))))))))"

definition migrate_legacy_database :: "host \<Rightarrow> ownership \<Rightarrow> active_context act" where
  "migrate_legacy_database h owner = run_migration h owner None"

definition resumed_ownership :: "host \<Rightarrow> migration_state \<Rightarrow> string \<Rightarrow> account_registry option \<Rightarrow>
    ownership act" where
  "resumed_ownership h state target_id registry =
     (if mg_phase state = Migration_phase_failed \<or> mg_phase state = Not_started
      then classify_legacy_database (legacy_database_path h)
      else if target_id = DEFAULT_ACCOUNT_ID then ret Owner_anonymous
      else andthen (case Option.bind registry (\<lambda>r. Option.bind (rg_account r target_id) ar_email) of
            Some e \<Rightarrow> ret (Some e)
          | None \<Rightarrow> andthen (attempt_ok (read_snapshot h (legacy_database_path h)))
              (\<lambda>s. ret (Option.bind s sn_bound_account))) (\<lambda>email.
        case email of
          Some e \<Rightarrow> if valid_email e then ret (Owner_bound (acc_normalize_email e))
                    else classify_legacy_database (legacy_database_path h)
        | None \<Rightarrow> classify_legacy_database (legacy_database_path h)))"

definition resume_migration :: "host \<Rightarrow> migration_state \<Rightarrow> account_registry option \<Rightarrow>
    active_context act" where
  "resume_migration h state registry =
     andthen (of_result (ok_or (mg_target_account_id state)
       (Invalid_registry ''migration state has no target account''))) (\<lambda>target_id.
     andthen (of_result (validate_account_id h target_id)) (\<lambda>_.
     andthen (case registry of
         Some r \<Rightarrow> guard (rg_active r \<noteq> DEFAULT_ACCOUNT_ID \<and> rg_active r \<noteq> target_id)
           (Invalid_registry (''registry active account '' @ rg_active r @
             '' conflicts with migration target '' @ target_id))
       | None \<Rightarrow> ret ()) (\<lambda>_.
     andthen (resumed_ownership h state target_id registry) (\<lambda>owner.
     run_migration h owner (Some state)))))"

section \<open>Every start\<close>

definition needs_review :: "host \<Rightarrow> migration_state \<Rightarrow> account_error" where
  "needs_review h s = Needs_review (case mg_reason s of
     Some r \<Rightarrow> r | None \<Rightarrow> ''legacy ownership is ambiguous'') (migration_state_file h)"

definition complete_without_registry :: account_error where
  "complete_without_registry =
     Invalid_registry ''migration is complete but accounts.json is missing''"

definition no_target_account :: account_error where
  "no_target_account = Invalid_registry ''COMPLETE migration has no target account''"

definition verify_complete_migration :: "migration_state \<Rightarrow> account_registry \<Rightarrow> path \<Rightarrow> unit act" where
  "verify_complete_migration s r target =
     andthen (of_result (ok_or (mg_target_account_id s) no_target_account)) (\<lambda>target_id.
     andthen (guard (rg_active r \<noteq> target_id)
       (Invalid_registry ''COMPLETE migration target does not match active account'')) (\<lambda>_.
     andthen (gets (\<lambda>w. is_file w target)) (\<lambda>f.
     andthen (guard (\<not> f) (Active_account_missing target_id)) (\<lambda>_.
     verify_integrity target))))"

text \<open>\<open>account_mut(..).touch()\<close> and \<open>save\<close>, then the context.\<close>

definition open_account :: "host \<Rightarrow> account_registry \<Rightarrow> string \<Rightarrow> bool \<Rightarrow> active_context act" where
  "open_account h r i migrated = andthen (now_text h) (\<lambda>now.
     let r = r\<lparr>rg_accounts := update_account i (\<lambda>a. a\<lparr>ar_last_opened_at := now\<rparr>)
           (rg_accounts r)\<rparr> in
     andthen (registry_save h r) (\<lambda>_. context_new h r migrated))"

definition start_without_registry :: "host \<Rightarrow> migration_state option \<Rightarrow> active_context act" where
  "start_without_registry h migration = (let source = legacy_database_path h in
     andthen (gets (\<lambda>w. is_file w source)) (\<lambda>legacy.
     case migration of
       Some s \<Rightarrow>
         if mg_phase s = Requires_review then raise (needs_review h s)
         else if mg_phase s = Complete then raise complete_without_registry
         else resume_migration h s None
     | None \<Rightarrow>
         if legacy then andthen (classify_legacy_database source) (migrate_legacy_database h)
         else andthen (account_database_files h) (\<lambda>databases.
           if databases \<noteq> []
           then raise (Invalid_registry
             (''accounts.json is missing but account databases exist: ['' @
              join '', '' (map path_quoted databases) @ '']''))
           else initialize_fresh h)))"

definition start_after_migration :: "host \<Rightarrow> migration_state \<Rightarrow> account_registry \<Rightarrow> string \<Rightarrow>
    path \<Rightarrow> active_context act" where
  "start_after_migration h s r active_id target =
     andthen (of_result (ok_or (mg_target_account_id s) no_target_account)) (\<lambda>migration_target_id.
     andthen (if active_id = migration_target_id then verify_complete_migration s r target
         else andthen (gets (\<lambda>w. is_file w target)) (\<lambda>f.
           andthen (guard (\<not> f) (Active_account_missing active_id)) (\<lambda>_.
           andthen (verify_integrity target) (\<lambda>_.
           andthen (ensure_account_dir h migration_target_id) (\<lambda>dir.
           let db = dir @ [DATABASE_FILE] in
           andthen (validate_database_path db) (\<lambda>_.
           andthen (gets (\<lambda>w. is_file w db)) (\<lambda>f.
           andthen (guard (\<not> f) (Active_account_missing migration_target_id)) (\<lambda>_.
           verify_integrity db)))))))) (\<lambda>_.
     open_account h r active_id (active_id = migration_target_id)))"

definition ensure_active_account :: "host \<Rightarrow> active_context act" where
  "ensure_active_account h =
     andthen (ensure_data_root h) (\<lambda>_.
     let legacy_source = legacy_database_path h in
     andthen (validate_legacy_source legacy_source) (\<lambda>_.
     andthen (migration_load h) (\<lambda>migration.
     andthen (installation_load h) (\<lambda>installation.
     andthen (load_with_recovery h) (\<lambda>registry.
     case installation of
       Some i \<Rightarrow> resume_fresh_installation h i registry
     | None \<Rightarrow>
     (case registry of
       None \<Rightarrow> start_without_registry h migration
     | Some r \<Rightarrow>
       andthen (active_account r) (\<lambda>active.
       andthen (ensure_account_dir h (ar_id active)) (\<lambda>target_dir.
       let target = target_dir @ [DATABASE_FILE] in
       andthen (validate_database_path target) (\<lambda>_.
       case migration of
         None \<Rightarrow> andthen (gets (\<lambda>w. is_file w target)) (\<lambda>f.
           andthen (guard (\<not> f) (Active_account_missing (ar_id active))) (\<lambda>_.
           open_account h r (ar_id active) False))
       | Some s \<Rightarrow>
           if mg_phase s = Requires_review then raise (needs_review h s)
           else if mg_phase s = Complete then start_after_migration h s r (ar_id active) target
           else andthen (of_result (ok_or (mg_target_account_id s)
               (Invalid_registry ''non-complete migration state has no target account'')))
             (\<lambda>state_target.
             andthen (guard (ar_id active \<noteq> DEFAULT_ACCOUNT_ID \<and> ar_id active \<noteq> state_target)
               (Invalid_registry (''registry active account '' @ ar_id active @
                 '' conflicts with migration target '' @ state_target))) (\<lambda>_.
             andthen (gets (\<lambda>w. is_file w legacy_source)) (\<lambda>f.
             andthen (guard (\<not> f) (Active_account_missing state_target)) (\<lambda>_.
             resume_migration h s (Some r))))))))))))))"

section \<open>Read-only reports\<close>

record legacy_review =
  lr_reason :: "string option"
  lr_source_file :: string
  lr_backup_file :: "string option"
  lr_source_fingerprint :: "string option"
  lr_backup_fingerprint :: "string option"
  lr_requires_manual_identity_verification :: bool

definition legacy_review_report :: "host \<Rightarrow> legacy_review option act" where
  "legacy_review_report h = andthen (migration_state_read_only h) (\<lambda>state. case state of
     None \<Rightarrow> ret None
   | Some s \<Rightarrow>
       if mg_phase s \<noteq> Requires_review then ret None
       else let source = legacy_database_path h in
         andthen (gets (\<lambda>w. is_file w source)) (\<lambda>f.
         andthen (if f then andthen (read_snapshot h source) (\<lambda>sn. ret (Some (sn_fingerprint sn)))
                  else ret None) (\<lambda>source_fingerprint.
         andthen (case mg_backup_file s of
             None \<Rightarrow> ret None
           | Some relative \<Rightarrow> andthen (read_snapshot h (h_root h @ path_parts relative))
               (\<lambda>sn. ret (Some (sn_fingerprint sn)))) (\<lambda>backup_fingerprint.
         ret (Some \<lparr>lr_reason = mg_reason s, lr_source_file = mg_source_file s,
           lr_backup_file = mg_backup_file s, lr_source_fingerprint = source_fingerprint,
           lr_backup_fingerprint = backup_fingerprint,
           lr_requires_manual_identity_verification = True\<rparr>)))))"

end
