(* ===== verification/AccFacts.thy ===== *)
theory AccFacts
  imports AccLegacy
begin

text \<open>
  The account crate's programs one by one, each with one rule for its weakest precondition. What
  the proofs know of a disk is \<open>disk_has\<close>: the valid registry and the switch journal it holds,
  accounts whose database is there, and a migration that is settled. Writes through a
  temporary file, new directories and reads keep it; the saves change one part of it. All of
  it is for a platform where renaming replaces the target (\<open>\<not> h_windows h\<close>).
\<close>

section \<open>Reading\<close>

lemma wp_read_file:
  assumes "file_at w p = Some (File c)"
    and "\<And>w'. untouched w w' \<Longrightarrow> Q c w'"
    and "\<And>e w'. \<not> calm w \<Longrightarrow> untouched w w' \<Longrightarrow> E e w'"
    and "\<And>w'. untouched w w' \<Longrightarrow> K w'"
  shows "wp (read_file p) Q E K w"
proof -
  have "wp (\<lambda>w. case target_of w p of Some (File c) \<Rightarrow> (Done c, w)
      | Some Dir \<Rightarrow> (Failed (Acc_io ''is a directory''), w)
      | _ \<Rightarrow> (Failed (Acc_io ''not found''), w)) Q E K w'" if u: "untouched w w'" for w'
  proof -
    have "target_of w' p = Some (File c)"
      using assms(1) u plain_file(4) by (simp add: file_at_file untouched_iff)
    then show ?thesis using assms(2)[OF u] by (simp add: wp_def)
  qed
  then show ?thesis unfolding read_file_def wp_andthen by (intro wp_access) (use assms in auto)
qed

lemma wp_read_no_file:
  assumes "node_at w p = Some Dir"
    and "\<And>e w'. untouched w w' \<Longrightarrow> E e w'" and "\<And>w'. untouched w w' \<Longrightarrow> K w'"
  shows "wp (read_file p) Q E K w"
  unfolding read_file_def wp_andthen
  by (intro wp_access) (use assms in \<open>auto simp: wp_def target_of_plain untouched_iff\<close>)

lemma wp_read_any_file:
  assumes "\<And>c w'. untouched w w' \<Longrightarrow> Q c w'" and "\<And>e w'. untouched w w' \<Longrightarrow> E e w'"
    and "\<And>w'. untouched w w' \<Longrightarrow> K w'"
  shows "wp (read_file p) Q E K w"
  unfolding read_file_def wp_andthen
  by (intro wp_access) (use assms in \<open>auto simp: wp_def split: option.splits node.splits\<close>)

lemma wp_open_read_only:
  assumes "\<And>db w'. untouched w w' \<Longrightarrow> target_of w' p = Some (File (Database_file db)) \<Longrightarrow> Q db w'"
    and "\<And>e w'. untouched w w' \<Longrightarrow> E e w'" and "\<And>w'. untouched w w' \<Longrightarrow> K w'"
  shows "wp (open_read_only p) Q E K w"
  using assms unfolding open_read_only_def
  by (auto split: option.splits node.splits content.splits intro!: wp_access)

lemma wp_read_snapshot:
  assumes "\<And>db s w'. untouched w w' \<Longrightarrow> target_of w' p = Some (File (Database_file db)) \<Longrightarrow>
      snapshot_of h p db = Inr s \<Longrightarrow> Q s w'"
    and "\<And>e w'. untouched w w' \<Longrightarrow> E e w'" and "\<And>w'. untouched w w' \<Longrightarrow> K w'"
  shows "wp (read_snapshot h p) Q E K w"
  using assms unfolding read_snapshot_def
  by (auto split: sum.splits intro!: wp_open_read_only)

lemma wp_verify_integrity:
  assumes "\<And>w'. untouched w w' \<Longrightarrow> Q () w'"
    and "\<And>e w'. untouched w w' \<Longrightarrow> E e w'" and "\<And>w'. untouched w w' \<Longrightarrow> K w'"
  shows "wp (verify_integrity p) Q E K w"
  using assms unfolding verify_integrity_def
  by (auto split: sum.splits intro!: wp_open_read_only)

lemma wp_pending_outbox_count:
  assumes "\<And>n w'. untouched w w' \<Longrightarrow> Q n w'" and "\<And>w'. untouched w w' \<Longrightarrow> K w'"
  shows "wp (pending_outbox_count p) Q E K w"
  using assms unfolding pending_outbox_count_def
  by (auto split: sum.splits intro!: wp_open_read_only)

lemma wp_status_with:
  assumes "\<And>s w'. untouched w w' \<Longrightarrow> Q s w'" and "\<And>w'. untouched w w' \<Longrightarrow> K w'"
  shows "wp (status_with h r j) Q E K w"
  using assms unfolding status_with_def
  by (auto simp: Let_def split: option.splits sum.splits intro!: wp_pending_outbox_count)

section \<open>Directories\<close>

lemma wp_ensure_data_root:
  assumes "\<And>w'. same_files w w' \<Longrightarrow> Q (h_root h) w'"
    and "\<And>e w'. same_files w w' \<Longrightarrow> E e w'" and "\<And>w'. same_files w w' \<Longrightarrow> K w'"
  shows "wp (ensure_data_root h) Q E K w"
  unfolding ensure_data_root_def
  by (auto simp: Let_def intro!: wp_create_dir_all assms) (meson same_files_trans)+

lemma wp_ensure_account_dir:
  assumes "\<And>w'. same_files w w' \<Longrightarrow> validate_account_id h i = Inr () \<Longrightarrow>
      Q (h_root h @ [''accounts'', i]) w'"
    and "\<And>e w'. same_files w w' \<Longrightarrow> E e w'" and "\<And>w'. same_files w w' \<Longrightarrow> K w'"
  shows "wp (ensure_account_dir h i) Q E K w"
proof -
  let ?d = "h_root h @ [''accounts'', i]"
  have made: "same_files w (put_node ?d Dir v')"
    if "same_files w v" "untouched v v'" "node_at v ?d = None" for v v'
    using that elapses_trans[of w v v']
    by (auto simp: same_files_def untouched_iff file_at_None)
  have dir: "canonical v ?d = ?d" if "node_at v ?d = Some Dir" for v
    by (rule canonical_plain) (simp add: is_symlink_def that)
  show ?thesis unfolding ensure_account_dir_def wp_andthen
    apply (rule wp_ensure_data_root)
    subgoal for v
      using dir[of v] dir[of "put_node ?d Dir _"]
      by (auto simp: Let_def split: option.splits node.splits sum.splits
          intro!: wp_effect intro: assms dest: untouched_same same_files_trans)
        (blast intro: assms made)+
    by (auto intro: assms)
qed

section \<open>What a disk holds\<close>

definition db_file :: "host \<Rightarrow> string \<Rightarrow> path" where
  "db_file h i = h_root h @ [''accounts'', i, DATABASE_FILE]"

definition has_db :: "host \<Rightarrow> world \<Rightarrow> string \<Rightarrow> bool" where
  "has_db h w i \<longleftrightarrow> (\<exists>c. file_at w (db_file h i) = Some (File c))"

text \<open>No marker of an installation under way, and a migration that never was, is complete or
  waits for a review.\<close>

definition migration_settled :: "migration_state option \<Rightarrow> bool" where
  "migration_settled M \<longleftrightarrow> (\<forall>s. M = Some s \<longrightarrow> migration_validate s = Inr () \<and>
     (mg_phase s = Complete \<or> mg_phase s = Requires_review))"

text \<open>A switch under way can still go back to the account it came from: both accounts are
  registered, the source has a database, and the target is active only once the journal says
  so. \<open>D\<close> are registered accounts known to have a database, the accounts \<open>A\<close> that were there
  from the start among them.\<close>

definition switch_safe :: "account_registry \<Rightarrow> string set \<Rightarrow> pending_switch \<Rightarrow> bool" where
  "switch_safe r D j \<longleftrightarrow> sw_from j \<in> D \<and> rg_account r (sw_from j) \<noteq> None \<and>
     rg_account r (sw_to j) \<noteq> None \<and>
     (rg_active r = sw_from j \<or>
      rg_active r = sw_to j \<and> (sw_phase j = Verifying_target \<or> sw_phase j = Switch_failed))"

definition safe :: "account_registry \<Rightarrow> pending_switch option \<Rightarrow> string set \<Rightarrow> bool" where
  "safe r J D \<longleftrightarrow> rg_active r \<in> D \<and> (\<forall>i\<in>D. rg_account r i \<noteq> None) \<and>
     (\<forall>j. J = Some j \<longrightarrow> switch_safe r D j)"

lemma safe_insert: "safe r J D \<Longrightarrow> rg_account r i \<noteq> None \<Longrightarrow> safe r J (insert i D)"
  by (auto simp: safe_def switch_safe_def)

lemma safe_no_journal: "safe r J D \<Longrightarrow> safe r None D"
  by (simp add: safe_def)

definition disk_has :: "host \<Rightarrow> string set \<Rightarrow> account_registry \<Rightarrow> pending_switch option \<Rightarrow>
    migration_state option \<Rightarrow> string set \<Rightarrow> world \<Rightarrow> bool" where
  "disk_has h A r J M D w \<longleftrightarrow>
     \<not> h_windows h \<and> calm w \<and> A \<subseteq> D \<and>
     file_at w (accounts_file h) = Some (File (Registry_file r)) \<and> validate_registry h r = Inr () \<and>
     file_at w (pending_account_switch_file h) = map_option (\<lambda>j. File (Switch_file j)) J \<and>
     (\<forall>j. J = Some j \<longrightarrow> switch_validate h j = Inr ()) \<and>
     file_at w (migration_state_file h) = map_option (\<lambda>s. File (Migration_file s)) M \<and>
     migration_settled M \<and>
     file_at w (installation_state_file h) = None \<and>
     file_at w (replace_journal_path (migration_state_file h)) = None \<and>
     file_at w (replace_journal_path (installation_state_file h)) = None \<and>
     (\<forall>i\<in>D. has_db h w i) \<and> safe r J D"

lemmas file_names = accounts_file_def pending_account_switch_file_def migration_state_file_def
  installation_state_file_def replace_journal_path_def db_file_def DATABASE_FILE_def
  legacy_database_path_def starts_with_def ends_with_def

lemma no_temps [simp]:
  "\<not> is_temp (accounts_file h)" "\<not> is_temp (pending_account_switch_file h)"
  "\<not> is_temp (migration_state_file h)" "\<not> is_temp (installation_state_file h)"
  "\<not> is_temp (db_file h i)" "\<not> is_temp (replace_journal_path (migration_state_file h))"
  "\<not> is_temp (replace_journal_path (installation_state_file h))"
  "\<not> is_temp (legacy_database_path h)"
  by (simp_all add: file_names is_temp_def)

lemma file_names_differ [simp]:
  "accounts_file h \<noteq> pending_account_switch_file h" "pending_account_switch_file h \<noteq> accounts_file h"
  "accounts_file h \<noteq> migration_state_file h" "migration_state_file h \<noteq> accounts_file h"
  "accounts_file h \<noteq> installation_state_file h" "installation_state_file h \<noteq> accounts_file h"
  "pending_account_switch_file h \<noteq> migration_state_file h"
  "migration_state_file h \<noteq> pending_account_switch_file h"
  "pending_account_switch_file h \<noteq> installation_state_file h"
  "installation_state_file h \<noteq> pending_account_switch_file h"
  "migration_state_file h \<noteq> installation_state_file h"
  "installation_state_file h \<noteq> migration_state_file h"
  by (simp_all add: file_names)

lemma file_names_differ_more [simp]:
  "db_file h i \<noteq> accounts_file h" "db_file h i \<noteq> pending_account_switch_file h"
  "db_file h i \<noteq> migration_state_file h" "db_file h i \<noteq> installation_state_file h"
  "replace_journal_path (migration_state_file h) \<noteq> accounts_file h"
  "replace_journal_path (migration_state_file h) \<noteq> pending_account_switch_file h"
  "replace_journal_path (installation_state_file h) \<noteq> accounts_file h"
  "replace_journal_path (installation_state_file h) \<noteq> pending_account_switch_file h"
  by (simp_all add: file_names)

lemma disk_has_same: "disk_has h A r J M D w \<Longrightarrow> same_files w w' \<Longrightarrow> disk_has h A r J M D w'"
  by (auto simp: disk_has_def same_files_def has_db_def intro: calm_elapses)

lemma disk_has_untouched: "disk_has h A r J M D w \<Longrightarrow> untouched w w' \<Longrightarrow> disk_has h A r J M D w'"
  by (blast intro: disk_has_same untouched_same)

lemma disk_has_registry:
  "disk_has h A r J M D w \<Longrightarrow> stored (accounts_file h) (Some (File (Registry_file r'))) w w' \<Longrightarrow>
     validate_registry h r' = Inr () \<Longrightarrow> safe r' J D \<Longrightarrow> disk_has h A r' J M D w'"
  by (auto simp: disk_has_def stored_def has_db_def intro: calm_elapses)

lemma disk_has_journal:
  "disk_has h A r J M D w \<Longrightarrow>
     stored (pending_account_switch_file h) (map_option (\<lambda>j. File (Switch_file j)) J') w w' \<Longrightarrow>
     \<forall>j. J' = Some j \<longrightarrow> switch_validate h j = Inr () \<Longrightarrow> safe r J' D \<Longrightarrow>
     disk_has h A r J' M D w'"
  by (auto simp: disk_has_def stored_def has_db_def intro: calm_elapses)

lemma disk_has_db:
  "disk_has h A r J M D w \<Longrightarrow> rg_account r i \<noteq> None \<Longrightarrow> has_db h w i \<Longrightarrow>
     disk_has h A r J M (insert i D) w"
  by (auto simp: disk_has_def safe_insert)

lemma disk_has_tick:
  "disk_has h A r J M D w \<Longrightarrow> disk_has h A r J M D (w\<lparr>w_tick := Suc (w_tick w)\<rparr>)"
  by (rule disk_has_same) (auto intro: untouched_same)

lemma disk_has_registryD:
  "disk_has h A r J M D w \<Longrightarrow> file_at w (accounts_file h) = Some (File (Registry_file r))"
  "disk_has h A r J M D w \<Longrightarrow> validate_registry h r = Inr ()"
  "disk_has h A r J M D w \<Longrightarrow> safe r J D"
  "disk_has h A r J M D w \<Longrightarrow> calm w" "disk_has h A r J M D w \<Longrightarrow> \<not> h_windows h"
  by (simp_all add: disk_has_def)

section \<open>The registry and the journal\<close>

lemma wp_has_read_registry:
  assumes P: "disk_has h A r J M D w"
    and "\<And>w'. disk_has h A r J M D w' \<Longrightarrow> Q r w'" and "\<And>w'. disk_has h A r J M D w' \<Longrightarrow> K w'"
  shows "wp (read_registry_file h (accounts_file h)) Q E K w"
  unfolding read_registry_file_def wp_andthen
  by (rule wp_read_file[OF disk_has_registryD(1)[OF P]])
    (use assms disk_has_registryD[OF P] in \<open>auto intro: disk_has_untouched\<close>)

lemmas wp_has_registry_load = wp_has_read_registry[folded registry_load_def]

lemma wp_has_load_with_recovery:
  assumes P: "disk_has h A r J M D w"
    and "\<And>w'. disk_has h A r J M D w' \<Longrightarrow> Q (Some r) w'" and "\<And>w'. disk_has h A r J M D w' \<Longrightarrow> K w'"
  shows "wp (load_with_recovery h) Q E K w"
proof -
  have "node_at w (accounts_file h) = Some (File (Registry_file r))"
    using disk_has_registryD(1)[OF P] by (simp add: file_at_file)
  then show ?thesis using assms
    by (auto simp: load_with_recovery_def Let_def plain_file intro!: wp_has_read_registry)
qed

lemma wp_has_load_registry:
  assumes "disk_has h A r J M D w"
    and "\<And>w'. disk_has h A r J M D w' \<Longrightarrow> Q r w'" and "\<And>w'. disk_has h A r J M D w' \<Longrightarrow> K w'"
  shows "wp (load_registry h e) Q E K w"
  using assms by (auto simp: load_registry_def intro!: wp_has_load_with_recovery)

lemma wp_has_registry_save:
  assumes P: "disk_has h A r J M D w" and S: "safe r' J D"
    and "\<And>w'. disk_has h A r' J M D w' \<Longrightarrow> Q () w'"
    and "\<And>e w'. disk_has h A r J M D w' \<Longrightarrow> E e w'" and "\<And>w'. disk_has h A r J M D w' \<Longrightarrow> K w'"
  shows "wp (registry_save h r') Q E K w"
  unfolding registry_save_def using disk_has_registryD(5)[OF P]
  by (auto split: sum.splits intro!: wp_write_json_atomic assms(3-5) P
      intro: disk_has_registry[OF P _ _ S] disk_has_same[OF P])

lemma wp_has_switch_load:
  assumes P: "disk_has h A r J M D w"
    and "\<And>w'. disk_has h A r J M D w' \<Longrightarrow> Q J w'"
    and "\<And>e w'. disk_has h A r J M D w' \<Longrightarrow> E e w'" and "\<And>w'. disk_has h A r J M D w' \<Longrightarrow> K w'"
  shows "wp (switch_load h) Q E K w"
proof -
  let ?p = "pending_account_switch_file h"
  have j: "file_at w ?p = map_option (\<lambda>j. File (Switch_file j)) J"
      "\<forall>j. J = Some j \<longrightarrow> switch_validate h j = Inr ()"
    using P by (auto simp: disk_has_def)
  have absent: "\<not> is_symlink w ?p" if "J = None"
    using j(1) that by (auto simp: file_at_def is_symlink_def split: option.splits node.splits)
  have dir: "node_at w ?p = Some Dir" if "J = None" "path_exists w ?p"
    using j(1) that by (auto simp: file_at_def path_exists_def target_of_plain
        split: option.splits node.splits)
  show ?thesis
  proof (cases J)
    case None
    show ?thesis unfolding switch_load_def Let_def
      using None absent assms(2-4) disk_has_untouched[OF P] P dir
      by (auto intro!: wp_read_no_file)
  next
    case (Some j)
    have "node_at w ?p = Some (File (Switch_file j))" using j(1) Some by (simp add: file_at_file)
    then show ?thesis unfolding switch_load_def Let_def
      using Some assms(2-4) disk_has_untouched[OF P] j
      by (auto simp: plain_file file_at_file intro!: wp_read_file)
  qed
qed

lemma wp_has_switch_save:
  assumes P: "disk_has h A r J M D w" and S: "safe r (Some j) D"
    and "\<And>w'. disk_has h A r (Some j) M D w' \<Longrightarrow> Q () w'"
    and "\<And>e w'. disk_has h A r J M D w' \<Longrightarrow> E e w'" and "\<And>w'. disk_has h A r J M D w' \<Longrightarrow> K w'"
  shows "wp (switch_save h j) Q E K w"
  unfolding switch_save_def using disk_has_registryD(5)[OF P]
  by (auto split: sum.splits intro!: wp_write_json_atomic assms(3-5) P
      intro: disk_has_journal[OF P _ _ S]
        disk_has_same[OF P])

lemma wp_has_fault:
  assumes P: "disk_has h A r J M D w"
    and "\<And>w'. disk_has h A r J M D w' \<Longrightarrow> Q () w'"
    and "\<And>e w'. disk_has h A r J M D w' \<Longrightarrow> E e w'" and "\<And>w'. disk_has h A r J M D w' \<Longrightarrow> K w'"
  shows "wp (fault_at h pt a b c) Q E K w"
  using assms(2-4) disk_has_untouched[OF P] by (intro wp_fault_at) auto

lemma wp_has_remove_journal:
  assumes P: "disk_has h A r J M D w"
    and "\<And>w'. disk_has h A r None M D w' \<Longrightarrow> Q () w'"
    and "\<And>e w'. disk_has h A r J M D w' \<Longrightarrow> E e w'" and "\<And>w'. disk_has h A r J M D w' \<Longrightarrow> K w'"
  shows "wp (remove_journal h) Q E K w"
  unfolding remove_journal_def wp_andthen wp_handle
proof (rule wp_has_fault[OF P])
  fix v assume v: "disk_has h A r J M D v"
  have none: "disk_has h A r None M D v" if "file_at v (pending_account_switch_file h) = None"
    using v that safe_no_journal[OF disk_has_registryD(3)[OF v]] by (simp add: disk_has_def)
  have gone: "disk_has h A r None M D w'"
    if "stored (pending_account_switch_file h) None v w'" for w'
    using disk_has_journal[OF v, where J'=None] safe_no_journal[OF disk_has_registryD(3)[OF v]] that
    by simp
  show "wp (remove_file (pending_account_switch_file h))
      (\<lambda>x. wp (sync_directory (h_root h)) Q E K)
      (\<lambda>e. wp (if e = not_found then ret () else raise e) Q E K) K v"
    by (rule wp_remove_file)
      (use assms(2-4) disk_has_same[OF v] none gone in \<open>auto simp: sync_directory_def\<close>)
qed (use assms in auto)

lemma wp_has_status:
  assumes P: "disk_has h A r J M D w"
    and "\<And>s w'. disk_has h A r J M D w' \<Longrightarrow> Q s w'" and "\<And>w'. disk_has h A r J M D w' \<Longrightarrow> K w'"
  shows "wp (status_from_journal h j) Q E K w"
  using assms unfolding status_from_journal_def
  by (auto intro!: wp_has_load_with_recovery wp_status_with dest: disk_has_untouched)

lemma wp_has_pending:
  assumes P: "disk_has h A r J M D w"
    and "\<And>n w'. disk_has h A r J M D w' \<Longrightarrow> Q n w'" and "\<And>w'. disk_has h A r J M D w' \<Longrightarrow> K w'"
  shows "wp (pending_outbox_count p) Q E K w"
  using assms by (auto intro!: wp_pending_outbox_count dest: disk_has_untouched)

lemma database_path_db_file: "database_path h i = Inr p \<longleftrightarrow> validate_account_id h i = Inr () \<and> p = db_file h i"
  by (auto simp: database_path_def account_dir_def database_file_name_def db_file_def result_simps)

text \<open>A target that passes the check has a database.\<close>

lemma wp_has_verify:
  assumes P: "disk_has h A r J M D w" and t: "rg_account r (ar_id t) \<noteq> None"
    and "\<And>w'. disk_has h A r J M (insert (ar_id t) D) w' \<Longrightarrow> Q () w'"
    and "\<And>e w'. disk_has h A r J M D w' \<Longrightarrow> E e w'" and "\<And>w'. disk_has h A r J M D w' \<Longrightarrow> K w'"
  shows "wp (verify_target_identity h t) Q E K w"
  unfolding verify_target_identity_def wp_andthen
proof (rule wp_ensure_account_dir)
  fix v assume v: "same_files w v" "validate_account_id h (ar_id t) = Inr ()"
  have has: "disk_has h A r J M D v" using disk_has_same[OF P v(1)] .
  have db: "has_db h v (ar_id t)"
    if "is_file v (db_file h (ar_id t))" "\<forall>q. node_at v (db_file h (ar_id t)) \<noteq> Some (Symlink q)"
    using that by (auto simp: has_db_def is_file_def target_of_def file_at_def follow_plain
        split: option.splits node.splits)
  show "wp (of_result (database_path h (ar_id t)))
      (\<lambda>x. wp (validate_database_path x) (\<lambda>xa. wp (gets (\<lambda>w. is_file w x))
        (\<lambda>xb. wp (guard (\<not> xb) (Active_account_missing (ar_id t)))
          (\<lambda>xc. wp (read_snapshot h x) (\<lambda>xd. wp (of_result (check_target t xd)) Q E K) E K) E K)
        E K) E K) E K v"
    using assms(4)[OF has] v(2) db assms(3)[OF disk_has_db[OF disk_has_untouched[OF has] t]]
      assms(4)[OF disk_has_untouched[OF has]] assms(5)[OF disk_has_untouched[OF has]]
    by (auto simp: database_path_db_file validate_database_path_def has_db_def untouched_iff
        split: sum.splits option.splits node.splits intro!: wp_read_snapshot)
qed (use assms(4,5) disk_has_same[OF P] in auto)

lemma wp_has_touch:
  assumes "disk_has h A r J M D w"
    and "\<And>now w'. disk_has h A r J M D w' \<Longrightarrow> Q (j\<lparr>sw_phase := p, sw_updated_at := now\<rparr>) w'"
  shows "wp (switch_touch h p j) Q E K w"
  using assms by (auto simp: switch_touch_def now_text_def intro: disk_has_tick)

lemma wp_has_tick:
  assumes "disk_has h A r J M D w" and "\<And>x w'. disk_has h A r J M D w' \<Longrightarrow> Q x w'"
  shows "wp (tick f) Q E K w"
  using assms by (auto intro: disk_has_tick)

end
