(* ===== verification/AccStartup.thy ===== *)
theory AccStartup
  imports AccLegacy
begin

text \<open>
  \<open>src/apps/native/src-tauri/src/db.rs\<close>, the start of the application on a data root: the
  pending switch is recovered, the active account found, its store opened, and the switch
  finished, or rolled back if its target does not open. The texts of the \<open>String\<close> errors are
  left out, the errors they are made from kept.
\<close>

text \<open>\<open>TodoStore::open\<close>: it creates or upgrades the tables of the database at the path.\<close>

definition store_open :: "host \<Rightarrow> path \<Rightarrow> database act" where
  "store_open h p = andthen (connection_open p) (\<lambda>db. case h_open_store h db of
     Inl message \<Rightarrow> raise (Acc_sqlite message)
   | Inr db \<Rightarrow> andthen (effect (put_node p (File (Database_file db)))) (\<lambda>_. ret db))"

record opened_store =
  os_store :: database
  os_account :: active_context

definition open_store_at :: "host \<Rightarrow> opened_store act" where
  "open_store_at h =
     andthen (create_dir_all (h_root h)) (\<lambda>_.
     andthen (recover_pending_switch h) (\<lambda>recovery.
     andthen (ensure_active_account h) (\<lambda>account.
     let target_committed = sr_target_committed recovery in
     andthen (fault_at h Target_database_before_open None (Some (cx_account_id account))
       (Some ''open active account database'')) (\<lambda>_.
     andthen (fault_at h Sqlite_busy None (Some (cx_account_id account))
       (Some ''sqlite open preflight'')) (\<lambda>_.
     handle (store_open h (cx_database_path account))
       (\<lambda>store.
          andthen (fault_at h Target_database_after_open None (Some (cx_account_id account))
            (Some ''active account database opened'')) (\<lambda>_.
          andthen (if target_committed then finish_pending_switch h else ret ()) (\<lambda>_.
          ret \<lparr>os_store = store, os_account = account\<rparr>)))
       (\<lambda>error.
          if target_committed then
            andthen (rollback_pending_switch h ''TARGET_OPEN_FAILED'') (\<lambda>_.
            andthen (ensure_active_account h) (\<lambda>recovered.
            andthen (store_open h (cx_database_path recovered)) (\<lambda>store.
            ret \<lparr>os_store = store, os_account = recovered\<rparr>)))
          else raise error))))))"

section \<open>The calls of the application\<close>

text \<open>What \<open>commands.rs\<close> calls of the crate, and a start.\<close>

datatype account_call =
    Call_start
  | Call_list
  | Call_status
  | Call_status_read_only
  | Call_prepare string
  | Call_validate_request string "64 word"
  | Call_request string "64 word"
  | Call_rollback string
  | Call_abort
  | Call_create string string
  | Call_verify_identity string string
  | Call_mark_verified
  | Call_migration_state
  | Call_review

definition no_answer :: "'a act \<Rightarrow> unit act" where
  "no_answer m = andthen m (\<lambda>_. ret ())"

primrec run_call :: "host \<Rightarrow> account_call \<Rightarrow> unit act" where
  "run_call h Call_start = no_answer (open_store_at h)"
| "run_call h Call_list = no_answer (list_accounts h)"
| "run_call h Call_status = no_answer (get_switch_status h)"
| "run_call h Call_status_read_only = no_answer (switch_status_read_only h)"
| "run_call h (Call_prepare i) = no_answer (prepare_account_switch h i)"
| "run_call h (Call_validate_request i g) = validate_account_switch_request h i g"
| "run_call h (Call_request i g) = no_answer (request_account_switch h i g)"
| "run_call h (Call_rollback code) = no_answer (rollback_pending_switch h code)"
| "run_call h Call_abort = no_answer (abort_prepared_switch h)"
| "run_call h (Call_create email url) = no_answer (create_pending_cloud_account h email url)"
| "run_call h (Call_verify_identity email url) = verify_cloud_identity h email url"
| "run_call h Call_mark_verified = no_answer (mark_account_verified h)"
| "run_call h Call_migration_state = no_answer (migration_state_read_only h)"
| "run_call h Call_review = no_answer (legacy_review_report h)"

end
