(* ===== verification/AccSafety.thy ===== *)
theory AccSafety
  imports AccFacts AccStartup
begin

text \<open>
  The invariant of the accounts between two steps of the application, kept by every call
  however it ends: there is a valid registry, its active account has a database, and a switch
  that is under way can still go back to the account it came from.
\<close>

section \<open>The invariant\<close>

definition sound :: "host \<Rightarrow> string set \<Rightarrow> world \<Rightarrow> bool" where
  "sound h A w \<longleftrightarrow> (\<exists>r J M D. disk_has h A r J M D w)"

lemma soundI: "disk_has h A r J M D w \<Longrightarrow> sound h A w"
  by (auto simp: sound_def)

lemma soundE:
  assumes "sound h A w"
  obtains r J M D where "disk_has h A r J M D w"
  using assms by (auto simp: sound_def)

lemma sound_same: "sound h A w \<Longrightarrow> same_files w w' \<Longrightarrow> sound h A w'"
  by (auto simp: sound_def) (blast intro: disk_has_same)

lemma sound_untouched: "sound h A w \<Longrightarrow> untouched w w' \<Longrightarrow> sound h A w'"
  by (blast intro: sound_same untouched_same)

section \<open>Registries\<close>

lemma rg_account_iff: "rg_account r i \<noteq> None \<longleftrightarrow> i \<in> ar_id ` set (rg_accounts r)"
  by (metis rg_account_def lookup_row_None)

lemma ids_update_account:
  "(\<And>a. ar_id a = i \<Longrightarrow> ar_id (f a) = ar_id a) \<Longrightarrow>
     map ar_id (update_account i f as) = map ar_id as"
  by (induction as) auto

lemma update_account_known:
  assumes "\<And>a. ar_id a = i \<Longrightarrow> ar_id (f a) = ar_id a"
  shows "rg_account (r\<lparr>rg_accounts := update_account i f (rg_accounts r)\<rparr>) k \<noteq> None \<longleftrightarrow>
      rg_account r k \<noteq> None"
proof -
  have "set (map ar_id (update_account i f (rg_accounts r))) = set (map ar_id (rg_accounts r))"
    using ids_update_account[where as = "rg_accounts r" and f = f, OF assms] by simp
  then show ?thesis unfolding rg_account_iff by simp
qed

text \<open>A registry with the same active account and no account less is as safe.\<close>

lemma safe_registry:
  assumes "safe r J D" and "rg_active r' = rg_active r"
    and "\<And>i. rg_account r i \<noteq> None \<Longrightarrow> rg_account r' i \<noteq> None"
  shows "safe r' J D"
  using assms by (auto simp: safe_def switch_safe_def)

lemma safe_update_account:
  assumes "safe r J D" and "\<And>a. ar_id a = i \<Longrightarrow> ar_id (f a) = ar_id a"
  shows "safe (r\<lparr>rg_accounts := update_account i f (rg_accounts r)\<rparr>) J D"
  using update_account_known[OF assms(2)] by (intro safe_registry[OF assms(1)]) auto

lemma rg_upsert_keeps:
  assumes "rg_upsert h a r = Inr r'"
  shows "rg_active r' = rg_active r" "rg_account r i \<noteq> None \<Longrightarrow> rg_account r' i \<noteq> None"
    "rg_account r' (ar_id a) \<noteq> None"
proof -
  have ids: "map ar_id (update_account (ar_id a) (\<lambda>_. a) as) = map ar_id as" for as
    by (rule ids_update_account) simp
  from assms show "rg_active r' = rg_active r"
    by (auto simp: rg_upsert_def result_simps split: if_splits)
  have set: "ar_id ` set (rg_accounts r') = insert (ar_id a) (ar_id ` set (rg_accounts r))"
    using assms ids[of "rg_accounts r"] rg_account_iff[of r "ar_id a"]
    by (auto simp: rg_upsert_def result_simps simp flip: set_map split: if_splits)
  show "rg_account r i \<noteq> None \<Longrightarrow> rg_account r' i \<noteq> None" "rg_account r' (ar_id a) \<noteq> None"
    using set by (simp_all only: rg_account_iff, auto)
qed

lemma validate_accounts_ids:
  "try_fold (validate_account h) as ids = Inr ids' \<Longrightarrow> ids' = ids @ map ar_id as"
  by (induction as arbitrary: ids) (fastforce simp: validate_account_def result_simps split: if_splits)+

lemma valid_active: "validate_registry h r = Inr () \<Longrightarrow> rg_account r (rg_active r) \<noteq> None"
  by (auto simp: validate_registry_def result_simps rg_account_iff dest!: validate_accounts_ids
      split: if_splits simp del: not_None_eq)

lemma wp_active_account:
  assumes "disk_has h A r J M D w" and "\<And>a. rg_account r (rg_active r) = Some a \<Longrightarrow> Q a w"
  shows "wp (active_account r) Q E K w"
  using assms valid_active[OF disk_has_registryD(2)[OF assms(1)]]
  by (auto simp: active_account_def)

section \<open>Calls\<close>

text \<open>A call keeps the accounts sound however it ends.\<close>

definition keeps :: "host \<Rightarrow> string set \<Rightarrow> 'a act \<Rightarrow> bool" where
  "keeps h A m \<longleftrightarrow> (\<forall>w. sound h A w \<longrightarrow> wp m (\<lambda>_. sound h A) (\<lambda>_. sound h A) (sound h A) w)"

lemma keepsI:
  assumes "\<And>r J M D w. disk_has h A r J M D w \<Longrightarrow>
      wp m (\<lambda>_. sound h A) (\<lambda>_. sound h A) (sound h A) w"
  shows "keeps h A m"
  using assms by (auto simp: keeps_def elim!: soundE)

lemma wp_keeps:
  assumes "keeps h A m" and "sound h A w"
    and "\<And>x w'. sound h A w' \<Longrightarrow> Q x w'" and "\<And>e w'. sound h A w' \<Longrightarrow> E e w'"
    and "\<And>w'. sound h A w' \<Longrightarrow> K w'"
  shows "wp m Q E K w"
  using assms(1,2) by (auto simp: keeps_def intro: wp_mono assms(3-5))

lemmas wp_has = wp_has_load_registry wp_has_load_with_recovery wp_has_registry_load
  wp_has_registry_save wp_has_switch_load wp_has_switch_save wp_has_fault wp_has_remove_journal
  wp_has_status wp_has_pending wp_has_verify wp_has_touch wp_has_tick

lemma keeps_list: "keeps h A (list_accounts h)"
  unfolding list_accounts_def
  by (rule keepsI, (rule wp_intros | erule wp_has soundI)+)

lemma keeps_status: "keeps h A (get_switch_status h)"
  unfolding get_switch_status_def
  by (rule keepsI, (rule wp_intros | erule wp_has soundI)+)

lemma keeps_status_read_only: "keeps h A (switch_status_read_only h)"
  unfolding switch_status_read_only_def
  by (rule keepsI, (rule wp_intros wp_status_with | erule wp_has soundI)+)
    (auto intro: soundI sound_untouched)

lemma account_known: "rg_account r i = Some t \<Longrightarrow> rg_account r (ar_id t) \<noteq> None"
  by (auto simp: rg_account_def dest: lookup_row_key)

lemma safe_prepared:
  assumes "safe r J D" and "validate_registry h r = Inr ()" and "rg_account r i = Some t"
    and "sw_from j = rg_active r" and "sw_to j = i"
  shows "safe r (Some j) (insert (ar_id t) D)"
  using safe_insert[OF assms(1) account_known[OF assms(3)]] assms(3-5) valid_active[OF assms(2)]
  by (auto simp: safe_def switch_safe_def)

lemma keeps_prepare: "keeps h A (prepare_account_switch h i)"
proof (rule keepsI)
  fix r J M D w assume P: "disk_has h A r J M D w"
  note V = disk_has_registryD(2)[OF P] and S = disk_has_registryD(3)[OF P]
  show "wp (prepare_account_switch h i) (\<lambda>_. sound h A) (\<lambda>_. sound h A) (sound h A) w"
    unfolding prepare_account_switch_def Let_def now_text_def
    by (insert P, (rule wp_intros | erule account_known | erule wp_has soundI |
      erule safe_prepared[OF S V] | simp only: pending_switch.simps)+)
qed

text \<open>How the journal and the active account may move.\<close>

lemma safe_phase:
  assumes "safe r (Some j) D" and "p = Verifying_target \<or> p = Switch_failed \<or> sw_phase j = Prepared"
    and "sw_from j' = sw_from j" "sw_to j' = sw_to j" "sw_phase j' = p"
  shows "safe r (Some j') D"
  using assms by (auto simp: safe_def switch_safe_def)

lemma safe_back: "safe r (Some j) D \<Longrightarrow> safe (r\<lparr>rg_active := sw_from j\<rparr>) (Some j) D"
  by (auto simp: safe_def switch_safe_def rg_account_def)

lemma safe_forward:
  "safe r (Some j) D \<Longrightarrow> sw_phase j = Verifying_target \<Longrightarrow> sw_to j \<in> D \<Longrightarrow>
     safe (r\<lparr>rg_active := sw_to j\<rparr>) (Some j) D"
  by (auto simp: safe_def switch_safe_def rg_account_def)

lemma wp_case_phase [wp_intros]:
  "(p = Prepared \<Longrightarrow> wp a Q E K w) \<Longrightarrow> (p = Restart_required \<Longrightarrow> wp b Q E K w) \<Longrightarrow>
   (p = Verifying_target \<Longrightarrow> wp c Q E K w) \<Longrightarrow> (p = Switch_failed \<Longrightarrow> wp d Q E K w) \<Longrightarrow>
   wp (case p of Prepared \<Rightarrow> a | Restart_required \<Rightarrow> b | Verifying_target \<Rightarrow> c | Switch_failed \<Rightarrow> d)
     Q E K w"
  by (cases p) auto

lemma safe_request:
  "disk_has h A r (Some j) M D w \<Longrightarrow> sw_phase j = Prepared \<Longrightarrow>
     safe r (Some (j\<lparr>sw_phase := Restart_required, sw_updated_at := now\<rparr>)) D"
  by (rule safe_phase[OF disk_has_registryD(3), where p = Restart_required]) simp_all

text \<open>The tails of the recovery and of the rollback.\<close>

definition ends_sound :: "host \<Rightarrow> string set \<Rightarrow> 'a act \<Rightarrow> world \<Rightarrow> bool" where
  "ends_sound h A m w \<longleftrightarrow> wp m (\<lambda>_. sound h A) (\<lambda>_. sound h A) (sound h A) w"

lemma wp_ends_sound:
  assumes "ends_sound h A m w"
    and "\<And>x w'. sound h A w' \<Longrightarrow> Q x w'" and "\<And>e w'. sound h A w' \<Longrightarrow> E e w'"
    and "\<And>w'. sound h A w' \<Longrightarrow> K w'"
  shows "wp m Q E K w"
  using assms(1) unfolding ends_sound_def by (rule wp_mono) (auto intro: assms)

lemma sound_commit_active:
  assumes "disk_has h A r J M D w" and "safe (r\<lparr>rg_active := i\<rparr>) J D"
  shows "ends_sound h A (commit_active h r i phase before after) w"
  unfolding commit_active_def ends_sound_def
  by (insert assms, (rule wp_intros | assumption | rule wp_has, assumption | rule soundI, assumption)+)

lemma sound_fail_switch:
  assumes P: "disk_has h A r (Some j) M D w"
  shows "ends_sound h A (fail_switch h r j code detail before after) w"
proof -
  have failed: "safe r (Some (j\<lparr>sw_phase := Switch_failed, sw_updated_at := now,
      sw_error_code := Some code\<rparr>)) D" for now
    by (rule safe_phase[OF disk_has_registryD(3)[OF P], where p = Switch_failed]) simp_all
  show ?thesis unfolding fail_switch_def Let_def ends_sound_def
    by (insert P, (rule wp_intros failed safe_back[OF failed] | assumption | rule wp_has, assumption |
      rule soundI, assumption | rule wp_ends_sound[OF sound_commit_active], assumption)+)
qed

lemma sound_commit_target:
  assumes P: "disk_has h A r (Some j) M D w" and to: "sw_to j \<in> D"
  shows "ends_sound h A (commit_target h r j) w"
proof -
  have S: "safe r (Some (j\<lparr>sw_phase := Verifying_target, sw_updated_at := now\<rparr>)) D" for now
    by (rule safe_phase[OF disk_has_registryD(3)[OF P], where p = Verifying_target]) simp_all
  have F: "safe (r\<lparr>rg_active := sw_to (j\<lparr>sw_phase := Verifying_target, sw_updated_at := now\<rparr>)\<rparr>)
      (Some (j\<lparr>sw_phase := Verifying_target, sw_updated_at := now\<rparr>)) D" for now
    by (rule safe_forward[OF S]) (use to in simp_all)
  show ?thesis unfolding commit_target_def ends_sound_def
    by (insert P, (rule wp_intros S F | assumption | rule wp_has, assumption |
      rule soundI, assumption | rule wp_ends_sound[OF sound_commit_active], assumption)+)
qed

lemma keeps_validate_request: "keeps h A (validate_account_switch_request h i g)"
  unfolding validate_account_switch_request_def requested_journal_def
  by (rule keepsI, (rule wp_intros | rule wp_has, assumption | rule soundI, assumption)+)

lemma keeps_request: "keeps h A (request_account_switch h i g)"
  unfolding request_account_switch_def requested_journal_def
  by (rule keepsI, (rule wp_intros | hypsubst | rule wp_has, assumption | rule soundI, assumption |
    rule safe_request, assumption, assumption)+)

lemma keeps_abort: "keeps h A (abort_prepared_switch h)"
  unfolding abort_prepared_switch_def
  by (rule keepsI, (rule wp_intros | rule wp_has, assumption | rule soundI, assumption)+)

lemma keeps_finish: "keeps h A (finish_pending_switch h)"
  unfolding finish_pending_switch_def
  by (rule keepsI, (rule wp_intros | rule wp_has, assumption | rule soundI, assumption)+)

lemma keeps_rollback: "keeps h A (rollback_pending_switch h code)"
  unfolding rollback_pending_switch_def
  by (rule keepsI, (rule wp_intros | hypsubst | assumption | rule wp_has, assumption |
    rule soundI, assumption | rule wp_ends_sound[OF sound_fail_switch], assumption)+)

lemma target_id: "rg_account r i = Some t \<Longrightarrow> i \<in> insert (ar_id t) D"
  by (auto simp: rg_account_def dest: lookup_row_key)

lemma safe_repair:
  "disk_has h A r (Some j) M D w \<Longrightarrow> safe (r\<lparr>rg_active := sw_from j\<rparr>) (Some j) D"
  by (rule safe_back[OF disk_has_registryD(3)])

lemma keeps_recover: "keeps h A (recover_pending_switch h)"
  unfolding recover_pending_switch_def repair_failed_def
  by (rule keepsI, (rule wp_intros | drule option.inject [THEN iffD1] | hypsubst | assumption |
    rule account_known, assumption | rule wp_has, assumption |
    rule soundI, assumption | rule safe_repair, assumption |
    rule wp_ends_sound[OF sound_fail_switch], assumption |
    rule wp_ends_sound[OF sound_commit_target], assumption, rule target_id, assumption)+)

section \<open>Databases\<close>

lemma db_file_dir [simp]: "(h_root h @ [''accounts'', i]) @ [DATABASE_FILE] = db_file h i"
  by (simp add: db_file_def)

lemma disk_has_put_db:
  "disk_has h A r J M D w \<Longrightarrow> disk_has h A r J M D (put_node (db_file h i) (File c) w)"
  by (auto simp: disk_has_def has_db_def calm_def put_node_def[of _ _ w] file_at_def node_at_def
      update_conv' file_names)

lemma wp_has_account_dir:
  assumes "disk_has h A r J M D w"
    and "\<And>w'. disk_has h A r J M D w' \<Longrightarrow> Q (h_root h @ [''accounts'', i]) w'"
    and "\<And>e w'. disk_has h A r J M D w' \<Longrightarrow> E e w'" and "\<And>w'. disk_has h A r J M D w' \<Longrightarrow> K w'"
  shows "wp (ensure_account_dir h i) Q E K w"
  by (rule wp_ensure_account_dir) (auto intro: assms disk_has_same[OF assms(1)])

lemma wp_has_data_root:
  assumes "disk_has h A r J M D w" and "\<And>w'. disk_has h A r J M D w' \<Longrightarrow> Q (h_root h) w'"
    and "\<And>e w'. disk_has h A r J M D w' \<Longrightarrow> E e w'" and "\<And>w'. disk_has h A r J M D w' \<Longrightarrow> K w'"
  shows "wp (ensure_data_root h) Q E K w"
  by (rule wp_ensure_data_root) (auto intro: assms disk_has_same[OF assms(1)])

lemma wp_has_create_dir:
  assumes "disk_has h A r J M D w" and "\<And>w'. disk_has h A r J M D w' \<Longrightarrow> Q () w'"
    and "\<And>e w'. disk_has h A r J M D w' \<Longrightarrow> E e w'" and "\<And>w'. disk_has h A r J M D w' \<Longrightarrow> K w'"
  shows "wp (create_dir_all p) Q E K w"
  by (rule wp_create_dir_all) (auto intro: assms disk_has_same[OF assms(1)])

lemma wp_validate_database_path:
  assumes "(\<forall>q. node_at w p \<noteq> Some (Symlink q)) \<Longrightarrow> Q () w" and "\<And>e. E e w"
  shows "wp (validate_database_path p) Q E K w"
  using assms by (auto simp: validate_database_path_def split: option.split node.split)

lemma wp_has_snapshot:
  assumes "disk_has h A r J M D w" and "\<And>s w'. disk_has h A r J M D w' \<Longrightarrow> Q s w'"
    and "\<And>e w'. disk_has h A r J M D w' \<Longrightarrow> E e w'" and "\<And>w'. disk_has h A r J M D w' \<Longrightarrow> K w'"
  shows "wp (read_snapshot h p) Q E K w"
  by (rule wp_read_snapshot) (auto intro: assms disk_has_untouched[OF assms(1)])

lemma wp_has_integrity:
  assumes "disk_has h A r J M D w" and "\<And>w'. disk_has h A r J M D w' \<Longrightarrow> Q () w'"
    and "\<And>e w'. disk_has h A r J M D w' \<Longrightarrow> E e w'" and "\<And>w'. disk_has h A r J M D w' \<Longrightarrow> K w'"
  shows "wp (verify_integrity p) Q E K w"
  by (rule wp_verify_integrity) (auto intro: assms disk_has_untouched[OF assms(1)])

lemma wp_has_connection:
  assumes P: "disk_has h A r J M D w" and "\<And>db w'. disk_has h A r J M D w' \<Longrightarrow> Q db w'"
    and "\<And>e w'. disk_has h A r J M D w' \<Longrightarrow> E e w'" and "\<And>w'. disk_has h A r J M D w' \<Longrightarrow> K w'"
  shows "wp (connection_open (db_file h i)) Q E K w"
  unfolding connection_open_def
  by (auto split: option.split node.split content.split intro!: wp_effect wp_access
      intro: assms(2-4) P disk_has_untouched[OF P] disk_has_put_db)

lemma wp_has_sync_file:
  assumes P: "disk_has h A r J M D w" and "\<And>w'. disk_has h A r J M D w' \<Longrightarrow> Q () w'"
    and "\<And>e w'. disk_has h A r J M D w' \<Longrightarrow> E e w'" and "\<And>w'. disk_has h A r J M D w' \<Longrightarrow> K w'"
  shows "wp (sync_file p) Q E K w"
  unfolding sync_file_def
  by (auto intro!: wp_effect intro: assms(2-4) P disk_has_untouched[OF P])

lemma wp_sync_directory [wp_intros]: "Q () w \<Longrightarrow> wp (sync_directory p) Q E K w"
  by (simp add: sync_directory_def)

lemma wp_has_store_open:
  assumes P: "disk_has h A r J M D w" and "\<And>db w'. disk_has h A r J M D w' \<Longrightarrow> Q db w'"
    and "\<And>e w'. disk_has h A r J M D w' \<Longrightarrow> E e w'" and "\<And>w'. disk_has h A r J M D w' \<Longrightarrow> K w'"
  shows "wp (store_open h (db_file h i)) Q E K w"
  unfolding store_open_def wp_andthen
  by (rule wp_has_connection[OF P])
    (auto split: sum.split intro!: wp_effect
      intro: assms(2-4) disk_has_untouched disk_has_put_db)

lemmas wp_has_files = wp_has_account_dir wp_has_data_root wp_has_create_dir wp_has_snapshot
  wp_has_integrity wp_has_connection wp_has_sync_file wp_has_store_open

section \<open>Cloud accounts\<close>

lemma safe_upsert:
  "disk_has h A r J M D w \<Longrightarrow> rg_upsert h a r = Inr r' \<Longrightarrow> safe r' J D"
  by (rule safe_registry, erule disk_has_registryD(3)) (auto simp: rg_upsert_keeps)

lemma safe_account_edit:
  assumes "disk_has h A r J M D w" and "\<And>a. ar_id (f a) = ar_id a"
  shows "safe (r\<lparr>rg_accounts := update_account i f (rg_accounts r)\<rparr>) J D"
  by (rule safe_update_account[OF disk_has_registryD(3)[OF assms(1)]]) (rule assms(2))

lemma wp_cloud_with_identity:
  assumes "disk_has h A r J M D w" and "\<And>a w'. disk_has h A r J M D w' \<Longrightarrow> Q a w'"
    and "\<And>e w'. disk_has h A r J M D w' \<Longrightarrow> E e w'"
  shows "wp (account_cloud_with_identity h i email url pending) Q E K w"
  using assms disk_has_tick
  by (auto simp: account_cloud_with_identity_def now_text_def split: sum.split)

lemma keeps_create: "keeps h A (create_pending_cloud_account h email url)"
  unfolding create_pending_cloud_account_def Let_def new_uuid_def create_database_def
  by (rule keepsI, (rule wp_intros wp_validate_database_path |
    rule wp_has wp_has_files wp_cloud_with_identity, assumption | rule soundI, assumption |
    rule safe_upsert, assumption, assumption | simp only: db_file_dir)+)

lemma wp_has_active:
  assumes "disk_has h A r J M D w" and "\<And>a. rg_account r (rg_active r) = Some a \<Longrightarrow> Q a w"
  shows "wp (active_account r) Q E K w"
  using assms valid_active[OF disk_has_registryD(2)[OF assms(1)]]
  by (auto simp: active_account_def)

lemma keeps_verify_identity: "keeps h A (verify_cloud_identity h email url)"
  unfolding verify_cloud_identity_def
  by (rule keepsI, (rule wp_intros | rule wp_has wp_has_active, assumption |
    rule soundI, assumption)+)

lemma keeps_mark_verified: "keeps h A (mark_account_verified h)"
  unfolding mark_account_verified_def Let_def now_text_def
  by (rule keepsI, (rule wp_intros | rule wp_has wp_has_files wp_has_active, assumption |
    rule soundI, assumption | rule safe_account_edit, assumption | simp; fail)+)

lemma keeps_soundI:
  "(\<And>w. sound h A w \<Longrightarrow> wp m (\<lambda>_. sound h A) (\<lambda>_. sound h A) (sound h A) w) \<Longrightarrow> keeps h A m"
  by (simp add: keeps_def)

lemma keeps_snapshot: "keeps h A (read_snapshot h p)"
  by (rule keeps_soundI, rule wp_read_snapshot) (blast intro: sound_untouched)+

lemma keeps_migration_read_only: "keeps h A (migration_state_read_only h)"
  unfolding migration_state_read_only_def read_migration_state_def
  by (rule keeps_soundI, (rule wp_intros | assumption | rule wp_read_any_file, erule (1) sound_untouched |
    rule wp_read_any_file | erule (1) sound_untouched)+)

lemma keeps_review: "keeps h A (legacy_review_report h)"
  unfolding legacy_review_report_def Let_def
  by (rule keeps_soundI, (rule wp_intros | assumption |
    rule wp_keeps[OF keeps_migration_read_only] wp_keeps[OF keeps_snapshot], assumption)+)

section \<open>A start\<close>

lemma absent_file:
  assumes "file_at w p = None"
  shows "\<not> is_symlink w p" "\<not> is_file w p" "path_exists w p \<Longrightarrow> node_at w p = Some Dir"
  using assms by (auto simp: file_at_def is_symlink_def is_file_def path_exists_def target_of_plain
      split: option.splits node.splits)

lemma wp_recover_no_journal:
  assumes "file_at w (replace_journal_path p) = None" and "Q None w"
    and "\<And>e w'. untouched w w' \<Longrightarrow> E e w'" and "\<And>w'. untouched w w' \<Longrightarrow> K w'"
  shows "wp (recover_state_journal h decode p) Q E K w"
  using assms absent_file[OF assms(1)] unfolding recover_state_journal_def
  by (auto simp: Let_def intro!: wp_read_no_file)

lemma wp_has_migration_load:
  assumes P: "disk_has h A r J M D w" and Q: "\<And>w'. disk_has h A r J M D w' \<Longrightarrow> Q M w'"
    and E: "\<And>e w'. disk_has h A r J M D w' \<Longrightarrow> E e w'" and K: "\<And>w'. disk_has h A r J M D w' \<Longrightarrow> K w'"
  shows "wp (migration_load h) Q E K w"
proof (cases M)
  case None
  then have "file_at w (migration_state_file h) = None"
      "file_at w (replace_journal_path (migration_state_file h)) = None"
    using P by (auto simp: disk_has_def)
  then show ?thesis unfolding migration_load_def read_migration_state_def Let_def
    using absent_file(3)[of w "migration_state_file h"] Q[OF P] None
    by (auto intro!: wp_recover_no_journal wp_read_no_file intro: E K disk_has_untouched[OF P])
next
  case (Some s)
  then have f: "file_at w (migration_state_file h) = Some (File (Migration_file s))"
      and v: "migration_validate s = Inr ()"
    using P by (auto simp: disk_has_def migration_settled_def)
  have Q': "Q (Some s) w'" if "untouched w w'" for w'
    using Q[OF disk_has_untouched[OF P that]] Some by simp
  show ?thesis unfolding migration_load_def read_migration_state_def Let_def
    using f plain_file(2)[of w "migration_state_file h"] v
    by (auto simp: file_at_file intro!: wp_read_file[OF f] Q'
        intro: E K disk_has_untouched[OF P])
qed

lemma wp_has_installation_load:
  assumes P: "disk_has h A r J M D w" and Q: "\<And>w'. disk_has h A r J M D w' \<Longrightarrow> Q None w'"
    and E: "\<And>e w'. disk_has h A r J M D w' \<Longrightarrow> E e w'" and K: "\<And>w'. disk_has h A r J M D w' \<Longrightarrow> K w'"
  shows "wp (installation_load h) Q E K w"
proof -
  have "file_at w (installation_state_file h) = None"
      "file_at w (replace_journal_path (installation_state_file h)) = None"
    using P by (auto simp: disk_has_def)
  then show ?thesis unfolding installation_load_def Let_def
    using absent_file(3)[of w "installation_state_file h"] Q[OF P]
    by (auto intro!: wp_recover_no_journal wp_read_no_file intro: E K disk_has_untouched[OF P])
qed

lemma settled_phase:
  "disk_has h A r J (Some s) D w \<Longrightarrow> mg_phase s \<noteq> Requires_review \<Longrightarrow> mg_phase s \<noteq> Complete \<Longrightarrow> R"
  by (auto simp: disk_has_def migration_settled_def)

lemma rg_account_id: "rg_account r i = Some a \<Longrightarrow> ar_id a = i"
  by (auto simp: rg_account_def dest: lookup_row_key)

text \<open>The context names the active account and its database.\<close>

lemma wp_context:
  assumes P: "disk_has h A r J M D w"
    and "\<And>c. cx_database_path c = db_file h (rg_active r) \<Longrightarrow> cx_account_id c = rg_active r \<Longrightarrow> Q c w"
    and "\<And>e. E e w"
  shows "wp (context_new h r m) Q E K w"
  unfolding context_new_def wp_andthen
  by (rule wp_has_active[OF P])
    (use assms(2,3) in \<open>auto split: sum.split dest!: rg_account_id
      simp: rg_database_path_def database_path_db_file split: if_splits\<close>)

definition opens_active :: "host \<Rightarrow> string set \<Rightarrow> active_context \<Rightarrow> world \<Rightarrow> bool" where
  "opens_active h A c w \<longleftrightarrow> (\<exists>r J M D. disk_has h A r J M D w \<and>
     cx_account_id c = rg_active r \<and> cx_database_path c = db_file h (rg_active r))"

lemma wp_open_account:
  assumes P: "disk_has h A r J M D w"
    and Q: "\<And>c w'. opens_active h A c w' \<Longrightarrow> Q c w'"
    and E: "\<And>e w'. sound h A w' \<Longrightarrow> E e w'" and K: "\<And>w'. sound h A w' \<Longrightarrow> K w'"
  shows "wp (open_account h r i m) Q E K w"
  unfolding open_account_def now_text_def Let_def
  by (insert P, (rule wp_intros | rule wp_has wp_context, assumption |
      rule E K, rule soundI, assumption | rule safe_account_edit, assumption |
      rule Q | force simp: opens_active_def)+)

lemma wp_has_ensure_active:
  assumes P: "disk_has h A r J M D w"
    and Q: "\<And>c w'. opens_active h A c w' \<Longrightarrow> Q c w'"
    and E: "\<And>e w'. sound h A w' \<Longrightarrow> E e w'" and K: "\<And>w'. sound h A w' \<Longrightarrow> K w'"
  shows "wp (ensure_active_account h) Q E K w"
  unfolding ensure_active_account_def start_after_migration_def verify_complete_migration_def
    validate_legacy_source_def Let_def
  by (insert P, (simp only: option.case | rule wp_has_migration_load wp_has_installation_load, assumption |
      hypsubst | erule (2) settled_phase |
      rule wp_intros wp_validate_database_path | rule wp_has wp_has_files wp_has_active wp_open_account, assumption |
      rule E K, rule soundI, assumption | rule E K Q, assumption)+)

lemma wp_keeps_ensure_active:
  assumes "sound h A w" and "\<And>c w'. opens_active h A c w' \<Longrightarrow> Q c w'"
    and "\<And>e w'. sound h A w' \<Longrightarrow> E e w'" and "\<And>w'. sound h A w' \<Longrightarrow> K w'"
  shows "wp (ensure_active_account h) Q E K w"
proof -
  obtain r J M D where P: "disk_has h A r J M D w" using assms(1) by (rule soundE)
  show ?thesis by (rule wp_has_ensure_active[OF P assms(2-4)])
qed

lemma wp_active_store_open:
  assumes "opens_active h A c w" and "\<And>db w'. sound h A w' \<Longrightarrow> Q db w'"
    and "\<And>e w'. sound h A w' \<Longrightarrow> E e w'" and "\<And>w'. sound h A w' \<Longrightarrow> K w'"
  shows "wp (store_open h (cx_database_path c)) Q E K w"
proof -
  obtain r J M D where P: "disk_has h A r J M D w" and p: "cx_database_path c = db_file h (rg_active r)"
    using assms(1) by (auto simp: opens_active_def)
  show ?thesis unfolding p
    by (rule wp_has_store_open[OF P]) (rule assms(2-4), erule soundI)+
qed

lemma wp_keeps_fault:
  assumes "opens_active h A c w" and "\<And>w'. opens_active h A c w' \<Longrightarrow> Q () w'"
    and "\<And>e w'. sound h A w' \<Longrightarrow> E e w'" and "\<And>w'. sound h A w' \<Longrightarrow> K w'"
  shows "wp (fault_at h pt a b d) Q E K w"
  using assms(1) unfolding opens_active_def
  by (elim exE conjE, intro wp_fault_at)
    (blast intro: assms(2)[unfolded opens_active_def] assms(3,4) soundI disk_has_untouched)+

lemma keeps_fault: "keeps h A (fault_at h pt a b d)"
  by (rule keeps_soundI, rule wp_fault_at) (blast intro: sound_untouched)+

lemma keeps_create_dir: "keeps h A (create_dir_all p)"
  by (rule keeps_soundI, rule wp_create_dir_all) (blast intro: sound_same)+

lemma keeps_start: "keeps h A (open_store_at h)"
  unfolding open_store_at_def Let_def
  by (rule keeps_soundI, (rule wp_intros | assumption |
    rule wp_keeps[OF keeps_create_dir] wp_keeps[OF keeps_recover] wp_keeps[OF keeps_finish]
      wp_keeps[OF keeps_rollback] wp_keeps_ensure_active wp_keeps_fault wp_active_store_open, assumption |
    rule wp_keeps[OF keeps_fault], assumption)+)

section \<open>Every call\<close>

lemma keeps_no_answer: "keeps h A m \<Longrightarrow> keeps h A (no_answer m)"
  unfolding no_answer_def
  by (rule keeps_soundI, (rule wp_intros | assumption | rule wp_keeps, assumption, assumption)+)

lemma keeps_run_call: "keeps h A (run_call h c)"
  by (cases c) (simp_all add: keeps_no_answer keeps_list keeps_status keeps_status_read_only
      keeps_prepare keeps_validate_request keeps_request keeps_rollback keeps_abort keeps_create
      keeps_verify_identity keeps_mark_verified keeps_start keeps_migration_read_only keeps_review)

end
