(* ===== verification/AccHistory.thy ===== *)
theory AccHistory
  imports AccSafety
begin

text \<open>
  Whole histories of an application on one data root: its calls in any order, each of which may
  end well, fail, or be killed after any of its effects on the disk, while the rest of the
  application writes the databases. The accounts stay in order through all of them, and a
  restart that is not interrupted decides the switch it finds.
\<close>

section \<open>Accounts in order\<close>

text \<open>What a disk between two calls holds, read off its files.\<close>

definition db_present :: "host \<Rightarrow> world \<Rightarrow> string \<Rightarrow> bool" where
  "db_present h w i = (case file_at w (db_file h i) of Some (File c) \<Rightarrow> True | _ \<Rightarrow> False)"

definition journal_in_order :: "host \<Rightarrow> account_registry \<Rightarrow> world \<Rightarrow> bool" where
  "journal_in_order h r w = (case file_at w (pending_account_switch_file h) of
     None \<Rightarrow> True
   | Some (File (Switch_file j)) \<Rightarrow> switch_validate h j = Inr () \<and>
       rg_account r (sw_from j) \<noteq> None \<and> db_present h w (sw_from j) \<and>
       rg_account r (sw_to j) \<noteq> None \<and>
       (rg_active r = sw_from j \<or>
        rg_active r = sw_to j \<and> (sw_phase j = Verifying_target \<or> sw_phase j = Switch_failed))
   | _ \<Rightarrow> False)"

definition migration_in_order :: "host \<Rightarrow> world \<Rightarrow> bool" where
  "migration_in_order h w = (case file_at w (migration_state_file h) of
     None \<Rightarrow> True
   | Some (File (Migration_file s)) \<Rightarrow> migration_validate s = Inr () \<and>
       (mg_phase s = Complete \<or> mg_phase s = Requires_review)
   | _ \<Rightarrow> False)"

definition accounts_in_order :: "host \<Rightarrow> world \<Rightarrow> bool" where
  "accounts_in_order h w = (case file_at w (accounts_file h) of
     Some (File (Registry_file r)) \<Rightarrow> validate_registry h r = Inr () \<and>
       db_present h w (rg_active r) \<and> journal_in_order h r w \<and> migration_in_order h w \<and>
       file_at w (installation_state_file h) = None \<and>
       file_at w (replace_journal_path (migration_state_file h)) = None \<and>
       file_at w (replace_journal_path (installation_state_file h)) = None
   | _ \<Rightarrow> False)"

text \<open>A registered account with a database.\<close>

definition account_there :: "host \<Rightarrow> world \<Rightarrow> string \<Rightarrow> bool" where
  "account_there h w i = (case file_at w (accounts_file h) of
     Some (File (Registry_file r)) \<Rightarrow> rg_account r i \<noteq> None \<and> db_present h w i
   | _ \<Rightarrow> False)"

lemma db_present_iff: "db_present h w i \<longleftrightarrow> has_db h w i"
  by (auto simp: db_present_def has_db_def split: option.splits node.splits)

lemma in_order_sound:
  assumes "\<not> h_windows h" "calm w" "accounts_in_order h w"
  shows "sound h {i. account_there h w i} w"
proof -
  obtain r where r: "file_at w (accounts_file h) = Some (File (Registry_file r))"
      "validate_registry h r = Inr ()" "has_db h w (rg_active r)" "journal_in_order h r w"
      "migration_in_order h w"
    using assms(3) by (auto simp: accounts_in_order_def db_present_iff
        split: option.splits node.splits content.splits)
  note known = valid_active[OF r(2)]
  have J: "\<exists>J. file_at w (pending_account_switch_file h) = map_option (\<lambda>j. File (Switch_file j)) J \<and>
      (\<forall>j. J = Some j \<longrightarrow> switch_validate h j = Inr () \<and>
        switch_safe r {i. account_there h w i} j)"
    using r(4) r(1)
    by (auto simp: journal_in_order_def switch_safe_def account_there_def
        intro: exI[of _ None] exI[of _ "Some _"] split: option.splits node.splits content.splits)
  have M: "\<exists>M. file_at w (migration_state_file h) = map_option (\<lambda>s. File (Migration_file s)) M \<and>
      migration_settled M"
    using r(5) by (auto simp: migration_in_order_def migration_settled_def
        intro: exI[of _ None] exI[of _ "Some _"] split: option.splits node.splits content.splits)
  obtain J M where "disk_has h {i. account_there h w i} r J M {i. account_there h w i} w"
    using J M assms r known
    by (auto simp: disk_has_def safe_def account_there_def accounts_in_order_def db_present_iff)
  then show ?thesis by (rule soundI)
qed

lemma sound_in_order:
  assumes "sound h A w"
  shows "accounts_in_order h w" "i \<in> A \<Longrightarrow> account_there h w i"
proof -
  obtain r J M D where "disk_has h A r J M D w" using assms by (rule soundE)
  then show "accounts_in_order h w" "i \<in> A \<Longrightarrow> account_there h w i"
    by (auto simp: disk_has_def accounts_in_order_def journal_in_order_def migration_in_order_def
        account_there_def db_present_iff safe_def switch_safe_def migration_settled_def
        split: option.splits)
qed

section \<open>Histories\<close>

text \<open>The files the crate itself keeps, and the databases of accounts. The rest of the
  application writes what it wants but for the former, and deletes no database.\<close>

definition state_files :: "host \<Rightarrow> path list" where
  "state_files h = [accounts_file h, pending_account_switch_file h, migration_state_file h,
     installation_state_file h, replace_journal_path (migration_state_file h),
     replace_journal_path (installation_state_file h)]"

definition account_file :: "host \<Rightarrow> path \<Rightarrow> bool" where
  "account_file h p \<longleftrightarrow> prefix (h_root h @ [''accounts'']) p"

text \<open>\<open>account_history h v w\<close>: from the disk of \<open>v\<close>, calls and other writes lead to that of
  \<open>w\<close>. A call has its luck: any failure to write, or its death, at any of its effects. No
  read of a file that is there fails, since a registry that cannot be read is taken for a
  damaged one.\<close>

inductive account_history :: "host \<Rightarrow> world \<Rightarrow> world \<Rightarrow> bool" for h :: host and v :: world where
  began: "account_history h v v"
| called: "account_history h v w \<Longrightarrow> Read_error \<notin> set luck \<Longrightarrow>
    run_call h c (w\<lparr>w_luck := luck\<rparr>) = (outcome, w') \<Longrightarrow> account_history h v w'"
| written: "account_history h v w \<Longrightarrow> p \<notin> set (state_files h) \<Longrightarrow>
    account_history h v (put_node p (File c) w)"
| removed: "account_history h v w \<Longrightarrow> p \<notin> set (state_files h) \<Longrightarrow> \<not> account_file h p \<Longrightarrow>
    account_history h v (drop_node p w)"

lemma sound_luck: "sound h A w \<Longrightarrow> Read_error \<notin> set luck \<Longrightarrow> sound h A (w\<lparr>w_luck := luck\<rparr>)"
  by (auto simp: sound_def disk_has_def has_db_def calm_def)

lemma luck_of_writes [simp]:
  "w_luck (put_node p n w) = w_luck w" "w_luck (drop_node p w) = w_luck w"
  "put_node p n w\<lparr>w_luck := l\<rparr> = put_node p n (w\<lparr>w_luck := l\<rparr>)"
  "drop_node p w\<lparr>w_luck := l\<rparr> = drop_node p (w\<lparr>w_luck := l\<rparr>)"
  by (simp_all add: put_node_def drop_node_def)

lemma disk_has_written:
  "disk_has h A r J M D w \<Longrightarrow> p \<notin> set (state_files h) \<Longrightarrow>
     disk_has h A r J M D (put_node p (File c) w)"
  by (auto simp: disk_has_def has_db_def calm_def state_files_def)

lemma sound_put: "sound h A w \<Longrightarrow> p \<notin> set (state_files h) \<Longrightarrow> sound h A (put_node p (File c) w)"
  by (erule soundE, rule soundI, rule disk_has_written)

lemma sound_drop:
  assumes "sound h A w" "p \<notin> set (state_files h)" "\<not> account_file h p"
  shows "sound h A (drop_node p w)"
proof -
  have "db_file h i \<noteq> p" for i using assms(3) by (auto simp: account_file_def db_file_def)
  then show ?thesis using assms(1,2)
    by (auto simp: sound_def disk_has_def has_db_def calm_def state_files_def)
qed

lemma sound_run_call:
  assumes "sound h A w" and "run_call h c w = (outcome, w')"
  shows "sound h A w'"
proof -
  have "wp (run_call h c) (\<lambda>_. sound h A) (\<lambda>_. sound h A) (sound h A) w"
    using keeps_run_call[of h A c] assms(1) by (simp add: keeps_def)
  from wp_result[OF this assms(2)] show ?thesis by (simp split: ending.splits)
qed

lemma sound_history:
  "account_history h v w \<Longrightarrow> sound h A (v\<lparr>w_luck := []\<rparr>) \<Longrightarrow> sound h A (w\<lparr>w_luck := []\<rparr>)"
proof (induction rule: account_history.induct)
  case (called w luck c outcome w')
  then have "sound h A (w\<lparr>w_luck := luck\<rparr>)" using sound_luck[of h A "w\<lparr>w_luck := []\<rparr>" luck] by simp
  from sound_run_call[OF this called.hyps(3)] show ?case by (rule sound_luck) simp
next
  case (written w p c)
  then show ?case using sound_put[of h A "w\<lparr>w_luck := []\<rparr>" p c] by simp
next
  case (removed w p)
  then show ?case using sound_drop[of h A "w\<lparr>w_luck := []\<rparr>" p] by simp
qed

lemma in_order_luck [simp]:
  "accounts_in_order h (w\<lparr>w_luck := l\<rparr>) = accounts_in_order h w"
  "account_there h (w\<lparr>w_luck := l\<rparr>) i = account_there h w i"
  by (simp_all add: accounts_in_order_def journal_in_order_def migration_in_order_def
      account_there_def db_present_def split: option.split node.split content.split)

text \<open>C14. Accounts survive failures and kills: on a platform where a rename replaces its target,
  from a data root in order, any sequence of calls of the crate, each with any write errors and
  killed after any of its effects on the disk, and of writes by the rest of the application,
  leads to a data root in order again: the registry is valid, the active account has its
  database, and a switch under way can go back to its source, which is registered and has one.
  No registered account with a database is lost.\<close>

theorem accounts_survive:
  assumes "account_history h v w" and "\<not> h_windows h" and "accounts_in_order h v"
  shows "accounts_in_order h w \<and> (account_there h v i \<longrightarrow> account_there h w i)"
proof -
  let ?A = "{i. account_there h v i}"
  have "sound h ?A (v\<lparr>w_luck := []\<rparr>)"
    using in_order_sound[of h "v\<lparr>w_luck := []\<rparr>"] assms(2,3) by (simp add: calm_def)
  from sound_in_order[OF sound_history[OF assms(1) this]] show ?thesis by simp
qed

section \<open>A journal keeps other switches out\<close>

lemma prepare_refused:
  assumes P: "disk_has h A r (Some j) M D w" and other: "sw_to j \<noteq> i"
  shows "wp (prepare_account_switch h i) (\<lambda>_ _. False) (\<lambda>_ w'. \<exists>D. disk_has h A r (Some j) M D w')
    (\<lambda>w'. \<exists>D. disk_has h A r (Some j) M D w') w"
  unfolding prepare_account_switch_def Let_def
  by (insert P, (rule wp_intros | erule account_known | rule wp_has, assumption |
    rule exI, assumption | simp add: other; fail)+)

text \<open>A pending switch keeps every other one out: while a journal for one target is there,
  in whatever phase, failed ones included, preparing a switch to another account never
  succeeds, and leaves the registry and the journal as they are.\<close>

theorem prepare_excluded:
  assumes "\<not> h_windows h" and "calm w" and "accounts_in_order h w"
    and j: "file_at w (pending_account_switch_file h) = Some (File (Switch_file j))" and "sw_to j \<noteq> i"
    and run: "prepare_account_switch h i w = (outcome, w')"
  shows "(\<forall>s. outcome \<noteq> Done s) \<and>
    file_at w' (accounts_file h) = file_at w (accounts_file h) \<and>
    file_at w' (pending_account_switch_file h) = file_at w (pending_account_switch_file h)"
proof -
  obtain r J M D where P: "disk_has h {i. account_there h w i} r J M D w"
    using in_order_sound[OF assms(1-3)] by (rule soundE)
  then have J: "J = Some j" using j by (cases J) (auto simp: disk_has_def)
  from wp_result[OF prepare_refused[OF P[unfolded J] assms(5)] run] show ?thesis
    using P J by (auto simp: disk_has_def split: ending.splits)
qed

end
