(* ===== verification/AccRecovery.thy ===== *)
theory AccRecovery
  imports AccHistory
begin

text \<open>
  A start that nothing interrupts decides the switch it finds: it ends, and its answer, the
  registry and the journal it leaves are determined by the journal it found and by whether the
  target can be used.
\<close>

section \<open>Quiet worlds\<close>

text \<open>Nothing fails, no fault is injected, the data root is there, and the names of the
  temporary files to come are free, as those of new UUIDs are.\<close>

definition names_free :: "host \<Rightarrow> world \<Rightarrow> bool" where
  "names_free h w \<longleftrightarrow> (\<forall>n\<ge>w_tick w. node_at w (temp_path (accounts_file h) (h_uuid h n)) = None \<and>
     node_at w (temp_path (pending_account_switch_file h) (h_uuid h n)) = None)"

definition quiet :: "host \<Rightarrow> world \<Rightarrow> bool" where
  "quiet h w \<longleftrightarrow> w_luck w = [] \<and> h_injector h = None \<and> \<not> h_windows h \<and>
     node_at w (h_root h) = Some Dir \<and> names_free h w"

lemma quiet_luck: "quiet h w \<Longrightarrow> w_luck w = []"
  by (simp add: quiet_def)

lemma tick_of_writes [simp]:
  "w_tick (put_node p n w) = w_tick w" "w_tick (drop_node p w) = w_tick w"
  by (simp_all add: put_node_def drop_node_def)

lemma wp_no_luck [simp]:
  "w_luck w = [] \<Longrightarrow> wp (effect f) Q E K w = Q () (f w)"
  "w_luck w = [] \<Longrightarrow> wp (access e) Q E K w = Q () w"
  by (simp_all add: wp_def effect_def access_def take_luck_def)

lemma wp_quiet_fault [simp]: "quiet h w \<Longrightarrow> wp (fault_at h pt a b c) Q E K w = Q () w"
  by (simp add: quiet_def fault_at_def)

lemma quiet_tick: "quiet h w \<Longrightarrow> quiet h (w\<lparr>w_tick := Suc (w_tick w)\<rparr>)"
  by (auto simp: quiet_def names_free_def)

lemma quiet_same_nodes:
  "quiet h w \<Longrightarrow> w_luck w' = [] \<Longrightarrow> w_tick w \<le> w_tick w' \<Longrightarrow> node_at w' = (node_at w)(p \<mapsto> File c) \<Longrightarrow>
     p = accounts_file h \<or> p = pending_account_switch_file h \<Longrightarrow> quiet h w'"
  by (auto simp: quiet_def names_free_def temp_path_def file_names)

lemma quiet_dir: "quiet h w \<Longrightarrow> \<not> is_temp p \<or> length p \<noteq> Suc (length (h_root h)) \<Longrightarrow> 
     quiet h (put_node p Dir w)"
  by (auto simp: quiet_def names_free_def temp_path_def file_names)

lemma wp_quiet_write:
  assumes "quiet h w" and p: "p = accounts_file h \<or> p = pending_account_switch_file h"
    and "node_at w p \<noteq> Some Dir"
    and Q: "\<And>w'. quiet h w' \<Longrightarrow> stored p (Some (File c)) w w' \<Longrightarrow>
      node_at w' = (node_at w)(p \<mapsto> File c) \<Longrightarrow> Q () w'"
  shows "wp (write_json_atomic h p c) Q E K w"
proof -
  have root: "butlast p = h_root h" using p by (auto simp: file_names)
  let ?t = "temp_path p (h_uuid h (w_tick w))"
  have t: "node_at w ?t = None" "?t \<noteq> p" "?t \<noteq> h_root h"
    using assms(1) p by (auto simp: quiet_def names_free_def temp_path_def file_names)
  let ?w = "put_node p (File c) (drop_node ?t (put_node ?t (File c) (put_node ?t (File Garbage)
      (w\<lparr>w_tick := Suc (w_tick w)\<rparr>))))"
  have nodes: "node_at ?w = (node_at w)(p \<mapsto> File c)" using t by auto
  have "quiet h ?w"
    by (rule quiet_same_nodes[OF assms(1) _ _ nodes p]) 
      (use assms(1) in \<open>auto simp: quiet_def\<close>)
  moreover have "stored p (Some (File c)) w ?w"
    unfolding stored_def using nodes by (auto simp: file_at_def elapses_def)
  ultimately have "Q () ?w" using Q nodes by blast
  then show ?thesis
    using assms(1,3) t root
    by (simp add: write_json_atomic_def create_dir_all_def is_dir_def target_of_plain quiet_def
        new_uuid_def Let_def create_new_def replace_file_def rename_file_def sync_directory_def)
qed

section \<open>What the recovery does in a quiet world\<close>

definition quiet_has :: "host \<Rightarrow> string set \<Rightarrow> account_registry \<Rightarrow> pending_switch option \<Rightarrow>
    migration_state option \<Rightarrow> string set \<Rightarrow> world \<Rightarrow> bool" where
  "quiet_has h A r J M D w \<longleftrightarrow> disk_has h A r J M D w \<and> quiet h w \<and>
     node_at w (pending_account_switch_file h) = map_option (\<lambda>j. File (Switch_file j)) J"

lemma quiet_hasD:
  "quiet_has h A r J M D w \<Longrightarrow> disk_has h A r J M D w"
  "quiet_has h A r J M D w \<Longrightarrow> quiet h w"
  by (simp_all add: quiet_has_def)

lemma wp_quiet_registry_save:
  assumes P: "quiet_has h A r J M D w" and "validate_registry h r' = Inr ()" "safe r' J D"
    and "\<And>w'. quiet_has h A r' J M D w' \<Longrightarrow> Q () w'"
  shows "wp (registry_save h r') Q E K w"
proof -
  note disk = quiet_hasD(1)[OF P] and q = quiet_hasD(2)[OF P]
  have "node_at w (accounts_file h) \<noteq> Some Dir"
    using disk_has_registryD(1)[OF disk] by (simp add: file_at_file)
  then show ?thesis unfolding registry_save_def using assms(2)
    by (auto intro!: wp_quiet_write[OF q] assms(4))
      (use disk_has_registry[OF disk _ assms(2,3)] P in \<open>auto simp: quiet_has_def\<close>)
qed

lemma wp_quiet_switch_save:
  assumes P: "quiet_has h A r (Some j) M D w" and "switch_validate h j' = Inr ()" "safe r (Some j') D"
    and "\<And>w'. quiet_has h A r (Some j') M D w' \<Longrightarrow> Q () w'"
  shows "wp (switch_save h j') Q E K w"
proof -
  note disk = quiet_hasD(1)[OF P] and q = quiet_hasD(2)[OF P]
  have "node_at w (pending_account_switch_file h) \<noteq> Some Dir"
    using P by (simp add: quiet_has_def)
  then show ?thesis unfolding switch_save_def using assms(2)
    by (auto intro!: wp_quiet_write[OF q] assms(4))
      (use disk_has_journal[OF disk, of "Some j'"] assms(3) in \<open>auto simp: quiet_has_def\<close>)
qed

lemma quiet_drop: "quiet h w \<Longrightarrow> node_at w p \<noteq> Some Dir \<Longrightarrow> quiet h (drop_node p w)"
  by (auto simp: quiet_def names_free_def)

lemma wp_quiet_remove_journal:
  assumes P: "quiet_has h A r (Some j) M D w" and "\<And>w'. quiet_has h A r None M D w' \<Longrightarrow> Q () w'"
  shows "wp (remove_journal h) Q E K w"
proof -
  let ?p = "pending_account_switch_file h"
  note disk = quiet_hasD(1)[OF P] and q = quiet_hasD(2)[OF P]
  have j: "node_at w ?p = Some (File (Switch_file j))" using P by (simp add: quiet_has_def)
  have "stored ?p None w (drop_node ?p w)" by (simp add: stored_def)
  then have "disk_has h A r None M D (drop_node ?p w)"
    using disk_has_journal[OF disk, of None] safe_no_journal[OF disk_has_registryD(3)[OF disk]] by simp
  then have "Q () (drop_node ?p w)"
    using quiet_drop[OF q] j by (intro assms(2)) (simp add: quiet_has_def)
  then show ?thesis
    by (simp add: remove_journal_def remove_file_def sync_directory_def q j quiet_luck[OF q])
qed

lemma wp_quiet_read_file:
  assumes "node_at w p = Some (File c)" and "w_luck w = []" and "Q c w"
  shows "wp (read_file p) Q E K w"
  unfolding read_file_def using assms by simp (simp add: wp_def plain_file)

lemma wp_quiet_switch_load:
  assumes P: "quiet_has h A r J M D w" and Q: "Q J w"
  shows "wp (switch_load h) Q E K w"
proof (cases J)
  case None
  then have "node_at w (pending_account_switch_file h) = None" using P by (simp add: quiet_has_def)
  then show ?thesis using Q None by (simp add: switch_load_def Let_def no_node)
next
  case (Some j)
  then have f: "node_at w (pending_account_switch_file h) = Some (File (Switch_file j))"
      and "switch_validate h j = Inr ()"
    using P by (auto simp: quiet_has_def disk_has_def)
  then show ?thesis using Q Some
    by (auto simp: switch_load_def Let_def plain_file[OF f]
        intro!: wp_quiet_read_file[OF f quiet_luck[OF quiet_hasD(2)[OF P]]])
qed

lemma wp_quiet_load_with_recovery:
  assumes P: "quiet_has h A r J M D w" and Q: "Q (Some r) w"
  shows "wp (load_with_recovery h) Q E K w"
proof -
  have f: "node_at w (accounts_file h) = Some (File (Registry_file r))"
    using disk_has_registryD(1)[OF quiet_hasD(1)[OF P]] by (simp add: file_at_file)
  show ?thesis using Q disk_has_registryD(2)[OF quiet_hasD(1)[OF P]]
    by (auto simp: load_with_recovery_def Let_def plain_file[OF f] read_registry_file_def
        intro!: wp_quiet_read_file[OF f quiet_luck[OF quiet_hasD(2)[OF P]]])
qed

lemma wp_quiet_touch:
  assumes "quiet_has h A r J M D w"
    and "\<And>now w'. quiet_has h A r J M D w' \<Longrightarrow> Q (j\<lparr>sw_phase := p, sw_updated_at := now\<rparr>) w'"
  shows "wp (switch_touch h p j) Q E K w"
  using assms(1)
  by (auto simp: switch_touch_def now_text_def quiet_has_def
      intro!: assms(2) quiet_tick disk_has_tick)

text \<open>The check of the target makes directories at most.\<close>

definition still :: "host \<Rightarrow> world \<Rightarrow> world \<Rightarrow> bool" where
  "still h w w' \<longleftrightarrow> quiet h w' \<and>
     node_at w' (pending_account_switch_file h) = node_at w (pending_account_switch_file h)"

lemma still_trans: "still h u v \<Longrightarrow> still h v w \<Longrightarrow> still h u w"
  by (simp add: still_def)

lemma still_dir:
  "still h v w \<Longrightarrow> p = h_root h \<or> p = h_root h @ [''accounts''] \<or> p = h_root h @ [''migration-backups''] \<or>
     p = h_root h @ [''accounts'', i] \<Longrightarrow> still h v (put_node p Dir w)"
  by (auto simp: still_def intro!: quiet_dir)
    (auto simp: file_names starts_with_def)

lemma still_luck: "still h v w \<Longrightarrow> w_luck w = []"
  by (simp add: still_def quiet_def)

lemma wp_still_create_dir:
  assumes "still h v w" and "p = h_root h \<or> p = h_root h @ [''accounts''] \<or>
      p = h_root h @ [''migration-backups''] \<or> p = h_root h @ [''accounts'', i]"
    and "\<And>w'. still h v w' \<Longrightarrow> Q () w'" and "\<And>e w'. still h v w' \<Longrightarrow> E e w'"
  shows "wp (create_dir_all p) Q E K w"
  using assms still_dir[OF assms(1,2)] by (auto simp: create_dir_all_def still_luck)

lemma wp_still_put:
  "still h v w \<Longrightarrow> Q () (put_node p n w) \<Longrightarrow> wp (effect (put_node p n)) Q E K w"
  by (simp add: still_luck)

lemma wp_case_node:
  "(n = Dir \<Longrightarrow> wp d Q E K w) \<Longrightarrow> (\<And>c. n = File c \<Longrightarrow> wp (f c) Q E K w) \<Longrightarrow>
     (\<And>q. n = Symlink q \<Longrightarrow> wp (s q) Q E K w) \<Longrightarrow>
     wp (case n of Dir \<Rightarrow> d | File c \<Rightarrow> f c | Symlink q \<Rightarrow> s q) Q E K w"
  by (cases n) auto

lemma wp_still_account_dir:
  assumes "still h v w" and "\<And>x w'. still h v w' \<Longrightarrow> Q x w'" and "\<And>e w'. still h v w' \<Longrightarrow> E e w'"
  shows "wp (ensure_account_dir h i) Q E K w"
  unfolding ensure_account_dir_def ensure_data_root_def Let_def
  by (insert assms(1), (rule wp_intros wp_case_node assms(2,3) | assumption |
      rule wp_still_create_dir, assumption, (simp; fail) | rule wp_still_put, assumption |
      erule still_dir, (simp; fail))+)

lemma still_verify:
  assumes "still h v w"
  shows "wp (verify_target_identity h t) (\<lambda>_. still h v) (\<lambda>_. still h v) (\<lambda>_. False) w"
  unfolding verify_target_identity_def wp_andthen
proof (rule wp_still_account_dir[OF assms])
  fix x u assume u: "still h v u"
  show "wp (of_result (database_path h (ar_id t)))
     (\<lambda>x. wp (validate_database_path x) (\<lambda>_. wp (gets (\<lambda>w. is_file w x)) (\<lambda>xa. wp (guard (\<not> xa) (Active_account_missing (ar_id t)))
       (\<lambda>_. wp (read_snapshot h x) (\<lambda>x. wp (of_result (check_target t x)) (\<lambda>_. still h v) (\<lambda>_. still h v) (\<lambda>_. False)) (\<lambda>_. still h v) (\<lambda>_. False)) (\<lambda>_. still h v) (\<lambda>_. False))
       (\<lambda>_. still h v) (\<lambda>_. False)) (\<lambda>_. still h v) (\<lambda>_. False)) (\<lambda>_. still h v) (\<lambda>_. False) u"
    using u still_luck[OF u]
    by (auto simp: validate_database_path_def read_snapshot_def open_read_only_def
        split: sum.splits option.splits node.splits content.splits)
qed auto

text \<open>When the target of a switch can be used, said of its record, the disk and the contents of
  its database: the directories are real ones or still to be made, the database is a plain file
  whose snapshot can be read, and the snapshot is bound to the account.\<close>

definition owned_by :: "account_record \<Rightarrow> data_snapshot \<Rightarrow> bool" where
  "owned_by t s \<longleftrightarrow>
     (ar_kind t = Anonymous \<longrightarrow> ar_id t = DEFAULT_ACCOUNT_ID) \<and>
     (ar_kind t = Cloud \<longrightarrow> (\<exists>email. ar_email t = Some email \<and>
        (\<forall>b. sn_bound_account s = Some b \<longrightarrow> acc_normalize_email b = acc_normalize_email email)) \<and>
        (\<forall>u. sn_bound_api_url s = Some u \<longrightarrow>
           (\<exists>url. ar_api_url t = Some url \<and> normalize_api_url u = Inr url)) \<and>
        (\<not> ar_pending t \<longrightarrow> sn_bound_account s \<noteq> None \<and>
           (ar_api_url t \<noteq> None \<longrightarrow> sn_bound_api_url s \<noteq> None)))"

definition real_or_free :: "world \<Rightarrow> path \<Rightarrow> bool" where
  "real_or_free w p \<longleftrightarrow> node_at w p = None \<or> node_at w p = Some Dir"

definition target_usable :: "host \<Rightarrow> account_record \<Rightarrow> world \<Rightarrow> bool" where
  "target_usable h t w \<longleftrightarrow>
     real_or_free w (h_root h @ [''accounts'']) \<and> real_or_free w (h_root h @ [''migration-backups'']) \<and>
     real_or_free w (h_root h @ [''accounts'', ar_id t]) \<and>
     (\<exists>db s. node_at w (db_file h (ar_id t)) = Some (File (Database_file db)) \<and>
        snapshot_of h (db_file h (ar_id t)) db = Inr s \<and> owned_by t s)"

lemma check_target_owned: "check_target t s = Inr () \<longleftrightarrow> owned_by t s"
  by (auto simp: check_target_def check_cloud_target_def owned_by_def mismatch_def ok_or_def
      and_then_def split: account_kind.split option.split sum.split)

text \<open>Making a directory where there is a directory or nothing.\<close>

definition with_dir :: "path \<Rightarrow> world \<Rightarrow> world" where
  "with_dir p w = (if node_at w p = None then put_node p Dir w else w)"

lemma with_dir_luck [simp]: "w_luck (with_dir p w) = w_luck w"
  by (simp add: with_dir_def)

lemma node_at_with_dir:
  "node_at (with_dir p w) q = (if q = p \<and> node_at w p = None then Some Dir else node_at w q)"
  by (simp add: with_dir_def)

lemma wp_luckless_make_dir:
  assumes "w_luck w = []"
    and "real_or_free w p \<Longrightarrow> Q () (with_dir p w)"
    and "\<And>e. \<not> real_or_free w p \<Longrightarrow> E e w"
  shows "wp (create_dir_all p) (\<lambda>_. wp (gets (\<lambda>w. node_at w p)) (\<lambda>n.
     wp (guard (n \<noteq> Some Dir) er) Q E K) E K) E K w"
  using assms
  by (auto simp: create_dir_all_def real_or_free_def with_dir_def is_dir_def target_of_plain)


lemma wp_luckless_account_dir:
  assumes w: "w_luck w = []" "node_at w (h_root h) = Some Dir"
    and Q: "\<And>x v. w_luck v = [] \<Longrightarrow> validate_account_id h i = Inr () \<Longrightarrow>
      node_at v (db_file h i) = node_at w (db_file h i) \<Longrightarrow>
      real_or_free w (h_root h @ [''accounts'']) \<Longrightarrow> real_or_free w (h_root h @ [''migration-backups'']) \<Longrightarrow>
      real_or_free w (h_root h @ [''accounts'', i]) \<Longrightarrow> Q x v"
    and E: "\<And>e v. validate_account_id h i = Inr () \<Longrightarrow> \<not> (real_or_free w (h_root h @ [''accounts'']) \<and>
      real_or_free w (h_root h @ [''migration-backups'']) \<and>
      real_or_free w (h_root h @ [''accounts'', i])) \<Longrightarrow> E e v"
    and i: "validate_account_id h i = Inr ()"
  shows "wp (ensure_account_dir h i) Q E K w"
proof -
  let ?a = "h_root h @ [''accounts'']" and ?b = "h_root h @ [''migration-backups'']"
    and ?d = "h_root h @ [''accounts'', i]"
  let ?v = "with_dir ?b (with_dir ?a w)"
  have root: "wp (create_dir_all (h_root h)) Q' E' K' w \<longleftrightarrow> Q' () w" for Q' E' K'
    using w by (simp add: create_dir_all_def is_dir_def target_of_plain)
  have same: "node_at ?v q = node_at w q" if "q \<noteq> ?a" "q \<noteq> ?b" for q
    using that by (simp add: node_at_with_dir)
  have dir: "canonical v p = p" if "node_at v p = Some Dir" for v p
    by (rule canonical_plain) (simp add: is_symlink_def that)
  have b: "real_or_free (with_dir ?a w) ?b \<longleftrightarrow> real_or_free w ?b"
    by (simp add: real_or_free_def node_at_with_dir)
  let ?mk = "andthen (andthen (gets (\<lambda>w. node_at w ?d)) (\<lambda>n. case n of
         Some (Symlink q) \<Rightarrow> raise (Unsafe_path ''account directory is a symlink: '' ?d)
       | Some (File c) \<Rightarrow> raise (Unsafe_path ''account path is not a directory: '' ?d)
       | Some Dir \<Rightarrow> ret ()
       | None \<Rightarrow> effect (put_node ?d Dir))) (\<lambda>_.
     andthen (gets (\<lambda>w. (canonical w ?d, canonical w ?a))) (\<lambda>(c, r).
     andthen (guard (\<not> prefix r c) (Unsafe_path ''account directory escapes accounts root: '' c))
       (\<lambda>_. ret c)))"
  have last: "wp ?mk Q E K ?v" if ab: "real_or_free w ?a" "real_or_free w ?b"
  proof -
    have a: "node_at ?v ?a = Some Dir" using ab(1) by (auto simp: node_at_with_dir real_or_free_def)
    have p: "prefix ?a ?d" by simp
    show ?thesis
      using ab a p w i same[of ?d] same[of "db_file h i"] dir[of ?v] dir[of "put_node ?d Dir ?v"]
      by (auto simp: Let_def db_file_def split: option.splits node.splits intro!: Q E)
        (auto simp: real_or_free_def)
  qed
  show ?thesis
    unfolding ensure_account_dir_def ensure_data_root_def Let_def wp_andthen root
      append_assoc append_Cons append_Nil
    using last[unfolded wp_andthen] b w i
    by (auto intro!: wp_luckless_make_dir E)
qed

lemma wp_luckless_verify:
  assumes w: "w_luck w = []" "node_at w (h_root h) = Some Dir"
    and i: "validate_account_id h (ar_id t) = Inr ()"
  shows "wp (verify_target_identity h t) (\<lambda>_ _. target_usable h t w) (\<lambda>_ _. \<not> target_usable h t w)
    (\<lambda>_. False) w"
  unfolding verify_target_identity_def wp_andthen
proof (rule wp_luckless_account_dir[OF w _ _ i])
  fix x v
  assume v: "w_luck v = []" "node_at v (db_file h (ar_id t)) = node_at w (db_file h (ar_id t))"
    and dirs: "real_or_free w (h_root h @ [''accounts''])"
      "real_or_free w (h_root h @ [''migration-backups''])"
      "real_or_free w (h_root h @ [''accounts'', ar_id t])"
  have p: "database_path h (ar_id t) = Inr (db_file h (ar_id t))"
    using i by (simp add: database_path_db_file)
  show "wp (of_result (database_path h (ar_id t))) (\<lambda>x. wp (validate_database_path x) (\<lambda>xa.
      wp (gets (\<lambda>w. is_file w x)) (\<lambda>xb. wp (guard (\<not> xb) (Active_account_missing (ar_id t)))
        (\<lambda>xc. wp (read_snapshot h x) (\<lambda>xd. wp (of_result (check_target t xd))
          (\<lambda>_ _. target_usable h t w) (\<lambda>_ _. \<not> target_usable h t w) (\<lambda>_. False))
          (\<lambda>_ _. \<not> target_usable h t w) (\<lambda>_. False)) (\<lambda>_ _. \<not> target_usable h t w) (\<lambda>_. False))
        (\<lambda>_ _. \<not> target_usable h t w) (\<lambda>_. False)) (\<lambda>_ _. \<not> target_usable h t w) (\<lambda>_. False))
      (\<lambda>_ _. \<not> target_usable h t w) (\<lambda>_. False) v"
  proof (cases "node_at w (db_file h (ar_id t))")
    case None
    then show ?thesis using v p
      by (simp add: validate_database_path_def is_file_def target_of_plain target_usable_def)
  next
    case (Some n)
    show ?thesis
    proof (cases "\<exists>db. n = File (Database_file db)")
      case True
      then obtain db where n: "n = File (Database_file db)" by blast
      show ?thesis using v p Some dirs n
        by (cases "snapshot_of h (db_file h (ar_id t)) db")
          (auto simp: validate_database_path_def is_file_def target_of_plain target_usable_def
            read_snapshot_def open_read_only_def simp flip: check_target_owned split: sum.split)
    next
      case False
      then have u: "\<not> target_usable h t w" using Some by (auto simp: target_usable_def)
      show ?thesis using v p Some False
        by (cases n) (auto simp: u validate_database_path_def is_file_def target_of_plain
            read_snapshot_def open_read_only_def split: content.split)
    qed
  qed
qed (auto simp: target_usable_def)
lemma wp_quiet_verify:
  assumes P: "quiet_has h A r J M D w" and t: "rg_account r (ar_id t) \<noteq> None"
    and i: "validate_account_id h (ar_id t) = Inr ()"
    and Q: "\<And>w'. target_usable h t w \<Longrightarrow> quiet_has h A r J M (insert (ar_id t) D) w' \<Longrightarrow> Q () w'"
    and E: "\<And>e w'. \<not> target_usable h t w \<Longrightarrow> quiet_has h A r J M D w' \<Longrightarrow> E e w'"
  shows "wp (verify_target_identity h t) Q E K w"
proof -
  note disk = quiet_hasD(1)[OF P]
  have s: "still h w w" using P by (simp add: still_def quiet_has_def)
  have u: "wp (verify_target_identity h t) (\<lambda>_ _. target_usable h t w)
      (\<lambda>_ _. \<not> target_usable h t w) (\<lambda>_. False) w"
    by (rule wp_luckless_verify[OF _ _ i]) (use quiet_hasD(2)[OF P] in \<open>simp_all add: quiet_def\<close>)
  have d: "wp (verify_target_identity h t) (\<lambda>_ w'. disk_has h A r J M (insert (ar_id t) D) w')
      (\<lambda>_ w'. disk_has h A r J M D w') (\<lambda>_. True) w"
    by (rule wp_has_verify[OF disk t]) auto
  show ?thesis
    by (rule wp_mono[OF wp_conj[OF wp_conj[OF d still_verify[OF s]] u]])
      (use P in \<open>auto simp: quiet_has_def still_def intro!: Q E\<close>)
qed

section \<open>The recovery\<close>

lemma switch_validate_touched [simp]:
  "switch_validate h (j\<lparr>sw_phase := p, sw_updated_at := t\<rparr>) = switch_validate h j"
  "switch_validate h (j\<lparr>sw_phase := p, sw_updated_at := t, sw_error_code := e\<rparr>) = switch_validate h j"
  by (simp_all add: switch_validate_def)

lemma try_fold_validate_accounts:
  "try_fold (validate_account h) as ids = Inr ids' \<Longrightarrow> set ids' = set ids \<union> ar_id ` set as"
  by (drule validate_accounts_ids) simp

lemma validate_active:
  assumes "validate_registry h r = Inr ()" and "rg_account r i \<noteq> None"
  shows "validate_registry h (r\<lparr>rg_active := i\<rparr>) = Inr ()"
proof -
  obtain ids where "try_fold (validate_account h) (rg_accounts r) [] = Inr ids"
    using assms(1) by (auto simp: validate_registry_def result_simps split: if_splits)
  then show ?thesis
    using assms try_fold_validate_accounts[of h "rg_accounts r" "[]" ids]
    by (auto simp: validate_registry_def result_simps rg_account_iff split: if_splits
        simp del: not_None_eq)
qed

lemma quiet_has_facts:
  assumes "quiet_has h A r (Some j) M D w"
  shows "validate_registry h r = Inr ()" "switch_validate h j = Inr ()" "switch_safe r D j"
    "safe r (Some j) D" "rg_account r (sw_from j) \<noteq> None" "rg_account r (sw_to j) \<noteq> None"
  using assms by (auto simp: quiet_has_def disk_has_def safe_def switch_safe_def)

lemma wp_quiet_commit_active:
  assumes P: "quiet_has h A r J M D w" and "rg_account r i \<noteq> None" and "safe (r\<lparr>rg_active := i\<rparr>) J D"
    and "\<And>w'. quiet_has h A (r\<lparr>rg_active := i\<rparr>) J M D w' \<Longrightarrow> Q () w'"
  shows "wp (commit_active h r i phase before after) Q E K w"
  unfolding commit_active_def
  using quiet_hasD(2)[OF P] disk_has_registryD(2)[OF quiet_hasD(1)[OF P]] assms(2)
  by (auto intro!: wp_quiet_registry_save[OF P _ assms(3)] validate_active
      simp: assms(4) quiet_hasD(2))

text \<open>
  How a recovery answers and what it leaves, from the registry and the journal it finds: without
  a journal nothing changes; a switch that was only prepared is given up, its source active; a
  switch that had failed is answered as failed, its source active; a switch past the restart is
  carried out when its target can be used (the target active, the same switch being verified)
  and fails otherwise (the source active, the same switch failed).
\<close>

definition accounts_show :: "host \<Rightarrow> account_registry \<Rightarrow> pending_switch option \<Rightarrow> world \<Rightarrow> bool" where
  "accounts_show h r J w \<longleftrightarrow> file_at w (accounts_file h) = Some (File (Registry_file r)) \<and>
     file_at w (pending_account_switch_file h) = map_option (\<lambda>j. File (Switch_file j)) J"

definition switch_decided :: "host \<Rightarrow> world \<Rightarrow> account_registry \<Rightarrow> pending_switch option \<Rightarrow>
    switch_recovery \<Rightarrow> account_registry \<Rightarrow> pending_switch option \<Rightarrow> bool" where
  "switch_decided h w r J s r' J' = (case J of
     None \<Rightarrow> s = \<lparr>sr_target_committed = False, sr_failure = None\<rparr> \<and> r' = r \<and> J' = None
   | Some j \<Rightarrow>
       let failed = (\<lambda>code. s = \<lparr>sr_target_committed = False, sr_failure =
             Some \<lparr>sf_from = sw_from j, sf_to = sw_to j, sf_error_code = code\<rparr>\<rparr> \<and>
           r' = r\<lparr>rg_active := sw_from j\<rparr>)
       in if sw_phase j = Prepared then
         s = \<lparr>sr_target_committed = False, sr_failure = None\<rparr> \<and> r' = r \<and> J' = None \<and>
         rg_active r = sw_from j
       else if sw_phase j = Switch_failed then
         failed (case sw_error_code j of None \<Rightarrow> ''SWITCH_FAILED'' | Some c \<Rightarrow> c) \<and> J' = Some j
       else (\<exists>t. rg_account r (sw_to j) = Some t \<and>
         (if target_usable h t w then
            s = \<lparr>sr_target_committed = True, sr_failure = None\<rparr> \<and>
            r' = r\<lparr>rg_active := sw_to j\<rparr> \<and>
            (\<exists>now. J' = Some (j\<lparr>sw_phase := Verifying_target, sw_updated_at := now\<rparr>))
          else
            (\<exists>reason. failed (''TARGET_INVALID: '' @ reason)) \<and>
            (\<exists>now. J' = Some (j\<lparr>sw_phase := Switch_failed, sw_updated_at := now,
               sw_error_code := Some ''TARGET_INVALID''\<rparr>)))))"

text \<open>The same of the world the recovery ends in.\<close>

definition recovered :: "host \<Rightarrow> string set \<Rightarrow> world \<Rightarrow> account_registry \<Rightarrow> pending_switch option \<Rightarrow>
    switch_recovery \<Rightarrow> world \<Rightarrow> bool" where
  "recovered h A w r J s w' \<longleftrightarrow> sound h A w' \<and>
     (\<exists>r' J'. accounts_show h r' J' w' \<and> switch_decided h w r J s r' J')"

lemma quiet_has_show: "quiet_has h A r J M D w \<Longrightarrow> accounts_show h r J w"
  by (simp add: quiet_has_def disk_has_def accounts_show_def)

lemma recoveredI:
  "quiet_has h A r' J' M D w' \<Longrightarrow> switch_decided h w r J s r' J' \<Longrightarrow> recovered h A w r J s w'"
  unfolding recovered_def using quiet_has_show quiet_hasD(1) soundI by metis

lemma wp_quiet_fault_intro:
  "quiet_has h A r J M D w \<Longrightarrow> (quiet_has h A r J M D w \<Longrightarrow> Q () w) \<Longrightarrow>
     wp (fault_at h pt a b c) Q E K w"
  by (simp add: quiet_hasD(2))

lemma not_target: "switch_safe r D j \<Longrightarrow> rg_active r \<noteq> sw_to j \<Longrightarrow> rg_active r = sw_from j"
  by (auto simp: switch_safe_def)

lemma wp_quiet_fail_switch:
  assumes P: "quiet_has h A r (Some j) M D w"
    and Q: "\<And>now w'. quiet_has h A (r\<lparr>rg_active := sw_from j\<rparr>) (Some (j\<lparr>sw_phase := Switch_failed,
      sw_updated_at := now, sw_error_code := Some code\<rparr>)) M D w' \<Longrightarrow> Q () w'"
  shows "wp (fail_switch h r j code detail before after) Q E K w"
proof -
  note F = quiet_has_facts[OF P]
  let ?j = "\<lambda>now. j\<lparr>sw_phase := Switch_failed, sw_updated_at := now, sw_error_code := Some code\<rparr>"
  have V: "switch_validate h (?j now) = Inr ()" for now using F(2) by simp
  have S: "safe r (Some (?j now)) D" for now
    by (rule safe_phase[OF F(4), where p = Switch_failed]) simp_all
  have B: "safe (r\<lparr>rg_active := sw_from (?j now)\<rparr>) (Some (?j now)) D" for now
    by (rule safe_back[OF S])
  have K: "rg_account r (sw_from (?j now)) \<noteq> None" for now using F(5) by simp
  have T: "r\<lparr>rg_active := sw_from j\<rparr> = r" if "rg_active r \<noteq> sw_to (?j now)" for now
    using not_target[OF F(3)] that by simp
  show ?thesis unfolding fail_switch_def Let_def
    by (insert P, (rule wp_intros | rule wp_quiet_touch wp_quiet_fault_intro, assumption |
        rule wp_quiet_switch_save[OF _ V S] wp_quiet_commit_active[OF _ K B], assumption |
        rule Q, (simp; fail) | rule Q, subst T, assumption, (simp; fail))+)
qed

lemma wp_quiet_commit_target:
  assumes P: "quiet_has h A r (Some j) M D w" and to: "sw_to j \<in> D"
    and Q: "\<And>now w'. quiet_has h A (r\<lparr>rg_active := sw_to j\<rparr>)
      (Some (j\<lparr>sw_phase := Verifying_target, sw_updated_at := now\<rparr>)) M D w' \<Longrightarrow> Q () w'"
  shows "wp (commit_target h r j) Q E K w"
proof -
  note F = quiet_has_facts[OF P]
  let ?j = "\<lambda>now. j\<lparr>sw_phase := Verifying_target, sw_updated_at := now\<rparr>"
  have V: "switch_validate h (?j now) = Inr ()" for now using F(2) by simp
  have S: "safe r (Some (?j now)) D" for now
    by (rule safe_phase[OF F(4), where p = Verifying_target]) simp_all
  have T: "safe (r\<lparr>rg_active := sw_to (?j now)\<rparr>) (Some (?j now)) D" for now
    by (rule safe_forward[OF S]) (use to in simp_all)
  have K: "rg_account r (sw_to (?j now)) \<noteq> None" for now using F(6) by simp
  have U: "r\<lparr>rg_active := sw_to j\<rparr> = r" if "\<not> rg_active r \<noteq> sw_to (?j now)" for now
    using that by simp
  show ?thesis unfolding commit_target_def
    by (insert P, (rule wp_intros | rule wp_quiet_touch wp_quiet_fault_intro, assumption |
        rule wp_quiet_switch_save[OF _ V S] wp_quiet_commit_active[OF _ K T], assumption |
        rule Q, (simp; fail) | rule Q, subst U, assumption, (simp; fail))+)
qed

lemma quiet_repair:
  assumes P: "quiet_has h A r (Some j) M D w" and f: "sw_phase j = Switch_failed"
  shows "wp (repair_failed h j) (recovered h A v r (Some j)) (\<lambda>_ _. False) (\<lambda>_. False) w"
proof -
  note F = quiet_has_facts[OF P]
  note V = validate_active[OF F(1,5)]
  have n: "\<not> neither r j" using F(3) by (auto simp: neither_def switch_safe_def)
  let ?s = "failed_recovery j (case sw_error_code j of None \<Rightarrow> ''SWITCH_FAILED'' | Some c \<Rightarrow> c)"
  have d: "switch_decided h v r (Some j) ?s (r\<lparr>rg_active := sw_from j\<rparr>) (Some j)"
    using f by (simp add: switch_decided_def failed_recovery_def)
  have d': "switch_decided h v r (Some j) ?s r (Some j)" if "rg_active r \<noteq> sw_to j"
  proof -
    have "r\<lparr>rg_active := sw_from j\<rparr> = r" using not_target[OF F(3) that] by simp
    with d show ?thesis by simp
  qed
  show ?thesis unfolding repair_failed_def
    by (insert P, (simp only: option.case | rule wp_quiet_load_with_recovery[OF P] | rule wp_intros |
        erule notE[OF n] |
        rule wp_quiet_registry_save[OF P V safe_back[OF F(4)]] |
        erule recoveredI, rule d |
        rule recoveredI[OF P d'], assumption)+)
qed

lemma quiet_recovery:
  assumes P: "quiet_has h A r J M D w"
  shows "wp (recover_pending_switch h) (recovered h A w r J) (\<lambda>_ _. False) (\<lambda>_. False) w"
proof (cases J)
  case None
  have "recovered h A w r J recovery_default w"
    by (rule recoveredI[OF P]) (simp add: None switch_decided_def recovery_default_def)
  then show ?thesis unfolding recover_pending_switch_def wp_andthen
    using None by (intro wp_quiet_switch_load[OF P]) simp
next
  case (Some j)
  note Pj = P[unfolded Some] note F = quiet_has_facts[OF Pj]
  obtain t where t: "rg_account r (sw_to j) = Some t" using F(6) by auto
  have n: "\<not> neither r j" using F(3) by (auto simp: neither_def switch_safe_def)
  have i: "validate_account_id h (ar_id t) = Inr ()"
    using F(2) target_id[OF t, of "{}"]
    by (auto simp: switch_validate_def result_simps split: if_splits)
  have dropped: "switch_decided h w r (Some j) recovery_default r None" if "sw_phase j = Prepared"
    using that F(3) by (auto simp: switch_decided_def recovery_default_def switch_safe_def)
  have gone: "switch_decided h w r (Some j) \<lparr>sr_target_committed = True, sr_failure = None\<rparr>
      (r\<lparr>rg_active := sw_to j\<rparr>) (Some (j\<lparr>sw_phase := Verifying_target, sw_updated_at := now\<rparr>))"
    if "sw_phase j \<noteq> Prepared" "sw_phase j \<noteq> Switch_failed" "target_usable h t w" for now
    using that t by (auto simp: switch_decided_def)
  have lost: "switch_decided h w r (Some j) (failed_recovery j (''TARGET_INVALID: '' @ e))
      (r\<lparr>rg_active := sw_from j\<rparr>) (Some (j\<lparr>sw_phase := Switch_failed, sw_updated_at := now,
        sw_error_code := Some ''TARGET_INVALID''\<rparr>))"
    if "sw_phase j \<noteq> Prepared" "sw_phase j \<noteq> Switch_failed" "\<not> target_usable h t w" for now e
    using that t by (auto simp: switch_decided_def failed_recovery_def)
  show ?thesis unfolding recover_pending_switch_def load_registry_def Some
    by (insert Pj, (simp only: option.case t ok_or_def wp_of_result sum.case |
        rule wp_intros quiet_repair[OF Pj] | assumption | erule notE[OF n] |
        erule recoveredI, rule dropped, assumption |
        erule recoveredI, rule gone, assumption, assumption, assumption |
        erule recoveredI, rule lost, assumption, assumption, assumption |
        rule wp_quiet_switch_load wp_quiet_load_with_recovery wp_quiet_remove_journal
          wp_quiet_verify wp_quiet_fail_switch wp_quiet_commit_target, assumption |
        rule account_known[OF t] target_id[OF t] i)+)
qed

section \<open>After any history\<close>

lemma quiet_disk:
  assumes "sound h A w" and "quiet h w" and "node_at w (pending_account_switch_file h) \<noteq> Some Dir"
  obtains r J M D where "quiet_has h A r J M D w"
proof -
  obtain r J M D where P: "disk_has h A r J M D w" using assms(1) by (rule soundE)
  have "file_at w (pending_account_switch_file h) = map_option (\<lambda>j. File (Switch_file j)) J"
    using P by (simp add: disk_has_def)
  then have "node_at w (pending_account_switch_file h) = map_option (\<lambda>j. File (Switch_file j)) J"
    using assms(3) by (auto simp: file_at_def split: option.splits node.splits)
  then show ?thesis using that P assms(2) by (simp add: quiet_has_def)
qed

text \<open>C16. A start that is not interrupted decides the switch it finds: after any history of calls,
  killed ones included, on a data root that began in order, when nothing fails the recovery
  returns, and its answer, the registry and the journal it leaves are those the journal it found
  calls for. No journal: nothing changes. A prepared switch: the journal is removed, the source
  stays active. A failed switch: the source is active, the failure names both accounts. A switch
  past the restart: when the target can be used (its directories and database are real files and
  the database is bound to its account) the target becomes active and the same switch is being
  verified; otherwise the same switch has failed, the source is active, the failure names both
  accounts. The accounts are in order in every case.\<close>

theorem recovery_decides:
  assumes "account_history h v w" and "\<not> h_windows h" and "accounts_in_order h v"
    and "quiet h (w\<lparr>w_luck := []\<rparr>)" and "node_at w (pending_account_switch_file h) \<noteq> Some Dir"
  shows "\<exists>r J s w' r' J'. accounts_show h r J w \<and>
    recover_pending_switch h (w\<lparr>w_luck := []\<rparr>) = (Done s, w') \<and>
    accounts_show h r' J' w' \<and> switch_decided h (w\<lparr>w_luck := []\<rparr>) r J s r' J' \<and>
    accounts_in_order h w'"
proof -
  let ?w = "w\<lparr>w_luck := []\<rparr>"
  have "sound h {i. account_there h v i} (v\<lparr>w_luck := []\<rparr>)"
    using in_order_sound[of h "v\<lparr>w_luck := []\<rparr>"] assms(2,3) by (simp add: calm_def)
  note s = sound_history[OF assms(1) this]
  have d: "node_at ?w (pending_account_switch_file h) \<noteq> Some Dir" using assms(5) by simp
  obtain r J M D where q: "quiet_has h {i. account_there h v i} r J M D ?w"
    by (rule quiet_disk[OF s assms(4) d])
  have "accounts_show h r J w" using quiet_has_show[OF q] by (simp add: accounts_show_def)
  with quiet_recovery[OF q] show ?thesis
    by (auto simp: wp_def recovered_def split: prod.splits ending.splits)
      (blast dest: sound_in_order(1))
qed

end
