(* ===== verification/NativeCommands.thy ===== *)
theory NativeCommands
  imports NativeGate AccRecovery
begin

text \<open>
  \<open>src/apps/native/src-tauri/src/commands.rs\<close>: the commands of an account switch, where the
  runtime gate, the account crate on its disk and the platform's reminders come together. A
  command runs from the first line to its answer, is refused with an error code (the
  texts beside the codes are left out), or dies with the process. Other threads are seen
  through the leases they hold and whether those end before the deadline.
\<close>

section \<open>The shell\<close>

record shell =
  sl_gate :: runtime_gate
  sl_world :: world
  sl_reminders :: "string list"

text \<open>What the platform decides: whether the process can restart itself and the restart can be
  started, whether storage commands end within two seconds, the reminder adapter's failures; and
  the thread and the account of the session.\<close>

record shell_env =
  se_host :: host
  se_thread :: nat
  se_account :: string
  se_restart_supported :: bool
  se_restart_starts :: bool
  se_drains :: bool
  se_listing_fails :: bool
  se_cancel_fails :: "string \<Rightarrow> bool"

datatype 'a answer = Answered 'a | Refused string | Died

type_synonym 'a command = "shell \<Rightarrow> 'a answer \<times> shell"

definition answer :: "'a \<Rightarrow> 'a command" where
  "answer x s = (Answered x, s)"

definition refuse :: "string \<Rightarrow> 'a command" where
  "refuse code s = (Refused code, s)"

definition with_gate :: "(runtime_gate \<Rightarrow> runtime_gate) \<Rightarrow> 'a command \<Rightarrow> 'a command" where
  "with_gate f c s = c (s\<lparr>sl_gate := f (sl_gate s)\<rparr>)"

text \<open>A call of the crate, with what follows a value and what follows an error.\<close>

definition on_disk :: "'a act \<Rightarrow> ('a \<Rightarrow> 'b command) \<Rightarrow> (account_error \<Rightarrow> 'b command) \<Rightarrow> 'b command" where
  "on_disk m ok err s = (case m (sl_world s) of
     (Done x, w) \<Rightarrow> ok x (s\<lparr>sl_world := w\<rparr>)
   | (Failed e, w) \<Rightarrow> err e (s\<lparr>sl_world := w\<rparr>)
   | (Killed, w) \<Rightarrow> (Died, s\<lparr>sl_world := w\<rparr>))"

definition on_answer :: "'a command \<Rightarrow> ('a \<Rightarrow> 'b command) \<Rightarrow> (string \<Rightarrow> 'b command) \<Rightarrow> 'b command" where
  "on_answer c ok err s = (case c s of
     (Answered x, s') \<Rightarrow> ok x s'
   | (Refused e, s') \<Rightarrow> err e s'
   | (Died, s') \<Rightarrow> (Died, s'))"

section \<open>Error codes\<close>

fun gate_error_code :: "gate_error \<Rightarrow> string" where
  "gate_error_code Gate_switch_in_progress = ''ACCOUNT_SWITCH_IN_PROGRESS''"
| "gate_error_code Gate_drain_timeout = ''ACCOUNT_SWITCH_DRAIN_TIMEOUT''"
| "gate_error_code Gate_not_prepared = ''ACCOUNT_SWITCH_NOT_PREPARED''"
| "gate_error_code Gate_not_abortable = ''ACCOUNT_SWITCH_ABORT_FORBIDDEN''"
| "gate_error_code Gate_poisoned = ''INTERNAL''"

definition account_switch_code :: string where
  "account_switch_code = ''ACCOUNT_SWITCH''"

definition reminder_code :: string where
  "reminder_code = ''REMINDER_ERROR''"

definition recovery_required :: string where
  "recovery_required = ''ACCOUNT_RECOVERY_REQUIRED''"

section \<open>Prepare and abort\<close>

text \<open>\<open>begin_switch\<close> by one thread, from its call to its return.\<close>

definition begin_switch :: "shell_env \<Rightarrow> (gate_error \<Rightarrow> 'a command) \<Rightarrow> 'a command \<Rightarrow> 'a command" where
  "begin_switch env failed rest s = (case begin_switch_start (se_thread env) (sl_gate s) of
     Inl e \<Rightarrow> failed e s
   | Inr g \<Rightarrow>
       if gt_in_flight g = 0 then rest (s\<lparr>sl_gate := begin_switch_drained g\<rparr>)
       else if se_drains env
         then rest (s\<lparr>sl_gate := begin_switch_drained (g\<lparr>gt_in_flight := 0\<rparr>)\<rparr>)
       else failed Gate_drain_timeout (s\<lparr>sl_gate := begin_switch_timeout g\<rparr>))"

definition abort_account_switch_inner :: "shell_env \<Rightarrow> unit command" where
  "abort_account_switch_inner env s = (case begin_abort (se_thread env) (sl_gate s) of
     Inl e \<Rightarrow> refuse (gate_error_code e) s
   | Inr g \<Rightarrow>
       on_disk (abort_prepared_switch (se_host env))
         (\<lambda>outcome. case outcome of
            Not_prepared phase \<Rightarrow>
              with_gate fail_closed (refuse ''ACCOUNT_SWITCH_ABORT_FORBIDDEN'')
          | _ \<Rightarrow> with_gate activate_after_abort (answer ()))
         (\<lambda>_. with_gate unlock (refuse account_switch_code))
         (s\<lparr>sl_gate := g\<rparr>))"

definition ensure_restart_supported :: "shell_env \<Rightarrow> 'a command \<Rightarrow> 'a command" where
  "ensure_restart_supported env rest =
     (if se_restart_supported env then rest else refuse ''RESTART_UNSUPPORTED'')"

definition ensure_runtime_active :: "'a command \<Rightarrow> 'a command" where
  "ensure_runtime_active rest s =
     (if accepts_storage (sl_gate s) then rest s else refuse ''ACCOUNT_SWITCH_IN_PROGRESS'' s)"

definition native_prepare_account_switch :: "shell_env \<Rightarrow> string \<Rightarrow> switch_status command" where
  "native_prepare_account_switch env target =
     ensure_restart_supported env (ensure_runtime_active (begin_switch env
       (\<lambda>e. if e = Gate_drain_timeout
            then on_answer (abort_account_switch_inner env) (\<lambda>_. refuse (gate_error_code e))
              (\<lambda>_. refuse recovery_required)
            else refuse (gate_error_code e))
       (on_disk (prepare_account_switch (se_host env) target)
         (\<lambda>status. with_gate prepare_committed (answer status))
         (\<lambda>_. with_gate prepare_failed
            (on_answer (abort_account_switch_inner env) (\<lambda>_. refuse account_switch_code)
              (\<lambda>_. refuse recovery_required))))))"

definition native_abort_account_switch :: "shell_env \<Rightarrow> unit command" where
  "native_abort_account_switch env = abort_account_switch_inner env"

section \<open>Request\<close>

text \<open>The reminders of the account, and those without an account.\<close>

definition of_account :: "string \<Rightarrow> string \<Rightarrow> bool" where
  "of_account i r \<longleftrightarrow> starts_with r (''account:'' @ i @ '':'') \<or> \<not> starts_with r ''account:''"

definition cancel_reminders_for_account :: "shell_env \<Rightarrow> unit command" where
  "cancel_reminders_for_account env = (let i = se_account env in
     on_disk (fault_at (se_host env) Reminder_cancel (Some ''ACCOUNT_SWITCH_REQUEST'') (Some i)
         (Some ''cancel account-scoped reminders''))
       (\<lambda>_ s.
          if se_listing_fails env then refuse reminder_code s
          else let entries = sl_reminders s;
                 s = s\<lparr>sl_reminders := filter (\<lambda>r. \<not> of_account i r \<or> se_cancel_fails env r) entries\<rparr> in
            if list_ex (\<lambda>r. of_account i r \<and> se_cancel_fails env r) entries
            then refuse reminder_code s
            else if list_ex (of_account i) (sl_reminders s) then refuse reminder_code s
            else answer () s)
       (\<lambda>_. refuse reminder_code))"

text \<open>What happens under the \<open>SwitchRequestGuard\<close>; without an end of its own it is dropped.\<close>

definition restart_or_roll_back :: "shell_env \<Rightarrow> switch_status \<Rightarrow> switch_status command" where
  "restart_or_roll_back env status =
     (if se_restart_starts env then with_gate mark_restart_required (answer status)
      else on_disk (rollback_pending_switch (se_host env) ''RESTART_UNAVAILABLE'')
        (\<lambda>_. with_gate mark_failed (refuse recovery_required))
        (\<lambda>_. with_gate mark_failed (refuse recovery_required)))"

definition request_under_guard :: "shell_env \<Rightarrow> string \<Rightarrow> 64 word \<Rightarrow> switch_status command" where
  "request_under_guard env target generation =
     on_disk (validate_account_switch_request (se_host env) target generation)
       (\<lambda>_. on_answer (cancel_reminders_for_account env)
          (\<lambda>_. on_disk (request_account_switch (se_host env) target generation)
             (restart_or_roll_back env)
             (\<lambda>_. with_gate drop_request (refuse account_switch_code)))
          (\<lambda>code. with_gate drop_request (refuse code)))
       (\<lambda>_. with_gate drop_request (refuse account_switch_code))"

definition native_request_account_switch :: "shell_env \<Rightarrow> string \<Rightarrow> 64 word \<Rightarrow> switch_status command" where
  "native_request_account_switch env target generation =
     ensure_restart_supported env (\<lambda>s. case begin_request (se_thread env) (sl_gate s) of
       Inl e \<Rightarrow> refuse (gate_error_code e) s
     | Inr g \<Rightarrow> request_under_guard env target generation (s\<lparr>sl_gate := g\<rparr>))"

section \<open>The other account commands\<close>

text \<open>With a storage lease for as long as the call takes.\<close>

definition with_lease :: "'a command \<Rightarrow> 'a command" where
  "with_lease c = ensure_runtime_active c"

definition identity_error :: "account_error \<Rightarrow> string" where
  "identity_error e = (case e of
     Verification_mismatch s \<Rightarrow> ''ACCOUNT_IDENTITY_MISMATCH'' | _ \<Rightarrow> ''ACCOUNT_IDENTITY_ERROR'')"

definition native_list_accounts :: "shell_env \<Rightarrow> account_list command" where
  "native_list_accounts env =
     on_disk (list_accounts (se_host env)) answer (\<lambda>_. refuse account_switch_code)"

definition native_create_account :: "shell_env \<Rightarrow> string \<Rightarrow> string \<Rightarrow> account_summary command" where
  "native_create_account env email api_url = ensure_runtime_active (with_lease
     (on_disk (create_pending_cloud_account (se_host env) email api_url) answer
       (\<lambda>_. refuse account_switch_code)))"

definition native_account_switch_status :: "shell_env \<Rightarrow> switch_status command" where
  "native_account_switch_status env =
     on_disk (get_switch_status (se_host env)) answer (\<lambda>_. refuse account_switch_code)"

definition native_verify_cloud_identity :: "shell_env \<Rightarrow> string \<Rightarrow> string \<Rightarrow> unit command" where
  "native_verify_cloud_identity env email api_url = ensure_runtime_active
     (on_disk (verify_cloud_identity (se_host env) email api_url) answer
       (\<lambda>e. refuse (identity_error e)))"

definition native_mark_account_verified :: "shell_env \<Rightarrow> account_summary command" where
  "native_mark_account_verified env = ensure_runtime_active (with_lease
     (on_disk (mark_account_verified (se_host env)) answer (\<lambda>e. refuse (identity_error e))))"

text \<open>A session reaches the refresh token of its own account only.\<close>

definition is_refresh_key_for :: "host \<Rightarrow> string \<Rightarrow> string \<Rightarrow> bool" where
  "is_refresh_key_for h account_id key = (case refresh_token_key h account_id of
     Inr expected \<Rightarrow> expected = key | Inl e \<Rightarrow> False)"

definition authorize_secure_key :: "shell_env \<Rightarrow> string \<Rightarrow> unit command" where
  "authorize_secure_key env key =
     (if is_refresh_key_for (se_host env) (se_account env) key then answer ()
      else refuse ''CROSS_ACCOUNT_TOKEN'')"

lemmas command_defs = answer_def refuse_def with_gate_def ensure_restart_supported_def
  ensure_runtime_active_def

section \<open>Reasoning about commands\<close>

definition cwp :: "'a command \<Rightarrow> ('a \<Rightarrow> shell \<Rightarrow> bool) \<Rightarrow> (string \<Rightarrow> shell \<Rightarrow> bool) \<Rightarrow>
    (shell \<Rightarrow> bool) \<Rightarrow> shell \<Rightarrow> bool" where
  "cwp c Q R K s = (case c s of
     (Answered x, s') \<Rightarrow> Q x s'
   | (Refused e, s') \<Rightarrow> R e s'
   | (Died, s') \<Rightarrow> K s')"

lemma cwp_simps [simp]:
  "cwp (answer x) Q R K = Q x" "cwp (refuse e) Q R K = R e"
  "cwp (with_gate f c) Q R K s = cwp c Q R K (s\<lparr>sl_gate := f (sl_gate s)\<rparr>)"
  by (simp_all add: cwp_def answer_def refuse_def with_gate_def fun_eq_iff)

lemma cwp_on_disk [simp]:
  "cwp (on_disk m ok err) Q R K s = wp m (\<lambda>x w. cwp (ok x) Q R K (s\<lparr>sl_world := w\<rparr>))
     (\<lambda>e w. cwp (err e) Q R K (s\<lparr>sl_world := w\<rparr>)) (\<lambda>w. K (s\<lparr>sl_world := w\<rparr>)) (sl_world s)"
  by (simp add: cwp_def wp_def on_disk_def split: ending.split prod.split)

lemma cwp_on_answer [simp]:
  "cwp (on_answer c ok err) Q R K s = cwp c (\<lambda>x. cwp (ok x) Q R K) (\<lambda>e. cwp (err e) Q R K) K s"
  by (simp add: cwp_def on_answer_def split: answer.split prod.split)

lemma cwp_mono:
  assumes "cwp c Q R K s" and "\<And>x s'. Q x s' \<Longrightarrow> Q' x s'" and "\<And>e s'. R e s' \<Longrightarrow> R' e s'"
    and "\<And>s'. K s' \<Longrightarrow> K' s'"
  shows "cwp c Q' R' K' s"
  using assms by (simp add: cwp_def split: answer.splits prod.splits)

section \<open>What a request that was answered has done\<close>

definition requested :: "host \<Rightarrow> string \<Rightarrow> 64 word \<Rightarrow> world \<Rightarrow> bool" where
  "requested h i k w = (case file_at w (pending_account_switch_file h) of
     Some (File (Switch_file j)) \<Rightarrow> sw_phase j = Restart_required \<and> sw_to j = i \<and> sw_generation j = k
   | _ \<Rightarrow> False)"

lemma requestedI:
  "disk_has h A r (Some j) M D w \<Longrightarrow> \<not> (sw_to j \<noteq> i \<or> sw_generation j \<noteq> k) \<Longrightarrow>
     sw_phase j = Restart_required \<Longrightarrow> requested h i k w"
  by (simp add: requested_def disk_has_def)

lemma wp_true: "wp m (\<lambda>_ _. True) (\<lambda>_ _. True) (\<lambda>_. True) w"
  by (simp add: wp_def split: ending.split prod.split)

lemma wp_request:
  assumes P: "disk_has h A r J M D w"
  shows "wp (request_account_switch h i k) (\<lambda>_. requested h i k) (\<lambda>_ _. True) (\<lambda>_. True) w"
  unfolding request_account_switch_def requested_journal_def
  by (insert P, (rule wp_intros TrueI | hypsubst | rule wp_has, assumption | rule safe_request, assumption, assumption |
    rule requestedI, assumption, (simp; fail), (simp; fail))+)

text \<open>C23. An answered switch request has done everything a restart needs: whatever fails on the
  way, if \<open>native_request_account_switch\<close> answers, the gate was prepared and is now waiting for
  the restart, the journal on the disk names the target and the generation asked for and is in
  phase RESTART_REQUIRED, and no reminder of the old account is left with the platform.\<close>

theorem request_answered:
  assumes run: "native_request_account_switch env i k s = (Answered st, s')"
    and "\<not> h_windows (se_host env)" "calm (sl_world s)" "accounts_in_order (se_host env) (sl_world s)"
  shows "gt_phase (sl_gate s) = Runtime_prepared \<and> gt_phase (sl_gate s') = Runtime_restart_required \<and>
    requested (se_host env) i k (sl_world s') \<and> list_all (\<lambda>r. \<not> of_account (se_account env) r) (sl_reminders s')"
proof -
  let ?h = "se_host env" and ?A = "{j. account_there (se_host env) (sl_world s) j}"
  let ?Q = "\<lambda>_ s'. gt_phase (sl_gate s') = Runtime_restart_required \<and> requested ?h i k (sl_world s') \<and>
      list_all (\<lambda>r. \<not> of_account (se_account env) r) (sl_reminders s')"
  have sound: "sound ?h ?A (sl_world s)" using assms(2-4) by (rule in_order_sound)
  obtain g where g: "begin_request (se_thread env) (sl_gate s) = Inr g" and up: "se_restart_supported env"
    using run by (auto simp: native_request_account_switch_def command_defs split: sum.splits if_splits)
  have requested: "wp (request_account_switch ?h i k) (\<lambda>_. requested ?h i k) (\<lambda>_ _. True) (\<lambda>_. True) w"
    if "sound ?h ?A w" for w
    using that by (rule soundE) (rule wp_request)
  have cancel: "cwp (cancel_reminders_for_account env)
      (\<lambda>_ s'. sl_gate s' = sl_gate s \<and> sound ?h ?A (sl_world s') \<and>
         list_all (\<lambda>r. \<not> of_account (se_account env) r) (sl_reminders s'))
      (\<lambda>_ _. True) (\<lambda>_. True) s" if "sound ?h ?A (sl_world s)" for s
    unfolding cancel_reminders_for_account_def Let_def cwp_on_disk
    by (rule wp_keeps[OF keeps_fault that])
      (auto simp: cwp_def answer_def refuse_def list_ex_iff list_all_iff)
  have restart: "cwp (restart_or_roll_back env st) ?Q (\<lambda>_ _. True) (\<lambda>_. True) s"
    if "requested ?h i k (sl_world s)" "list_all (\<lambda>r. \<not> of_account (se_account env) r) (sl_reminders s)" for st s
    using that by (simp add: restart_or_roll_back_def mark_restart_required_def unlock_def wp_true)
  have "cwp (request_under_guard env i k) ?Q (\<lambda>_ _. True) (\<lambda>_. True) (s\<lparr>sl_gate := g\<rparr>)"
    unfolding request_under_guard_def cwp_on_disk
    by (rule wp_keeps[OF keeps_validate_request])
      (use sound in \<open>auto intro!: cwp_mono[OF cancel] wp_mono[OF requested] restart\<close>)
  then show ?thesis using run g up
    by (auto simp: cwp_def begin_request_def gate_lock_def result_simps native_request_account_switch_def
        ensure_restart_supported_def split: if_splits)
qed

section \<open>A failed switch and the next one\<close>

lemma wp_abort_advanced:
  assumes P: "disk_has h A r (Some j) M D w" and "sw_phase j \<noteq> Prepared"
  shows "wp (abort_prepared_switch h) (\<lambda>x _. x = Not_prepared (sw_phase j)) (\<lambda>_ _. True) (\<lambda>_. True) w"
  unfolding abort_prepared_switch_def
  by (insert P, (simp only: option.case | rule wp_intros TrueI refl | erule notE[OF assms(2)] |
    rule wp_has, assumption)+)

text \<open>The abort after a refused preparation does not reopen the gate.\<close>

lemma abort_stays_shut:
  assumes P: "disk_has (se_host env) A r (Some j) M D (sl_world s)" and "sw_phase j \<noteq> Prepared"
    and "\<not> accepts_storage (sl_gate s)"
  shows "cwp (abort_account_switch_inner env) (\<lambda>_ _. False) (\<lambda>_ s. \<not> accepts_storage (sl_gate s))
    (\<lambda>s. \<not> accepts_storage (sl_gate s)) s"
proof (cases "begin_abort (se_thread env) (sl_gate s)")
  case (Inl e)
  then show ?thesis using assms(3) by (simp add: abort_account_switch_inner_def cwp_def refuse_def)
next
  case (Inr g)
  then have shut: "\<not> accepts_storage g"
    using assms(3) by (auto simp: begin_abort_def gate_lock_def accepts_storage_def result_simps split: if_splits)
  have "cwp (on_disk (abort_prepared_switch (se_host env))
      (\<lambda>outcome. case outcome of
         Not_prepared phase \<Rightarrow> with_gate fail_closed (refuse ''ACCOUNT_SWITCH_ABORT_FORBIDDEN'')
       | _ \<Rightarrow> with_gate activate_after_abort (answer ()))
      (\<lambda>_. with_gate unlock (refuse account_switch_code)))
      (\<lambda>_ _. False) (\<lambda>_ s. \<not> accepts_storage (sl_gate s)) (\<lambda>s. \<not> accepts_storage (sl_gate s))
      (s\<lparr>sl_gate := g\<rparr>)"
    unfolding cwp_on_disk
    by (rule wp_mono[OF wp_abort_advanced]) (use P assms(2) shut in \<open>auto simp: fail_closed_def unlock_def accepts_storage_def\<close>)
  then show ?thesis using Inr by (simp add: abort_account_switch_inner_def cwp_def)
qed

theorem failed_switch_locks_gate:
  assumes run: "native_prepare_account_switch env i s = (a, s')"
    and h: "\<not> h_windows (se_host env)" "calm (sl_world s)" "accounts_in_order (se_host env) (sl_world s)"
    and j: "file_at (sl_world s) (pending_account_switch_file (se_host env)) = Some (File (Switch_file j))"
      "sw_phase j = Switch_failed" "sw_to j \<noteq> i"
    and gate: "sl_gate s = gate_new" "se_restart_supported env"
  shows "(\<forall>st. a \<noteq> Answered st) \<and> \<not> accepts_storage (sl_gate s')"
proof -
  let ?h = "se_host env"
  obtain A r J M D where P: "disk_has ?h A r J M D (sl_world s)"
    using in_order_sound[OF h] by (rule soundE)
  have J: "J = Some j" using P j(1) by (cases J) (auto simp: disk_has_def)
  let ?shut = "\<lambda>s. \<not> accepts_storage (sl_gate s)"
  note P' = P[unfolded J] note defs = gate_new_def gate_defs
  let ?g = "gate_new\<lparr>gt_holder := Some (se_thread env), gt_accepting := False, gt_phase := Runtime_draining\<rparr>"
  have start: "begin_switch_start (se_thread env) gate_new = Inr ?g" "gt_in_flight ?g = 0"
    by (simp_all add: defs)
  have shut: "\<not> accepts_storage (begin_switch_drained ?g)" "\<not> accepts_storage (prepare_failed (begin_switch_drained ?g))"
    by (simp_all add: defs)
  have "cwp (on_disk (prepare_account_switch ?h i) (\<lambda>status. with_gate prepare_committed (answer status))
      (\<lambda>_. with_gate prepare_failed (on_answer (abort_account_switch_inner env)
        (\<lambda>_. refuse account_switch_code) (\<lambda>_. refuse recovery_required))))
      (\<lambda>_ _. False) (\<lambda>_. ?shut) ?shut (s\<lparr>sl_gate := begin_switch_drained ?g\<rparr>)"
    unfolding cwp_on_disk
    by (rule wp_mono, simp, rule prepare_refused[OF P' j(3)])
      (use j(2) shut in \<open>auto intro!: cwp_mono[OF abort_stays_shut]\<close>)
  moreover have "gt_accepting gate_new" by (simp add: gate_new_def)
  ultimately have "cwp (native_prepare_account_switch env i) (\<lambda>_ _. False) (\<lambda>_. ?shut) ?shut s"
    using start gate by (simp add: cwp_def native_prepare_account_switch_def ensure_restart_supported_def
        ensure_runtime_active_def begin_switch_def accepts_storage_def)
  then show ?thesis using run by (auto simp: cwp_def split: answer.splits)
qed

end
