(* ===== verification/AccTypes.thy ===== *)
theory AccTypes
  imports AccSafety
begin

text \<open>
  What a registry is that the crate accepts, and that every registry it loads is one, from the
  file itself, from a replacement journal or from a file left behind by a write.
\<close>

definition cloud_wf :: "account_record \<Rightarrow> bool" where
  "cloud_wf a \<longleftrightarrow> ar_id a \<noteq> DEFAULT_ACCOUNT_ID \<and>
     (case ar_email a of None \<Rightarrow> False | Some e \<Rightarrow> valid_email e \<and> acc_normalize_email e = e) \<and>
     (case ar_api_url a of None \<Rightarrow> \<not> ar_pending a | Some u \<Rightarrow> normalize_api_url u = Inr u)"

definition account_wf :: "host \<Rightarrow> account_record \<Rightarrow> bool" where
  "account_wf h a \<longleftrightarrow> validate_account_id h (ar_id a) = Inr () \<and> 0 < ar_schema_version a \<and>
     (case ar_kind a of
        Anonymous \<Rightarrow> ar_id a = DEFAULT_ACCOUNT_ID \<and> ar_email a = None \<and> ar_api_url a = None \<and>
          \<not> ar_pending a
      | Cloud \<Rightarrow> cloud_wf a)"

definition registry_wf :: "host \<Rightarrow> account_registry \<Rightarrow> bool" where
  "registry_wf h r \<longleftrightarrow> rg_version r = 1 \<and> distinct (map ar_id (rg_accounts r)) \<and>
     list_all (account_wf h) (rg_accounts r) \<and> rg_active r \<in> set (map ar_id (rg_accounts r))"

lemma validate_cloud_iff: "validate_cloud a = Inr () \<longleftrightarrow> cloud_wf a"
  by (cases "ar_email a"; cases "ar_api_url a")
    (auto simp: validate_cloud_def cloud_wf_def result_simps ok_or_def split: if_splits)

lemma validate_anonymous_iff: "validate_anonymous a = Inr () \<longleftrightarrow>
    ar_id a = DEFAULT_ACCOUNT_ID \<and> ar_email a = None \<and> ar_api_url a = None \<and> \<not> ar_pending a"
  by (simp add: validate_anonymous_def)

lemma validate_account_iff:
  "validate_account h a ids = Inr ids' \<longleftrightarrow> account_wf h a \<and> ar_id a \<notin> set ids \<and> ids' = ids @ [ar_id a]"
  by (auto simp: validate_account_def account_wf_def result_simps validate_anonymous_iff
      validate_cloud_iff split: if_splits account_kind.splits)

lemma validate_accounts_iff:
  "try_fold (validate_account h) as ids = Inr ids' \<longleftrightarrow> list_all (account_wf h) as \<and>
     distinct (map ar_id as) \<and> set ids \<inter> ar_id ` set as = {} \<and> ids' = ids @ map ar_id as"
  by (induction as arbitrary: ids) (auto simp: result_simps validate_account_iff)

theorem valid_registry_iff: "validate_registry h r = Inr () \<longleftrightarrow> registry_wf h r"
  by (auto simp: validate_registry_def registry_wf_def result_simps validate_accounts_iff)

text \<open>However it is found.\<close>

definition finds_wf :: "host \<Rightarrow> account_registry option act \<Rightarrow> bool" where
  "finds_wf h m \<longleftrightarrow> (\<forall>w. wp m (\<lambda>x _. \<forall>r. x = Some r \<longrightarrow> registry_wf h r) (\<lambda>_ _. True) (\<lambda>_. True) w)"

lemma wp_any: "wp m (\<lambda>_ _. True) (\<lambda>_ _. True) (\<lambda>_. True) w"
  by (simp add: wp_def split: ending.split prod.split)

lemma wp_weaken: "(\<And>x w'. Q x w') \<Longrightarrow> (\<And>e w'. E e w') \<Longrightarrow> (\<And>w'. K w') \<Longrightarrow> wp m Q E K w"
  by (simp add: wp_def split: ending.split prod.split)

lemma wp_read_registry_wf:
  assumes "\<And>r w'. registry_wf h r \<Longrightarrow> Q r w'" and "\<And>e w'. E e w'" and "\<And>w'. K w'"
  shows "wp (read_registry_file h p) Q E K w"
  unfolding read_registry_file_def wp_andthen
  by (rule wp_weaken) (use assms in \<open>auto simp: valid_registry_iff split: sum.split\<close>)

lemma wp_finds_wf:
  assumes "finds_wf h m" and "\<And>x w'. (\<And>r. x = Some r \<Longrightarrow> registry_wf h r) \<Longrightarrow> Q x w'"
    and "\<And>e w'. E e w'" and "\<And>w'. K w'"
  shows "wp m Q E K w"
proof -
  have "wp m (\<lambda>x _. \<forall>r. x = Some r \<longrightarrow> registry_wf h r) (\<lambda>_ _. True) (\<lambda>_. True) w"
    using assms(1) by (simp add: finds_wf_def)
  then show ?thesis by (rule wp_mono) (auto intro: assms(2-4))
qed

lemma first_registry_wf: "finds_wf h (first_registry h cs)"
proof (induction cs)
  case (Cons c cs)
  then show ?case unfolding finds_wf_def
    by (auto intro!: wp_read_registry_wf wp_finds_wf[OF Cons])
qed (simp add: finds_wf_def)

lemma wp_scan_wf:
  assumes "list_all (registry_wf h) candidates"
    and "\<And>cs ps w'. list_all (registry_wf h) cs \<Longrightarrow> Q (cs, ps) w'" and "\<And>e w'. E e w'" and "\<And>w'. K w'"
  shows "wp (scan_artifacts h ps candidates invalid) Q E K w"
  using assms(1)
  by (induction ps arbitrary: candidates invalid w)
    (auto intro!: wp_read_registry_wf intro: assms(2-4))

lemma unique_registries_wf:
  "unique_registries cs = Inr (Some r) \<Longrightarrow> list_all (registry_wf h) cs \<Longrightarrow> registry_wf h r"
  by (auto simp: unique_registries_def split: list.splits if_splits)

lemma unique_registries_Nil [simp]: "unique_registries [] = Inr None"
  by (simp add: unique_registries_def)

lemma recovered_registry_wf: "finds_wf h (recover_registry h)"
proof -
  have journal: "finds_wf h (recover_from_journal h p)" for p
    unfolding finds_wf_def recover_from_journal_def Let_def
    by (auto split: content.split option.split intro!: wp_weaken[where m = "read_file _"]
        wp_weaken[where m = "journal_candidates _ _ _"] wp_weaken[where m = "registry_save _ _"]
        wp_weaken[where m = "remove_file _"] wp_finds_wf[OF first_registry_wf] simp: ok_or_def
        simp del: first_registry.simps journal_candidates.simps)
  have artifacts: "finds_wf h (recover_from_artifacts h)"
    unfolding finds_wf_def recover_from_artifacts_def Let_def
    by (auto split: sum.split option.split intro!: wp_weaken[where m = "read_dir _"]
        wp_weaken[where m = "registry_save _ _"] wp_scan_wf wp_read_registry_wf)
      (erule (1) unique_registries_wf)+
  show ?thesis unfolding recover_registry_def finds_wf_def
    by (auto intro!: wp_finds_wf[OF journal] wp_finds_wf[OF artifacts])
qed

text \<open>C30. Every registry the crate loads is well-formed, whether it is read from accounts.json,
  from a replacement journal or from a file an interrupted write left: version 1, distinct ids,
  the active account among them, the anonymous account under the default id without identity,
  and cloud accounts with a normalised e-mail address and API URL.\<close>

theorem loaded_registry_wf:
  assumes "load_with_recovery h w = (Done (Some r), w')"
  shows "registry_wf h r"
proof -
  have "wp (load_with_recovery h) (\<lambda>x _. \<forall>r. x = Some r \<longrightarrow> registry_wf h r) (\<lambda>_ _. True) (\<lambda>_. True) w"
    unfolding load_with_recovery_def Let_def
    by (auto intro!: wp_read_registry_wf wp_finds_wf[OF recovered_registry_wf])
  from wp_result[OF this assms] show ?thesis by simp
qed

end
