(* ===== verification/AccExamples.thy ===== *)
theory AccExamples
  imports NativeCommands AccTypes
begin

text \<open>
  The theorems on the accounts at work: a data root with the anonymous account and a cloud
  account, a start that is killed in the middle, and a switch that waits for its restart.
\<close>

definition demo_host :: host where
  "demo_host = \<lparr>h_root = [''data''], h_windows = False, h_now = (\<lambda>n. ''t''), h_millis = int,
     h_stamp = (\<lambda>n. ''s''), h_uuid = (\<lambda>n. ''u'' @ show_nat n), h_uuid_parse = Some, h_sha = (\<lambda>s. s),
     h_utf8_lossy = (\<lambda>s. s), h_injector = None, h_open_store = Inr\<rparr>"

definition demo_account :: "string \<Rightarrow> account_kind \<Rightarrow> string option \<Rightarrow> account_record" where
  "demo_account i k e = \<lparr>ar_id = i, ar_kind = k, ar_email = e, ar_api_url = None, ar_pending = False,
     ar_created_at = ''t'', ar_schema_version = 1, ar_last_opened_at = ''t''\<rparr>"

definition demo_registry :: account_registry where
  "demo_registry = \<lparr>rg_version = 1, rg_active = ''default'', rg_accounts =
     [demo_account ''default'' Anonymous None, demo_account ''work'' Cloud (Some ''ann@example.com'')]\<rparr>"

definition demo_switch :: "switch_phase \<Rightarrow> pending_switch" where
  "demo_switch p = \<lparr>sw_version = 1, sw_phase = p, sw_from = ''default'', sw_to = ''work'',
     sw_generation = 7, sw_created_at = ''t'', sw_updated_at = ''t'', sw_error_code = None\<rparr>"

definition no_migration :: migration_state where
  "no_migration = \<lparr>mg_version = 1, mg_phase = Not_started, mg_source_file = [], mg_backup_file = None,
     mg_target_account_id = None, mg_target_file = None, mg_source_fingerprint = None,
     mg_backup_fingerprint = None, mg_target_fingerprint = None, mg_verified = None, mg_reason = None,
     mg_error = None, mg_updated_at = ''t''\<rparr>"

definition demo_disk :: world where
  "demo_disk = \<lparr>w_files =
     [([''data''], Dir), ([''data'', ''accounts''], Dir),
      ([''data'', ''accounts.json''], File (Registry_file demo_registry)),
      ([''data'', ''pending-account-switch.json''], File (Switch_file (demo_switch Restart_required))),
      ([''data'', ''accounts'', ''default'', ''shishi.sqlite3''], File (Database_file empty_database)),
      ([''data'', ''accounts'', ''work'', ''shishi.sqlite3''], File (Database_file empty_database))],
     w_luck = [], w_tick = 0, w_evidence = [], w_migration = no_migration\<rparr>"

lemma demo_in_order: "accounts_in_order demo_host demo_disk"
  by code_simp

lemma demo_there: "account_there demo_host demo_disk ''work''"
  by code_simp

lemma demo_calm: "\<not> h_windows demo_host" "calm demo_disk" "sw_to (demo_switch p) \<noteq> ''other''"
  by (simp_all add: demo_host_def calm_def demo_disk_def demo_switch_def)

text \<open>A start whose process dies at its fourth effect, in the middle of saving the journal.\<close>

definition killed_start :: "unit ending \<times> world" where
  "killed_start = run_call demo_host Call_start (demo_disk\<lparr>w_luck := [Fine, Fine, Fine, Kill]\<rparr>)"

lemma killed_half_way: "fst killed_start = Killed"
  unfolding killed_start_def by code_simp

lemma killed_history: "account_history demo_host demo_disk (snd killed_start)"
  by (rule called[OF began, where luck = "[Fine, Fine, Fine, Kill]" and c = Call_start
      and outcome = "fst killed_start"]) (simp_all add: killed_start_def)

theorem accounts_survive_witness:
  "accounts_in_order demo_host (snd killed_start) \<and> account_there demo_host (snd killed_start) ''work''"
  using accounts_survive[OF killed_history _ demo_in_order, of "''work''"] demo_there
  by (simp add: demo_host_def)

lemma demo_quiet: "quiet demo_host demo_disk"
  by (simp add: quiet_def names_free_def demo_disk_def demo_host_def node_at_def temp_path_def file_names)

theorem recovery_decides_witness:
  "\<exists>r J s w' r' J'. accounts_show demo_host r J demo_disk \<and>
     recover_pending_switch demo_host (demo_disk\<lparr>w_luck := []\<rparr>) = (Done s, w') \<and>
     accounts_show demo_host r' J' w' \<and>
     switch_decided demo_host (demo_disk\<lparr>w_luck := []\<rparr>) r J s r' J' \<and>
     accounts_in_order demo_host w'"
proof (rule recovery_decides[OF began _ demo_in_order])
  show "\<not> h_windows demo_host" by (simp add: demo_host_def)
  show "quiet demo_host (demo_disk\<lparr>w_luck := []\<rparr>)"
    using demo_quiet by (simp add: quiet_def names_free_def)
  show "node_at demo_disk (pending_account_switch_file demo_host) \<noteq> Some Dir"
    by (simp add: demo_disk_def demo_host_def node_at_def file_names)
qed

theorem loaded_registry_wf_witness: "registry_wf demo_host demo_registry"
proof -
  have "fst (load_with_recovery demo_host demo_disk) = Done (Some demo_registry)" by code_simp
  then show ?thesis
    using loaded_registry_wf[of demo_host demo_disk demo_registry "snd (load_with_recovery demo_host demo_disk)"]
    by (metis prod.collapse)
qed

text \<open>A journal to one account and a switch to another.\<close>

theorem prepare_excluded_witness:
  "\<forall>s. fst (prepare_account_switch demo_host ''other'' demo_disk) \<noteq> Done s"
proof -
  have "file_at demo_disk (pending_account_switch_file demo_host) =
      Some (File (Switch_file (demo_switch Restart_required)))"
    by (simp add: demo_disk_def demo_host_def file_at_def node_at_def file_names)
  from prepare_excluded[OF _ _ demo_in_order this, of "''other''"] show ?thesis
    by (metis (no_types, lifting) demo_calm prod.collapse)
qed

section \<open>A request\<close>

text \<open>The same data root with a prepared switch, the gate shut, and two reminders.\<close>

definition demo_prepared :: world where
  "demo_prepared = put_node [''data'', ''pending-account-switch.json''] (File (Switch_file (demo_switch Prepared)))
     demo_disk"

definition demo_env :: shell_env where
  "demo_env = \<lparr>se_host = demo_host, se_thread = 0, se_account = ''default'', se_restart_supported = True,
     se_restart_starts = True, se_drains = True, se_listing_fails = False, se_cancel_fails = (\<lambda>_. False)\<rparr>"

definition demo_shell :: shell where
  "demo_shell = \<lparr>sl_gate = gate_in Runtime_prepared None, sl_world = demo_prepared,
     sl_reminders = [''account:default:r1'', ''account:work:r2'']\<rparr>"

definition demo_request :: "switch_status answer \<times> shell" where
  "demo_request = native_request_account_switch demo_env ''work'' 7 demo_shell"

lemma demo_request_answered: "case fst demo_request of Answered st \<Rightarrow> True | _ \<Rightarrow> False"
  unfolding demo_request_def by code_simp

lemma demo_shell_in_order: "accounts_in_order demo_host (sl_world demo_shell)" "calm (sl_world demo_shell)"
  by code_simp+

theorem request_answered_witness:
  "gt_phase (sl_gate (snd demo_request)) = Runtime_restart_required \<and>
     requested demo_host ''work'' 7 (sl_world (snd demo_request)) \<and>
     list_all (\<lambda>r. \<not> of_account ''default'' r) (sl_reminders (snd demo_request))"
proof -
  obtain st where "native_request_account_switch demo_env ''work'' 7 demo_shell = (Answered st, snd demo_request)"
    using demo_request_answered unfolding demo_request_def
    by (cases "native_request_account_switch demo_env ''work'' 7 demo_shell") (auto split: answer.splits)
  from request_answered[OF this] show ?thesis
    using demo_shell_in_order demo_calm(1) by (simp add: demo_env_def)
qed

section \<open>A first start killed in its first write of the registry\<close>

text \<open>The temporary file it leaves is no registry, and keeps every later start from
  succeeding.\<close>

definition empty_root :: world where
  "empty_root = demo_disk\<lparr>w_files := [([''data''], Dir)]\<rparr>"

definition killed_install :: world where
  "killed_install = snd (open_store_at demo_host (empty_root\<lparr>w_luck :=
     [Fine, Fine, Fine, Fine, Fine, Fine, Fine, Fine, Fine, Fine, Fine, Fine, Fine, Fine, Fine,
      Fine, Fine, Fine, Fine, Kill]\<rparr>))"

lemma killed_install_stuck:
  "fst (open_store_at demo_host killed_install) =
     Failed (Invalid_registry ''registry replacement artifacts exist but none is valid'')"
  unfolding killed_install_def by code_simp

end
