(* ===== verification/Spec2Isabelle.thy ===== *)
theory Spec2Isabelle
  imports ApiExamples ApiAuthExamples ApiBootExamples ApiSharedExamples NativeSyncExamples AccExamples
begin

text \<open>
  A verification library for \<open>baicie/todo\<close>, a local-first to-do application in Rust: a server
  (\<open>apps/api\<close>, Axum on PostgreSQL) that keeps every account's tasks and an ordered log of
  changes, a local store (\<open>crates/native-core\<close>, SQLite) the desktop client works on and
  which logs its mutations in an outbox for the server, and the local accounts
  (\<open>crates/native-accounts\<close>), each with a database of its own, that the desktop shell
  (\<open>apps/native/src-tauri\<close>) opens and switches between.

  How the parts interact. The client writes its tables and, in the same transaction, an
  outbox entry with the next sequence number of the device. \<open>POST /sync\<close> sends the pending
  entries; the server applies each once, in order, inside a savepoint, keeps a receipt per
  operation and a watermark per device, appends what it applied to the account's change log,
  and answers with acknowledgements and the page of changes after the client's cursor.

  Before a store is opened, the start of the application recovers a pending account switch and
  finds the active account; a switch is prepared behind the runtime gate, written to a journal,
  and decided by the next start.

  The library, in the order of its imports:

  \<^item> Prelude: Rust's \<open>Result\<close> as a sum, the question-mark operator, \<open>try_fold\<close>, tables of rows
    by key. RustStr: \<open>str\<close> as bytes with its characters (UTF-8 chunks), \<open>trim\<close>,
    \<open>split_whitespace\<close>, integer parsing and printing. Json: \<open>serde_json::Value\<close> with sorted
    object keys.
  \<^item> ApiTypes: \<open>apps/api/src/domain.rs\<close>, \<open>cursor.rs\<close>, \<open>email.rs\<close>, \<open>error.rs\<close>. ApiMutation and
    ApiPatch: \<open>mutation.rs\<close>, the values of lists, tasks, steps and day plans, their validation,
    and the patches with their three-valued fields (absent, null, value). ApiTags: what
    validation guarantees.
  \<^item> ApiStore: the tables and the constraints of the migrations the statements can violate.
    ApiApply: \<open>apply_list\<close>, \<open>apply_task\<close>, \<open>apply_step\<close>, \<open>apply_day_plan\<close> of \<open>sync.rs\<close>. ApiLife:
    the life of an entity (absent, live, tombstoned) as the abstract machine those four
    refine. ApiSync: the handler \<open>sync\<close>, cut into the pieces of its body.
  \<^item> ApiSyncFacts, ApiIntegrity, ApiSyncProps, ApiSyncErrors, ApiPatchFacts: what the server
    guarantees: idempotent retries, gap-free watermarks and change log, exact pages, tombstones
    that win, account isolation, well-formed tables, no internal errors, patches as last writer
    wins per field.
  \<^item> ApiAuth: \<open>auth/routes.rs\<close>, \<open>tokens.rs\<close>, \<open>rate_limit.rs\<close>, \<open>extractor.rs\<close>, \<open>devices.rs\<close>,
    \<open>account.rs\<close>: sign-in codes and their limits, sessions, rotating refresh tokens and how they
    end. ApiAuthFacts, ApiAuthProps: the requests as events, the invariant of the tables they
    keep, sessions that stay ended, reuse of a token that ends its session, a bound on the wrong
    tries a code can be guessed by.
  \<^item> ApiBootstrap: \<open>bootstrap.rs\<close> and \<open>auth/continuation.rs\<close>, the first synchronisation in pages
    of rows in key order and the signed token that carries the position. ApiBootFacts: reading a
    table page by page (the locale \<open>keyset\<close>). ApiBootProps: tokens come back as issued, and the
    pages list every row once.
  \<^item> ApiShared, ApiSharedOps: \<open>shared.rs\<close>, lists that several accounts share, with roles,
    invitations, revisions and receipts. ApiSharedFacts: what a request does, as a change and a
    commit. ApiSharedPolicy: sound tables, and the access policy the requests are steps of.
    ApiSharedProps: the policy, an owner with a live account for every list (unless the
    only one deletes the account), no lost update, requests on existing lists that happen once.
  \<^item> NativeModel: \<open>crates/native-core/src/models.rs\<close>, \<open>error.rs\<close>. NativeText, NativeDb,
    NativeStore, NativeQuery: \<open>store.rs\<close>, its text and rank helpers, tables and outbox, the
    operations of the user interface, the views and counts, each against what it should show
    (\<open>shown\<close>). NativeFacts: the operations of the user interface as a step relation, with its
    invariant and the outbox as a legal, gap-free log of lives: the log the
    server's life machine accepts.
  \<^item> NativeProject, NativeSync, NativeServer, NativeCloud: the local half of synchronisation
    (\<open>store/sync_support.rs\<close> and the end of \<open>store.rs\<close>): the session fence and the device
    identity, the shadow of the server's copies, acknowledgements and changes, joining an
    account, import and export. NativeSyncFacts, NativeServerFacts, NativeRebase: device
    rotation renumbers the outbox, acknowledgements settle only what they name, stale sessions
    are refused, pending edits of every field are replayed over the server's copy, and two answers
    no store with the same rows can apply. NativeMergeFacts, NativeImportFacts: what joining
    decides and sends, field by field, and that an export restores.
  \<^item> AccModel, AccDisk: \<open>crates/native-accounts/src/error.rs\<close>, \<open>fault.rs\<close>, the crate's data, and
    programs over a disk with their weakest preconditions. AccPaths (\<open>paths.rs\<close>), AccRegistry
    (\<open>registry.rs\<close>), AccSnapshot (\<open>snapshot.rs\<close>), AccSwitch (\<open>switch.rs\<close>), AccMigrate and AccLegacy
    (\<open>migration.rs\<close>), AccStartup (the start in \<open>apps/native/src-tauri/src/db.rs\<close>): the local accounts,
    one database each, and the switch from one to another across a restart.
  \<^item> AccFacts: a rule for each program of the crate over what a disk holds (\<open>disk_has\<close>). AccTypes:
    every registry that is loaded is well-formed. AccSafety: every call keeps the accounts sound
    however it ends. AccHistory: so does every history of calls, failures and kills. AccRecovery:
    what a start that is not interrupted answers and leaves, from the journal it finds and from
    whether the target can be used (\<open>switch_decided\<close>, \<open>target_usable\<close>).
  \<^item> NativeGate: the runtime gate of \<open>db.rs\<close> as interleaved threads; a switch is prepared and requested
    alone. NativeCommands: the account commands of \<open>commands.rs\<close> over gate, disk and reminders; what
    an answered request has done, and how a failed switch locks the gate.
  \<^item> ApiExamples, ApiAuthExamples, ApiBootExamples, ApiSharedExamples, NativeExamples,
    NativeSyncExamples, AccExamples: the hypotheses of the theorems met by concrete accounts, stores
    and disks, evaluated in the kernel.

  Conventions. A database is a record of row lists; an operation is one transaction and returns
  the new database or an error, after which the old database stands. PostgreSQL row locks make
  the sync transaction of an account serial, and the SQLite connection is behind a mutex, so
  operations are atomic steps. UUIDs of the server are 128-bit words; 64-bit sequence numbers
  are integers, with the saturation and the parse limits of \<open>i64\<close> written out where the code
  meets them. Every function is total; the one bound is that of symbolic links, forty, as the
  kernel has it.

  The account crate works on a world: files by path, and a list of luck that says how each
  attempt to touch the disk goes. A program ends with a value, an error, or killed, and a
  statement over all luck covers a kill between any two effects and a file half written. A
  write that was done stays done (a kill of the process, not a loss of power). The safety and
  liveness theorems are for platforms where a rename replaces its target (\<open>\<not> h_windows h\<close>); the
  fallback of Windows is modelled, not proved. Calls of the crate come one at a time, which is
  what the gate gives those of a switch. SQLite databases are tables of values with their rows in
  primary-key order; a backup is a copy; what \<open>TodoStore::open\<close> does to the tables of a
  database is a function of the host.

  What the code takes from other crates is a parameter: \<open>api_env\<close> (Unicode lower-casing, the
  time-zone table, the readers and writers of UUIDs, dates and instants), \<open>auth_env\<close> (hashes,
  the signature of access tokens, the JSON reader, random bytes and UUIDs), \<open>boot_env\<close> (Base64,
  the keyed MAC, the JSON of a token, PostgreSQL's JSON texts), \<open>shared_env\<close> (UUIDs, bodies, the
  collation), \<open>native_env\<close> (lower-casing, date and instant checks, the clock and the UUID
  generator, indexed by how often they were asked), \<open>host\<close> (the platform, clock, UUIDs, SHA-256,
  the fault injector) and \<open>shell_env\<close> (restarts, the reminder adapter). Theorems that need
  documented behaviour of them say so: \<open>codecs_ok\<close> (reading back what was written),
  \<open>lower_empty\<close> (the empty string stays empty), \<open>boot_codec_ok\<close> (reading back a token's parts),
  \<open>quiet\<close> (new UUIDs name no file that is there).

  Not modelled: metrics and logging; SQLite set-up and the full-text index; push and mail; the
  server's configuration and maintenance commands; the desktop shell beyond the account commands
  (notifications, tray, QA hooks). The message texts of store errors and of commands are left
  out, their variants and codes kept.
\<close>

end
